(* ===== verification/Prelude.thy ===== *)
theory Prelude
  imports Main "HOL-Library.Product_Lexorder"
begin

text \<open>
  Shared vocabulary of the development: the types that stand for Python values, errors as values
  of a sum type, the string functions of the standard library that the sources call, the stable
  sort of \<open>sorted(key=..., reverse=...)\<close>, and the reading of a database table as a list of rows
  (\<open>select(...).where(...)\<close> is a filter, \<open>scalar_one_or_none\<close> is the three-way outcome SQLAlchemy
  documents, assigning to an attribute of an ORM object rewrites the row with its primary key).
  The locale \<open>keyed_table\<close> collects the laws of a table with a primary key; every table of the
  model interprets it.
\<close>

named_theorems table_simps \<open>rewrite rules for rows, filters and row updates\<close>
named_theorems py_simps \<open>definitions of the Python helpers, for evaluation\<close>

section \<open>Values and errors\<close>

text \<open>
  A UUID is its canonical text (\<open>str(uuid)\<close>), an instant of time is the number of microseconds
  since the epoch, as an unbounded integer: Python's \<open>datetime\<close> subtraction and comparison are
  exact at that resolution.
\<close>

type_synonym uuid = string
type_synonym datetime = int

definition microseconds_per_second :: int where
  "microseconds_per_second = 1000000"

definition timedelta_seconds :: "int \<Rightarrow> int" where
  "timedelta_seconds n = n * microseconds_per_second"

definition timedelta_minutes :: "int \<Rightarrow> int" where
  "timedelta_minutes n = timedelta_seconds (60 * n)"

definition timedelta_hours :: "int \<Rightarrow> int" where
  "timedelta_hours n = timedelta_minutes (60 * n)"

definition timedelta_days :: "int \<Rightarrow> int" where
  "timedelta_days n = timedelta_hours (24 * n)"

lemmas timedelta_defs [py_simps] =
  timedelta_days_def timedelta_hours_def timedelta_minutes_def timedelta_seconds_def
  microseconds_per_second_def

text \<open>
  Every \<open>raise\<close> that a modelled function lets escape. \<open>HTTPException\<close> carries the status code and
  the detail; the other constructors are the exceptions of the standard library and of SQLAlchemy:
  its result methods, a foreign key that a flush finds violated, FastAPI's refusal of a return
  value that does not fit the response model, \<open>struct.error\<close> and \<open>OverflowError\<close>.
\<close>

datatype py_error =
    HTTPException int string
  | ValueError string
  | IndexError
  | KeyError string
  | TypeError string
  | AttributeError string
  | MultipleResultsFound
  | NoResultFound
  | IntegrityError string
  | ResponseValidationError
  | StructError
  | OverflowError
  | InvalidToken

type_synonym 'a result = "py_error + 'a"

definition bind_result :: "'a result \<Rightarrow> ('a \<Rightarrow> 'b result) \<Rightarrow> 'b result" where
  "bind_result r f = (case r of Inl e \<Rightarrow> Inl e | Inr x \<Rightarrow> f x)"

lemma bind_result_simps [simp]:
  "bind_result (Inl e) f = Inl e"
  "bind_result (Inr x) f = f x"
  by (simp_all add: bind_result_def)

lemma bind_result_eq_Inr:
  "bind_result r f = Inr y \<longleftrightarrow> (\<exists>x. r = Inr x \<and> f x = Inr y)"
  by (cases r) auto

section \<open>Truthiness\<close>

text \<open>
  \<open>a or b\<close> on an optional string or number: \<open>None\<close>, the empty string and zero are false.
\<close>

definition truthy_str :: "string option \<Rightarrow> bool" where
  "truthy_str s \<longleftrightarrow> (case s of None \<Rightarrow> False | Some t \<Rightarrow> t \<noteq> [])"

definition truthy_int :: "int option \<Rightarrow> bool" where
  "truthy_int s \<longleftrightarrow> (case s of None \<Rightarrow> False | Some t \<Rightarrow> t \<noteq> 0)"

definition or_str :: "string option \<Rightarrow> string option \<Rightarrow> string option" where
  "or_str a b = (if truthy_str a then a else b)"

definition or_int :: "int option \<Rightarrow> int option \<Rightarrow> int option" where
  "or_int a b = (if truthy_int a then a else b)"

lemma truthy_simps [simp]:
  "truthy_str None = False" "truthy_str (Some s) = (s \<noteq> [])"
  "truthy_int None = False" "truthy_int (Some n) = (n \<noteq> 0)"
  by (simp_all add: truthy_str_def truthy_int_def)

lemma or_simps [simp]:
  "or_str None b = b" "or_str (Some s) b = (if s = [] then b else Some s)"
  "or_int None c = c" "or_int (Some n) c = (if n = 0 then c else Some n)"
  by (simp_all add: or_str_def or_int_def)

section \<open>Strings\<close>

text \<open>Decimal rendering of a natural number and of an integer, as \<open>str(n)\<close> does.\<close>

definition digit_char :: "nat \<Rightarrow> char" where
  "digit_char d = char_of (48 + d)"

fun str_nat :: "nat \<Rightarrow> string" where
  "str_nat n = (if n < 10 then [digit_char n] else str_nat (n div 10) @ [digit_char (n mod 10)])"

declare str_nat.simps [simp del]

definition str_int :: "int \<Rightarrow> string" where
  "str_int i = (if i < 0 then ''-'' @ str_nat (nat (- i)) else str_nat (nat i))"

definition is_digit :: "char \<Rightarrow> bool" where
  "is_digit c \<longleftrightarrow> 48 \<le> (of_char c :: nat) \<and> (of_char c :: nat) \<le> 57"

definition digit_value :: "char \<Rightarrow> nat" where
  "digit_value c = of_char c - 48"

text \<open>\<open>s.isascii() and s.isdigit()\<close>: at least one character, all of them decimal digits.\<close>

definition is_ascii_digits :: "string \<Rightarrow> bool" where
  "is_ascii_digits s \<longleftrightarrow> s \<noteq> [] \<and> list_all is_digit s"

definition nat_of_digits :: "string \<Rightarrow> nat" where
  "nat_of_digits s = foldl (\<lambda>n c. 10 * n + digit_value c) 0 s"

lemma of_char_digit_char [simp]: "d < 10 \<Longrightarrow> (of_char (digit_char d) :: nat) = 48 + d"
  by (simp add: digit_char_def)

lemma is_digit_digit_char [simp]: "d < 10 \<Longrightarrow> is_digit (digit_char d)"
  by (simp add: is_digit_def)

lemma digit_value_digit_char [simp]: "d < 10 \<Longrightarrow> digit_value (digit_char d) = d"
  by (simp add: digit_value_def)

lemma str_nat_not_Nil [simp]: "str_nat n \<noteq> []"
  by (subst str_nat.simps) simp

lemma str_nat_digits: "list_all is_digit (str_nat n)"
proof (induction n rule: str_nat.induct)
  case (1 n)
  then show ?case
    by (subst str_nat.simps) (auto simp: list_all_iff)
qed

lemma is_ascii_digits_str_nat [simp]: "is_ascii_digits (str_nat n)"
  by (simp add: is_ascii_digits_def str_nat_digits)

lemma nat_of_digits_snoc: "nat_of_digits (s @ [c]) = 10 * nat_of_digits s + digit_value c"
  by (simp add: nat_of_digits_def)

lemma nat_of_digits_str_nat [simp]: "nat_of_digits (str_nat n) = n"
proof (induction n rule: str_nat.induct)
  case (1 n)
  show ?case
  proof (cases "n < 10")
    case True
    then show ?thesis by (subst str_nat.simps) (simp add: nat_of_digits_def)
  next
    case False
    with 1 have "nat_of_digits (str_nat (n div 10)) = n div 10" by simp
    with False show ?thesis
      by (subst str_nat.simps) (simp add: nat_of_digits_snoc)
  qed
qed

lemma str_nat_inject [simp]: "str_nat m = str_nat n \<longleftrightarrow> m = n"
  by (metis nat_of_digits_str_nat)

lemma str_nat_single: "n < 10 \<Longrightarrow> str_nat n = [digit_char n]"
  by (subst str_nat.simps) simp

lemma str_nat_step: "\<not> n < 10 \<Longrightarrow> str_nat n = str_nat (n div 10) @ [digit_char (n mod 10)]"
  by (subst str_nat.simps) simp

lemma length_str_nat_le3: "n < 1000 \<Longrightarrow> length (str_nat n) \<le> 3"
proof -
  assume n: "n < 1000"
  then have "n div 10 div 10 < 10" by simp
  then have "length (str_nat (n div 10 div 10)) = 1" by (simp add: str_nat_single)
  then have "length (str_nat (n div 10)) \<le> 2"
    by (cases "n div 10 < 10") (simp_all add: str_nat_single str_nat_step)
  then show ?thesis
    by (cases "n < 10") (simp_all add: str_nat_single str_nat_step)
qed

lemma hd_str_nat_zero: "hd (str_nat n) = digit_char 0 \<longleftrightarrow> n = 0"
proof (induction n rule: str_nat.induct)
  case (1 n)
  show ?case
  proof (cases "n < 10")
    case True
    then show ?thesis
      by (simp add: str_nat_single) (metis digit_value_digit_char zero_less_numeral)
  next
    case False
    with 1 show ?thesis by (simp add: str_nat_step)
  qed
qed

text \<open>\<open>s.split(c)\<close> for a one-character separator and \<open>sep.join(xs)\<close>.\<close>

fun split_on :: "char \<Rightarrow> string \<Rightarrow> string list" where
  "split_on c [] = [[]]"
| "split_on c (x # xs) =
     (if x = c then [] # split_on c xs
      else (case split_on c xs of [] \<Rightarrow> [[x]] | y # ys \<Rightarrow> (x # y) # ys))"

fun join :: "string \<Rightarrow> string list \<Rightarrow> string" where
  "join sep [] = []"
| "join sep [x] = x"
| "join sep (x # y # xs) = x @ sep @ join sep (y # xs)"

lemma split_on_not_Nil [simp]: "split_on c s \<noteq> []"
  by (induction s) (auto split: list.splits)

lemma split_on_no_sep: "c \<notin> set s \<Longrightarrow> split_on c s = [s]"
  by (induction s) auto

lemma split_on_append_sep: "c \<notin> set s \<Longrightarrow> split_on c (s @ c # t) = s # split_on c t"
  by (induction s) auto

lemma split_on_join:
  "xs \<noteq> [] \<Longrightarrow> list_all (\<lambda>x. c \<notin> set x) xs \<Longrightarrow> split_on c (join [c] xs) = xs"
proof (induction "[c]" xs rule: join.induct)
  case (3 x y xs)
  then show ?case by (simp add: split_on_append_sep)
qed (auto simp: split_on_no_sep)

lemma digit_not_sep: "\<not> is_digit c \<Longrightarrow> list_all is_digit s \<Longrightarrow> c \<notin> set s"
  by (auto simp: list_all_iff)

lemma sep_not_in_str_nat [simp]: "\<not> is_digit c \<Longrightarrow> c \<notin> set (str_nat n)"
  using digit_not_sep str_nat_digits by blast

definition startswith :: "string \<Rightarrow> string \<Rightarrow> bool" where
  "startswith s p \<longleftrightarrow> take (length p) s = p"

lemma startswith_append [simp]: "startswith (p @ s) p"
  by (simp add: startswith_def)

lemma startswithE:
  assumes "startswith s p"
  obtains t where "s = p @ t" "t = drop (length p) s"
  using assms by (metis append_take_drop_id startswith_def)

text \<open>\<open>s.replace(p, '')\<close> for a non-empty pattern, and \<open>s.strip(chars)\<close>.\<close>

fun remove_all :: "string \<Rightarrow> string \<Rightarrow> string" where
  "remove_all p [] = []"
| "remove_all p (c # s) =
     (if p \<noteq> [] \<and> startswith (c # s) p then remove_all p (drop (length p - 1) s)
      else c # remove_all p s)"

definition strip_chars :: "char set \<Rightarrow> string \<Rightarrow> string" where
  "strip_chars cs s = rev (dropWhile (\<lambda>c. c \<in> cs) (rev (dropWhile (\<lambda>c. c \<in> cs) s)))"

text \<open>
  \<open>str(uuid.UUID(s))\<close>: prefixes, braces and hyphens are dropped and 32 hexadecimal digits must
  remain; the result is the canonical lower-case text. (\<open>int(h, 16)\<close> also reads a few spellings
  with signs or underscores, which no caller produces and the model rejects.)
\<close>

definition is_hex_digit :: "char \<Rightarrow> bool" where
  "is_hex_digit c \<longleftrightarrow> is_digit c \<or> c \<in> set ''abcdefABCDEF''"

definition lower_hex :: "char \<Rightarrow> char" where
  "lower_hex c = (if c \<in> set ''ABCDEF'' then char_of ((of_char c :: nat) + 32) else c)"

definition parse_uuid :: "string \<Rightarrow> uuid result" where
  "parse_uuid s =
     (let h = filter (\<lambda>c. c \<noteq> CHR ''-'')
            (strip_chars (set ''{}'') (remove_all ''uuid:'' (remove_all ''urn:'' s)));
          l = map lower_hex h
      in if length h = 32 \<and> list_all is_hex_digit h
         then Inr (take 8 l @ ''-'' @ take 4 (drop 8 l) @ ''-'' @ take 4 (drop 12 l) @ ''-'' @
                   take 4 (drop 16 l) @ ''-'' @ drop 20 l)
         else Inl (ValueError s))"

section \<open>Sorting\<close>

text \<open>
  \<open>sorted(xs, key=k)\<close> is stable; with \<open>reverse=True\<close> it sorts in descending order and still keeps
  the original order of elements with equal keys.
\<close>

definition sorted_by :: "('a \<Rightarrow> 'k::linorder) \<Rightarrow> 'a list \<Rightarrow> 'a list" where
  "sorted_by k xs = sort_key k xs"

definition sorted_by_desc :: "('a \<Rightarrow> 'k::linorder) \<Rightarrow> 'a list \<Rightarrow> 'a list" where
  "sorted_by_desc k xs = rev (sort_key k (rev xs))"

lemma set_sorted_by [simp]: "set (sorted_by k xs) = set xs"
  by (simp add: sorted_by_def)

lemma set_sorted_by_desc [simp]: "set (sorted_by_desc k xs) = set xs"
  by (simp add: sorted_by_desc_def)

lemma length_sorted_by [simp]: "length (sorted_by k xs) = length xs"
  by (simp add: sorted_by_def)

lemma length_sorted_by_desc [simp]: "length (sorted_by_desc k xs) = length xs"
  by (simp add: sorted_by_desc_def)

lemma sorted_by_Nil_iff [simp]: "sorted_by k xs = [] \<longleftrightarrow> xs = []"
  by (metis length_0_conv length_sorted_by)

lemma sorted_by_desc_Nil_iff [simp]: "sorted_by_desc k xs = [] \<longleftrightarrow> xs = []"
  by (metis length_0_conv length_sorted_by_desc)

lemma distinct_sorted_by [simp]: "distinct (sorted_by k xs) \<longleftrightarrow> distinct xs"
  by (simp add: sorted_by_def)

lemma distinct_sorted_by_desc [simp]: "distinct (sorted_by_desc k xs) \<longleftrightarrow> distinct xs"
  by (simp add: sorted_by_desc_def)

lemma sorted_by_ordered: "sorted (map k (sorted_by k xs))"
  by (simp add: sorted_by_def)

lemma sorted_by_desc_ordered: "sorted_wrt (\<lambda>x y. k y \<le> k x) (sorted_by_desc k xs)"
proof -
  have "sorted_wrt (\<lambda>x y. k x \<le> k y) (sort_key k (rev xs))"
    using sorted_sort_key [of k "rev xs"] by (simp add: sorted_map)
  then show ?thesis by (simp add: sorted_by_desc_def sorted_wrt_rev)
qed

lemma hd_sorted_by_le:
  assumes "x \<in> set xs"
  shows "k (hd (sorted_by k xs)) \<le> k x"
proof -
  obtain y ys where ys: "sorted_by k xs = y # ys"
    using assms by (metis list.exhaust list.set(1) empty_iff sorted_by_Nil_iff)
  have "sorted (map k (y # ys))" using sorted_by_ordered [of k xs] ys by simp
  moreover have "x \<in> set (y # ys)" using assms ys set_sorted_by by metis
  ultimately show ?thesis using ys by auto
qed

lemma hd_sorted_by_desc_ge:
  assumes "x \<in> set xs"
  shows "k x \<le> k (hd (sorted_by_desc k xs))"
proof -
  obtain y ys where ys: "sorted_by_desc k xs = y # ys"
    using assms by (metis list.exhaust list.set(1) empty_iff sorted_by_desc_Nil_iff)
  have "sorted_wrt (\<lambda>x y. k y \<le> k x) (y # ys)" using sorted_by_desc_ordered [of k xs] ys by simp
  moreover have "x \<in> set (y # ys)" using assms ys set_sorted_by_desc by metis
  ultimately show ?thesis using ys by auto
qed

lemma hd_sorted_by_mem: "xs \<noteq> [] \<Longrightarrow> hd (sorted_by k xs) \<in> set xs"
  by (metis hd_in_set set_sorted_by sorted_by_Nil_iff)

lemma hd_sorted_by_desc_mem: "xs \<noteq> [] \<Longrightarrow> hd (sorted_by_desc k xs) \<in> set xs"
  by (metis hd_in_set set_sorted_by_desc sorted_by_desc_Nil_iff)

lemma find_SomeD: "find P xs = Some x \<Longrightarrow> x \<in> set xs \<and> P x"
  by (auto simp: find_Some_iff)

section \<open>Tables\<close>

text \<open>
  The result methods of a query. \<open>scalar_one_or_none\<close> raises when more than one row matches,
  \<open>scalar_one\<close> also when none does.
\<close>

definition scalar_one_or_none :: "'r list \<Rightarrow> 'r option result" where
  "scalar_one_or_none rows =
     (case rows of [] \<Rightarrow> Inr None | [r] \<Rightarrow> Inr (Some r) | _ \<Rightarrow> Inl MultipleResultsFound)"

definition scalar_one :: "'r list \<Rightarrow> 'r result" where
  "scalar_one rows =
     (case rows of [] \<Rightarrow> Inl NoResultFound | [r] \<Rightarrow> Inr r | _ \<Rightarrow> Inl MultipleResultsFound)"

text \<open>Assignments to the attributes of the row with primary key \<open>k\<close>, written back by a flush.\<close>

definition update_row :: "('r \<Rightarrow> 'k) \<Rightarrow> 'k \<Rightarrow> ('r \<Rightarrow> 'r) \<Rightarrow> 'r list \<Rightarrow> 'r list" where
  "update_row key k f rows = map (\<lambda>r. if key r = k then f r else r) rows"

definition update_where :: "('r \<Rightarrow> bool) \<Rightarrow> ('r \<Rightarrow> 'r) \<Rightarrow> 'r list \<Rightarrow> 'r list" where
  "update_where P f rows = map (\<lambda>r. if P r then f r else r) rows"

definition delete_row :: "('r \<Rightarrow> 'k) \<Rightarrow> 'k \<Rightarrow> 'r list \<Rightarrow> 'r list" where
  "delete_row key k rows = filter (\<lambda>r. key r \<noteq> k) rows"

lemma scalar_one_or_none_simps [simp, table_simps]:
  "scalar_one_or_none [] = Inr None"
  "scalar_one_or_none [r] = Inr (Some r)"
  "scalar_one_or_none (r # r' # rs) = Inl MultipleResultsFound"
  by (simp_all add: scalar_one_or_none_def)

lemma scalar_one_simps [simp, table_simps]:
  "scalar_one [] = Inl NoResultFound"
  "scalar_one [r] = Inr r"
  "scalar_one (r # r' # rs) = Inl MultipleResultsFound"
  by (simp_all add: scalar_one_def)

lemma scalar_one_or_none_SomeD: "scalar_one_or_none rows = Inr (Some r) \<Longrightarrow> rows = [r]"
  by (auto simp: scalar_one_or_none_def split: list.splits)

lemma scalar_one_or_none_NoneD: "scalar_one_or_none rows = Inr None \<Longrightarrow> rows = []"
  by (auto simp: scalar_one_or_none_def split: list.splits)

lemma scalar_one_or_none_error: "scalar_one_or_none rows = Inl e \<Longrightarrow> e = MultipleResultsFound"
  by (auto simp: scalar_one_or_none_def split: list.splits)

lemma scalar_one_or_none_mem:
  "scalar_one_or_none (filter P rows) = Inr (Some r) \<Longrightarrow> r \<in> set rows \<and> P r"
  by (drule scalar_one_or_none_SomeD) (metis filter_eq_Cons_iff in_set_conv_decomp)

lemma length_update_row [simp]: "length (update_row key k f rows) = length rows"
  by (simp add: update_row_def)

lemma set_update_row:
  "set (update_row key k f rows) = (\<lambda>r. if key r = k then f r else r) ` set rows"
  by (simp add: update_row_def)

lemma set_update_where: "set (update_where P f rows) = (\<lambda>r. if P r then f r else r) ` set rows"
  by (simp add: update_where_def)

lemma length_update_where [simp]: "length (update_where P f rows) = length rows"
  by (simp add: update_where_def)

lemma filter_update_row_other:
  assumes "\<And>r. r \<in> set rows \<Longrightarrow> key r = k \<Longrightarrow> \<not> P r \<and> \<not> P (f r)"
  shows "filter P (update_row key k f rows) = filter P rows"
  using assms unfolding update_row_def by (induction rows) auto

lemma filter_update_where_other:
  assumes "\<And>r. r \<in> set rows \<Longrightarrow> Q r \<Longrightarrow> \<not> P r \<and> \<not> P (f r)"
  shows "filter P (update_where Q f rows) = filter P rows"
  using assms unfolding update_where_def by (induction rows) auto

lemma filter_keyed_single:
  assumes "distinct (map key rows)" and "r \<in> set rows" and "P r"
    and "\<And>x. x \<in> set rows \<Longrightarrow> P x \<Longrightarrow> key x = key r"
  shows "filter P rows = [r]"
proof -
  have "filter P rows = filter (\<lambda>x. key x = key r) rows"
    using assms by (intro filter_cong refl) (metis distinct_map inj_onD)
  moreover have "filter (\<lambda>x. key x = key r) rows = [r]"
    using assms(1,2) by (induction rows) (auto simp: filter_empty_conv image_iff)
  ultimately show ?thesis by simp
qed

lemma update_row_append: "update_row key k f (xs @ [x]) = update_row key k f xs @ [if key x = k then f x else x]"
  by (simp add: update_row_def)

lemma mem_update_rowE:
  assumes "x \<in> set (update_row key k f rows)" and "key x = k" and "\<And>r. key (f r) = key r"
  obtains r where "r \<in> set rows" "key r = k" "x = f r"
  using assms by (auto simp: update_row_def split: if_splits)

lemma scalar_one_mem: "scalar_one (filter P rows) = Inr r \<Longrightarrow> r \<in> set rows \<and> P r"
  by (cases "filter P rows"; cases "tl (filter P rows)") (auto dest!: filter_eq_ConsD)

lemma filter_single_mem:
  assumes "filter P xs = [k]" and "x \<in> set xs" and "P x"
  shows "x = k"
proof -
  have "set (filter P xs) = {k}" by (simp only: assms(1) list.set)
  then show ?thesis using assms(2,3) by auto
qed

text \<open>
  A table with a primary key, as the ORM classes declare one: \<open>key\<close> reads it, and \<open>ok\<close> is the
  database's guarantee that no two rows share it.
\<close>

locale keyed_table =
  fixes key :: "'r \<Rightarrow> 'k"
    and ok :: "'r list \<Rightarrow> bool"
  assumes ok_distinct: "ok rows \<longleftrightarrow> distinct (map key rows)"
begin

lemma ok_Nil: "ok []"
  by (simp add: ok_distinct)

lemma filter_key_le_one: "ok rows \<Longrightarrow> length (filter (\<lambda>r. key r = k) rows) \<le> 1"
proof (induction rows)
  case (Cons r rows)
  then have rest: "ok rows" and fresh: "key r \<notin> key ` set rows"
    by (auto simp: ok_distinct)
  show ?case
  proof (cases "key r = k")
    case True
    with fresh have "filter (\<lambda>r. key r = k) rows = []"
      unfolding filter_empty_conv by (metis image_eqI)
    with True show ?thesis by simp
  next
    case False
    with rest Cons.IH show ?thesis by simp
  qed
qed simp

lemma lookup_total:
  assumes "ok rows"
  obtains ro where "scalar_one_or_none (filter (\<lambda>r. key r = k) rows) = Inr ro"
  using filter_key_le_one [OF assms, of k]
  by (cases "filter (\<lambda>r. key r = k) rows"; cases "tl (filter (\<lambda>r. key r = k) rows)") auto

lemma lookup_mem:
  assumes "ok rows" and "r \<in> set rows"
  shows "filter (\<lambda>x. key x = key r) rows = [r]"
proof -
  have "r \<in> set (filter (\<lambda>x. key x = key r) rows)" using assms(2) by simp
  moreover have "length (filter (\<lambda>x. key x = key r) rows) \<le> 1"
    by (rule filter_key_le_one [OF assms(1)])
  ultimately show ?thesis
    by (cases "filter (\<lambda>x. key x = key r) rows") auto
qed

lemma lookup_mem_one_or_none:
  "ok rows \<Longrightarrow> r \<in> set rows \<Longrightarrow>
     scalar_one_or_none (filter (\<lambda>x. key x = key r) rows) = Inr (Some r)"
  by (simp add: lookup_mem)

lemma ok_insert: "ok rows \<Longrightarrow> key r \<notin> key ` set rows \<Longrightarrow> ok (rows @ [r])"
  by (simp add: ok_distinct)

lemma ok_delete: "ok rows \<Longrightarrow> ok (delete_row key k rows)"
  by (simp add: ok_distinct delete_row_def distinct_map_filter)

lemma keys_update_row:
  "(\<And>r. key (f r) = key r) \<Longrightarrow> map key (update_row key k f rows) = map key rows"
  by (simp add: update_row_def comp_def if_distrib cong: if_cong)

lemma keys_update_where:
  "(\<And>r. key (f r) = key r) \<Longrightarrow> map key (update_where P f rows) = map key rows"
  by (auto simp: update_where_def comp_def)

lemma ok_update_row: "(\<And>r. key (f r) = key r) \<Longrightarrow> ok rows \<Longrightarrow> ok (update_row key k f rows)"
  by (simp add: ok_distinct keys_update_row)

lemma ok_update_where: "(\<And>r. key (f r) = key r) \<Longrightarrow> ok rows \<Longrightarrow> ok (update_where P f rows)"
  by (simp add: ok_distinct keys_update_where)

text \<open>A row written through its key is the row the next lookup returns.\<close>

lemma lookup_update_row:
  assumes "\<And>r. key (f r) = key r"
  shows "filter (\<lambda>r. key r = k) (update_row key k f rows) = map f (filter (\<lambda>r. key r = k) rows)"
  using assms by (induction rows) (auto simp: update_row_def)

lemma lookup_update_other:
  assumes "\<And>r. key (f r) = key r" and "k' \<noteq> k"
  shows "filter (\<lambda>r. key r = k') (update_row key k f rows) = filter (\<lambda>r. key r = k') rows"
  using assms by (induction rows) (auto simp: update_row_def)

text \<open>Counting the rows with a property, before and after one row is written.\<close>

lemma count_update_row:
  assumes "ok rows" and "r \<in> set rows"
  shows "int (length (filter P (update_row key (key r) f rows))) =
     int (length (filter P rows)) + (if P (f r) then 1 else 0) - (if P r then 1 else 0)"
  using assms
proof (induction rows)
  case (Cons x rows)
  have rest: "ok rows" and fresh: "key x \<notin> key ` set rows"
    using Cons.prems by (auto simp: ok_distinct)
  show ?case
  proof (cases "x = r")
    case True
    then have "update_row key (key r) f rows = rows"
      using fresh unfolding update_row_def by (intro map_idI) (auto simp: image_iff)
    then show ?thesis using True by (simp add: update_row_def)
  next
    case False
    then have "r \<in> set rows" and "key x \<noteq> key r" using Cons.prems fresh by auto
    then show ?thesis
      using Cons.IH [OF rest] by (cases "P (f r)"; cases "P r") (simp_all add: update_row_def)
  qed
qed simp

lemma key_unique:
  assumes "ok rows" and "r \<in> set rows" and "x \<in> set rows" and "key x = key r"
  shows "x = r"
  using assms unfolding ok_distinct by (metis distinct_map inj_onD)

lemma lookup_insert:
  "key r \<notin> key ` set rows \<Longrightarrow> filter (\<lambda>x. key x = key r) (rows @ [r]) = [r]"
  by (auto simp: filter_empty_conv image_iff)

end

end
