(* ===== verification/Json.thy ===== *)
theory Json
  imports Prelude "HOL-Library.AList" "HOL-Library.Char_ord" "HOL-Library.List_Lexorder"
begin

text \<open>
  The standard library's \<open>json\<close> module, as the sources use it: \<open>json.dumps\<close> with the default
  separators and \<open>ensure_ascii\<close>, the same with \<open>sort_keys=True\<close>, and \<open>json.loads\<close>. Text is a list of
  code points below 256. A number with a fraction or an exponent is kept as its literal; a
  \<open>\u\<close> escape beyond code point 255 is outside the model and fails to parse. The last section
  proves that \<open>loads\<close> reads back what \<open>dumps\<close> wrote.
\<close>

section \<open>Values and dictionaries\<close>

datatype json =
    JNull
  | JBool bool
  | JInt int
  | JFloat string
  | JStr string
  | JList "json list"
  | JObj "(string \<times> json) list"

type_synonym dict = "(string \<times> json) list"

definition dict_get :: "dict \<Rightarrow> string \<Rightarrow> json option" where
  "dict_get d k = map_of d k"

definition dict_get_default :: "dict \<Rightarrow> string \<Rightarrow> json \<Rightarrow> json" where
  "dict_get_default d k v = (case map_of d k of None \<Rightarrow> v | Some x \<Rightarrow> x)"

definition dict_set :: "dict \<Rightarrow> string \<Rightarrow> json \<Rightarrow> dict" where
  "dict_set d k v = AList.update k v d"

lemma dict_get_set [simp]:
  "dict_get (dict_set d k v) k' = (if k = k' then Some v else dict_get d k')"
  by (simp add: dict_get_def dict_set_def update_conv')

text \<open>\<open>dict(pairs)\<close>: a later pair with the same key replaces the value and keeps the position.\<close>

definition dict_of_pairs :: "(string \<times> json) list \<Rightarrow> dict" where
  "dict_of_pairs kvs = foldl (\<lambda>d (k, v). dict_set d k v) [] kvs"

lemma dict_set_fresh: "k \<notin> fst ` set d \<Longrightarrow> dict_set d k v = d @ [(k, v)]"
  by (induction d) (auto simp: dict_set_def)

lemma foldl_dict_set_distinct:
  "distinct (map fst (d @ kvs)) \<Longrightarrow> foldl (\<lambda>d (k, v). dict_set d k v) d kvs = d @ kvs"
proof (induction kvs arbitrary: d)
  case (Cons p kvs)
  then have "dict_set d (fst p) (snd p) = d @ [p]" by (simp add: dict_set_fresh)
  then show ?case using Cons.IH [of "d @ [p]"] Cons.prems by (simp add: case_prod_beta)
qed simp

lemma dict_of_pairs_distinct [simp]: "distinct (map fst kvs) \<Longrightarrow> dict_of_pairs kvs = kvs"
  by (simp add: dict_of_pairs_def foldl_dict_set_distinct)

definition json_opt_str :: "string option \<Rightarrow> json" where
  "json_opt_str s = (case s of None \<Rightarrow> JNull | Some t \<Rightarrow> JStr t)"

definition json_opt_int :: "int option \<Rightarrow> json" where
  "json_opt_int s = (case s of None \<Rightarrow> JNull | Some t \<Rightarrow> JInt t)"

text \<open>Python's truth value; a float is compared with zero by the digits of its literal.\<close>

definition truthy_json :: "json \<Rightarrow> bool" where
  "truthy_json v =
     (case v of JNull \<Rightarrow> False | JBool b \<Rightarrow> b | JInt n \<Rightarrow> n \<noteq> 0
      | JFloat x \<Rightarrow> list_ex (\<lambda>c. is_digit c \<and> c \<noteq> CHR ''0'') (takeWhile (\<lambda>c. c \<notin> set ''eE'') x)
      | JStr t \<Rightarrow> t \<noteq> [] | JList xs \<Rightarrow> xs \<noteq> [] | JObj kvs \<Rightarrow> kvs \<noteq> [])"

section \<open>Printing\<close>

definition hex_char :: "nat \<Rightarrow> char" where
  "hex_char n = (if n < 10 then char_of (48 + n) else char_of (87 + n))"

text \<open>\<open>py_encode_basestring_ascii\<close>: anything outside printable ASCII is escaped.\<close>

definition escape_char :: "char \<Rightarrow> string" where
  "escape_char c =
     (let n = (of_char c :: nat) in
      if c = CHR 0x5C then [CHR 0x5C, CHR 0x5C]
      else if c = CHR 0x22 then [CHR 0x5C, CHR 0x22]
      else if c = CHR 0x0A then [CHR 0x5C, CHR ''n'']
      else if c = CHR 0x0D then [CHR 0x5C, CHR ''r'']
      else if c = CHR 0x09 then [CHR 0x5C, CHR ''t'']
      else if c = CHR 0x0C then [CHR 0x5C, CHR ''f'']
      else if c = CHR 0x08 then [CHR 0x5C, CHR ''b'']
      else if n < 32 \<or> 126 < n
      then [CHR 0x5C, CHR ''u'', CHR ''0'', CHR ''0'', hex_char (n div 16), hex_char (n mod 16)]
      else [c])"

definition dumps_str :: "string \<Rightarrow> string" where
  "dumps_str s = [CHR 0x22] @ concat (map escape_char s) @ [CHR 0x22]"

fun json_dumps :: "json \<Rightarrow> string" where
  "json_dumps JNull = ''null''"
| "json_dumps (JBool b) = (if b then ''true'' else ''false'')"
| "json_dumps (JInt i) = str_int i"
| "json_dumps (JFloat s) = s"
| "json_dumps (JStr s) = dumps_str s"
| "json_dumps (JList xs) = ''['' @ join '', '' (map json_dumps xs) @ '']''"
| "json_dumps (JObj kvs) =
     ''{'' @ join '', '' (map (\<lambda>(k, v). dumps_str k @ '': '' @ json_dumps v) kvs) @ ''}''"

fun sort_keys :: "json \<Rightarrow> json" where
  "sort_keys (JList xs) = JList (map sort_keys xs)"
| "sort_keys (JObj kvs) = JObj (sorted_by fst (map (\<lambda>(k, v). (k, sort_keys v)) kvs))"
| "sort_keys v = v"

definition json_dumps_sorted :: "json \<Rightarrow> string" where
  "json_dumps_sorted v = json_dumps (sort_keys v)"

section \<open>Parsing\<close>

definition is_json_space :: "char \<Rightarrow> bool" where
  "is_json_space c \<longleftrightarrow> (of_char c :: nat) \<in> {32, 9, 10, 13}"

definition skip_ws :: "string \<Rightarrow> string" where
  "skip_ws s = dropWhile is_json_space s"

definition hex_value :: "char \<Rightarrow> nat option" where
  "hex_value c =
     (let n = (of_char c :: nat) in
      if 48 \<le> n \<and> n \<le> 57 then Some (n - 48)
      else if 97 \<le> n \<and> n \<le> 102 then Some (n - 87)
      else if 65 \<le> n \<and> n \<le> 70 then Some (n - 55)
      else None)"

definition hex4 :: "char \<Rightarrow> char \<Rightarrow> char \<Rightarrow> char \<Rightarrow> nat option" where
  "hex4 a b c d =
     (case (hex_value a, hex_value b, hex_value c, hex_value d) of
        (Some p, Some q, Some r, Some s) \<Rightarrow> Some (((p * 16 + q) * 16 + r) * 16 + s)
      | _ \<Rightarrow> None)"

definition simple_escape :: "char \<Rightarrow> char option" where
  "simple_escape e =
     (if e = CHR 0x22 \<or> e = CHR 0x5C \<or> e = CHR ''/'' then Some e
      else if e = CHR ''b'' then Some (CHR 0x08)
      else if e = CHR ''f'' then Some (CHR 0x0C)
      else if e = CHR ''n'' then Some (CHR 0x0A)
      else if e = CHR ''r'' then Some (CHR 0x0D)
      else if e = CHR ''t'' then Some (CHR 0x09)
      else None)"

text \<open>\<open>scanstring\<close>, entered after the opening quote: the text and what follows the closing quote.\<close>

fun scan_string :: "string \<Rightarrow> (string \<times> string) option" where
  "scan_string [] = None"
| "scan_string (c # r) =
     (if c = CHR 0x22 then Some ([], r)
      else if c = CHR 0x5C then
        (case r of
           [] \<Rightarrow> None
         | e # r1 \<Rightarrow>
             (if e = CHR ''u'' then
                (case r1 of
                   x1 # x2 # x3 # x4 # r2 \<Rightarrow>
                     (case hex4 x1 x2 x3 x4 of
                        None \<Rightarrow> None
                      | Some n \<Rightarrow> (if n < 256
                                   then map_option (\<lambda>(t, q). (char_of n # t, q)) (scan_string r2)
                                   else None))
                 | _ \<Rightarrow> None)
              else
                (case simple_escape e of
                   None \<Rightarrow> None
                 | Some d \<Rightarrow> map_option (\<lambda>(t, q). (d # t, q)) (scan_string r1))))
      else if (of_char c :: nat) < 32 then None
      else map_option (\<lambda>(t, q). (c # t, q)) (scan_string r))"

text \<open>
  \<open>NUMBER_RE\<close>: an optional sign, an integer part without leading zeros, and an optional fraction
  and exponent, each taken only when it is complete.
\<close>

definition scan_frac :: "string \<Rightarrow> string \<times> string" where
  "scan_frac s =
     (case s of
        c # r \<Rightarrow> (if c = CHR ''.'' \<and> takeWhile is_digit r \<noteq> []
                  then (c # takeWhile is_digit r, dropWhile is_digit r) else ([], s))
      | [] \<Rightarrow> ([], s))"

definition scan_exp :: "string \<Rightarrow> string \<times> string" where
  "scan_exp s =
     (case s of
        c # r \<Rightarrow>
          (let sgn = (case r of d # _ \<Rightarrow> if d = CHR ''+'' \<or> d = CHR ''-'' then [d] else [] | [] \<Rightarrow> []);
               t = drop (length sgn) r
           in if (c = CHR ''e'' \<or> c = CHR ''E'') \<and> takeWhile is_digit t \<noteq> []
              then (c # sgn @ takeWhile is_digit t, dropWhile is_digit t) else ([], s))
      | [] \<Rightarrow> ([], s))"

definition scan_number :: "string \<Rightarrow> (json \<times> string) option" where
  "scan_number s =
     (let neg = (s \<noteq> [] \<and> hd s = CHR ''-'');
          t = (if neg then tl s else s);
          ds = (if t \<noteq> [] \<and> hd t = CHR ''0'' then ''0'' else takeWhile is_digit t)
      in if ds = [] then None
         else
           let (frac, r1) = scan_frac (drop (length ds) t);
               (ex, r2) = scan_exp r1;
               i = int (nat_of_digits ds)
           in if frac = [] \<and> ex = [] then Some (JInt (if neg then - i else i), r2)
              else Some (JFloat ((if neg then ''-'' else '''') @ ds @ frac @ ex), r2))"

text \<open>
  \<open>scan_once\<close> and the loops of arrays and objects. Each call consumes the fuel; \<open>json_loads\<close>
  starts with twice the length of the text, which is more than the nesting it can hold.
\<close>

fun parse_value :: "nat \<Rightarrow> string \<Rightarrow> (json \<times> string) option"
and parse_elems :: "nat \<Rightarrow> string \<Rightarrow> (json list \<times> string) option"
and parse_members :: "nat \<Rightarrow> string \<Rightarrow> ((string \<times> json) list \<times> string) option" where
  "parse_value 0 s = None"
| "parse_value (Suc n) s =
     (case s of
        [] \<Rightarrow> None
      | c # r \<Rightarrow>
          (if c = CHR 0x22 then map_option (\<lambda>(t, q). (JStr t, q)) (scan_string r)
           else if c = CHR ''{'' then
             (if startswith (skip_ws r) ''}'' then Some (JObj [], tl (skip_ws r))
              else map_option (\<lambda>(kvs, q). (JObj (dict_of_pairs kvs), q)) (parse_members n (skip_ws r)))
           else if c = CHR ''['' then
             (if startswith (skip_ws r) '']'' then Some (JList [], tl (skip_ws r))
              else map_option (\<lambda>(xs, q). (JList xs, q)) (parse_elems n (skip_ws r)))
           else if startswith s ''null'' then Some (JNull, drop 4 s)
           else if startswith s ''true'' then Some (JBool True, drop 4 s)
           else if startswith s ''false'' then Some (JBool False, drop 5 s)
           else case scan_number s of
             Some x \<Rightarrow> Some x
           | None \<Rightarrow>
               (if startswith s ''NaN'' then Some (JFloat ''NaN'', drop 3 s)
                else if startswith s ''Infinity'' then Some (JFloat ''Infinity'', drop 8 s)
                else if startswith s ''-Infinity'' then Some (JFloat ''-Infinity'', drop 9 s)
                else None)))"
| "parse_elems 0 s = None"
| "parse_elems (Suc n) s =
     (case parse_value n s of
        None \<Rightarrow> None
      | Some (v, r) \<Rightarrow>
          (case skip_ws r of
             [] \<Rightarrow> None
           | c # q \<Rightarrow>
               (if c = CHR '']'' then Some ([v], q)
                else if c = CHR '','' then
                  map_option (\<lambda>(vs, q'). (v # vs, q')) (parse_elems n (skip_ws q))
                else None)))"
| "parse_members 0 s = None"
| "parse_members (Suc n) s =
     (case s of
        [] \<Rightarrow> None
      | c # r \<Rightarrow>
          (if c \<noteq> CHR 0x22 then None
           else case scan_string r of
             None \<Rightarrow> None
           | Some (k, r1) \<Rightarrow>
               (case skip_ws r1 of
                  [] \<Rightarrow> None
                | c1 # r2 \<Rightarrow>
                    (if c1 \<noteq> CHR '':'' then None
                     else case parse_value n (skip_ws r2) of
                       None \<Rightarrow> None
                     | Some (v, r3) \<Rightarrow>
                         (case skip_ws r3 of
                            [] \<Rightarrow> None
                          | c2 # q \<Rightarrow>
                              (if c2 = CHR ''}'' then Some ([(k, v)], q)
                               else if c2 = CHR '','' then
                                 map_option (\<lambda>(vs, q'). ((k, v) # vs, q'))
                                   (parse_members n (skip_ws q))
                               else None))))))"

definition json_loads :: "string \<Rightarrow> json option" where
  "json_loads s =
     (case parse_value (2 * length s) (skip_ws s) of
        None \<Rightarrow> None
      | Some (v, r) \<Rightarrow> if skip_ws r = [] then Some v else None)"

section \<open>Round trip\<close>

lemma hex_value_hex_char: "d < 16 \<Longrightarrow> hex_value (hex_char d) = Some d"
  by (auto simp: hex_value_def hex_char_def Let_def)

lemma hex_value_0: "hex_value CHR ''0'' = Some 0"
  by (simp add: hex_value_def)

lemma scan_string_escape:
  "scan_string (escape_char c @ r) = map_option (\<lambda>(t, q). (c # t, q)) (scan_string r)"
proof -
  have "(of_char c :: nat) < 256" by simp
  moreover have "hex4 (CHR ''0'') (CHR ''0'') (hex_char (n div 16)) (hex_char (n mod 16)) = Some n"
    if "n < 256" for n
    using that by (simp add: hex4_def hex_value_hex_char hex_value_0)
  ultimately show ?thesis
    by (auto simp: escape_char_def Let_def simple_escape_def)
qed

lemma scan_string_dumps:
  "scan_string (concat (map escape_char s) @ CHR 0x22 # r) = Some (s, r)"
  by (induction s) (simp_all add: scan_string_escape)

definition number_ends :: "string \<Rightarrow> bool" where
  "number_ends r \<longleftrightarrow> (case r of [] \<Rightarrow> True | c # _ \<Rightarrow> \<not> is_digit c \<and> c \<notin> {CHR ''.'', CHR ''e'', CHR ''E''})"

lemma takeWhile_str_nat:
  "number_ends r \<Longrightarrow> takeWhile is_digit (str_nat n @ r) = str_nat n"
  "number_ends r \<Longrightarrow> dropWhile is_digit (str_nat n @ r) = r"
  using str_nat_digits [of n]
  by (auto simp: number_ends_def list_all_iff takeWhile_append dropWhile_append takeWhile_eq_all_conv split: list.splits)

lemma scan_tail_ends: "number_ends r \<Longrightarrow> scan_frac r = ([], r)" "number_ends r \<Longrightarrow> scan_exp r = ([], r)"
  by (auto simp: number_ends_def scan_frac_def scan_exp_def Let_def split: list.splits)

lemma digit_char_0: "digit_char 0 = CHR ''0''"
  by code_simp

lemma str_nat_zero_digits: "hd (str_nat n) = CHR ''0'' \<longleftrightarrow> n = 0"
  using hd_str_nat_zero [of n] by (simp add: digit_char_0)

lemma str_nat_0: "str_nat 0 = ''0''"
  by (simp add: str_nat_single digit_char_0)

lemma hd_str_nat_digit: "is_digit (hd (str_nat n))"
  using str_nat_digits [of n] str_nat_not_Nil [of n] by (cases "str_nat n") auto

lemma nat_of_digits_zero: "nat_of_digits ''0'' = 0"
  by (simp add: nat_of_digits_def digit_value_def)

lemma hd_str_nat_minus: "hd (str_nat n) \<noteq> CHR ''-''"
  using hd_str_nat_digit [of n] by (auto simp: is_digit_def)

lemma scan_number_str_int:
  assumes "number_ends r"
  shows "scan_number (str_int i @ r) = Some (JInt i, r)"
proof (cases "i < 0")
  case True
  then have "nat (- i) \<noteq> 0" by simp
  then show ?thesis
    using True assms unfolding scan_number_def str_int_def
    by (simp add: Let_def takeWhile_str_nat scan_tail_ends str_nat_zero_digits)
next
  case False
  then show ?thesis
    using assms unfolding scan_number_def str_int_def
    by (cases "i = 0")
       (simp_all add: Let_def takeWhile_str_nat scan_tail_ends str_nat_zero_digits str_nat_0
        hd_str_nat_minus nat_of_digits_zero)
qed

text \<open>The values \<open>json.loads\<close> can return without floating-point literals: object keys are distinct.\<close>

fun json_wf :: "json \<Rightarrow> bool" where
  "json_wf (JFloat s) = False"
| "json_wf (JList xs) = list_all json_wf xs"
| "json_wf (JObj kvs) = (distinct (map fst kvs) \<and> list_all (\<lambda>(k, v). json_wf v) kvs)"
| "json_wf v = True"

lemma skip_ws_id: "s \<noteq> [] \<Longrightarrow> \<not> is_json_space (hd s) \<Longrightarrow> skip_ws s = s"
  by (cases s) (simp_all add: skip_ws_def)

lemma skip_ws_space [simp]: "skip_ws (CHR '' '' # s) = skip_ws s"
  by (simp add: skip_ws_def is_json_space_def)

lemma skip_ws_punct [simp]:
  "skip_ws (CHR '':'' # s) = CHR '':'' # s" "skip_ws (CHR '','' # s) = CHR '','' # s"
  "skip_ws (CHR ''}'' # s) = CHR ''}'' # s" "skip_ws (CHR '']'' # s) = CHR '']'' # s"
  by (simp_all add: skip_ws_def is_json_space_def)

lemma not_startswith_char: "s \<noteq> [] \<Longrightarrow> hd s \<noteq> c \<Longrightarrow> \<not> startswith s [c]"
  by (cases s) (simp_all add: startswith_def)

text \<open>A printed value starts with a character that is neither white space nor a closing bracket.\<close>

definition value_start :: "char \<Rightarrow> bool" where
  "value_start c \<longleftrightarrow> \<not> is_json_space c \<and> c \<noteq> CHR '']'' \<and> c \<noteq> CHR ''}''"

lemma digit_value_start: "is_digit c \<Longrightarrow> value_start c"
  by (auto simp: is_digit_def value_start_def is_json_space_def)

lemma value_start_chars:
  "value_start CHR ''-''" "value_start CHR ''n''" "value_start CHR ''t''" "value_start CHR ''f''"
  "value_start CHR 0x22" "value_start CHR ''[''" "value_start CHR ''{''"
  by (simp_all add: value_start_def is_json_space_def)

lemma json_dumps_start: "json_wf v \<Longrightarrow> json_dumps v \<noteq> [] \<and> value_start (hd (json_dumps v))"
  by (cases v)
     (auto simp: dumps_str_def str_int_def hd_str_nat_digit digit_value_start value_start_chars)

lemma parse_value_number:
  assumes "number_ends r"
  shows "parse_value (Suc n) (str_int i @ r) = Some (JInt i, r)"
proof -
  obtain c t where s: "str_int i = c # t" and c: "is_digit c \<or> c = CHR ''-''"
    unfolding str_int_def using str_nat_not_Nil hd_str_nat_digit
    by (metis append_Cons append_Nil list.exhaust_sel list.sel(1))
  have "c \<noteq> CHR 0x22" "c \<noteq> CHR ''{''" "c \<noteq> CHR ''[''" "c \<noteq> CHR ''n''" "c \<noteq> CHR ''t''" "c \<noteq> CHR ''f''"
    using c by (auto simp: is_digit_def)
  then show ?thesis
    using scan_number_str_int [OF assms, of i] by (simp add: s startswith_def)
qed

lemma parse_value_str: "parse_value (Suc n) (dumps_str s @ r) = Some (JStr s, r)"
  by (simp add: dumps_str_def scan_string_dumps)

text \<open>The loops, given that each element is read back.\<close>

lemma parse_elems_dumps:
  assumes "xs \<noteq> []" and "2 * length (join '', '' (map json_dumps xs)) + 1 \<le> n"
    and "\<And>x m r. x \<in> set xs \<Longrightarrow> 2 * length (json_dumps x) \<le> m \<Longrightarrow> number_ends r \<Longrightarrow>
           parse_value m (json_dumps x @ r) = Some (x, r)"
    and "list_all json_wf xs"
  shows "parse_elems n (join '', '' (map json_dumps xs) @ '']'' @ r) = Some (xs, r)"
  using assms
proof (induction xs arbitrary: n)
  case (Cons x xs)
  then obtain m where n: "n = Suc m" by (cases n) auto
  show ?case
  proof (cases xs)
    case Nil
    then show ?thesis
      using Cons.prems(2) Cons.prems(3) [of x m "'']'' @ r"]
      by (simp add: n number_ends_def is_digit_def skip_ws_def is_json_space_def)
  next
    case (Cons y ys)
    let ?j = "join '', '' (map json_dumps xs)"
    have start: "value_start (hd (json_dumps y))" "json_dumps y \<noteq> []"
      using json_dumps_start [of y] Cons.prems(4) Cons by auto
    have hd: "hd (?j @ '']'' @ r) = hd (json_dumps y)" "?j @ '']'' @ r \<noteq> []"
      using start(2) Cons by (cases ys; simp)+
    have "parse_value m (json_dumps x @ '', '' @ ?j @ '']'' @ r) = Some (x, '', '' @ ?j @ '']'' @ r)"
      using Cons.prems(2) Cons by (intro Cons.prems(3)) (auto simp: n number_ends_def is_digit_def)
    moreover have "skip_ws (?j @ '']'' @ r) = ?j @ '']'' @ r"
      using start hd by (intro skip_ws_id) (auto simp: value_start_def)
    moreover have "parse_elems m (?j @ '']'' @ r) = Some (xs, r)"
      using Cons.prems Cons by (intro Cons.IH) (auto simp: n)
    ultimately show ?thesis
      using Cons by (simp add: n skip_ws_def is_json_space_def)
  qed
qed simp

lemma parse_members_dumps:
  assumes "kvs \<noteq> []"
    and "2 * length (join '', '' (map (\<lambda>(k, v). dumps_str k @ '': '' @ json_dumps v) kvs)) + 1 \<le> n"
    and "\<And>k v m r. (k, v) \<in> set kvs \<Longrightarrow> 2 * length (json_dumps v) \<le> m \<Longrightarrow> number_ends r \<Longrightarrow>
           parse_value m (json_dumps v @ r) = Some (v, r)"
    and "list_all (\<lambda>(k, v). json_wf v) kvs"
  shows "parse_members n (join '', '' (map (\<lambda>(k, v). dumps_str k @ '': '' @ json_dumps v) kvs)
      @ ''}'' @ r) = Some (kvs, r)"
  using assms
proof (induction kvs arbitrary: n)
  case (Cons p kvs)
  obtain k v where p: "p = (k, v)" by (cases p)
  obtain m where n: "n = Suc m" using Cons.prems(2) by (cases n) auto
  have v: "skip_ws (json_dumps v @ q) = json_dumps v @ q" for q
    using json_dumps_start [of v] Cons.prems(4)
    by (intro skip_ws_id) (auto simp: p value_start_def)
  let ?item = "\<lambda>(k, v). dumps_str k @ '': '' @ json_dumps v"
  show ?case
  proof (cases kvs)
    case Nil
    have "parse_value m (json_dumps v @ ''}'' @ r) = Some (v, ''}'' @ r)"
      using Cons.prems(2) Nil
      by (intro Cons.prems(3) [of k]) (auto simp: n p number_ends_def is_digit_def)
    then show ?thesis
      using Nil by (simp add: n p dumps_str_def scan_string_dumps v)
  next
    case (Cons q qs)
    let ?j = "join '', '' (map ?item kvs)"
    have hd: "hd (?j @ ''}'' @ r) = CHR 0x22" "?j @ ''}'' @ r \<noteq> []"
      using Cons by (cases q; cases qs; simp add: dumps_str_def)+
    have "parse_value m (json_dumps v @ '', '' @ ?j @ ''}'' @ r) = Some (v, '', '' @ ?j @ ''}'' @ r)"
      using Cons.prems(2) Cons
      by (intro Cons.prems(3) [of k]) (auto simp: n p number_ends_def is_digit_def)
    moreover have "skip_ws (?j @ ''}'' @ r) = ?j @ ''}'' @ r"
      using hd by (intro skip_ws_id) (auto simp: is_json_space_def)
    moreover have "parse_members m (?j @ ''}'' @ r) = Some (kvs, r)"
      using Cons.prems Cons by (intro Cons.IH) (auto simp: n p)
    ultimately show ?thesis
      using Cons by (simp add: n p dumps_str_def scan_string_dumps v)
  qed
qed simp

lemma parse_value_dumps:
  "json_wf v \<Longrightarrow> 2 * length (json_dumps v) \<le> n \<Longrightarrow> number_ends r \<Longrightarrow>
     parse_value n (json_dumps v @ r) = Some (v, r)"
proof (induction v arbitrary: n r)
  case JNull
  then show ?case by (cases n) (auto simp: startswith_def)
next
  case (JBool b)
  then show ?case by (cases n; cases b) (auto simp: startswith_def)
next
  case (JInt i)
  then have "str_int i \<noteq> []" by (simp add: str_int_def)
  then show ?case using JInt parse_value_number by (cases n) auto
next
  case (JStr s)
  then show ?case using parse_value_str by (cases n) (auto simp: dumps_str_def)
next
  case (JList xs)
  then obtain m where n: "n = Suc m" by (cases n) auto
  show ?case
  proof (cases "xs = []")
    case True
    then show ?thesis by (simp add: n skip_ws_def is_json_space_def startswith_def)
  next
    case False
    let ?j = "join '', '' (map json_dumps xs)"
    have e: "parse_elems m (?j @ '']'' @ r) = Some (xs, r)"
      using JList False by (intro parse_elems_dumps) (auto simp: n list_all_iff)
    obtain x ys where xs: "xs = x # ys" using False by (cases xs) auto
    have st: "json_dumps x \<noteq> []" "value_start (hd (json_dumps x))"
      using json_dumps_start [of x] JList.prems(1) by (auto simp: xs)
    have "hd (?j @ '']'' @ r) = hd (json_dumps x)" "?j @ '']'' @ r \<noteq> []"
      using st(1) by (cases ys; simp add: xs)+
    then have "skip_ws (?j @ '']'' @ r) = ?j @ '']'' @ r" "\<not> startswith (?j @ '']'' @ r) '']''"
      using st(2) skip_ws_id [of "?j @ '']'' @ r"] not_startswith_char [of "?j @ '']'' @ r" "CHR '']''"]
      by (simp_all add: value_start_def)
    then show ?thesis using e by (simp add: n)
  qed
next
  case (JObj kvs)
  then obtain m where n: "n = Suc m" by (cases n) auto
  show ?case
  proof (cases "kvs = []")
    case True
    then show ?thesis by (simp add: n skip_ws_def is_json_space_def startswith_def)
  next
    case False
    let ?j = "join '', '' (map (\<lambda>(k, v). dumps_str k @ '': '' @ json_dumps v) kvs)"
    have e: "parse_members m (?j @ ''}'' @ r) = Some (kvs, r)"
    proof (rule parse_members_dumps [OF False])
      show "parse_value m (json_dumps v @ r) = Some (v, r)"
        if "(k, v) \<in> set kvs" "2 * length (json_dumps v) \<le> m" "number_ends r" for k v m r
        using JObj that by (intro JObj.IH [of "(k, v)"]) (auto simp: list_all_iff)
    qed (use JObj.prems in \<open>auto simp: n\<close>)
    have "hd (?j @ ''}'' @ r) = CHR 0x22" "?j @ ''}'' @ r \<noteq> []"
      using False by (cases kvs; cases "tl kvs"; auto simp: dumps_str_def)+
    then have "skip_ws (?j @ ''}'' @ r) = ?j @ ''}'' @ r" "\<not> startswith (?j @ ''}'' @ r) ''}''"
      using skip_ws_id [of "?j @ ''}'' @ r"] not_startswith_char [of "?j @ ''}'' @ r" "CHR ''}''"]
      by (simp_all add: is_json_space_def)
    then show ?thesis using e JObj.prems(1) by (simp add: n)
  qed
qed simp

lemma json_loads_dumps: "json_wf v \<Longrightarrow> json_loads (json_dumps v) = Some v"
  using parse_value_dumps [of v "2 * length (json_dumps v)" "[]"] json_dumps_start [of v]
    skip_ws_id [of "json_dumps v"]
  by (simp add: json_loads_def number_ends_def value_start_def) (simp add: skip_ws_def)

section \<open>Sorted keys\<close>

lemma keys_map_values: "map fst (map (\<lambda>(k, v). (k, f v)) kvs) = map fst kvs"
  by auto

lemma distinct_map_sorted_by: "distinct (map f (sorted_by k xs)) \<longleftrightarrow> distinct (map f xs)"
  by (simp add: distinct_map)

lemma json_wf_sort_keys: "json_wf v \<Longrightarrow> json_wf (sort_keys v)"
proof (induction v rule: sort_keys.induct)
  case (2 kvs)
  then have "distinct (map fst (sorted_by fst (map (\<lambda>(k, v). (k, sort_keys v)) kvs)))"
    unfolding distinct_map_sorted_by keys_map_values by simp
  then show ?case using 2 by (auto simp: list_all_iff)
qed (auto simp: list_all_iff)

lemma json_dumps_sorted_inject:
  "json_wf v \<Longrightarrow> json_wf w \<Longrightarrow> json_dumps_sorted v = json_dumps_sorted w \<longleftrightarrow> sort_keys v = sort_keys w"
  by (metis json_dumps_sorted_def json_loads_dumps json_wf_sort_keys option.inject)

lemma map_of_sorted_by:
  assumes "distinct (map fst kvs)"
  shows "map_of (sorted_by fst kvs) = map_of kvs"
  by (rule map_of_eqI) (use assms in \<open>auto simp: distinct_map\<close>)

text \<open>Two objects with the same keys and the same sorted form have the same sorted values.\<close>

lemma sort_keys_obj_values:
  assumes "sort_keys (JObj a) = sort_keys (JObj b)" and "distinct (map fst a)" and "map fst b = map fst a"
  shows "map (\<lambda>p. sort_keys (snd p)) a = map (\<lambda>p. sort_keys (snd p)) b"
proof -
  let ?s = "map (\<lambda>(k, v). (k, sort_keys v))"
  have d: "distinct (map fst (?s a))" "distinct (map fst (?s b))"
    using assms(2,3) unfolding keys_map_values by simp_all
  have "map_of (?s a) = map_of (?s b)"
    using assms(1) map_of_sorted_by [OF d(1)] map_of_sorted_by [OF d(2)] by simp
  moreover have "map snd c = map (the \<circ> map_of c) (map fst c)" if "distinct (map fst c)" for c :: dict
    using that by (auto simp: map_of_eq_Some_iff [THEN iffD2])
  ultimately have "map snd (?s a) = map snd (?s b)"
    using d assms(3) by (metis keys_map_values)
  then show ?thesis by (simp add: comp_def case_prod_beta)
qed

end
