(* ===== verification/Domain.thy ===== *)
theory Domain
  imports Json
begin

text \<open>
  The rows of the ORM classes under \<open>backend/app/models\<close>, the database as one record of tables,
  the settings the services read, and the effects that leave the process: events published on the
  bus and calls into the metrics library, recorded in the order they happen. A column default that
  is a clock reading or a fresh UUID is passed by the operation that inserts the row.
\<close>

section \<open>Rows\<close>

record user =
  user_id :: uuid
  user_email :: string
  user_password_hash :: string
  user_display_name :: string
  user_is_active :: bool
  user_is_superuser :: bool
  user_created_at :: datetime
  user_updated_at :: datetime

record network =
  net_id :: uuid
  net_name :: string
  net_subnet :: string
  net_description :: "string option"
  net_interface_name :: "string option"
  net_topology :: "string option"
  net_owner_id :: "uuid option"
  net_created_at :: datetime

record device =
  dev_id :: uuid
  dev_name :: string
  dev_user_id :: "uuid option"
  dev_network_id :: uuid
  dev_public_key :: "string option"
  dev_private_key_enc :: "string option"
  dev_ip_address :: "string option"
  dev_dns_enabled :: bool
  dev_is_active :: bool
  dev_is_node_owned :: bool
  dev_token_hash :: "string option"
  dev_token_prefix :: "string option"
  dev_enrollment_status :: string
  dev_enrolled_at :: "datetime option"
  dev_last_seen_at :: "datetime option"
  dev_revoked_at :: "datetime option"
  dev_tags :: "string list option"
  dev_last_handshake :: "datetime option"
  dev_exit_node_id :: "uuid option"
  dev_created_at :: datetime
  dev_updated_at :: datetime

record endpoint =
  ep_id :: uuid
  ep_device_id :: uuid
  ep_endpoint :: string
  ep_source :: string
  ep_port :: int
  ep_local_ip :: "string option"
  ep_public_ip :: "string option"
  ep_priority :: int
  ep_is_active :: bool
  ep_last_seen :: datetime
  ep_latency_ms :: "int option"
  ep_reachable :: bool
  ep_last_probe_at :: "datetime option"
  ep_failure_count :: int
  ep_success_count :: int
  ep_score :: int
  ep_created_at :: datetime

record route =
  rt_id :: uuid
  rt_device_id :: uuid
  rt_network_id :: uuid
  rt_prefix :: string
  rt_enabled :: bool
  rt_approved :: bool
  rt_is_exit_node :: bool
  rt_created_at :: datetime
  rt_updated_at :: datetime

record preauth_key =
  pk_id :: uuid
  pk_key :: string
  pk_network_id :: uuid
  pk_reusable :: bool
  pk_expires_at :: datetime
  pk_created_at :: datetime
  pk_used_by :: "string list option"

record acl_rule =
  acl_id :: uuid
  acl_network_id :: uuid
  acl_src_tags :: "string list"
  acl_dst_tags :: "string list"
  acl_action :: string
  acl_priority :: int
  acl_created_at :: datetime

record dns_entry =
  dns_id :: uuid
  dns_network_id :: uuid
  dns_domain_name :: string
  dns_address :: string
  dns_created_at :: datetime

record nat_session =
  nat_id :: uuid
  nat_initiator_device_id :: uuid
  nat_target_device_id :: uuid
  nat_state :: string
  nat_selected_candidate :: "dict option"
  nat_connectivity_established :: bool
  nat_extra_metadata :: "dict option"
  nat_created_at :: datetime
  nat_updated_at :: datetime
  nat_expires_at :: datetime

record relay_session =
  rel_id :: uuid
  rel_initiator_device_id :: uuid
  rel_target_device_id :: uuid
  rel_relay_region :: string
  rel_relay_node :: string
  rel_relay_token :: string
  rel_state :: string
  rel_bytes_tx :: int
  rel_bytes_rx :: int
  rel_connected_at :: "datetime option"
  rel_expires_at :: "datetime option"
  rel_created_at :: datetime
  rel_updated_at :: datetime

record audit_log =
  au_id :: uuid
  au_actor_id :: "string option"
  au_actor_type :: string
  au_action :: string
  au_target_type :: string
  au_target_id :: "string option"
  au_details :: dict
  au_ip_address :: "string option"
  au_created_at :: datetime

section \<open>The database\<close>

record database =
  users :: "user list"
  networks :: "network list"
  devices :: "device list"
  endpoints :: "endpoint list"
  routes :: "route list"
  preauth_keys :: "preauth_key list"
  acl_rules :: "acl_rule list"
  dns_entries :: "dns_entry list"
  nat_sessions :: "nat_session list"
  relay_sessions :: "relay_session list"
  audit_logs :: "audit_log list"

definition empty_database :: database where
  "empty_database =
     \<lparr>users = [], networks = [], devices = [], endpoints = [], routes = [], preauth_keys = [],
      acl_rules = [], dns_entries = [], nat_sessions = [], relay_sessions = [],
      audit_logs = []\<rparr>"

text \<open>
  The primary-key guarantee of each table, and the interpretations of \<open>keyed_table\<close> that give the
  lookup, insert and update laws of each of them.
\<close>

definition users_ok :: "user list \<Rightarrow> bool" where
  "users_ok rows \<longleftrightarrow> distinct (map user_id rows)"

definition networks_ok :: "network list \<Rightarrow> bool" where
  "networks_ok rows \<longleftrightarrow> distinct (map net_id rows)"

definition devices_ok :: "device list \<Rightarrow> bool" where
  "devices_ok rows \<longleftrightarrow> distinct (map dev_id rows)"

definition endpoints_ok :: "endpoint list \<Rightarrow> bool" where
  "endpoints_ok rows \<longleftrightarrow> distinct (map ep_id rows)"

definition routes_ok :: "route list \<Rightarrow> bool" where
  "routes_ok rows \<longleftrightarrow> distinct (map rt_id rows)"

definition nat_sessions_ok :: "nat_session list \<Rightarrow> bool" where
  "nat_sessions_ok rows \<longleftrightarrow> distinct (map nat_id rows)"

definition relay_sessions_ok :: "relay_session list \<Rightarrow> bool" where
  "relay_sessions_ok rows \<longleftrightarrow> distinct (map rel_id rows)"

interpretation usr: keyed_table user_id users_ok
  by unfold_locales (simp add: users_ok_def)

interpretation net: keyed_table net_id networks_ok
  by unfold_locales (simp add: networks_ok_def)

interpretation dev: keyed_table dev_id devices_ok
  by unfold_locales (simp add: devices_ok_def)

interpretation ep: keyed_table ep_id endpoints_ok
  by unfold_locales (simp add: endpoints_ok_def)

interpretation rt: keyed_table rt_id routes_ok
  by unfold_locales (simp add: routes_ok_def)

interpretation nat_tab: keyed_table nat_id nat_sessions_ok
  by unfold_locales (simp add: nat_sessions_ok_def)

interpretation rel_tab: keyed_table rel_id relay_sessions_ok
  by unfold_locales (simp add: relay_sessions_ok_def)

text \<open>
  A unit of work. A session starts from the committed state; a flush changes what the session
  sees, a commit makes it the committed state, and closing the session without one discards it.
\<close>

record session =
  committed :: database
  current :: database

definition open_session :: "database \<Rightarrow> session" where
  "open_session d = \<lparr>committed = d, current = d\<rparr>"

definition flush_session :: "(database \<Rightarrow> database) \<Rightarrow> session \<Rightarrow> session" where
  "flush_session f s = s\<lparr>current := f (current s)\<rparr>"

definition commit_session :: "session \<Rightarrow> session" where
  "commit_session s = s\<lparr>committed := current s\<rparr>"

definition close_session :: "session \<Rightarrow> database" where
  "close_session s = committed s"

text \<open>
  The request scope: the handler runs on a session that is committed when it returns and rolled
  back when it raises.
\<close>

definition get_session :: "(database \<Rightarrow> ('a \<times> database) result) \<Rightarrow> database
    \<Rightarrow> 'a result \<times> database" where
  "get_session handler d =
     (let s = open_session d in
      case handler (current s) of
        Inl e \<Rightarrow> (Inl e, close_session s)
      | Inr (x, d') \<Rightarrow> (Inr x, close_session (commit_session (flush_session (\<lambda>_. d') s))))"

lemma get_session_simps [simp]:
  "handler d = Inl e \<Longrightarrow> get_session handler d = (Inl e, d)"
  "handler d = Inr (x, d') \<Longrightarrow> get_session handler d = (Inr x, d')"
  by (simp_all add: get_session_def open_session_def close_session_def commit_session_def
      flush_session_def)

lemma close_without_commit: "close_session (flush_session f (open_session d)) = d"
  by (simp add: close_session_def flush_session_def open_session_def)

section \<open>Clock readings as text\<close>

text \<open>
  \<open>datetime.isoformat()\<close> of an instant in UTC, with the proleptic Gregorian calendar computed from
  the day number, and \<open>int(now.timestamp())\<close>.
\<close>

definition zfill :: "nat \<Rightarrow> nat \<Rightarrow> string" where
  "zfill w n = replicate (w - length (str_nat n)) CHR ''0'' @ str_nat n"

definition civil_from_days :: "int \<Rightarrow> int \<times> int \<times> int" where
  "civil_from_days z0 =
     (let z = z0 + 719468;
          era = z div 146097;
          doe = z mod 146097;
          yoe = (doe - doe div 1460 + doe div 36524 - doe div 146096) div 365;
          doy = doe - (365 * yoe + yoe div 4 - yoe div 100);
          mp = (5 * doy + 2) div 153;
          day = doy - (153 * mp + 2) div 5 + 1;
          month = (if mp < 10 then mp + 3 else mp - 9)
      in (yoe + era * 400 + (if month \<le> 2 then 1 else 0), month, day))"

definition isoformat :: "datetime \<Rightarrow> string" where
  "isoformat t =
     (let us = t mod 1000000; secs = t div 1000000;
          (y, m, d) = civil_from_days (secs div 86400);
          sod = secs mod 86400
      in zfill 4 (nat y) @ ''-'' @ zfill 2 (nat m) @ ''-'' @ zfill 2 (nat d) @ ''T'' @
         zfill 2 (nat (sod div 3600)) @ '':'' @ zfill 2 (nat (sod div 60 mod 60)) @ '':'' @
         zfill 2 (nat (sod mod 60)) @
         (if us = 0 then [] else ''.'' @ zfill 6 (nat us)) @ ''+00:00'')"

definition timestamp_int :: "datetime \<Rightarrow> int" where
  "timestamp_int t = (if 0 \<le> t then t div 1000000 else - ((- t) div 1000000))"

section \<open>Settings and effects\<close>

record settings =
  cfg_debug :: bool
  cfg_access_token_expire_minutes :: int
  cfg_refresh_token_expire_days :: int
  cfg_wireguard_interface :: string
  cfg_wireguard_port :: int
  cfg_wireguard_server_endpoint :: string
  cfg_wireguard_topology :: string
  cfg_dns_enabled :: bool
  cfg_dns_domain :: string
  cfg_dns_default_ttl :: int
  cfg_relay_host :: string
  cfg_relay_port :: int
  cfg_stale_device_days :: int

definition default_settings :: settings where
  "default_settings =
     \<lparr>cfg_debug = False, cfg_access_token_expire_minutes = 30, cfg_refresh_token_expire_days = 7,
      cfg_wireguard_interface = ''wg0'', cfg_wireguard_port = 51820,
      cfg_wireguard_server_endpoint = [], cfg_wireguard_topology = ''star'',
      cfg_dns_enabled = False, cfg_dns_domain = ''wg.midscale'', cfg_dns_default_ttl = 300,
      cfg_relay_host = ''0.0.0.0'', cfg_relay_port = 8765, cfg_stale_device_days = 7\<rparr>"

text \<open>
  \<open>Publish\<close> is a call of \<open>EventBus.publish\<close> with an event of that type and payload (its random id
  and time stamp left out); the next three constructors are calls into the metrics library: a labelled
  counter, and the increment or decrement of a gauge. \<open>Ws_send\<close> is a message handed to the web-socket
  manager for one device.
\<close>

datatype effect =
    Publish string dict
  | Counter_inc string string int
  | Gauge_add string int
  | Gauge_set string int
  | Ws_send string dict

definition publish :: "bool \<Rightarrow> string \<Rightarrow> dict \<Rightarrow> effect list" where
  "publish bus ty payload = (if bus then [Publish ty payload] else [])"

fun gauge_delta :: "string \<Rightarrow> effect list \<Rightarrow> int" where
  "gauge_delta g [] = 0"
| "gauge_delta g (Gauge_add h n # es) = (if h = g then n else 0) + gauge_delta g es"
| "gauge_delta g (_ # es) = gauge_delta g es"

lemma gauge_delta_append [simp]: "gauge_delta g (xs @ ys) = gauge_delta g xs + gauge_delta g ys"
  by (induction g xs rule: gauge_delta.induct) auto

lemma gauge_delta_publish [simp]: "gauge_delta g (publish bus ty p) = 0"
  by (simp add: publish_def)

definition server_device_name :: string where
  "server_device_name = ''__midscale_server__''"

text \<open>A device row for the concrete examples.\<close>

definition demo_device :: "string \<Rightarrow> string \<Rightarrow> string option \<Rightarrow> device" where
  "demo_device did nid ip =
     \<lparr>dev_id = did, dev_name = did, dev_user_id = None, dev_network_id = nid,
      dev_public_key = Some (did @ ''_key''), dev_private_key_enc = None, dev_ip_address = ip,
      dev_dns_enabled = True, dev_is_active = True, dev_is_node_owned = True,
      dev_token_hash = None, dev_token_prefix = None, dev_enrollment_status = ''active'',
      dev_enrolled_at = None, dev_last_seen_at = None, dev_revoked_at = None,
      dev_tags = Some [], dev_last_handshake = None, dev_exit_node_id = None,
      dev_created_at = 0, dev_updated_at = 0\<rparr>"

end
