(* ===== verification/Ipv4.thy ===== *)
theory Ipv4
  imports Prelude
begin

text \<open>
  The part of Python's \<open>ipaddress\<close> module that the sources call: parsing of \<open>IPv4Address\<close> and
  \<open>IPv4Network(s, strict=False)\<close> (prefix length, netmask and hostmask forms), printing, \<open>hosts()\<close>,
  \<open>overlaps\<close>, containment, \<open>is_private\<close> and \<open>is_loopback\<close>, as in the module of Python 3.12. An
  address is the integer \<open>int(ip)\<close>. A \<open>ValueError\<close> of the module is \<open>None\<close>; its message text is
  not modelled.
\<close>

section \<open>Addresses\<close>

definition parse_octet :: "string \<Rightarrow> nat option" where
  "parse_octet s =
     (if \<not> is_ascii_digits s then None
      else if 3 < length s then None
      else if s \<noteq> ''0'' \<and> hd s = CHR ''0'' then None
      else if 255 < nat_of_digits s then None
      else Some (nat_of_digits s))"

definition ip_int_from_string :: "string \<Rightarrow> nat option" where
  "ip_int_from_string s =
     (case map parse_octet (split_on CHR ''.'' s) of
        [Some a, Some b, Some c, Some d] \<Rightarrow> Some (((a * 256 + b) * 256 + c) * 256 + d)
      | _ \<Rightarrow> None)"

definition octets :: "nat \<Rightarrow> nat list" where
  "octets n = [n div 16777216, n div 65536 mod 256, n div 256 mod 256, n mod 256]"

definition str_ipv4 :: "nat \<Rightarrow> string" where
  "str_ipv4 n = join ''.'' (map str_nat (octets n))"

lemma not_digit_dot [simp]: "\<not> is_digit CHR ''.''"
  by (simp add: is_digit_def)

lemma not_digit_slash [simp]: "\<not> is_digit CHR ''/''"
  by (simp add: is_digit_def)

lemma not_digit_colon [simp]: "\<not> is_digit CHR '':''"
  by (simp add: is_digit_def)

lemma digit_char_eval [py_simps]:
  "digit_char 0 = CHR ''0''" "digit_char (Suc 0) = CHR ''1''" "digit_char 1 = CHR ''1''"
  "digit_char 2 = CHR ''2''" "digit_char 3 = CHR ''3''" "digit_char 4 = CHR ''4''"
  "digit_char 5 = CHR ''5''" "digit_char 6 = CHR ''6''" "digit_char 7 = CHR ''7''"
  "digit_char 8 = CHR ''8''" "digit_char 9 = CHR ''9''"
  by code_simp+

lemma parse_octet_str_nat [simp]:
  assumes "n < 256"
  shows "parse_octet (str_nat n) = Some n"
proof -
  have "length (str_nat n) \<le> 3" using assms by (simp add: length_str_nat_le3)
  moreover have "hd (str_nat n) = CHR ''0'' \<Longrightarrow> str_nat n = ''0''"
    using hd_str_nat_zero [of n] by (simp add: digit_char_eval(1) str_nat_single)
  ultimately show ?thesis using assms by (auto simp: parse_octet_def)
qed

lemmas str_ipv4_eval [py_simps] = str_ipv4_def octets_def str_nat.simps

lemma split_str_ipv4: "split_on CHR ''.'' (str_ipv4 n) = map str_nat (octets n)"
  unfolding str_ipv4_def by (rule split_on_join) (simp_all add: octets_def)

lemma octets_value:
  "((n div 16777216 * 256 + n div 65536 mod 256) * 256 + n div 256 mod 256) * 256 + n mod 256
     = (n::nat)"
proof -
  have "n div 16777216 = n div 256 div 256 div 256" "n div 65536 = n div 256 div 256"
    by (simp_all add: div_mult2_eq [symmetric])
  then show ?thesis by (simp only: div_mult_mod_eq)
qed

lemma ip_int_from_string_str_ipv4 [simp]:
  assumes "n < 2 ^ 32"
  shows "ip_int_from_string (str_ipv4 n) = Some n"
proof -
  have "n div 16777216 < 256" using assms by (simp add: less_mult_imp_div_less)
  then have "map parse_octet (split_on CHR ''.'' (str_ipv4 n)) =
      [Some (n div 16777216), Some (n div 65536 mod 256), Some (n div 256 mod 256), Some (n mod 256)]"
    by (simp add: split_str_ipv4 octets_def)
  then show ?thesis
    unfolding ip_int_from_string_def using octets_value [of n] by simp
qed

lemma str_ipv4_inject:
  "m < 2 ^ 32 \<Longrightarrow> n < 2 ^ 32 \<Longrightarrow> str_ipv4 m = str_ipv4 n \<longleftrightarrow> m = n"
  by (metis ip_int_from_string_str_ipv4 option.inject)

lemma parse_octet_bound: "parse_octet s = Some n \<Longrightarrow> n < 256"
  by (auto simp: parse_octet_def split: if_splits)

lemma ip_int_from_string_bound:
  assumes "ip_int_from_string s = Some n"
  shows "n < 2 ^ 32"
proof -
  from assms obtain a b c d where
    m: "map parse_octet (split_on CHR ''.'' s) = [Some a, Some b, Some c, Some d]"
    and n: "n = ((a * 256 + b) * 256 + c) * 256 + d"
    by (auto simp: ip_int_from_string_def split: list.splits option.splits)
  have "Some a \<in> set (map parse_octet (split_on CHR ''.'' s))"
    "Some b \<in> set (map parse_octet (split_on CHR ''.'' s))"
    "Some c \<in> set (map parse_octet (split_on CHR ''.'' s))"
    "Some d \<in> set (map parse_octet (split_on CHR ''.'' s))"
    using m by simp_all
  then have "a < 256" "b < 256" "c < 256" "d < 256"
    by (auto dest!: parse_octet_bound [OF sym])
  then show ?thesis by (simp add: n)
qed

section \<open>Networks\<close>

record ipv4_network =
  network_address :: nat
  prefixlen :: nat

definition num_addresses :: "ipv4_network \<Rightarrow> nat" where
  "num_addresses n = 2 ^ (32 - prefixlen n)"

definition broadcast_address :: "ipv4_network \<Rightarrow> nat" where
  "broadcast_address n = network_address n + num_addresses n - 1"

text \<open>\<open>strict=False\<close> clears the host bits.\<close>

definition network_of :: "nat \<Rightarrow> nat \<Rightarrow> ipv4_network" where
  "network_of ip p =
     \<lparr>network_address = ip div 2 ^ (32 - p) * 2 ^ (32 - p), prefixlen = p\<rparr>"

fun trailing_zeros :: "nat \<Rightarrow> nat \<Rightarrow> nat" where
  "trailing_zeros 0 n = 0"
| "trailing_zeros (Suc k) n = (if odd n then 0 else Suc (trailing_zeros k (n div 2)))"

definition prefix_from_ip_int :: "nat \<Rightarrow> nat option" where
  "prefix_from_ip_int n =
     (let t = trailing_zeros 32 n; p = 32 - t
      in if n div 2 ^ t = 2 ^ p - 1 then Some p else None)"

definition prefix_from_prefix_string :: "string \<Rightarrow> nat option" where
  "prefix_from_prefix_string s =
     (if is_ascii_digits s \<and> nat_of_digits s \<le> 32 then Some (nat_of_digits s) else None)"

definition prefix_from_ip_string :: "string \<Rightarrow> nat option" where
  "prefix_from_ip_string s =
     (case ip_int_from_string s of
        None \<Rightarrow> None
      | Some n \<Rightarrow> (case prefix_from_ip_int n of
                   Some p \<Rightarrow> Some p
                 | None \<Rightarrow> prefix_from_ip_int (2 ^ 32 - 1 - n)))"

definition make_netmask :: "string \<Rightarrow> nat option" where
  "make_netmask s =
     (case prefix_from_prefix_string s of
        Some p \<Rightarrow> Some p
      | None \<Rightarrow> prefix_from_ip_string s)"

definition IPv4Network :: "string \<Rightarrow> ipv4_network option" where
  "IPv4Network s =
     (case split_on CHR ''/'' s of
        [a] \<Rightarrow> (case ip_int_from_string a of None \<Rightarrow> None | Some ip \<Rightarrow> Some (network_of ip 32))
      | [a, m] \<Rightarrow> (case ip_int_from_string a of
                    None \<Rightarrow> None
                  | Some ip \<Rightarrow> (case make_netmask m of
                                None \<Rightarrow> None
                              | Some p \<Rightarrow> Some (network_of ip p)))
      | _ \<Rightarrow> None)"

definition in_network :: "nat \<Rightarrow> ipv4_network \<Rightarrow> bool" where
  "in_network ip n \<longleftrightarrow>
     ip div 2 ^ (32 - prefixlen n) * 2 ^ (32 - prefixlen n) = network_address n"

definition overlaps :: "ipv4_network \<Rightarrow> ipv4_network \<Rightarrow> bool" where
  "overlaps a b \<longleftrightarrow>
     in_network (network_address b) a \<or> in_network (broadcast_address b) a \<or>
     in_network (network_address a) b \<or> in_network (broadcast_address a) b"

text \<open>
  \<open>hosts()\<close>: all addresses but the first and the last; both addresses of a /31, the address
  itself of a /32.
\<close>

definition hosts :: "ipv4_network \<Rightarrow> nat list" where
  "hosts n =
     (if prefixlen n = 31 then [network_address n ..< network_address n + 2]
      else if prefixlen n = 32 then [network_address n]
      else [network_address n + 1 ..< broadcast_address n])"

definition ipv4 :: "nat \<Rightarrow> nat \<Rightarrow> nat \<Rightarrow> nat \<Rightarrow> nat" where
  "ipv4 a b c d = ((a * 256 + b) * 256 + c) * 256 + d"

definition private_networks :: "ipv4_network list" where
  "private_networks =
     [network_of (ipv4 0 0 0 0) 8, network_of (ipv4 10 0 0 0) 8, network_of (ipv4 127 0 0 0) 8,
      network_of (ipv4 169 254 0 0) 16, network_of (ipv4 172 16 0 0) 12,
      network_of (ipv4 192 0 0 0) 24, network_of (ipv4 192 0 0 170) 31,
      network_of (ipv4 192 0 2 0) 24, network_of (ipv4 192 168 0 0) 16,
      network_of (ipv4 198 18 0 0) 15, network_of (ipv4 198 51 100 0) 24,
      network_of (ipv4 203 0 113 0) 24, network_of (ipv4 240 0 0 0) 4,
      network_of (ipv4 255 255 255 255) 32]"

definition private_networks_exceptions :: "ipv4_network list" where
  "private_networks_exceptions =
     [network_of (ipv4 192 0 0 9) 32, network_of (ipv4 192 0 0 10) 32]"

definition is_private :: "ipv4_network \<Rightarrow> bool" where
  "is_private n \<longleftrightarrow>
     list_ex (\<lambda>p. in_network (network_address n) p \<and> in_network (broadcast_address n) p)
       private_networks \<and>
     list_all (\<lambda>p. \<not> in_network (network_address n) p \<and> \<not> in_network (broadcast_address n) p)
       private_networks_exceptions"

definition is_loopback :: "ipv4_network \<Rightarrow> bool" where
  "is_loopback n \<longleftrightarrow>
     in_network (network_address n) (network_of (ipv4 127 0 0 0) 8) \<and>
     in_network (broadcast_address n) (network_of (ipv4 127 0 0 0) 8)"

lemmas ipv4_eval [py_simps] =
  IPv4Network_def make_netmask_def prefix_from_prefix_string_def prefix_from_ip_string_def
  prefix_from_ip_int_def ip_int_from_string_def parse_octet_def is_ascii_digits_def is_digit_def
  nat_of_digits_def digit_value_def network_of_def in_network_def broadcast_address_def
  num_addresses_def ipv4_def

lemmas hosts_eval [py_simps] = hosts_def upt_conv_Cons

section \<open>Well-formed networks\<close>

definition wf_network :: "ipv4_network \<Rightarrow> bool" where
  "wf_network n \<longleftrightarrow>
     prefixlen n \<le> 32 \<and> network_address n mod num_addresses n = 0 \<and>
     network_address n + num_addresses n \<le> 2 ^ 32"

lemma num_addresses_pos [simp]: "0 < num_addresses n"
  by (simp add: num_addresses_def)

lemma num_addresses_ge1: "1 \<le> num_addresses n"
  using num_addresses_pos [of n] by linarith

lemma wf_network_of:
  assumes "ip < 2 ^ 32" and "p \<le> 32"
  shows "wf_network (network_of ip p)"
proof -
  let ?k = "2 ^ (32 - p) :: nat"
  have dvd: "?k dvd 2 ^ 32" by (rule le_imp_power_dvd) simp
  then obtain q where q: "2 ^ 32 = ?k * q" by (elim dvdE)
  have "ip div ?k < q" using assms(1) q by (simp add: less_mult_imp_div_less mult.commute)
  then have "(ip div ?k + 1) * ?k \<le> q * ?k" by (intro mult_le_mono1) simp
  then have "ip div ?k * ?k + ?k \<le> 2 ^ 32" using q by (simp add: algebra_simps)
  then show ?thesis
    using assms(2) by (simp add: wf_network_def network_of_def num_addresses_def)
qed

lemma prefix_from_ip_int_bound: "prefix_from_ip_int n = Some p \<Longrightarrow> p \<le> 32"
  by (auto simp: prefix_from_ip_int_def Let_def split: if_splits)

lemma make_netmask_bound: "make_netmask s = Some p \<Longrightarrow> p \<le> 32"
  by (auto simp: make_netmask_def prefix_from_prefix_string_def prefix_from_ip_string_def
      split: option.splits if_splits dest: prefix_from_ip_int_bound)

lemma IPv4Network_wf: "IPv4Network s = Some n \<Longrightarrow> wf_network n"
  by (auto simp: IPv4Network_def split: list.splits option.splits
      intro!: wf_network_of ip_int_from_string_bound make_netmask_bound)

lemma in_network_iff:
  assumes "wf_network n"
  shows "in_network ip n \<longleftrightarrow> network_address n \<le> ip \<and> ip \<le> broadcast_address n"
proof -
  let ?k = "num_addresses n"
  obtain q where q: "network_address n = q * ?k"
    using assms by (auto simp: wf_network_def mod_eq_0_iff_dvd dvd_def mult.commute)
  have "in_network ip n \<longleftrightarrow> ip div ?k = q"
    using q num_addresses_pos [of n] by (simp add: in_network_def num_addresses_def)
  also have "\<dots> \<longleftrightarrow> q * ?k \<le> ip \<and> ip < (q + 1) * ?k"
  proof
    assume "ip div ?k = q"
    then show "q * ?k \<le> ip \<and> ip < (q + 1) * ?k"
      using num_addresses_pos [of n] dividend_less_div_times [of ?k ip]
      by (auto simp: algebra_simps times_div_less_eq_dividend)
  next
    assume "q * ?k \<le> ip \<and> ip < (q + 1) * ?k"
    then show "ip div ?k = q"
      by (intro div_nat_eqI) (simp_all add: algebra_simps)
  qed
  also have "\<dots> \<longleftrightarrow> network_address n \<le> ip \<and> ip \<le> broadcast_address n"
    using num_addresses_ge1 [of n] unfolding q broadcast_address_def
    by (simp only: distrib_right mult_1) linarith
  finally show ?thesis .
qed

lemma network_le_broadcast: "network_address n \<le> broadcast_address n"
  using num_addresses_ge1 [of n] unfolding broadcast_address_def by linarith

text \<open>
  The module compares end points only; on well-formed networks that is the same as sharing an
  address.
\<close>

lemma overlaps_iff_common:
  assumes "wf_network a" and "wf_network b"
  shows "overlaps a b \<longleftrightarrow> (\<exists>ip. in_network ip a \<and> in_network ip b)"
proof
  assume "overlaps a b"
  then show "\<exists>ip. in_network ip a \<and> in_network ip b"
    using network_le_broadcast [of a] network_le_broadcast [of b]
    unfolding overlaps_def in_network_iff [OF assms(1)] in_network_iff [OF assms(2)] by auto
next
  assume "\<exists>ip. in_network ip a \<and> in_network ip b"
  then show "overlaps a b"
    unfolding overlaps_def in_network_iff [OF assms(1)] in_network_iff [OF assms(2)] by auto
qed

lemma overlaps_sym: "overlaps a b \<longleftrightarrow> overlaps b a"
  by (auto simp: overlaps_def)

lemma distinct_hosts [simp]: "distinct (hosts n)"
  by (simp add: hosts_def)

lemma hosts_in_network:
  assumes "wf_network n" and "ip \<in> set (hosts n)"
  shows "in_network ip n"
proof -
  have "prefixlen n = 31 \<Longrightarrow> num_addresses n = 2" "prefixlen n = 32 \<Longrightarrow> num_addresses n = 1"
    by (simp_all add: num_addresses_def)
  with assms(2) show ?thesis
    unfolding in_network_iff [OF assms(1)]
    by (auto simp: hosts_def broadcast_address_def split: if_splits)
qed

lemma wf_network_host_bound:
  assumes "wf_network n" and "in_network ip n"
  shows "ip < 2 ^ 32"
  using assms num_addresses_pos [of n] in_network_iff [OF assms(1), of ip]
  by (auto simp: wf_network_def broadcast_address_def)

lemma hosts_bound: "wf_network n \<Longrightarrow> ip \<in> set (hosts n) \<Longrightarrow> ip < 2 ^ 32"
  by (rule wf_network_host_bound) (auto intro: hosts_in_network)

lemma hosts_not_ends:
  assumes "prefixlen n \<le> 30" and "ip \<in> set (hosts n)"
  shows "ip \<noteq> network_address n \<and> ip \<noteq> broadcast_address n"
  using assms by (auto simp: hosts_def)

text \<open>Printing a network and parsing it gives it back.\<close>

definition str_network :: "ipv4_network \<Rightarrow> string" where
  "str_network n = str_ipv4 (network_address n) @ ''/'' @ str_nat (prefixlen n)"

lemma slash_not_in_str_ipv4: "CHR ''/'' \<notin> set (str_ipv4 n)"
  by (simp add: str_ipv4_def octets_def)

lemma IPv4Network_render:
  assumes "ip < 2 ^ 32" and "p \<le> 32"
  shows "IPv4Network (str_ipv4 ip @ ''/'' @ str_nat p) = Some (network_of ip p)"
proof -
  have "split_on CHR ''/'' (str_ipv4 ip @ ''/'' @ str_nat p) = [str_ipv4 ip, str_nat p]"
    using split_on_append_sep [OF slash_not_in_str_ipv4, of ip "str_nat p"]
    by (simp add: split_on_no_sep)
  moreover have "make_netmask (str_nat p) = Some p"
    using assms(2) by (simp add: make_netmask_def prefix_from_prefix_string_def)
  ultimately show ?thesis
    using assms(1) by (simp add: IPv4Network_def)
qed

lemma IPv4Network_str_network:
  assumes "wf_network n"
  shows "IPv4Network (str_network n) = Some n"
proof -
  have "network_address n < 2 ^ 32" "prefixlen n \<le> 32"
    using assms num_addresses_ge1 [of n] unfolding wf_network_def by linarith+
  moreover have "network_of (network_address n) (prefixlen n) = n"
    using assms by (cases n) (auto simp: wf_network_def network_of_def num_addresses_def)
  ultimately show ?thesis
    using IPv4Network_render [of "network_address n" "prefixlen n"] by (simp add: str_network_def)
qed

end
