(* ===== verification/Topology.thy ===== *)
theory Topology
  imports Domain Ipv4
begin

text \<open>
  \<open>backend/app/services/topology.py\<close>: the plan of a device's peers in the star, mesh and hybrid
  topologies, and the rendering of a configuration as WireGuard INI text. The abstract class
  \<open>TopologyGenerator\<close> is the locale \<open>topology_generator\<close>; the three generators interpret it.
  A dictionary keyed by device id is a map; the empty dictionary and \<open>None\<close> (\<open>x or {}\<close>) are the
  empty map.
\<close>

section \<open>State and plans\<close>

datatype topology_type = STAR | MESH | HYBRID

record device_state =
  ds_id :: string
  ds_public_key :: string
  ds_ip_address :: string
  ds_dns_enabled :: bool
  ds_exit_node_id :: "string option"

record network_state =
  ns_subnet :: string
  ns_topology :: "string option"

record peer_plan =
  pp_public_key :: string
  pp_allowed_ips :: "string list"
  pp_endpoint :: "string option"
  pp_endpoint_port :: "int option"
  pp_persistent_keepalive :: "int option"
  pp_relay_fallback :: bool

record topology_plan =
  tp_device_id :: string
  tp_address :: string
  tp_subnet :: string
  tp_dns_servers :: "string list option"
  tp_peers :: "peer_plan list"
  tp_mtu :: "int option"

type_synonym routes_by_device = "string \<rightharpoonup> string list"
type_synonym endpoints_by_device = "string \<rightharpoonup> endpoint list"

definition get_list :: "(string \<rightharpoonup> 'a list) \<Rightarrow> string \<Rightarrow> 'a list" where
  "get_list m k = (case m k of None \<Rightarrow> [] | Some xs \<Rightarrow> xs)"

definition peer_plan_of :: "string \<Rightarrow> string list \<Rightarrow> peer_plan" where
  "peer_plan_of key ips =
     \<lparr>pp_public_key = key, pp_allowed_ips = ips, pp_endpoint = None, pp_endpoint_port = None,
      pp_persistent_keepalive = None, pp_relay_fallback = False\<rparr>"

definition plan_of :: "device_state \<Rightarrow> network_state \<Rightarrow> peer_plan list \<Rightarrow> topology_plan" where
  "plan_of dev n peers =
     \<lparr>tp_device_id = ds_id dev, tp_address = ds_ip_address dev, tp_subnet = ns_subnet n,
      tp_dns_servers = None, tp_peers = peers, tp_mtu = None\<rparr>"

section \<open>Endpoint choice of the planners\<close>

text \<open>
  Highest priority number first, then most recently seen. Every endpoint row has a \<open>last_seen\<close>.
\<close>

definition sort_endpoints :: "endpoint list \<Rightarrow> endpoint list" where
  "sort_endpoints eps = sorted_by (\<lambda>e. (- ep_priority e, - ep_last_seen e)) eps"

definition best_endpoint :: "endpoint list \<Rightarrow> string option \<times> int option" where
  "best_endpoint eps =
     (let active = filter ep_is_active eps in
      if active = [] then (None, None)
      else (let best = hd (sort_endpoints active) in (Some (ep_endpoint best), Some (ep_port best))))"

section \<open>The three generators\<close>

definition server_endpoint :: "settings \<Rightarrow> string" where
  "server_endpoint cfg =
     (if cfg_wireguard_server_endpoint cfg = [] then ''localhost''
      else cfg_wireguard_server_endpoint cfg)"

text \<open>The exit-node tail that the three generators share, word for word.\<close>

definition exit_node_peers :: "device_state \<Rightarrow> device_state list \<Rightarrow> string \<Rightarrow> peer_plan list
    \<Rightarrow> peer_plan list" where
  "exit_node_peers dev all_devices server_id peers =
     (case ds_exit_node_id dev of
        None \<Rightarrow> peers
      | Some x \<Rightarrow>
          (if x = [] \<or> x = server_id then peers
           else (case filter (\<lambda>d. ds_id d = x) all_devices of
                   [] \<Rightarrow> peers
                 | ed # _ \<Rightarrow>
                     (if ds_public_key ed \<noteq> [] \<and>
                         \<not> list_ex (\<lambda>p. pp_public_key p = ds_public_key ed) peers
                      then peers @ [peer_plan_of (ds_public_key ed) [''0.0.0.0/0'', ''::/0'']]
                      else peers))))"

definition host_and_routes :: "routes_by_device \<Rightarrow> device_state \<Rightarrow> string list" where
  "host_and_routes rbd other = (ds_ip_address other @ ''/32'') # get_list rbd (ds_id other)"

definition star_generate_plan :: "settings \<Rightarrow> device_state \<Rightarrow> device_state list \<Rightarrow> network_state
    \<Rightarrow> string \<Rightarrow> routes_by_device \<Rightarrow> endpoints_by_device \<Rightarrow> topology_plan" where
  "star_generate_plan cfg dev all_devices n server_id rbd ebd =
     (case find (\<lambda>d. ds_id d = server_id) all_devices of
        None \<Rightarrow> plan_of dev n []
      | Some server \<Rightarrow>
          (if ds_id dev = server_id
           then plan_of dev n
                  (map (\<lambda>other. peer_plan_of (ds_public_key other) (host_and_routes rbd other))
                    (filter (\<lambda>d. ds_id d \<noteq> server_id) all_devices))
           else plan_of dev n
                  (exit_node_peers dev all_devices server_id
                    [\<lparr>pp_public_key = ds_public_key server, pp_allowed_ips = [ns_subnet n],
                      pp_endpoint = Some (server_endpoint cfg),
                      pp_endpoint_port = Some (cfg_wireguard_port cfg),
                      pp_persistent_keepalive = Some 25, pp_relay_fallback = False\<rparr>])))"

definition mesh_peer :: "settings \<Rightarrow> string \<Rightarrow> routes_by_device \<Rightarrow> endpoints_by_device
    \<Rightarrow> device_state \<Rightarrow> peer_plan" where
  "mesh_peer cfg server_id rbd ebd other =
     (let eps = get_list ebd (ds_id other);
          (ep, ep_port) = best_endpoint eps
      in \<lparr>pp_public_key = ds_public_key other,
          pp_allowed_ips = host_and_routes rbd other,
          pp_endpoint = or_str ep (if ds_id other = server_id then Some (server_endpoint cfg) else None),
          pp_endpoint_port =
            or_int ep_port (if ds_id other = server_id then Some (cfg_wireguard_port cfg) else None),
          pp_persistent_keepalive = Some 25,
          pp_relay_fallback = (eps = [])\<rparr>)"

definition mesh_generate_plan :: "settings \<Rightarrow> device_state \<Rightarrow> device_state list \<Rightarrow> network_state
    \<Rightarrow> string \<Rightarrow> routes_by_device \<Rightarrow> endpoints_by_device \<Rightarrow> topology_plan" where
  "mesh_generate_plan cfg dev all_devices n server_id rbd ebd =
     plan_of dev n
       (exit_node_peers dev all_devices server_id
         (map (mesh_peer cfg server_id rbd ebd) (filter (\<lambda>d. ds_id d \<noteq> ds_id dev) all_devices)))"

definition hybrid_peer :: "settings \<Rightarrow> network_state \<Rightarrow> string \<Rightarrow> routes_by_device
    \<Rightarrow> endpoints_by_device \<Rightarrow> device_state \<Rightarrow> peer_plan" where
  "hybrid_peer cfg n server_id rbd ebd other =
     (let (ep, ep_port) = best_endpoint (get_list ebd (ds_id other)) in
      if ds_id other = server_id then
        \<lparr>pp_public_key = ds_public_key other, pp_allowed_ips = [ns_subnet n],
         pp_endpoint = or_str ep (Some (server_endpoint cfg)),
         pp_endpoint_port = or_int ep_port (Some (cfg_wireguard_port cfg)),
         pp_persistent_keepalive = Some 25, pp_relay_fallback = False\<rparr>
      else if truthy_str ep then
        \<lparr>pp_public_key = ds_public_key other, pp_allowed_ips = host_and_routes rbd other,
         pp_endpoint = ep, pp_endpoint_port = ep_port,
         pp_persistent_keepalive = Some 25, pp_relay_fallback = False\<rparr>
      else (peer_plan_of (ds_public_key other) (host_and_routes rbd other))
             \<lparr>pp_relay_fallback := True\<rparr>)"

definition hybrid_generate_plan :: "settings \<Rightarrow> device_state \<Rightarrow> device_state list \<Rightarrow> network_state
    \<Rightarrow> string \<Rightarrow> routes_by_device \<Rightarrow> endpoints_by_device \<Rightarrow> topology_plan" where
  "hybrid_generate_plan cfg dev all_devices n server_id rbd ebd =
     plan_of dev n
       (exit_node_peers dev all_devices server_id
         (map (hybrid_peer cfg n server_id rbd ebd)
           (filter (\<lambda>d. ds_id d \<noteq> ds_id dev) all_devices)))"

section \<open>INI rendering\<close>

record peer_config =
  pc_public_key :: string
  pc_allowed_ips :: "string list"
  pc_endpoint :: "string option"
  pc_endpoint_port :: "int option"
  pc_persistent_keepalive :: "int option"

record wireguard_config =
  wc_private_key :: string
  wc_address :: string
  wc_subnet :: string
  wc_listen_port :: "int option"
  wc_dns_servers :: "string list option"
  wc_peers :: "peer_config list"
  wc_mtu :: "int option"

definition peer_lines :: "peer_config \<Rightarrow> string list" where
  "peer_lines p =
     [''[Peer]'', ''PublicKey = '' @ pc_public_key p] @
     (case pc_endpoint p of
        None \<Rightarrow> []
      | Some e \<Rightarrow> if e = [] then []
                  else [''Endpoint = '' @ e @ '':'' @
                        str_int (case or_int (pc_endpoint_port p) (Some 51820) of
                                   Some port \<Rightarrow> port | None \<Rightarrow> 51820)]) @
     (if pc_allowed_ips p = [] then []
      else [''AllowedIPs = '' @ join '', '' (pc_allowed_ips p)]) @
     (case pc_persistent_keepalive p of
        None \<Rightarrow> [] | Some k \<Rightarrow> [''PersistentKeepalive = '' @ str_int k]) @
     [[]]"

definition to_ini :: "wireguard_config \<Rightarrow> string result" where
  "to_ini c =
     (case IPv4Network (wc_subnet c) of
        None \<Rightarrow> Inl (ValueError ''IPv4Network'')
      | Some n \<Rightarrow>
          Inr (join (''\<newline>'')
            ([''[Interface]'', ''PrivateKey = '' @ wc_private_key c,
              ''Address = '' @ wc_address c @ ''/'' @ str_nat (prefixlen n)] @
             (if truthy_int (wc_listen_port c)
              then [''ListenPort = '' @ str_int (the (wc_listen_port c))] else []) @
             (case wc_dns_servers c of
                None \<Rightarrow> [] | Some ds \<Rightarrow> if ds = [] then [] else [''DNS = '' @ join '', '' ds]) @
             (if truthy_int (wc_mtu c) then [''MTU = '' @ str_int (the (wc_mtu c))] else []) @
             [[]] @ concat (map peer_lines (wc_peers c)))))"

section \<open>Configurations of all devices\<close>

definition device_state_of :: "device \<Rightarrow> device_state" where
  "device_state_of r =
     \<lparr>ds_id = dev_id r,
      ds_public_key = (case dev_public_key r of None \<Rightarrow> [] | Some k \<Rightarrow> k),
      ds_ip_address = (case dev_ip_address r of None \<Rightarrow> [] | Some a \<Rightarrow> a),
      ds_dns_enabled = dev_dns_enabled r,
      ds_exit_node_id = dev_exit_node_id r\<rparr>"

definition peer_config_of :: "peer_plan \<Rightarrow> peer_config" where
  "peer_config_of pp =
     \<lparr>pc_public_key = pp_public_key pp, pc_allowed_ips = pp_allowed_ips pp,
      pc_endpoint = pp_endpoint pp, pc_endpoint_port = pp_endpoint_port pp,
      pc_persistent_keepalive = pp_persistent_keepalive pp\<rparr>"

text \<open>
  \<open>decrypt\<close> stands for Fernet decryption of the stored key, which raises on a bad token; \<open>gp\<close> is the
  generator's own \<open>generate_plan\<close>, already applied to the settings.
\<close>

fun generate_configs_loop :: "(string \<Rightarrow> string result) \<Rightarrow> (device_state \<Rightarrow> topology_plan) \<Rightarrow> settings
    \<Rightarrow> string \<Rightarrow> string \<Rightarrow> string list option \<Rightarrow> device list
    \<Rightarrow> (uuid \<times> wireguard_config) list \<Rightarrow> (uuid \<times> wireguard_config) list result" where
  "generate_configs_loop decrypt plan cfg subnet server_id dns [] configs = Inr configs"
| "generate_configs_loop decrypt plan cfg subnet server_id dns (r # rs) configs =
     (if \<not> truthy_str (dev_private_key_enc r) \<or> \<not> truthy_str (dev_ip_address r) \<or>
         \<not> truthy_str (dev_public_key r)
      then generate_configs_loop decrypt plan cfg subnet server_id dns rs configs
      else bind_result (decrypt (the (dev_private_key_enc r))) (\<lambda>private.
        generate_configs_loop decrypt plan cfg subnet server_id dns rs
          (AList.update (dev_id r)
            \<lparr>wc_private_key = private, wc_address = the (dev_ip_address r), wc_subnet = subnet,
             wc_listen_port = (if dev_id r = server_id then Some (cfg_wireguard_port cfg) else None),
             wc_dns_servers = (if dev_dns_enabled r then dns else None),
             wc_peers = map peer_config_of (tp_peers (plan (device_state_of r))),
             wc_mtu = None\<rparr> configs)))"

definition generate_configs :: "(string \<Rightarrow> string result)
    \<Rightarrow> (settings \<Rightarrow> device_state \<Rightarrow> device_state list \<Rightarrow> network_state \<Rightarrow> string
        \<Rightarrow> routes_by_device \<Rightarrow> endpoints_by_device \<Rightarrow> topology_plan)
    \<Rightarrow> settings \<Rightarrow> device list \<Rightarrow> device \<Rightarrow> network \<Rightarrow> string list option
    \<Rightarrow> routes_by_device \<Rightarrow> endpoints_by_device \<Rightarrow> (uuid \<times> wireguard_config) list result" where
  "generate_configs decrypt gp cfg devs server n dns rbd ebd =
     (let all_devices = map device_state_of
            (filter (\<lambda>r. truthy_str (dev_public_key r) \<and> truthy_str (dev_ip_address r)) devs);
          ns = \<lparr>ns_subnet = net_subnet n, ns_topology = None\<rparr>
      in generate_configs_loop decrypt
           (\<lambda>dev. gp cfg dev all_devices ns (dev_id server) rbd ebd)
           cfg (net_subnet n) (dev_id server) dns devs [])"

section \<open>The contract of a generator\<close>

text \<open>
  What \<open>TopologyGenerator\<close> promises its clients: the plan carries the device's own identity and
  address and the network's subnet; every peer is a device of the network; the device itself is a
  peer only when it has been made its own exit node; and nobody is a peer twice when keys are
  distinct.
\<close>

locale topology_generator =
  fixes generate_plan :: "settings \<Rightarrow> device_state \<Rightarrow> device_state list \<Rightarrow> network_state \<Rightarrow> string
    \<Rightarrow> routes_by_device \<Rightarrow> endpoints_by_device \<Rightarrow> topology_plan"
  assumes plan_identity:
    "tp_device_id (generate_plan cfg dev ds n sid rbd ebd) = ds_id dev"
    "tp_address (generate_plan cfg dev ds n sid rbd ebd) = ds_ip_address dev"
    "tp_subnet (generate_plan cfg dev ds n sid rbd ebd) = ns_subnet n"
    and plan_peers_known:
    "p \<in> set (tp_peers (generate_plan cfg dev ds n sid rbd ebd)) \<Longrightarrow>
       \<exists>oth \<in> set ds. pp_public_key p = ds_public_key oth \<and>
         (ds_id oth \<noteq> ds_id dev \<or> ds_exit_node_id dev = Some (ds_id dev))"
    and plan_peers_distinct:
    "distinct (map ds_id ds) \<Longrightarrow> distinct (map ds_public_key ds) \<Longrightarrow>
       distinct (map pp_public_key (tp_peers (generate_plan cfg dev ds n sid rbd ebd)))"
begin

text \<open>A device that is not its own exit node never gets its own key as a peer.\<close>

lemma no_self_peer:
  assumes "dev \<in> set ds" and "distinct (map ds_public_key ds)"
    and "ds_exit_node_id dev \<noteq> Some (ds_id dev)"
  shows "ds_public_key dev \<notin> pp_public_key ` set (tp_peers (generate_plan cfg dev ds n sid rbd ebd))"
proof
  assume "ds_public_key dev \<in> pp_public_key ` set (tp_peers (generate_plan cfg dev ds n sid rbd ebd))"
  then obtain p where p: "p \<in> set (tp_peers (generate_plan cfg dev ds n sid rbd ebd))"
    "pp_public_key p = ds_public_key dev" by auto
  from plan_peers_known [OF p(1)] assms(3) obtain o' where o': "o' \<in> set ds"
    "ds_public_key o' = ds_public_key dev" "ds_id o' \<noteq> ds_id dev" using p(2) by auto
  with assms(1,2) have "o' = dev" by (auto simp: distinct_map inj_on_def)
  with o'(3) show False by simp
qed

text \<open>At most one peer entry per other device.\<close>

lemma peers_bounded:
  assumes "distinct (map ds_id ds)" and "distinct (map ds_public_key ds)"
  shows "length (tp_peers (generate_plan cfg dev ds n sid rbd ebd)) \<le> length ds"
proof -
  let ?ps = "tp_peers (generate_plan cfg dev ds n sid rbd ebd)"
  have "length ?ps = card (set (map pp_public_key ?ps))"
    using distinct_card [OF plan_peers_distinct [OF assms]] by simp
  also have "\<dots> \<le> card (set (map ds_public_key ds))"
    using plan_peers_known by (intro card_mono) fastforce+
  also have "\<dots> \<le> length ds" using card_length [of "map ds_public_key ds"] by simp
  finally show ?thesis .
qed

end

lemma plan_of_simps [simp]:
  "tp_device_id (plan_of dev n ps) = ds_id dev" "tp_address (plan_of dev n ps) = ds_ip_address dev"
  "tp_subnet (plan_of dev n ps) = ns_subnet n" "tp_peers (plan_of dev n ps) = ps"
  "tp_dns_servers (plan_of dev n ps) = None" "tp_mtu (plan_of dev n ps) = None"
  by (simp_all add: plan_of_def)

lemma peer_plan_of_simps [simp]:
  "pp_public_key (peer_plan_of k ips) = k" "pp_allowed_ips (peer_plan_of k ips) = ips"
  "pp_endpoint (peer_plan_of k ips) = None" "pp_relay_fallback (peer_plan_of k ips) = False"
  "pp_endpoint_port (peer_plan_of k ips) = None" "pp_persistent_keepalive (peer_plan_of k ips) = None"
  by (simp_all add: peer_plan_of_def)

lemma mesh_peer_simps [simp]:
  "pp_public_key (mesh_peer cfg sid rbd ebd other) = ds_public_key other"
  "pp_allowed_ips (mesh_peer cfg sid rbd ebd other) = host_and_routes rbd other"
  "pp_relay_fallback (mesh_peer cfg sid rbd ebd other) = (get_list ebd (ds_id other) = [])"
  by (simp_all add: mesh_peer_def Let_def split: prod.split)

lemma hybrid_peer_simps [simp]:
  "pp_public_key (hybrid_peer cfg n sid rbd ebd other) = ds_public_key other"
  "pp_allowed_ips (hybrid_peer cfg n sid rbd ebd other) =
     (if ds_id other = sid then [ns_subnet n] else host_and_routes rbd other)"
  by (simp_all add: hybrid_peer_def Let_def split: prod.split)

lemma exit_node_peers_cases:
  obtains "exit_node_peers dev ds sid ps = ps"
  | ed where "ed \<in> set ds" "ds_exit_node_id dev = Some (ds_id ed)" "ds_id ed \<noteq> sid"
      "ds_public_key ed \<notin> pp_public_key ` set ps"
      "exit_node_peers dev ds sid ps =
         ps @ [peer_plan_of (ds_public_key ed) [''0.0.0.0/0'', ''::/0'']]"
proof (cases "exit_node_peers dev ds sid ps = ps")
  case False
  then obtain x ed rest where x: "ds_exit_node_id dev = Some x" "x \<noteq> sid"
      "filter (\<lambda>d. ds_id d = x) ds = ed # rest"
      "\<not> list_ex (\<lambda>p. pp_public_key p = ds_public_key ed) ps"
      "exit_node_peers dev ds sid ps =
         ps @ [peer_plan_of (ds_public_key ed) [''0.0.0.0/0'', ''::/0'']]"
    by (auto simp: exit_node_peers_def split: option.splits list.splits if_splits)
  from x(3) have "ed \<in> set (filter (\<lambda>d. ds_id d = x) ds)" by simp
  then have "ed \<in> set ds" "ds_id ed = x" by auto
  moreover have "ds_public_key ed \<notin> pp_public_key ` set ps"
    using x(4) by (auto simp: list_ex_iff)
  ultimately show ?thesis using x that(2) [of ed] by blast
qed (rule that(1))

lemma exit_peers_known:
  assumes "p \<in> set (exit_node_peers dev ds sid ps)"
    and "\<And>p. p \<in> set ps \<Longrightarrow> \<exists>oth \<in> set ds. pp_public_key p = ds_public_key oth \<and> ds_id oth \<noteq> ds_id dev"
  shows "\<exists>oth \<in> set ds. pp_public_key p = ds_public_key oth \<and>
         (ds_id oth \<noteq> ds_id dev \<or> ds_exit_node_id dev = Some (ds_id dev))"
  using assms by (cases rule: exit_node_peers_cases [of dev ds sid ps]) auto

lemma exit_peers_distinct:
  assumes "distinct (map pp_public_key ps)"
  shows "distinct (map pp_public_key (exit_node_peers dev ds sid ps))"
  using assms by (cases rule: exit_node_peers_cases [of dev ds sid ps]) auto

interpretation star: topology_generator star_generate_plan
proof
  fix cfg dev ds n sid rbd ebd p
  assume p: "p \<in> set (tp_peers (star_generate_plan cfg dev ds n sid rbd ebd))"
  show "\<exists>oth \<in> set ds. pp_public_key p = ds_public_key oth \<and>
         (ds_id oth \<noteq> ds_id dev \<or> ds_exit_node_id dev = Some (ds_id dev))"
  proof (cases "find (\<lambda>d. ds_id d = sid) ds")
    case None
    with p show ?thesis by (simp add: star_generate_plan_def)
  next
    case (Some server)
    then have server: "server \<in> set ds" "ds_id server = sid" by (auto dest: find_SomeD)
    show ?thesis
    proof (cases "ds_id dev = sid")
      case True
      with p Some show ?thesis by (auto simp: star_generate_plan_def)
    next
      case False
      with Some have "tp_peers (star_generate_plan cfg dev ds n sid rbd ebd) =
          exit_node_peers dev ds sid
                    [\<lparr>pp_public_key = ds_public_key server, pp_allowed_ips = [ns_subnet n],
                      pp_endpoint = Some (server_endpoint cfg),
                      pp_endpoint_port = Some (cfg_wireguard_port cfg),
                      pp_persistent_keepalive = Some 25, pp_relay_fallback = False\<rparr>]"
        by (simp add: star_generate_plan_def)
      with p server False show ?thesis
        by (intro exit_peers_known [where ps = "[_]"]) (simp, auto)
    qed
  qed
next
  fix cfg dev n sid rbd ebd and ds :: "device_state list"
  assume "distinct (map ds_public_key ds)"
  then show "distinct (map pp_public_key (tp_peers (star_generate_plan cfg dev ds n sid rbd ebd)))"
    by (auto simp: star_generate_plan_def comp_def distinct_map_filter split: option.splits
        intro!: exit_peers_distinct)
qed (auto simp: star_generate_plan_def split: option.splits)

interpretation mesh: topology_generator mesh_generate_plan
proof
  fix cfg dev ds n sid rbd ebd p
  assume "p \<in> set (tp_peers (mesh_generate_plan cfg dev ds n sid rbd ebd))"
  then show "\<exists>oth \<in> set ds. pp_public_key p = ds_public_key oth \<and>
         (ds_id oth \<noteq> ds_id dev \<or> ds_exit_node_id dev = Some (ds_id dev))"
    unfolding mesh_generate_plan_def plan_of_simps by (elim exit_peers_known) auto
next
  fix cfg dev n sid rbd ebd and ds :: "device_state list"
  assume "distinct (map ds_public_key ds)"
  then show "distinct (map pp_public_key (tp_peers (mesh_generate_plan cfg dev ds n sid rbd ebd)))"
    by (auto simp: mesh_generate_plan_def comp_def distinct_map_filter intro!: exit_peers_distinct)
qed (simp_all add: mesh_generate_plan_def)

interpretation hybrid: topology_generator hybrid_generate_plan
proof
  fix cfg dev ds n sid rbd ebd p
  assume "p \<in> set (tp_peers (hybrid_generate_plan cfg dev ds n sid rbd ebd))"
  then show "\<exists>oth \<in> set ds. pp_public_key p = ds_public_key oth \<and>
         (ds_id oth \<noteq> ds_id dev \<or> ds_exit_node_id dev = Some (ds_id dev))"
    unfolding hybrid_generate_plan_def plan_of_simps by (elim exit_peers_known) auto
next
  fix cfg dev n sid rbd ebd and ds :: "device_state list"
  assume "distinct (map ds_public_key ds)"
  then show "distinct (map pp_public_key (tp_peers (hybrid_generate_plan cfg dev ds n sid rbd ebd)))"
    by (auto simp: hybrid_generate_plan_def comp_def distinct_map_filter
        intro!: exit_peers_distinct)
qed (simp_all add: hybrid_generate_plan_def)

section \<open>Facts on the planners\<close>

lemma exit_node_already_peer:
  assumes keys: "\<And>d. d \<in> set ds \<Longrightarrow> ds_id d \<noteq> ds_id dev \<Longrightarrow> ds_public_key d \<in> pp_public_key ` set ps"
    and self: "ds_exit_node_id dev \<noteq> Some (ds_id dev)"
  shows "exit_node_peers dev ds sid ps = ps"
proof (cases rule: exit_node_peers_cases [of dev ds sid ps])
  case (2 ed)
  with self have "ds_id ed \<noteq> ds_id dev" by auto
  with 2 keys show ?thesis by blast
qed

lemma mesh_peers_exact:
  "ds_exit_node_id dev \<noteq> Some (ds_id dev) \<Longrightarrow>
     tp_peers (mesh_generate_plan cfg dev ds n sid rbd ebd) =
       map (mesh_peer cfg sid rbd ebd) (filter (\<lambda>d. ds_id d \<noteq> ds_id dev) ds)"
  unfolding mesh_generate_plan_def plan_of_simps
  by (rule exit_node_already_peer) (auto simp: image_image)

lemma hybrid_peers_exact:
  "ds_exit_node_id dev \<noteq> Some (ds_id dev) \<Longrightarrow>
     tp_peers (hybrid_generate_plan cfg dev ds n sid rbd ebd) =
       map (hybrid_peer cfg n sid rbd ebd) (filter (\<lambda>d. ds_id d \<noteq> ds_id dev) ds)"
  unfolding hybrid_generate_plan_def plan_of_simps
  by (rule exit_node_already_peer) (auto simp: image_image)

lemma host_in_host_and_routes [simp]: "ds_ip_address d @ ''/32'' \<in> set (host_and_routes rbd d)"
  by (simp add: host_and_routes_def)

lemma best_endpoint_None: "best_endpoint eps = (None, None) \<longleftrightarrow> filter ep_is_active eps = []"
  by (auto simp: best_endpoint_def Let_def)

lemma best_endpoint_Some:
  assumes "best_endpoint eps = (Some a, pt)"
  obtains e where "e \<in> set eps" "ep_is_active e" "a = ep_endpoint e" "pt = Some (ep_port e)"
    "\<And>x. x \<in> set eps \<Longrightarrow> ep_is_active x \<Longrightarrow> ep_priority x \<le> ep_priority e"
proof -
  let ?act = "filter ep_is_active eps" and ?k = "\<lambda>e. (- ep_priority e, - ep_last_seen e)"
  have ne: "?act \<noteq> []" using assms by (auto simp: best_endpoint_def)
  let ?e = "hd (sort_endpoints ?act)"
  have mem: "?e \<in> set ?act" unfolding sort_endpoints_def using ne by (rule hd_sorted_by_mem)
  have "ep_priority x \<le> ep_priority ?e" if "x \<in> set ?act" for x
    using hd_sorted_by_le [OF that, of ?k]
    by (auto simp: sort_endpoints_def less_eq_prod_def)
  then show ?thesis
    using that [of ?e] mem assms ne by (auto simp: best_endpoint_def Let_def)
qed

section \<open>Properties\<close>

text \<open>
  In the mesh topology any two devices of a network are each other's peers: the plan of each
  has an entry with the other's public key, and that entry routes the other's own /32 address and
  all of the other's approved routes.
\<close>

theorem mesh_mutual_peers:
  assumes "a \<in> set ds" and "b \<in> set ds" and "ds_id a \<noteq> ds_id b"
  shows "(\<exists>p \<in> set (tp_peers (mesh_generate_plan cfg a ds n sid rbd ebd)).
            pp_public_key p = ds_public_key b \<and>
            pp_allowed_ips p = (ds_ip_address b @ ''/32'') # get_list rbd (ds_id b)) \<and>
         (\<exists>p \<in> set (tp_peers (mesh_generate_plan cfg b ds n sid rbd ebd)).
            pp_public_key p = ds_public_key a \<and>
            pp_allowed_ips p = (ds_ip_address a @ ''/32'') # get_list rbd (ds_id a))"
proof -
  have keep: "x \<in> set ps \<Longrightarrow> x \<in> set (exit_node_peers dev ds sid ps)" for x ps dev
    by (cases rule: exit_node_peers_cases [of dev ds sid ps]) auto
  have "mesh_peer cfg sid rbd ebd v \<in> set (tp_peers (mesh_generate_plan cfg u ds n sid rbd ebd))"
    if "v \<in> set ds" "ds_id u \<noteq> ds_id v" for u v
    unfolding mesh_generate_plan_def plan_of_simps using that by (intro keep) auto
  from this [of b a] this [of a b] assms show ?thesis
    by (metis host_and_routes_def mesh_peer_simps(1,2))
qed

definition demo_state :: "string \<Rightarrow> string \<Rightarrow> device_state" where
  "demo_state i a = \<lparr>ds_id = i, ds_public_key = i @ ''_key'', ds_ip_address = a,
     ds_dns_enabled = False, ds_exit_node_id = None\<rparr>"

definition demo_states :: "device_state list" where
  "demo_states = [demo_state ''s'' ''10.0.0.1'', demo_state ''a'' ''10.0.0.2'',
     (demo_state ''b'' ''10.0.0.3'')\<lparr>ds_exit_node_id := Some ''a''\<rparr>]"

lemmas demo_state_defs = demo_states_def demo_state_def

theorem mesh_mutual_peers_witness:
  "\<exists>p \<in> set (tp_peers (mesh_generate_plan default_settings (demo_state ''a'' ''10.0.0.2'')
       demo_states \<lparr>ns_subnet = ''10.0.0.0/24'', ns_topology = None\<rparr> ''s''
       [''s'' \<mapsto> [''192.168.1.0/24'']] Map.empty)).
     pp_public_key p = ''s_key'' \<and> pp_allowed_ips p = [''10.0.0.1/32'', ''192.168.1.0/24'']"
  using mesh_mutual_peers [of "demo_state ''a'' ''10.0.0.2''" demo_states "demo_state ''s'' ''10.0.0.1''"
      default_settings "\<lparr>ns_subnet = ''10.0.0.0/24'', ns_topology = None\<rparr>" "''s''"
      "[''s'' \<mapsto> [''192.168.1.0/24'']]" Map.empty]
  by (simp add: demo_state_defs get_list_def)

text \<open>
  No generator ever plans a device to peer with itself, unless the device was made its own exit
  node, and none plans the same key twice: stated for the star, the mesh and the hybrid generator.
\<close>

theorem plans_have_no_self_peer:
  assumes "dev \<in> set ds" and "distinct (map ds_id ds)" and "distinct (map ds_public_key ds)"
    and "ds_exit_node_id dev \<noteq> Some (ds_id dev)"
    and "gp \<in> {star_generate_plan, mesh_generate_plan, hybrid_generate_plan}"
  shows "ds_public_key dev \<notin> set (map pp_public_key (tp_peers (gp cfg dev ds n sid rbd ebd))) \<and>
    distinct (map pp_public_key (tp_peers (gp cfg dev ds n sid rbd ebd)))"
proof -
  have "ds_public_key dev \<notin> pp_public_key ` set (tp_peers (gp cfg dev ds n sid rbd ebd))"
    using assms(5) star.no_self_peer [OF assms(1,3,4)] mesh.no_self_peer [OF assms(1,3,4)]
      hybrid.no_self_peer [OF assms(1,3,4)] by blast
  moreover have "distinct (map pp_public_key (tp_peers (gp cfg dev ds n sid rbd ebd)))"
    using assms(5) star.plan_peers_distinct [OF assms(2,3)] mesh.plan_peers_distinct [OF assms(2,3)]
      hybrid.plan_peers_distinct [OF assms(2,3)] by blast
  ultimately show ?thesis by simp
qed

theorem plans_have_no_self_peer_witness:
  "''b_key'' \<notin> set (map pp_public_key (tp_peers (star_generate_plan default_settings
      ((demo_state ''b'' ''10.0.0.3'')\<lparr>ds_exit_node_id := Some ''a''\<rparr>) demo_states
      \<lparr>ns_subnet = ''10.0.0.0/24'', ns_topology = None\<rparr> ''s'' Map.empty Map.empty)))"
  using plans_have_no_self_peer [of "(demo_state ''b'' ''10.0.0.3'')\<lparr>ds_exit_node_id := Some ''a''\<rparr>"
      demo_states star_generate_plan default_settings
      "\<lparr>ns_subnet = ''10.0.0.0/24'', ns_topology = None\<rparr>" "''s''" Map.empty Map.empty]
  by (simp add: demo_state_defs)

text \<open>
  C36. In the star topology, when the hub is among the devices, the hub's plan has exactly one peer
  for each other device, in order, routing its /32 and its approved routes; any other device's plan
  starts with the hub, which routes the whole subnet, and has at most one further peer, which is
  the selected exit node and routes everything.
\<close>

theorem star_hub_and_spoke:
  assumes "find (\<lambda>d. ds_id d = sid) ds = Some server"
  shows "(ds_id dev = sid \<longrightarrow>
            map (\<lambda>p. (pp_public_key p, pp_allowed_ips p))
              (tp_peers (star_generate_plan cfg dev ds n sid rbd ebd)) =
            map (\<lambda>d. (ds_public_key d, (ds_ip_address d @ ''/32'') # get_list rbd (ds_id d)))
              (filter (\<lambda>d. ds_id d \<noteq> sid) ds)) \<and>
         (ds_id dev \<noteq> sid \<longrightarrow>
            (\<exists>hub rest. tp_peers (star_generate_plan cfg dev ds n sid rbd ebd) = hub # rest \<and>
               pp_public_key hub = ds_public_key server \<and> pp_allowed_ips hub = [ns_subnet n] \<and>
               (rest = [] \<or> (\<exists>ed \<in> set ds. ds_exit_node_id dev = Some (ds_id ed) \<and>
                  rest = [peer_plan_of (ds_public_key ed) [''0.0.0.0/0'', ''::/0'']]))))"
proof (cases "ds_id dev = sid")
  case True
  with assms show ?thesis by (simp add: star_generate_plan_def host_and_routes_def)
next
  case False
  let ?hub = "\<lparr>pp_public_key = ds_public_key server, pp_allowed_ips = [ns_subnet n],
     pp_endpoint = Some (server_endpoint cfg), pp_endpoint_port = Some (cfg_wireguard_port cfg),
     pp_persistent_keepalive = Some 25, pp_relay_fallback = False\<rparr>"
  have "tp_peers (star_generate_plan cfg dev ds n sid rbd ebd) = exit_node_peers dev ds sid [?hub]"
    using assms False by (simp add: star_generate_plan_def)
  then show ?thesis
    using False by (cases rule: exit_node_peers_cases [of dev ds sid "[?hub]"]) auto
qed

theorem star_hub_and_spoke_witness:
  "\<exists>hub rest. tp_peers (star_generate_plan default_settings
      ((demo_state ''b'' ''10.0.0.3'')\<lparr>ds_exit_node_id := Some ''a''\<rparr>) demo_states
      \<lparr>ns_subnet = ''10.0.0.0/24'', ns_topology = None\<rparr> ''s'' Map.empty Map.empty) = hub # rest \<and>
     pp_public_key hub = ''s_key'' \<and> pp_allowed_ips hub = [''10.0.0.0/24'']"
proof -
  have f: "find (\<lambda>d. ds_id d = ''s'') demo_states = Some (demo_state ''s'' ''10.0.0.1'')"
    by (simp add: demo_state_defs)
  show ?thesis
    using star_hub_and_spoke [OF f, of "(demo_state ''b'' ''10.0.0.3'')\<lparr>ds_exit_node_id := Some ''a''\<rparr>"
        default_settings "\<lparr>ns_subnet = ''10.0.0.0/24'', ns_topology = None\<rparr>" Map.empty Map.empty]
    by (auto simp: demo_state_def)
qed

text \<open>
  Selecting an exit node has no effect on the plan of a device in the mesh and the hybrid
  topology: every other device, the exit node included, is already a peer, so the guard on the
  exit-node entry is never met and the default route is not added.
\<close>

theorem exit_node_ignored_outside_star:
  assumes "x \<noteq> ds_id dev"
  shows "tp_peers (mesh_generate_plan cfg (dev\<lparr>ds_exit_node_id := Some x\<rparr>) ds n sid rbd ebd) =
           tp_peers (mesh_generate_plan cfg (dev\<lparr>ds_exit_node_id := None\<rparr>) ds n sid rbd ebd) \<and>
         tp_peers (hybrid_generate_plan cfg (dev\<lparr>ds_exit_node_id := Some x\<rparr>) ds n sid rbd ebd) =
           tp_peers (hybrid_generate_plan cfg (dev\<lparr>ds_exit_node_id := None\<rparr>) ds n sid rbd ebd)"
  using assms by (simp add: mesh_peers_exact hybrid_peers_exact)

theorem exit_node_ignored_outside_star_witness:
  "tp_peers (mesh_generate_plan default_settings
      ((demo_state ''b'' ''10.0.0.3'')\<lparr>ds_exit_node_id := Some ''a''\<rparr>) demo_states
      \<lparr>ns_subnet = ''10.0.0.0/24'', ns_topology = None\<rparr> ''s'' Map.empty Map.empty) =
   tp_peers (mesh_generate_plan default_settings
      ((demo_state ''b'' ''10.0.0.3'')\<lparr>ds_exit_node_id := None\<rparr>) demo_states
      \<lparr>ns_subnet = ''10.0.0.0/24'', ns_topology = None\<rparr> ''s'' Map.empty Map.empty)"
  using exit_node_ignored_outside_star [of "''a''" "demo_state ''b'' ''10.0.0.3''" default_settings
      demo_states "\<lparr>ns_subnet = ''10.0.0.0/24'', ns_topology = None\<rparr>" "''s''" Map.empty Map.empty]
  by (simp add: demo_state_def)

text \<open>
  In the hybrid topology the plan entry for another device is one of three: the hub, which
  routes the subnet and always has an endpoint; a device with an active endpoint of non-empty
  address, which is contacted directly at an active endpoint of maximal priority; or a device
  without one, which has no endpoint and is flagged for relay fallback.
\<close>

theorem hybrid_peer_classes:
  assumes "\<And>e. e \<in> set (get_list ebd (ds_id d)) \<Longrightarrow> ep_endpoint e \<noteq> []"
  shows "(if ds_id d = sid then
            \<not> pp_relay_fallback (hybrid_peer cfg n sid rbd ebd d) \<and>
            truthy_str (pp_endpoint (hybrid_peer cfg n sid rbd ebd d)) \<and>
            pp_allowed_ips (hybrid_peer cfg n sid rbd ebd d) = [ns_subnet n]
          else if list_ex ep_is_active (get_list ebd (ds_id d)) then
            \<not> pp_relay_fallback (hybrid_peer cfg n sid rbd ebd d) \<and>
            (\<exists>e \<in> set (get_list ebd (ds_id d)). ep_is_active e \<and>
               pp_endpoint (hybrid_peer cfg n sid rbd ebd d) = Some (ep_endpoint e) \<and>
               pp_endpoint_port (hybrid_peer cfg n sid rbd ebd d) = Some (ep_port e) \<and>
               list_all (\<lambda>x. ep_is_active x \<longrightarrow> ep_priority x \<le> ep_priority e)
                 (get_list ebd (ds_id d)))
          else pp_relay_fallback (hybrid_peer cfg n sid rbd ebd d) \<and>
               pp_endpoint (hybrid_peer cfg n sid rbd ebd d) = None)"
proof (cases "best_endpoint (get_list ebd (ds_id d))")
  case (Pair epo pt)
  have server: "server_endpoint cfg \<noteq> []" by (simp add: server_endpoint_def)
  show ?thesis
  proof (cases epo)
    case None
    then have "filter ep_is_active (get_list ebd (ds_id d)) = []"
      using Pair by (auto simp: best_endpoint_def Let_def split: if_splits)
    with None Pair server show ?thesis
      by (auto simp: hybrid_peer_def filter_empty_conv list_ex_iff)
  next
    case (Some a)
    with Pair obtain e where e: "e \<in> set (get_list ebd (ds_id d))" "ep_is_active e"
        "a = ep_endpoint e" "pt = Some (ep_port e)"
        "\<And>x. x \<in> set (get_list ebd (ds_id d)) \<Longrightarrow> ep_is_active x \<Longrightarrow> ep_priority x \<le> ep_priority e"
      by (auto elim: best_endpoint_Some)
    with Some Pair server assms [OF e(1)] show ?thesis
      by (auto simp: hybrid_peer_def list_ex_iff list_all_iff)
  qed
qed

theorem hybrid_peer_classes_witness:
  "pp_relay_fallback (hybrid_peer default_settings \<lparr>ns_subnet = ''10.0.0.0/24'', ns_topology = None\<rparr>
     ''s'' Map.empty Map.empty (demo_state ''a'' ''10.0.0.2''))"
  using hybrid_peer_classes [of Map.empty "demo_state ''a'' ''10.0.0.2''" "''s''" default_settings
      "\<lparr>ns_subnet = ''10.0.0.0/24'', ns_topology = None\<rparr>" Map.empty]
  by (simp add: demo_state_def get_list_def)

end
