(* ===== verification/Scoring.thy ===== *)
theory Scoring
  imports Domain
begin

text \<open>
  \<open>backend/app/services/endpoint_scoring.py\<close>: the score of an endpoint candidate and the order in
  which candidates are offered. Python's \<open>//\<close> and \<open>min\<close>/\<open>max\<close> on integers are HOL's.
\<close>

section \<open>Operations\<close>

definition BASE_SCORE :: int where "BASE_SCORE = 50"
definition SCORE_MAX :: int where "SCORE_MAX = 200"

definition compute_endpoint_score :: "bool \<Rightarrow> int option \<Rightarrow> int \<Rightarrow> int \<Rightarrow> int \<Rightarrow> int" where
  "compute_endpoint_score reachable latency_ms failure_count success_count priority =
     (let score = BASE_SCORE;
          score = (if reachable then score + 100 else score);
          score = score - min priority 100;
          score = (case latency_ms of None \<Rightarrow> score | Some l \<Rightarrow> score - l div 10);
          score = score - failure_count * 5;
          score = score + success_count * 2
      in max 0 (min score SCORE_MAX))"

text \<open>
  The sort key. \<open>latency_ms or 9999\<close> maps an unknown latency, and also a latency of zero, to 9999.
\<close>

definition endpoint_key :: "endpoint \<Rightarrow> int \<times> int \<times> int \<times> int" where
  "endpoint_key e =
     (ep_score e, if ep_reachable e then 1 else 0,
      - (case ep_latency_ms e of None \<Rightarrow> 9999 | Some l \<Rightarrow> if l = 0 then 9999 else l),
      - ep_priority e)"

definition sort_endpoint_candidates :: "endpoint list \<Rightarrow> endpoint list" where
  "sort_endpoint_candidates eps = sorted_by_desc endpoint_key eps"

definition select_best_endpoint :: "endpoint list \<Rightarrow> endpoint option" where
  "select_best_endpoint eps =
     (if eps = [] then None else Some (hd (sorted_by_desc endpoint_key eps)))"

section \<open>Facts\<close>

lemma score_bounds:
  "0 \<le> compute_endpoint_score r l f s p" "compute_endpoint_score r l f s p \<le> 200"
  by (simp_all add: compute_endpoint_score_def SCORE_MAX_def Let_def)

lemma select_best_Nil [simp]: "select_best_endpoint [] = None"
  by (simp add: select_best_endpoint_def)

lemma select_best_None [simp]: "select_best_endpoint eps = None \<longleftrightarrow> eps = []"
  by (simp add: select_best_endpoint_def)

lemma select_best_mem: "select_best_endpoint eps = Some e \<Longrightarrow> e \<in> set eps"
  by (auto simp: select_best_endpoint_def split: if_splits intro: hd_sorted_by_desc_mem)

lemma select_best_max:
  "select_best_endpoint eps = Some e \<Longrightarrow> x \<in> set eps \<Longrightarrow> endpoint_key x \<le> endpoint_key e"
  by (auto simp: select_best_endpoint_def split: if_splits intro: hd_sorted_by_desc_ge)

lemma select_best_hd:
  "select_best_endpoint eps = Some e \<Longrightarrow> sort_endpoint_candidates eps = e # tl (sort_endpoint_candidates eps)"
  by (auto simp: select_best_endpoint_def sort_endpoint_candidates_def split: if_splits
      intro: list.collapse [symmetric])

lemma set_sort_endpoint_candidates [simp]: "set (sort_endpoint_candidates eps) = set eps"
  by (simp add: sort_endpoint_candidates_def)

lemma endpoint_key_score: "endpoint_key x \<le> endpoint_key e \<Longrightarrow> ep_score x \<le> ep_score e"
  by (auto simp: endpoint_key_def less_eq_prod_def)

section \<open>Properties\<close>

text \<open>What a latency costs: one point for every full ten milliseconds, nothing when it is not known.\<close>

definition latency_penalty :: "int option \<Rightarrow> int" where
  "latency_penalty l = (case l of None \<Rightarrow> 0 | Some ms \<Rightarrow> ms div 10)"

text \<open>
  C35. The score is always between 0 and 200, also without a latency, and it is monotone: it does not
  fall when the endpoint becomes reachable, when its latency costs less, when there are fewer failures
  or more successes, or when its priority number is lower. As long as neither of two scores is at a
  bound, they differ by exactly 100 for reachability, the difference of the priorities up to 100, one
  for ten milliseconds, five for a failure and two for a success.
\<close>

theorem compute_endpoint_score_monotone:
  assumes "r \<longrightarrow> r'" and "latency_penalty l' \<le> latency_penalty l" and "f' \<le> f" and "s \<le> s'" and "p' \<le> p"
  shows "0 \<le> compute_endpoint_score r l f s p \<and>
    compute_endpoint_score r l f s p \<le> compute_endpoint_score r' l' f' s' p' \<and>
    compute_endpoint_score r' l' f' s' p' \<le> 200 \<and>
    (0 < compute_endpoint_score r l f s p \<and> compute_endpoint_score r' l' f' s' p' < 200 \<longrightarrow>
      compute_endpoint_score r' l' f' s' p' - compute_endpoint_score r l f s p =
        (if r' \<and> \<not> r then 100 else 0) + (min p 100 - min p' 100) + (latency_penalty l - latency_penalty l') +
        5 * (f - f') + 2 * (s' - s))"
proof -
  let ?raw = "\<lambda>r l f s p. BASE_SCORE + (if r then 100 else 0) - min p 100 - latency_penalty l - f * 5 + s * 2"
  have score: "compute_endpoint_score r l f s p = max 0 (min (?raw r l f s p) 200)" for r l f s p
    by (simp add: compute_endpoint_score_def latency_penalty_def SCORE_MAX_def Let_def split: option.split)
  have "min p' 100 \<le> min p 100" using assms(5) by simp
  then have le: "?raw r l f s p \<le> ?raw r' l' f' s' p'" using assms(1-4) by auto
  then have "compute_endpoint_score r l f s p \<le> compute_endpoint_score r' l' f' s' p'"
    unfolding score by (intro max.mono min.mono order_refl)
  moreover have "compute_endpoint_score r' l' f' s' p' - compute_endpoint_score r l f s p = ?raw r' l' f' s' p' - ?raw r l f s p"
    if "0 < compute_endpoint_score r l f s p" "compute_endpoint_score r' l' f' s' p' < 200"
    using that le unfolding score by linarith
  ultimately show ?thesis using assms(1) by (auto simp: score_bounds)
qed

text \<open>A first probe of an endpoint, and a probed one against one that was never probed.\<close>

theorem compute_endpoint_score_monotone_witness:
  "compute_endpoint_score False (Some 80) 3 0 100 = 0 \<and>
   compute_endpoint_score True (Some 20) 1 4 10 = 141 \<and>
   compute_endpoint_score False (Some 80) 3 0 100 \<le> compute_endpoint_score True (Some 20) 1 4 10 \<and>
   compute_endpoint_score True None 0 5 10 - compute_endpoint_score True (Some 20) 1 4 10 = 9"
proof -
  have v: "compute_endpoint_score False (Some 80) 3 0 100 = 0"
    "compute_endpoint_score True (Some 20) 1 4 10 = 141" "compute_endpoint_score True None 0 5 10 = 150"
    by (simp_all add: compute_endpoint_score_def BASE_SCORE_def SCORE_MAX_def)
  show ?thesis
    using v compute_endpoint_score_monotone [of False True "Some 20" "Some 80" 1 3 0 4 10 100]
      compute_endpoint_score_monotone [of True True None "Some 20" 0 1 4 5 10 10]
    by (simp add: latency_penalty_def)
qed

text \<open>
  \<open>select_best_endpoint\<close> returns \<open>None\<close> exactly on the empty list; otherwise it returns a member
  of the list whose sort key is maximal (in particular, no candidate has a higher score), and that
  member is the head of the ordering \<open>sort_endpoint_candidates\<close> gives, which is a permutation
  sorted by descending key.
\<close>

theorem select_best_endpoint_optimal:
  "(case select_best_endpoint eps of
      None \<Rightarrow> eps = []
    | Some e \<Rightarrow> e \<in> set eps \<and> hd (sort_endpoint_candidates eps) = e \<and>
               list_all (\<lambda>x. endpoint_key x \<le> endpoint_key e \<and> ep_score x \<le> ep_score e) eps) \<and>
   sorted_wrt (\<lambda>x y. endpoint_key y \<le> endpoint_key x) (sort_endpoint_candidates eps) \<and>
   set (sort_endpoint_candidates eps) = set eps \<and>
   length (sort_endpoint_candidates eps) = length eps"
proof (cases "select_best_endpoint eps")
  case None
  then have "eps = []" by simp
  then show ?thesis
    by (simp add: select_best_endpoint_def sort_endpoint_candidates_def sorted_by_desc_ordered
        sorted_by_desc_def)
next
  case (Some e)
  then show ?thesis
    using select_best_mem [OF Some] select_best_max [OF Some] select_best_hd [OF Some]
    by (auto simp: list_all_iff sort_endpoint_candidates_def sorted_by_desc_ordered
        intro: endpoint_key_score) (metis list.sel(1))
qed

end
