(* ===== verification/Relay.thy ===== *)
theory Relay
  imports Domain
begin

text \<open>
  Relay sessions (\<open>backend/app/services/relay.py\<close>). Every operation reads the session table,
  writes it, commits, and reports metrics and events; it is a function from the database to its
  result, the committed database and the effects in order. Fresh ids, tokens and clock readings
  are arguments. The last section is the session table as a transition system: the operations as
  an inductive step relation on the database and the value of the gauge of active connections.
\<close>

section \<open>Operations\<close>

definition RELAY_DEFAULT_REGION :: string where "RELAY_DEFAULT_REGION = ''default''"
definition RELAY_DEFAULT_NODE :: string where "RELAY_DEFAULT_NODE = ''relay0''"
definition RELAY_SESSION_TIMEOUT_HOURS :: int where "RELAY_SESSION_TIMEOUT_HOURS = 24"

definition relay_sessions_active :: string where
  "relay_sessions_active = ''RELAY_CONNECTIONS_ACTIVE''"

text \<open>The foreign keys of \<open>relay_sessions\<close> and \<open>nat_sessions\<close>: both ends are rows of \<open>devices\<close>.\<close>

definition device_exists :: "uuid \<Rightarrow> database \<Rightarrow> bool" where
  "device_exists did d \<longleftrightarrow> list_ex (\<lambda>r. dev_id r = did) (devices d)"

definition find_relay_session :: "uuid \<Rightarrow> database \<Rightarrow> relay_session option result" where
  "find_relay_session sid d =
     scalar_one_or_none (filter (\<lambda>r. rel_id r = sid) (relay_sessions d))"

definition put_relay_session :: "uuid \<Rightarrow> (relay_session \<Rightarrow> relay_session) \<Rightarrow> database \<Rightarrow> database" where
  "put_relay_session sid f d =
     d\<lparr>relay_sessions := update_row rel_id sid f (relay_sessions d)\<rparr>"

definition new_relay_session :: "uuid \<Rightarrow> string \<Rightarrow> datetime \<Rightarrow> uuid \<Rightarrow> uuid \<Rightarrow> string \<Rightarrow> string
    \<Rightarrow> relay_session" where
  "new_relay_session sid token now ini tgt region node =
     \<lparr>rel_id = sid, rel_initiator_device_id = ini, rel_target_device_id = tgt,
      rel_relay_region = region, rel_relay_node = node, rel_relay_token = token,
      rel_state = ''pending'', rel_bytes_tx = 0, rel_bytes_rx = 0, rel_connected_at = None,
      rel_expires_at = Some (now + timedelta_hours RELAY_SESSION_TIMEOUT_HOURS),
      rel_created_at = now, rel_updated_at = now\<rparr>"

definition create_relay_session :: "bool \<Rightarrow> uuid \<Rightarrow> string \<Rightarrow> datetime \<Rightarrow> uuid \<Rightarrow> uuid \<Rightarrow> string
    \<Rightarrow> string \<Rightarrow> database \<Rightarrow> (relay_session \<times> database \<times> effect list) result" where
  "create_relay_session bus sid token now ini tgt region node d =
     (if \<not> device_exists ini d \<or> \<not> device_exists tgt d then Inl (IntegrityError ''relay_sessions'')
      else
        let r = new_relay_session sid token now ini tgt region node in
        Inr (r, d\<lparr>relay_sessions := relay_sessions d @ [r]\<rparr>,
             Counter_inc ''RELAY_SESSIONS_TOTAL'' ''pending'' 1 #
             publish bus ''relay.requested''
               [(''session_id'', JStr sid), (''initiator_device_id'', JStr ini),
                (''target_device_id'', JStr tgt), (''relay_region'', JStr region),
                (''relay_node'', JStr node)]))"

definition activate_relay_session :: "bool \<Rightarrow> datetime \<Rightarrow> datetime \<Rightarrow> uuid \<Rightarrow> database
    \<Rightarrow> (relay_session option \<times> database \<times> effect list) result" where
  "activate_relay_session bus now1 now2 sid d =
     bind_result (scalar_one_or_none
         (filter (\<lambda>r. rel_id r = sid \<and> rel_state r = ''pending'') (relay_sessions d))) (\<lambda>ro.
       case ro of
         None \<Rightarrow> Inr (None, d, [])
       | Some r \<Rightarrow>
           let f = (\<lambda>r. r\<lparr>rel_state := ''active'', rel_connected_at := Some now1,
                          rel_updated_at := now2\<rparr>)
           in Inr (Some (f r), put_relay_session sid f d,
                [Gauge_add relay_sessions_active 1, Counter_inc ''RELAY_SESSIONS_TOTAL'' ''active'' 1]
                @ publish bus ''relay.connected''
                    [(''session_id'', JStr sid),
                     (''initiator_device_id'', JStr (rel_initiator_device_id r)),
                     (''target_device_id'', JStr (rel_target_device_id r)),
                     (''relay_node'', JStr (rel_relay_node r))]))"

text \<open>
  \<open>expire_relay_session\<close> and \<open>fail_relay_session\<close> are the same code with a different final state
  and event: the row is closed whatever its state was, and the gauge goes down if it was active.
\<close>

definition close_relay_session :: "string \<Rightarrow> string \<Rightarrow> bool \<Rightarrow> datetime \<Rightarrow> uuid \<Rightarrow> database
    \<Rightarrow> (relay_session option \<times> database \<times> effect list) result" where
  "close_relay_session st event bus now sid d =
     bind_result (find_relay_session sid d) (\<lambda>ro.
       case ro of
         None \<Rightarrow> Inr (None, d, [])
       | Some r \<Rightarrow>
           let was_active = (rel_state r = ''active'');
               f = (\<lambda>r. r\<lparr>rel_state := st, rel_updated_at := now\<rparr>)
           in Inr (Some (f r), put_relay_session sid f d,
                (if was_active then [Gauge_add relay_sessions_active (- 1)] else [])
                @ publish bus event
                    [(''session_id'', JStr sid),
                     (''initiator_device_id'', JStr (rel_initiator_device_id r)),
                     (''target_device_id'', JStr (rel_target_device_id r))]))"

definition expire_relay_session :: "bool \<Rightarrow> datetime \<Rightarrow> uuid \<Rightarrow> database
    \<Rightarrow> (relay_session option \<times> database \<times> effect list) result" where
  "expire_relay_session = close_relay_session ''expired'' ''relay.expired''"

definition fail_relay_session :: "bool \<Rightarrow> datetime \<Rightarrow> uuid \<Rightarrow> database
    \<Rightarrow> (relay_session option \<times> database \<times> effect list) result" where
  "fail_relay_session = close_relay_session ''failed'' ''relay.failed''"

definition get_best_relay_candidate :: "settings \<Rightarrow> uuid \<Rightarrow> dict option" where
  "get_best_relay_candidate cfg did =
     Some [(''relay_node'', JStr RELAY_DEFAULT_NODE), (''relay_region'', JStr RELAY_DEFAULT_REGION),
           (''relay_endpoint'', JStr (cfg_relay_host cfg @ '':'' @ str_int (cfg_relay_port cfg))),
           (''priority'', JInt 50), (''preferred'', JBool True)]"

definition update_relay_stats :: "bool \<Rightarrow> datetime \<Rightarrow> uuid \<Rightarrow> int \<Rightarrow> int \<Rightarrow> database
    \<Rightarrow> (relay_session option \<times> database \<times> effect list) result" where
  "update_relay_stats bus now sid tx rx d =
     bind_result (find_relay_session sid d) (\<lambda>ro.
       case ro of
         None \<Rightarrow> Inr (None, d, [])
       | Some r \<Rightarrow>
           let f = (\<lambda>r. r\<lparr>rel_bytes_tx := rel_bytes_tx r + tx, rel_bytes_rx := rel_bytes_rx r + rx,
                          rel_updated_at := now\<rparr>)
           in Inr (Some (f r), put_relay_session sid f d,
                publish bus ''relay.stats_updated''
                  [(''session_id'', JStr sid), (''bytes_tx'', JInt (rel_bytes_tx r + tx)),
                   (''bytes_rx'', JInt (rel_bytes_rx r + rx))]))"

text \<open>The rows the periodic clean-up selects; a NULL expiry compares as unknown and is not selected.\<close>

definition relay_is_stale :: "datetime \<Rightarrow> relay_session \<Rightarrow> bool" where
  "relay_is_stale now r \<longleftrightarrow>
     rel_state r \<in> {''pending'', ''active''} \<and>
     (case rel_expires_at r of None \<Rightarrow> False | Some t \<Rightarrow> t \<le> now)"

definition cleanup_expired_relays :: "datetime \<Rightarrow> database \<Rightarrow> nat \<times> database \<times> effect list" where
  "cleanup_expired_relays now d =
     (let stale = filter (relay_is_stale now) (relay_sessions d);
          active_count = length (filter (\<lambda>s. rel_state s = ''active'') stale)
      in (length stale,
          d\<lparr>relay_sessions := update_where (relay_is_stale now)
               (\<lambda>s. s\<lparr>rel_state := ''expired'', rel_updated_at := now\<rparr>) (relay_sessions d)\<rparr>,
          (if active_count \<noteq> 0 then [Gauge_add relay_sessions_active (- int active_count)] else [])
          @ (if stale \<noteq> [] then [Counter_inc ''RELAY_SESSIONS_TOTAL'' ''expired'' (int (length stale))]
             else [])))"

definition get_relay_session_by_id :: "uuid \<Rightarrow> database \<Rightarrow> relay_session option result" where
  "get_relay_session_by_id = find_relay_session"

definition auto_create_relay_fallback :: "bool \<Rightarrow> uuid \<Rightarrow> string \<Rightarrow> datetime \<Rightarrow> uuid \<Rightarrow> uuid
    \<Rightarrow> database \<Rightarrow> (relay_session \<times> database \<times> effect list) result" where
  "auto_create_relay_fallback bus sid token now ini tgt d =
     bind_result (create_relay_session bus sid token now ini tgt RELAY_DEFAULT_REGION
         RELAY_DEFAULT_NODE d) (\<lambda>(r, d', es).
       Inr (r, d', es @ [Counter_inc ''RELAY_FALLBACK_TOTAL'' [] 1]))"

section \<open>The session table as a transition system\<close>

text \<open>
  A state is the database and the value of the gauge \<open>RELAY_CONNECTIONS_ACTIVE\<close>. A step is one
  call of an operation that returns; ids of new sessions are fresh, as \<open>uuid4\<close> and the primary
  key guarantee.
\<close>

type_synonym relay_state = "database \<times> int"

definition gauge_step :: "int \<Rightarrow> effect list \<Rightarrow> int" where
  "gauge_step v es = v + gauge_delta relay_sessions_active es"

inductive relay_step :: "relay_state \<Rightarrow> relay_state \<Rightarrow> bool" where
  create: "create_relay_session bus sid token now ini tgt region node d = Inr (r, d', es) \<Longrightarrow>
     sid \<notin> rel_id ` set (relay_sessions d) \<Longrightarrow>
     relay_step (d, v) (d', gauge_step v es)"
| fallback: "auto_create_relay_fallback bus sid token now ini tgt d = Inr (r, d', es) \<Longrightarrow>
     sid \<notin> rel_id ` set (relay_sessions d) \<Longrightarrow>
     relay_step (d, v) (d', gauge_step v es)"
| activate: "activate_relay_session bus now1 now2 sid d = Inr (ro, d', es) \<Longrightarrow>
     relay_step (d, v) (d', gauge_step v es)"
| expire: "expire_relay_session bus now sid d = Inr (ro, d', es) \<Longrightarrow>
     relay_step (d, v) (d', gauge_step v es)"
| fail: "fail_relay_session bus now sid d = Inr (ro, d', es) \<Longrightarrow>
     relay_step (d, v) (d', gauge_step v es)"
| stats: "update_relay_stats bus now sid tx rx d = Inr (ro, d', es) \<Longrightarrow>
     relay_step (d, v) (d', gauge_step v es)"
| cleanup: "cleanup_expired_relays now d = (n, d', es) \<Longrightarrow>
     relay_step (d, v) (d', gauge_step v es)"

inductive_cases relay_stepE: "relay_step s s'"

inductive relay_reachable :: "relay_state \<Rightarrow> relay_state \<Rightarrow> bool" where
  relay_start: "relay_reachable s s"
| relay_more: "relay_reachable s s' \<Longrightarrow> relay_step s' s'' \<Longrightarrow> relay_reachable s s''"

definition active_relays :: "database \<Rightarrow> nat" where
  "active_relays d = length (filter (\<lambda>r. rel_state r = ''active'') (relay_sessions d))"


definition relay_rank :: "string \<Rightarrow> nat" where
  "relay_rank st = (if st = ''pending'' then 0 else if st = ''active'' then 1 else 2)"

definition relay_row_ok :: "database \<Rightarrow> relay_session \<Rightarrow> bool" where
  "relay_row_ok d r \<longleftrightarrow>
     rel_state r \<in> {''pending'', ''active'', ''expired'', ''failed''} \<and>
     (rel_state r = ''active'' \<longrightarrow> rel_connected_at r \<noteq> None) \<and>
     device_exists (rel_initiator_device_id r) d \<and> device_exists (rel_target_device_id r) d"

definition relay_inv :: "relay_state \<Rightarrow> bool" where
  "relay_inv s \<longleftrightarrow>
     relay_sessions_ok (relay_sessions (fst s)) \<and> snd s = int (active_relays (fst s)) \<and>
     list_all (relay_row_ok (fst s)) (relay_sessions (fst s))"

lemma device_exists_relay [simp]:
  "device_exists did (d\<lparr>relay_sessions := rs\<rparr>) = device_exists did d"
  by (simp add: device_exists_def)

lemma relay_row_ok_relay [simp]:
  "relay_row_ok (d\<lparr>relay_sessions := rs\<rparr>) = relay_row_ok d"
  by (simp add: relay_row_ok_def fun_eq_iff)

lemma relay_row_ok_put [simp]: "relay_row_ok (put_relay_session sid f d) = relay_row_ok d"
  by (simp add: put_relay_session_def)

lemma find_relay_session_SomeD:
  "find_relay_session sid d = Inr (Some r) \<Longrightarrow> r \<in> set (relay_sessions d) \<and> rel_id r = sid"
  unfolding find_relay_session_def by (rule scalar_one_or_none_mem)

text \<open>
  Writing one row keeps the invariant when the written row is well formed and the gauge moves with
  its activity.
\<close>

lemma relay_inv_put:
  assumes "relay_inv (d, v)" and "r \<in> set (relay_sessions d)"
    and "\<And>x. rel_id (f x) = rel_id x" and "relay_row_ok d (f r)"
    and "gauge_delta relay_sessions_active es =
      (if rel_state (f r) = ''active'' then 1 else 0) - (if rel_state r = ''active'' then 1 else 0)"
  shows "relay_inv (put_relay_session (rel_id r) f d, gauge_step v es)"
proof -
  have ok: "relay_sessions_ok (relay_sessions d)" using assms(1) by (simp add: relay_inv_def)
  have rows: "list_all (relay_row_ok d) (update_row rel_id (rel_id r) f (relay_sessions d))"
    unfolding list_all_iff
  proof
    fix x assume "x \<in> set (update_row rel_id (rel_id r) f (relay_sessions d))"
    then obtain y where y: "y \<in> set (relay_sessions d)" "x = (if rel_id y = rel_id r then f y else y)"
      by (auto simp: set_update_row)
    have "y = r" if "rel_id y = rel_id r"
      by (rule rel_tab.key_unique [OF ok assms(2) y(1) that])
    then show "relay_row_ok d x"
      using y assms(1,4) by (auto simp: relay_inv_def list_all_iff)
  qed
  show ?thesis
    unfolding relay_inv_def gauge_step_def
    using rows assms(1,5) rel_tab.ok_update_row [OF assms(3) ok]
      rel_tab.count_update_row [OF ok assms(2), of "\<lambda>r. rel_state r = ''active''" f]
    by (simp add: put_relay_session_def relay_inv_def active_relays_def)
qed

lemma relay_inv_create:
  assumes "relay_inv (d, v)" and "device_exists ini d" and "device_exists tgt d"
    and "sid \<notin> rel_id ` set (relay_sessions d)" and "gauge_delta relay_sessions_active es = 0"
  shows "relay_inv (d\<lparr>relay_sessions := relay_sessions d @
      [new_relay_session sid token now ini tgt region node]\<rparr>, gauge_step v es)"
  using assms rel_tab.ok_insert [of "relay_sessions d" "new_relay_session sid token now ini tgt region node"]
  by (simp add: relay_inv_def gauge_step_def active_relays_def relay_row_ok_def new_relay_session_def)

lemma relay_inv_close:
  assumes "relay_inv (d, v)" and "close_relay_session st event bus now sid d = Inr (ro, d', es)"
    and "st \<in> {''expired'', ''failed''}"
  shows "relay_inv (d', gauge_step v es)"
proof (cases "find_relay_session sid d")
  case (Inr r)
  show ?thesis
  proof (cases r)
    case None
    then show ?thesis
      using assms Inr by (simp add: close_relay_session_def gauge_step_def)
  next
    case (Some s)
    then have s: "s \<in> set (relay_sessions d)" "rel_id s = sid"
      using Inr find_relay_session_SomeD by auto
    let ?f = "\<lambda>r. r\<lparr>rel_state := st, rel_updated_at := now\<rparr>"
    have "relay_row_ok d (?f s)"
      using assms(1,3) s by (auto simp: relay_inv_def list_all_iff relay_row_ok_def)
    then show ?thesis
      using assms Inr Some s relay_inv_put [OF assms(1) s(1), of ?f es]
      by (auto simp: close_relay_session_def Let_def)
  qed
qed (use assms in \<open>simp add: close_relay_session_def\<close>)


lemma relay_inv_activate:
  assumes "relay_inv (d, v)" and "activate_relay_session bus now1 now2 sid d = Inr (ro, d', es)"
  shows "relay_inv (d', gauge_step v es)"
proof (cases "scalar_one_or_none
    (filter (\<lambda>r. rel_id r = sid \<and> rel_state r = ''pending'') (relay_sessions d))")
  case (Inr r)
  show ?thesis
  proof (cases r)
    case None
    then show ?thesis using assms Inr by (simp add: activate_relay_session_def gauge_step_def)
  next
    case (Some s)
    then have s: "s \<in> set (relay_sessions d)" "rel_id s = sid" "rel_state s = ''pending''"
      using Inr scalar_one_or_none_mem by fastforce+
    let ?f = "\<lambda>r. r\<lparr>rel_state := ''active'', rel_connected_at := Some now1, rel_updated_at := now2\<rparr>"
    have "relay_row_ok d (?f s)"
      using assms(1) s by (auto simp: relay_inv_def list_all_iff relay_row_ok_def)
    then show ?thesis
      using assms Inr Some s relay_inv_put [OF assms(1) s(1), of ?f es]
      by (auto simp: activate_relay_session_def Let_def)
  qed
qed (use assms in \<open>simp add: activate_relay_session_def\<close>)

lemma relay_inv_stats:
  assumes "relay_inv (d, v)" and "update_relay_stats bus now sid tx rx d = Inr (ro, d', es)"
  shows "relay_inv (d', gauge_step v es)"
proof (cases "find_relay_session sid d")
  case (Inr r)
  show ?thesis
  proof (cases r)
    case None
    then show ?thesis using assms Inr by (simp add: update_relay_stats_def gauge_step_def)
  next
    case (Some s)
    then have s: "s \<in> set (relay_sessions d)" "rel_id s = sid"
      using Inr find_relay_session_SomeD by auto
    let ?f = "\<lambda>r. r\<lparr>rel_bytes_tx := rel_bytes_tx r + tx, rel_bytes_rx := rel_bytes_rx r + rx,
                      rel_updated_at := now\<rparr>"
    have "relay_row_ok d (?f s)"
      using assms(1) s by (auto simp: relay_inv_def list_all_iff relay_row_ok_def)
    then show ?thesis
      using assms Inr Some s relay_inv_put [OF assms(1) s(1), of ?f es]
      by (auto simp: update_relay_stats_def Let_def)
  qed
qed (use assms in \<open>simp add: update_relay_stats_def\<close>)

lemma count_update_stale:
  "length (filter (\<lambda>r. rel_state r = ''active'') (update_where (relay_is_stale now)
      (\<lambda>s. s\<lparr>rel_state := ''expired'', rel_updated_at := now\<rparr>) rows)) +
   length (filter (\<lambda>s. rel_state s = ''active'') (filter (relay_is_stale now) rows)) =
   length (filter (\<lambda>r. rel_state r = ''active'') rows)"
  by (induction rows) (auto simp: update_where_def)

lemma relay_inv_cleanup:
  assumes "relay_inv (d, v)" and "cleanup_expired_relays now d = (n, d', es)"
  shows "relay_inv (d', gauge_step v es)"
proof -
  let ?rows = "update_where (relay_is_stale now)
      (\<lambda>s. s\<lparr>rel_state := ''expired'', rel_updated_at := now\<rparr>) (relay_sessions d)"
  have d': "d' = d\<lparr>relay_sessions := ?rows\<rparr>"
    using assms(2) by (auto simp: cleanup_expired_relays_def Let_def)
  have g: "gauge_delta relay_sessions_active es =
      - int (length (filter (\<lambda>s. rel_state s = ''active'')
          (filter (relay_is_stale now) (relay_sessions d))))"
    using assms(2) by (auto simp: cleanup_expired_relays_def Let_def simp del: filter_filter)
  have "list_all (relay_row_ok d) ?rows"
    using assms(1) by (auto simp: relay_inv_def list_all_iff set_update_where relay_row_ok_def)
  moreover have "relay_sessions_ok ?rows"
    using assms(1) by (intro rel_tab.ok_update_where) (auto simp: relay_inv_def)
  ultimately show ?thesis
    using count_update_stale [of now "relay_sessions d"] assms(1)
    by (simp add: relay_inv_def d' g gauge_step_def active_relays_def)
qed

lemma relay_inv_step: "relay_step s s' \<Longrightarrow> relay_inv s \<Longrightarrow> relay_inv s'"
proof (induction rule: relay_step.induct)
  case (create bus sid token now ini tgt region node d r d' es v)
  then show ?case
    by (auto simp: create_relay_session_def Let_def intro!: relay_inv_create split: if_splits)
next
  case (fallback bus sid token now ini tgt d r d' es v)
  then show ?case
    by (auto simp: auto_create_relay_fallback_def create_relay_session_def Let_def
        intro!: relay_inv_create split: if_splits)
next
  case (activate bus now1 now2 sid d ro d' es v)
  then show ?case by (blast intro: relay_inv_activate)
next
  case (expire bus now sid d ro d' es v)
  then show ?case unfolding expire_relay_session_def by (auto elim: relay_inv_close)
next
  case (fail bus now sid d ro d' es v)
  then show ?case unfolding fail_relay_session_def by (auto elim: relay_inv_close)
next
  case (stats bus now sid tx rx d ro d' es v)
  then show ?case by (blast intro: relay_inv_stats)
next
  case (cleanup now d n d' es v)
  then show ?case by (blast intro: relay_inv_cleanup)
qed


text \<open>
  What a step may do to a row: the row keeps its identity, its ends, its token and its expiry, and
  its state moves forward only.
\<close>

definition relay_row_evolves :: "relay_session \<Rightarrow> relay_session \<Rightarrow> bool" where
  "relay_row_evolves r r' \<longleftrightarrow>
     rel_id r' = rel_id r \<and> rel_initiator_device_id r' = rel_initiator_device_id r \<and>
     rel_target_device_id r' = rel_target_device_id r \<and> rel_relay_token r' = rel_relay_token r \<and>
     rel_expires_at r' = rel_expires_at r \<and> relay_rank (rel_state r) \<le> relay_rank (rel_state r')"

lemma relay_row_evolves_refl [simp]: "relay_row_evolves r r"
  by (simp add: relay_row_evolves_def)

lemma relay_row_evolves_trans:
  "relay_row_evolves a b \<Longrightarrow> relay_row_evolves b c \<Longrightarrow> relay_row_evolves a c"
  by (auto simp: relay_row_evolves_def)

definition relay_table_evolves :: "database \<Rightarrow> database \<Rightarrow> bool" where
  "relay_table_evolves d d' \<longleftrightarrow>
     (\<forall>r \<in> set (relay_sessions d). \<exists>r' \<in> set (relay_sessions d'). relay_row_evolves r r')"

lemma relay_table_evolves_refl [simp]: "relay_table_evolves d d"
  unfolding relay_table_evolves_def by (blast intro: relay_row_evolves_refl)

lemma relay_table_evolves_map:
  "(\<And>r. r \<in> set (relay_sessions d) \<Longrightarrow> relay_row_evolves r (g r)) \<Longrightarrow>
     relay_table_evolves d (d\<lparr>relay_sessions := map g (relay_sessions d)\<rparr>)"
  unfolding relay_table_evolves_def by auto

lemma relay_table_evolves_trans:
  "relay_table_evolves a b \<Longrightarrow> relay_table_evolves b c \<Longrightarrow> relay_table_evolves a c"
  unfolding relay_table_evolves_def by (meson relay_row_evolves_trans)

lemma relay_table_evolves_append:
  "relay_table_evolves d (d\<lparr>relay_sessions := relay_sessions d @ rs\<rparr>)"
  unfolding relay_table_evolves_def by (auto intro: relay_row_evolves_refl)

lemma relay_table_evolves_put:
  "(\<And>r. r \<in> set (relay_sessions d) \<Longrightarrow> rel_id r = sid \<Longrightarrow> relay_row_evolves r (f r)) \<Longrightarrow>
     relay_table_evolves d (put_relay_session sid f d)"
  unfolding put_relay_session_def update_row_def by (rule relay_table_evolves_map) auto

lemma relay_table_evolves_where:
  "(\<And>r. r \<in> set (relay_sessions d) \<Longrightarrow> P r \<Longrightarrow> relay_row_evolves r (f r)) \<Longrightarrow>
     relay_table_evolves d (d\<lparr>relay_sessions := update_where P f (relay_sessions d)\<rparr>)"
  unfolding update_where_def by (rule relay_table_evolves_map) auto

lemma relay_rank_closed [simp]:
  "relay_rank st \<le> relay_rank ''expired''" "relay_rank st \<le> relay_rank ''failed''"
  by (simp_all add: relay_rank_def)

lemma relay_close_evolves:
  "close_relay_session st event bus now sid d = Inr (ro, d', es) \<Longrightarrow> st \<in> {''expired'', ''failed''} \<Longrightarrow>
     relay_table_evolves d d'"
  by (auto simp: close_relay_session_def bind_result_eq_Inr Let_def relay_row_evolves_def
      split: option.splits intro!: relay_table_evolves_put)

lemma relay_activate_evolves:
  assumes "relay_inv (d, v)" and "activate_relay_session bus now1 now2 sid d = Inr (ro, d', es)"
  shows "relay_table_evolves d d'"
proof -
  have "relay_row_evolves r (r\<lparr>rel_state := ''active'', rel_connected_at := Some now1,
      rel_updated_at := now2\<rparr>)"
    if "scalar_one_or_none (filter (\<lambda>r. rel_id r = sid \<and> rel_state r = ''pending'')
          (relay_sessions d)) = Inr (Some s)" and "r \<in> set (relay_sessions d)" "rel_id r = sid" for r s
  proof -
    have "s \<in> set (relay_sessions d)" "rel_id s = sid" "rel_state s = ''pending''"
      using that(1) scalar_one_or_none_mem by fastforce+
    then have "r = s"
      using that assms(1) by (intro rel_tab.key_unique [of "relay_sessions d" s r])
        (auto simp: relay_inv_def)
    then show ?thesis using \<open>rel_state s = _\<close> by (simp add: relay_row_evolves_def relay_rank_def)
  qed
  then show ?thesis
    using assms(2)
    by (auto simp: activate_relay_session_def bind_result_eq_Inr Let_def
        split: option.splits intro!: relay_table_evolves_put)
qed

lemma relay_step_evolves:
  "relay_step s s' \<Longrightarrow> relay_inv s \<Longrightarrow> relay_table_evolves (fst s) (fst s')"
proof (induction rule: relay_step.induct)
  case (create bus sid token now ini tgt region node d r d' es v)
  then show ?case
    by (auto simp: create_relay_session_def Let_def relay_table_evolves_append split: if_splits)
next
  case (fallback bus sid token now ini tgt d r d' es v)
  then show ?case
    by (auto simp: auto_create_relay_fallback_def create_relay_session_def Let_def
        relay_table_evolves_append split: if_splits)
next
  case (activate bus now1 now2 sid d ro d' es v)
  then show ?case using relay_activate_evolves by auto
next
  case (expire bus now sid d ro d' es v)
  then show ?case unfolding expire_relay_session_def by (auto elim: relay_close_evolves)
next
  case (fail bus now sid d ro d' es v)
  then show ?case unfolding fail_relay_session_def by (auto elim: relay_close_evolves)
next
  case (stats bus now sid tx rx d ro d' es v)
  then show ?case
    by (auto simp: update_relay_stats_def bind_result_eq_Inr Let_def relay_row_evolves_def
        split: option.splits intro!: relay_table_evolves_put)
next
  case (cleanup now d n d' es v)
  then show ?case
    by (auto simp: cleanup_expired_relays_def Let_def relay_row_evolves_def
        intro!: relay_table_evolves_where)
qed

lemma relay_inv_reachable: "relay_reachable s s' \<Longrightarrow> relay_inv s \<Longrightarrow> relay_inv s'"
  by (induction rule: relay_reachable.induct) (auto intro: relay_inv_step)

lemma relay_reachable_evolves:
  "relay_reachable s s' \<Longrightarrow> relay_inv s \<Longrightarrow> relay_table_evolves (fst s) (fst s')"
  by (induction rule: relay_reachable.induct)
     (auto intro: relay_table_evolves_trans relay_step_evolves relay_inv_reachable)


section \<open>Properties\<close>

definition demo_relay_database :: database where
  "demo_relay_database = empty_database\<lparr>devices := [demo_device ''a'' ''n'' None, demo_device ''b'' ''n'' None]\<rparr>"

definition demo_relay_row :: relay_session where
  "demo_relay_row = new_relay_session ''s'' ''t'' 0 ''a'' ''b'' ''default'' ''relay0''"

definition demo_relay_active :: relay_session where
  "demo_relay_active = demo_relay_row\<lparr>rel_state := ''active'', rel_connected_at := Some 5, rel_updated_at := 6\<rparr>"

lemmas demo_relay_defs =
  demo_relay_database_def demo_relay_row_def demo_relay_active_def new_relay_session_def
  demo_device_def empty_database_def

lemma demo_relay_inv: "relay_inv (demo_relay_database, 0)"
  by (simp add: relay_inv_def demo_relay_defs active_relays_def relay_sessions_ok_def)

lemma demo_relay_create:
  "relay_step (demo_relay_database, 0) (demo_relay_database\<lparr>relay_sessions := [demo_relay_row]\<rparr>, 0)"
proof -
  have "create_relay_session False ''s'' ''t'' 0 ''a'' ''b'' ''default'' ''relay0'' demo_relay_database =
      Inr (demo_relay_row, demo_relay_database\<lparr>relay_sessions := [demo_relay_row]\<rparr>,
        [Counter_inc ''RELAY_SESSIONS_TOTAL'' ''pending'' 1])"
    by (simp add: create_relay_session_def device_exists_def demo_relay_defs publish_def Let_def)
  from relay_step.create [OF this, of 0] show ?thesis
    by (simp add: gauge_step_def demo_relay_database_def empty_database_def)
qed

lemma demo_relay_activate:
  "relay_step (demo_relay_database\<lparr>relay_sessions := [demo_relay_row]\<rparr>, 0)
     (demo_relay_database\<lparr>relay_sessions := [demo_relay_active]\<rparr>, 1)"
proof -
  have "activate_relay_session False 5 6 ''s'' (demo_relay_database\<lparr>relay_sessions := [demo_relay_row]\<rparr>) =
      Inr (Some demo_relay_active, demo_relay_database\<lparr>relay_sessions := [demo_relay_active]\<rparr>,
        [Gauge_add relay_sessions_active 1, Counter_inc ''RELAY_SESSIONS_TOTAL'' ''active'' 1])"
    by (simp add: activate_relay_session_def put_relay_session_def update_row_def demo_relay_defs
        publish_def Let_def)
  from relay_step.activate [OF this, of 0] show ?thesis by (simp add: gauge_step_def)
qed

lemma demo_relay_reachable:
  "relay_reachable (demo_relay_database, 0)
     (demo_relay_database\<lparr>relay_sessions := [demo_relay_active]\<rparr>, 1)"
  by (rule relay_more [OF relay_more [OF relay_start
        demo_relay_create] demo_relay_activate])

text \<open>
  C38. Over any sequence of relay operations, starting from a consistent table, the gauge
  \<open>RELAY_CONNECTIONS_ACTIVE\<close> stays equal to the number of sessions in state \<open>active\<close>: activation,
  expiry, failure and the bulk clean-up each move it by exactly the rows they change. Every
  active session has its connection time, and every session joins two devices that exist.
\<close>

theorem relay_gauge_counts_active:
  assumes "relay_inv (d, v)" and "relay_reachable (d, v) (d', v')"
  shows "v' = int (active_relays d') \<and> relay_sessions_ok (relay_sessions d') \<and>
     list_all (\<lambda>r. (rel_state r = ''active'' \<longrightarrow> rel_connected_at r \<noteq> None) \<and>
        device_exists (rel_initiator_device_id r) d' \<and>
        device_exists (rel_target_device_id r) d') (relay_sessions d')"
  using relay_inv_reachable [OF assms(2,1)] by (auto simp: relay_inv_def relay_row_ok_def list_all_iff)

theorem relay_gauge_counts_active_witness:
  "active_relays (demo_relay_database\<lparr>relay_sessions := [demo_relay_active]\<rparr>) = 1"
  using relay_gauge_counts_active [OF demo_relay_inv demo_relay_reachable] by simp

text \<open>
  A relay session only moves forward: over any sequence of operations it keeps its id, its two
  devices, its token and its expiry, a session that was active never becomes pending again, and
  one that was expired or failed never becomes active again.
\<close>

theorem relay_lifecycle_forward:
  assumes "relay_inv (d, v)" and "relay_reachable (d, v) (d', v')" and "r \<in> set (relay_sessions d)"
  shows "\<exists>r' \<in> set (relay_sessions d'). rel_id r' = rel_id r \<and>
     rel_initiator_device_id r' = rel_initiator_device_id r \<and>
     rel_target_device_id r' = rel_target_device_id r \<and>
     rel_relay_token r' = rel_relay_token r \<and> rel_expires_at r' = rel_expires_at r \<and>
     (rel_state r = ''active'' \<longrightarrow> rel_state r' \<in> {''active'', ''expired'', ''failed''}) \<and>
     (rel_state r \<in> {''expired'', ''failed''} \<longrightarrow> rel_state r' \<in> {''expired'', ''failed''})"
proof -
  obtain r' where r': "r' \<in> set (relay_sessions d')" "relay_row_evolves r r'"
    using relay_reachable_evolves [OF assms(2,1)] assms(3) by (auto simp: relay_table_evolves_def)
  moreover have "relay_row_ok d' r'"
    using relay_inv_reachable [OF assms(2,1)] r'(1) by (simp add: relay_inv_def list_all_iff)
  ultimately show ?thesis
    by (intro bexI [of _ r'])
       (auto simp: relay_row_evolves_def relay_row_ok_def relay_rank_def split: if_splits)
qed

lemma demo_relay_active_inv:
  "relay_inv (demo_relay_database\<lparr>relay_sessions := [demo_relay_active]\<rparr>, 1)"
  by (rule relay_inv_reachable [OF demo_relay_reachable demo_relay_inv])

lemma demo_relay_fail:
  "relay_step (demo_relay_database\<lparr>relay_sessions := [demo_relay_active]\<rparr>, 1)
     (demo_relay_database\<lparr>relay_sessions :=
        [demo_relay_active\<lparr>rel_state := ''failed'', rel_updated_at := 9\<rparr>]\<rparr>, 0)"
proof -
  have "fail_relay_session False 9 ''s'' (demo_relay_database\<lparr>relay_sessions := [demo_relay_active]\<rparr>) =
      Inr (Some (demo_relay_active\<lparr>rel_state := ''failed'', rel_updated_at := 9\<rparr>),
        demo_relay_database\<lparr>relay_sessions :=
          [demo_relay_active\<lparr>rel_state := ''failed'', rel_updated_at := 9\<rparr>]\<rparr>,
        [Gauge_add relay_sessions_active (- 1)])"
    by (simp add: fail_relay_session_def close_relay_session_def find_relay_session_def
        put_relay_session_def update_row_def demo_relay_defs publish_def Let_def)
  from relay_step.fail [OF this, of 1] show ?thesis by (simp add: gauge_step_def)
qed

theorem relay_lifecycle_forward_witness:
  "\<exists>r' \<in> set (relay_sessions (demo_relay_database\<lparr>relay_sessions :=
        [demo_relay_active\<lparr>rel_state := ''failed'', rel_updated_at := 9\<rparr>]\<rparr>)).
     rel_id r' = rel_id demo_relay_active \<and> rel_state r' \<in> {''active'', ''expired'', ''failed''}"
  using relay_lifecycle_forward [OF demo_relay_active_inv
      relay_more [OF relay_start demo_relay_fail], of demo_relay_active]
  by (simp add: demo_relay_active_def)

text \<open>
  After the periodic clean-up no pending or active session is past its expiry, the returned
  count is the number of sessions that were, and every session that was not is untouched.
\<close>

theorem cleanup_expired_relays_complete:
  assumes "cleanup_expired_relays now d = (n, d', es)"
  shows "list_all (\<lambda>r. rel_state r \<in> {''pending'', ''active''} \<longrightarrow>
       (case rel_expires_at r of None \<Rightarrow> True | Some t \<Rightarrow> now < t)) (relay_sessions d') \<and>
     n = length (filter (relay_is_stale now) (relay_sessions d)) \<and>
     length (relay_sessions d') = length (relay_sessions d) \<and>
     list_all (\<lambda>(r, r'). if relay_is_stale now r
         then r' = r\<lparr>rel_state := ''expired'', rel_updated_at := now\<rparr> else r' = r)
       (zip (relay_sessions d) (relay_sessions d'))"
proof -
  let ?rows = "update_where (relay_is_stale now)
      (\<lambda>s. s\<lparr>rel_state := ''expired'', rel_updated_at := now\<rparr>) (relay_sessions d)"
  have d': "d' = d\<lparr>relay_sessions := ?rows\<rparr>" and n: "n = length (filter (relay_is_stale now) (relay_sessions d))"
    using assms by (auto simp: cleanup_expired_relays_def Let_def)
  have "list_all (\<lambda>(r, r'). (P r \<longrightarrow> r' = f r) \<and> (\<not> P r \<longrightarrow> r' = r)) (zip rows (update_where P f rows))"
    for P and f :: "relay_session \<Rightarrow> relay_session" and rows
    by (induction rows) (auto simp: update_where_def)
  moreover have "list_all (\<lambda>r. rel_state r \<in> {''pending'', ''active''} \<longrightarrow>
       (case rel_expires_at r of None \<Rightarrow> True | Some t \<Rightarrow> now < t)) ?rows"
    by (auto simp: list_all_iff set_update_where relay_is_stale_def split: option.splits)
  ultimately show ?thesis by (simp add: d' n)
qed

theorem cleanup_expired_relays_complete_witness:
  "cleanup_expired_relays 86400000000 (demo_relay_database\<lparr>relay_sessions := [demo_relay_active]\<rparr>) =
     (1, demo_relay_database\<lparr>relay_sessions := [demo_relay_active\<lparr>rel_state := ''expired'',
        rel_updated_at := 86400000000\<rparr>]\<rparr>,
      [Gauge_add relay_sessions_active (- 1), Counter_inc ''RELAY_SESSIONS_TOTAL'' ''expired'' 1]) \<and>
   length (filter (relay_is_stale 86400000000) [demo_relay_active]) = 1"
proof -
  have a: "cleanup_expired_relays 86400000000
      (demo_relay_database\<lparr>relay_sessions := [demo_relay_active]\<rparr>) =
     (1, demo_relay_database\<lparr>relay_sessions := [demo_relay_active\<lparr>rel_state := ''expired'',
        rel_updated_at := 86400000000\<rparr>]\<rparr>,
      [Gauge_add relay_sessions_active (- 1), Counter_inc ''RELAY_SESSIONS_TOTAL'' ''expired'' 1])"
    by (simp add: cleanup_expired_relays_def relay_is_stale_def demo_relay_defs update_where_def
        RELAY_SESSION_TIMEOUT_HOURS_def timedelta_defs)
  from cleanup_expired_relays_complete [OF a]
  have "length (filter (relay_is_stale 86400000000) [demo_relay_active]) = 1"
    by (elim conjE) (simp del: filter.simps)
  with a show ?thesis by (rule conjI)
qed

end
