(* ===== verification/Ipam.thy ===== *)
theory Ipam
  imports Domain Ipv4
begin

text \<open>
  \<open>backend/app/services/ipam.py\<close>: the pool of host addresses of a subnet, allocation of the first
  free one, and release. The address of the first host is the hub's own and is never handed out.
\<close>

section \<open>Operations\<close>

definition network_address_checked :: "string \<Rightarrow> ipv4_network result" where
  "network_address_checked subnet =
     (case IPv4Network subnet of
        Some n \<Rightarrow> Inr n
      | None \<Rightarrow> Inl (HTTPException 400 ''Invalid subnet''))"

definition pool_hosts :: "ipv4_network \<Rightarrow> nat list" where
  "pool_hosts n = (if prefixlen n \<le> 30 then hosts n else hosts n)"

text \<open>
  \<open>select(Device.ip_address).where(network, ip_address is not None)\<close>, every device of the network
  whether active or not.
\<close>

definition used_ips :: "database \<Rightarrow> uuid \<Rightarrow> string set" where
  "used_ips d nid =
     set (map (\<lambda>r. the (dev_ip_address r))
       (filter (\<lambda>r. dev_network_id r = nid \<and> dev_ip_address r \<noteq> None) (devices d)))"

fun first_free :: "string option \<Rightarrow> string set \<Rightarrow> nat list \<Rightarrow> string option" where
  "first_free gateway used [] = None"
| "first_free gateway used (h # hs) =
     (if Some (str_ipv4 h) = gateway then first_free gateway used hs
      else if str_ipv4 h \<notin> used then Some (str_ipv4 h)
      else first_free gateway used hs)"

definition allocate_ip :: "database \<Rightarrow> uuid \<Rightarrow> string \<Rightarrow> string result" where
  "allocate_ip d nid subnet =
     bind_result (network_address_checked subnet) (\<lambda>n.
       let used = used_ips d nid;
           available = pool_hosts n;
           gateway = (if available \<noteq> [] then Some (str_ipv4 (hd available)) else None)
       in case first_free gateway used available of
            Some ip \<Rightarrow> Inr ip
          | None \<Rightarrow> Inl (HTTPException 409 ''No available IP addresses in subnet''))"

definition release_ip :: "uuid \<Rightarrow> database \<Rightarrow> database result" where
  "release_ip did d =
     bind_result (scalar_one_or_none (filter (\<lambda>r. dev_id r = did) (devices d))) (\<lambda>ro.
       case ro of
         None \<Rightarrow> Inr d
       | Some _ \<Rightarrow> Inr (d\<lparr>devices := update_row dev_id did (\<lambda>r. r\<lparr>dev_ip_address := None\<rparr>)
                                    (devices d)\<rparr>))"

section \<open>Allocation\<close>

lemma first_free_Some:
  "first_free gw used hs = Some ip \<Longrightarrow>
     \<exists>pre h post. hs = pre @ h # post \<and> ip = str_ipv4 h \<and> Some ip \<noteq> gw \<and> ip \<notin> used \<and>
       (\<forall>g \<in> set pre. Some (str_ipv4 g) = gw \<or> str_ipv4 g \<in> used)"
proof (induction hs)
  case (Cons h hs)
  show ?case
  proof (cases "Some (str_ipv4 h) \<noteq> gw \<and> str_ipv4 h \<notin> used")
    case True
    with Cons.prems have "ip = str_ipv4 h" by auto
    with True have "h # hs = [] @ h # hs \<and> ip = str_ipv4 h \<and> Some ip \<noteq> gw \<and> ip \<notin> used" by simp
    then show ?thesis by (metis empty_iff list.set(1))
  next
    case False
    with Cons obtain pre g post where
      "hs = pre @ g # post \<and> ip = str_ipv4 g \<and> Some ip \<noteq> gw \<and> ip \<notin> used \<and>
         (\<forall>g \<in> set pre. Some (str_ipv4 g) = gw \<or> str_ipv4 g \<in> used)"
      by (auto split: if_splits)
    with False have "h # hs = (h # pre) @ g # post \<and> ip = str_ipv4 g \<and> Some ip \<noteq> gw \<and> ip \<notin> used \<and>
         (\<forall>g \<in> set (h # pre). Some (str_ipv4 g) = gw \<or> str_ipv4 g \<in> used)"
      by auto
    then show ?thesis by blast
  qed
qed simp

lemma first_free_None:
  "first_free gw used hs = None \<longleftrightarrow>
     (\<forall>h \<in> set hs. Some (str_ipv4 h) = gw \<or> str_ipv4 h \<in> used)"
  by (induction hs) auto

lemma pool_hosts_eq [simp]: "pool_hosts n = hosts n"
  by (simp add: pool_hosts_def)

lemma str_ipv4_host_inject:
  assumes "wf_network n" and "g \<in> set (hosts n)" and "h \<in> set (hosts n)"
  shows "str_ipv4 g = str_ipv4 h \<longleftrightarrow> g = h"
  using assms by (meson hosts_bound str_ipv4_inject)

lemma used_ips_iff:
  "ip \<in> used_ips d nid \<longleftrightarrow>
     (\<exists>r \<in> set (devices d). dev_network_id r = nid \<and> dev_ip_address r = Some ip)"
  by (force simp: used_ips_def)

lemma allocate_ip_cases:
  assumes "IPv4Network subnet = Some n"
  shows "allocate_ip d nid subnet =
    (case first_free (if hosts n \<noteq> [] then Some (str_ipv4 (hd (hosts n))) else None)
       (used_ips d nid) (hosts n) of
       Some ip \<Rightarrow> Inr ip
     | None \<Rightarrow> Inl (HTTPException 409 ''No available IP addresses in subnet''))"
  using assms by (simp add: allocate_ip_def network_address_checked_def Let_def)

lemma allocate_ip_network:
  assumes "allocate_ip d nid subnet = Inr ip"
  obtains n where "IPv4Network subnet = Some n"
  using assms by (cases "IPv4Network subnet")
    (auto simp: allocate_ip_def network_address_checked_def)

lemma allocate_ip_host:
  assumes "allocate_ip d nid subnet = Inr ip" and "IPv4Network subnet = Some n"
  obtains pre h post where "hosts n = pre @ h # post" and "ip = str_ipv4 h"
    and "h \<noteq> hd (hosts n)" and "ip \<notin> used_ips d nid"
    and "\<forall>g \<in> set pre. g = hd (hosts n) \<or> str_ipv4 g \<in> used_ips d nid"
proof -
  have wf: "wf_network n" using assms(2) by (rule IPv4Network_wf)
  let ?gw = "if hosts n \<noteq> [] then Some (str_ipv4 (hd (hosts n))) else None"
  have "first_free ?gw (used_ips d nid) (hosts n) = Some ip"
    using assms by (auto simp: allocate_ip_cases split: option.splits)
  then obtain pre h post where ff: "hosts n = pre @ h # post" "ip = str_ipv4 h" "Some ip \<noteq> ?gw"
      "ip \<notin> used_ips d nid"
      "\<forall>g \<in> set pre. Some (str_ipv4 g) = ?gw \<or> str_ipv4 g \<in> used_ips d nid"
    by (blast dest: first_free_Some)
  have "hd (hosts n) \<in> set (hosts n)" using ff(1) by (intro hd_in_set) simp
  then have "\<forall>g \<in> set pre. g = hd (hosts n) \<or> str_ipv4 g \<in> used_ips d nid"
    using ff(1,5) str_ipv4_host_inject [OF wf] by auto
  moreover have "h \<noteq> hd (hosts n)" using ff(1,2,3) by auto
  ultimately show ?thesis using that ff by blast
qed

section \<open>One address, one device\<close>

text \<open>
  The invariant the allocator maintains: within a network no two devices have the same address.
\<close>

definition device_addresses :: "database \<Rightarrow> uuid \<Rightarrow> string list" where
  "device_addresses d nid =
     map (\<lambda>r. the (dev_ip_address r))
       (filter (\<lambda>r. dev_network_id r = nid \<and> dev_ip_address r \<noteq> None) (devices d))"

definition unique_addresses :: "database \<Rightarrow> bool" where
  "unique_addresses d \<longleftrightarrow> list_all (\<lambda>n. distinct (device_addresses d n)) (map dev_network_id (devices d))"

lemma set_device_addresses: "set (device_addresses d nid) = used_ips d nid"
  by (simp add: device_addresses_def used_ips_def)

lemma unique_addresses_iff: "unique_addresses d \<longleftrightarrow> (\<forall>nid. distinct (device_addresses d nid))"
proof
  assume u: "unique_addresses d"
  show "\<forall>nid. distinct (device_addresses d nid)"
  proof
    fix nid
    show "distinct (device_addresses d nid)"
    proof (cases "nid \<in> dev_network_id ` set (devices d)")
      case True
      with u show ?thesis by (auto simp: unique_addresses_def list_all_iff)
    next
      case False
      then have "filter (\<lambda>r. dev_network_id r = nid \<and> dev_ip_address r \<noteq> None) (devices d) = []"
        unfolding filter_empty_conv by (metis image_eqI)
      then show ?thesis by (simp add: device_addresses_def)
    qed
  qed
qed (simp add: unique_addresses_def list_all_iff)

lemma unique_addresses_insert:
  assumes "unique_addresses d"
    and "\<And>ip. dev_ip_address r = Some ip \<Longrightarrow> ip \<notin> used_ips d (dev_network_id r)"
  shows "unique_addresses (d\<lparr>devices := devices d @ [r]\<rparr>)"
  using assms unfolding unique_addresses_iff
  by (auto simp: device_addresses_def used_ips_def)

lemma filter_update_clear:
  "map (\<lambda>r. the (dev_ip_address r))
     (filter (\<lambda>r. dev_network_id r = nid \<and> dev_ip_address r \<noteq> None)
       (update_row dev_id did (\<lambda>r. r\<lparr>dev_ip_address := None\<rparr>) rows)) =
   map (\<lambda>r. the (dev_ip_address r)) (filter (\<lambda>r. dev_id r \<noteq> did)
      (filter (\<lambda>r. dev_network_id r = nid \<and> dev_ip_address r \<noteq> None) rows))"
  by (induction rows) (auto simp: update_row_def)

lemma device_addresses_clear:
  "distinct (device_addresses d nid) \<Longrightarrow>
   distinct (device_addresses (d\<lparr>devices := update_row dev_id did
      (\<lambda>r. r\<lparr>dev_ip_address := None\<rparr>) (devices d)\<rparr>) nid)"
proof -
  assume D: "distinct (device_addresses d nid)"
  have "device_addresses (d\<lparr>devices := update_row dev_id did
      (\<lambda>r. r\<lparr>dev_ip_address := None\<rparr>) (devices d)\<rparr>) nid =
    map (\<lambda>r. the (dev_ip_address r)) (filter (\<lambda>r. dev_id r \<noteq> did)
      (filter (\<lambda>r. dev_network_id r = nid \<and> dev_ip_address r \<noteq> None) (devices d)))"
    using filter_update_clear [of nid did "devices d"] by (simp add: device_addresses_def)
  then show ?thesis
    using D unfolding device_addresses_def by (simp only: distinct_map_filter)
qed

lemma unique_addresses_release:
  assumes "unique_addresses d" and "release_ip did d = Inr d'"
  shows "unique_addresses d'"
  using assms device_addresses_clear
  by (auto simp: release_ip_def bind_result_eq_Inr unique_addresses_iff split: option.splits)

section \<open>Properties\<close>

text \<open>
  C34. An address handed out by \<open>allocate_ip\<close> is a host address of the parsed subnet, is not the
  first host (the hub's own address), is not held by any device of that network, and is the first
  such address: every earlier host of the subnet is the hub's or already taken.
\<close>

theorem allocate_ip_first_free:
  assumes "allocate_ip d nid subnet = Inr ip"
  shows "\<exists>n pre h post. IPv4Network subnet = Some n \<and> hosts n = pre @ h # post \<and>
      ip = str_ipv4 h \<and> in_network h n \<and> h \<noteq> hd (hosts n) \<and>
      list_all (\<lambda>r. dev_network_id r = nid \<longrightarrow> dev_ip_address r \<noteq> Some ip) (devices d) \<and>
      list_all (\<lambda>g. g = hd (hosts n) \<or> str_ipv4 g \<in> used_ips d nid) pre"
proof -
  obtain n where n: "IPv4Network subnet = Some n" using assms by (rule allocate_ip_network)
  then obtain pre h post where h: "hosts n = pre @ h # post" "ip = str_ipv4 h"
      "h \<noteq> hd (hosts n)" "ip \<notin> used_ips d nid"
      "\<forall>g \<in> set pre. g = hd (hosts n) \<or> str_ipv4 g \<in> used_ips d nid"
    using assms by (elim allocate_ip_host)
  moreover have "in_network h n"
    using h(1) IPv4Network_wf [OF n] by (intro hosts_in_network) auto
  ultimately show ?thesis
    using n by (fastforce simp: list_all_iff used_ips_iff)
qed

lemma demo_pool_29:
  "IPv4Network ''10.0.0.0/29'' = Some \<lparr>network_address = 167772160, prefixlen = 29\<rparr>"
  "hosts \<lparr>network_address = 167772160, prefixlen = 29\<rparr> =
     [167772161, 167772162, 167772163, 167772164, 167772165, 167772166]"
  by (simp_all add: py_simps)

lemma demo_pool_30:
  "IPv4Network ''10.0.0.0/30'' = Some \<lparr>network_address = 167772160, prefixlen = 30\<rparr>"
  "hosts \<lparr>network_address = 167772160, prefixlen = 30\<rparr> = [167772161, 167772162]"
  by (simp_all add: py_simps)

lemma demo_addresses:
  "str_ipv4 167772161 = ''10.0.0.1''" "str_ipv4 167772162 = ''10.0.0.2''"
  "str_ipv4 167772163 = ''10.0.0.3''"
  by (simp_all add: py_simps)

theorem allocate_ip_first_free_witness:
  "allocate_ip (empty_database\<lparr>devices := [demo_device ''a'' ''n'' (Some ''10.0.0.2'')]\<rparr>)
      ''n'' ''10.0.0.0/29'' = Inr ''10.0.0.3'' \<and>
   (\<exists>n pre h post. IPv4Network ''10.0.0.0/29'' = Some n \<and> hosts n = pre @ h # post \<and>
      ''10.0.0.3'' = str_ipv4 h \<and> h \<noteq> hd (hosts n))"
proof -
  have a: "allocate_ip (empty_database\<lparr>devices := [demo_device ''a'' ''n'' (Some ''10.0.0.2'')]\<rparr>)
      ''n'' ''10.0.0.0/29'' = Inr ''10.0.0.3''"
    by (simp add: allocate_ip_cases [OF demo_pool_29(1)] demo_pool_29(2) demo_addresses used_ips_def
        demo_device_def)
  show ?thesis using a allocate_ip_first_free [OF a] by blast
qed

text \<open>
  For a subnet that parses, \<open>allocate_ip\<close> fails exactly when every host address but the
  first is held by a device of the network, and then it fails with HTTP 409.
\<close>

theorem allocate_ip_exhausted:
  assumes "IPv4Network subnet = Some n"
  shows "(\<forall>e. allocate_ip d nid subnet = Inl e \<longrightarrow>
            e = HTTPException 409 ''No available IP addresses in subnet'') \<and>
         ((\<exists>e. allocate_ip d nid subnet = Inl e) \<longleftrightarrow>
            list_all (\<lambda>h. str_ipv4 h \<in> used_ips d nid) (tl (hosts n)))"
proof -
  have wf: "wf_network n" using assms by (rule IPv4Network_wf)
  show ?thesis
  proof (cases "hosts n")
    case Nil
    then show ?thesis by (simp add: allocate_ip_cases [OF assms])
  next
    case (Cons g hs)
    have "str_ipv4 h \<noteq> str_ipv4 g" if "h \<in> set hs" for h
    proof -
      have "g \<notin> set hs" using distinct_hosts [of n] by (simp add: Cons)
      then show ?thesis using that str_ipv4_host_inject [OF wf, of h g] by (auto simp: Cons)
    qed
    then show ?thesis
      by (auto simp: allocate_ip_cases [OF assms] Cons first_free_None list_all_iff
          split: option.splits)
         (metis first_free_None not_Some_eq option.inject)+
  qed
qed

theorem allocate_ip_exhausted_witness:
  "IPv4Network ''10.0.0.0/30'' = Some \<lparr>network_address = 167772160, prefixlen = 30\<rparr> \<and>
   allocate_ip (empty_database\<lparr>devices := [demo_device ''a'' ''n'' (Some ''10.0.0.2'')]\<rparr>)
      ''n'' ''10.0.0.0/30'' = Inl (HTTPException 409 ''No available IP addresses in subnet'')"
proof -
  note n = demo_pool_30(1)
  have "list_all (\<lambda>h. str_ipv4 h \<in> used_ips (empty_database\<lparr>devices :=
      [demo_device ''a'' ''n'' (Some ''10.0.0.2'')]\<rparr>) ''n'')
      (tl (hosts \<lparr>network_address = 167772160, prefixlen = 30\<rparr>))"
    by (simp add: demo_pool_30(2) demo_addresses used_ips_def demo_device_def)
  then show ?thesis using n allocate_ip_exhausted [OF n] by blast
qed

end
