(* ===== verification/Config_V2.thy ===== *)
theory Config_V2
  imports Topology Scoring Relay Ipam
begin

text \<open>
  The configuration pipeline: \<open>services/network_state.py\<close> reads the database into pure state
  objects, \<open>services/wireguard.py\<close> plans the peers of one device and enriches them with endpoint
  candidates and relay information (\<open>build_config_v2\<close>) or renders WireGuard text
  (\<open>get_device_config\<close>), and \<open>services/config_renderer.py\<close> renders a plan and hashes it.
  SHA-256 is the parameter \<open>sha256\<close>, Fernet decryption is \<open>decrypt\<close>, and \<open>set_order\<close> is the order in
  which the interpreter enumerates a set of strings.
\<close>

section \<open>Reading the database\<close>

definition build_network_state :: "database \<Rightarrow> uuid \<Rightarrow> network_state result" where
  "build_network_state d nid =
     bind_result (scalar_one (filter (\<lambda>n. net_id n = nid) (networks d))) (\<lambda>n.
       Inr \<lparr>ns_subnet = net_subnet n, ns_topology = net_topology n\<rparr>)"

text \<open>The devices that take part in the network: active, with a key and an address.\<close>

definition is_member :: "uuid \<Rightarrow> device \<Rightarrow> bool" where
  "is_member nid r \<longleftrightarrow> dev_network_id r = nid \<and> dev_is_active r \<and>
     dev_public_key r \<noteq> None \<and> dev_ip_address r \<noteq> None"

definition active_devices :: "database \<Rightarrow> uuid \<Rightarrow> device list" where
  "active_devices d nid = filter (is_member nid) (devices d)"

definition build_device_states :: "database \<Rightarrow> uuid \<Rightarrow> device_state list \<times> string option" where
  "build_device_states d nid =
     (let devs = active_devices d nid in
      (map device_state_of devs,
       foldl (\<lambda>sid r. if dev_name r = server_device_name then Some (dev_id r) else sid) None devs))"

definition build_dns_servers :: "(string set \<Rightarrow> string list) \<Rightarrow> database \<Rightarrow> uuid
    \<Rightarrow> string list option" where
  "build_dns_servers set_order d nid =
     (let entries = filter (\<lambda>e. dns_network_id e = nid) (dns_entries d) in
      if entries = [] then None else Some (set_order (set (map dns_address entries))))"

text \<open>\<open>if did not in m: m[did] = []\<close> and \<open>m[did].append(x)\<close>.\<close>

definition append_to :: "(string \<rightharpoonup> 'a list) \<Rightarrow> string \<Rightarrow> 'a \<Rightarrow> (string \<rightharpoonup> 'a list)" where
  "append_to m k x = m(k \<mapsto> get_list m k @ [x])"

definition approved_routes :: "database \<Rightarrow> uuid \<Rightarrow> route list" where
  "approved_routes d nid =
     filter (\<lambda>r. rt_network_id r = nid \<and> rt_approved r \<and> rt_enabled r) (routes d)"

definition build_routes_by_device :: "database \<Rightarrow> uuid \<Rightarrow> string list \<times> routes_by_device" where
  "build_routes_by_device d nid =
     (let rows = approved_routes d nid in
      (map rt_prefix rows,
       foldl (\<lambda>m r. append_to m (rt_device_id r) (rt_prefix r)) Map.empty rows))"

definition network_endpoints :: "database \<Rightarrow> uuid \<Rightarrow> endpoint list" where
  "network_endpoints d nid =
     filter (\<lambda>e. ep_is_active e \<and>
         list_ex (\<lambda>r. dev_id r = ep_device_id e \<and> dev_network_id r = nid \<and> dev_is_active r) (devices d))
       (endpoints d)"

definition build_endpoints_by_device :: "database \<Rightarrow> uuid \<Rightarrow> endpoints_by_device" where
  "build_endpoints_by_device d nid =
     foldl (\<lambda>m e. append_to m (ep_device_id e) e) Map.empty
       (sorted_by (\<lambda>e. (- ep_priority e, - ep_last_seen e)) (network_endpoints d nid))"

section \<open>Choosing a generator\<close>

definition TopologyType :: "string \<Rightarrow> topology_type result" where
  "TopologyType s =
     (if s = ''star'' then Inr STAR else if s = ''mesh'' then Inr MESH
      else if s = ''hybrid'' then Inr HYBRID else Inl (ValueError s))"

definition topology_name :: "settings \<Rightarrow> string option \<Rightarrow> string" where
  "topology_name cfg t = (if truthy_str t then the t else cfg_wireguard_topology cfg)"

fun generate_plan_of :: "topology_type \<Rightarrow> settings \<Rightarrow> device_state \<Rightarrow> device_state list
    \<Rightarrow> network_state \<Rightarrow> string \<Rightarrow> routes_by_device \<Rightarrow> endpoints_by_device \<Rightarrow> topology_plan" where
  "generate_plan_of STAR = star_generate_plan"
| "generate_plan_of MESH = mesh_generate_plan"
| "generate_plan_of HYBRID = hybrid_generate_plan"

definition get_topology_generator_from_state :: "settings \<Rightarrow> network_state option
    \<Rightarrow> topology_type result" where
  "get_topology_generator_from_state cfg n =
     TopologyType (topology_name cfg (case n of None \<Rightarrow> None | Some ns \<Rightarrow> ns_topology ns))"

definition get_topology_generator :: "settings \<Rightarrow> network option \<Rightarrow> topology_type result" where
  "get_topology_generator cfg n =
     get_topology_generator_from_state cfg
       (Some \<lparr>ns_subnet = [], ns_topology =
          Some (topology_name cfg (case n of None \<Rightarrow> None | Some r \<Rightarrow> net_topology r))\<rparr>)"

section \<open>The response\<close>

record endpoint_candidate =
  ec_endpoint :: string
  ec_port :: int
  ec_source :: string
  ec_priority :: int
  ec_last_seen_at :: "string option"
  ec_local_ip :: "string option"
  ec_public_ip :: "string option"
  ec_reachable :: bool
  ec_latency_ms :: "int option"
  ec_score :: int
  ec_preferred :: bool

record relay_candidate_info =
  rc_relay_node :: string
  rc_relay_region :: string
  rc_relay_endpoint :: string
  rc_priority :: int
  rc_preferred :: bool

record peer_info =
  pi_public_key :: string
  pi_allowed_ips :: "string list"
  pi_endpoint :: "string option"
  pi_endpoint_port :: "int option"
  pi_persistent_keepalive :: "int option"
  pi_endpoint_candidates :: "endpoint_candidate list"
  pi_relay_fallback :: bool
  pi_relay_candidates :: "relay_candidate_info list option"
  pi_relay_required :: bool

record config_interface =
  ci_address :: string
  ci_dns :: "string list option"
  ci_mtu :: "int option"

record config_v2 =
  cv_interface :: config_interface
  cv_peers :: "peer_info list"
  cv_routes :: "string list"
  cv_exit_node :: "string option"
  cv_version :: string
  cv_config_version :: string
  cv_schema_version :: string
  cv_min_daemon_version :: "string option"
  cv_revision :: string
  cv_generated_at :: string
  cv_hash :: string

section \<open>Serialisation and hash\<close>

definition json_strs :: "string list \<Rightarrow> json" where
  "json_strs xs = JList (map JStr xs)"

definition candidate_json :: "endpoint_candidate \<Rightarrow> json" where
  "candidate_json c = JObj
     [(''endpoint'', JStr (ec_endpoint c)), (''port'', JInt (ec_port c)),
      (''source'', JStr (ec_source c)), (''priority'', JInt (ec_priority c)),
      (''last_seen_at'', json_opt_str (ec_last_seen_at c)),
      (''local_ip'', json_opt_str (ec_local_ip c)), (''public_ip'', json_opt_str (ec_public_ip c)),
      (''reachable'', JBool (ec_reachable c)), (''latency_ms'', json_opt_int (ec_latency_ms c)),
      (''score'', JInt (ec_score c)), (''preferred'', JBool (ec_preferred c))]"

definition relay_candidate_json :: "relay_candidate_info \<Rightarrow> json" where
  "relay_candidate_json c = JObj
     [(''relay_node'', JStr (rc_relay_node c)), (''relay_region'', JStr (rc_relay_region c)),
      (''relay_endpoint'', JStr (rc_relay_endpoint c)), (''priority'', JInt (rc_priority c)),
      (''preferred'', JBool (rc_preferred c))]"

definition peer_json :: "peer_info \<Rightarrow> json" where
  "peer_json p = JObj
     [(''public_key'', JStr (pi_public_key p)), (''allowed_ips'', json_strs (pi_allowed_ips p)),
      (''endpoint'', json_opt_str (pi_endpoint p)),
      (''endpoint_port'', json_opt_int (pi_endpoint_port p)),
      (''persistent_keepalive'', json_opt_int (pi_persistent_keepalive p)),
      (''endpoint_candidates'', JList (map candidate_json (pi_endpoint_candidates p))),
      (''relay_fallback'', JBool (pi_relay_fallback p)),
      (''relay_candidates'', case pi_relay_candidates p of None \<Rightarrow> JNull
          | Some cs \<Rightarrow> JList (map relay_candidate_json cs)),
      (''relay_required'', JBool (pi_relay_required p))]"

definition interface_json :: "config_interface \<Rightarrow> json" where
  "interface_json i = JObj
     [(''address'', JStr (ci_address i)),
      (''dns'', case ci_dns i of None \<Rightarrow> JNull | Some ds \<Rightarrow> json_strs ds),
      (''mtu'', json_opt_int (ci_mtu i))]"

definition config_data :: "config_interface \<Rightarrow> peer_info list \<Rightarrow> string list \<Rightarrow> string option
    \<Rightarrow> json" where
  "config_data i ps rs x = JObj
     [(''interface'', interface_json i), (''peers'', JList (map peer_json ps)),
      (''routes'', json_strs rs), (''exit_node'', json_opt_str x), (''version'', JStr ''2''),
      (''config_version'', JStr ''2''), (''schema_version'', JStr ''1'')]"

definition compute_config_hash :: "(string \<Rightarrow> string) \<Rightarrow> json \<Rightarrow> string" where
  "compute_config_hash sha256 data = sha256 (json_dumps_sorted data)"

definition config_response :: "(string \<Rightarrow> string) \<Rightarrow> datetime \<Rightarrow> config_interface \<Rightarrow> peer_info list
    \<Rightarrow> string list \<Rightarrow> string option \<Rightarrow> config_v2" where
  "config_response sha256 now i ps rs x =
     \<lparr>cv_interface = i, cv_peers = ps, cv_routes = rs, cv_exit_node = x,
      cv_version = ''2'', cv_config_version = ''2'', cv_schema_version = ''1'',
      cv_min_daemon_version = Some ''0.1.0'',
      cv_revision = str_int (timestamp_int now), cv_generated_at = isoformat now,
      cv_hash = compute_config_hash sha256 (config_data i ps rs x)\<rparr>"

section \<open>Peers of one device\<close>

definition candidate_of :: "string option \<Rightarrow> endpoint \<Rightarrow> endpoint_candidate" where
  "candidate_of best_id e =
     \<lparr>ec_endpoint = ep_endpoint e, ec_port = ep_port e, ec_source = ep_source e,
      ec_priority = ep_priority e, ec_last_seen_at = Some (isoformat (ep_last_seen e)),
      ec_local_ip = ep_local_ip e, ec_public_ip = ep_public_ip e, ec_reachable = ep_reachable e,
      ec_latency_ms = ep_latency_ms e, ec_score = ep_score e,
      ec_preferred = (Some (ep_id e) = best_id)\<rparr>"

text \<open>The loop over the sorted endpoints: candidates, and the running best endpoint and port.\<close>

fun candidate_loop :: "string option \<Rightarrow> endpoint list
    \<Rightarrow> endpoint_candidate list \<times> string option \<times> int option
    \<Rightarrow> endpoint_candidate list \<times> string option \<times> int option" where
  "candidate_loop best_id [] acc = acc"
| "candidate_loop best_id (e # es) (cs, best_ep, best_port) =
     candidate_loop best_id es
       (cs @ [candidate_of best_id e],
        if best_ep = None \<or> Some (ep_id e) = best_id
        then (Some (ep_endpoint e), Some (ep_port e)) else (best_ep, best_port))"

definition relay_candidate_of_dict :: "dict \<Rightarrow> relay_candidate_info result" where
  "relay_candidate_of_dict c =
     (case (dict_get c ''relay_node'', dict_get c ''relay_region'', dict_get c ''relay_endpoint'',
            dict_get_default c ''priority'' (JInt 100), dict_get_default c ''preferred'' (JBool False)) of
        (Some (JStr node), Some (JStr region), Some (JStr ep), JInt prio, JBool pref) \<Rightarrow>
          Inr \<lparr>rc_relay_node = node, rc_relay_region = region, rc_relay_endpoint = ep,
               rc_priority = prio, rc_preferred = pref\<rparr>
      | _ \<Rightarrow> Inl (ValueError ''RelayCandidateInfo''))"

definition peer_info_of :: "settings \<Rightarrow> uuid \<Rightarrow> bool \<Rightarrow> (string \<rightharpoonup> string) \<Rightarrow> endpoints_by_device
    \<Rightarrow> peer_plan \<Rightarrow> peer_info result" where
  "peer_info_of cfg did is_mesh_or_hybrid pk_to_device_id ebd pp =
     (let peer_device_id = (case pk_to_device_id (pp_public_key pp) of None \<Rightarrow> [] | Some i \<Rightarrow> i);
          d_eps = get_list ebd peer_device_id;
          (candidates, best_ep, best_port) =
            (if d_eps \<noteq> [] \<and> is_mesh_or_hybrid
             then candidate_loop (map_option ep_id (select_best_endpoint d_eps))
                    (sort_endpoint_candidates d_eps) ([], pp_endpoint pp, pp_endpoint_port pp)
             else ([], pp_endpoint pp, pp_endpoint_port pp));
          relay_fallback = (if d_eps \<noteq> [] then False else pp_relay_fallback pp);
          relay_required = (relay_fallback \<and> is_mesh_or_hybrid);
          relays = (if relay_required
                    then (case get_best_relay_candidate cfg did of None \<Rightarrow> [] | Some c \<Rightarrow> [c]) else [])
      in bind_result
           (case relays of [] \<Rightarrow> Inr None
            | c # _ \<Rightarrow> bind_result (relay_candidate_of_dict c) (\<lambda>i. Inr (Some [i]))) (\<lambda>rcs.
           Inr \<lparr>pi_public_key = pp_public_key pp, pi_allowed_ips = pp_allowed_ips pp,
                pi_endpoint = or_str best_ep (pp_endpoint pp),
                pi_endpoint_port = or_int best_port (pp_endpoint_port pp),
                pi_persistent_keepalive = pp_persistent_keepalive pp,
                pi_endpoint_candidates = (if is_mesh_or_hybrid then candidates else []),
                pi_relay_fallback = relay_required, pi_relay_candidates = rcs,
                pi_relay_required = relay_required\<rparr>))"

fun map_result :: "('a \<Rightarrow> 'b result) \<Rightarrow> 'a list \<Rightarrow> 'b list result" where
  "map_result f [] = Inr []"
| "map_result f (x # xs) =
     bind_result (f x) (\<lambda>y. bind_result (map_result f xs) (\<lambda>ys. Inr (y # ys)))"

definition build_config_v2 :: "(string \<Rightarrow> string) \<Rightarrow> (string set \<Rightarrow> string list) \<Rightarrow> settings \<Rightarrow> datetime
    \<Rightarrow> database \<Rightarrow> device \<Rightarrow> config_v2 result" where
  "build_config_v2 sha256 set_order cfg now d r =
     bind_result (build_network_state d (dev_network_id r)) (\<lambda>n.
       let (states, server_id) = build_device_states d (dev_network_id r);
           dns = (if dev_dns_enabled r then build_dns_servers set_order d (dev_network_id r) else None);
           (rs, rbd) = build_routes_by_device d (dev_network_id r);
           ebd = build_endpoints_by_device d (dev_network_id r);
           ttype_str = topology_name cfg (ns_topology n);
           is_mesh_or_hybrid = (ttype_str \<in> {''mesh'', ''hybrid''})
       in case find (\<lambda>s. ds_id s = dev_id r) states of
            None \<Rightarrow> Inl (HTTPException 404 ''Device not found in active devices'')
          | Some cur \<Rightarrow>
              bind_result (get_topology_generator_from_state cfg (Some n)) (\<lambda>ttype.
                let plan = generate_plan_of ttype cfg cur states n
                             (case server_id of None \<Rightarrow> [] | Some i \<Rightarrow> i) rbd ebd;
                    pk_to_device_id = map_of (rev (map (\<lambda>s. (ds_public_key s, ds_id s)) states))
                in bind_result (map_result (peer_info_of cfg (dev_id r) is_mesh_or_hybrid
                       pk_to_device_id ebd) (tp_peers plan)) (\<lambda>peers.
                     case IPv4Network (ns_subnet n) of
                       None \<Rightarrow> Inl (ValueError (ns_subnet n))
                     | Some net \<Rightarrow>
                         Inr (config_response sha256 now
                           \<lparr>ci_address = ds_ip_address cur @ ''/'' @ str_nat (prefixlen net),
                            ci_dns = dns, ci_mtu = None\<rparr>
                           peers rs (dev_exit_node_id r)))))"

text \<open>
  \<open>render_config\<close>: the same response from a bare plan, without candidates. The empty list and
  \<open>None\<close> give the same \<open>routes or []\<close>.
\<close>

definition rendered_peer :: "bool \<Rightarrow> peer_plan \<Rightarrow> peer_info" where
  "rendered_peer is_mesh_or_hybrid pp =
     \<lparr>pi_public_key = pp_public_key pp, pi_allowed_ips = pp_allowed_ips pp,
      pi_endpoint = pp_endpoint pp, pi_endpoint_port = pp_endpoint_port pp,
      pi_persistent_keepalive = pp_persistent_keepalive pp, pi_endpoint_candidates = [],
      pi_relay_fallback = (pp_relay_fallback pp \<and> is_mesh_or_hybrid),
      pi_relay_candidates = None, pi_relay_required = False\<rparr>"

definition render_config :: "(string \<Rightarrow> string) \<Rightarrow> datetime \<Rightarrow> topology_plan \<Rightarrow> string list option
    \<Rightarrow> string list \<Rightarrow> string option \<Rightarrow> string \<Rightarrow> config_v2 result" where
  "render_config sha256 now plan dns rs exit_node_id topology_type =
     (case IPv4Network (tp_subnet plan) of
        None \<Rightarrow> Inl (ValueError (tp_subnet plan))
      | Some net \<Rightarrow>
          Inr (config_response sha256 now
            \<lparr>ci_address = tp_address plan @ ''/'' @ str_nat (prefixlen net), ci_dns = dns,
             ci_mtu = None\<rparr>
            (map (rendered_peer (topology_type \<in> {''mesh'', ''hybrid''})) (tp_peers plan))
            rs exit_node_id))"

section \<open>WireGuard text\<close>

definition nl :: string where "nl = ''\<newline>''"

definition generate_device_config :: "string \<Rightarrow> string \<Rightarrow> string \<Rightarrow> string \<Rightarrow> string \<Rightarrow> int
    \<Rightarrow> string list option \<Rightarrow> string result" where
  "generate_device_config private_key device_ip subnet server_key server_ep server_port dns =
     (case IPv4Network subnet of
        None \<Rightarrow> Inl (ValueError subnet)
      | Some n \<Rightarrow>
          (let dns_line = (case dns of None \<Rightarrow> [] | Some ds \<Rightarrow>
                 if ds = [] then [] else ''DNS = '' @ join '', '' ds @ nl)
           in Inr (''[Interface]'' @ nl @ ''PrivateKey = '' @ private_key @ nl @
                ''Address = '' @ device_ip @ ''/'' @ str_nat (prefixlen n) @ nl @
                dns_line @ nl @ nl @ ''[Peer]'' @ nl @
                ''PublicKey = '' @ server_key @ nl @
                ''Endpoint = '' @ server_ep @ '':'' @ str_int server_port @ nl @
                ''AllowedIPs = '' @ subnet @ nl @ ''PersistentKeepalive = 25'' @ nl)))"

text \<open>
  A peer of the server configuration: its key, its address and, when the caller gave them, its
  allowed addresses. \<open>peer["ip_address"]\<close> is evaluated whether or not it is needed.
\<close>

definition generate_server_config :: "string \<Rightarrow> string \<Rightarrow> string \<Rightarrow> int
    \<Rightarrow> (string \<times> string \<times> string option) list \<Rightarrow> string result" where
  "generate_server_config private_key server_ip subnet listen_port peers =
     (case IPv4Network subnet of
        None \<Rightarrow> Inl (ValueError subnet)
      | Some n \<Rightarrow>
          Inr (''[Interface]'' @ nl @ ''PrivateKey = '' @ private_key @ nl @
               ''Address = '' @ server_ip @ ''/'' @ str_nat (prefixlen n) @ nl @
               ''ListenPort = '' @ str_int listen_port @ nl @ ''SaveConfig = false'' @ nl @ nl @
               concat (map (\<lambda>(key, ip, allowed).
                 ''[Peer]'' @ nl @ ''PublicKey = '' @ key @ nl @
                 ''AllowedIPs = '' @ (case allowed of None \<Rightarrow> ip | Some a \<Rightarrow> a) @ nl @ nl) peers)))"

definition get_device_config :: "(string \<Rightarrow> string result) \<Rightarrow> (string set \<Rightarrow> string list) \<Rightarrow> settings
    \<Rightarrow> database \<Rightarrow> uuid \<Rightarrow> string result" where
  "get_device_config decrypt set_order cfg d did =
     bind_result (scalar_one_or_none (filter (\<lambda>r. dev_id r = did) (devices d))) (\<lambda>ro.
       case ro of
         None \<Rightarrow> Inl (HTTPException 404 ''Device not found'')
       | Some r \<Rightarrow>
           (if \<not> truthy_str (dev_public_key r) \<or> \<not> truthy_str (dev_private_key_enc r) \<or>
               \<not> truthy_str (dev_ip_address r)
            then Inl (HTTPException 400 ''Device keys not yet generated'')
            else bind_result (scalar_one (filter (\<lambda>n. net_id n = dev_network_id r) (networks d))) (\<lambda>n.
              let all_devices = active_devices d (dev_network_id r) in
              case find (\<lambda>x. dev_name x = server_device_name) all_devices of
                None \<Rightarrow> Inl (HTTPException 500 ''Server device not found in network'')
              | Some server \<Rightarrow>
                  (let dns = (if dev_dns_enabled r
                              then build_dns_servers set_order d (dev_network_id r) else None);
                       rbd = snd (build_routes_by_device d (dev_network_id r))
                   in bind_result (get_topology_generator cfg (Some n)) (\<lambda>ttype.
                        bind_result (generate_configs decrypt (generate_plan_of ttype) cfg all_devices
                            server n dns rbd Map.empty) (\<lambda>configs.
                          case map_of configs did of
                            None \<Rightarrow> Inl (HTTPException 500 ''Failed to generate device config'')
                          | Some c \<Rightarrow> to_ini c))))))"

definition get_server_public_key :: "database \<Rightarrow> string option result" where
  "get_server_public_key d =
     bind_result (scalar_one_or_none
       (filter (\<lambda>r. dev_name r = server_device_name \<and> dev_public_key r \<noteq> None) (devices d))) (\<lambda>ro.
       Inr (case ro of None \<Rightarrow> None | Some r \<Rightarrow> dev_public_key r))"

text \<open>\<open>keypair\<close> is what \<open>wg genkey\<close> and \<open>wg pubkey\<close> printed, \<open>encrypt\<close> is Fernet encryption.\<close>

definition save_device_keys :: "(string \<Rightarrow> string) \<Rightarrow> string \<times> string \<Rightarrow> datetime \<Rightarrow> uuid \<Rightarrow> database \<Rightarrow> database" where
  "save_device_keys encrypt keypair now did d =
     d\<lparr>devices := update_row dev_id did
          (\<lambda>r. r\<lparr>dev_private_key_enc := Some (encrypt (fst keypair)),
                dev_public_key := Some (snd keypair), dev_updated_at := now\<rparr>) (devices d)\<rparr>"

section \<open>Grouping\<close>

lemma get_list_append_to:
  "get_list (append_to m k x) j = (if j = k then get_list m k @ [x] else get_list m j)"
  by (simp add: append_to_def get_list_def)

lemma get_list_empty [simp]: "get_list Map.empty k = []"
  by (simp add: get_list_def)

lemma get_list_group:
  "get_list (foldl (\<lambda>m x. append_to m (key x) (val x)) m xs) k =
     get_list m k @ map val (filter (\<lambda>x. key x = k) xs)"
  by (induction xs arbitrary: m) (auto simp: get_list_append_to)

lemma get_list_endpoints:
  "get_list (build_endpoints_by_device d nid) did =
     filter (\<lambda>e. ep_device_id e = did)
       (sorted_by (\<lambda>e. (- ep_priority e, - ep_last_seen e)) (network_endpoints d nid))"
  using get_list_group [where val = "\<lambda>e. e" and key = ep_device_id and m = Map.empty and k = did]
  by (simp add: build_endpoints_by_device_def)

lemma set_endpoints_by_device:
  "set (get_list (build_endpoints_by_device d nid) did) =
     {e \<in> set (endpoints d). ep_is_active e \<and> ep_device_id e = did \<and>
        list_ex (\<lambda>r. dev_id r = did \<and> dev_network_id r = nid \<and> dev_is_active r) (devices d)}"
  by (auto simp: get_list_endpoints network_endpoints_def)

lemma distinct_endpoints_by_device:
  assumes "endpoints_ok (endpoints d)"
  shows "distinct (map ep_id (get_list (build_endpoints_by_device d nid) did))"
proof -
  have "distinct (endpoints d)" "inj_on ep_id (set (endpoints d))"
    using assms by (auto simp: endpoints_ok_def distinct_map)
  then have "distinct (network_endpoints d nid)" by (simp add: network_endpoints_def)
  then have "distinct (get_list (build_endpoints_by_device d nid) did)"
    by (simp add: get_list_endpoints)
  moreover have "inj_on ep_id (set (get_list (build_endpoints_by_device d nid) did))"
    using \<open>inj_on ep_id (set (endpoints d))\<close>
    by (rule inj_on_subset) (auto simp: set_endpoints_by_device)
  ultimately show ?thesis by (simp add: distinct_map)
qed

section \<open>The candidate loop\<close>

lemma candidate_loop_rest:
  "(\<And>e. e \<in> set es \<Longrightarrow> Some (ep_id e) \<noteq> bid) \<Longrightarrow> b \<noteq> None \<Longrightarrow>
     candidate_loop bid es (cs, b, p) = (cs @ map (candidate_of bid) es, b, p)"
  by (induction es arbitrary: cs) auto

lemma candidate_loop_best:
  assumes "Some (ep_id best) = bid" and "\<And>e. e \<in> set post \<Longrightarrow> Some (ep_id e) \<noteq> bid"
  shows "candidate_loop bid (pre @ best # post) (cs, b, p) =
     (cs @ map (candidate_of bid) (pre @ best # post), Some (ep_endpoint best), Some (ep_port best))"
proof (induction pre arbitrary: cs b p)
  case Nil
  show ?case using assms candidate_loop_rest [of post bid "Some (ep_endpoint best)"] by simp
next
  case (Cons e pre)
  then show ?case by (cases "b = None \<or> Some (ep_id e) = bid") auto
qed

lemma distinct_sort_candidates:
  "distinct (map ep_id eps) \<Longrightarrow> distinct (map ep_id (sort_endpoint_candidates eps))"
  unfolding sort_endpoint_candidates_def by (simp add: distinct_map)

lemma candidate_loop_sorted:
  assumes "distinct (map ep_id eps)" and "select_best_endpoint eps = Some best"
  shows "candidate_loop (Some (ep_id best)) (sort_endpoint_candidates eps) ([], b, p) =
     (map (candidate_of (Some (ep_id best))) (sort_endpoint_candidates eps),
      Some (ep_endpoint best), Some (ep_port best))"
    and "filter ec_preferred (map (candidate_of (Some (ep_id best))) (sort_endpoint_candidates eps)) =
     [candidate_of (Some (ep_id best)) best]"
proof -
  have "best \<in> set (sort_endpoint_candidates eps)" using assms(2) select_best_mem by simp
  then obtain pre post where es: "sort_endpoint_candidates eps = pre @ best # post"
    by (meson split_list)
  have D: "distinct (map ep_id (pre @ best # post))"
    using distinct_sort_candidates [OF assms(1)] by (simp only: es)
  then have post: "ep_id e \<noteq> ep_id best" if "e \<in> set pre \<or> e \<in> set post" for e
    using that by (auto simp: image_iff)
  then show "candidate_loop (Some (ep_id best)) (sort_endpoint_candidates eps) ([], b, p) =
     (map (candidate_of (Some (ep_id best))) (sort_endpoint_candidates eps),
      Some (ep_endpoint best), Some (ep_port best))"
    unfolding es by (subst candidate_loop_best) auto
  show "filter ec_preferred (map (candidate_of (Some (ep_id best))) (sort_endpoint_candidates eps)) =
     [candidate_of (Some (ep_id best)) best]"
    unfolding es using post
    by (auto simp: candidate_of_def filter_empty_conv filter_map comp_def)
qed

lemma map_result_mem:
  "map_result f xs = Inr ys \<Longrightarrow> y \<in> set ys \<Longrightarrow> \<exists>x \<in> set xs. f x = Inr y"
  by (induction xs arbitrary: ys) (auto simp: bind_result_eq_Inr)

lemma map_result_keys:
  "map_result f xs = Inr ys \<Longrightarrow> (\<And>x y. f x = Inr y \<Longrightarrow> g y = h x) \<Longrightarrow> map g ys = map h xs"
  by (induction xs arbitrary: ys) (auto simp: bind_result_eq_Inr)

section \<open>What a built configuration says about a peer\<close>

text \<open>The active endpoints the database holds for the device with a public key, for a given network.\<close>

definition peer_device_of :: "database \<Rightarrow> uuid \<Rightarrow> string \<Rightarrow> string" where
  "peer_device_of d nid key =
     (case map_of (rev (map (\<lambda>s. (ds_public_key s, ds_id s)) (fst (build_device_states d nid)))) key of
        None \<Rightarrow> [] | Some i \<Rightarrow> i)"

definition peer_endpoints :: "database \<Rightarrow> uuid \<Rightarrow> string \<Rightarrow> endpoint list" where
  "peer_endpoints d nid key =
     get_list (build_endpoints_by_device d nid) (peer_device_of d nid key)"

lemma build_config_v2_peer:
  assumes "build_config_v2 sha256 set_order cfg now d r = Inr c" and "p \<in> set (cv_peers c)"
  obtains n pp where "build_network_state d (dev_network_id r) = Inr n"
    and "peer_info_of cfg (dev_id r) (topology_name cfg (ns_topology n) \<in> {''mesh'', ''hybrid''})
       (map_of (rev (map (\<lambda>s. (ds_public_key s, ds_id s))
          (fst (build_device_states d (dev_network_id r))))))
       (build_endpoints_by_device d (dev_network_id r)) pp = Inr p"
  using assms
  by (auto simp: build_config_v2_def bind_result_eq_Inr Let_def config_response_def case_prod_beta
      split: option.splits dest!: map_result_mem)

lemma peer_info_of_key: "peer_info_of cfg did mh m ebd pp = Inr p \<Longrightarrow> pi_public_key p = pp_public_key pp"
  by (auto simp: peer_info_of_def bind_result_eq_Inr Let_def split: prod.splits)

lemma peer_info_of_direct:
  assumes "peer_info_of cfg did True m ebd pp = Inr p"
    and "distinct (map ep_id eps)" and "select_best_endpoint eps = Some best"
    and "eps = get_list ebd (case m (pp_public_key pp) of None \<Rightarrow> [] | Some i \<Rightarrow> i)"
  shows "pi_endpoint p = or_str (Some (ep_endpoint best)) (pp_endpoint pp)"
    and "pi_endpoint_port p = or_int (Some (ep_port best)) (pp_endpoint_port pp)"
    and "pi_endpoint_candidates p =
      map (candidate_of (Some (ep_id best))) (sort_endpoint_candidates eps)"
    and "\<not> pi_relay_required p" and "pi_relay_candidates p = None"
proof -
  have "eps \<noteq> []" using assms(3) by (metis option.distinct(1) select_best_None)
  then show "pi_endpoint p = or_str (Some (ep_endpoint best)) (pp_endpoint pp)"
    "pi_endpoint_port p = or_int (Some (ep_port best)) (pp_endpoint_port pp)"
    "pi_endpoint_candidates p =
      map (candidate_of (Some (ep_id best))) (sort_endpoint_candidates eps)"
    "\<not> pi_relay_required p" "pi_relay_candidates p = None"
    using assms(1,3) candidate_loop_sorted(1) [OF assms(2,3)]
    by (auto simp: peer_info_of_def Let_def assms(4) [symmetric] simp del: or_simps)
qed

lemma peer_info_of_relayed:
  assumes "peer_info_of cfg did True m ebd pp = Inr p"
    and "get_list ebd (case m (pp_public_key pp) of None \<Rightarrow> [] | Some i \<Rightarrow> i) = []"
  shows "pi_endpoint_candidates p = []" and "pi_relay_required p = pp_relay_fallback pp"
    and "pi_relay_candidates p \<noteq> None \<longleftrightarrow> pi_relay_required p"
  using assms
  by (auto simp: peer_info_of_def Let_def get_best_relay_candidate_def relay_candidate_of_dict_def
      dict_get_def dict_get_default_def split: if_splits)

text \<open>The construction never fails on a peer: the default relay candidate is always valid.\<close>

lemma peer_info_of_total: "\<exists>p. peer_info_of cfg did mh m ebd pp = Inr p"
  by (auto simp: peer_info_of_def Let_def get_best_relay_candidate_def relay_candidate_of_dict_def
      dict_get_def dict_get_default_def split: prod.splits)

lemma map_result_total: "(\<And>x. \<exists>y. f x = Inr y) \<Longrightarrow> \<exists>ys. map_result f xs = Inr ys"
proof (induction xs)
  case (Cons x xs)
  then obtain y ys where "f x = Inr y" "map_result f xs = Inr ys" by meson
  then show ?case by simp
qed simp

lemma peer_infos_total:
  "\<exists>ps. map_result (peer_info_of cfg did mh m ebd) pps = Inr ps \<and>
     map pi_public_key ps = map pp_public_key pps \<and> map pi_allowed_ips ps = map pp_allowed_ips pps"
proof -
  obtain ps where ps: "map_result (peer_info_of cfg did mh m ebd) pps = Inr ps"
    using map_result_total [of "peer_info_of cfg did mh m ebd" pps, OF peer_info_of_total] by blast
  have "pi_public_key y = pp_public_key x \<and> pi_allowed_ips y = pp_allowed_ips x"
    if "peer_info_of cfg did mh m ebd x = Inr y" for x y
    using that by (auto simp: peer_info_of_def bind_result_eq_Inr Let_def split: prod.splits)
  then have "map pi_public_key ps = map pp_public_key pps" "map pi_allowed_ips ps = map pp_allowed_ips pps"
    by (intro map_result_keys [OF ps]; blast)+
  then show ?thesis using ps by blast
qed

lemma find_device_state:
  assumes "devices_ok (devices d)" and "r \<in> set (devices d)" and "is_member nid r"
  shows "find (\<lambda>s. ds_id s = dev_id r) (fst (build_device_states d nid)) = Some (device_state_of r)"
proof -
  let ?s = "fst (build_device_states d nid)"
  have mem: "device_state_of r \<in> set ?s"
    using assms(2,3) by (simp add: build_device_states_def active_devices_def Let_def)
  then have "find (\<lambda>s. ds_id s = dev_id r) ?s \<noteq> None"
    by (auto simp: find_None_iff device_state_of_def)
  then obtain s where s: "find (\<lambda>s. ds_id s = dev_id r) ?s = Some s" by blast
  then have "s \<in> set ?s" "ds_id s = dev_id r" using find_SomeD [OF s] by auto
  then obtain x where "x \<in> set (devices d)" "s = device_state_of x" "dev_id x = dev_id r"
    by (auto simp: build_device_states_def active_devices_def Let_def device_state_of_def)
  then show ?thesis using s dev.key_unique [OF assms(1,2)] by blast
qed

text \<open>The whole construction for a member device of a network with a valid topology and subnet.\<close>

lemma build_config_v2_eq:
  assumes "devices_ok (devices d)" and "r \<in> set (devices d)" and "is_member (dev_network_id r) r"
    and "build_network_state d (dev_network_id r) = Inr n"
    and "TopologyType (topology_name cfg (ns_topology n)) = Inr t"
    and "IPv4Network (ns_subnet n) = Some net"
    and "build_device_states d (dev_network_id r) = (states, server)"
    and "plan = generate_plan_of t cfg (device_state_of r) states n
       (case server of None \<Rightarrow> [] | Some i \<Rightarrow> i)
       (snd (build_routes_by_device d (dev_network_id r)))
       (build_endpoints_by_device d (dev_network_id r))"
  obtains ps where "map pi_public_key ps = map pp_public_key (tp_peers plan)"
    and "map pi_allowed_ips ps = map pp_allowed_ips (tp_peers plan)"
    and "build_config_v2 sha256 set_order cfg now d r = Inr (config_response sha256 now
       \<lparr>ci_address = ds_ip_address (device_state_of r) @ ''/'' @ str_nat (prefixlen net),
        ci_dns = (if dev_dns_enabled r then build_dns_servers set_order d (dev_network_id r) else None),
        ci_mtu = None\<rparr> ps (map rt_prefix (approved_routes d (dev_network_id r))) (dev_exit_node_id r))"
proof -
  obtain ps where ps: "map_result (peer_info_of cfg (dev_id r)
        (topology_name cfg (ns_topology n) \<in> {''mesh'', ''hybrid''})
        (map_of (rev (map (\<lambda>s. (ds_public_key s, ds_id s)) states)))
        (build_endpoints_by_device d (dev_network_id r))) (tp_peers plan) = Inr ps"
    "map pi_public_key ps = map pp_public_key (tp_peers plan)"
    "map pi_allowed_ips ps = map pp_allowed_ips (tp_peers plan)"
    using peer_infos_total by blast
  have f: "find (\<lambda>s. ds_id s = dev_id r) states = Some (device_state_of r)"
    using find_device_state [OF assms(1-3)] assms(7) by simp
  show ?thesis
    by (rule that [OF ps(2,3)])
       (use ps(1) f assms(4-6) in \<open>simp add: build_config_v2_def assms(7,8) Let_def case_prod_beta
          get_topology_generator_from_state_def build_routes_by_device_def\<close>)
qed

section \<open>The hash\<close>

lemma sort_keys_scalars [simp]:
  "sort_keys (json_opt_str s) = json_opt_str s" "sort_keys (json_opt_int i) = json_opt_int i"
  "sort_keys (json_strs xs) = json_strs xs"
  by (auto simp: json_opt_str_def json_opt_int_def json_strs_def split: option.splits)

lemma json_scalars_inject [simp]:
  "json_opt_str s = json_opt_str t \<longleftrightarrow> s = t" "json_opt_int i = json_opt_int j \<longleftrightarrow> i = j"
  "json_strs xs = json_strs ys \<longleftrightarrow> xs = ys"
  "json_strs xs \<noteq> JNull" "JNull \<noteq> json_strs xs"
proof -
  have "inj JStr" by (auto simp: inj_def)
  then show "json_strs xs = json_strs ys \<longleftrightarrow> xs = ys" by (simp add: json_strs_def inj_map_eq_map)
qed (auto simp: json_opt_str_def json_opt_int_def json_strs_def split: option.splits)

lemma map_inject_on: "map f xs = map f ys \<Longrightarrow> (\<And>x y. f x = f y \<Longrightarrow> x = y) \<Longrightarrow> xs = ys"
  by (metis inj_def inj_map_eq_map)

lemma candidate_json_inject:
  assumes "sort_keys (candidate_json a) = sort_keys (candidate_json b)"
  shows "a = b"
  using sort_keys_obj_values [OF assms [unfolded candidate_json_def]] by simp

lemma relay_candidate_json_inject:
  assumes "sort_keys (relay_candidate_json a) = sort_keys (relay_candidate_json b)"
  shows "a = b"
  using sort_keys_obj_values [OF assms [unfolded relay_candidate_json_def]] by simp

lemma relay_candidates_json_inject:
  "sort_keys (case a of None \<Rightarrow> JNull | Some cs \<Rightarrow> JList (map relay_candidate_json cs)) =
   sort_keys (case b of None \<Rightarrow> JNull | Some cs \<Rightarrow> JList (map relay_candidate_json cs)) \<Longrightarrow> a = b"
  using map_inject_on [of "\<lambda>c. sort_keys (relay_candidate_json c)"] relay_candidate_json_inject
  by (auto simp: comp_def split: option.splits)

lemma peer_json_inject:
  assumes "sort_keys (peer_json a) = sort_keys (peer_json b)"
  shows "a = b"
  using sort_keys_obj_values [OF assms [unfolded peer_json_def]]
    map_inject_on [of "\<lambda>c. sort_keys (candidate_json c)", OF _ candidate_json_inject]
    relay_candidates_json_inject
  by (simp add: comp_def)

lemma interface_json_inject:
  assumes "sort_keys (interface_json a) = sort_keys (interface_json b)"
  shows "a = b"
  using sort_keys_obj_values [OF assms [unfolded interface_json_def]]
  by (auto split: option.splits)

lemma config_data_inject:
  assumes "sort_keys (config_data i ps rs x) = sort_keys (config_data i' ps' rs' x')"
  shows "i = i' \<and> ps = ps' \<and> rs = rs' \<and> x = x'"
  using sort_keys_obj_values [OF assms [unfolded config_data_def]] interface_json_inject
    map_inject_on [of "\<lambda>c. sort_keys (peer_json c)", OF _ peer_json_inject]
  by (simp add: comp_def)

lemma json_wf_scalars [simp]:
  "json_wf (json_opt_str s)" "json_wf (json_opt_int i)" "json_wf (json_strs xs)"
  by (auto simp: json_opt_str_def json_opt_int_def json_strs_def list_all_iff split: option.splits)

lemma candidate_json_wf: "json_wf (candidate_json c)" "json_wf (relay_candidate_json rc)"
  by (simp_all add: candidate_json_def relay_candidate_json_def)

lemma peer_json_wf: "json_wf (peer_json p)"
  by (simp add: peer_json_def candidate_json_wf list_all_iff split: option.splits)

lemma config_data_wf: "json_wf (config_data i ps rs x)"
  by (simp add: config_data_def interface_json_def peer_json_wf list_all_iff split: option.splits)

lemma config_text_inject:
  "json_dumps_sorted (config_data i ps rs x) = json_dumps_sorted (config_data i' ps' rs' x') \<longleftrightarrow>
     i = i' \<and> ps = ps' \<and> rs = rs' \<and> x = x'"
  unfolding json_dumps_sorted_inject [OF config_data_wf config_data_wf]
  by (rule iffI) (erule config_data_inject, simp)

lemma build_config_v2_hash:
  "build_config_v2 sha256 set_order cfg now d r = Inr c \<Longrightarrow>
     cv_hash c = compute_config_hash sha256
       (config_data (cv_interface c) (cv_peers c) (cv_routes c) (cv_exit_node c))"
  by (auto simp: build_config_v2_def bind_result_eq_Inr Let_def config_response_def case_prod_beta
      split: option.splits)

section \<open>A small mesh network\<close>

definition demo_endpoint :: "string \<Rightarrow> string \<Rightarrow> string \<Rightarrow> int \<Rightarrow> endpoint" where
  "demo_endpoint eid did addr score =
     \<lparr>ep_id = eid, ep_device_id = did, ep_endpoint = addr, ep_source = ''stun'', ep_port = 51820,
      ep_local_ip = None, ep_public_ip = None, ep_priority = 100, ep_is_active = True,
      ep_last_seen = 0, ep_latency_ms = None, ep_reachable = True, ep_last_probe_at = None,
      ep_failure_count = 0, ep_success_count = 0, ep_score = score, ep_created_at = 0\<rparr>"

definition demo_mesh :: database where
  "demo_mesh = empty_database\<lparr>
     networks := [\<lparr>net_id = ''n'', net_name = ''net'', net_subnet = ''10.0.0.0/29'',
        net_description = None, net_interface_name = None, net_topology = Some ''mesh'',
        net_owner_id = None, net_created_at = 0\<rparr>],
     devices := [demo_device ''a'' ''n'' (Some ''10.0.0.2''), demo_device ''b'' ''n'' (Some ''10.0.0.3'')],
     endpoints := [demo_endpoint ''e1'' ''b'' ''1.1.1.1'' 40, demo_endpoint ''e2'' ''b'' ''2.2.2.2'' 90]\<rparr>"

lemmas demo_mesh_defs =
  demo_mesh_def demo_endpoint_def demo_device_def empty_database_def

lemma demo_mesh_network:
  "build_network_state demo_mesh ''n'' = Inr \<lparr>ns_subnet = ''10.0.0.0/29'', ns_topology = Some ''mesh''\<rparr>"
  by (simp add: build_network_state_def demo_mesh_defs)

lemma demo_mesh_states:
  "build_device_states demo_mesh ''n'' =
     ([\<lparr>ds_id = ''a'', ds_public_key = ''a_key'', ds_ip_address = ''10.0.0.2'', ds_dns_enabled = True,
        ds_exit_node_id = None\<rparr>,
       \<lparr>ds_id = ''b'', ds_public_key = ''b_key'', ds_ip_address = ''10.0.0.3'', ds_dns_enabled = True,
        ds_exit_node_id = None\<rparr>], None)"
  by (simp add: build_device_states_def active_devices_def is_member_def demo_mesh_defs
      server_device_name_def device_state_of_def)

lemma demo_mesh_endpoints:
  "peer_endpoints demo_mesh ''n'' ''b_key'' =
     [demo_endpoint ''e1'' ''b'' ''1.1.1.1'' 40, demo_endpoint ''e2'' ''b'' ''2.2.2.2'' 90]"
proof -
  have "peer_device_of demo_mesh ''n'' ''b_key'' = ''b''"
    by (simp add: peer_device_of_def demo_mesh_states)
  then show ?thesis
    by (simp add: peer_endpoints_def get_list_endpoints network_endpoints_def demo_mesh_defs sorted_by_def)
qed

lemma demo_mesh_best:
  "select_best_endpoint [demo_endpoint ''e1'' ''b'' ''1.1.1.1'' 40, demo_endpoint ''e2'' ''b'' ''2.2.2.2'' 90] =
     Some (demo_endpoint ''e2'' ''b'' ''2.2.2.2'' 90)"
  by (simp add: select_best_endpoint_def sort_endpoint_candidates_def sorted_by_desc_def endpoint_key_def
      demo_endpoint_def)

lemma demo_mesh_device:
  "demo_device ''a'' ''n'' (Some ''10.0.0.2'') \<in> set (devices demo_mesh)"
  "devices_ok (devices demo_mesh)" "is_member ''n'' (demo_device ''a'' ''n'' (Some ''10.0.0.2''))"
  "dev_network_id (demo_device ''a'' ''n'' (Some ''10.0.0.2'')) = ''n''"
  "TopologyType (topology_name default_settings (Some ''mesh'')) = Inr MESH"
  by (simp_all add: demo_mesh_defs devices_ok_def is_member_def TopologyType_def topology_name_def)

lemma demo_mesh_plan:
  "map pp_public_key (tp_peers (mesh_generate_plan default_settings
     (device_state_of (demo_device ''a'' ''n'' (Some ''10.0.0.2'')))
     [\<lparr>ds_id = ''a'', ds_public_key = ''a_key'', ds_ip_address = ''10.0.0.2'', ds_dns_enabled = True,
        ds_exit_node_id = None\<rparr>,
       \<lparr>ds_id = ''b'', ds_public_key = ''b_key'', ds_ip_address = ''10.0.0.3'', ds_dns_enabled = True,
        ds_exit_node_id = None\<rparr>] n [] rbd ebd)) = [''b_key'']"
  by (simp add: mesh_generate_plan_def exit_node_peers_def device_state_of_def demo_device_def)

lemma demo_mesh_config:
  "\<exists>c. build_config_v2 sha256 set_order default_settings now demo_mesh
       (demo_device ''a'' ''n'' (Some ''10.0.0.2'')) = Inr c \<and> map pi_public_key (cv_peers c) = [''b_key'']"
  by (rule build_config_v2_eq [of demo_mesh "demo_device ''a'' ''n'' (Some ''10.0.0.2'')",
      OF demo_mesh_device(2,1), unfolded demo_mesh_device(4), OF demo_mesh_device(3)
      demo_mesh_network _ _ demo_mesh_states refl,
      unfolded network_state.simps, OF demo_mesh_device(5) demo_pool_29(1)])
     (auto simp: demo_mesh_plan config_response_def)

section \<open>Properties\<close>

text \<open>
  Building a configuration succeeds for every member device of a network whose topology name
  and subnet are valid, and its peers are, in order and with their keys and allowed addresses,
  those the network's topology generator plans from the database state.
\<close>

theorem build_config_v2_follows_plan:
  assumes "devices_ok (devices d)" and "r \<in> set (devices d)" and "is_member (dev_network_id r) r"
    and "build_network_state d (dev_network_id r) = Inr n"
    and "TopologyType (topology_name cfg (ns_topology n)) = Inr t"
    and "IPv4Network (ns_subnet n) = Some net"
    and "build_device_states d (dev_network_id r) = (states, server)"
    and "plan = generate_plan_of t cfg (device_state_of r) states n
       (case server of None \<Rightarrow> [] | Some i \<Rightarrow> i)
       (snd (build_routes_by_device d (dev_network_id r)))
       (build_endpoints_by_device d (dev_network_id r))"
  shows "\<exists>c. build_config_v2 sha256 set_order cfg now d r = Inr c \<and>
     map pi_public_key (cv_peers c) = map pp_public_key (tp_peers plan) \<and>
     map pi_allowed_ips (cv_peers c) = map pp_allowed_ips (tp_peers plan) \<and>
     ci_address (cv_interface c) = ds_ip_address (device_state_of r) @ ''/'' @ str_nat (prefixlen net) \<and>
     cv_routes c = map rt_prefix (approved_routes d (dev_network_id r))"
  by (rule build_config_v2_eq [OF assms]) (auto simp: config_response_def)

theorem build_config_v2_follows_plan_witness:
  "\<exists>c. build_config_v2 (\<lambda>s. s) sorted_list_of_set default_settings 0 demo_mesh
       (demo_device ''a'' ''n'' (Some ''10.0.0.2'')) = Inr c \<and> map pi_public_key (cv_peers c) = [''b_key'']"
  using build_config_v2_follows_plan [of demo_mesh "demo_device ''a'' ''n'' (Some ''10.0.0.2'')",
      OF demo_mesh_device(2,1), unfolded demo_mesh_device(4), OF demo_mesh_device(3)
      demo_mesh_network _ _ demo_mesh_states refl,
      unfolded network_state.simps, OF demo_mesh_device(5) demo_pool_29(1),
      of "\<lambda>s. s" sorted_list_of_set 0]
  by (auto simp: demo_mesh_plan)

text \<open>
  In a mesh or hybrid network a built configuration offers, for every peer with active
  endpoints in the database, all of them as candidates and marks exactly one as preferred: the
  one \<open>select_best_endpoint\<close> chooses. Its address and port are the peer's endpoint (unless they are
  empty or zero), and no relay is asked for. A peer without active endpoints has no candidates,
  and relay candidates are listed exactly when the relay is required.
\<close>

theorem config_v2_prefers_best_endpoint:
  assumes "build_config_v2 sha256 set_order cfg now d r = Inr c" and "p \<in> set (cv_peers c)"
    and "build_network_state d (dev_network_id r) = Inr n"
    and "topology_name cfg (ns_topology n) \<in> {''mesh'', ''hybrid''}"
    and "endpoints_ok (endpoints d)"
    and "eps = peer_endpoints d (dev_network_id r) (pi_public_key p)"
  shows "(eps = [] \<longrightarrow> pi_endpoint_candidates p = [] \<and>
            (pi_relay_candidates p \<noteq> None \<longleftrightarrow> pi_relay_required p)) \<and>
     (\<forall>best. select_best_endpoint eps = Some best \<longrightarrow>
        (ep_endpoint best \<noteq> [] \<longrightarrow> pi_endpoint p = Some (ep_endpoint best)) \<and>
        (ep_port best \<noteq> 0 \<longrightarrow> pi_endpoint_port p = Some (ep_port best)) \<and>
        length (pi_endpoint_candidates p) = length eps \<and>
        filter ec_preferred (pi_endpoint_candidates p) = [candidate_of (Some (ep_id best)) best] \<and>
        \<not> pi_relay_required p \<and> pi_relay_candidates p = None)"
proof -
  obtain pp where pp: "peer_info_of cfg (dev_id r) True
       (map_of (rev (map (\<lambda>s. (ds_public_key s, ds_id s))
          (fst (build_device_states d (dev_network_id r))))))
       (build_endpoints_by_device d (dev_network_id r)) pp = Inr p"
    by (rule build_config_v2_peer [OF assms(1,2)]) (use assms(3,4) in auto)
  have key: "pi_public_key p = pp_public_key pp" using pp by (rule peer_info_of_key)
  have eps: "eps = get_list (build_endpoints_by_device d (dev_network_id r))
      (peer_device_of d (dev_network_id r) (pp_public_key pp))"
    using assms(6) by (simp add: peer_endpoints_def key)
  have D: "distinct (map ep_id eps)"
    unfolding eps by (rule distinct_endpoints_by_device [OF assms(5)])
  show ?thesis
    using peer_info_of_relayed [OF pp] peer_info_of_direct [OF pp D] candidate_loop_sorted(2) [OF D] eps
    by (auto simp: peer_device_of_def sort_endpoint_candidates_def)
qed

theorem config_v2_prefers_best_endpoint_witness:
  "\<exists>c p. build_config_v2 (\<lambda>s. s) sorted_list_of_set default_settings 0 demo_mesh
       (demo_device ''a'' ''n'' (Some ''10.0.0.2'')) = Inr c \<and> p \<in> set (cv_peers c) \<and>
     pi_endpoint p = Some ''2.2.2.2'' \<and> length (pi_endpoint_candidates p) = 2 \<and> \<not> pi_relay_required p"
proof -
  obtain c where c: "build_config_v2 (\<lambda>s. s) sorted_list_of_set default_settings 0 demo_mesh
       (demo_device ''a'' ''n'' (Some ''10.0.0.2'')) = Inr c" "map pi_public_key (cv_peers c) = [''b_key'']"
    using demo_mesh_config [of "\<lambda>s. s" sorted_list_of_set 0] by (elim exE conjE) (rule that)
  then obtain p where p: "p \<in> set (cv_peers c)" "pi_public_key p = ''b_key''" by auto
  have "endpoints_ok (endpoints demo_mesh)" by (simp add: demo_mesh_defs endpoints_ok_def)
  from config_v2_prefers_best_endpoint [OF c(1) p(1), unfolded demo_mesh_device(4) p(2)
      demo_mesh_endpoints, OF demo_mesh_network _ this refl]
  show ?thesis
    using c(1) p(1) demo_mesh_best by (auto simp: topology_name_def demo_endpoint_def)
qed

text \<open>
  C37. Unless SHA-256 collides on the two serialised states, two built configurations carry the
  same hash exactly when their interface (address, DNS, MTU), peers with all their candidates,
  routes and exit node are the same: the time of the build, and with it the revision and
  \<open>generated_at\<close>, has no influence, and no change of networking state is missed.
\<close>

theorem config_hash_identifies_state:
  assumes "build_config_v2 sha256 so1 cfg1 now1 d1 r1 = Inr c1"
    and "build_config_v2 sha256 so2 cfg2 now2 d2 r2 = Inr c2"
    and "sha256 (json_dumps_sorted
           (config_data (cv_interface c1) (cv_peers c1) (cv_routes c1) (cv_exit_node c1))) =
         sha256 (json_dumps_sorted
           (config_data (cv_interface c2) (cv_peers c2) (cv_routes c2) (cv_exit_node c2))) \<Longrightarrow>
         json_dumps_sorted
           (config_data (cv_interface c1) (cv_peers c1) (cv_routes c1) (cv_exit_node c1)) =
         json_dumps_sorted
           (config_data (cv_interface c2) (cv_peers c2) (cv_routes c2) (cv_exit_node c2))"
  shows "cv_hash c1 = cv_hash c2 \<longleftrightarrow>
     cv_interface c1 = cv_interface c2 \<and> cv_peers c1 = cv_peers c2 \<and>
     cv_routes c1 = cv_routes c2 \<and> cv_exit_node c1 = cv_exit_node c2"
  unfolding build_config_v2_hash [OF assms(1)] build_config_v2_hash [OF assms(2)]
    compute_config_hash_def config_text_inject [symmetric]
  by (rule iffI) (erule assms(3), erule arg_cong)

theorem config_hash_identifies_state_witness:
  "\<exists>c1 c2. build_config_v2 (\<lambda>s. s) sorted_list_of_set default_settings 0 demo_mesh
         (demo_device ''a'' ''n'' (Some ''10.0.0.2'')) = Inr c1 \<and>
      build_config_v2 (\<lambda>s. s) sorted_list_of_set default_settings 5000000 demo_mesh
         (demo_device ''a'' ''n'' (Some ''10.0.0.2'')) = Inr c2 \<and>
      (cv_hash c1 = cv_hash c2 \<longleftrightarrow>
         cv_interface c1 = cv_interface c2 \<and> cv_peers c1 = cv_peers c2 \<and>
         cv_routes c1 = cv_routes c2 \<and> cv_exit_node c1 = cv_exit_node c2)"
proof -
  obtain c1 where c1: "build_config_v2 (\<lambda>s. s) sorted_list_of_set default_settings 0 demo_mesh
       (demo_device ''a'' ''n'' (Some ''10.0.0.2'')) = Inr c1"
    using demo_mesh_config [of "\<lambda>s. s" sorted_list_of_set 0] by (elim exE conjE) (rule that)
  obtain c2 where c2: "build_config_v2 (\<lambda>s. s) sorted_list_of_set default_settings 5000000 demo_mesh
       (demo_device ''a'' ''n'' (Some ''10.0.0.2'')) = Inr c2"
    using demo_mesh_config [of "\<lambda>s. s" sorted_list_of_set 5000000] by (elim exE conjE) (rule that)
  show ?thesis
    by (intro exI conjI) (rule c1, rule c2, rule config_hash_identifies_state [OF c1 c2])
qed

end
