(* ===== verification/Access.thy ===== *)
theory Access
  imports Domain
begin

text \<open>
  Who may do what: \<open>core/security.py\<close>, \<open>services/auth.py\<close>, \<open>services/audit.py\<close> and
  \<open>api/deps.py\<close>. bcrypt and the JWT library are parameters: \<open>verify\<close> and \<open>hash_pw\<close>, \<open>jwt_decode\<close>
  and \<open>jwt_encode\<close> (both already applied to the signing key; decoding depends on the time, because
  it checks \<open>exp\<close>). A handler takes an \<open>env\<close>: the successive clock readings and fresh UUIDs of the
  call and the client's address.
\<close>

section \<open>Requests and audit entries\<close>

record env =
  env_now :: "nat \<Rightarrow> datetime"
  env_uuid :: "nat \<Rightarrow> uuid"
  env_client :: "string option"

type_synonym 'a response = "('a \<times> database \<times> effect list) result"

text \<open>The \<open>i\<close>-th fresh id is the entry's key and the \<open>i\<close>-th clock reading its time.\<close>

definition audit :: "env \<Rightarrow> nat \<Rightarrow> string \<Rightarrow> string option \<Rightarrow> string \<Rightarrow> string \<Rightarrow> string option \<Rightarrow> dict
    \<Rightarrow> database \<Rightarrow> database" where
  "audit e i action actor actor_type target_type target details d =
     d\<lparr>audit_logs := audit_logs d @
        [\<lparr>au_id = env_uuid e i, au_actor_id = actor, au_actor_type = actor_type, au_action = action,
          au_target_type = target_type, au_target_id = target, au_details = details,
          au_ip_address = env_client e, au_created_at = env_now e i\<rparr>]\<rparr>"

definition audit_metric :: "string \<Rightarrow> effect list" where
  "audit_metric action = [Counter_inc ''AUDIT_EVENTS'' action 1]"

lemma audit_tables [simp]:
  "users (audit e i ac a at tt t dt d) = users d" "networks (audit e i ac a at tt t dt d) = networks d"
  "devices (audit e i ac a at tt t dt d) = devices d" "routes (audit e i ac a at tt t dt d) = routes d"
  "endpoints (audit e i ac a at tt t dt d) = endpoints d"
  "acl_rules (audit e i ac a at tt t dt d) = acl_rules d"
  "preauth_keys (audit e i ac a at tt t dt d) = preauth_keys d"
  "dns_entries (audit e i ac a at tt t dt d) = dns_entries d"
  "nat_sessions (audit e i ac a at tt t dt d) = nat_sessions d"
  "relay_sessions (audit e i ac a at tt t dt d) = relay_sessions d"
  by (simp_all add: audit_def)

text \<open>A request: the handler inside the session scope, its effects left aside.\<close>

definition run_request :: "(database \<Rightarrow> 'a response) \<Rightarrow> database \<Rightarrow> 'a result \<times> database" where
  "run_request h d = get_session (\<lambda>d. bind_result (h d) (\<lambda>(x, d', es). Inr (x, d'))) d"

lemma run_request_simps:
  "h d = Inl err \<Longrightarrow> run_request h d = (Inl err, d)"
  "h d = Inr (x, d', es) \<Longrightarrow> run_request h d = (Inr x, d')"
  by (simp_all add: run_request_def)

section \<open>Device tokens\<close>

definition TOKEN_PREFIX :: string where "TOKEN_PREFIX = ''midscale_device_''"

text \<open>\<open>raw\<close> and \<open>secret\<close> are the two \<open>token_urlsafe\<close> draws.\<close>

definition generate_device_token :: "(string \<Rightarrow> string) \<Rightarrow> string \<Rightarrow> string
    \<Rightarrow> string \<times> string \<times> string" where
  "generate_device_token hash_pw raw secret =
     (let prefix = take 8 raw in
      (TOKEN_PREFIX @ prefix @ ''_'' @ secret, prefix, hash_pw secret))"

definition check_device_status :: "device \<Rightarrow> device result" where
  "check_device_status r =
     (if dev_enrollment_status r = ''revoked''
      then Inl (HTTPException 401 ''Device has been revoked'')
      else if dev_enrollment_status r = ''expired''
      then Inl (HTTPException 401 ''Device enrollment has expired'')
      else if dev_enrollment_status r = ''pending''
      then Inl (HTTPException 401 ''Device enrollment not yet completed'')
      else Inr r)"

text \<open>The prefix and secret of a token in the structured format, cut by position.\<close>

definition split_token :: "string \<Rightarrow> (string \<times> string) option" where
  "split_token token =
     (if startswith token TOKEN_PREFIX
      then (let rest = drop (length TOKEN_PREFIX) token in
            if 9 < length rest \<and> rest ! 8 = CHR ''_'' then Some (take 8 rest, drop 9 rest) else None)
      else None)"

definition token_matches :: "(string \<Rightarrow> string \<Rightarrow> bool) \<Rightarrow> string \<Rightarrow> device \<Rightarrow> bool" where
  "token_matches verify secret r \<longleftrightarrow>
     truthy_str (dev_token_hash r) \<and> verify secret (the (dev_token_hash r))"

text \<open>The scan over all active devices, for tokens without a usable prefix.\<close>

definition scan_devices :: "(string \<Rightarrow> string \<Rightarrow> bool) \<Rightarrow> string \<Rightarrow> database \<Rightarrow> device option result" where
  "scan_devices verify token d =
     (case find (token_matches verify token) (filter dev_is_active (devices d)) of
        None \<Rightarrow> Inr None
      | Some r \<Rightarrow> bind_result (check_device_status r) (\<lambda>r. Inr (Some r)))"

definition lookup_device_by_token :: "(string \<Rightarrow> string \<Rightarrow> bool) \<Rightarrow> string \<Rightarrow> database
    \<Rightarrow> device option result" where
  "lookup_device_by_token verify token d =
     (case split_token token of
        None \<Rightarrow> scan_devices verify token d
      | Some (prefix, secret) \<Rightarrow>
          bind_result (scalar_one_or_none
            (filter (\<lambda>r. dev_token_prefix r = Some prefix \<and> dev_is_active r) (devices d))) (\<lambda>ro.
            case ro of
              None \<Rightarrow> scan_devices verify token d
            | Some r \<Rightarrow>
                (if token_matches verify secret r
                 then bind_result (check_device_status r) (\<lambda>r. Inr (Some r))
                 else scan_devices verify token d)))"

definition get_current_device :: "(string \<Rightarrow> string \<Rightarrow> bool) \<Rightarrow> string \<Rightarrow> database \<Rightarrow> device result" where
  "get_current_device verify token d =
     bind_result (lookup_device_by_token verify token d) (\<lambda>ro.
       case ro of None \<Rightarrow> Inl (HTTPException 401 ''Invalid device token'') | Some r \<Rightarrow> Inr r)"

definition get_current_device_by_id :: "(string \<Rightarrow> string \<Rightarrow> bool) \<Rightarrow> uuid \<Rightarrow> string \<Rightarrow> database
    \<Rightarrow> device result" where
  "get_current_device_by_id verify did token d =
     bind_result (lookup_device_by_token verify token d) (\<lambda>ro.
       case ro of
         None \<Rightarrow> Inl (HTTPException 401 ''Invalid device token'')
       | Some r \<Rightarrow>
           (if dev_id r \<noteq> did
            then Inl (HTTPException 403 ''Device token does not match requested device'')
            else Inr r))"

section \<open>User tokens and accounts\<close>

definition create_token :: "(dict \<Rightarrow> string) \<Rightarrow> string \<Rightarrow> datetime \<Rightarrow> int \<Rightarrow> dict \<Rightarrow> string" where
  "create_token jwt_encode ty now lifetime data =
     jwt_encode (dict_set (dict_set data ''exp'' (JInt (timestamp_int (now + lifetime)))) ''type'' (JStr ty))"

definition create_access_token :: "(dict \<Rightarrow> string) \<Rightarrow> settings \<Rightarrow> datetime \<Rightarrow> dict \<Rightarrow> string" where
  "create_access_token jwt_encode cfg now data =
     create_token jwt_encode ''access'' now (timedelta_minutes (cfg_access_token_expire_minutes cfg)) data"

definition create_refresh_token :: "(dict \<Rightarrow> string) \<Rightarrow> settings \<Rightarrow> datetime \<Rightarrow> dict \<Rightarrow> string" where
  "create_refresh_token jwt_encode cfg now data =
     create_token jwt_encode ''refresh'' now (timedelta_days (cfg_refresh_token_expire_days cfg)) data"

text \<open>\<open>decode_token\<close> is \<open>jwt_decode\<close> at the current time, with its errors turned into \<open>None\<close>.\<close>

definition get_current_user :: "(datetime \<Rightarrow> string \<Rightarrow> dict option) \<Rightarrow> datetime \<Rightarrow> string \<Rightarrow> database
    \<Rightarrow> user result" where
  "get_current_user jwt_decode now token d =
     (case jwt_decode now token of
        None \<Rightarrow> Inl (HTTPException 401 ''Invalid or expired token'')
      | Some payload \<Rightarrow>
          (if dict_get payload ''type'' \<noteq> Some (JStr ''access'')
           then Inl (HTTPException 401 ''Invalid or expired token'')
           else (case dict_get payload ''sub'' of
                   Some (JStr s) \<Rightarrow>
                     (case parse_uuid s of
                        Inl _ \<Rightarrow> Inl (HTTPException 401 ''Invalid token payload'')
                      | Inr uid \<Rightarrow>
                          bind_result (scalar_one_or_none (filter (\<lambda>u. user_id u = uid) (users d))) (\<lambda>uo.
                            case uo of
                              Some u \<Rightarrow>
                                (if user_is_active u then Inr u
                                 else Inl (HTTPException 401 ''User not found or inactive''))
                            | None \<Rightarrow> Inl (HTTPException 401 ''User not found or inactive'')))
                 | _ \<Rightarrow> Inl (HTTPException 401 ''Invalid token payload''))))"

definition get_current_superuser :: "user \<Rightarrow> user result" where
  "get_current_superuser u =
     (if user_is_superuser u then Inr u
      else Inl (HTTPException 403 ''Superuser privileges required''))"

definition register_user :: "(string \<Rightarrow> string) \<Rightarrow> (dict \<Rightarrow> string) \<Rightarrow> settings \<Rightarrow> env \<Rightarrow> string \<Rightarrow> string
    \<Rightarrow> string \<Rightarrow> database \<Rightarrow> ((user \<times> string \<times> string) \<times> database) result" where
  "register_user hash_pw jwt_encode cfg e email password display_name d =
     bind_result (scalar_one_or_none (filter (\<lambda>u. user_email u = email) (users d))) (\<lambda>uo.
       case uo of
         Some _ \<Rightarrow> Inl (HTTPException 409 ''Email already registered'')
       | None \<Rightarrow>
           (let u = \<lparr>user_id = env_uuid e 0, user_email = email, user_password_hash = hash_pw password,
                     user_display_name = display_name, user_is_active = True,
                     user_is_superuser = False, user_created_at = env_now e 0,
                     user_updated_at = env_now e 1\<rparr>
            in Inr ((u, create_access_token jwt_encode cfg (env_now e 2) [(''sub'', JStr (user_id u))],
                     create_refresh_token jwt_encode cfg (env_now e 3) [(''sub'', JStr (user_id u))]),
                    d\<lparr>users := users d @ [u]\<rparr>)))"

definition login_user :: "(string \<Rightarrow> string \<Rightarrow> bool) \<Rightarrow> (dict \<Rightarrow> string) \<Rightarrow> settings \<Rightarrow> env \<Rightarrow> string
    \<Rightarrow> string \<Rightarrow> database \<Rightarrow> (user \<times> string \<times> string) result" where
  "login_user verify jwt_encode cfg e email password d =
     bind_result (scalar_one_or_none (filter (\<lambda>u. user_email u = email) (users d))) (\<lambda>uo.
       case uo of
         None \<Rightarrow> Inl (HTTPException 401 ''Invalid email or password'')
       | Some u \<Rightarrow>
           (if \<not> verify password (user_password_hash u)
            then Inl (HTTPException 401 ''Invalid email or password'')
            else if \<not> user_is_active u then Inl (HTTPException 403 ''Account is inactive'')
            else Inr (u, create_access_token jwt_encode cfg (env_now e 0) [(''sub'', JStr (user_id u))],
                      create_refresh_token jwt_encode cfg (env_now e 1) [(''sub'', JStr (user_id u))])))"

definition refresh_access_token :: "(datetime \<Rightarrow> string \<Rightarrow> dict option) \<Rightarrow> (dict \<Rightarrow> string) \<Rightarrow> settings
    \<Rightarrow> datetime \<Rightarrow> datetime \<Rightarrow> string \<Rightarrow> string result" where
  "refresh_access_token jwt_decode jwt_encode cfg now1 now2 token =
     (case jwt_decode now1 token of
        None \<Rightarrow> Inl (HTTPException 401 ''Invalid or expired refresh token'')
      | Some payload \<Rightarrow>
          (if dict_get payload ''type'' \<noteq> Some (JStr ''refresh'')
           then Inl (HTTPException 401 ''Invalid or expired refresh token'')
           else (case dict_get_default payload ''sub'' JNull of
                   JNull \<Rightarrow> Inl (HTTPException 401 ''Invalid token payload'')
                 | sub \<Rightarrow> Inr (create_access_token jwt_encode cfg now2 [(''sub'', sub)]))))"

section \<open>Network ownership\<close>

definition require_network_owner :: "uuid \<Rightarrow> user \<Rightarrow> database \<Rightarrow> network result" where
  "require_network_owner nid u d =
     bind_result (scalar_one_or_none (filter (\<lambda>n. net_id n = nid) (networks d))) (\<lambda>no.
       case no of
         None \<Rightarrow> Inl (HTTPException 404 ''Network not found'')
       | Some n \<Rightarrow>
           (if \<not> user_is_superuser u \<and> net_owner_id n \<noteq> Some (user_id u)
            then Inl (HTTPException 403 ''Access denied: you do not own this network'')
            else Inr n))"

definition filter_owned_networks :: "user \<Rightarrow> database \<Rightarrow> network list" where
  "filter_owned_networks u d =
     sorted_by net_created_at
       (filter (\<lambda>n. user_is_superuser u \<or> net_owner_id n = Some (user_id u)) (networks d))"

section \<open>Lemmas\<close>

lemma check_device_status_Inr:
  "check_device_status r = Inr r' \<longleftrightarrow>
     r' = r \<and> dev_enrollment_status r \<notin> {''revoked'', ''expired'', ''pending''}"
  by (auto simp: check_device_status_def)

lemma scan_devices_Some:
  assumes "scan_devices verify token d = Inr (Some r)"
  shows "r \<in> set (devices d) \<and> dev_is_active r \<and> token_matches verify token r \<and>
     dev_enrollment_status r \<notin> {''revoked'', ''expired'', ''pending''}"
  using assms
  by (auto simp: scan_devices_def bind_result_eq_Inr check_device_status_Inr find_Some_iff
      split: option.splits dest!: nth_mem)

lemma lookup_device_by_token_Some:
  assumes "lookup_device_by_token verify token d = Inr (Some r)"
  shows "r \<in> set (devices d) \<and> dev_is_active r \<and>
     dev_enrollment_status r \<notin> {''revoked'', ''expired'', ''pending''} \<and>
     (token_matches verify token r \<or>
      (\<exists>prefix secret. split_token token = Some (prefix, secret) \<and>
         dev_token_prefix r = Some prefix \<and> token_matches verify secret r))"
proof (cases "scan_devices verify token d = Inr (Some r)")
  case True
  then show ?thesis using scan_devices_Some by blast
next
  case False
  then obtain prefix secret where "split_token token = Some (prefix, secret)"
    "scalar_one_or_none (filter (\<lambda>r. dev_token_prefix r = Some prefix \<and> dev_is_active r) (devices d))
       = Inr (Some r)" "token_matches verify secret r"
    "dev_enrollment_status r \<notin> {''revoked'', ''expired'', ''pending''}"
    using assms
    by (auto simp: lookup_device_by_token_def bind_result_eq_Inr check_device_status_Inr
        split: option.splits prod.splits if_splits)
  then show ?thesis using scalar_one_or_none_mem [of _ "devices d" r] by fastforce
qed

lemma split_generated_token:
  assumes "generate_device_token hash_pw raw secret = (token, prefix, hashed)"
    and "8 \<le> length raw" and "secret \<noteq> []"
  shows "split_token token = Some (prefix, secret)"
  using assms
  by (auto simp: generate_device_token_def split_token_def Let_def nth_append neq_Nil_conv)

lemma require_network_owner_Inr:
  "require_network_owner nid u d = Inr n \<Longrightarrow>
     n \<in> set (networks d) \<and> net_id n = nid \<and> (user_is_superuser u \<or> net_owner_id n = Some (user_id u))"
  by (auto simp: require_network_owner_def bind_result_eq_Inr split: option.splits if_splits
      dest!: scalar_one_or_none_mem)

section \<open>Properties\<close>

text \<open>
  C39. Whenever a bearer token authenticates as a device, that device is in the database, active,
  not revoked, expired or pending, and the token really matches: either the secret part of a
  structured token verifies against the stored hash of the device with that prefix, or the whole
  token verifies against the stored hash. The second way is the scan over all active devices, which
  is not limited to rows without a prefix, nor to tokens without one.
\<close>

theorem device_auth_sound:
  assumes "get_current_device verify token d = Inr r"
  shows "r \<in> set (devices d) \<and> dev_is_active r \<and>
     dev_enrollment_status r \<notin> {''revoked'', ''expired'', ''pending''} \<and>
     (\<exists>h. dev_token_hash r = Some h \<and>
        (verify token h \<or>
         (\<exists>prefix secret. split_token token = Some (prefix, secret) \<and>
            dev_token_prefix r = Some prefix \<and> verify secret h)))"
proof -
  have "lookup_device_by_token verify token d = Inr (Some r)"
    using assms by (auto simp: get_current_device_def bind_result_eq_Inr split: option.splits)
  from lookup_device_by_token_Some [OF this] show ?thesis
    by (cases "dev_token_hash r") (auto simp: token_matches_def)
qed

text \<open>
  A freshly generated token authenticates as the device that stores its prefix and hash, also
  when the random prefix contains underscores, as long as no other active device has the same
  prefix and the device is enrolled. The requirement on the password hash is that it verifies its
  own input.
\<close>

theorem device_token_roundtrip:
  assumes "generate_device_token hash_pw raw secret = (token, prefix, hashed)"
    and "length raw = 8" and "secret \<noteq> []"
    and "verify secret (hash_pw secret)" and "hash_pw secret \<noteq> []"
    and "filter (\<lambda>x. dev_token_prefix x = Some prefix \<and> dev_is_active x) (devices d) = [r]"
    and "dev_token_hash r = Some hashed"
    and "dev_enrollment_status r \<notin> {''revoked'', ''expired'', ''pending''}"
  shows "get_current_device verify token d = Inr r \<and>
     get_current_device_by_id verify (dev_id r) token d = Inr r"
proof -
  have h: "hashed = hash_pw secret" using assms(1) by (simp add: generate_device_token_def Let_def)
  have "split_token token = Some (prefix, secret)"
    using split_generated_token [OF assms(1)] assms(2,3) by simp
  then have "lookup_device_by_token verify token d = Inr (Some r)"
    using assms(4-8) by (simp add: lookup_device_by_token_def token_matches_def h check_device_status_def)
  then show ?thesis by (simp add: get_current_device_def get_current_device_by_id_def)
qed

definition demo_enrolled :: device where
  "demo_enrolled = (demo_device ''a'' ''n'' None)
     \<lparr>dev_token_hash := Some ''h:secret'', dev_token_prefix := Some ''ab_cd_ef''\<rparr>"

lemmas demo_enrolled_defs = demo_enrolled_def demo_device_def empty_database_def

theorem device_token_roundtrip_witness:
  "get_current_device (\<lambda>p h. h = ''h:'' @ p) ''midscale_device_ab_cd_ef_secret''
     (empty_database\<lparr>devices := [demo_enrolled]\<rparr>) = Inr demo_enrolled"
proof -
  have "generate_device_token (\<lambda>s. ''h:'' @ s) ''ab_cd_ef'' ''secret'' =
      (''midscale_device_ab_cd_ef_secret'', ''ab_cd_ef'', ''h:secret'')"
    by (simp add: generate_device_token_def TOKEN_PREFIX_def)
  from device_token_roundtrip [OF this, of "\<lambda>p h. h = ''h:'' @ p"
      "empty_database\<lparr>devices := [demo_enrolled]\<rparr>" demo_enrolled]
  show ?thesis by (simp add: demo_enrolled_defs)
qed

theorem device_auth_sound_witness:
  "get_current_device (\<lambda>p h. h = ''h:'' @ p) ''midscale_device_ab_cd_ef_secret''
     (empty_database\<lparr>devices := [demo_enrolled]\<rparr>) = Inr demo_enrolled \<and> dev_is_active demo_enrolled"
proof -
  have a: "get_current_device (\<lambda>p h. h = ''h:'' @ p) ''midscale_device_ab_cd_ef_secret''
     (empty_database\<lparr>devices := [demo_enrolled]\<rparr>) = Inr demo_enrolled"
    by (simp add: get_current_device_def lookup_device_by_token_def split_token_def TOKEN_PREFIX_def
        startswith_def demo_enrolled_defs token_matches_def check_device_status_def)
  show ?thesis using a device_auth_sound [OF a] by blast
qed

text \<open>
  What the code relies on of the JWT library: a payload that was encoded with the same key decodes
  to itself until its \<open>exp\<close> time has passed.
\<close>

definition jwt_law :: "(dict \<Rightarrow> string) \<Rightarrow> (datetime \<Rightarrow> string \<Rightarrow> dict option) \<Rightarrow> bool" where
  "jwt_law jwt_encode jwt_decode \<longleftrightarrow>
     (\<forall>p t now. json_wf (JObj p) \<longrightarrow> dict_get p ''exp'' = Some (JInt t) \<longrightarrow> timestamp_int now \<le> t \<longrightarrow>
        jwt_decode now (jwt_encode p) = Some p)"

lemma timestamp_int_mono: "0 \<le> a \<Longrightarrow> a \<le> b \<Longrightarrow> timestamp_int a \<le> timestamp_int b"
  by (simp add: timestamp_int_def zdiv_mono1)

lemma decode_created_token:
  assumes "jwt_law jwt_encode jwt_decode" and "0 \<le> now'" and "now' \<le> now + lifetime"
  shows "jwt_decode now' (create_token jwt_encode ty now lifetime [(''sub'', JStr s)]) =
     Some [(''sub'', JStr s), (''exp'', JInt (timestamp_int (now + lifetime))), (''type'', JStr ty)]"
proof -
  have p: "dict_set (dict_set [(''sub'', JStr s)] ''exp'' (JInt (timestamp_int (now + lifetime))))
      ''type'' (JStr ty) =
      [(''sub'', JStr s), (''exp'', JInt (timestamp_int (now + lifetime))), (''type'', JStr ty)]"
    by (simp add: dict_set_def)
  show ?thesis
    using assms timestamp_int_mono [OF assms(2,3)]
    unfolding jwt_law_def create_token_def p by (auto simp: dict_get_def)
qed

text \<open>
  After a registration the access token authenticates as exactly the new user for as long as
  it lives; the refresh token never authenticates a request, but it yields a new access token that
  does. Registering the same e-mail again fails with 409.
\<close>

theorem register_user_session:
  assumes "jwt_law jwt_encode jwt_decode"
    and "register_user hash_pw jwt_encode cfg e email password name d = Inr ((u, access, refresh), d')"
    and "users_ok (users d)" and "env_uuid e 0 \<notin> user_id ` set (users d)"
    and "parse_uuid (env_uuid e 0) = Inr (env_uuid e 0)"
    and "0 \<le> now" and "now \<le> env_now e 2 + timedelta_minutes (cfg_access_token_expire_minutes cfg)"
    and "now \<le> env_now e 3 + timedelta_days (cfg_refresh_token_expire_days cfg)"
    and "now \<le> now2 + timedelta_minutes (cfg_access_token_expire_minutes cfg)"
  shows "user_email u = email \<and> get_current_user jwt_decode now access d' = Inr u \<and>
     get_current_user jwt_decode now refresh d' = Inl (HTTPException 401 ''Invalid or expired token'') \<and>
     (\<exists>access2. refresh_access_token jwt_decode jwt_encode cfg now now2 refresh = Inr access2 \<and>
        get_current_user jwt_decode now access2 d' = Inr u) \<and>
     register_user hash_pw jwt_encode cfg e2 email password2 name2 d' =
       Inl (HTTPException 409 ''Email already registered'')"
proof -
  have none: "filter (\<lambda>x. user_email x = email) (users d) = []"
    using assms(2) by (auto simp: register_user_def bind_result_eq_Inr split: option.splits
        dest!: scalar_one_or_none_NoneD)
  then have u: "user_id u = env_uuid e 0" "user_email u = email" "user_is_active u"
    and d': "users d' = users d @ [u]"
    and a: "access = create_access_token jwt_encode cfg (env_now e 2) [(''sub'', JStr (user_id u))]"
    and r: "refresh = create_refresh_token jwt_encode cfg (env_now e 3) [(''sub'', JStr (user_id u))]"
    using assms(2) by (auto simp: register_user_def Let_def)
  have find: "filter (\<lambda>x. user_id x = user_id u) (users d') = [u]"
    unfolding d' using assms(4) u(1) by (intro usr.lookup_insert) simp
  note dec = decode_created_token [OF assms(1,6)]
  have auth: "get_current_user jwt_decode now
      (create_access_token jwt_encode cfg t [(''sub'', JStr (user_id u))]) d' = Inr u"
    if "now \<le> t + timedelta_minutes (cfg_access_token_expire_minutes cfg)" for t
    using that assms(5) find u
    by (simp add: get_current_user_def create_access_token_def dec dict_get_def)
  have "get_current_user jwt_decode now refresh d' = Inl (HTTPException 401 ''Invalid or expired token'')"
    using assms(8) by (simp add: r get_current_user_def create_refresh_token_def dec dict_get_def)
  moreover have "refresh_access_token jwt_decode jwt_encode cfg now now2 refresh =
      Inr (create_access_token jwt_encode cfg now2 [(''sub'', JStr (user_id u))])"
    using assms(8) by (simp add: r refresh_access_token_def create_refresh_token_def dec dict_get_def
        dict_get_default_def)
  moreover have "register_user hash_pw jwt_encode cfg e2 email password2 name2 d' =
       Inl (HTTPException 409 ''Email already registered'')"
    using none u(2) by (simp add: register_user_def d')
  ultimately show ?thesis using auth assms(7,9) u(2) a by simp
qed

definition demo_jwt_encode :: "dict \<Rightarrow> string" where
  "demo_jwt_encode p = json_dumps (JObj p)"

definition demo_jwt_decode :: "datetime \<Rightarrow> string \<Rightarrow> dict option" where
  "demo_jwt_decode now s =
     (case json_loads s of
        Some (JObj p) \<Rightarrow>
          (case dict_get p ''exp'' of
             Some (JInt t) \<Rightarrow> if timestamp_int now \<le> t then Some p else None | _ \<Rightarrow> None)
      | _ \<Rightarrow> None)"

lemma demo_jwt_law: "jwt_law demo_jwt_encode demo_jwt_decode"
  by (simp add: jwt_law_def demo_jwt_encode_def demo_jwt_decode_def json_loads_dumps del: json_dumps.simps)

definition demo_env :: env where
  "demo_env = \<lparr>env_now = (\<lambda>_. 0), env_uuid = (\<lambda>_. ''00000000-0000-0000-0000-000000000001''),
     env_client = None\<rparr>"

lemma demo_uuid:
  "parse_uuid ''00000000-0000-0000-0000-000000000001'' = Inr ''00000000-0000-0000-0000-000000000001''"
  by code_simp

theorem register_user_session_witness:
  "\<exists>u access refresh d'. register_user (\<lambda>p. p) demo_jwt_encode default_settings demo_env
       ''a@b.c'' ''pw'' ''A'' empty_database = Inr ((u, access, refresh), d') \<and>
     get_current_user demo_jwt_decode 0 access d' = Inr u"
proof -
  obtain u access refresh d' where a: "register_user (\<lambda>p. p) demo_jwt_encode default_settings demo_env
       ''a@b.c'' ''pw'' ''A'' empty_database = Inr ((u, access, refresh), d')"
    by (simp add: register_user_def empty_database_def Let_def)
  have "get_current_user demo_jwt_decode 0 access d' = Inr u"
    using register_user_session [OF demo_jwt_law a, of 0 0 demo_env "''x''" "''y''"] demo_uuid
    by (simp add: empty_database_def users_ok_def demo_env_def default_settings_def timedelta_defs)
  then show ?thesis using a by blast
qed

definition demo_owner :: user where
  "demo_owner = \<lparr>user_id = ''u'', user_email = ''u@x'', user_password_hash = [], user_display_name = ''U'',
     user_is_active = True, user_is_superuser = False, user_created_at = 0, user_updated_at = 0\<rparr>"

definition demo_network :: network where
  "demo_network = \<lparr>net_id = ''n'', net_name = ''net'', net_subnet = ''10.0.0.0/29'',
     net_description = None, net_interface_name = None, net_topology = None,
     net_owner_id = Some ''u'', net_created_at = 0\<rparr>"

end
