(* ===== verification/Acl.thy ===== *)
theory Acl
  imports Access
begin

text \<open>
  Access rules between devices: \<open>services/acl.py\<close> decides whether one device may reach an address,
  and \<open>api/v1/acls.py\<close> lists, creates, updates and deletes the rules of a network.
\<close>

section \<open>Decisions\<close>

definition tags_match :: "string list \<Rightarrow> string list option \<Rightarrow> bool" where
  "tags_match wanted tags \<longleftrightarrow>
     wanted = [] \<or> set (case tags of None \<Rightarrow> [] | Some ts \<Rightarrow> ts) \<inter> set wanted \<noteq> {}"

definition rule_matches :: "device \<Rightarrow> device \<Rightarrow> acl_rule \<Rightarrow> bool" where
  "rule_matches source dest rule \<longleftrightarrow>
     tags_match (acl_src_tags rule) (dev_tags source) \<and> tags_match (acl_dst_tags rule) (dev_tags dest)"

fun first_match :: "device \<Rightarrow> device \<Rightarrow> acl_rule list \<Rightarrow> bool" where
  "first_match source dest [] = True"
| "first_match source dest (rule # rules) =
     (if rule_matches source dest rule then acl_action rule = ''allow''
      else first_match source dest rules)"

definition network_rules :: "uuid \<Rightarrow> database \<Rightarrow> acl_rule list" where
  "network_rules nid d = sorted_by acl_priority (filter (\<lambda>r. acl_network_id r = nid) (acl_rules d))"

definition check_device_access :: "uuid \<Rightarrow> string \<Rightarrow> database \<Rightarrow> bool result" where
  "check_device_access source_id dest_ip d =
     bind_result (scalar_one_or_none (filter (\<lambda>r. dev_id r = source_id) (devices d))) (\<lambda>so.
       case so of
         None \<Rightarrow> Inr False
       | Some source \<Rightarrow>
           (if \<not> dev_is_active source then Inr False
            else bind_result (scalar_one_or_none
                (filter (\<lambda>r. dev_ip_address r = Some dest_ip) (devices d))) (\<lambda>do'.
              case do' of
                None \<Rightarrow> Inr False
              | Some dest \<Rightarrow>
                  (if \<not> dev_is_active dest then Inr False
                   else if dev_network_id source \<noteq> dev_network_id dest then Inr False
                   else
                     let rules = network_rules (dev_network_id source) d in
                     if rules = [] then Inr True else Inr (first_match source dest rules)))))"

section \<open>Handlers\<close>

record acl_rule_create =
  ac_src_tags :: "string list"
  ac_dst_tags :: "string list"
  ac_action :: string
  ac_priority :: int

record acl_rule_update =
  aup_src_tags :: "string list option"
  aup_dst_tags :: "string list option"
  aup_action :: "string option"
  aup_priority :: "int option"

definition json_tags :: "string list \<Rightarrow> json" where
  "json_tags ts = JList (map JStr ts)"

definition list_acls :: "uuid \<Rightarrow> user \<Rightarrow> database \<Rightarrow> acl_rule list result" where
  "list_acls nid u d = bind_result (require_network_owner nid u d) (\<lambda>_. Inr (network_rules nid d))"

definition create_acl :: "env \<Rightarrow> uuid \<Rightarrow> acl_rule_create \<Rightarrow> user \<Rightarrow> database \<Rightarrow> acl_rule response" where
  "create_acl e nid req u d =
     bind_result (require_network_owner nid u d) (\<lambda>_.
       let rule = \<lparr>acl_id = env_uuid e 0, acl_network_id = nid, acl_src_tags = ac_src_tags req,
                   acl_dst_tags = ac_dst_tags req, acl_action = ac_action req,
                   acl_priority = ac_priority req, acl_created_at = env_now e 0\<rparr>
       in Inr (rule,
            audit e 1 ''acl.create'' (Some (user_id u)) ''user'' ''acl'' (Some (acl_id rule))
              [(''network_id'', JStr nid), (''src_tags'', json_tags (ac_src_tags req)),
               (''dst_tags'', json_tags (ac_dst_tags req)), (''action'', JStr (ac_action req)),
               (''priority'', JInt (ac_priority req))]
              (d\<lparr>acl_rules := acl_rules d @ [rule]\<rparr>),
            audit_metric ''acl.create''))"

definition find_rule :: "uuid \<Rightarrow> uuid \<Rightarrow> database \<Rightarrow> acl_rule result" where
  "find_rule nid rid d =
     bind_result (scalar_one_or_none
         (filter (\<lambda>r. acl_id r = rid \<and> acl_network_id r = nid) (acl_rules d))) (\<lambda>ro.
       case ro of
         None \<Rightarrow> Inl (HTTPException 404 ''ACL rule not found'')
       | Some r \<Rightarrow> Inr r)"

definition apply_update :: "acl_rule_update \<Rightarrow> acl_rule \<Rightarrow> acl_rule" where
  "apply_update req r =
     r\<lparr>acl_src_tags := (case aup_src_tags req of None \<Rightarrow> acl_src_tags r | Some t \<Rightarrow> t),
       acl_dst_tags := (case aup_dst_tags req of None \<Rightarrow> acl_dst_tags r | Some t \<Rightarrow> t),
       acl_action := (case aup_action req of None \<Rightarrow> acl_action r | Some a \<Rightarrow> a),
       acl_priority := (case aup_priority req of None \<Rightarrow> acl_priority r | Some p \<Rightarrow> p)\<rparr>"

definition update_acl :: "env \<Rightarrow> uuid \<Rightarrow> uuid \<Rightarrow> acl_rule_update \<Rightarrow> user \<Rightarrow> database
    \<Rightarrow> acl_rule response" where
  "update_acl e nid rid req u d =
     bind_result (require_network_owner nid u d) (\<lambda>_.
       bind_result (find_rule nid rid d) (\<lambda>r.
         Inr (apply_update req r,
           audit e 0 ''acl.update'' (Some (user_id u)) ''user'' ''acl'' (Some rid)
             [(''network_id'', JStr nid), (''action'', json_opt_str (aup_action req)),
              (''priority'', json_opt_int (aup_priority req))]
             (d\<lparr>acl_rules := update_row acl_id rid (apply_update req) (acl_rules d)\<rparr>),
           audit_metric ''acl.update'')))"

definition delete_acl :: "env \<Rightarrow> uuid \<Rightarrow> uuid \<Rightarrow> user \<Rightarrow> database \<Rightarrow> unit response" where
  "delete_acl e nid rid u d =
     bind_result (require_network_owner nid u d) (\<lambda>_.
       bind_result (find_rule nid rid d) (\<lambda>r.
         Inr ((),
           audit e 0 ''acl.delete'' (Some (user_id u)) ''user'' ''acl'' (Some rid)
             [(''network_id'', JStr nid)]
             (d\<lparr>acl_rules := delete_row acl_id rid (acl_rules d)\<rparr>),
           audit_metric ''acl.delete'')))"

section \<open>Lemmas\<close>

definition acl_rules_ok :: "acl_rule list \<Rightarrow> bool" where
  "acl_rules_ok rows \<longleftrightarrow> distinct (map acl_id rows)"

interpretation acl: keyed_table acl_id acl_rules_ok
  by unfold_locales (simp add: acl_rules_ok_def)

lemma first_match_no_match:
  "(\<And>r. r \<in> set rules \<Longrightarrow> \<not> rule_matches s t r) \<Longrightarrow> first_match s t rules"
  by (induction rules) auto

lemma first_match_decides:
  "first_match s t rules \<longleftrightarrow>
     (case find (rule_matches s t) rules of None \<Rightarrow> True | Some r \<Rightarrow> acl_action r = ''allow'')"
  by (induction rules) auto

lemma find_sorted_min:
  assumes "find P xs = Some x" and "sorted (map k xs)" and "y \<in> set xs" and "P y"
  shows "k x \<le> k y"
  using assms by (induction xs) (auto split: if_splits)

lemma find_rule_Inr:
  "find_rule nid rid d = Inr r \<Longrightarrow> r \<in> set (acl_rules d) \<and> acl_id r = rid \<and> acl_network_id r = nid"
  by (auto simp: find_rule_def bind_result_eq_Inr split: option.splits dest!: scalar_one_or_none_mem)

lemma other_rules_update:
  "(\<And>r. r \<in> set rs \<Longrightarrow> acl_id r = rid \<Longrightarrow> acl_network_id r = nid) \<Longrightarrow>
     filter (\<lambda>r. acl_network_id r \<noteq> nid) (update_row acl_id rid (apply_update req) rs) =
     filter (\<lambda>r. acl_network_id r \<noteq> nid) rs"
  by (induction rs) (auto simp: update_row_def apply_update_def)

lemma other_rules_delete:
  "(\<And>r. r \<in> set rs \<Longrightarrow> acl_id r = rid \<Longrightarrow> acl_network_id r = nid) \<Longrightarrow>
     filter (\<lambda>r. acl_network_id r \<noteq> nid) (delete_row acl_id rid rs) =
     filter (\<lambda>r. acl_network_id r \<noteq> nid) rs"
  by (induction rs) (auto simp: delete_row_def)

section \<open>Properties\<close>

text \<open>
  When the two lookups are unambiguous, one device may reach another exactly when both are
  active, both are in the same network, and the decisive rule allows it: a matching rule of that
  network such that no matching rule has a smaller priority number. With no matching rule the
  access is allowed.
\<close>

theorem check_device_access_first_match:
  assumes "filter (\<lambda>r. dev_id r = sid) (devices d) = [s]"
    and "filter (\<lambda>r. dev_ip_address r = Some ip) (devices d) = [t]"
  shows "\<exists>b. check_device_access sid ip d = Inr b \<and>
     (b \<longleftrightarrow> dev_is_active s \<and> dev_is_active t \<and> dev_network_id s = dev_network_id t \<and>
        ((\<forall>r \<in> set (acl_rules d). acl_network_id r = dev_network_id s \<longrightarrow> \<not> rule_matches s t r) \<or>
         (\<exists>r \<in> set (acl_rules d). acl_network_id r = dev_network_id s \<and> rule_matches s t r \<and>
            acl_action r = ''allow'' \<and>
            find (rule_matches s t) (network_rules (dev_network_id s) d) = Some r \<and>
            (\<forall>q \<in> set (acl_rules d). acl_network_id q = dev_network_id s \<longrightarrow> rule_matches s t q \<longrightarrow>
               acl_priority r \<le> acl_priority q))))"
proof -
  let ?rules = "network_rules (dev_network_id s) d"
  have mem: "r \<in> set ?rules \<longleftrightarrow> r \<in> set (acl_rules d) \<and> acl_network_id r = dev_network_id s" for r
    by (auto simp: network_rules_def)
  have min: "acl_priority r \<le> acl_priority q"
    if "find (rule_matches s t) ?rules = Some r" "q \<in> set ?rules" "rule_matches s t q" for r q
    using find_sorted_min [OF that(1) _ that(2,3), of acl_priority]
    by (simp add: network_rules_def sorted_by_ordered)
  have "check_device_access sid ip d = Inr (dev_is_active s \<and> dev_is_active t \<and>
      dev_network_id s = dev_network_id t \<and> first_match s t ?rules)"
    using assms by (auto simp: check_device_access_def Let_def)
  moreover have "first_match s t ?rules \<longleftrightarrow>
      (\<forall>r \<in> set ?rules. \<not> rule_matches s t r) \<or>
      (\<exists>r \<in> set ?rules. rule_matches s t r \<and> acl_action r = ''allow'' \<and>
         find (rule_matches s t) ?rules = Some r \<and>
         (\<forall>q \<in> set ?rules. rule_matches s t q \<longrightarrow> acl_priority r \<le> acl_priority q))"
    (is "_ \<longleftrightarrow> ?rhs")
    unfolding first_match_decides
  proof (cases "find (rule_matches s t) ?rules")
    case None
    then have "\<forall>r \<in> set ?rules. \<not> rule_matches s t r" by (simp add: find_None_iff)
    with None show "(case find (rule_matches s t) ?rules of None \<Rightarrow> True
        | Some r \<Rightarrow> acl_action r = ''allow'') = ?rhs" by simp
  next
    case (Some r)
    then show "(case find (rule_matches s t) ?rules of None \<Rightarrow> True
        | Some r \<Rightarrow> acl_action r = ''allow'') = ?rhs"
      using find_SomeD [OF Some] min [OF Some] by auto
  qed
  moreover have "(\<forall>r \<in> set ?rules. P r) \<longleftrightarrow>
      (\<forall>r \<in> set (acl_rules d). acl_network_id r = dev_network_id s \<longrightarrow> P r)"
    "(\<exists>r \<in> set ?rules. P r) \<longleftrightarrow>
      (\<exists>r \<in> set (acl_rules d). acl_network_id r = dev_network_id s \<and> P r)" for P
    using mem by auto
  ultimately show ?thesis by (intro exI conjI) (assumption, simp only: conj_assoc)
qed

definition demo_rule :: "string \<Rightarrow> string \<Rightarrow> int \<Rightarrow> string list \<Rightarrow> acl_rule" where
  "demo_rule rid action prio src =
     \<lparr>acl_id = rid, acl_network_id = ''n'', acl_src_tags = src, acl_dst_tags = [],
      acl_action = action, acl_priority = prio, acl_created_at = 0\<rparr>"

definition demo_acl_database :: database where
  "demo_acl_database = empty_database\<lparr>
     devices := [(demo_device ''a'' ''n'' (Some ''10.0.0.2''))\<lparr>dev_tags := Some [''dev'']\<rparr>,
                 demo_device ''b'' ''n'' (Some ''10.0.0.3'')],
     acl_rules := [demo_rule ''r1'' ''allow'' 200 [], demo_rule ''r2'' ''deny'' 100 [''dev'']]\<rparr>"

lemmas demo_acl_defs = demo_acl_database_def demo_rule_def demo_device_def empty_database_def

theorem check_device_access_first_match_witness:
  "check_device_access ''a'' ''10.0.0.3'' demo_acl_database = Inr False \<and>
   check_device_access ''b'' ''10.0.0.2'' demo_acl_database = Inr True"
proof -
  let ?a = "(demo_device ''a'' ''n'' (Some ''10.0.0.2''))\<lparr>dev_tags := Some [''dev'']\<rparr>"
  let ?b = "demo_device ''b'' ''n'' (Some ''10.0.0.3'')"
  have "\<exists>b. check_device_access ''a'' ''10.0.0.3'' demo_acl_database = Inr b \<and> \<not> b"
    using check_device_access_first_match [of "''a''" demo_acl_database ?a "''10.0.0.3''" ?b]
    by (simp add: demo_acl_defs rule_matches_def tags_match_def network_rules_def sorted_by_def)
  moreover have "\<exists>b. check_device_access ''b'' ''10.0.0.2'' demo_acl_database = Inr b \<and> b"
    using check_device_access_first_match [of "''b''" demo_acl_database ?b "''10.0.0.2''" ?a]
    by (simp add: demo_acl_defs rule_matches_def tags_match_def network_rules_def sorted_by_def)
  ultimately show ?thesis by auto
qed

text \<open>
  The three handlers that change rules succeed only for the network's owner or a superuser,
  leave the rules of every other network as they were, and add exactly one audit entry that names
  the user. Creating a rule appends it, and updating or deleting one only touches the rule named.
\<close>

theorem acl_handlers_owner_only:
  assumes "create_acl e nid creq u d = Inr (rule, d', es) \<or>
     (\<exists>r. update_acl e nid rid ureq u d = Inr (r, d', es)) \<or> delete_acl e nid rid u d = Inr ((), d', es)"
    and "acl_rules_ok (acl_rules d)"
  shows "(\<exists>n \<in> set (networks d). net_id n = nid \<and>
        (user_is_superuser u \<or> net_owner_id n = Some (user_id u))) \<and>
     filter (\<lambda>r. acl_network_id r \<noteq> nid) (acl_rules d') =
       filter (\<lambda>r. acl_network_id r \<noteq> nid) (acl_rules d) \<and>
     map au_actor_id (audit_logs d') = map au_actor_id (audit_logs d) @ [Some (user_id u)]"
proof -
  obtain n rs where n: "require_network_owner nid u d = Inr n"
    and d': "acl_rules d' = rs" "audit_logs d' = audit_logs d @ [last (audit_logs d')]"
      "au_actor_id (last (audit_logs d')) = Some (user_id u)"
    and rs: "rs = acl_rules d @ [rule] \<and> acl_network_id rule = nid \<or>
      (\<exists>q. find_rule nid rid d = Inr q) \<and>
        (rs = update_row acl_id rid (apply_update ureq) (acl_rules d) \<or>
         rs = delete_row acl_id rid (acl_rules d))"
    using assms(1)
    by (elim disjE exE)
       (auto simp: create_acl_def update_acl_def delete_acl_def bind_result_eq_Inr Let_def audit_def)
  have named: "acl_network_id r = nid"
    if "find_rule nid rid d = Inr q" "r \<in> set (acl_rules d)" "acl_id r = rid" for q r
    using find_rule_Inr [OF that(1)] acl.key_unique [OF assms(2)] that(2,3) by metis
  have "filter (\<lambda>r. acl_network_id r \<noteq> nid) rs = filter (\<lambda>r. acl_network_id r \<noteq> nid) (acl_rules d)"
    using rs named other_rules_update [of "acl_rules d" rid nid ureq]
      other_rules_delete [of "acl_rules d" rid nid] by auto
  moreover have "map au_actor_id (audit_logs d') = map au_actor_id (audit_logs d) @ [Some (user_id u)]"
    using d'(2,3) by (metis list.simps(8,9) map_append)
  ultimately show ?thesis using require_network_owner_Inr [OF n] d'(1) by auto
qed

theorem acl_handlers_owner_only_witness:
  "\<exists>d' es. delete_acl demo_env ''n'' ''r1'' demo_owner (demo_acl_database\<lparr>networks := [demo_network]\<rparr>) =
      Inr ((), d', es) \<and> map au_actor_id (audit_logs d') = [Some ''u'']"
proof -
  obtain d' es where a: "delete_acl demo_env ''n'' ''r1'' demo_owner
      (demo_acl_database\<lparr>networks := [demo_network]\<rparr>) = Inr ((), d', es)"
    by (simp add: delete_acl_def require_network_owner_def find_rule_def demo_network_def demo_owner_def
        demo_acl_defs)
  have "map au_actor_id (audit_logs d') = [Some ''u'']"
    using acl_handlers_owner_only [OF disjI2 [OF disjI2 [OF a]]]
    by (simp add: demo_acl_defs acl_rules_ok_def demo_owner_def)
  then show ?thesis using a by (intro exI [of _ d'] exI [of _ es]) simp
qed

end
