(* ===== verification/Routes.thy ===== *)
theory Routes
  imports Access Ipv4
begin

text \<open>
  Advertised subnet routes and exit nodes: \<open>services/route_validation.py\<close> and the handlers of
  \<open>api/v1/routes.py\<close>. A handler runs inside \<open>get_session\<close>, so an exception undoes its writes.
  The metrics \<open>ROUTES_TOTAL\<close>, \<open>ROUTES_APPROVED\<close> and \<open>EXIT_NODES_TOTAL\<close> are \<open>Counter\<close> objects of
  \<open>prometheus_client\<close>; whether such an object has a method \<open>dec\<close> is the parameter \<open>counter_has_dec\<close>
  (the library documents that counters only go up, and gives them none).
\<close>

section \<open>Validation\<close>

definition FORBIDDEN_PREFIXES :: "string set" where
  "FORBIDDEN_PREFIXES =
     {''127.0.0.0/8'', ''169.254.0.0/16'', ''224.0.0.0/4'', ''240.0.0.0/4'', ''0.0.0.0/8''}"

definition check_safe_prefix :: "settings \<Rightarrow> string \<Rightarrow> bool \<Rightarrow> unit result" where
  "check_safe_prefix cfg prefix is_exit_node =
     (if prefix \<in> FORBIDDEN_PREFIXES
      then Inl (HTTPException 400 (''Route prefix '' @ prefix @ '' is reserved and cannot be advertised''))
      else if prefix = ''0.0.0.0/0''
      then (if is_exit_node then Inr ()
            else Inl (HTTPException 400 ''0.0.0.0/0 can only be advertised as an exit node''))
      else if prefix = ''::/0''
      then (if is_exit_node then Inr ()
            else Inl (HTTPException 400 ''::/0 can only be advertised as an exit node''))
      else case IPv4Network prefix of
        None \<Rightarrow> Inl (HTTPException 400 ''Invalid CIDR prefix'')
      | Some net \<Rightarrow>
          (if prefixlen net < 8
           then Inl (HTTPException 400 (''Prefix length /'' @ str_nat (prefixlen net) @
                       '' is too broad. Minimum is /8.''))
           else if \<not> is_private net \<and> \<not> is_loopback net
           then (if cfg_debug cfg then Inr ()
                 else Inl (HTTPException 400 (''Public IP range '' @ prefix @
                        '' cannot be advertised as a subnet route'')))
           else Inr ()))"

fun check_overlap :: "string list \<Rightarrow> string \<Rightarrow> string option" where
  "check_overlap [] new_prefix = None"
| "check_overlap (existing # rest) new_prefix =
     (case IPv4Network new_prefix of
        None \<Rightarrow> None
      | Some new_net \<Rightarrow>
          (case IPv4Network existing of
             None \<Rightarrow> check_overlap rest new_prefix
           | Some net \<Rightarrow> if overlaps new_net net then Some existing else check_overlap rest new_prefix))"

section \<open>Handlers\<close>

record route_advertise_request =
  rar_prefix :: string
  rar_is_exit_node :: bool

definition overlaps_with_existing :: "uuid \<Rightarrow> string \<Rightarrow> uuid option \<Rightarrow> database \<Rightarrow> route list" where
  "overlaps_with_existing nid prefix exclude d =
     filter (\<lambda>r. rt_network_id r = nid \<and> rt_prefix r = prefix \<and>
         (case exclude of None \<Rightarrow> True | Some x \<Rightarrow> rt_id r \<noteq> x)) (routes d)"

definition list_routes :: "uuid \<Rightarrow> user \<Rightarrow> database \<Rightarrow> route list result" where
  "list_routes nid u d =
     bind_result (require_network_owner nid u d) (\<lambda>_.
       Inr (sorted_by (\<lambda>r. - rt_created_at r) (filter (\<lambda>r. rt_network_id r = nid) (routes d))))"

definition find_device :: "uuid \<Rightarrow> (device \<Rightarrow> bool) \<Rightarrow> string \<Rightarrow> database \<Rightarrow> device result" where
  "find_device did P msg d =
     bind_result (scalar_one_or_none (filter (\<lambda>r. dev_id r = did \<and> P r) (devices d))) (\<lambda>ro.
       case ro of None \<Rightarrow> Inl (HTTPException 404 msg) | Some r \<Rightarrow> Inr r)"

definition list_device_routes :: "uuid \<Rightarrow> user \<Rightarrow> database \<Rightarrow> route list result" where
  "list_device_routes did u d =
     bind_result (find_device did (\<lambda>_. True) ''Device not found'' d) (\<lambda>r.
       bind_result (require_network_owner (dev_network_id r) u d) (\<lambda>_.
         Inr (sorted_by (\<lambda>r. - rt_created_at r) (filter (\<lambda>r. rt_device_id r = did) (routes d)))))"

definition new_route :: "env \<Rightarrow> uuid \<Rightarrow> uuid \<Rightarrow> route_advertise_request \<Rightarrow> route" where
  "new_route e did nid req =
     \<lparr>rt_id = env_uuid e 0, rt_device_id = did, rt_network_id = nid, rt_prefix = rar_prefix req,
      rt_enabled = False, rt_approved = False, rt_is_exit_node = rar_is_exit_node req,
      rt_created_at = env_now e 0, rt_updated_at = env_now e 0\<rparr>"

definition route_counters :: "route_advertise_request \<Rightarrow> effect list" where
  "route_counters req =
     Counter_inc ''ROUTES_TOTAL'' [] 1 #
     (if rar_is_exit_node req then [Counter_inc ''EXIT_NODES_TOTAL'' [] 1] else [])"

text \<open>
  The part \<open>advertise_route\<close> and \<open>device_advertise_route\<close> share: validation, the conflict check and
  the insertion.
\<close>

definition insert_route :: "settings \<Rightarrow> env \<Rightarrow> uuid \<Rightarrow> uuid \<Rightarrow> route_advertise_request \<Rightarrow> database
    \<Rightarrow> route response" where
  "insert_route cfg e did nid req d =
     bind_result (check_safe_prefix cfg (rar_prefix req) (rar_is_exit_node req)) (\<lambda>_.
       if overlaps_with_existing nid (rar_prefix req) None d \<noteq> []
       then Inl (HTTPException 409 (''Route '' @ rar_prefix req @ '' already advertised by another device''))
       else Inr (new_route e did nid req, d\<lparr>routes := routes d @ [new_route e did nid req]\<rparr>,
                 route_counters req))"

definition advertise_route :: "settings \<Rightarrow> env \<Rightarrow> uuid \<Rightarrow> route_advertise_request \<Rightarrow> user \<Rightarrow> database
    \<Rightarrow> route response" where
  "advertise_route cfg e nid req u d =
     bind_result (require_network_owner nid u d) (\<lambda>_.
       case filter (\<lambda>r. dev_user_id r = Some (user_id u) \<and> dev_network_id r = nid) (devices d) of
         [] \<Rightarrow> Inl (HTTPException 400 ''You have no devices in this network'')
       | dv # _ \<Rightarrow>
           bind_result (insert_route cfg e (dev_id dv) nid req d) (\<lambda>(r, d', es).
             Inr (r, audit e 1 ''route.advertise'' (Some (user_id u)) ''user'' ''route'' (Some (rt_id r))
                     [(''device_id'', JStr (dev_id dv)), (''network_id'', JStr nid),
                      (''prefix'', JStr (rar_prefix req)), (''is_exit_node'', JBool (rar_is_exit_node req))] d',
                  es @ audit_metric ''route.advertise'')))"

definition find_route :: "uuid \<Rightarrow> database \<Rightarrow> route result" where
  "find_route rid d =
     bind_result (scalar_one_or_none (filter (\<lambda>r. rt_id r = rid) (routes d))) (\<lambda>ro.
       case ro of None \<Rightarrow> Inl (HTTPException 404 ''Route not found'') | Some r \<Rightarrow> Inr r)"

definition approve_route :: "env \<Rightarrow> uuid \<Rightarrow> bool \<Rightarrow> bool \<Rightarrow> user \<Rightarrow> database \<Rightarrow> route response" where
  "approve_route e rid approved enabled u d =
     bind_result (find_route rid d) (\<lambda>r.
       bind_result (require_network_owner (rt_network_id r) u d) (\<lambda>_.
         let f = (\<lambda>r. r\<lparr>rt_approved := approved, rt_enabled := enabled, rt_updated_at := env_now e 0\<rparr>)
         in Inr (f r,
              audit e 1 ''route.approve'' (Some (user_id u)) ''user'' ''route'' (Some rid)
                [(''approved'', JBool approved), (''enabled'', JBool enabled),
                 (''prefix'', JStr (rt_prefix r)), (''is_exit_node'', JBool (rt_is_exit_node r))]
                (d\<lparr>routes := update_row rt_id rid f (routes d)\<rparr>),
              (if approved \<and> \<not> rt_approved r then [Counter_inc ''ROUTES_APPROVED'' [] 1] else [])
              @ audit_metric ''route.approve'')))"

definition update_route :: "env \<Rightarrow> uuid \<Rightarrow> bool option \<Rightarrow> user \<Rightarrow> database \<Rightarrow> route response" where
  "update_route e rid enabled u d =
     bind_result (find_route rid d) (\<lambda>r.
       bind_result (require_network_owner (rt_network_id r) u d) (\<lambda>_.
         let f = (\<lambda>r. r\<lparr>rt_enabled := (case enabled of None \<Rightarrow> rt_enabled r | Some b \<Rightarrow> b),
                        rt_updated_at := env_now e 0\<rparr>)
         in Inr (f r,
              audit e 1 ''route.update'' (Some (user_id u)) ''user'' ''route'' (Some rid)
                [(''enabled'', case enabled of None \<Rightarrow> JNull | Some b \<Rightarrow> JBool b),
                 (''prefix'', JStr (rt_prefix r))]
                (d\<lparr>routes := update_row rt_id rid f (routes d)\<rparr>),
              audit_metric ''route.update'')))"

definition delete_route :: "bool \<Rightarrow> env \<Rightarrow> uuid \<Rightarrow> user \<Rightarrow> database \<Rightarrow> unit response" where
  "delete_route counter_has_dec e rid u d =
     bind_result (find_route rid d) (\<lambda>r.
       bind_result (require_network_owner (rt_network_id r) u d) (\<lambda>_.
         let d1 = audit e 0 ''route.delete'' (Some (user_id u)) ''user'' ''route'' (Some rid)
                    [(''prefix'', JStr (rt_prefix r)), (''is_exit_node'', JBool (rt_is_exit_node r))] d
         in if \<not> counter_has_dec then Inl (AttributeError ''dec'')
            else Inr ((), d1\<lparr>routes := delete_row rt_id rid (routes d1)\<rparr>,
                   audit_metric ''route.delete'' @
                   (if rt_is_exit_node r then [Counter_inc ''EXIT_NODES_TOTAL'' [] (- 1)] else []) @
                   [Counter_inc ''ROUTES_TOTAL'' [] (- 1)])))"

text \<open>
  \<open>select_exit_node\<close> ends with the device's own default route as its answer; the response model
  does not accept \<open>None\<close>.
\<close>

definition own_default_routes :: "uuid \<Rightarrow> database \<Rightarrow> route list" where
  "own_default_routes did d =
     filter (\<lambda>r. rt_device_id r = did \<and> rt_prefix r = ''0.0.0.0/0'') (routes d)"

definition exit_routes :: "uuid \<Rightarrow> uuid \<Rightarrow> database \<Rightarrow> route list" where
  "exit_routes x nid d =
     filter (\<lambda>r. rt_device_id r = x \<and> rt_is_exit_node r \<and> rt_approved r \<and> rt_enabled r \<and>
         rt_network_id r = nid) (routes d)"

definition select_exit_node :: "env \<Rightarrow> uuid \<Rightarrow> uuid option \<Rightarrow> user \<Rightarrow> database \<Rightarrow> route response" where
  "select_exit_node e did exit_node u d =
     bind_result (find_device did (\<lambda>r. dev_user_id r = Some (user_id u)) ''Device not found'' d) (\<lambda>dv.
       bind_result (case exit_node of
           None \<Rightarrow> Inr ()
         | Some x \<Rightarrow> bind_result (scalar_one_or_none (exit_routes x (dev_network_id dv) d)) (\<lambda>ro.
             case ro of
               None \<Rightarrow> Inl (HTTPException 400
                  ''Specified device is not an approved exit node in this network'')
             | Some _ \<Rightarrow> Inr ())) (\<lambda>_.
         let d1 = audit e 1 ''device.exit_node_select'' (Some (user_id u)) ''user'' ''device'' (Some did)
                    [(''exit_node_id'', json_opt_str exit_node)]
                    (d\<lparr>devices := update_row dev_id did
                        (\<lambda>r. r\<lparr>dev_exit_node_id := exit_node, dev_updated_at := env_now e 0\<rparr>) (devices d)\<rparr>)
         in bind_result (scalar_one_or_none (own_default_routes did d1)) (\<lambda>ro.
              case ro of
                None \<Rightarrow> Inl ResponseValidationError
              | Some r \<Rightarrow> Inr (r, d1, audit_metric ''device.exit_node_select''))))"

definition device_advertise_route :: "settings \<Rightarrow> env \<Rightarrow> uuid \<Rightarrow> route_advertise_request \<Rightarrow> database
    \<Rightarrow> route response" where
  "device_advertise_route cfg e did req d =
     bind_result (find_device did dev_is_active ''Device not found or inactive'' d) (\<lambda>dv.
       insert_route cfg e did (dev_network_id dv) req d)"

section \<open>The route table as a transition system\<close>

text \<open>One successful handler call; the actor is the authenticated user, or none for a device.\<close>

inductive route_step :: "settings \<Rightarrow> user option \<Rightarrow> database \<Rightarrow> database \<Rightarrow> bool" for cfg where
  advertise: "advertise_route cfg e nid req u d = Inr (r, d', es) \<Longrightarrow>
     env_uuid e 0 \<notin> rt_id ` set (routes d) \<Longrightarrow> route_step cfg (Some u) d d'"
| device_advertise: "device_advertise_route cfg e did req d = Inr (r, d', es) \<Longrightarrow>
     env_uuid e 0 \<notin> rt_id ` set (routes d) \<Longrightarrow> route_step cfg None d d'"
| approve: "approve_route e rid approved enabled u d = Inr (r, d', es) \<Longrightarrow> route_step cfg (Some u) d d'"
| update: "update_route e rid en u d = Inr (r, d', es) \<Longrightarrow> route_step cfg (Some u) d d'"
| delete: "delete_route cd e rid u d = Inr (x, d', es) \<Longrightarrow> route_step cfg (Some u) d d'"
| select_exit: "select_exit_node e did en u d = Inr (r, d', es) \<Longrightarrow> route_step cfg (Some u) d d'"

text \<open>What the validation admits.\<close>

definition admissible_prefix :: "settings \<Rightarrow> string \<Rightarrow> bool \<Rightarrow> bool" where
  "admissible_prefix cfg prefix is_exit \<longleftrightarrow>
     prefix \<notin> FORBIDDEN_PREFIXES \<and>
     (prefix \<in> {''0.0.0.0/0'', ''::/0''} \<and> is_exit \<or>
      (\<exists>net. IPv4Network prefix = Some net \<and> 8 \<le> prefixlen net \<and>
         (is_private net \<or> is_loopback net \<or> cfg_debug cfg)))"

definition routes_inv :: "settings \<Rightarrow> database \<Rightarrow> bool" where
  "routes_inv cfg d \<longleftrightarrow> routes_ok (routes d) \<and>
     distinct (map (\<lambda>r. (rt_network_id r, rt_prefix r)) (routes d)) \<and>
     list_all (\<lambda>r. admissible_prefix cfg (rt_prefix r) (rt_is_exit_node r)) (routes d)"

lemma IPv4Network_default_routes:
  "IPv4Network ''0.0.0.0/0'' = Some \<lparr>network_address = 0, prefixlen = 0\<rparr>" "IPv4Network ''::/0'' = None"
  by (simp_all add: py_simps)

lemma check_safe_prefix_iff: "check_safe_prefix cfg p x = Inr () \<longleftrightarrow> admissible_prefix cfg p x"
  by (auto simp: check_safe_prefix_def admissible_prefix_def IPv4Network_default_routes
      FORBIDDEN_PREFIXES_def split: option.splits)

lemma insert_route_Inr:
  assumes "insert_route cfg e did nid req d = Inr (r, d', es)"
  shows "r = new_route e did nid req" and "d' = d\<lparr>routes := routes d @ [new_route e did nid req]\<rparr>"
    and "admissible_prefix cfg (rar_prefix req) (rar_is_exit_node req)"
    and "\<And>q. q \<in> set (routes d) \<Longrightarrow> rt_network_id q = nid \<Longrightarrow> rt_prefix q \<noteq> rar_prefix req"
  using assms check_safe_prefix_iff [of cfg "rar_prefix req" "rar_is_exit_node req"]
  by (auto simp: insert_route_def bind_result_eq_Inr overlaps_with_existing_def filter_empty_conv
      split: if_splits)

lemma routes_inv_insert:
  assumes "routes_inv cfg d" and "insert_route cfg e did nid req d = Inr (r, d', es)"
    and "env_uuid e 0 \<notin> rt_id ` set (routes d)"
  shows "routes_inv cfg d'"
proof -
  note ins = insert_route_Inr [OF assms(2)]
  have "routes_ok (routes d @ [new_route e did nid req])"
    using assms by (intro rt.ok_insert) (auto simp: routes_inv_def new_route_def)
  moreover have "(nid, rar_prefix req) \<notin> (\<lambda>r. (rt_network_id r, rt_prefix r)) ` set (routes d)"
    using ins(4) by fastforce
  ultimately show ?thesis
    using assms(1) ins(2,3) by (simp add: routes_inv_def new_route_def)
qed

lemma routes_inv_routes: "routes d' = routes d \<Longrightarrow> routes_inv cfg d' = routes_inv cfg d"
  by (simp add: routes_inv_def)

lemma routes_inv_update:
  assumes "routes_inv cfg d" and "routes d' = update_row rt_id rid f (routes d)"
    and "\<And>r. rt_id (f r) = rt_id r \<and> rt_network_id (f r) = rt_network_id r \<and>
       rt_prefix (f r) = rt_prefix r \<and> rt_is_exit_node (f r) = rt_is_exit_node r"
  shows "routes_inv cfg d'"
proof -
  have m: "map g (routes d') = map g (routes d)" if "\<And>r. g (f r) = g r" for g :: "route \<Rightarrow> 'x"
    using that by (simp add: assms(2) update_row_def)
  have "list_all P rs = list_all (\<lambda>b. b) (map P rs)" for P and rs :: "route list"
    by (simp add: list.pred_map comp_def)
  then show ?thesis
    using assms(1,3) m [of rt_id] m [of "\<lambda>r. (rt_network_id r, rt_prefix r)"]
      m [of "\<lambda>r. admissible_prefix cfg (rt_prefix r) (rt_is_exit_node r)"]
    by (simp add: routes_inv_def routes_ok_def)
qed

lemma routes_inv_delete:
  assumes "routes_inv cfg d" and "routes d' = delete_row rt_id rid (routes d)"
  shows "routes_inv cfg d'"
  using assms rt.ok_delete [of "routes d" rid]
  by (auto simp: routes_inv_def delete_row_def list_all_iff distinct_map_filter)

lemma routes_inv_step: "route_step cfg a d d' \<Longrightarrow> routes_inv cfg d \<Longrightarrow> routes_inv cfg d'"
proof (induction rule: route_step.induct)
  case (advertise e nid req u d r d' es)
  then obtain dv r1 d1 es1 where "insert_route cfg e dv nid req d = Inr (r1, d1, es1)" "routes d' = routes d1"
    by (auto simp: advertise_route_def bind_result_eq_Inr split: list.splits)
  then show ?case using advertise routes_inv_insert routes_inv_routes by blast
next
  case (device_advertise e did req d r d' es)
  then show ?case by (auto simp: device_advertise_route_def bind_result_eq_Inr intro: routes_inv_insert)
next
  case (approve e rid approved enabled u d r d' es)
  then show ?case
    by (auto simp: approve_route_def bind_result_eq_Inr Let_def elim!: routes_inv_update)
next
  case (update e rid en u d r d' es)
  then show ?case
    by (auto simp: update_route_def bind_result_eq_Inr Let_def elim!: routes_inv_update)
next
  case (delete cd e rid u d x d' es)
  then show ?case
    by (auto simp: delete_route_def bind_result_eq_Inr Let_def elim!: routes_inv_delete split: if_splits)
next
  case (select_exit e did en u d r d' es)
  then have "routes d' = routes d"
    by (auto simp: select_exit_node_def bind_result_eq_Inr Let_def split: option.splits)
  then show ?case using select_exit routes_inv_routes by blast
qed

definition may_manage :: "user \<Rightarrow> uuid \<Rightarrow> database \<Rightarrow> bool" where
  "may_manage u nid d \<longleftrightarrow> user_is_superuser u \<or>
     list_ex (\<lambda>n. net_id n = nid \<and> net_owner_id n = Some (user_id u)) (networks d)"

lemma owner_may_manage: "require_network_owner nid u d = Inr n \<Longrightarrow> may_manage u nid d"
  by (auto simp: require_network_owner_def may_manage_def bind_result_eq_Inr list_ex_iff
      split: option.splits if_splits dest!: scalar_one_or_none_mem)

lemma find_route_Inr: "find_route rid d = Inr r \<Longrightarrow> r \<in> set (routes d) \<and> rt_id r = rid"
  by (auto simp: find_route_def bind_result_eq_Inr split: option.splits dest!: scalar_one_or_none_mem)

definition was_approved :: "uuid \<Rightarrow> database \<Rightarrow> bool" where
  "was_approved rid d \<longleftrightarrow> list_ex (\<lambda>r. rt_id r = rid \<and> rt_approved r) (routes d)"

lemma approved_only_by_owner:
  "route_step cfg a d d' \<Longrightarrow> routes_inv cfg d \<Longrightarrow> r' \<in> set (routes d') \<Longrightarrow> rt_approved r' \<Longrightarrow>
     was_approved (rt_id r') d \<or> (\<exists>u. a = Some u \<and> may_manage u (rt_network_id r') d)"
proof (induction rule: route_step.induct)
  case (advertise e nid req u d r d' es)
  then obtain dv r1 d1 es1 where i: "insert_route cfg e dv nid req d = Inr (r1, d1, es1)" "routes d' = routes d1"
    by (auto simp: advertise_route_def bind_result_eq_Inr split: list.splits)
  then show ?case
    using advertise insert_route_Inr [OF i(1)] by (auto simp: was_approved_def list_ex_iff new_route_def)
next
  case (device_advertise e did req d r d' es)
  then obtain nid where "insert_route cfg e did nid req d = Inr (r, d', es)"
    by (auto simp: device_advertise_route_def bind_result_eq_Inr)
  from insert_route_Inr [OF this] show ?case
    using device_advertise by (auto simp: was_approved_def list_ex_iff new_route_def)
next
  case (approve e rid approved enabled u d r d' es)
  then obtain q n where q: "find_route rid d = Inr q" "require_network_owner (rt_network_id q) u d = Inr n"
    and d': "routes d' = update_row rt_id rid (\<lambda>r. r\<lparr>rt_approved := approved, rt_enabled := enabled,
        rt_updated_at := env_now e 0\<rparr>) (routes d)"
    by (auto simp: approve_route_def bind_result_eq_Inr Let_def)
  have "x = q" if "x \<in> set (routes d)" "rt_id x = rid" for x
    using that find_route_Inr [OF q(1)] approve.prems(1) by (intro rt.key_unique) (auto simp: routes_inv_def)
  then show ?case
    using approve.prems owner_may_manage [OF q(2)]
    by (auto simp: d' set_update_row was_approved_def list_ex_iff split: if_splits)
next
  case (update e rid en u d r d' es)
  then have d': "routes d' = update_row rt_id rid (\<lambda>r. r\<lparr>rt_enabled := (case en of None \<Rightarrow> rt_enabled r
      | Some b \<Rightarrow> b), rt_updated_at := env_now e 0\<rparr>) (routes d)"
    by (auto simp: update_route_def bind_result_eq_Inr Let_def)
  show ?case
    using update.prems by (auto simp: d' set_update_row was_approved_def list_ex_iff split: if_splits)
next
  case (delete cd e rid u d x d' es)
  then show ?case
    by (auto simp: delete_route_def bind_result_eq_Inr Let_def delete_row_def was_approved_def list_ex_iff
        split: if_splits)
next
  case (select_exit e did en u d r d' es)
  then have "routes d' = routes d"
    by (auto simp: select_exit_node_def bind_result_eq_Inr Let_def split: option.splits)
  then show ?case using select_exit by (auto simp: was_approved_def list_ex_iff)
qed

section \<open>Overlap\<close>

lemma check_overlap_None_new: "IPv4Network p = None \<Longrightarrow> check_overlap ps p = None"
  by (induction ps) auto

section \<open>Properties\<close>

text \<open>
  C40. Whatever sequence of advertise, approve, update, delete and exit-node requests is served,
  every route in the table has passed the validation: it is a default route advertised as an exit
  node, or a network of at least /8 in a private or loopback range (any range in debug mode), and
  it is not one of the reserved texts; ids are unique, and no network has the same prefix twice.
\<close>

theorem route_table_validated:
  assumes "routes_inv cfg d" and "rtranclp (\<lambda>d d'. \<exists>a. route_step cfg a d d') d d'"
  shows "list_all (\<lambda>r. admissible_prefix cfg (rt_prefix r) (rt_is_exit_node r)) (routes d') \<and>
     routes_ok (routes d') \<and> distinct (map (\<lambda>r. (rt_network_id r, rt_prefix r)) (routes d'))"
proof -
  have "routes_inv cfg d'"
    using assms(2,1) by (induction rule: rtranclp_induct) (auto intro: routes_inv_step)
  then show ?thesis by (simp add: routes_inv_def)
qed

definition demo_route_request :: route_advertise_request where
  "demo_route_request = \<lparr>rar_prefix = ''192.168.1.0/24'', rar_is_exit_node = False\<rparr>"

definition demo_route_database :: database where
  "demo_route_database = empty_database\<lparr>devices := [demo_device ''a'' ''n'' None]\<rparr>"

lemma demo_route_private:
  "IPv4Network ''192.168.1.0/24'' = Some \<lparr>network_address = 3232235776, prefixlen = 24\<rparr>"
  "is_private \<lparr>network_address = 3232235776, prefixlen = 24\<rparr>"
  by (simp_all add: py_simps is_private_def private_networks_def private_networks_exceptions_def)

lemma demo_route_advertised:
  "device_advertise_route default_settings demo_env ''a'' demo_route_request demo_route_database =
     Inr (new_route demo_env ''a'' ''n'' demo_route_request,
       demo_route_database\<lparr>routes := [new_route demo_env ''a'' ''n'' demo_route_request]\<rparr>,
       [Counter_inc ''ROUTES_TOTAL'' [] 1])"
  by (simp add: device_advertise_route_def find_device_def insert_route_def check_safe_prefix_def
      demo_route_request_def demo_route_database_def demo_device_def empty_database_def
      FORBIDDEN_PREFIXES_def demo_route_private overlaps_with_existing_def route_counters_def)

lemma demo_route_inv: "routes_inv cfg demo_route_database"
  by (simp add: routes_inv_def routes_ok_def demo_route_database_def empty_database_def)

lemma demo_route_step:
  "route_step default_settings None demo_route_database
     (demo_route_database\<lparr>routes := [new_route demo_env ''a'' ''n'' demo_route_request]\<rparr>)"
  by (rule route_step.device_advertise [OF demo_route_advertised])
     (simp add: demo_route_database_def empty_database_def)

theorem route_table_validated_witness:
  "admissible_prefix default_settings ''192.168.1.0/24'' False"
proof -
  have "rtranclp (\<lambda>d d'. \<exists>a. route_step default_settings a d d') demo_route_database
     (demo_route_database\<lparr>routes := [new_route demo_env ''a'' ''n'' demo_route_request]\<rparr>)"
    using demo_route_step by blast
  from route_table_validated [OF demo_route_inv this] show ?thesis
    by (simp add: new_route_def demo_route_request_def)
qed

text \<open>
  A route is approved only if it already was before the request or the request was made by a
  superuser or the owner of the route's network: a device that advertises a route, and every user
  who does not own the network, leaves all routes they do not own unapproved. Freshly advertised
  routes are never active.
\<close>

theorem route_approval_by_owner_only:
  assumes "routes_inv cfg d" and "route_step cfg actor d d'" and "r' \<in> set (routes d')"
    and "rt_approved r'"
  shows "was_approved (rt_id r') d \<or> (\<exists>u. actor = Some u \<and> may_manage u (rt_network_id r') d)"
  using approved_only_by_owner [OF assms(2,1,3,4)] .

lemma demo_route_approve:
  "approve_route demo_env (rt_id r) True True u (empty_database\<lparr>networks := [demo_net], routes := [r]\<rparr>) =
     Inr (r\<lparr>rt_approved := True, rt_enabled := True, rt_updated_at := env_now demo_env 0\<rparr>,
       audit demo_env 1 ''route.approve'' (Some (user_id u)) ''user'' ''route'' (Some (rt_id r))
         [(''approved'', JBool True), (''enabled'', JBool True),
          (''prefix'', JStr (rt_prefix r)), (''is_exit_node'', JBool (rt_is_exit_node r))]
         (empty_database\<lparr>networks := [demo_net], routes := [r\<lparr>rt_approved := True, rt_enabled := True,
            rt_updated_at := env_now demo_env 0\<rparr>]\<rparr>),
       (if rt_approved r then [] else [Counter_inc ''ROUTES_APPROVED'' [] 1]) @ audit_metric ''route.approve'')"
  if "net_id demo_net = rt_network_id r" "net_owner_id demo_net = Some (user_id u)"
  using that
  by (simp add: approve_route_def find_route_def require_network_owner_def empty_database_def update_row_def
      Let_def)

definition demo_owned_database :: database where
  "demo_owned_database = empty_database\<lparr>networks := [demo_network],
     routes := [new_route demo_env ''a'' ''n'' demo_route_request]\<rparr>"

lemma demo_owned_inv: "routes_inv default_settings demo_owned_database"
  using routes_inv_step [OF demo_route_step demo_route_inv]
  by (simp add: routes_inv_def demo_owned_database_def)

theorem route_approval_by_owner_only_witness:
  "\<exists>d' r'. route_step default_settings (Some demo_owner) demo_owned_database d' \<and>
     r' \<in> set (routes d') \<and> rt_approved r' \<and> may_manage demo_owner ''n'' demo_owned_database"
proof -
  let ?r = "new_route demo_env ''a'' ''n'' demo_route_request"
  obtain d' es where a: "approve_route demo_env (rt_id ?r) True True demo_owner demo_owned_database =
      Inr (?r\<lparr>rt_approved := True, rt_enabled := True, rt_updated_at := env_now demo_env 0\<rparr>, d', es)"
    and d': "routes d' = [?r\<lparr>rt_approved := True, rt_enabled := True, rt_updated_at := env_now demo_env 0\<rparr>]"
    using demo_route_approve [of demo_network ?r demo_owner]
    by (simp add: demo_owned_database_def demo_network_def demo_owner_def new_route_def)
  have step: "route_step default_settings (Some demo_owner) demo_owned_database d'"
    by (rule route_step.approve [OF a])
  have "may_manage demo_owner ''n'' demo_owned_database"
    using route_approval_by_owner_only [OF demo_owned_inv step, of "hd (routes d')"] d'
    by (simp add: was_approved_def demo_owned_database_def new_route_def)
  then show ?thesis using step d' by (intro exI [of _ d'] exI [of _ "hd (routes d')"]) simp
qed

text \<open>
  A request to select or clear an exit node takes effect only if the device itself advertises
  \<open>0.0.0.0/0\<close>: otherwise the response model rejects the empty answer and the session is rolled back,
  so the request fails and the database is unchanged.
\<close>

theorem select_exit_node_needs_own_default_route:
  assumes "own_default_routes did d = []"
  shows "\<exists>err. run_request (select_exit_node e did exit_node u) d = (Inl err, d)"
proof -
  have "own_default_routes did (audit e i ac a at tt t dt (d\<lparr>devices := ds\<rparr>)) = []"
    for i ac a at tt t dt ds
    using assms by (simp add: own_default_routes_def)
  then have "\<exists>err. select_exit_node e did exit_node u d = Inl err"
    by (cases "select_exit_node e did exit_node u d")
       (auto simp: select_exit_node_def bind_result_eq_Inr Let_def)
  then show ?thesis by (auto simp: run_request_simps)
qed

theorem select_exit_node_needs_own_default_route_witness:
  "\<exists>err. run_request (select_exit_node demo_env ''a'' None
      (demo_owner\<lparr>user_id := ''u''\<rparr>)) (empty_database\<lparr>devices :=
        [(demo_device ''a'' ''n'' None)\<lparr>dev_user_id := Some ''u''\<rparr>]\<rparr>) =
     (Inl err, empty_database\<lparr>devices := [(demo_device ''a'' ''n'' None)\<lparr>dev_user_id := Some ''u''\<rparr>]\<rparr>)"
  by (rule select_exit_node_needs_own_default_route) (simp add: own_default_routes_def empty_database_def)

text \<open>
  Deleting a route calls \<open>dec\<close> on a counter. With a metrics library whose counters have no such
  method, as the one the project uses, every request to delete a route fails and leaves the
  database as it was; with one that had it, a successful request removes exactly the named route.
\<close>

theorem delete_route_outcome:
  "(\<exists>err. run_request (delete_route False e rid u) d = (Inl err, d)) \<and>
   (\<forall>d' es. delete_route True e rid u d = Inr ((), d', es) \<longrightarrow>
      run_request (delete_route True e rid u) d = (Inr (), d') \<and>
      routes d' = filter (\<lambda>r. rt_id r \<noteq> rid) (routes d))"
proof -
  have "\<exists>err. delete_route False e rid u d = Inl err"
    by (cases "delete_route False e rid u d") (auto simp: delete_route_def bind_result_eq_Inr Let_def)
  moreover have "routes d' = filter (\<lambda>r. rt_id r \<noteq> rid) (routes d)"
    if "delete_route True e rid u d = Inr ((), d', es)" for d' es
    using that by (auto simp: delete_route_def bind_result_eq_Inr Let_def delete_row_def)
  ultimately show ?thesis by (auto simp: run_request_simps)
qed

theorem delete_route_outcome_witness:
  "\<exists>err. run_request (delete_route False demo_env (env_uuid demo_env 0) demo_owner) demo_owned_database =
     (Inl err, demo_owned_database)"
  using delete_route_outcome [of demo_env "env_uuid demo_env 0" demo_owner demo_owned_database] by simp

text \<open>
  \<open>check_overlap\<close> reports the first existing prefix that shares an address with the new one,
  and \<open>None\<close> exactly when the new prefix does not parse or shares no address with any existing one.
\<close>

theorem check_overlap_correct:
  "(check_overlap ps p = None \<longleftrightarrow>
      (\<forall>n. IPv4Network p = Some n \<longrightarrow>
         list_all (\<lambda>q. case IPv4Network q of None \<Rightarrow> True
            | Some m \<Rightarrow> \<not> (\<exists>a. in_network a n \<and> in_network a m)) ps)) \<and>
   (\<forall>q. check_overlap ps p = Some q \<longrightarrow>
      (\<exists>pre post n m. ps = pre @ q # post \<and> check_overlap pre p = None \<and> IPv4Network p = Some n \<and>
         IPv4Network q = Some m \<and> (\<exists>a. in_network a n \<and> in_network a m)))"
proof (cases "IPv4Network p")
  case None
  then show ?thesis by (simp add: check_overlap_None_new)
next
  case (Some n)
  have ov: "overlaps n m \<longleftrightarrow> (\<exists>a. in_network a n \<and> in_network a m)" if "IPv4Network q = Some m" for q m
    using IPv4Network_wf [OF Some] IPv4Network_wf [OF that] by (rule overlaps_iff_common)
  have "check_overlap ps p = None \<longleftrightarrow>
      list_all (\<lambda>q. case IPv4Network q of None \<Rightarrow> True
         | Some m \<Rightarrow> \<not> (\<exists>a. in_network a n \<and> in_network a m)) ps"
    by (induction ps) (auto simp: Some ov split: option.splits)
  moreover have "\<exists>pre post m. ps = pre @ q # post \<and> check_overlap pre p = None \<and>
      IPv4Network q = Some m \<and> (\<exists>a. in_network a n \<and> in_network a m)"
    if "check_overlap ps p = Some q" for q
    using that
  proof (induction ps)
    case (Cons x ps)
    show ?case
    proof (cases "\<exists>m. IPv4Network x = Some m \<and> overlaps n m")
      case True
      then show ?thesis
        using Cons.prems ov by (intro exI [of _ "[]"] exI [of _ ps]) (auto simp: Some)
    next
      case False
      then have "check_overlap ps p = Some q" and x: "check_overlap [x] p = None"
        using Cons.prems by (auto simp: Some split: option.splits)
      then obtain pre post m where i: "ps = pre @ q # post" "check_overlap pre p = None"
        "IPv4Network q = Some m" "\<exists>a. in_network a n \<and> in_network a m" using Cons.IH by blast
      have "check_overlap (x # pre) p = None"
        using i(2) False by (auto simp: Some split: option.splits)
      then show ?thesis using i by (intro exI [of _ "x # pre"] exI [of _ post] exI [of _ m]) simp
    qed
  qed simp
  ultimately show ?thesis using Some by auto
qed

theorem check_overlap_correct_witness:
  "check_overlap [''10.0.0.0/30'', ''192.168.1.0/24''] ''192.168.1.0/24'' = Some ''192.168.1.0/24'' \<and>
   (\<exists>m. IPv4Network ''192.168.1.0/24'' = Some m \<and> (\<exists>a. in_network a m))"
proof -
  have a: "check_overlap [''10.0.0.0/30'', ''192.168.1.0/24''] ''192.168.1.0/24'' = Some ''192.168.1.0/24''"
    by (simp add: demo_route_private(1)) (simp add: py_simps overlaps_def)
  show ?thesis
    using a check_overlap_correct [of "[''10.0.0.0/30'', ''192.168.1.0/24'']" "''192.168.1.0/24''"] by auto
qed

end
