(* ===== verification/Rate_Limiter.thy ===== *)
theory Rate_Limiter
  imports Prelude
begin

text \<open>
  \<open>backend/app/services/rate_limiter.py\<close>: the sliding-window limiter with its in-memory store. The
  monotonic clock is read in microseconds, as an integer, where the source has a float of seconds;
  a deque is a list with the oldest entry first. The Redis path is in \<open>Rate_Redis\<close>. A run is a sequence of checks and periodic clean-ups with their clock readings.
\<close>

section \<open>Operations\<close>

record rate_limiter =
  rl_max :: int
  rl_window :: int
  rl_clients :: "string \<rightharpoonup> int list"

definition rate_limiter_init :: "int \<Rightarrow> int \<Rightarrow> rate_limiter" where
  "rate_limiter_init max_requests window_seconds =
     \<lparr>rl_max = max_requests, rl_window = window_seconds, rl_clients = Map.empty\<rparr>"

definition window_us :: "rate_limiter \<Rightarrow> int" where
  "window_us rl = timedelta_seconds (rl_window rl)"

definition client_deque :: "rate_limiter \<Rightarrow> string \<Rightarrow> int list" where
  "client_deque rl key = (case rl_clients rl key of None \<Rightarrow> [] | Some ts \<Rightarrow> ts)"

text \<open>\<open>int(x)\<close> of a number of seconds given in microseconds: truncation towards zero.\<close>

definition trunc_seconds :: "int \<Rightarrow> int" where
  "trunc_seconds us = (if 0 \<le> us then us div 1000000 else - ((- us) div 1000000))"

text \<open>
  \<open>_check_memory\<close>: old entries are removed in place, also when the request is then rejected. A
  limiter with a limit of zero or less reads the head of an empty deque.
\<close>

definition check_memory :: "string \<Rightarrow> int \<Rightarrow> rate_limiter \<Rightarrow> (bool \<times> int) result \<times> rate_limiter" where
  "check_memory key now rl =
     (let window_start = now - window_us rl;
          timestamps = dropWhile (\<lambda>t. t < window_start) (client_deque rl key);
          rl1 = rl\<lparr>rl_clients := (rl_clients rl)(key \<mapsto> timestamps)\<rparr>
      in if rl_max rl \<le> int (length timestamps)
         then (case timestamps of
                 [] \<Rightarrow> (Inl IndexError, rl1)
               | t0 # _ \<Rightarrow> (Inr (False, max (trunc_seconds (t0 + window_us rl - now)) 1), rl1))
         else (Inr (True, 0), rl\<lparr>rl_clients := (rl_clients rl)(key \<mapsto> timestamps @ [now])\<rparr>))"

definition reset_key :: "string \<Rightarrow> rate_limiter \<Rightarrow> rate_limiter" where
  "reset_key key rl = rl\<lparr>rl_clients := (rl_clients rl)(key := None)\<rparr>"

text \<open>One round of \<open>_periodic_cleanup\<close>.\<close>

definition cleanup :: "int \<Rightarrow> rate_limiter \<Rightarrow> rate_limiter" where
  "cleanup now rl =
     rl\<lparr>rl_clients := (\<lambda>k. case rl_clients rl k of
          None \<Rightarrow> None
        | Some ts \<Rightarrow> if ts \<noteq> [] \<and> last ts < now - window_us rl then None else Some ts)\<rparr>"

datatype rl_op = Check string | Cleanup

text \<open>The log of admitted requests: the client and the time, oldest first.\<close>

fun rl_step :: "int \<times> rl_op \<Rightarrow> (string \<times> int) list \<times> rate_limiter \<Rightarrow> (string \<times> int) list \<times> rate_limiter" where
  "rl_step (now, Check key) (log, rl) =
     (case check_memory key now rl of
        (Inr (True, _), rl') \<Rightarrow> (log @ [(key, now)], rl')
      | (_, rl') \<Rightarrow> (log, rl'))"
| "rl_step (now, Cleanup) (log, rl) = (log, cleanup now rl)"

definition rl_run :: "rate_limiter \<Rightarrow> (int \<times> rl_op) list \<Rightarrow> (string \<times> int) list \<times> rate_limiter" where
  "rl_run rl ops = foldl (\<lambda>s op. rl_step op s) ([], rl) ops"

section \<open>Invariant\<close>

definition admitted :: "string \<Rightarrow> (string \<times> int) list \<Rightarrow> int list" where
  "admitted k log = map snd (filter (\<lambda>p. fst p = k) log)"

text \<open>
  The deque of a client is the part of its log the window can still reach; at each admission fewer
  than the limit of earlier admissions were inside the window.
\<close>

definition window_ok :: "int \<Rightarrow> int \<Rightarrow> int list \<Rightarrow> bool" where
  "window_ok m w ts \<longleftrightarrow>
     (\<forall>pre t post. ts = pre @ t # post \<longrightarrow> int (length (filter (\<lambda>x. t - w \<le> x) pre)) < m)"

definition client_inv :: "int \<Rightarrow> int \<Rightarrow> int \<Rightarrow> int list \<Rightarrow> int list \<Rightarrow> bool" where
  "client_inv m w now ts dq \<longleftrightarrow>
     sorted ts \<and> list_all (\<lambda>t. t \<le> now) ts \<and> window_ok m w ts \<and> int (length dq) \<le> max 0 m \<and>
     (\<exists>gone. ts = gone @ dq \<and> list_all (\<lambda>t. t < now - w) gone)"

definition rl_inv :: "int \<Rightarrow> (string \<times> int) list \<times> rate_limiter \<Rightarrow> bool" where
  "rl_inv now s \<longleftrightarrow>
     (\<forall>k. client_inv (rl_max (snd s)) (window_us (snd s)) now (admitted k (fst s))
        (client_deque (snd s) k))"

lemma dropWhile_sorted:
  "sorted ts \<Longrightarrow> dropWhile (\<lambda>t. t < (b :: int)) ts = filter (\<lambda>t. b \<le> t) ts"
proof (induction ts)
  case (Cons t ts)
  show ?case
  proof (cases "t < b")
    case False
    then have "filter (\<lambda>t. b \<le> t) ts = ts" using Cons.prems by (intro filter_True) auto
    then show ?thesis using False by simp
  qed (use Cons in simp)
qed simp

lemma window_ok_snoc:
  "window_ok m w (ts @ [t]) \<longleftrightarrow>
     window_ok m w ts \<and> int (length (filter (\<lambda>x. t - w \<le> x) ts)) < m"
proof
  assume a: "window_ok m w (ts @ [t])"
  then have "int (length (filter (\<lambda>x. t - w \<le> x) ts)) < m"
    by (auto simp: window_ok_def)
  moreover have "window_ok m w ts"
    using a unfolding window_ok_def by (metis append.assoc append_Cons)
  ultimately show "window_ok m w ts \<and> int (length (filter (\<lambda>x. t - w \<le> x) ts)) < m" by simp
next
  assume "window_ok m w ts \<and> int (length (filter (\<lambda>x. t - w \<le> x) ts)) < m"
  then show "window_ok m w (ts @ [t])"
    unfolding window_ok_def
    by (auto simp: append_eq_append_conv2 Cons_eq_append_conv append_eq_Cons_conv)
qed

lemma admitted_snoc:
  "admitted k (log @ [(key, now)]) = (if k = key then admitted k log @ [now] else admitted k log)"
  by (simp add: admitted_def)

lemma client_deque_update:
  "client_deque (rl\<lparr>rl_clients := (rl_clients rl)(key \<mapsto> ts)\<rparr>) k =
     (if k = key then ts else client_deque rl k)"
  by (simp add: client_deque_def)

lemma window_us_clients [simp]: "window_us (rl\<lparr>rl_clients := c\<rparr>) = window_us rl"
  by (simp add: window_us_def)

lemma client_inv_later:
  assumes "client_inv m w now ts dq" and "now \<le> now'"
  shows "client_inv m w now' ts dq"
proof -
  obtain gone where "ts = gone @ dq" "list_all (\<lambda>t. t < now - w) gone"
    using assms(1) by (auto simp: client_inv_def)
  then have "\<exists>gone. ts = gone @ dq \<and> list_all (\<lambda>t. t < now' - w) gone"
    using assms(2) by (auto simp: list_all_iff)
  moreover have "list_all (\<lambda>t. t \<le> now') ts"
    using assms by (fastforce simp: client_inv_def list_all_iff)
  ultimately show ?thesis using assms(1) by (simp add: client_inv_def)
qed

lemma client_inv_drop:
  assumes "client_inv m w now ts dq" and "dq = old @ dq'" and "list_all (\<lambda>t. t < now - w) old"
  shows "client_inv m w now ts dq'"
proof -
  obtain gone where "ts = gone @ dq" "list_all (\<lambda>t. t < now - w) gone"
    using assms(1) by (auto simp: client_inv_def)
  then have "ts = (gone @ old) @ dq' \<and> list_all (\<lambda>t. t < now - w) (gone @ old)"
    using assms(2,3) by simp
  then show ?thesis using assms(1,2) unfolding client_inv_def by fastforce
qed

lemma client_inv_purge:
  assumes "client_inv m w now ts dq"
  shows "client_inv m w now ts (dropWhile (\<lambda>t. t < now - w) dq)"
  using assms
proof (rule client_inv_drop)
  show "dq = takeWhile (\<lambda>t. t < now - w) dq @ dropWhile (\<lambda>t. t < now - w) dq" by simp
  show "list_all (\<lambda>t. t < now - w) (takeWhile (\<lambda>t. t < now - w) dq)"
    by (auto simp: list_all_iff dest: set_takeWhileD)
qed

lemma client_inv_sorted: "client_inv m w now ts dq \<Longrightarrow> sorted dq"
  by (auto simp: client_inv_def sorted_append)

text \<open>After a purge the deque is exactly the part of the log inside the window.\<close>

lemma client_inv_window:
  assumes "client_inv m w now ts dq" and "dq' = dropWhile (\<lambda>t. t < now - w) dq"
  shows "filter (\<lambda>t. now - w \<le> t) ts = dq'"
proof -
  obtain gone where g: "ts = gone @ dq" "list_all (\<lambda>t. t < now - w) gone"
    using assms(1) by (auto simp: client_inv_def)
  have "filter (\<lambda>t. now - w \<le> t) gone = []" using g(2) by (fastforce simp: filter_empty_conv list_all_iff)
  then show ?thesis using g(1) assms(2) dropWhile_sorted [OF client_inv_sorted [OF assms(1)]] by simp
qed

lemma client_inv_admit:
  assumes "client_inv m w now ts dq" and "int (length dq) < m" and "filter (\<lambda>t. now - w \<le> t) ts = dq"
  shows "client_inv m w now (ts @ [now]) (dq @ [now])"
  using assms by (auto simp: client_inv_def window_ok_snoc sorted_append list_all_iff)

lemma rl_inv_client:
  "rl_inv now (log, rl) \<Longrightarrow> client_inv (rl_max rl) (window_us rl) now (admitted k log) (client_deque rl k)"
  by (simp add: rl_inv_def)

lemma rl_inv_later: "rl_inv now (log, rl) \<Longrightarrow> now \<le> now' \<Longrightarrow> rl_inv now' (log, rl)"
  by (auto simp: rl_inv_def intro: client_inv_later)

lemma rl_inv_check:
  assumes "rl_inv now (log, rl)"
  shows "rl_inv now (rl_step (now, Check key) (log, rl))"
proof -
  define ts where "ts = dropWhile (\<lambda>t. t < now - window_us rl) (client_deque rl key)"
  have purged: "client_inv (rl_max rl) (window_us rl) now (admitted key log) ts"
    unfolding ts_def by (rule client_inv_purge [OF rl_inv_client [OF assms]])
  have win: "filter (\<lambda>t. now - window_us rl \<le> t) (admitted key log) = ts"
    by (rule client_inv_window [OF rl_inv_client [OF assms] ts_def])
  show ?thesis
  proof (cases "rl_max rl \<le> int (length ts)")
    case True
    then have "fst (rl_step (now, Check key) (log, rl)) = log"
      "snd (rl_step (now, Check key) (log, rl)) = rl\<lparr>rl_clients := (rl_clients rl)(key \<mapsto> ts)\<rparr>"
      by (cases ts; simp add: check_memory_def Let_def ts_def [symmetric])+
    then show ?thesis
      using purged rl_inv_client [OF assms] by (simp add: rl_inv_def client_deque_update)
  next
    case False
    then have "rl_step (now, Check key) (log, rl) =
        (log @ [(key, now)], rl\<lparr>rl_clients := (rl_clients rl)(key \<mapsto> ts @ [now])\<rparr>)"
      by (simp add: check_memory_def Let_def ts_def [symmetric])
    then show ?thesis
      using client_inv_admit [OF purged _ win] False rl_inv_client [OF assms]
      by (simp add: rl_inv_def client_deque_update admitted_snoc)
  qed
qed

lemma sorted_le_last: "sorted ts \<Longrightarrow> t \<in> set ts \<Longrightarrow> t \<le> last ts"
  by (induction ts) auto

lemma rl_inv_cleanup:
  assumes "rl_inv now (log, rl)"
  shows "rl_inv now (rl_step (now, Cleanup) (log, rl))"
proof -
  have "client_inv (rl_max rl) (window_us rl) now (admitted k log) (client_deque (cleanup now rl) k)" for k
  proof (cases "client_deque rl k \<noteq> [] \<and> last (client_deque rl k) < now - window_us rl")
    case True
    then have "list_all (\<lambda>t. t < now - window_us rl) (client_deque rl k)"
      using sorted_le_last [OF client_inv_sorted [OF rl_inv_client [OF assms]]]
      by (fastforce simp: list_all_iff)
    moreover have "client_deque (cleanup now rl) k = []"
      using True by (auto simp: cleanup_def client_deque_def split: option.splits)
    ultimately show ?thesis using client_inv_drop [OF rl_inv_client [OF assms], of k _ "[]"] by simp
  next
    case False
    then have "client_deque (cleanup now rl) k = client_deque rl k"
      by (auto simp: cleanup_def client_deque_def split: option.splits)
    then show ?thesis using rl_inv_client [OF assms] by simp
  qed
  then show ?thesis by (simp add: rl_inv_def) (simp add: cleanup_def)
qed

lemma rl_step_settings [simp]:
  "rl_max (snd (rl_step op s)) = rl_max (snd s)" "window_us (snd (rl_step op s)) = window_us (snd s)"
  by (cases op; cases "snd op"; cases s;
      auto simp: check_memory_def cleanup_def Let_def split: list.splits)+

lemma rl_inv_step:
  assumes "rl_inv now s" and "now \<le> fst op"
  shows "rl_inv (fst op) (rl_step op s)"
proof (cases s; cases op; cases "snd op")
  fix log rl t a k
  assume "s = (log, rl)" "op = (t, a)" "snd op = Check k"
  then show ?thesis using rl_inv_check rl_inv_later assms by simp
next
  fix log rl t a
  assume "s = (log, rl)" "op = (t, a)" "snd op = Cleanup"
  then show ?thesis using rl_inv_cleanup rl_inv_later assms by simp
qed

lemma rl_inv_foldl:
  "rl_inv now s \<Longrightarrow> sorted (now # map fst ops) \<Longrightarrow>
     \<exists>now'. rl_inv now' (foldl (\<lambda>s op. rl_step op s) s ops) \<and>
       rl_max (snd (foldl (\<lambda>s op. rl_step op s) s ops)) = rl_max (snd s) \<and>
       window_us (snd (foldl (\<lambda>s op. rl_step op s) s ops)) = window_us (snd s)"
proof (induction ops arbitrary: now s)
  case (Cons op ops)
  have "rl_inv (fst op) (rl_step op s)" using Cons.prems by (intro rl_inv_step) auto
  from Cons.IH [OF this] show ?case using Cons.prems(2) by simp
qed auto

lemma rl_inv_init: "rl_inv now ([], rate_limiter_init m w)"
  by (simp add: rl_inv_def client_inv_def window_ok_def admitted_def client_deque_def rate_limiter_init_def)

text \<open>The last admission in a window bounds the whole window.\<close>

lemma window_ok_bound:
  assumes "window_ok m w ts" and "sorted ts"
  shows "int (length (filter (\<lambda>t. b \<le> t \<and> t \<le> b + w) ts)) \<le> max 0 m"
  using assms
proof (induction ts rule: rev_induct)
  case (snoc t ts)
  have ok: "window_ok m w ts" "int (length (filter (\<lambda>x. t - w \<le> x) ts)) < m" "sorted ts"
    using snoc.prems by (simp_all add: window_ok_snoc sorted_append)
  show ?case
  proof (cases "b \<le> t \<and> t \<le> b + w")
    case True
    have "length (filter (\<lambda>x. b \<le> x \<and> x \<le> b + w) ts) \<le> length (filter (\<lambda>x. t - w \<le> x) ts)"
    proof -
      have "filter (\<lambda>x. b \<le> x \<and> x \<le> b + w) ts =
          filter (\<lambda>x. b \<le> x \<and> x \<le> b + w) (filter (\<lambda>x. t - w \<le> x) ts)"
        using True by (auto intro: filter_cong)
      then show ?thesis by (metis length_filter_le)
    qed
    then show ?thesis using True ok(2) by simp
  next
    case False
    then show ?thesis using snoc.IH ok by auto
  qed
qed simp

section \<open>Properties\<close>

text \<open>
  Over any sequence of checks and clean-ups with non-decreasing clock readings, starting from
  a new limiter, no client is ever admitted more than \<open>max_requests\<close> times within any interval of
  \<open>window_seconds\<close>, both ends included; a limit of zero or less admits nobody.
\<close>

theorem rate_limit_enforced:
  assumes "sorted (map fst ops)"
    and "rl_run (rate_limiter_init max_requests window_seconds) ops = (log, rl)"
  shows "int (length (filter (\<lambda>(k, t). k = key \<and> b \<le> t \<and> t \<le> b + timedelta_seconds window_seconds) log))
     \<le> max 0 max_requests"
proof -
  define t0 where "t0 = (if ops = [] then 0 else fst (hd ops))"
  have "sorted (t0 # map fst ops)" using assms(1) by (cases ops) (auto simp: t0_def)
  from rl_inv_foldl [OF rl_inv_init [of t0 max_requests window_seconds] this] obtain now' where
    "rl_inv now' (log, rl)" "rl_max rl = max_requests" "window_us rl = timedelta_seconds window_seconds"
    using assms(2) by (auto simp: rl_run_def rate_limiter_init_def window_us_def)
  then have "int (length (filter (\<lambda>t. b \<le> t \<and> t \<le> b + timedelta_seconds window_seconds) (admitted key log)))
      \<le> max 0 max_requests"
    using window_ok_bound rl_inv_client [of now' log rl key] by (fastforce simp: client_inv_def)
  moreover have "length (filter P (admitted key log)) =
      length (filter (\<lambda>(k, t). k = key \<and> P t) log)" for P
    unfolding admitted_def by (induction log) auto
  ultimately show ?thesis by simp
qed

theorem rate_limit_enforced_witness:
  "rl_run (rate_limiter_init 1 2) [(0, Check ''a''), (1000000, Check ''a''), (2000001, Check ''a'')] =
     ([(''a'', 0), (''a'', 2000001)], snd (rl_run (rate_limiter_init 1 2)
        [(0, Check ''a''), (1000000, Check ''a''), (2000001, Check ''a'')])) \<and>
   int (length (filter (\<lambda>(k, t). k = ''a'' \<and> 0 \<le> t \<and> t \<le> 0 + timedelta_seconds 2)
     [(''a'', 0), (''a'', 2000001)])) \<le> max 0 1"
proof -
  have a: "rl_run (rate_limiter_init 1 2) [(0, Check ''a''), (1000000, Check ''a''), (2000001, Check ''a'')] =
     ([(''a'', 0), (''a'', 2000001)], snd (rl_run (rate_limiter_init 1 2)
        [(0, Check ''a''), (1000000, Check ''a''), (2000001, Check ''a'')]))"
    by (simp add: rl_run_def rate_limiter_init_def check_memory_def Let_def client_deque_def window_us_def
        timedelta_seconds_def microseconds_per_second_def)
  show ?thesis using a rate_limit_enforced [OF _ a, of "''a''" 0] by simp
qed

text \<open>
  A rejected client that comes back \<open>retry_after + 1\<close> seconds later is admitted, if nothing of
  it was recorded in between; coming back after exactly the announced \<open>retry_after\<close> seconds, it is
  rejected again whenever the remaining time was at least one second, because the announced value
  is rounded down and the window includes its ends.
\<close>

theorem retry_after_rounded_down:
  assumes "check_memory key now rl = (Inr (False, r), rl')"
    and "int (length (client_deque rl key)) \<le> rl_max rl"
  shows "fst (check_memory key (now + timedelta_seconds (r + 1)) rl') = Inr (True, 0) \<and>
     (now + timedelta_seconds 1 \<le> hd (client_deque rl' key) + window_us rl \<longrightarrow>
        (\<exists>r2. fst (check_memory key (now + timedelta_seconds r) rl') = Inr (False, r2)))"
proof -
  define w where "w = window_us rl"
  define ts where "ts = dropWhile (\<lambda>t. t < now - w) (client_deque rl key)"
  obtain t0 rest where ts: "ts = t0 # rest" and full: "rl_max rl \<le> int (length ts)"
    and r: "r = max (trunc_seconds (t0 + w - now)) 1"
    and rl': "rl' = rl\<lparr>rl_clients := (rl_clients rl)(key \<mapsto> ts)\<rparr>"
    using assms(1) by (auto simp: check_memory_def Let_def ts_def w_def split: list.splits if_splits)
  have dq: "client_deque rl' key = ts" "window_us rl' = w" "rl_max rl' = rl_max rl"
    by (simp_all add: rl' client_deque_update w_def)
  have "length ts \<le> length (client_deque rl key)" unfolding ts_def by (rule length_dropWhile_le)
  then have len: "int (length ts) \<le> rl_max rl" using assms(2) by linarith
  have in_win: "now \<le> t0 + w"
    using ts hd_dropWhile [of "\<lambda>t. t < now - w" "client_deque rl key"] unfolding ts_def
    by (metis (no_types, lifting) diff_le_eq linorder_not_less list.distinct(1) list.sel(1))
  have tr: "t0 + w - now < timedelta_seconds (r + 1)"
    using in_win unfolding r trunc_seconds_def timedelta_seconds_def microseconds_per_second_def
    by (auto simp: max_def)
  have "length (dropWhile (\<lambda>t. t < now + timedelta_seconds (r + 1) - w) ts) \<le> length rest"
    using tr by (simp add: ts length_dropWhile_le)
  then have "int (length (dropWhile (\<lambda>t. t < now + timedelta_seconds (r + 1) - w) ts)) < rl_max rl"
    using full len by (simp add: ts)
  then have "fst (check_memory key (now + timedelta_seconds (r + 1)) rl') = Inr (True, 0)"
    by (simp add: check_memory_def Let_def dq)
  moreover have "\<exists>r2. fst (check_memory key (now + timedelta_seconds r) rl') = Inr (False, r2)"
    if "now + timedelta_seconds 1 \<le> t0 + w"
  proof -
    have "timedelta_seconds r \<le> t0 + w - now"
      using that unfolding r trunc_seconds_def timedelta_seconds_def microseconds_per_second_def
      by (auto simp: max_def)
    then have "dropWhile (\<lambda>t. t < now + timedelta_seconds r - w) ts = ts" by (simp add: ts)
    then show ?thesis using full by (simp add: check_memory_def Let_def dq ts)
  qed
  ultimately show ?thesis by (simp add: dq ts w_def)
qed

definition demo_limiter :: rate_limiter where
  "demo_limiter = \<lparr>rl_max = 1, rl_window = 10, rl_clients = [''a'' \<mapsto> [0]]\<rparr>"

theorem retry_after_rounded_down_witness:
  "check_memory ''a'' 4300000 demo_limiter = (Inr (False, 5), demo_limiter) \<and>
   fst (check_memory ''a'' 10300000 demo_limiter) = Inr (True, 0) \<and>
   (\<exists>r2. fst (check_memory ''a'' 9300000 demo_limiter) = Inr (False, r2))"
proof -
  have a: "check_memory ''a'' 4300000 demo_limiter = (Inr (False, 5), demo_limiter)"
    by (simp add: check_memory_def demo_limiter_def client_deque_def window_us_def trunc_seconds_def
        timedelta_seconds_def microseconds_per_second_def)
  show ?thesis
    using a retry_after_rounded_down [OF a]
    by (simp add: demo_limiter_def client_deque_def window_us_def timedelta_seconds_def
        microseconds_per_second_def)
qed

end
