(* ===== verification/Bytes.thy ===== *)
theory Bytes
  imports Prelude "HOL-Library.Word"
begin

text \<open>
  Byte strings and the big-endian formats of \<open>struct\<close> that the wire protocols use: \<open>B\<close>, \<open>H\<close> and
  \<open>I\<close> in network order. \<open>unpack_from\<close> reads at an offset and raises \<open>struct.error\<close> when the buffer
  is too short; \<open>pack("!I", n)\<close> raises it for a number that does not fit.
\<close>

unbundle bit_operations_syntax

type_synonym byte = "8 word"
type_synonym bytes = "8 word list"

definition pack_u16 :: "16 word \<Rightarrow> bytes" where
  "pack_u16 w = [ucast (drop_bit 8 w), ucast w]"

definition pack_u32 :: "32 word \<Rightarrow> bytes" where
  "pack_u32 w = [ucast (drop_bit 24 w), ucast (drop_bit 16 w), ucast (drop_bit 8 w), ucast w]"

definition join_u16 :: "byte \<Rightarrow> byte \<Rightarrow> 16 word" where
  "join_u16 a b = push_bit 8 (ucast a) OR ucast b"

definition join_u32 :: "byte \<Rightarrow> byte \<Rightarrow> byte \<Rightarrow> byte \<Rightarrow> 32 word" where
  "join_u32 a b c d =
     push_bit 24 (ucast a) OR push_bit 16 (ucast b) OR push_bit 8 (ucast c) OR ucast d"

definition unpack_u8 :: "bytes \<Rightarrow> nat \<Rightarrow> byte result" where
  "unpack_u8 bs i = (if i < length bs then Inr (bs ! i) else Inl StructError)"

definition unpack_u16 :: "bytes \<Rightarrow> nat \<Rightarrow> 16 word result" where
  "unpack_u16 bs i =
     (if i + 2 \<le> length bs then Inr (join_u16 (bs ! i) (bs ! (i + 1))) else Inl StructError)"

definition unpack_u32 :: "bytes \<Rightarrow> nat \<Rightarrow> 32 word result" where
  "unpack_u32 bs i =
     (if i + 4 \<le> length bs
      then Inr (join_u32 (bs ! i) (bs ! (i + 1)) (bs ! (i + 2)) (bs ! (i + 3))) else Inl StructError)"

text \<open>\<open>data[a:b]\<close>.\<close>

definition slice :: "nat \<Rightarrow> nat \<Rightarrow> 'a list \<Rightarrow> 'a list" where
  "slice a b xs = take (b - a) (drop a xs)"

definition pack_length :: "nat \<Rightarrow> bytes result" where
  "pack_length n = (if n < 2 ^ 32 then Inr (pack_u32 (word_of_nat n)) else Inl StructError)"

definition encode_text :: "string \<Rightarrow> bytes" where
  "encode_text s = map (\<lambda>c. word_of_nat (of_char c)) s"

text \<open>\<open>bytes.decode()\<close>, for ASCII text; bytes beyond ASCII are outside the model.\<close>

definition decode_text :: "bytes \<Rightarrow> string result" where
  "decode_text bs =
     (if list_all (\<lambda>b. b < 128) bs then Inr (map (\<lambda>b. char_of (unat b)) bs)
      else Inl (ValueError ''UnicodeDecodeError''))"

lemma length_pack [simp]: "length (pack_u16 h) = 2" "length (pack_u32 w) = 4"
  by (simp_all add: pack_u16_def pack_u32_def)

lemma join_split_u16 [simp]: "join_u16 (ucast (drop_bit 8 w)) (ucast w) = w"
  by (rule bit_word_eqI) (auto simp: join_u16_def bit_simps)

lemma join_split_u32 [simp]:
  "join_u32 (ucast (drop_bit 24 w)) (ucast (drop_bit 16 w)) (ucast (drop_bit 8 w)) (ucast w) = w"
proof (rule bit_word_eqI)
  fix n :: nat
  assume "n < LENGTH(32)"
  then consider "n < 8" | "8 \<le> n" "n < 16" | "16 \<le> n" "n < 24" | "24 \<le> n" "n < 32" by fastforce
  then show "bit (join_u32 (ucast (drop_bit 24 w)) (ucast (drop_bit 16 w)) (ucast (drop_bit 8 w)) (ucast w)) n
      = bit w n"
    by cases (auto simp: join_u32_def bit_simps)
qed

lemma unpack_packed:
  "length pre = i \<Longrightarrow> unpack_u8 (pre @ b # post) i = Inr b"
  "length pre = i \<Longrightarrow> unpack_u16 (pre @ pack_u16 h @ post) i = Inr h"
  "length pre = i \<Longrightarrow> unpack_u32 (pre @ pack_u32 w @ post) i = Inr w"
  by (auto simp: unpack_u8_def unpack_u16_def unpack_u32_def pack_u16_def pack_u32_def nth_append)

lemma decode_encode_text:
  "list_all (\<lambda>c. (of_char c :: nat) < 128) s \<Longrightarrow> decode_text (encode_text s) = Inr s"
proof -
  assume a: "list_all (\<lambda>c. (of_char c :: nat) < 128) s"
  have u: "unat (word_of_nat (of_char c) :: byte) = of_char c" if "(of_char c :: nat) < 128" for c
    using that by (simp add: unat_of_nat take_bit_nat_eq_self)
  have "list_all (\<lambda>b. b < 128) (encode_text s)"
    using a u by (auto simp: list_all_iff encode_text_def word_less_nat_alt)
  moreover have "map (\<lambda>b. char_of (unat b)) (encode_text s) = s"
    using a u by (auto simp: list_all_iff encode_text_def intro: map_idI)
  ultimately show ?thesis by (simp add: decode_text_def)
qed

lemma pack_length_value:
  "n < 2 ^ 32 \<Longrightarrow> \<exists>w. pack_length n = Inr (pack_u32 w) \<and> unat w = n"
  by (auto simp: pack_length_def unat_of_nat take_bit_nat_eq_self intro!: exI [of _ "word_of_nat n"])

end
