(* ===== verification/Stun.thy ===== *)
theory Stun
  imports Bytes Ipv4
begin

text \<open>
  Public-address discovery: the STUN server of the control plane
  (\<open>backend/app/services/stun_server.py\<close>) and the client of the daemon
  (\<open>midscaled/daemon/stun_client.py\<close>), at the level of the datagrams. Ports and addresses are
  machine words. \<open>ipv6_packed\<close> is the sixteen-byte form of an IPv6 text and \<open>inet_ntop6\<close> its inverse
  direction, both of the standard library's IPv6 support, which the model does not need otherwise.
\<close>

definition STUN_MAGIC_COOKIE :: "32 word" where "STUN_MAGIC_COOKIE = 0x2112A442"
definition STUN_BINDING_REQUEST :: "16 word" where "STUN_BINDING_REQUEST = 0x0001"
definition STUN_BINDING_RESPONSE :: "16 word" where "STUN_BINDING_RESPONSE = 0x0101"
definition STUN_XOR_MAPPED_ADDRESS :: "16 word" where "STUN_XOR_MAPPED_ADDRESS = 0x0020"
definition STUN_HEADER_SIZE :: nat where "STUN_HEADER_SIZE = 20"

definition cookie_high :: "16 word" where
  "cookie_high = ucast (drop_bit 16 STUN_MAGIC_COOKIE)"

section \<open>Server\<close>

definition pack_ip :: "(string \<Rightarrow> bytes option) \<Rightarrow> string \<Rightarrow> bytes result" where
  "pack_ip ipv6_packed ip =
     (case ip_int_from_string ip of
        Some n \<Rightarrow> Inr (pack_u32 (word_of_nat n))
      | None \<Rightarrow> (case ipv6_packed ip of Some bs \<Rightarrow> Inr bs | None \<Rightarrow> Inl (ValueError ip)))"

text \<open>The header fields of a datagram of at least twenty bytes.\<close>

definition parse_header :: "bytes \<Rightarrow> (16 word \<times> 16 word \<times> 32 word) result" where
  "parse_header data =
     bind_result (unpack_u16 data 0) (\<lambda>t. bind_result (unpack_u16 data 2) (\<lambda>l.
       bind_result (unpack_u32 data 4) (\<lambda>c. Inr (t, l, c))))"

text \<open>
  \<open>_build_binding_response\<close>. Packing an IPv4 address gives four bytes; \<open>struct.unpack("!I", ...)\<close> of
  any other length raises.
\<close>

definition build_binding_response :: "(string \<Rightarrow> bytes option) \<Rightarrow> bytes \<Rightarrow> string \<times> 16 word
    \<Rightarrow> bytes option result" where
  "build_binding_response ipv6_packed data src =
     (if length data < STUN_HEADER_SIZE then Inr None
      else bind_result (parse_header data) (\<lambda>(msg_type, msg_len, cookie).
        if cookie \<noteq> STUN_MAGIC_COOKIE then Inr None
        else if msg_type \<noteq> STUN_BINDING_REQUEST then Inr None
        else
          let tid = slice 8 20 data; (ip_str, port) = src in
          if length tid \<noteq> 12 then Inr None
          else case pack_ip ipv6_packed ip_str of
            Inl _ \<Rightarrow> Inr None
          | Inr packed \<Rightarrow>
              (if length packed \<noteq> 4 then Inl StructError
               else bind_result (unpack_u32 packed 0) (\<lambda>ip.
                 let xored_port = port XOR cookie_high;
                     xored_ip = pack_u32 (ip XOR STUN_MAGIC_COOKIE);
                     attr_value = [0, 1] @ pack_u16 xored_port @ xored_ip;
                     attr_length = word_of_nat (length attr_value)
                 in Inr (Some (pack_u16 STUN_BINDING_RESPONSE @ pack_u16 attr_length @
                      pack_u32 STUN_MAGIC_COOKIE @ tid @
                      pack_u16 STUN_XOR_MAPPED_ADDRESS @ pack_u16 attr_length @ attr_value))))))"

definition parse_request :: "bytes \<Rightarrow> (16 word) option result" where
  "parse_request data =
     (if length data < STUN_HEADER_SIZE then Inr None
      else bind_result (parse_header data) (\<lambda>(msg_type, msg_len, cookie).
        if cookie \<noteq> STUN_MAGIC_COOKIE \<or> msg_type \<noteq> STUN_BINDING_REQUEST then Inr None
        else Inr (Some msg_len)))"

text \<open>The datagram handler of a running server: the datagram it sends back, if any.\<close>

definition stun_handler :: "(string \<Rightarrow> bytes option) \<Rightarrow> bytes \<Rightarrow> string \<times> 16 word \<Rightarrow> bytes option" where
  "stun_handler ipv6_packed data src =
     (case parse_request data of
        Inr (Some _) \<Rightarrow>
          (case build_binding_response ipv6_packed data src of Inr r \<Rightarrow> r | Inl _ \<Rightarrow> None)
      | _ \<Rightarrow> None)"

text \<open>
  The server around the handler. Binding its socket fails with an \<open>OSError\<close> (\<open>None\<close>) or gives a transport, which
  may tell the port it is bound to; without a transport nothing is sent.
\<close>

record stun_server =
  ss_host :: string
  ss_port :: int
  ss_running :: bool
  ss_transport :: bool

definition new_stun_server :: "string \<Rightarrow> int \<Rightarrow> stun_server" where
  "new_stun_server host port = \<lparr>ss_host = host, ss_port = port, ss_running = False, ss_transport = False\<rparr>"

definition start_stun_server :: "int option option \<Rightarrow> stun_server \<Rightarrow> stun_server" where
  "start_stun_server bound s =
     (if ss_running s then s
      else (case bound of
              None \<Rightarrow> s
            | Some sockname \<Rightarrow>
                s\<lparr>ss_running := True, ss_transport := True,
                  ss_port := (case sockname of None \<Rightarrow> ss_port s | Some p \<Rightarrow> p)\<rparr>))"

definition stop_stun_server :: "stun_server \<Rightarrow> stun_server" where
  "stop_stun_server s = (if ss_running s then s\<lparr>ss_running := False, ss_transport := False\<rparr> else s)"

definition serve_datagram :: "(string \<Rightarrow> bytes option) \<Rightarrow> bytes \<Rightarrow> string \<times> 16 word \<Rightarrow> stun_server \<Rightarrow> bytes option" where
  "serve_datagram ipv6_packed data src s = (if ss_transport s then stun_handler ipv6_packed data src else None)"

section \<open>Client\<close>

definition build_binding_request :: "bytes \<Rightarrow> bytes \<times> bytes" where
  "build_binding_request tid =
     (pack_u16 STUN_BINDING_REQUEST @ pack_u16 0 @ pack_u32 STUN_MAGIC_COOKIE @ tid, tid)"

text \<open>
  One attribute of the loop: the mapped address if this attribute is one, and the offset of the
  next attribute otherwise.
\<close>

definition mapped_address :: "(bytes \<Rightarrow> string) \<Rightarrow> bytes \<Rightarrow> nat \<Rightarrow> 16 word \<Rightarrow> nat
    \<Rightarrow> (string \<times> 16 word) option result" where
  "mapped_address inet_ntop6 data off attr_type attr_length =
     (if attr_type = STUN_XOR_MAPPED_ADDRESS \<and> 8 \<le> attr_length
      then bind_result (unpack_u8 data off) (\<lambda>reserved.
        bind_result (unpack_u8 data (off + 1)) (\<lambda>family.
          bind_result (unpack_u16 data (off + 2)) (\<lambda>xored_port.
            let port = xored_port XOR cookie_high in
            if family = 1 then
              bind_result (unpack_u32 data (off + 4)) (\<lambda>w.
                Inr (Some (str_ipv4 (unat (w XOR STUN_MAGIC_COOKIE)), port)))
            else if family = 2 \<and> 20 \<le> attr_length then
              bind_result (unpack_u32 data (off + 4)) (\<lambda>w0.
                bind_result (unpack_u32 data (off + 8)) (\<lambda>w1.
                  bind_result (unpack_u32 data (off + 12)) (\<lambda>w2.
                    bind_result (unpack_u32 data (off + 16)) (\<lambda>w3.
                      Inr (Some (inet_ntop6 (concat (map (\<lambda>w. pack_u32 (w XOR STUN_MAGIC_COOKIE))
                                  [w0, w1, w2, w3])), port))))))
            else Inr None)))
      else Inr None)"

function attribute_loop :: "(bytes \<Rightarrow> string) \<Rightarrow> bytes \<Rightarrow> nat \<Rightarrow> nat
    \<Rightarrow> (string \<times> 16 word) option result" where
  "attribute_loop inet_ntop6 data off end_off =
     (if off + 4 \<le> end_off
      then bind_result (unpack_u16 data off) (\<lambda>attr_type.
        bind_result (unpack_u16 data (off + 2)) (\<lambda>attr_len.
          let attr_length = unat attr_len in
          bind_result (mapped_address inet_ntop6 data (off + 4) attr_type attr_length) (\<lambda>found.
            case found of
              Some x \<Rightarrow> Inr (Some x)
            | None \<Rightarrow>
                attribute_loop inet_ntop6 data
                  (off + 4 + attr_length + (if odd attr_length then 1 else 0)) end_off)))
      else Inr None)"
  by pat_completeness auto
termination
  by (relation "measure (\<lambda>(f, data, off, e). e - off)") auto

declare attribute_loop.simps [simp del]

definition parse_binding_response :: "(bytes \<Rightarrow> string) \<Rightarrow> bytes \<Rightarrow> bytes
    \<Rightarrow> (string \<times> 16 word) option result" where
  "parse_binding_response inet_ntop6 data expected_tid =
     (if length data < STUN_HEADER_SIZE then Inr None
      else bind_result (parse_header data) (\<lambda>(msg_type, msg_len, cookie).
        if cookie \<noteq> STUN_MAGIC_COOKIE then Inr None
        else if msg_type \<noteq> STUN_BINDING_RESPONSE then Inr None
        else
          let tid = slice 8 20 data in
          if tid \<noteq> expected_tid \<or> length tid \<noteq> 12 then Inr None
          else attribute_loop inet_ntop6 data STUN_HEADER_SIZE (STUN_HEADER_SIZE + unat msg_len)))"

text \<open>\<open>query_stun_servers\<close>: \<open>answer\<close> is what querying one server returns.\<close>

fun query_stun_servers :: "('srv \<Rightarrow> 'r option) \<Rightarrow> 'srv list \<Rightarrow> 'r option" where
  "query_stun_servers answer [] = None"
| "query_stun_servers answer (s # ss) =
     (case answer s of Some r \<Rightarrow> Some r | None \<Rightarrow> query_stun_servers answer ss)"

section \<open>Lemmas\<close>

lemma parse_header_packed [simp]:
  "parse_header (pack_u16 t @ pack_u16 l @ pack_u32 c @ rest) = Inr (t, l, c)"
  using unpack_packed(2) [of "[]" 0 t] unpack_packed(2) [of "pack_u16 t" 2 l]
    unpack_packed(3) [of "pack_u16 t @ pack_u16 l" 4 c]
  by (simp add: parse_header_def)

lemma parse_header_total: "20 \<le> length data \<Longrightarrow> \<exists>t l c. parse_header data = Inr (t, l, c)"
  by (simp add: parse_header_def unpack_u16_def unpack_u32_def)

lemma pack_ip_address:
  "a < 2 ^ 32 \<Longrightarrow> pack_ip ipv6_packed (str_ipv4 a) = Inr (pack_u32 (word_of_nat a))"
  by (simp add: pack_ip_def)

lemma unpack_pack_u32 [simp]: "unpack_u32 (pack_u32 w) 0 = Inr w"
  using unpack_packed(3) [of "[]" 0 w "[]"] by simp

text \<open>The response to a well-formed request from an IPv4 client.\<close>

definition response_of :: "bytes \<Rightarrow> 32 word \<Rightarrow> 16 word \<Rightarrow> bytes" where
  "response_of tid ip port =
     pack_u16 STUN_BINDING_RESPONSE @ pack_u16 8 @ pack_u32 STUN_MAGIC_COOKIE @ tid @
     pack_u16 STUN_XOR_MAPPED_ADDRESS @ pack_u16 8 @ [0, 1] @ pack_u16 (port XOR cookie_high) @
     pack_u32 (ip XOR STUN_MAGIC_COOKIE)"

lemma build_binding_response_request:
  assumes "length tid = 12" and "a < 2 ^ 32"
  shows "build_binding_response ipv6_packed (fst (build_binding_request tid)) (str_ipv4 a, port) =
     Inr (Some (response_of tid (word_of_nat a) port))"
  using assms
  by (simp add: build_binding_response_def build_binding_request_def STUN_HEADER_SIZE_def
      pack_ip_address slice_def response_of_def)

lemma parse_request_request:
  "length tid = 12 \<Longrightarrow> parse_request (fst (build_binding_request tid)) = Inr (Some 0)"
  by (simp add: parse_request_def build_binding_request_def STUN_HEADER_SIZE_def)

lemma attribute_of_response:
  assumes "length tid = 12" and "data = response_of tid ip port"
  shows "unpack_u16 data 20 = Inr STUN_XOR_MAPPED_ADDRESS" and "unpack_u16 data 22 = Inr 8"
    and "unpack_u8 data 24 = Inr 0" and "unpack_u8 data 25 = Inr 1"
    and "unpack_u16 data 26 = Inr (port XOR cookie_high)"
    and "unpack_u32 data 28 = Inr (ip XOR STUN_MAGIC_COOKIE)"
proof -
  let ?h = "pack_u16 STUN_BINDING_RESPONSE @ pack_u16 8 @ pack_u32 STUN_MAGIC_COOKIE @ tid"
  have h: "length ?h = 20" using assms(1) by simp
  show "unpack_u16 data 20 = Inr STUN_XOR_MAPPED_ADDRESS"
    using unpack_packed(2) [of ?h 20, OF h] by (simp add: assms(2) response_of_def)
  show "unpack_u16 data 22 = Inr 8"
    using unpack_packed(2) [of "?h @ pack_u16 STUN_XOR_MAPPED_ADDRESS" 22 8] h
    by (simp add: assms(2) response_of_def)
  let ?g = "?h @ pack_u16 STUN_XOR_MAPPED_ADDRESS @ pack_u16 8"
  have g: "length ?g = 24" using h by simp
  show "unpack_u8 data 24 = Inr 0"
    using unpack_packed(1) [of ?g 24 0, OF g] by (simp add: assms(2) response_of_def)
  show "unpack_u8 data 25 = Inr 1"
    using unpack_packed(1) [of "?g @ [0]" 25 1] g by (simp add: assms(2) response_of_def)
  show "unpack_u16 data 26 = Inr (port XOR cookie_high)"
    using unpack_packed(2) [of "?g @ [0, 1]" 26] g by (simp add: assms(2) response_of_def)
  show "unpack_u32 data 28 = Inr (ip XOR STUN_MAGIC_COOKIE)"
    using unpack_packed(3) [of "?g @ [0, 1] @ pack_u16 (port XOR cookie_high)" 28 _ "[]"] g
    by (simp add: assms(2) response_of_def)
qed

lemma xor_twice [simp]: "(x XOR y) XOR y = (x :: 'a::len word)"
  by (simp add: xor.assoc)

lemma parse_response_of:
  assumes "length tid = 12"
  shows "parse_binding_response inet_ntop6 (response_of tid ip port) tid =
     Inr (Some (str_ipv4 (unat ip), port))"
proof -
  let ?data = "response_of tid ip port"
  have "parse_header ?data = Inr (STUN_BINDING_RESPONSE, 8, STUN_MAGIC_COOKIE)"
    unfolding response_of_def by (rule parse_header_packed)
  moreover have "20 \<le> length ?data" "slice 8 20 ?data = tid"
    using assms by (simp_all add: response_of_def slice_def)
  moreover have "attribute_loop inet_ntop6 ?data 20 28 = Inr (Some (str_ipv4 (unat ip), port))"
    using attribute_of_response [OF assms refl, of ip port]
    by (subst attribute_loop.simps) (simp add: mapped_address_def)
  ultimately show ?thesis
    using assms by (simp add: parse_binding_response_def STUN_HEADER_SIZE_def)
qed

section \<open>Properties\<close>

text \<open>
  Discovery round trip: for every twelve-byte transaction id, IPv4 address and port, the
  server answers the client's binding request, and the client reads from the answer exactly the
  address and port the server saw.
\<close>

theorem stun_roundtrip:
  assumes "length tid = 12" and "a < 2 ^ 32"
  shows "\<exists>resp. stun_handler ipv6_packed (fst (build_binding_request tid)) (str_ipv4 a, port) = Some resp \<and>
     parse_binding_response inet_ntop6 resp tid = Inr (Some (str_ipv4 a, port))"
proof -
  have "unat (word_of_nat a :: 32 word) = a"
    using assms(2) by (simp add: unat_of_nat take_bit_nat_eq_self)
  then show ?thesis
    using parse_response_of [OF assms(1), of inet_ntop6 "word_of_nat a" port] parse_request_request [OF assms(1)]
      build_binding_response_request [OF assms, of ipv6_packed port]
    by (simp add: stun_handler_def)
qed

theorem stun_roundtrip_witness:
  "\<exists>resp. stun_handler (\<lambda>_. None) (fst (build_binding_request (replicate 12 7))) (str_ipv4 3232235777, 51820)
       = Some resp \<and>
     parse_binding_response (\<lambda>_. []) resp (replicate 12 7) = Inr (Some (str_ipv4 3232235777, 51820))"
  by (rule stun_roundtrip) simp_all

text \<open>
  The server only ever answers a datagram of at least twenty bytes with the magic cookie and
  the binding-request type; its answer echoes the transaction id, is 32 bytes long, and declares a
  message length of 8 although twelve bytes of attributes follow the header.
\<close>

theorem stun_response_shape:
  assumes "stun_handler ipv6_packed data src = Some resp"
  shows "20 \<le> length data \<and> parse_request data \<noteq> Inr None \<and> length resp = 32 \<and>
     slice 8 20 resp = slice 8 20 data \<and>
     parse_header resp = Inr (STUN_BINDING_RESPONSE, 8, STUN_MAGIC_COOKIE) \<and> length (drop 20 resp) = 12"
proof -
  have req: "parse_request data \<noteq> Inr None" and
    b: "build_binding_response ipv6_packed data src = Inr (Some resp)"
    using assms by (auto simp: stun_handler_def split: sum.splits option.splits)
  then have len: "20 \<le> length data" and tid: "length (slice 8 20 data) = 12"
    by (auto simp: build_binding_response_def STUN_HEADER_SIZE_def Let_def slice_def split: if_splits)
  obtain w p where "resp = response_of (slice 8 20 data) w p"
    using b tid
    by (auto simp: build_binding_response_def Let_def bind_result_eq_Inr response_of_def case_prod_beta
        split: if_splits sum.splits)
  then show ?thesis
    using req len tid by (simp add: response_of_def slice_def)
qed

theorem stun_response_shape_witness:
  "\<exists>resp. stun_handler (\<lambda>_. None) (fst (build_binding_request (replicate 12 7))) (str_ipv4 1, 9) = Some resp \<and>
     length resp = 32"
proof -
  have a: "stun_handler (\<lambda>_. None) (fst (build_binding_request (replicate 12 7))) (str_ipv4 1, 9) =
      Some (response_of (replicate 12 7) 1 9)"
    using build_binding_response_request [of "replicate 12 7" 1] parse_request_request [of "replicate 12 7"]
    by (simp add: stun_handler_def)
  show ?thesis using a stun_response_shape [OF a] by blast
qed

text \<open>
  The client believes a datagram only if it carries the magic cookie, the binding-response type
  and the twelve-byte transaction id of its own request.
\<close>

theorem stun_response_authentic:
  assumes "parse_binding_response inet_ntop6 data tid = Inr (Some addr)"
  shows "length tid = 12 \<and> slice 8 20 data = tid \<and>
     (\<exists>l. parse_header data = Inr (STUN_BINDING_RESPONSE, l, STUN_MAGIC_COOKIE))"
  using assms
  by (auto simp: parse_binding_response_def bind_result_eq_Inr Let_def case_prod_beta
      split: if_splits)

theorem stun_response_authentic_witness:
  "slice 8 20 (response_of (replicate 12 7) 1 9) = replicate 12 7"
  using stun_response_authentic [OF parse_response_of [of "replicate 12 7" "\<lambda>_. []" 1 9]] by simp

end
