(* ===== verification/Endpoints.thy ===== *)
theory Endpoints
  imports Scoring Access Relay Ipam
begin

text \<open>
  What a daemon reports about itself and its peers: \<open>backend/app/services/daemon.py\<close>. Heartbeats,
  reported endpoints, probe results with the recomputed scores, and the periodic deactivation of
  endpoints that have not been seen for a while.
\<close>

section \<open>Operations\<close>

record heartbeat_reply =
  hb_status :: string
  hb_device_id :: string
  hb_last_heartbeat :: string
  hb_config_url :: string

text \<open>\<open>flush\<close> is the time the column's \<open>onupdate\<close> writes when the handler sets none itself.\<close>

definition apply_heartbeat :: "datetime \<Rightarrow> datetime \<Rightarrow> string option \<Rightarrow> string option \<Rightarrow> device \<Rightarrow> device" where
  "apply_heartbeat now flush public_key ip_address r =
     (let key_changed = (truthy_str public_key \<and> public_key \<noteq> dev_public_key r);
          ip_changed = (truthy_str ip_address \<and> ip_address \<noteq> dev_ip_address r);
          r1 = r\<lparr>dev_last_seen_at := Some now\<rparr>;
          r2 = (if key_changed then r1\<lparr>dev_public_key := public_key\<rparr> else r1);
          r3 = (if ip_changed then r2\<lparr>dev_ip_address := ip_address\<rparr> else r2)
      in if key_changed \<or> ip_changed then r3\<lparr>dev_updated_at := now\<rparr>
         else if r3 = r then r else r3\<lparr>dev_updated_at := flush\<rparr>)"

definition process_heartbeat :: "datetime \<Rightarrow> datetime \<Rightarrow> uuid \<Rightarrow> string option \<Rightarrow> string option \<Rightarrow> database
    \<Rightarrow> (heartbeat_reply \<times> database) result" where
  "process_heartbeat now flush did public_key ip_address d =
     bind_result (scalar_one_or_none (filter (\<lambda>r. dev_id r = did) (devices d))) (\<lambda>ro.
       case ro of
         None \<Rightarrow> Inl (HTTPException 404 ''Device not found'')
       | Some r \<Rightarrow>
           Inr (\<lparr>hb_status = ''ok'', hb_device_id = dev_id r, hb_last_heartbeat = isoformat now,
                 hb_config_url = ''/api/v1/devices/'' @ dev_id r @ ''/config''\<rparr>,
                d\<lparr>devices := update_row dev_id did (apply_heartbeat now flush public_key ip_address) (devices d)\<rparr>))"

text \<open>A fresh endpoint row with the column defaults.\<close>

definition new_endpoint :: "uuid \<Rightarrow> uuid \<Rightarrow> string \<Rightarrow> string \<Rightarrow> int \<Rightarrow> string option \<Rightarrow> string option
    \<Rightarrow> datetime \<Rightarrow> datetime \<Rightarrow> endpoint" where
  "new_endpoint eid did addr source port local_ip public_ip now created =
     \<lparr>ep_id = eid, ep_device_id = did, ep_endpoint = addr, ep_source = source, ep_port = port,
      ep_local_ip = local_ip, ep_public_ip = public_ip, ep_priority = 100, ep_is_active = True,
      ep_last_seen = now, ep_latency_ms = None, ep_reachable = False, ep_last_probe_at = None,
      ep_failure_count = 0, ep_success_count = 0, ep_score = 0, ep_created_at = created\<rparr>"

definition report_endpoint :: "env \<Rightarrow> uuid \<Rightarrow> string \<Rightarrow> string \<Rightarrow> int \<Rightarrow> string option \<Rightarrow> string option
    \<Rightarrow> int \<Rightarrow> database \<Rightarrow> (endpoint \<times> database) result" where
  "report_endpoint e did addr source port local_ip public_ip priority d =
     bind_result (scalar_one_or_none (filter (\<lambda>r. dev_id r = did) (devices d))) (\<lambda>ro.
       case ro of
         None \<Rightarrow> Inl (HTTPException 404 ''Device not found'')
       | Some r \<Rightarrow>
           (let ep = (new_endpoint (env_uuid e 0) did addr source port local_ip public_ip
                       (env_now e 0) (env_now e 1))\<lparr>ep_priority := priority\<rparr>
            in Inr (ep, d\<lparr>endpoints := endpoints d @ [ep]\<rparr>)))"

definition endpoint_is_stale :: "datetime \<Rightarrow> int \<Rightarrow> endpoint \<Rightarrow> bool" where
  "endpoint_is_stale now max_age_minutes ep \<longleftrightarrow>
     ep_is_active ep \<and> ep_last_seen ep < now - timedelta_minutes max_age_minutes"

definition stale_endpoint_cleanup :: "datetime \<Rightarrow> int \<Rightarrow> database \<Rightarrow> nat \<times> database" where
  "stale_endpoint_cleanup now max_age_minutes d =
     (length (filter (endpoint_is_stale now max_age_minutes) (endpoints d)),
      d\<lparr>endpoints := update_where (endpoint_is_stale now max_age_minutes)
           (\<lambda>ep. ep\<lparr>ep_is_active := False\<rparr>) (endpoints d)\<rparr>)"

record probe_result =
  pr_peer_device_id :: string
  pr_endpoint :: string
  pr_source :: string
  pr_port :: int
  pr_reachable :: bool
  pr_latency_ms :: "int option"
  pr_local_ip :: "string option"
  pr_public_ip :: "string option"

record probe_reply =
  pry_endpoint_id :: string
  pry_score :: int
  pry_preferred :: bool

definition apply_probe :: "datetime \<Rightarrow> probe_result \<Rightarrow> endpoint \<Rightarrow> endpoint" where
  "apply_probe now p ep =
     (let ep1 = ep\<lparr>ep_reachable := pr_reachable p, ep_last_probe_at := Some now,
                   ep_latency_ms := pr_latency_ms p\<rparr>;
          ep2 = (if pr_reachable p then ep1\<lparr>ep_success_count := ep_success_count ep1 + 1\<rparr>
                 else ep1\<lparr>ep_failure_count := ep_failure_count ep1 + 1\<rparr>)
      in ep2\<lparr>ep_score := compute_endpoint_score (ep_reachable ep2) (ep_latency_ms ep2)
                (ep_failure_count ep2) (ep_success_count ep2) (ep_priority ep2),
             ep_last_seen := now\<rparr>)"

definition probed_endpoint :: "env \<Rightarrow> probe_result \<Rightarrow> uuid \<Rightarrow> datetime \<Rightarrow> endpoint" where
  "probed_endpoint e p did now =
     (let failure_count = (if pr_reachable p then 0 else 1);
          success_count = (if pr_reachable p then 1 else 0)
      in (new_endpoint (env_uuid e 0) did (pr_endpoint p) (pr_source p) (pr_port p) (pr_local_ip p)
            (pr_public_ip p) now (env_now e 1))
           \<lparr>ep_reachable := pr_reachable p, ep_latency_ms := pr_latency_ms p,
            ep_last_probe_at := Some now, ep_failure_count := failure_count,
            ep_success_count := success_count,
            ep_score := compute_endpoint_score (pr_reachable p) (pr_latency_ms p) failure_count
                          success_count 100\<rparr>)"

text \<open>The row is updated or created; the id and score of that row come back.\<close>

definition record_probe :: "env \<Rightarrow> probe_result \<Rightarrow> database \<Rightarrow> (endpoint \<times> database) result" where
  "record_probe e p d =
     bind_result (scalar_one_or_none (sorted_by (\<lambda>ep. - ep_last_seen ep)
         (filter (\<lambda>ep. ep_device_id ep = pr_peer_device_id p \<and> ep_endpoint ep = pr_endpoint p)
            (endpoints d)))) (\<lambda>eo.
       case eo of
         Some ep \<Rightarrow>
           Inr (apply_probe (env_now e 0) p ep,
                d\<lparr>endpoints := update_row ep_id (ep_id ep) (apply_probe (env_now e 0) p) (endpoints d)\<rparr>)
       | None \<Rightarrow>
           bind_result (parse_uuid (pr_peer_device_id p)) (\<lambda>did.
             if \<not> device_exists did d then Inl (IntegrityError ''device_endpoints'')
             else (let ep = probed_endpoint e p did (env_now e 0) in
                   Inr (ep, d\<lparr>endpoints := endpoints d @ [ep]\<rparr>))))"

definition process_probe_result :: "env \<Rightarrow> probe_result \<Rightarrow> database \<Rightarrow> probe_reply response" where
  "process_probe_result e p d =
     bind_result (record_probe e p d) (\<lambda>(ep, d').
       let all_eps = filter (\<lambda>x. ep_device_id x = pr_peer_device_id p \<and> ep_is_active x) (endpoints d');
           best = (if all_eps = [] then None else select_best_endpoint all_eps)
       in Inr (\<lparr>pry_endpoint_id = ep_id ep, pry_score = ep_score ep,
                pry_preferred = (map_option ep_id best = Some (ep_id ep))\<rparr>, d',
            [Counter_inc ''ENDPOINT_PROBE_TOTAL'' (if pr_reachable p then ''reachable'' else ''unreachable'') 1,
             Counter_inc ''ENDPOINT_SCORE_UPDATES'' [] 1,
             Gauge_set ''ENDPOINT_REACHABLE'' (int (length (filter ep_reachable all_eps)))]))"

section \<open>Lemmas\<close>

lemma apply_probe_key [simp]:
  "ep_id (apply_probe now p ep) = ep_id ep" "ep_device_id (apply_probe now p ep) = ep_device_id ep"
  "ep_endpoint (apply_probe now p ep) = ep_endpoint ep" "ep_is_active (apply_probe now p ep) = ep_is_active ep"
  by (simp_all add: apply_probe_def Let_def)

lemma apply_probe_effect:
  "0 \<le> ep_score (apply_probe now p ep) \<and> ep_score (apply_probe now p ep) \<le> SCORE_MAX \<and>
   ep_reachable (apply_probe now p ep) = pr_reachable p \<and>
   ep_success_count (apply_probe now p ep) + ep_failure_count (apply_probe now p ep) =
     ep_success_count ep + ep_failure_count ep + 1"
  using score_bounds by (simp add: apply_probe_def Let_def SCORE_MAX_def)

lemma sorted_by_single [simp]: "sorted_by k [x] = [x]"
  by (simp add: sorted_by_def)

lemma scalar_one_or_none_many:
  "x \<in> set rows \<Longrightarrow> y \<in> set rows \<Longrightarrow> x \<noteq> y \<Longrightarrow> scalar_one_or_none rows = Inl MultipleResultsFound"
  by (cases rows; cases "tl rows") auto

lemma report_endpoint_Inr:
  assumes "report_endpoint e did addr src port li pi prio d = Inr (ep, d')"
  shows "d' = d\<lparr>endpoints := endpoints d @ [ep]\<rparr> \<and> ep_id ep = env_uuid e 0 \<and> ep_device_id ep = did \<and>
     ep_endpoint ep = addr"
  using assms by (auto simp: report_endpoint_def bind_result_eq_Inr Let_def new_endpoint_def split: option.splits)

section \<open>Properties\<close>

text \<open>
  A probe of a known endpoint rewrites exactly that row: it takes over reachability, bumps
  exactly one of the two counters by one, gets a score between 0 and 200 computed from the new
  values, and every other row stays as it was. The reply calls the endpoint preferred exactly when
  it is the one \<open>select_best_endpoint\<close> picks among the peer's active endpoints.
\<close>

theorem probe_updates_one_endpoint:
  assumes "endpoints_ok (endpoints d)"
    and "filter (\<lambda>x. ep_device_id x = pr_peer_device_id p \<and> ep_endpoint x = pr_endpoint p) (endpoints d) = [ep]"
    and "ep' = apply_probe (env_now e 0) p ep"
  shows "\<exists>reply d' es. process_probe_result e p d = Inr (reply, d', es) \<and>
     endpoints d' = map (\<lambda>x. if ep_id x = ep_id ep then ep' else x) (endpoints d) \<and>
     pry_endpoint_id reply = ep_id ep \<and> pry_score reply = ep_score ep' \<and>
     0 \<le> ep_score ep' \<and> ep_score ep' \<le> SCORE_MAX \<and> ep_reachable ep' = pr_reachable p \<and>
     ep_success_count ep' + ep_failure_count ep' = ep_success_count ep + ep_failure_count ep + 1 \<and>
     (pry_preferred reply \<longleftrightarrow> map_option ep_id (select_best_endpoint
        (filter (\<lambda>x. ep_device_id x = pr_peer_device_id p \<and> ep_is_active x) (endpoints d'))) = Some (ep_id ep))"
proof -
  have mem: "ep \<in> set (endpoints d)" using assms(2) by (metis filter_set list.set_intros(1) mem_Collect_eq set_filter)
  have "update_row ep_id (ep_id ep) (apply_probe (env_now e 0) p) (endpoints d) =
      map (\<lambda>x. if ep_id x = ep_id ep then ep' else x) (endpoints d)"
    unfolding update_row_def assms(3)
    using ep.key_unique [OF assms(1) mem] by (intro map_cong) auto
  then show ?thesis
    using assms(2,3) apply_probe_effect [of "env_now e 0" p ep]
    by (simp add: process_probe_result_def record_probe_def Let_def)
qed

definition demo_probe :: probe_result where
  "demo_probe = \<lparr>pr_peer_device_id = ''b'', pr_endpoint = ''1.1.1.1'', pr_source = ''probe'', pr_port = 51820,
     pr_reachable = True, pr_latency_ms = Some 20, pr_local_ip = None, pr_public_ip = None\<rparr>"

definition demo_reported :: endpoint where
  "demo_reported = new_endpoint ''e1'' ''b'' ''1.1.1.1'' ''stun'' 51820 None None 0 0"

theorem probe_updates_one_endpoint_witness:
  "\<exists>reply d' es. process_probe_result demo_env demo_probe (empty_database\<lparr>endpoints := [demo_reported]\<rparr>) =
     Inr (reply, d', es) \<and> pry_endpoint_id reply = ''e1'' \<and> 0 \<le> pry_score reply"
proof -
  have "filter (\<lambda>x. ep_device_id x = pr_peer_device_id demo_probe \<and> ep_endpoint x = pr_endpoint demo_probe)
      (endpoints (empty_database\<lparr>endpoints := [demo_reported]\<rparr>)) = [demo_reported]"
    by (simp add: demo_reported_def new_endpoint_def demo_probe_def empty_database_def)
  from probe_updates_one_endpoint [OF _ this refl, of demo_env] show ?thesis
    by (auto simp: endpoints_ok_def empty_database_def demo_reported_def new_endpoint_def)
qed

text \<open>
  Endpoint reports are not deduplicated: after a device has reported the same address twice,
  every probe result for that address fails with \<open>MultipleResultsFound\<close>.
\<close>

theorem duplicate_reports_break_probes:
  assumes "report_endpoint e1 did addr src1 port1 li1 pi1 prio1 d = Inr (x, d1)"
    and "report_endpoint e2 did addr src2 port2 li2 pi2 prio2 d1 = Inr (y, d2)"
    and "env_uuid e1 0 \<noteq> env_uuid e2 0"
    and "pr_peer_device_id p = did" and "pr_endpoint p = addr"
  shows "process_probe_result e3 p d2 = Inl MultipleResultsFound"
proof -
  note x = report_endpoint_Inr [OF assms(1)] and y = report_endpoint_Inr [OF assms(2)]
  have "scalar_one_or_none (sorted_by (\<lambda>ep. - ep_last_seen ep)
      (filter (\<lambda>ep. ep_device_id ep = did \<and> ep_endpoint ep = addr) (endpoints d2))) = Inl MultipleResultsFound"
    using x y assms(3) by (intro scalar_one_or_none_many [of x _ y]) auto
  then show ?thesis using assms(4,5) by (simp add: process_probe_result_def record_probe_def)
qed

theorem duplicate_reports_break_probes_witness:
  "\<exists>d1 d2 x y. report_endpoint demo_env ''b'' ''1.1.1.1'' ''stun'' 51820 None None 100
        (empty_database\<lparr>devices := [demo_device ''b'' ''n'' None]\<rparr>) = Inr (x, d1) \<and>
     report_endpoint (demo_env\<lparr>env_uuid := (\<lambda>_. ''e2'')\<rparr>) ''b'' ''1.1.1.1'' ''stun'' 51820 None None 100 d1 =
        Inr (y, d2) \<and>
     process_probe_result demo_env demo_probe d2 = Inl MultipleResultsFound"
proof -
  obtain x d1 where a: "report_endpoint demo_env ''b'' ''1.1.1.1'' ''stun'' 51820 None None 100
        (empty_database\<lparr>devices := [demo_device ''b'' ''n'' None]\<rparr>) = Inr (x, d1)"
    and d1: "devices d1 = [demo_device ''b'' ''n'' None]"
    by (simp add: report_endpoint_def empty_database_def demo_device_def Let_def)
  obtain y d2 where b: "report_endpoint (demo_env\<lparr>env_uuid := (\<lambda>_. ''e2'')\<rparr>) ''b'' ''1.1.1.1'' ''stun'' 51820
      None None 100 d1 = Inr (y, d2)"
    by (simp add: report_endpoint_def d1 demo_device_def Let_def)
  have "process_probe_result demo_env demo_probe d2 = Inl MultipleResultsFound"
    by (rule duplicate_reports_break_probes [OF a b]) (simp_all add: demo_env_def demo_probe_def)
  then show ?thesis using a b by (intro exI conjI)
qed

text \<open>
  A heartbeat takes over whatever address the device sends, unchecked: two devices of one
  network that held different addresses can end up with the same one.
\<close>

theorem heartbeat_can_duplicate_address:
  "\<exists>d did ip reply d'. unique_addresses d \<and> devices_ok (devices d) \<and>
     process_heartbeat 0 0 did None (Some ip) d = Inr (reply, d') \<and> \<not> unique_addresses d'"
proof (intro exI conjI)
  let ?d = "empty_database\<lparr>devices := [demo_device ''a'' ''n'' (Some ''10.0.0.2''),
      demo_device ''b'' ''n'' (Some ''10.0.0.3'')]\<rparr>"
  show "unique_addresses ?d"
    by (auto simp: unique_addresses_iff device_addresses_def demo_device_def empty_database_def)
  show "devices_ok (devices ?d)" by (simp add: devices_ok_def demo_device_def)
  show "process_heartbeat 0 0 ''b'' None (Some ''10.0.0.2'') ?d =
      Inr (\<lparr>hb_status = ''ok'', hb_device_id = ''b'', hb_last_heartbeat = isoformat 0,
             hb_config_url = ''/api/v1/devices/b/config''\<rparr>,
        ?d\<lparr>devices := update_row dev_id ''b'' (apply_heartbeat 0 0 None (Some ''10.0.0.2'')) (devices ?d)\<rparr>)"
    by (simp add: process_heartbeat_def demo_device_def)
  show "\<not> unique_addresses (?d\<lparr>devices :=
      update_row dev_id ''b'' (apply_heartbeat 0 0 None (Some ''10.0.0.2'')) (devices ?d)\<rparr>)"
    unfolding unique_addresses_iff
    by (intro notI, drule spec [of _ "''n''"])
       (simp add: device_addresses_def demo_device_def update_row_def apply_heartbeat_def Let_def)
qed

end
