(* ===== verification/Nat_Punch.thy ===== *)
theory Nat_Punch
  imports Endpoints Config_V2
begin

text \<open>
  Hole-punching sessions: \<open>backend/app/services/nat.py\<close> and \<open>api/v1/nat.py\<close>. Three facts about
  third-party code are parameters. \<open>mutable_json\<close>: whether the ORM notices that a loaded JSON column
  was changed in place (a plain \<open>JSON\<close> column, which the model declares, is documented not to).
  \<open>has_get\<close>: whether a pydantic model has a dictionary-style \<open>get\<close> (it does not).
  \<open>relay_up\<close>: whether a relay server object is registered in the process; the token it is given is
  part of the result. The effects of a call that raises are not recorded.
\<close>

section \<open>Operations\<close>

definition SESSION_TIMEOUT_MINUTES :: int where "SESSION_TIMEOUT_MINUTES = 5"

definition nat_sessions_gauge :: string where "nat_sessions_gauge = ''NAT_SESSION_ACTIVE''"

definition find_nat_session :: "uuid \<Rightarrow> database \<Rightarrow> nat_session option result" where
  "find_nat_session sid d = scalar_one_or_none (filter (\<lambda>s. nat_id s = sid) (nat_sessions d))"

definition put_nat_session :: "uuid \<Rightarrow> (nat_session \<Rightarrow> nat_session) \<Rightarrow> database \<Rightarrow> database" where
  "put_nat_session sid f d = d\<lparr>nat_sessions := update_row nat_id sid f (nat_sessions d)\<rparr>"

definition nat_event :: "bool \<Rightarrow> string \<Rightarrow> nat_session \<Rightarrow> dict \<Rightarrow> effect list" where
  "nat_event bus ty s extra =
     publish bus ty ([(''session_id'', JStr (nat_id s)),
       (''initiator_device_id'', JStr (nat_initiator_device_id s)),
       (''target_device_id'', JStr (nat_target_device_id s))] @ extra)"

definition create_nat_session :: "bool \<Rightarrow> env \<Rightarrow> uuid \<Rightarrow> uuid \<Rightarrow> dict \<Rightarrow> database \<Rightarrow> nat_session response" where
  "create_nat_session bus e ini tgt extra_metadata d =
     (if \<not> device_exists ini d \<or> \<not> device_exists tgt d then Inl (IntegrityError ''nat_sessions'')
      else
        let s = \<lparr>nat_id = env_uuid e 0, nat_initiator_device_id = ini, nat_target_device_id = tgt,
                 nat_state = ''pending'', nat_selected_candidate = None,
                 nat_connectivity_established = False, nat_extra_metadata = Some extra_metadata,
                 nat_created_at = env_now e 1, nat_updated_at = env_now e 2,
                 nat_expires_at = env_now e 0 + timedelta_minutes SESSION_TIMEOUT_MINUTES\<rparr>
        in Inr (s, d\<lparr>nat_sessions := nat_sessions d @ [s]\<rparr>,
             Gauge_add nat_sessions_gauge 1 # nat_event bus ''nat.punch_requested'' s []))"

definition start_punch :: "bool \<Rightarrow> datetime \<Rightarrow> datetime \<Rightarrow> uuid \<Rightarrow> database \<Rightarrow> nat_session option response" where
  "start_punch bus now1 now2 sid d =
     bind_result (scalar_one_or_none (filter (\<lambda>s. nat_id s = sid \<and> nat_state s = ''pending'' \<and>
         now1 < nat_expires_at s) (nat_sessions d))) (\<lambda>so.
       case so of
         None \<Rightarrow> Inr (None, d, [])
       | Some s \<Rightarrow>
           let f = (\<lambda>s. s\<lparr>nat_state := ''coordinating'', nat_updated_at := now2\<rparr>)
           in Inr (Some (f s), put_nat_session sid f d, nat_event bus ''nat.punch_started'' s []))"

definition get_active_endpoints_by_device :: "uuid \<Rightarrow> database \<Rightarrow> endpoint list" where
  "get_active_endpoints_by_device did d =
     sorted_by (\<lambda>e. - ep_score e) (filter (\<lambda>e. ep_device_id e = did \<and> ep_is_active e) (endpoints d))"

definition side_json :: "endpoint \<Rightarrow> json" where
  "side_json e = JObj [(''endpoint'', JStr (ep_endpoint e)), (''port'', JInt (ep_port e)),
     (''source'', JStr (ep_source e)), (''local_ip'', json_opt_str (ep_local_ip e)),
     (''public_ip'', json_opt_str (ep_public_ip e)), (''priority'', JInt (ep_priority e))]"

definition pair_key :: "endpoint \<Rightarrow> endpoint \<Rightarrow> string" where
  "pair_key ie te =
     ep_endpoint ie @ '':'' @ str_int (ep_port ie) @ ''->'' @ ep_endpoint te @ '':'' @ str_int (ep_port te)"

definition candidate_pair :: "endpoint \<Rightarrow> endpoint \<Rightarrow> json" where
  "candidate_pair ie te = JObj [(''initiator'', side_json ie), (''target'', side_json te),
     (''pair_key'', JStr (pair_key ie te))]"

definition build_candidate_pairs :: "uuid \<Rightarrow> uuid \<Rightarrow> database \<Rightarrow> json list" where
  "build_candidate_pairs ini tgt d =
     concat (map (\<lambda>ie. map (candidate_pair ie) (get_active_endpoints_by_device tgt d))
       (get_active_endpoints_by_device ini d))"

section \<open>Promotion of a direct path\<close>

definition apply_promotion :: "datetime \<Rightarrow> int option \<Rightarrow> endpoint \<Rightarrow> endpoint" where
  "apply_promotion now latency ep =
     (let ep1 = ep\<lparr>ep_success_count := ep_success_count ep + 1, ep_reachable := True\<rparr>;
          ep2 = (case latency of None \<Rightarrow> ep1 | Some l \<Rightarrow> ep1\<lparr>ep_latency_ms := Some l\<rparr>);
          ep3 = ep2\<lparr>ep_score := (if ep_score ep2 = 0
                   then compute_endpoint_score True latency (ep_failure_count ep2) (ep_success_count ep2)
                          (ep_priority ep2)
                   else min (ep_score ep2 + 30) 200)\<rparr>
      in ep3\<lparr>ep_last_probe_at := Some now\<rparr>)"

record promotion =
  pm_score :: int
  pm_preferred :: bool

definition promote_endpoint :: "datetime \<Rightarrow> uuid \<Rightarrow> string \<Rightarrow> int \<Rightarrow> int option \<Rightarrow> database
    \<Rightarrow> promotion response" where
  "promote_endpoint now did addr port latency d =
     bind_result (scalar_one_or_none (filter (\<lambda>e. ep_device_id e = did \<and> ep_endpoint e = addr \<and>
         ep_port e = port \<and> ep_is_active e) (endpoints d))) (\<lambda>eo.
       case eo of
         None \<Rightarrow> Inr (\<lparr>pm_score = 0, pm_preferred = False\<rparr>, d, [])
       | Some ep \<Rightarrow>
           let ep' = apply_promotion now latency ep;
               d1 = d\<lparr>endpoints := update_row ep_id (ep_id ep) (apply_promotion now latency) (endpoints d)\<rparr>;
               ep_list = get_active_endpoints_by_device did d1;
               best = (if ep_list = [] then None else select_best_endpoint ep_list);
               preferred = (map_option ep_id best = Some (ep_id ep));
               d2 = (if preferred
                     then d1\<lparr>endpoints := update_where (\<lambda>e. ep_device_id e = did \<and> ep_is_active e \<and> ep_id e \<noteq> ep_id ep)
                                (\<lambda>e. e\<lparr>ep_is_active := False\<rparr>) (endpoints d1)\<rparr>
                     else d1)
           in Inr (\<lparr>pm_score = ep_score ep', pm_preferred = preferred\<rparr>, d2,
                [Counter_inc ''ENDPOINT_SCORE_UPDATES'' [] 1]))"

text \<open>
  \<open>_publish_config_changed\<close>: for both devices the configuration is built and its revision and hash
  are read with \<open>config.get\<close>; whatever that raises is swallowed. Only the two lookups can raise.
\<close>

definition config_changed_payload :: "uuid \<Rightarrow> device \<Rightarrow> config_v2 \<Rightarrow> string \<Rightarrow> datetime \<Rightarrow> dict" where
  "config_changed_payload did r c reason now =
     [(''network_id'', JStr (dev_network_id r)), (''reason'', JStr reason),
      (''timestamp'', JStr (isoformat now))] @
     (if did = [] then [] else [(''device_id'', JStr did)]) @
     (if cv_revision c = [] then [] else [(''revision'', JStr (cv_revision c))]) @
     (if cv_hash c = [] then [] else [(''hash'', JStr (cv_hash c))])"

record nat_world =
  nw_bus :: bool
  nw_mutable_json :: bool
  nw_has_get :: bool
  nw_relay_up :: bool
  nw_build :: "database \<Rightarrow> device \<Rightarrow> config_v2 result"

definition publish_for :: "nat_world \<Rightarrow> env \<Rightarrow> nat_session \<Rightarrow> database \<Rightarrow> uuid \<Rightarrow> effect list result" where
  "publish_for w e s d did =
     bind_result (scalar_one_or_none (filter (\<lambda>r. dev_id r = did) (devices d))) (\<lambda>ro.
       case ro of
         None \<Rightarrow> Inr []
       | Some r \<Rightarrow>
           (case bind_result (nw_build w d r) (\<lambda>c.
                   if nw_has_get w then Inr c else Inl (AttributeError ''get'')) of
              Inl _ \<Rightarrow> Inr []
            | Inr c \<Rightarrow> Inr [Publish ''config.changed'' (config_changed_payload did r c
                (''nat_punch_successful:'' @ nat_id s) (env_now e 9))]))"

definition publish_config_changed :: "nat_world \<Rightarrow> env \<Rightarrow> nat_session \<Rightarrow> database \<Rightarrow> effect list result" where
  "publish_config_changed w e s d =
     (if \<not> nw_bus w then Inr []
      else bind_result (publish_for w e s d (nat_initiator_device_id s)) (\<lambda>es1.
        bind_result (publish_for w e s d (nat_target_device_id s)) (\<lambda>es2. Inr (es1 @ es2))))"

section \<open>Results of a punch\<close>

definition candidate_dict :: "string option \<Rightarrow> int option \<Rightarrow> int option \<Rightarrow> dict" where
  "candidate_dict addr port latency =
     [(''endpoint'', json_opt_str addr), (''port'', json_opt_int port),
      (''latency_ms'', json_opt_int latency)]"

text \<open>\<open>extra_metadata.get("failure_count", 0) + 1\<close>.\<close>

definition next_failure_count :: "dict \<Rightarrow> int result" where
  "next_failure_count m =
     (case dict_get_default m ''failure_count'' (JInt 0) of
        JInt n \<Rightarrow> Inr (n + 1)
      | JBool b \<Rightarrow> Inr (of_bool b + 1)
      | _ \<Rightarrow> Inl (TypeError ''failure_count''))"

text \<open>
  The failure branch: what the dictionary holds afterwards in memory, and what the commit writes.
\<close>

definition failed_metadata :: "bool \<Rightarrow> dict option \<Rightarrow> string option \<Rightarrow> (int \<times> dict option) result" where
  "failed_metadata mutable_json m err =
     (let m0 = (case m of None \<Rightarrow> [] | Some x \<Rightarrow> x);
          m1 = dict_set m0 ''error'' (json_opt_str err)
      in bind_result (next_failure_count m1) (\<lambda>n.
           let m2 = dict_set m1 ''failure_count'' (JInt n) in
           Inr (n, if mutable_json \<or> m = None then Some m2 else m)))"

record punch_report =
  pu_success :: bool
  pu_selected_endpoint :: "string option"
  pu_selected_port :: "int option"
  pu_latency_ms :: "int option"
  pu_error :: "string option"

text \<open>The relay token the process-wide relay server learns, if any, is the second component.\<close>

type_synonym 'a nat_response = "('a \<times> (string \<times> string) option \<times> database \<times> effect list) result"

definition punch_succeeded :: "nat_world \<Rightarrow> env \<Rightarrow> punch_report \<Rightarrow> nat_session \<Rightarrow> database
    \<Rightarrow> (database \<times> effect list) result" where
  "punch_succeeded w e r s d =
     (let f = (\<lambda>s. s\<lparr>nat_state := ''connected'', nat_connectivity_established := True,
                     nat_selected_candidate := Some (candidate_dict (pu_selected_endpoint r)
                        (pu_selected_port r) (pu_latency_ms r))\<rparr>);
          d1 = put_nat_session (nat_id s) f d;
          es = Counter_inc ''NAT_PUNCH_TOTAL'' ''success'' 1 #
               nat_event (nw_bus w) ''nat.punch_succeeded'' s
                 [(''selected_endpoint'', json_opt_str (pu_selected_endpoint r)),
                  (''selected_port'', json_opt_int (pu_selected_port r)),
                  (''latency_ms'', json_opt_int (pu_latency_ms r))]
      in if truthy_str (pu_selected_endpoint r) \<and> truthy_int (pu_selected_port r)
         then bind_result (promote_endpoint (env_now e 3) (nat_target_device_id s)
                 (the (pu_selected_endpoint r)) (the (pu_selected_port r)) (pu_latency_ms r) d1) (\<lambda>(_, d2, es2).
                bind_result (publish_config_changed w e s d2) (\<lambda>es3. Inr (d2, es @ es2 @ es3)))
         else Inr (d1, es))"

definition punch_failed :: "nat_world \<Rightarrow> env \<Rightarrow> string \<Rightarrow> punch_report \<Rightarrow> nat_session \<Rightarrow> database
    \<Rightarrow> ((string \<times> string) option \<times> database \<times> effect list) result" where
  "punch_failed w e token r s d =
     bind_result (failed_metadata (nw_mutable_json w) (nat_extra_metadata s) (pu_error r)) (\<lambda>(count, m).
       let d1 = put_nat_session (nat_id s) (\<lambda>s. s\<lparr>nat_state := ''failed'', nat_extra_metadata := m\<rparr>) d;
           es = Counter_inc ''NAT_PUNCH_TOTAL'' ''failed'' 1 #
                nat_event (nw_bus w) ''nat.punch_failed'' s [(''error'', json_opt_str (pu_error r))]
       in if 2 \<le> count
          then bind_result (auto_create_relay_fallback (nw_bus w) (env_uuid e 1) token (env_now e 4)
                   (nat_initiator_device_id s) (nat_target_device_id s) d1) (\<lambda>(rs, d2, es2).
                 Inr (if nw_bus w \<and> nw_relay_up w then Some (rel_relay_token rs, rel_id rs) else None, d2,
                      es @ es2 @ publish (nw_bus w) ''relay.fallback''
                        [(''nat_session_id'', JStr (nat_id s)), (''relay_session_id'', JStr (rel_id rs)),
                         (''initiator_device_id'', JStr (nat_initiator_device_id s)),
                         (''target_device_id'', JStr (nat_target_device_id s))]))
          else Inr (None, d1, es))"

definition touch_nat_session :: "datetime \<Rightarrow> uuid \<Rightarrow> database \<Rightarrow> database" where
  "touch_nat_session now sid d = put_nat_session sid (\<lambda>s. s\<lparr>nat_updated_at := now\<rparr>) d"

definition record_punch_result :: "nat_world \<Rightarrow> env \<Rightarrow> string \<Rightarrow> uuid \<Rightarrow> punch_report \<Rightarrow> database
    \<Rightarrow> nat_session option nat_response" where
  "record_punch_result w e token sid r d =
     bind_result (find_nat_session sid d) (\<lambda>so.
       case so of
         None \<Rightarrow> Inr (None, None, d, [])
       | Some s \<Rightarrow>
           bind_result (if pu_success r
               then bind_result (punch_succeeded w e r s d) (\<lambda>(d1, es). Inr (None, d1, es))
               else punch_failed w e token r s d) (\<lambda>(tok, d1, es).
             let d2 = touch_nat_session (env_now e 5) sid d1 in
             bind_result (scalar_one (filter (\<lambda>s. nat_id s = sid) (nat_sessions d2))) (\<lambda>s'.
               Inr (Some s', tok, d2, es))))"

record connectivity_reply =
  cr_status :: string
  cr_session_id :: string
  cr_direct_path_promoted :: bool
  cr_score :: int
  cr_preferred :: bool

definition validate_connectivity :: "nat_world \<Rightarrow> env \<Rightarrow> uuid \<Rightarrow> string \<Rightarrow> int \<Rightarrow> bool \<Rightarrow> int option
    \<Rightarrow> database \<Rightarrow> connectivity_reply response" where
  "validate_connectivity w e sid addr port reachable latency d =
     bind_result (find_nat_session sid d) (\<lambda>so.
       case so of
         None \<Rightarrow> Inr (\<lparr>cr_status = ''session_not_found'', cr_session_id = sid, cr_direct_path_promoted = False,
                       cr_score = 0, cr_preferred = False\<rparr>, d,
                     [Counter_inc ''NAT_CONNECTIVITY_TOTAL'' ''failed'' 1])
       | Some s \<Rightarrow>
           bind_result (if reachable
               then bind_result (promote_endpoint (env_now e 3) (nat_target_device_id s) addr port latency
                      (put_nat_session sid (\<lambda>s. s\<lparr>nat_connectivity_established := True,
                         nat_selected_candidate := Some (candidate_dict (Some addr) (Some port) latency),
                         nat_state := ''connected''\<rparr>) d)) (\<lambda>(pm, d1, es1).
                    bind_result (publish_config_changed w e s d1) (\<lambda>es2.
                      Inr (pm, d1, es1 @ es2 @ [Counter_inc ''NAT_CONNECTIVITY_TOTAL'' ''success'' 1])))
               else Inr (\<lparr>pm_score = 0, pm_preferred = False\<rparr>, d,
                      [Counter_inc ''NAT_CONNECTIVITY_TOTAL'' ''failed'' 1])) (\<lambda>(pm, d1, es).
             Inr (\<lparr>cr_status = (if reachable then ''connected'' else ''failed''), cr_session_id = sid,
                   cr_direct_path_promoted = reachable, cr_score = pm_score pm, cr_preferred = pm_preferred pm\<rparr>,
                  touch_nat_session (env_now e 5) sid d1,
                  es @ nat_event (nw_bus w) ''nat.connectivity_validated'' s
                    [(''reachable'', JBool reachable), (''target_endpoint'', JStr addr),
                     (''target_port'', JInt port), (''latency_ms'', json_opt_int latency),
                     (''direct_path_promoted'', JBool reachable)])))"

definition nat_is_stale :: "datetime \<Rightarrow> nat_session \<Rightarrow> bool" where
  "nat_is_stale now s \<longleftrightarrow>
     nat_state s \<in> {''pending'', ''coordinating'', ''punching''} \<and> nat_expires_at s \<le> now"

definition expire_stale_sessions :: "datetime \<Rightarrow> database \<Rightarrow> nat \<times> database \<times> effect list" where
  "expire_stale_sessions now d =
     (let stale = filter (nat_is_stale now) (nat_sessions d) in
      (length stale,
       d\<lparr>nat_sessions := update_where (nat_is_stale now)
            (\<lambda>s. s\<lparr>nat_state := ''expired'', nat_updated_at := now\<rparr>) (nat_sessions d)\<rparr>,
       if stale = [] then [] else [Gauge_add nat_sessions_gauge (- int (length stale))]))"

definition get_session_by_id :: "uuid \<Rightarrow> database \<Rightarrow> nat_session option result" where
  "get_session_by_id = find_nat_session"

section \<open>Handlers\<close>

record punch_reply =
  py_session_id :: string
  py_state :: string
  py_candidates :: "json list"
  py_target_device_id :: string

text \<open>The clock readings from 6 on are those of \<open>start_punch\<close>.\<close>

definition request_punch :: "bool \<Rightarrow> env \<Rightarrow> string \<Rightarrow> string \<Rightarrow> int \<Rightarrow> device \<Rightarrow> database
    \<Rightarrow> punch_reply response" where
  "request_punch bus e target initiator_endpoint initiator_port cur d =
     bind_result (parse_uuid target) (\<lambda>tgt.
       if dev_id cur = tgt then Inl (HTTPException 400 ''cannot punch to self'')
       else bind_result (create_nat_session bus e (dev_id cur) tgt
              [(''initiator_endpoint'', JStr initiator_endpoint), (''initiator_port'', JInt initiator_port)] d)
            (\<lambda>(s, d1, es1).
              bind_result (start_punch bus (env_now e 6) (env_now e 7) (nat_id s) d1) (\<lambda>(so, d2, es2).
                case so of
                  None \<Rightarrow> Inl (HTTPException 409 ''session expired or already active'')
                | Some s' \<Rightarrow>
                    Inr (\<lparr>py_session_id = nat_id s, py_state = nat_state s',
                          py_candidates = build_candidate_pairs (dev_id cur) tgt d2,
                          py_target_device_id = tgt\<rparr>, d2, es1 @ es2))))"

definition report_punch_result :: "nat_world \<Rightarrow> env \<Rightarrow> string \<Rightarrow> string \<Rightarrow> punch_report \<Rightarrow> device \<Rightarrow> database
    \<Rightarrow> (string \<times> string \<times> bool) nat_response" where
  "report_punch_result w e token session_id r cur d =
     bind_result (parse_uuid session_id) (\<lambda>sid.
       bind_result (record_punch_result w e token sid r d) (\<lambda>(so, tok, d', es).
         case so of
           None \<Rightarrow> Inl (HTTPException 404 ''NAT session not found'')
         | Some s \<Rightarrow> Inr ((session_id, nat_state s, nat_connectivity_established s), tok, d', es)))"

definition report_connectivity_validation :: "nat_world \<Rightarrow> env \<Rightarrow> string \<Rightarrow> string \<Rightarrow> int \<Rightarrow> bool \<Rightarrow> int option
    \<Rightarrow> device \<Rightarrow> database \<Rightarrow> connectivity_reply response" where
  "report_connectivity_validation w e session_id addr port reachable latency cur d =
     bind_result (parse_uuid session_id) (\<lambda>sid.
       validate_connectivity w e sid addr port reachable latency d)"

definition get_nat_session :: "string \<Rightarrow> device \<Rightarrow> database \<Rightarrow> nat_session result" where
  "get_nat_session session_id cur d =
     bind_result (parse_uuid session_id) (\<lambda>sid.
       bind_result (get_session_by_id sid d) (\<lambda>so.
         case so of
           None \<Rightarrow> Inl (HTTPException 404 ''NAT session not found'')
         | Some s \<Rightarrow>
             (if dev_id cur \<noteq> nat_initiator_device_id s \<and> dev_id cur \<noteq> nat_target_device_id s
              then Inl (HTTPException 403 ''not a participant in this session'')
              else Inr s)))"

section \<open>Lemmas\<close>

lemma apply_promotion_key [simp]:
  "ep_id (apply_promotion now l ep) = ep_id ep" "ep_device_id (apply_promotion now l ep) = ep_device_id ep"
  "ep_endpoint (apply_promotion now l ep) = ep_endpoint ep" "ep_port (apply_promotion now l ep) = ep_port ep"
  "ep_is_active (apply_promotion now l ep) = ep_is_active ep"
  "ep_reachable (apply_promotion now l ep) = True"
  "ep_success_count (apply_promotion now l ep) = ep_success_count ep + 1"
  by (simp_all add: apply_promotion_def Let_def split: option.splits)

lemma apply_promotion_score: "ep_score (apply_promotion now l ep) \<le> SCORE_MAX"
  using score_bounds by (simp add: apply_promotion_def Let_def SCORE_MAX_def split: option.splits)

lemma set_build_candidate_pairs:
  "set (build_candidate_pairs ini tgt d) = {candidate_pair x y | x y. x \<in> set (endpoints d) \<and>
     y \<in> set (endpoints d) \<and> ep_is_active x \<and> ep_is_active y \<and> ep_device_id x = ini \<and> ep_device_id y = tgt}"
  by (auto simp: build_candidate_pairs_def get_active_endpoints_by_device_def)

lemma build_candidate_pairs_cong [simp]:
  "build_candidate_pairs ini tgt (d\<lparr>nat_sessions := ss\<rparr>) = build_candidate_pairs ini tgt d"
  by (simp add: build_candidate_pairs_def get_active_endpoints_by_device_def)

text \<open>The four outcomes of a promotion share this description of the rows written.\<close>

lemma promote_endpoint_InrD:
  assumes "promote_endpoint now did addr port lat d = Inr (pm, d', es)"
  obtains (unknown) "filter (\<lambda>e. ep_device_id e = did \<and> ep_endpoint e = addr \<and> ep_port e = port \<and> ep_is_active e)
       (endpoints d) = []" "pm = \<lparr>pm_score = 0, pm_preferred = False\<rparr>" "d' = d"
  | (known) ep d1 where "ep \<in> set (endpoints d)" "ep_device_id ep = did" "ep_endpoint ep = addr"
      "ep_port ep = port" "ep_is_active ep"
      "d1 = d\<lparr>endpoints := update_row ep_id (ep_id ep) (apply_promotion now lat) (endpoints d)\<rparr>"
      "pm_score pm = ep_score (apply_promotion now lat ep)"
      "d' = (if pm_preferred pm
         then d1\<lparr>endpoints := update_where (\<lambda>e. ep_device_id e = did \<and> ep_is_active e \<and> ep_id e \<noteq> ep_id ep)
                   (\<lambda>e. e\<lparr>ep_is_active := False\<rparr>) (endpoints d1)\<rparr>
         else d1)"
proof -
  from assms obtain eo where eo: "scalar_one_or_none (filter (\<lambda>e. ep_device_id e = did \<and> ep_endpoint e = addr \<and>
      ep_port e = port \<and> ep_is_active e) (endpoints d)) = Inr eo"
    by (auto simp: promote_endpoint_def bind_result_eq_Inr)
  show thesis
  proof (cases eo)
    case None
    with eo assms show thesis
      by (intro unknown) (auto simp: promote_endpoint_def dest: scalar_one_or_none_NoneD)
  next
    case (Some ep)
    with eo scalar_one_or_none_mem [of _ _ ep] assms show thesis
      by (intro known [of ep]) (auto simp: promote_endpoint_def Let_def)
  qed
qed

section \<open>Properties\<close>

text \<open>
  Promotion of a direct path. Endpoints of other devices are never written. When the promoted
  endpoint comes out preferred, it is afterwards the device's only active endpoint, it is marked
  reachable, its score is at most 200 and it is the one the reply reports; when it does not, the set
  of active endpoints of the device is unchanged.
\<close>

theorem promote_endpoint_exclusive:
  assumes "promote_endpoint now did addr port lat d = Inr (pm, d', es)"
    and "endpoints_ok (endpoints d)"
  shows "filter (\<lambda>e. ep_device_id e \<noteq> did) (endpoints d') = filter (\<lambda>e. ep_device_id e \<noteq> did) (endpoints d) \<and>
     nat_sessions d' = nat_sessions d \<and> pm_score pm \<le> SCORE_MAX \<and>
     (if pm_preferred pm
      then \<exists>ep. filter (\<lambda>e. ep_device_id e = did \<and> ep_is_active e) (endpoints d') = [ep] \<and>
             ep_endpoint ep = addr \<and> ep_port ep = port \<and> ep_reachable ep \<and> ep_score ep = pm_score pm
      else map ep_id (filter (\<lambda>e. ep_device_id e = did \<and> ep_is_active e) (endpoints d')) =
           map ep_id (filter (\<lambda>e. ep_device_id e = did \<and> ep_is_active e) (endpoints d)))"
  using assms(1)
proof (cases rule: promote_endpoint_InrD)
  case unknown
  then show ?thesis by (simp add: SCORE_MAX_def)
next
  case (known ep d1)
  let ?own = "\<lambda>e. ep_device_id e = did \<and> ep_is_active e"
  let ?ep = "apply_promotion now lat ep"
  have same_id: "x = ep" if "x \<in> set (endpoints d)" "ep_id x = ep_id ep" for x
    using ep.key_unique [OF assms(2) known(1) that] .
  have others: "filter (\<lambda>e. ep_device_id e \<noteq> did) (endpoints d1) = filter (\<lambda>e. ep_device_id e \<noteq> did) (endpoints d)"
    unfolding known(6) using known(2) same_id by (simp, intro filter_update_row_other) auto
  have ids: "map ep_id (filter ?own (endpoints d1)) = map ep_id (filter ?own (endpoints d))"
    unfolding known(6) update_row_def by (simp add: filter_map comp_def if_distrib cong: if_cong)
  show ?thesis
  proof (cases "pm_preferred pm")
    case False
    then show ?thesis using known others ids by (simp add: apply_promotion_score)
  next
    case True
    let ?w = "update_where (\<lambda>e. ?own e \<and> ep_id e \<noteq> ep_id ep) (\<lambda>e. e\<lparr>ep_is_active := False\<rparr>) (endpoints d1)"
    have d': "endpoints d' = ?w" using True known(8) by (simp add: conj_assoc)
    have "filter (\<lambda>e. ep_device_id e \<noteq> did) ?w = filter (\<lambda>e. ep_device_id e \<noteq> did) (endpoints d1)"
      by (rule filter_update_where_other) simp
    moreover have "filter ?own ?w = [?ep]"
    proof (rule filter_keyed_single [where key = ep_id])
      show "distinct (map ep_id ?w)"
        using assms(2) known(6) unfolding ep.ok_distinct [symmetric]
        by (simp add: ep.ok_update_where ep.ok_update_row)
      show "?ep \<in> set ?w" using known(1) known(6) by (force simp: set_update_where set_update_row)
      show "?own ?ep" using known by simp
      fix x assume x: "x \<in> set ?w" and own: "?own x"
      from x obtain y where "x = (if ?own y \<and> ep_id y \<noteq> ep_id ep then y\<lparr>ep_is_active := False\<rparr> else y)"
        unfolding set_update_where by (rule imageE)
      with own show "ep_id x = ep_id ?ep" by (simp split: if_splits)
    qed
    ultimately show ?thesis using True known others d' by (simp add: apply_promotion_score)
  qed
qed


theorem promote_endpoint_exclusive_witness:
  "\<exists>pm d' es. promote_endpoint 7 ''b'' ''2.2.2.2'' 51820 (Some 20) demo_mesh = Inr (pm, d', es) \<and>
     pm_preferred pm \<and>
     (\<exists>ep. filter (\<lambda>e. ep_device_id e = ''b'' \<and> ep_is_active e) (endpoints d') = [ep] \<and>
        ep_endpoint ep = ''2.2.2.2'' \<and> ep_reachable ep)"
proof -
  obtain pm d' es where run: "promote_endpoint 7 ''b'' ''2.2.2.2'' 51820 (Some 20) demo_mesh = Inr (pm, d', es)"
    and pref: "pm_preferred pm"
    by (simp add: promote_endpoint_def demo_mesh_defs Let_def update_row_def apply_promotion_def
        get_active_endpoints_by_device_def select_best_endpoint_def sorted_by_def sorted_by_desc_def
        endpoint_key_def)
  have "endpoints_ok (endpoints demo_mesh)" by (simp add: endpoints_ok_def demo_mesh_defs)
  from promote_endpoint_exclusive [OF run this] pref run show ?thesis by auto
qed

text \<open>
  A punch request that succeeds adds exactly one session and changes nothing else: it is
  between the requesting device and a different, existing one, in state \<open>coordinating\<close>, expires five
  minutes after the request, and the candidates returned are exactly the pairs of an active endpoint
  of the initiator with an active endpoint of the target.
\<close>

theorem request_punch_session:
  assumes "request_punch bus e target addr port cur d = Inr (reply, d', es)"
    and "env_uuid e 0 \<notin> nat_id ` set (nat_sessions d)"
  shows "\<exists>s. d' = d\<lparr>nat_sessions := nat_sessions d @ [s]\<rparr> \<and> parse_uuid target = Inr (nat_target_device_id s) \<and>
     nat_initiator_device_id s = dev_id cur \<and> nat_target_device_id s \<noteq> dev_id cur \<and>
     device_exists (nat_target_device_id s) d \<and> nat_state s = ''coordinating'' \<and>
     nat_expires_at s = env_now e 0 + timedelta_minutes 5 \<and> env_now e 6 < nat_expires_at s \<and>
     py_session_id reply = nat_id s \<and> py_state reply = ''coordinating'' \<and>
     set (py_candidates reply) = {candidate_pair x y | x y. x \<in> set (endpoints d) \<and> y \<in> set (endpoints d) \<and>
        ep_is_active x \<and> ep_is_active y \<and> ep_device_id x = dev_id cur \<and>
        ep_device_id y = nat_target_device_id s}"
proof -
  have fresh: "filter (\<lambda>s. nat_id s = env_uuid e 0 \<and> nat_state s = ''pending'' \<and> t < nat_expires_at s)
      (nat_sessions d) = []" for t
    using assms(2) by (auto simp: filter_empty_conv image_iff)
  have same: "update_row nat_id (env_uuid e 0) f (nat_sessions d) = nat_sessions d" for f
    using assms(2) unfolding update_row_def by (intro map_idI) (auto simp: image_iff)
  from assms(1) show ?thesis
    by (auto simp: request_punch_def bind_result_eq_Inr create_nat_session_def start_punch_def Let_def fresh
        put_nat_session_def update_row_append same SESSION_TIMEOUT_MINUTES_def set_build_candidate_pairs [symmetric]
        split: if_splits intro!: exI [of _ "last (nat_sessions d')"])
qed

theorem request_punch_session_witness:
  "\<exists>reply d' es s. request_punch True demo_env ''00000000-0000-0000-0000-000000000002'' ''9.9.9.9'' 4000
      (demo_device ''a'' ''n'' None) (demo_mesh\<lparr>devices := [demo_device ''a'' ''n'' None,
         demo_device ''00000000-0000-0000-0000-000000000002'' ''n'' None]\<rparr>) = Inr (reply, d', es) \<and>
     nat_sessions d' = [s] \<and> nat_state s = ''coordinating'' \<and> nat_expires_at s = 300000000"
proof -
  let ?d = "demo_mesh\<lparr>devices := [demo_device ''a'' ''n'' None,
         demo_device ''00000000-0000-0000-0000-000000000002'' ''n'' None]\<rparr>"
  let ?t = "''00000000-0000-0000-0000-000000000002''"
  have uuid: "parse_uuid ?t = Inr ?t" by code_simp
  obtain reply d' es where run: "request_punch True demo_env ?t ''9.9.9.9'' 4000 (demo_device ''a'' ''n'' None) ?d
      = Inr (reply, d', es)"
    by (simp add: request_punch_def uuid create_nat_session_def demo_mesh_defs start_punch_def Let_def
        demo_env_def SESSION_TIMEOUT_MINUTES_def timedelta_defs device_exists_def)
  have "env_uuid demo_env 0 \<notin> nat_id ` set (nat_sessions ?d)" by (simp add: demo_mesh_defs)
  from request_punch_session [OF run this] obtain s where "d' = ?d\<lparr>nat_sessions := nat_sessions ?d @ [s]\<rparr>"
    "nat_state s = ''coordinating''" "nat_expires_at s = env_now demo_env 0 + timedelta_minutes 5"
    by (elim exE conjE) (rule that)
  then show ?thesis
    by (intro exI [of _ reply] exI [of _ d'] exI [of _ es] exI [of _ s])
       (rule conjI [OF run], simp add: demo_mesh_defs demo_env_def timedelta_defs)
qed

text \<open>A run of punch reports for one session, each in its own request.\<close>

fun punch_reports :: "nat_world \<Rightarrow> env \<Rightarrow> string \<Rightarrow> uuid \<Rightarrow> punch_report list \<Rightarrow> database
    \<Rightarrow> (database \<times> effect list) result" where
  "punch_reports w e token sid [] d = Inr (d, [])"
| "punch_reports w e token sid (r # rs) d =
     bind_result (record_punch_result w e token sid r d) (\<lambda>(_, _, d1, es1).
       bind_result (punch_reports w e token sid rs d1) (\<lambda>(d2, es2). Inr (d2, es1 @ es2)))"

lemma dict_get_default_eq: "dict_get_default d k v = (case dict_get d k of None \<Rightarrow> v | Some x \<Rightarrow> x)"
  by (simp add: dict_get_default_def dict_get_def)

lemma failed_metadata_kept:
  assumes "dict_get m ''failure_count'' = Some (JInt n)"
  shows "\<exists>m'. failed_metadata True (Some m) err = Inr (n + 1, Some m') \<and>
     dict_get m' ''failure_count'' = Some (JInt (n + 1)) \<and> dict_get m' ''error'' = Some (json_opt_str err)"
  using assms by (simp add: failed_metadata_def next_failure_count_def dict_get_default_eq)

lemma failed_metadata_lost:
  "dict_get m ''failure_count'' = None \<Longrightarrow> failed_metadata False (Some m) err = Inr (1, Some m)"
  by (simp add: failed_metadata_def next_failure_count_def dict_get_default_eq)

text \<open>
  The relay fallback after two failed punches is out of reach for a session whose metadata the
  ORM does not track: the failure counter is incremented in a dictionary that is not written back,
  so however many failures are reported, no relay session is ever created. A session created by the
  punch request is such a session.
\<close>

theorem relay_fallback_unreachable:
  assumes "\<not> nw_mutable_json w" and "nat_sessions_ok (nat_sessions d)"
    and "s \<in> set (nat_sessions d)" and "nat_extra_metadata s = Some m"
    and "dict_get m ''failure_count'' = None" and "list_all (\<lambda>r. \<not> pu_success r) rs"
  shows "\<exists>d' es. punch_reports w e token (nat_id s) rs d = Inr (d', es) \<and> relay_sessions d' = relay_sessions d"
  using assms(2,3,4,6)
proof (induction rs arbitrary: d s)
  case (Cons r rs)
  let ?f = "\<lambda>s. s\<lparr>nat_state := ''failed'', nat_extra_metadata := Some m\<rparr>"
  let ?g = "\<lambda>s. s\<lparr>nat_updated_at := env_now e 5\<rparr>"
  let ?d1 = "touch_nat_session (env_now e 5) (nat_id s) (put_nat_session (nat_id s) ?f d)"
  have ok1: "nat_sessions_ok (nat_sessions ?d1)"
    using Cons.prems(1) by (simp add: touch_nat_session_def put_nat_session_def nat_tab.ok_update_row)
  have mem1: "?g (?f s) \<in> set (nat_sessions ?d1)"
    using Cons.prems(2) by (force simp: touch_nat_session_def put_nat_session_def set_update_row)
  have one: "filter (\<lambda>x. nat_id x = nat_id s) (nat_sessions ?d1) = [?g (?f s)]"
    using nat_tab.lookup_mem [OF ok1 mem1] by simp
  have "\<exists>es. record_punch_result w e token (nat_id s) r d = Inr (Some (?g (?f s)), None, ?d1, es)"
    using Cons.prems(4) nat_tab.lookup_mem [OF Cons.prems(1,2)] one
    by (simp add: record_punch_result_def find_nat_session_def punch_failed_def assms(1) Cons.prems(3)
        failed_metadata_lost [OF assms(5)] Let_def)
  then obtain es1 where step: "record_punch_result w e token (nat_id s) r d = Inr (Some (?g (?f s)), None, ?d1, es1)"
    by (rule exE)
  obtain d' es where "punch_reports w e token (nat_id s) rs ?d1 = Inr (d', es)" "relay_sessions d' = relay_sessions ?d1"
    using Cons.IH [OF ok1 mem1] Cons.prems(4) by auto
  then show ?case by (simp add: step touch_nat_session_def put_nat_session_def)
qed simp

definition demo_nat_session :: nat_session where
  "demo_nat_session = \<lparr>nat_id = ''s'', nat_initiator_device_id = ''a'', nat_target_device_id = ''b'',
     nat_state = ''coordinating'', nat_selected_candidate = None, nat_connectivity_established = False,
     nat_extra_metadata = Some [(''initiator_port'', JInt 4000)], nat_created_at = 0, nat_updated_at = 0,
     nat_expires_at = 300\<rparr>"

definition demo_world :: "bool \<Rightarrow> nat_world" where
  "demo_world mj = \<lparr>nw_bus = True, nw_mutable_json = mj, nw_has_get = False, nw_relay_up = True,
     nw_build = (\<lambda>_ _. Inl NoResultFound)\<rparr>"

definition demo_failure :: punch_report where
  "demo_failure = \<lparr>pu_success = False, pu_selected_endpoint = None, pu_selected_port = None,
     pu_latency_ms = None, pu_error = Some ''timeout''\<rparr>"

theorem relay_fallback_unreachable_witness:
  "\<exists>d' es. punch_reports (demo_world False) demo_env ''t'' ''s'' (replicate 5 demo_failure)
      (demo_mesh\<lparr>nat_sessions := [demo_nat_session]\<rparr>) = Inr (d', es) \<and> relay_sessions d' = []"
  using relay_fallback_unreachable [of "demo_world False" "demo_mesh\<lparr>nat_sessions := [demo_nat_session]\<rparr>"
      demo_nat_session "[(''initiator_port'', JInt 4000)]" "replicate 5 demo_failure" demo_env "''t''"]
  by (simp add: demo_world_def nat_sessions_ok_def demo_nat_session_def dict_get_def demo_failure_def
      list_all_iff demo_mesh_def empty_database_def)

text \<open>
  Where the counter is persisted, the fallback works: a session whose recorded count is at
  least one gets, on its next failed punch, exactly one new pending relay session between the same two
  devices, the token is registered with the relay server if there is one, and the count goes up.
\<close>

theorem relay_fallback_on_second_failure:
  assumes "nw_mutable_json w" and "nat_sessions_ok (nat_sessions d)" and "s \<in> set (nat_sessions d)"
    and "nat_extra_metadata s = Some m" and "dict_get m ''failure_count'' = Some (JInt n)" and "1 \<le> n"
    and "device_exists (nat_initiator_device_id s) d" and "device_exists (nat_target_device_id s) d"
    and "\<not> pu_success r"
  shows "\<exists>s' tok d' es rs. record_punch_result w e token (nat_id s) r d = Inr (Some s', tok, d', es) \<and>
     relay_sessions d' = relay_sessions d @ [rs] \<and> rel_state rs = ''pending'' \<and>
     rel_initiator_device_id rs = nat_initiator_device_id s \<and> rel_target_device_id rs = nat_target_device_id s \<and>
     tok = (if nw_bus w \<and> nw_relay_up w then Some (token, rel_id rs) else None) \<and>
     nat_state s' = ''failed'' \<and> (\<exists>m'. nat_extra_metadata s' = Some m' \<and>
        dict_get m' ''failure_count'' = Some (JInt (n + 1)))"
proof -
  obtain m' where m': "failed_metadata True (Some m) (pu_error r) = Inr (n + 1, Some m')"
    "dict_get m' ''failure_count'' = Some (JInt (n + 1))"
    using failed_metadata_kept [OF assms(5), of "pu_error r"] by (elim exE conjE) (rule that)
  let ?f = "\<lambda>s. s\<lparr>nat_state := ''failed'', nat_extra_metadata := Some m'\<rparr>"
  let ?g = "\<lambda>s. s\<lparr>nat_updated_at := env_now e 5\<rparr>"
  have "filter (\<lambda>x. nat_id x = nat_id s) (update_row nat_id (nat_id s) ?g
      (update_row nat_id (nat_id s) ?f (nat_sessions d))) = [?g (?f s)]"
    using nat_tab.lookup_mem [OF assms(2,3)] by (simp add: nat_tab.lookup_update_row)
  then show ?thesis
    using assms nat_tab.lookup_mem [OF assms(2,3)]
    by (simp add: record_punch_result_def find_nat_session_def punch_failed_def m' Let_def device_exists_def
        auto_create_relay_fallback_def create_relay_session_def put_nat_session_def touch_nat_session_def
        new_relay_session_def)
qed

theorem relay_fallback_on_second_failure_witness:
  "\<exists>s' tok d' es rs. record_punch_result (demo_world True) demo_env ''t'' ''s'' demo_failure
      (demo_mesh\<lparr>nat_sessions := [demo_nat_session\<lparr>nat_extra_metadata := Some [(''failure_count'', JInt 1)]\<rparr>]\<rparr>) =
        Inr (Some s', tok, d', es) \<and> relay_sessions d' = [rs] \<and> rel_state rs = ''pending''"
proof -
  let ?s = "demo_nat_session\<lparr>nat_extra_metadata := Some [(''failure_count'', JInt 1)]\<rparr>"
  have dev: "device_exists (nat_initiator_device_id ?s) (demo_mesh\<lparr>nat_sessions := [?s]\<rparr>)"
    "device_exists (nat_target_device_id ?s) (demo_mesh\<lparr>nat_sessions := [?s]\<rparr>)"
    by (simp_all add: device_exists_def demo_mesh_defs demo_nat_session_def)
  have "dict_get [(''failure_count'', JInt 1)] ''failure_count'' = Some (JInt 1)" by (simp add: dict_get_def)
  from relay_fallback_on_second_failure [OF _ _ _ _ this _ dev, of "demo_world True" demo_failure demo_env "''t''"]
  have "\<exists>s' tok d' es rs. record_punch_result (demo_world True) demo_env ''t'' (nat_id ?s) demo_failure
      (demo_mesh\<lparr>nat_sessions := [?s]\<rparr>) = Inr (Some s', tok, d', es) \<and>
      relay_sessions d' = relay_sessions (demo_mesh\<lparr>nat_sessions := [?s]\<rparr>) @ [rs] \<and> rel_state rs = ''pending''"
    by (simp add: demo_world_def nat_sessions_ok_def demo_failure_def) blast
  then show ?thesis by (simp add: demo_nat_session_def demo_mesh_def empty_database_def)
qed

lemma promote_endpoint_frame:
  assumes "promote_endpoint now did addr port lat d = Inr (pm, d', es)"
  shows "nat_sessions d' = nat_sessions d \<and> relay_sessions d' = relay_sessions d \<and>
     set es \<subseteq> {Counter_inc ''ENDPOINT_SCORE_UPDATES'' [] 1}"
  using assms by (auto simp: promote_endpoint_def bind_result_eq_Inr Let_def split: option.splits)

lemma publish_for_silent: "\<not> nw_has_get w \<Longrightarrow> publish_for w e s d did = Inr es \<Longrightarrow> es = []"
proof -
  assume a: "\<not> nw_has_get w" "publish_for w e s d did = Inr es"
  have "\<exists>x. bind_result (nw_build w d r) (\<lambda>c. Inl (AttributeError ''get'') :: config_v2 result) = Inl x" for r
    by (cases "nw_build w d r") auto
  then show "es = []"
    using a by (auto simp: publish_for_def bind_result_eq_Inr split: option.splits sum.splits)
qed

lemma publish_config_changed_silent:
  "\<not> nw_has_get w \<Longrightarrow> publish_config_changed w e s d = Inr es \<Longrightarrow> es = []"
  by (auto simp: publish_config_changed_def bind_result_eq_Inr dest: publish_for_silent split: if_splits)

lemma punch_succeeded_frame:
  assumes "punch_succeeded w e r s d = Inr (d', es)" and "\<not> nw_has_get w"
  shows "nat_sessions d' = update_row nat_id (nat_id s) (\<lambda>s. s\<lparr>nat_state := ''connected'',
       nat_connectivity_established := True, nat_selected_candidate := Some (candidate_dict
         (pu_selected_endpoint r) (pu_selected_port r) (pu_latency_ms r))\<rparr>) (nat_sessions d) \<and>
     relay_sessions d' = relay_sessions d \<and>
     list_all (\<lambda>x. case x of Publish ty _ \<Rightarrow> ty = ''nat.punch_succeeded'' | Counter_inc _ _ _ \<Rightarrow> True | _ \<Rightarrow> False) es"
  using assms promote_endpoint_frame publish_config_changed_silent [OF assms(2)]
  by (fastforce simp: punch_succeeded_def Let_def bind_result_eq_Inr put_nat_session_def nat_event_def publish_def
      list_all_iff split: if_splits)

text \<open>
  A reported success. The session it names becomes \<open>connected\<close> whatever its state and expiry
  were (also \<open>expired\<close> or \<open>failed\<close>), no relay session is touched, the gauge of active sessions is
  not changed, and since the configuration object has no \<open>get\<close>, the only event published is the
  punch result: \<open>config.changed\<close> is never sent.
\<close>

theorem punch_success_outcome:
  assumes "record_punch_result w e token sid r d = Inr (Some s', tok, d', es)" and "pu_success r"
    and "\<not> nw_has_get w"
  shows "nat_id s' = sid \<and> nat_state s' = ''connected'' \<and> nat_connectivity_established s' \<and>
     relay_sessions d' = relay_sessions d \<and> tok = None \<and>
     list_all (\<lambda>x. case x of Publish ty _ \<Rightarrow> ty = ''nat.punch_succeeded'' | Counter_inc _ _ _ \<Rightarrow> True | _ \<Rightarrow> False) es"
proof -
  from assms(1,2) obtain s d1 where s: "find_nat_session sid d = Inr (Some s)"
    and d1: "punch_succeeded w e r s d = Inr (d1, es)" and d': "d' = touch_nat_session (env_now e 5) sid d1"
    and s': "scalar_one (filter (\<lambda>s. nat_id s = sid) (nat_sessions d')) = Inr s'" and tok: "tok = None"
    by (auto simp: record_punch_result_def bind_result_eq_Inr Let_def split: option.splits)
  have sid: "nat_id s = sid" using s by (auto simp: find_nat_session_def dest: scalar_one_or_none_mem)
  have one: "filter (\<lambda>s. nat_id s = sid) (nat_sessions d') = [s']"
    using s' by (auto simp: scalar_one_def split: list.splits)
  have "s' \<in> set (filter (\<lambda>s. nat_id s = sid) (nat_sessions d'))" unfolding one by simp
  then have mem: "s' \<in> set (nat_sessions d')" and id: "nat_id s' = sid" by simp_all
  note frame = punch_succeeded_frame [OF d1 assms(3)]
  obtain x where x: "s' = x\<lparr>nat_updated_at := env_now e 5\<rparr>" "x \<in> set (nat_sessions d1)" "nat_id x = sid"
    using mem id unfolding d' touch_nat_session_def put_nat_session_def
    by simp (erule mem_update_rowE, simp_all)
  have "nat_state x = ''connected'' \<and> nat_connectivity_established x"
  proof -
    have "x \<in> set (update_row nat_id sid (\<lambda>s. s\<lparr>nat_state := ''connected'',
       nat_connectivity_established := True, nat_selected_candidate := Some (candidate_dict
         (pu_selected_endpoint r) (pu_selected_port r) (pu_latency_ms r))\<rparr>) (nat_sessions d))"
      using x(2) frame sid by simp
    then show ?thesis by (rule mem_update_rowE) (use x(3) in simp_all)
  qed
  with x(1) have "nat_state s' = ''connected'' \<and> nat_connectivity_established s'" by simp
  then show ?thesis
    using frame tok id by (simp add: d' touch_nat_session_def put_nat_session_def)
qed

theorem punch_success_outcome_witness:
  "\<exists>s' tok d' es. record_punch_result (demo_world False) demo_env ''t'' ''s''
       (demo_failure\<lparr>pu_success := True\<rparr>)
       (demo_mesh\<lparr>nat_sessions := [demo_nat_session\<lparr>nat_state := ''expired''\<rparr>]\<rparr>) = Inr (Some s', tok, d', es) \<and>
     nat_state s' = ''connected''"
proof -
  let ?r = "demo_failure\<lparr>pu_success := True\<rparr>"
  obtain s' tok d' es where run: "record_punch_result (demo_world False) demo_env ''t'' ''s'' ?r
       (demo_mesh\<lparr>nat_sessions := [demo_nat_session\<lparr>nat_state := ''expired''\<rparr>]\<rparr>) = Inr (Some s', tok, d', es)"
    by (simp add: record_punch_result_def find_nat_session_def demo_nat_session_def demo_failure_def
        punch_succeeded_def put_nat_session_def update_row_def Let_def touch_nat_session_def truthy_str_def)
  have "nat_state s' = ''connected''"
    using punch_success_outcome [OF run] by (simp add: demo_world_def)
  then show ?thesis using run by (intro exI [of _ s'] exI [of _ tok] exI [of _ d'] exI [of _ es] conjI)
qed

end
