(* ===== verification/Relay_Server.thy ===== *)
theory Relay_Server
  imports Domain Bytes
begin

text \<open>
  The TCP relay: \<open>backend/app/services/relay_server.py\<close> and its client
  \<open>midscaled/daemon/relay_client.py\<close>. Protocol objects are numbered; the server's dictionaries are
  association lists in insertion order. What a handler writes to a transport is part of its result,
  as pairs of the connection and the bytes. Values read from JSON stay JSON values, since the code
  does not check their types: using a list or an object as a dictionary key is a \<open>TypeError\<close>, a
  \<open>get\<close> on something else than an object an \<open>AttributeError\<close>, and both end the handling of that
  message in \<open>_handle_message\<close>, with the assignments made so far kept. Floats are compared by their
  literal. The clocks are read once for every chunk received.
\<close>

section \<open>Framing\<close>

definition RELAY_MAGIC :: bytes where "RELAY_MAGIC = encode_text ''MIDSCALE_RELAY_V1''"
definition HEADER_SIZE :: nat where "HEADER_SIZE = 4"
definition MSG_TYPE_PING :: byte where "MSG_TYPE_PING = 1"
definition MSG_TYPE_PONG :: byte where "MSG_TYPE_PONG = 2"
definition MSG_TYPE_DATA :: byte where "MSG_TYPE_DATA = 3"
definition MSG_TYPE_CONNECT :: byte where "MSG_TYPE_CONNECT = 4"
definition MSG_TYPE_CONNECT_ACK :: byte where "MSG_TYPE_CONNECT_ACK = 5"
definition MSG_TYPE_DISCONNECT :: byte where "MSG_TYPE_DISCONNECT = 6"
definition MSG_TYPE_HEARTBEAT :: byte where "MSG_TYPE_HEARTBEAT = 7"
definition MSG_TYPE_HEARTBEAT_ACK :: byte where "MSG_TYPE_HEARTBEAT_ACK = 8"

lemmas msg_types = MSG_TYPE_PING_def MSG_TYPE_PONG_def MSG_TYPE_DATA_def MSG_TYPE_CONNECT_def
  MSG_TYPE_CONNECT_ACK_def MSG_TYPE_DISCONNECT_def MSG_TYPE_HEARTBEAT_def MSG_TYPE_HEARTBEAT_ACK_def

definition relay_payload :: "byte \<Rightarrow> bytes \<Rightarrow> bytes" where
  "relay_payload msg_type body = RELAY_MAGIC @ [msg_type] @ body"

text \<open>What \<open>_send_message\<close> writes; a payload too long for the header raises.\<close>

definition relay_frame :: "byte \<Rightarrow> bytes \<Rightarrow> bytes result" where
  "relay_frame msg_type body =
     (let payload = relay_payload msg_type body in
      bind_result (pack_length (length payload)) (\<lambda>header. Inr (header @ payload)))"

text \<open>
  The loop both sides run over their buffer: cut off a complete message, handle it, go on. The
  result is the state, the output and what is left in the buffer.
\<close>

function frame_loop :: "(bytes \<Rightarrow> 's \<Rightarrow> 's \<times> 'o list) \<Rightarrow> bytes \<Rightarrow> 's \<Rightarrow> 's \<times> 'o list \<times> bytes" where
  "frame_loop handle buf s =
     (case unpack_u32 buf 0 of
        Inl _ \<Rightarrow> (s, [], buf)
      | Inr msg_len \<Rightarrow>
          let total_len = HEADER_SIZE + unat msg_len in
          if length buf < total_len then (s, [], buf)
          else let (s1, out1) = handle (slice HEADER_SIZE total_len buf) s;
                   (s2, out2, rest) = frame_loop handle (drop total_len buf) s1
               in (s2, out1 @ out2, rest))"
  by pat_completeness auto

termination
proof (relation "measure (\<lambda>(h, buf, s). length buf)")
  fix buf :: bytes and msg_len total_len
  assume "total_len = HEADER_SIZE + unat (msg_len :: 32 word)" "\<not> length buf < total_len"
  then show "\<And>h s1 s. ((h, drop total_len buf, s1), h, buf, s) \<in> measure (\<lambda>(h, buf, s). length buf)"
    by (simp add: HEADER_SIZE_def)
qed simp

declare frame_loop.simps [simp del]

section \<open>Server\<close>

datatype key = KNone | KStr string | KInt int | KFloat string

definition dict_key :: "json \<Rightarrow> key option" where
  "dict_key v =
     (case v of JNull \<Rightarrow> Some KNone | JBool b \<Rightarrow> Some (KInt (of_bool b)) | JInt n \<Rightarrow> Some (KInt n)
      | JFloat x \<Rightarrow> Some (KFloat x) | JStr t \<Rightarrow> Some (KStr t) | JList _ \<Rightarrow> None | JObj _ \<Rightarrow> None)"

record relay_protocol =
  rp_open :: bool
  rp_buffer :: bytes
  rp_session_token :: json
  rp_device_id :: json

record relay_server =
  rv_protocols :: "nat \<Rightarrow> relay_protocol"
  rv_connections :: "(key \<times> nat) list"
  rv_heartbeats :: "(key \<times> datetime) list"
  rv_valid_tokens :: "(key \<times> string) list"

type_synonym written = "(nat \<times> bytes) list"

definition put_protocol :: "nat \<Rightarrow> (relay_protocol \<Rightarrow> relay_protocol) \<Rightarrow> relay_server \<Rightarrow> relay_server" where
  "put_protocol c f s = s\<lparr>rv_protocols := (rv_protocols s)(c := f (rv_protocols s c))\<rparr>"

definition add_valid_token :: "string \<Rightarrow> string \<Rightarrow> relay_server \<Rightarrow> relay_server" where
  "add_valid_token token session_id s =
     s\<lparr>rv_valid_tokens := AList.update (KStr token) session_id (rv_valid_tokens s)\<rparr>"

text \<open>\<open>None\<close> stands for the \<open>TypeError\<close> of a token that cannot be a key.\<close>

definition validate_session :: "relay_server \<Rightarrow> json \<Rightarrow> json \<Rightarrow> bool option" where
  "validate_session s token session_id =
     map_option (\<lambda>k. json_opt_str (map_of (rv_valid_tokens s) k) = session_id) (dict_key token)"

definition register_connection :: "datetime \<Rightarrow> key \<Rightarrow> nat \<Rightarrow> relay_server \<Rightarrow> relay_server" where
  "register_connection now device_id c s =
     s\<lparr>rv_connections := AList.update device_id c (rv_connections s),
       rv_heartbeats := AList.update device_id now (rv_heartbeats s)\<rparr>"

definition unregister_connection :: "key \<Rightarrow> relay_server \<Rightarrow> relay_server" where
  "unregister_connection device_id s =
     s\<lparr>rv_connections := AList.delete device_id (rv_connections s),
       rv_heartbeats := AList.delete device_id (rv_heartbeats s),
       rv_valid_tokens := filter (\<lambda>(_, v). KStr v \<noteq> device_id) (rv_valid_tokens s)\<rparr>"

definition get_connection :: "key \<Rightarrow> relay_server \<Rightarrow> nat option" where
  "get_connection device_id s = map_of (rv_connections s) device_id"

definition update_heartbeat :: "datetime \<Rightarrow> key \<Rightarrow> relay_server \<Rightarrow> relay_server" where
  "update_heartbeat now device_id s = s\<lparr>rv_heartbeats := AList.update device_id now (rv_heartbeats s)\<rparr>"

definition send_message :: "relay_server \<Rightarrow> nat \<Rightarrow> byte \<Rightarrow> bytes \<Rightarrow> written" where
  "send_message s c msg_type body =
     (if rp_open (rv_protocols s c)
      then (case relay_frame msg_type body of Inl _ \<Rightarrow> [] | Inr bs \<Rightarrow> [(c, bs)]) else [])"

text \<open>\<open>json.loads(body.decode())\<close> and then a \<open>get\<close>: only an object gets past it.\<close>

definition load_object :: "bytes \<Rightarrow> dict option" where
  "load_object body =
     (case decode_text body of
        Inl _ \<Rightarrow> None
      | Inr text \<Rightarrow> (case json_loads text of Some (JObj kvs) \<Rightarrow> Some kvs | _ \<Rightarrow> None))"

definition handle_connect :: "datetime \<Rightarrow> nat \<Rightarrow> bytes \<Rightarrow> relay_server \<Rightarrow> relay_server \<times> written" where
  "handle_connect now c body s =
     (case load_object body of
        None \<Rightarrow> (s, [])
      | Some data \<Rightarrow>
          let token = dict_get_default data ''token'' (JStr []);
              device_id = dict_get_default data ''device_id'' (JStr []);
              session_id = dict_get_default data ''session_id'' (JStr []);
              s1 = put_protocol c (\<lambda>p. p\<lparr>rp_session_token := token, rp_device_id := device_id\<rparr>) s
          in case validate_session s1 token session_id of
               None \<Rightarrow> (s1, [])
             | Some True \<Rightarrow>
                 (case dict_key device_id of
                    None \<Rightarrow> (s1, [])
                  | Some k \<Rightarrow>
                      (register_connection now k c s1,
                       send_message s1 c MSG_TYPE_CONNECT_ACK (encode_text (json_dumps (JObj
                         [(''status'', JStr ''connected''), (''session_id'', session_id),
                          (''device_id'', device_id)])))))
             | Some False \<Rightarrow>
                 (s1, send_message s1 c MSG_TYPE_CONNECT_ACK (encode_text (json_dumps (JObj
                    [(''status'', JStr ''rejected''), (''reason'', JStr ''invalid token or session'')])))))"

text \<open>\<open>bytes.hex\<close>.\<close>

definition hex_bytes :: "bytes \<Rightarrow> string" where
  "hex_bytes bs = concat (map (\<lambda>b. [hex_char (unat b div 16), hex_char (unat b mod 16)]) bs)"

definition handle_data :: "nat \<Rightarrow> bytes \<Rightarrow> relay_server \<Rightarrow> written" where
  "handle_data c body s =
     (if 124 \<notin> set body then []
      else (case decode_text (takeWhile (\<lambda>b. b \<noteq> 124) body) of
              Inl _ \<Rightarrow> []
            | Inr target \<Rightarrow>
                let relay_data = drop 1 (dropWhile (\<lambda>b. b \<noteq> 124) body) in
                (case get_connection (KStr target) s of
                   None \<Rightarrow> []
                 | Some t \<Rightarrow>
                     send_message s t MSG_TYPE_DATA (encode_text (json_dumps (JObj
                       [(''from_device_id'', rp_device_id (rv_protocols s c)),
                        (''data'', JStr (hex_bytes relay_data))]))))))"

text \<open>A device id that cannot be a key is never registered, and \<open>pop\<close> on it raises.\<close>

definition handle_disconnect :: "nat \<Rightarrow> relay_server \<Rightarrow> relay_server result" where
  "handle_disconnect c s =
     (let dev = rp_device_id (rv_protocols s c);
          clear = put_protocol c (\<lambda>p. p\<lparr>rp_session_token := JNull, rp_device_id := JNull\<rparr>)
      in if truthy_json dev
         then (case dict_key dev of
                 None \<Rightarrow> Inl (TypeError ''unhashable type'')
               | Some k \<Rightarrow> Inr (clear (unregister_connection k s)))
         else Inr (clear s))"

definition handle_heartbeat :: "datetime \<Rightarrow> datetime \<Rightarrow> nat \<Rightarrow> bytes \<Rightarrow> relay_server \<Rightarrow> relay_server \<times> written" where
  "handle_heartbeat now utc c body s =
     (case load_object body of
        None \<Rightarrow> (s, [])
      | Some data \<Rightarrow>
          let dev = rp_device_id (rv_protocols s c);
              ack = send_message s c MSG_TYPE_HEARTBEAT_ACK (encode_text (json_dumps (JObj
                      [(''status'', JStr ''ok''), (''timestamp'', JStr (isoformat utc))])))
          in if truthy_json dev
             then (case dict_key dev of None \<Rightarrow> (s, []) | Some k \<Rightarrow> (update_heartbeat now k s, ack))
             else (s, ack))"

definition handle_message :: "datetime \<Rightarrow> datetime \<Rightarrow> nat \<Rightarrow> bytes \<Rightarrow> relay_server \<Rightarrow> relay_server \<times> written" where
  "handle_message now utc c payload s =
     (if take (length RELAY_MAGIC) payload \<noteq> RELAY_MAGIC then (s, [])
      else (case drop (length RELAY_MAGIC) payload of
              [] \<Rightarrow> (s, [])
            | msg_type # body \<Rightarrow>
                if msg_type = MSG_TYPE_PING then (s, send_message s c MSG_TYPE_PONG [])
                else if msg_type = MSG_TYPE_CONNECT then handle_connect now c body s
                else if msg_type = MSG_TYPE_DATA then (s, handle_data c body s)
                else if msg_type = MSG_TYPE_DISCONNECT 
                then (case handle_disconnect c s of Inl _ \<Rightarrow> (s, []) | Inr s' \<Rightarrow> (s', []))
                else if msg_type = MSG_TYPE_HEARTBEAT then handle_heartbeat now utc c body s
                else (s, [])))"

definition connection_made :: "nat \<Rightarrow> relay_server \<Rightarrow> relay_server" where
  "connection_made c =
     put_protocol c (\<lambda>_. \<lparr>rp_open = True, rp_buffer = [], rp_session_token = JNull, rp_device_id = JNull\<rparr>)"

definition data_received :: "datetime \<Rightarrow> datetime \<Rightarrow> nat \<Rightarrow> bytes \<Rightarrow> relay_server \<Rightarrow> relay_server \<times> written" where
  "data_received now utc c data s =
     (let (s', out, rest) = frame_loop (handle_message now utc c) (rp_buffer (rv_protocols s c) @ data) s
      in (put_protocol c (\<lambda>p. p\<lparr>rp_buffer := rest\<rparr>) s', out))"

definition connection_lost :: "nat \<Rightarrow> relay_server \<Rightarrow> relay_server" where
  "connection_lost c s =
     (let dev = rp_device_id (rv_protocols s c);
          close = put_protocol c (\<lambda>p. p\<lparr>rp_open := False\<rparr>)
      in if truthy_json dev
         then (case dict_key dev of None \<Rightarrow> s | Some k \<Rightarrow> close (unregister_connection k s))
         else close s)"

fun disconnect_all :: "nat list \<Rightarrow> relay_server \<Rightarrow> relay_server result" where
  "disconnect_all [] s = Inr s"
| "disconnect_all (c # cs) s = bind_result (handle_disconnect c s) (disconnect_all cs)"

definition stop_server :: "relay_server \<Rightarrow> relay_server result" where
  "stop_server s =
     bind_result (disconnect_all (map snd (rv_connections s)) s) (\<lambda>s'.
       Inr (s'\<lparr>rv_connections := [], rv_heartbeats := [], rv_valid_tokens := []\<rparr>))"

definition remove_expired_tokens :: "datetime \<Rightarrow> relay_server \<Rightarrow> relay_server" where
  "remove_expired_tokens now s =
     fold unregister_connection
       (map fst (filter (\<lambda>(_, ts). ts < now - timedelta_seconds 120) (rv_heartbeats s))) s"

section \<open>Client\<close>

text \<open>
  \<open>bytes.fromhex\<close>: white space is allowed between the bytes. The result is \<open>None\<close> for a
  \<open>ValueError\<close>.
\<close>

fun fromhex :: "string \<Rightarrow> bytes option" where
  "fromhex [] = Some []"
| "fromhex [c] = (if c \<in> set '' '' \<union> {CHR 0x09, CHR 0x0A, CHR 0x0B, CHR 0x0C, CHR 0x0D} then Some [] else None)"
| "fromhex (c # d # cs) =
     (if c \<in> set '' '' \<union> {CHR 0x09, CHR 0x0A, CHR 0x0B, CHR 0x0C, CHR 0x0D} then fromhex (d # cs)
      else (case (hex_value c, hex_value d, fromhex cs) of
              (Some h, Some l, Some bs) \<Rightarrow> Some (word_of_nat (16 * h + l) # bs)
            | _ \<Rightarrow> None))"

record relay_client =
  rk_device_id :: string
  rk_connected :: bool
  rk_buffer :: bytes
  rk_active_sessions :: "(string \<times> string \<times> datetime) list"
  rk_bytes_tx :: int
  rk_bytes_rx :: int

text \<open>The log entry of a data message, its sender and size, is the output.\<close>

type_synonym client_log = "(json \<times> nat) list"

definition client_handle_data :: "bytes \<Rightarrow> relay_client \<Rightarrow> relay_client \<times> client_log" where
  "client_handle_data body k =
     (case load_object body of
        None \<Rightarrow> (k, [])
      | Some data \<Rightarrow>
          (case dict_get_default data ''data'' (JStr []) of
             JStr payload_hex \<Rightarrow>
               (case fromhex payload_hex of
                  None \<Rightarrow> (k, [])
                | Some payload \<Rightarrow>
                    (k\<lparr>rk_bytes_rx := rk_bytes_rx k + int (length payload)\<rparr>,
                     [(dict_get_default data ''from_device_id'' (JStr []), length payload)]))
           | _ \<Rightarrow> (k, [])))"

text \<open>The other messages (pong, acknowledgements, disconnect) are logged and leave the state alone.\<close>

definition client_handle_message :: "bytes \<Rightarrow> relay_client \<Rightarrow> relay_client \<times> client_log" where
  "client_handle_message payload k =
     (if take (length RELAY_MAGIC) payload \<noteq> RELAY_MAGIC then (k, [])
      else (case drop (length RELAY_MAGIC) payload of
              [] \<Rightarrow> (k, [])
            | msg_type # body \<Rightarrow>
                if msg_type = MSG_TYPE_DATA then client_handle_data body k else (k, [])))"

definition client_read :: "bytes \<Rightarrow> relay_client \<Rightarrow> relay_client \<times> client_log" where
  "client_read data k =
     (let (k', out, rest) = frame_loop client_handle_message (rk_buffer k @ data) k
      in (k'\<lparr>rk_buffer := rest\<rparr>, out))"

definition client_send :: "relay_client \<Rightarrow> byte \<Rightarrow> bytes \<Rightarrow> bytes result" where
  "client_send k msg_type body = (if rk_connected k then relay_frame msg_type body else Inr [])"

definition connect_session :: "datetime \<Rightarrow> string \<Rightarrow> string \<Rightarrow> relay_client \<Rightarrow> (bytes \<times> relay_client) result" where
  "connect_session now session_id token k =
     bind_result (client_send k MSG_TYPE_CONNECT (encode_text (json_dumps (JObj
         [(''token'', JStr token), (''device_id'', JStr (rk_device_id k)), (''session_id'', JStr session_id)]))))
       (\<lambda>bs. Inr (bs, k\<lparr>rk_active_sessions := AList.update session_id (token, now) (rk_active_sessions k)\<rparr>))"

definition disconnect_session :: "string \<Rightarrow> relay_client \<Rightarrow> (bytes \<times> relay_client) result" where
  "disconnect_session session_id k =
     bind_result (client_send k MSG_TYPE_DISCONNECT (encode_text (json_dumps (JObj
         [(''session_id'', JStr session_id)]))))
       (\<lambda>bs. Inr (bs, k\<lparr>rk_active_sessions := AList.delete session_id (rk_active_sessions k)\<rparr>))"

text \<open>One round of \<open>_heartbeat_loop\<close> and the frame part of one round of \<open>_stats_report_loop\<close>.\<close>

definition heartbeat_round :: "relay_client \<Rightarrow> bytes result" where
  "heartbeat_round k = client_send k MSG_TYPE_HEARTBEAT
     (encode_text (json_dumps (JObj [(''device_id'', JStr (rk_device_id k))])))"

definition stats_round :: "relay_client \<Rightarrow> bytes result" where
  "stats_round k =
     (if 0 < rk_bytes_tx k \<or> 0 < rk_bytes_rx k
      then client_send k MSG_TYPE_HEARTBEAT (encode_text (json_dumps (JObj
        [(''device_id'', JStr (rk_device_id k)),
         (''stats'', JObj [(''bytes_tx'', JInt (rk_bytes_tx k)), (''bytes_rx'', JInt (rk_bytes_rx k))])])))
      else Inr [])"

section \<open>Reassembly\<close>

lemma unpack_u32_append: "unpack_u32 buf i = Inr w \<Longrightarrow> unpack_u32 (buf @ data) i = Inr w"
  by (auto simp: unpack_u32_def nth_append split: if_splits)

lemma frame_loop_short:
  "unpack_u32 buf 0 = Inr w \<Longrightarrow> length buf < HEADER_SIZE + unat w \<Longrightarrow> frame_loop h buf s = (s, [], buf)"
  by (subst frame_loop.simps) simp

lemma frame_loop_step:
  "unpack_u32 buf 0 = Inr w \<Longrightarrow> t = HEADER_SIZE + unat w \<Longrightarrow> t \<le> length buf \<Longrightarrow>
     frame_loop h buf s =
       (let (s1, o1) = h (slice HEADER_SIZE t buf) s; (s2, o2, r) = frame_loop h (drop t buf) s1
        in (s2, o1 @ o2, r))"
  by (subst frame_loop.simps) (simp add: Let_def)

text \<open>Bytes that arrive later can be appended to what the first pass left over.\<close>

lemma frame_loop_append:
  "frame_loop h buf s = (s1, o1, r1) \<Longrightarrow> frame_loop h (r1 @ data) s1 = (s2, o2, r2) \<Longrightarrow>
     frame_loop h (buf @ data) s = (s2, o1 @ o2, r2)"
proof (induction h buf s arbitrary: s1 o1 r1 o2 rule: frame_loop.induct)
  case (1 h buf s)
  show ?case
  proof (cases "unpack_u32 buf 0")
    case (Inl e)
    then have "frame_loop h buf s = (s, [], buf)" by (subst frame_loop.simps) simp
    then show ?thesis using 1(2,3) by simp
  next
    case (Inr w)
    let ?t = "HEADER_SIZE + unat w"
    show ?thesis
    proof (cases "length buf < ?t")
      case True
      then show ?thesis using 1(2,3) frame_loop_short [OF Inr True, of h s] by simp
    next
      case False
      obtain sa oa where a: "h (slice HEADER_SIZE ?t buf) s = (sa, oa)" by (cases "h (slice HEADER_SIZE ?t buf) s")
      obtain sb ob rb where b: "frame_loop h (drop ?t buf) sa = (sb, ob, rb)"
        by (cases "frame_loop h (drop ?t buf) sa") auto
      have eq: "s1 = sb" "o1 = oa @ ob" "r1 = rb"
        using 1(2) frame_loop_step [OF Inr refl, of h s] False a b by auto
      have "frame_loop h (drop ?t buf @ data) sa = (s2, ob @ o2, r2)"
        using 1(1) [OF Inr refl False a [symmetric] refl b] 1(3) eq by simp
      moreover have "slice HEADER_SIZE ?t (buf @ data) = slice HEADER_SIZE ?t buf"
        using False by (simp add: slice_def)
      ultimately show ?thesis
        using frame_loop_step [OF unpack_u32_append [OF Inr] refl, of data h s] False a eq by simp
    qed
  qed
qed

definition wire :: "bytes \<Rightarrow> bytes" where
  "wire p = pack_u32 (word_of_nat (length p)) @ p"

fun handle_all :: "(bytes \<Rightarrow> 's \<Rightarrow> 's \<times> 'o list) \<Rightarrow> bytes list \<Rightarrow> 's \<Rightarrow> 's \<times> 'o list" where
  "handle_all h [] s = (s, [])"
| "handle_all h (p # ps) s =
     (let (s1, o1) = h p s; (s2, o2) = handle_all h ps s1 in (s2, o1 @ o2))"

text \<open>A buffer that holds no complete message.\<close>

definition incomplete :: "bytes \<Rightarrow> bool" where
  "incomplete buf \<longleftrightarrow>
     (case unpack_u32 buf 0 of Inl _ \<Rightarrow> True | Inr w \<Rightarrow> length buf < HEADER_SIZE + unat w)"

lemma frame_loop_incomplete: "incomplete buf \<Longrightarrow> frame_loop h buf s = (s, [], buf)"
  by (subst frame_loop.simps) (simp add: incomplete_def split: sum.splits)

lemma frame_loop_rest_incomplete: "frame_loop h buf s = (s', out, r) \<Longrightarrow> incomplete r"
proof (induction buf arbitrary: s out rule: length_induct)
  case (1 buf)
  show ?case
  proof (cases "incomplete buf")
    case True
    then show ?thesis using 1(2) by (simp add: frame_loop_incomplete)
  next
    case False
    then obtain w where w: "unpack_u32 buf 0 = Inr w" and len: "HEADER_SIZE + unat w \<le> length buf"
      by (auto simp: incomplete_def not_less split: sum.splits)
    let ?t = "HEADER_SIZE + unat w"
    have short: "length (drop ?t buf) < length buf" using len by (simp add: HEADER_SIZE_def)
    show ?thesis
      using 1(1) [rule_format, OF short] 1(2) frame_loop_step [OF w refl len, of h s]
      by (auto simp: case_prod_beta Let_def prod_eq_iff)
  qed
qed

lemma relay_frame_wire:
  "relay_frame ty body = (if length body + 18 < 2 ^ 32 then Inr (wire (relay_payload ty body)) else Inl StructError)"
  by (simp add: relay_frame_def Let_def pack_length_def relay_payload_def wire_def RELAY_MAGIC_def encode_text_def)

lemma frame_loop_wire:
  assumes "length p < 2 ^ 32"
  shows "frame_loop h (wire p @ rest) s =
    (let (s1, o1) = h p s; (s2, o2, r) = frame_loop h rest s1 in (s2, o1 @ o2, r))"
proof -
  have w: "unat (word_of_nat (length p) :: 32 word) = length p"
    using assms by (simp add: unat_of_nat take_bit_nat_eq_self)
  have u: "unpack_u32 (wire p @ rest) 0 = Inr (word_of_nat (length p))"
    using unpack_packed(3) [of "[]" 0] by (simp add: wire_def)
  have len: "length (wire p) = HEADER_SIZE + length p" by (simp add: wire_def HEADER_SIZE_def)
  have "slice HEADER_SIZE (HEADER_SIZE + length p) (wire p @ rest) = p"
    by (simp add: slice_def wire_def HEADER_SIZE_def pack_u32_def)
  then show ?thesis
    using frame_loop_step [OF u refl, of h s] len by (simp add: w)
qed

lemma frame_loop_wires:
  "list_all (\<lambda>p. length p < 2 ^ 32) ps \<Longrightarrow> incomplete tail \<Longrightarrow>
     frame_loop h (concat (map wire ps) @ tail) s = (fst (handle_all h ps s), snd (handle_all h ps s), tail)"
  by (induction ps arbitrary: s) (simp_all add: frame_loop_incomplete frame_loop_wire split: prod.splits)

text \<open>
  Both ends of the relay keep the unread bytes next to the rest of their state and run the same
  loop. What such an end promises: handling a message neither reads nor writes the buffer.
\<close>

locale framed_endpoint =
  fixes handle :: "bytes \<Rightarrow> 's \<Rightarrow> 's \<times> 'o list"
    and buffer :: "'s \<Rightarrow> bytes"
    and set_buffer :: "bytes \<Rightarrow> 's \<Rightarrow> 's"
    and receive :: "bytes \<Rightarrow> 's \<Rightarrow> 's \<times> 'o list"
  assumes buffer_set: "buffer (set_buffer b s) = b"
    and set_set: "set_buffer b (set_buffer b' s) = set_buffer b s"
    and set_same: "set_buffer (buffer s) s = s"
    and handle_set: "handle p (set_buffer b s) = (set_buffer b (fst (handle p s)), snd (handle p s))"
    and receive_eq: "receive data s =
      (let (s', out, rest) = frame_loop handle (buffer s @ data) s in (set_buffer rest s', out))"
begin

lemma frame_loop_set:
  "frame_loop handle buf (set_buffer b s) =
     (set_buffer b (fst (frame_loop handle buf s)), snd (frame_loop handle buf s))"
proof (induction buf arbitrary: s rule: length_induct)
  case (1 buf)
  show ?case
  proof (cases "incomplete buf")
    case True
    then show ?thesis by (simp add: frame_loop_incomplete)
  next
    case False
    then obtain w where w: "unpack_u32 buf 0 = Inr w" and len: "HEADER_SIZE + unat w \<le> length buf"
      by (auto simp: incomplete_def not_less split: sum.splits)
    let ?t = "HEADER_SIZE + unat w"
    have short: "length (drop ?t buf) < length buf" using len by (simp add: HEADER_SIZE_def)
    show ?thesis
      using 1 [rule_format, OF short] frame_loop_step [OF w refl len, of handle] handle_set
      by (simp add: case_prod_beta Let_def)
  qed
qed

lemma receive_all:
  assumes "incomplete (buffer s)" and "frame_loop handle (buffer s @ concat chunks) s = (s', out, r)"
  shows "handle_all receive chunks s = (set_buffer r s', out)"
  using assms
proof (induction chunks arbitrary: s s' out r)
  case Nil
  then show ?case using set_same [of s] by (auto simp: frame_loop_incomplete)
next
  case (Cons d ds)
  obtain s1 o1 r1 where a: "frame_loop handle (buffer s @ d) s = (s1, o1, r1)"
    by (cases "frame_loop handle (buffer s @ d) s") auto
  obtain s2 o2 r2 where b: "frame_loop handle (r1 @ concat ds) s1 = (s2, o2, r2)"
    by (cases "frame_loop handle (r1 @ concat ds) s1") auto
  have "frame_loop handle (buffer s @ concat (d # ds)) s = (s2, o1 @ o2, r2)"
    using frame_loop_append [OF a b] by simp
  then have eq: "s' = s2" "out = o1 @ o2" "r = r2" using Cons.prems(2) by auto
  have "handle_all receive ds (set_buffer r1 s1) = (set_buffer r2 s2, o2)"
    using Cons.IH [of "set_buffer r1 s1" "set_buffer r1 s2" o2 r2] frame_loop_rest_incomplete [OF a] b
    by (simp add: buffer_set set_set frame_loop_set)
  moreover have "receive d s = (set_buffer r1 s1, o1)" by (simp add: receive_eq a)
  ultimately show ?case by (simp add: eq)
qed

text \<open>However a stream of messages is cut into chunks, the messages are handled, whole and in order.\<close>

lemma reassembly:
  assumes "buffer s = []" and "list_all (\<lambda>p. length p < 2 ^ 32) ps" and "incomplete tail"
    and "concat chunks = concat (map wire ps) @ tail"
  shows "handle_all receive chunks s =
    (set_buffer tail (fst (handle_all handle ps s)), snd (handle_all handle ps s))"
  using assms frame_loop_wires [OF assms(2,3), of handle s] receive_all [of s chunks]
  by (simp add: incomplete_def unpack_u32_def)

end

lemma put_protocol_simps [simp]:
  "rv_protocols (put_protocol c f s) = (rv_protocols s)(c := f (rv_protocols s c))"
  "rv_connections (put_protocol c f s) = rv_connections s"
  "rv_heartbeats (put_protocol c f s) = rv_heartbeats s"
  "rv_valid_tokens (put_protocol c f s) = rv_valid_tokens s"
  by (simp_all add: put_protocol_def)

definition set_rp_buffer :: "nat \<Rightarrow> bytes \<Rightarrow> relay_server \<Rightarrow> relay_server" where
  "set_rp_buffer c b = put_protocol c (\<lambda>p. p\<lparr>rp_buffer := b\<rparr>)"

lemma rp_set_buffer [simp]:
  "rp_open (rv_protocols (set_rp_buffer c b s) x) = rp_open (rv_protocols s x)"
  "rp_device_id (rv_protocols (set_rp_buffer c b s) x) = rp_device_id (rv_protocols s x)"
  "rv_connections (set_rp_buffer c b s) = rv_connections s"
  "rv_heartbeats (set_rp_buffer c b s) = rv_heartbeats s"
  "rv_valid_tokens (set_rp_buffer c b s) = rv_valid_tokens s"
  by (simp_all add: set_rp_buffer_def)

lemma set_rp_buffer_commute:
  "register_connection now k x (set_rp_buffer c b s) = set_rp_buffer c b (register_connection now k x s)"
  "unregister_connection k (set_rp_buffer c b s) = set_rp_buffer c b (unregister_connection k s)"
  "update_heartbeat now k (set_rp_buffer c b s) = set_rp_buffer c b (update_heartbeat now k s)"
  "put_protocol x (\<lambda>p. p\<lparr>rp_session_token := t, rp_device_id := d\<rparr>) (set_rp_buffer c b s) =
     set_rp_buffer c b (put_protocol x (\<lambda>p. p\<lparr>rp_session_token := t, rp_device_id := d\<rparr>) s)"
  by (auto simp: register_connection_def unregister_connection_def update_heartbeat_def set_rp_buffer_def
      put_protocol_def fun_eq_iff)

lemma set_rp_buffer_reads [simp]:
  "send_message (set_rp_buffer c b s) x ty body = send_message s x ty body"
  "validate_session (set_rp_buffer c b s) t i = validate_session s t i"
  "get_connection k (set_rp_buffer c b s) = get_connection k s"
  by (simp_all add: send_message_def validate_session_def get_connection_def)

lemma handle_data_buffer [simp]: "handle_data x body (set_rp_buffer c b s) = handle_data x body s"
  unfolding handle_data_def by (simp cong: sum.case_cong option.case_cong)

lemma handle_message_buffer:
  "handle_message now utc x p (set_rp_buffer c b s) =
     (set_rp_buffer c b (fst (handle_message now utc x p s)), snd (handle_message now utc x p s))"
  by (simp add: handle_message_def handle_connect_def handle_disconnect_def handle_heartbeat_def Let_def
      set_rp_buffer_commute split: list.splits option.splits bool.splits)

interpretation server: framed_endpoint "handle_message now utc c" "\<lambda>s. rp_buffer (rv_protocols s c)"
  "set_rp_buffer c" "data_received now utc c" for now utc c
proof unfold_locales
  show "data_received now utc c data s =
     (let (s', out, rest) = frame_loop (handle_message now utc c) (rp_buffer (rv_protocols s c) @ data) s
      in (set_rp_buffer c rest s', out))" for data s
    by (simp add: data_received_def set_rp_buffer_def)
qed (simp_all add: handle_message_buffer, simp_all add: set_rp_buffer_def put_protocol_def)

interpretation client: framed_endpoint client_handle_message rk_buffer "\<lambda>b k. k\<lparr>rk_buffer := b\<rparr>" client_read
  by unfold_locales (simp_all add: client_read_def client_handle_message_def client_handle_data_def
      split: list.splits option.splits json.splits)

section \<open>Round trips\<close>

definition is_ascii :: "string \<Rightarrow> bool" where
  "is_ascii s \<longleftrightarrow> list_all (\<lambda>c. (of_char c :: nat) < 128) s"

lemma is_ascii_append [simp]: "is_ascii (s @ t) \<longleftrightarrow> is_ascii s \<and> is_ascii t"
  by (simp add: is_ascii_def)

lemma is_ascii_Cons [simp]: "is_ascii (c # s) \<longleftrightarrow> (of_char c :: nat) < 128 \<and> is_ascii s"
  by (simp add: is_ascii_def)

lemma is_ascii_Nil [simp]: "is_ascii []"
  by (simp add: is_ascii_def)

lemma is_ascii_join: "is_ascii sep \<Longrightarrow> list_all is_ascii xs \<Longrightarrow> is_ascii (join sep xs)"
  by (induction sep xs rule: join.induct) auto

lemma hex_char_ascii: "n < 16 \<Longrightarrow> (of_char (hex_char n) :: nat) < 128"
  by (auto simp: hex_char_def)

lemma escape_char_ascii: "is_ascii (escape_char c)"
proof -
  have "(of_char c :: nat) < 256" by simp
  then have "(of_char c :: nat) div 16 < 16" and "(of_char c :: nat) mod 16 < 16" by (simp_all add: less_mult_imp_div_less)
  note this [THEN hex_char_ascii]
  then show ?thesis by (auto simp: escape_char_def Let_def split: if_splits)
qed

lemma dumps_str_ascii: "is_ascii (dumps_str s)"
proof -
  have "is_ascii (concat (map escape_char s))" by (induction s) (simp_all add: escape_char_ascii)
  then show ?thesis by (simp add: dumps_str_def)
qed

lemma str_nat_ascii: "is_ascii (str_nat n)"
proof (induction n rule: str_nat.induct)
  case (1 n)
  have "(of_char (digit_char m) :: nat) < 128" if "m < 10" for m using that by (simp add: digit_char_def)
  then show ?case using 1 by (subst str_nat.simps) auto
qed

lemma json_dumps_ascii: "json_wf v \<Longrightarrow> is_ascii (json_dumps v)"
proof (induction v rule: json_dumps.induct)
  case (6 xs)
  then show ?case by (auto simp: list_all_iff intro!: is_ascii_join)
next
  case (7 kvs)
  then have "is_ascii (dumps_str k @ '': '' @ json_dumps v)" if "(k, v) \<in> set kvs" for k v
    using that by (auto simp: dumps_str_ascii list_all_iff)
  then show ?case by (auto simp: list_all_iff intro!: is_ascii_join)
qed (auto simp: dumps_str_ascii str_int_def str_nat_ascii)

lemma load_object_dumps:
  "json_wf (JObj kvs) \<Longrightarrow> load_object (encode_text (json_dumps (JObj kvs))) = Some kvs"
  using json_dumps_ascii [of "JObj kvs"] decode_encode_text [of "json_dumps (JObj kvs)"]
  by (simp add: load_object_def is_ascii_def json_loads_dumps del: json_dumps.simps json_wf.simps)

lemma hex_char_not_space: "n < 16 \<Longrightarrow> hex_char n \<notin> set '' '' \<union> {CHR 0x09, CHR 0x0A, CHR 0x0B, CHR 0x0C, CHR 0x0D}"
  using hex_value_hex_char [of n]
  by (auto simp: hex_value_def is_digit_def)

lemma fromhex_hex: "fromhex (hex_bytes bs) = Some bs"
proof (induction bs)
  case (Cons b bs)
  have "unat b < 256" using unsigned_less [of b] by simp
  then have d: "unat b div 16 < 16" and m: "unat b mod 16 < 16" by simp_all
  show ?case
    using Cons.IH hex_char_not_space [OF d] hex_value_hex_char [OF d] hex_value_hex_char [OF m]
    by (simp add: hex_bytes_def)
qed (simp add: hex_bytes_def)
section \<open>Properties\<close>

text \<open>
  C7. Reassembly. However TCP cuts a stream of messages into chunks, with an incomplete message at
  the end or not, the server handles exactly those messages, whole and in order, and keeps the
  incomplete rest in its buffer; the read loop of the client does the same.
\<close>

theorem relay_stream_reassembled:
  assumes "list_all (\<lambda>p. length p < 2 ^ 32) ps" and "incomplete tail"
    and "concat chunks = concat (map wire ps) @ tail"
    and "rp_buffer (rv_protocols s c) = []" and "rk_buffer k = []"
  shows "handle_all (data_received now utc c) chunks s =
       (set_rp_buffer c tail (fst (handle_all (handle_message now utc c) ps s)),
        snd (handle_all (handle_message now utc c) ps s)) \<and>
     handle_all client_read chunks k =
       ((fst (handle_all client_handle_message ps k))\<lparr>rk_buffer := tail\<rparr>,
        snd (handle_all client_handle_message ps k))"
  using server.reassembly [OF assms(4) assms(1-3)] client.reassembly [OF assms(5) assms(1-3)] by simp

definition demo_relay_server :: relay_server where
  "demo_relay_server =
     \<lparr>rv_protocols = (\<lambda>_. \<lparr>rp_open = True, rp_buffer = [], rp_session_token = JNull, rp_device_id = JNull\<rparr>),
      rv_connections = [(KStr ''b'', 2)], rv_heartbeats = [(KStr ''b'', 0)],
      rv_valid_tokens = [(KStr ''tok'', ''sess'')]\<rparr>"

definition demo_relay_client :: relay_client where
  "demo_relay_client = \<lparr>rk_device_id = ''b'', rk_connected = True, rk_buffer = [], rk_active_sessions = [],
     rk_bytes_tx = 0, rk_bytes_rx = 0\<rparr>"

theorem relay_stream_reassembled_witness:
  "handle_all (data_received 0 0 1) [[0, 0], [0, 1, 7, 0], [0]] demo_relay_server =
     (set_rp_buffer 1 [0, 0] demo_relay_server, [])"
proof -
  have "incomplete [0, 0]" by (simp add: incomplete_def unpack_u32_def)
  moreover have "concat [[0, 0], [0, 1, 7, 0], [0]] = concat (map wire [[7]]) @ [0, 0 :: byte]"
    by (simp add: wire_def pack_u32_def)
  ultimately have "handle_all (data_received 0 0 1) [[0, 0], [0, 1, 7, 0], [0]] demo_relay_server =
      (set_rp_buffer 1 [0, 0] (fst (handle_all (handle_message 0 0 1) [[7]] demo_relay_server)),
       snd (handle_all (handle_message 0 0 1) [[7]] demo_relay_server))"
    using relay_stream_reassembled [of "[[7]]" "[0, 0]" "[[0, 0], [0, 1, 7, 0], [0]]" demo_relay_server 1
        demo_relay_client 0 0]
    by (simp add: demo_relay_server_def demo_relay_client_def)
  then show ?thesis
    by (simp add: handle_message_def RELAY_MAGIC_def encode_text_def)
qed

lemma relay_payload_split [simp]:
  "take (length RELAY_MAGIC) (relay_payload ty body) = RELAY_MAGIC"
  "drop (length RELAY_MAGIC) (relay_payload ty body) = ty # body"
  by (simp_all add: relay_payload_def)

lemma pipe_not_in_text: "CHR ''|'' \<notin> set t \<Longrightarrow> 124 \<notin> set (encode_text t)"
proof
  assume a: "CHR ''|'' \<notin> set t" and "124 \<in> set (encode_text t)"
  then obtain c where c: "c \<in> set t" "(word_of_nat (of_char c) :: byte) = 124" by (auto simp: encode_text_def)
  from c(2) have "unat (word_of_nat (of_char c) :: byte) = unat (124 :: byte)" by (rule arg_cong)
  then have "(of_char c :: nat) = 124" by (simp add: unat_of_nat)
  moreover have "(of_char (CHR ''|'') :: nat) = 124" by simp
  ultimately have "c = CHR ''|''" by (metis char_of_char)
  then show False using c(1) a by simp
qed

lemma handle_data_target:
  assumes "is_ascii t" and "CHR ''|'' \<notin> set t" and "get_connection (KStr t) s = Some x"
  shows "handle_data c (encode_text t @ 124 # data) s =
    send_message s x MSG_TYPE_DATA (encode_text (json_dumps (JObj
      [(''from_device_id'', rp_device_id (rv_protocols s c)), (''data'', JStr (hex_bytes data))])))"
proof -
  note np = pipe_not_in_text [OF assms(2)]
  have "takeWhile (\<lambda>b. b \<noteq> 124) (encode_text t @ 124 # data) = encode_text t"
    "dropWhile (\<lambda>b. b \<noteq> 124) (encode_text t @ 124 # data) = 124 # data"
    using np by (auto simp: takeWhile_append2 dropWhile_append2 takeWhile_append dropWhile_append)
  then show ?thesis
    using decode_encode_text [of t] assms(1,3) by (simp add: handle_data_def is_ascii_def)
qed

text \<open>
  Delivery through the relay. When the target device is registered on an open connection, a
  data message for it is forwarded to that connection and nowhere else, as one frame; the client at
  the other end, reading that frame in any way TCP cuts it, counts exactly the bytes that were sent
  and sees the device id of the sender's connection. The sender need not have authenticated.
\<close>

theorem relay_delivers_data:
  assumes "get_connection (KStr t) s = Some x" and "rp_open (rv_protocols s x)"
    and "is_ascii t" and "CHR ''|'' \<notin> set t" and "rp_buffer (rv_protocols s c) = []"
    and "json_wf (rp_device_id (rv_protocols s c))"
    and "fwd = encode_text (json_dumps (JObj [(''from_device_id'', rp_device_id (rv_protocols s c)),
           (''data'', JStr (hex_bytes data))]))"
    and "length fwd + 18 < 2 ^ 32" and "length t + length data + 19 < 2 ^ 32"
    and "rk_buffer k = []"
  shows "\<exists>frame. data_received now utc c
         (wire (relay_payload MSG_TYPE_DATA (encode_text t @ 124 # data))) s = (s, [(x, frame)]) \<and>
     (\<forall>chunks. concat chunks = frame \<longrightarrow>
        handle_all client_read chunks k =
          (k\<lparr>rk_bytes_rx := rk_bytes_rx k + int (length data)\<rparr>,
           [(rp_device_id (rv_protocols s c), length data)]))"
proof (intro exI conjI allI impI)
  let ?p = "relay_payload MSG_TYPE_DATA (encode_text t @ 124 # data)"
  let ?q = "relay_payload MSG_TYPE_DATA fwd"
  have empty: "incomplete []" by (simp add: incomplete_def unpack_u32_def)
  have len: "length ?p < 2 ^ 32" "length ?q < 2 ^ 32"
    using assms(8,9) by (simp_all add: relay_payload_def RELAY_MAGIC_def encode_text_def)
  have "handle_message now utc c ?p s = (s, [(x, wire ?q)])"
    using assms(2,8) handle_data_target [OF assms(3,4,1)]
    by (simp add: handle_message_def msg_types assms(7) send_message_def relay_frame_wire)
  then show "data_received now utc c (wire ?p) s = (s, [(x, wire ?q)])"
    using server.reassembly [OF assms(5), of "[?p]" "[]" "[wire ?p]" now utc] len(1) empty assms(5)
      server.set_same [of c s]
    by (simp add: case_prod_beta)
  fix chunks assume "concat chunks = wire ?q"
  moreover have "client_handle_message ?q k = (k\<lparr>rk_bytes_rx := rk_bytes_rx k + int (length data)\<rparr>,
           [(rp_device_id (rv_protocols s c), length data)])"
    using assms(6)
    by (simp add: client_handle_message_def client_handle_data_def assms(7) load_object_dumps
        dict_get_default_def fromhex_hex del: json_dumps.simps)
  ultimately show "handle_all client_read chunks k =
          (k\<lparr>rk_bytes_rx := rk_bytes_rx k + int (length data)\<rparr>, [(rp_device_id (rv_protocols s c), length data)])"
    using client.reassembly [OF assms(10), of "[?q]" "[]" chunks] len(2) empty assms(10) by simp
qed

theorem relay_delivers_data_witness:
  "\<exists>frame. data_received 0 0 1 (wire (relay_payload MSG_TYPE_DATA (encode_text ''b'' @ 124 # [9, 8])))
       demo_relay_server = (demo_relay_server, [(2, frame)]) \<and>
     handle_all client_read [frame] demo_relay_client = (demo_relay_client\<lparr>rk_bytes_rx := 2\<rparr>, [(JNull, 2)])"
proof -
  let ?fwd = "encode_text (json_dumps (JObj [(''from_device_id'', JNull), (''data'', JStr (hex_bytes [9, 8]))]))"
  have dev: "rp_device_id (rv_protocols demo_relay_server (Suc 0)) = JNull" by (simp add: demo_relay_server_def)
  have "length ?fwd + 18 < 2 ^ 32"
    by (simp add: encode_text_def dumps_str_def hex_bytes_def escape_char_def hex_char_def)
  moreover have "get_connection (KStr ''b'') demo_relay_server = Some 2"
    by (simp add: get_connection_def demo_relay_server_def)
  ultimately obtain frame where "data_received 0 0 1 (wire (relay_payload MSG_TYPE_DATA
      (encode_text ''b'' @ 124 # [9, 8]))) demo_relay_server = (demo_relay_server, [(2, frame)])"
    and "\<forall>chunks. concat chunks = frame \<longrightarrow> handle_all client_read chunks demo_relay_client =
      (demo_relay_client\<lparr>rk_bytes_rx := rk_bytes_rx demo_relay_client + int (length [9, 8 :: byte])\<rparr>,
       [(rp_device_id (rv_protocols demo_relay_server 1), length [9, 8 :: byte])])"
    using relay_delivers_data [of "''b''" demo_relay_server 2 1 ?fwd "[9, 8]" demo_relay_client 0 0] dev
    by (auto simp: demo_relay_server_def demo_relay_client_def simp del: json_dumps.simps)
  then show ?thesis by (intro exI [of _ frame]) (simp add: dev demo_relay_client_def del: handle_all.simps)
qed

text \<open>
  C33. Registration. A message changes which connection serves a device in only two ways: its own
  connection takes over a device id, with a connect request whose token the server knows for the
  session id of the request, or whose token it does not know and whose session id is null (the check
  compares what the table has for the token, nothing, with the null); or the device id its connection
  claims is dropped.
\<close>

theorem relay_registration_validated:
  assumes "handle_message now utc c payload s = (s', out)"
    and "get_connection k s' \<noteq> get_connection k s"
  shows "(\<exists>body data token session_id. payload = RELAY_MAGIC @ MSG_TYPE_CONNECT # body \<and>
        load_object body = Some data \<and> dict_get_default data ''token'' (JStr []) = token \<and>
        dict_get_default data ''session_id'' (JStr []) = session_id \<and>
        dict_key (dict_get_default data ''device_id'' (JStr [])) = Some k \<and>
        (\<exists>t. dict_key token = Some t \<and>
           (case map_of (rv_valid_tokens s) t of Some sid \<Rightarrow> session_id = JStr sid | None \<Rightarrow> session_id = JNull)) \<and>
        get_connection k s' = Some c) \<or>
     (\<exists>body. payload = RELAY_MAGIC @ MSG_TYPE_DISCONNECT # body \<and>
        dict_key (rp_device_id (rv_protocols s c)) = Some k \<and> get_connection k s' = None)"
proof -
  have "take (length RELAY_MAGIC) payload = RELAY_MAGIC \<and> drop (length RELAY_MAGIC) payload \<noteq> [] \<and>
      hd (drop (length RELAY_MAGIC) payload) \<in> {MSG_TYPE_CONNECT, MSG_TYPE_DISCONNECT}"
    using assms by (auto simp: handle_message_def handle_heartbeat_def update_heartbeat_def get_connection_def
        Let_def split: list.splits if_splits option.splits)
  then obtain ty body where d: "take (length RELAY_MAGIC) payload = RELAY_MAGIC"
    "drop (length RELAY_MAGIC) payload = ty # body" and ty: "ty = MSG_TYPE_CONNECT \<or> ty = MSG_TYPE_DISCONNECT"
    by (cases "drop (length RELAY_MAGIC) payload") auto
  have p: "payload = RELAY_MAGIC @ ty # body" using append_take_drop_id [of "length RELAY_MAGIC" payload] d by simp
  show ?thesis
  proof (cases "ty = MSG_TYPE_CONNECT")
    case True
    then show ?thesis
      using assms unfolding p
      by (auto simp: handle_message_def handle_connect_def msg_types Let_def get_connection_def
          register_connection_def validate_session_def json_opt_str_def update_conv' split: option.splits bool.splits if_splits)
  next
    case False
    then show ?thesis
      using ty assms unfolding p
      by (auto simp: handle_message_def handle_disconnect_def msg_types Let_def get_connection_def
          unregister_connection_def delete_conv' split: option.splits sum.splits if_splits)
  qed
qed

theorem relay_registration_validated_witness:
  "\<exists>s' out. handle_message 0 0 2 (RELAY_MAGIC @ MSG_TYPE_DISCONNECT # []) (demo_relay_server\<lparr>rv_protocols :=
      (\<lambda>_. \<lparr>rp_open = True, rp_buffer = [], rp_session_token = JNull, rp_device_id = JStr ''b''\<rparr>)\<rparr>) = (s', out) \<and>
     get_connection (KStr ''b'') s' = None"
proof -
  let ?s = "demo_relay_server\<lparr>rv_protocols :=
      (\<lambda>_. \<lparr>rp_open = True, rp_buffer = [], rp_session_token = JNull, rp_device_id = JStr ''b''\<rparr>)\<rparr>"
  obtain s' out where run: "handle_message 0 0 2 (RELAY_MAGIC @ MSG_TYPE_DISCONNECT # []) ?s = (s', out)"
    by (cases "handle_message 0 0 2 (RELAY_MAGIC @ MSG_TYPE_DISCONNECT # []) ?s")
  have "get_connection (KStr ''b'') s' \<noteq> get_connection (KStr ''b'') ?s"
    using run by (auto simp: handle_message_def msg_types handle_disconnect_def truthy_json_def dict_key_def
        get_connection_def unregister_connection_def demo_relay_server_def)
  from relay_registration_validated [OF run this] run show ?thesis by (auto simp: msg_types)
qed

text \<open>
  A client that fails to authenticate can still evict a device: after a rejected connect
  message that names the device, a disconnect message on the same connection drops the device's
  registration, whichever connection held it.
\<close>

theorem relay_rejected_client_evicts:
  assumes "map_of (rv_valid_tokens s) (KStr token) \<noteq> Some session_id" and "device_id \<noteq> []"
    and "connect = relay_payload MSG_TYPE_CONNECT (encode_text (json_dumps (JObj
           [(''token'', JStr token), (''device_id'', JStr device_id), (''session_id'', JStr session_id)])))"
  shows "\<exists>s1 s2 out. handle_message now utc c connect s = (s1, out) \<and>
     rv_connections s1 = rv_connections s \<and>
     handle_message now utc c (relay_payload MSG_TYPE_DISCONNECT []) s1 = (s2, []) \<and>
     get_connection (KStr device_id) s2 = None"
proof -
  have bad: "json_opt_str (map_of (rv_valid_tokens s) (KStr token)) \<noteq> JStr session_id"
    using assms(1) by (auto simp: json_opt_str_def split: option.splits)
  let ?s1 = "put_protocol c (\<lambda>p. p\<lparr>rp_session_token := JStr token, rp_device_id := JStr device_id\<rparr>) s"
  have "\<exists>out. handle_message now utc c connect s = (?s1, out)"
    using bad unfolding assms(3)
    by (simp add: handle_message_def msg_types handle_connect_def load_object_dumps dict_get_default_def
        validate_session_def dict_key_def Let_def del: json_dumps.simps)
  then obtain out where first: "handle_message now utc c connect s = (?s1, out)" by (rule exE)
  obtain s2 where "handle_message now utc c (relay_payload MSG_TYPE_DISCONNECT []) ?s1 = (s2, [])"
    and "rv_connections s2 = AList.delete (KStr device_id) (rv_connections s)"
    using assms(2) by (simp add: handle_message_def msg_types handle_disconnect_def truthy_json_def dict_key_def
        unregister_connection_def)
  then show ?thesis using first by (auto simp: get_connection_def delete_conv')
qed

theorem relay_rejected_client_evicts_witness:
  "\<exists>s1 s2 out. handle_message 0 0 7 (relay_payload MSG_TYPE_CONNECT (encode_text (json_dumps (JObj
        [(''token'', JStr ''bad''), (''device_id'', JStr ''b''), (''session_id'', JStr ''sess'')]))))
        demo_relay_server = (s1, out) \<and> get_connection (KStr ''b'') s1 = Some 2 \<and>
     handle_message 0 0 7 (relay_payload MSG_TYPE_DISCONNECT []) s1 = (s2, []) \<and>
     get_connection (KStr ''b'') s2 = None"
proof -
  have "map_of (rv_valid_tokens demo_relay_server) (KStr ''bad'') \<noteq> Some ''sess''" "''b'' \<noteq> []"
    by (simp_all add: demo_relay_server_def)
  from relay_rejected_client_evicts [OF this refl, of 0 0 7] show ?thesis
    by (auto simp: get_connection_def demo_relay_server_def simp del: json_dumps.simps)
qed

end
