(* ===== verification/Relay_Api.thy ===== *)
theory Relay_Api
  imports Relay Relay_Server Access
begin

text \<open>
  The relay endpoints of the API (\<open>backend/app/api/v1/relay.py\<close>). They work on the session table and
  on the process-wide relay server, if one has been registered (\<open>get_relay_server\<close>): both are
  passed in and returned. The token of a new session is an argument, the caller is the
  authenticated device.
\<close>

section \<open>Handlers\<close>

type_synonym 'a relay_response = "('a \<times> database \<times> relay_server option \<times> effect list) result"

record relay_candidate =
  rcd_relay_node :: string
  rcd_relay_region :: string
  rcd_relay_endpoint :: string
  rcd_priority :: int
  rcd_preferred :: bool

text \<open>
  \<open>candidate["..."]\<close> raises \<open>KeyError\<close> for a missing key; a value of the wrong type is refused by
  the response model.
\<close>

definition get_relay_candidates :: "settings \<Rightarrow> device \<Rightarrow> relay_candidate list result" where
  "get_relay_candidates cfg cur =
     (case get_best_relay_candidate cfg (dev_id cur) of
        None \<Rightarrow> Inr []
      | Some c \<Rightarrow>
          if c = [] then Inr []
          else (case (dict_get c ''relay_node'', dict_get c ''relay_region'', dict_get c ''relay_endpoint'',
                      dict_get c ''priority'', dict_get c ''preferred'') of
                  (Some (JStr node), Some (JStr region), Some (JStr ep), Some (JInt prio), Some (JBool pref)) \<Rightarrow>
                    Inr [\<lparr>rcd_relay_node = node, rcd_relay_region = region, rcd_relay_endpoint = ep,
                          rcd_priority = prio, rcd_preferred = pref\<rparr>]
                | (None, _, _, _, _) \<Rightarrow> Inl (KeyError ''relay_node'')
                | (_, None, _, _, _) \<Rightarrow> Inl (KeyError ''relay_region'')
                | (_, _, None, _, _) \<Rightarrow> Inl (KeyError ''relay_endpoint'')
                | (_, _, _, None, _) \<Rightarrow> Inl (KeyError ''priority'')
                | (_, _, _, _, None) \<Rightarrow> Inl (KeyError ''preferred'')
                | _ \<Rightarrow> Inl (ValueError ''RelayCandidate'')))"

definition request_relay_session :: "bool \<Rightarrow> env \<Rightarrow> string \<Rightarrow> string \<Rightarrow> string \<Rightarrow> device \<Rightarrow> database
    \<Rightarrow> relay_server option \<Rightarrow> relay_session relay_response" where
  "request_relay_session bus e token target region cur d srv =
     bind_result (parse_uuid target) (\<lambda>tgt.
       if dev_id cur = tgt then Inl (HTTPException 400 ''cannot create relay session to self'')
       else bind_result (create_relay_session bus (env_uuid e 0) token (env_now e 0) (dev_id cur) tgt region
               RELAY_DEFAULT_NODE d) (\<lambda>(r, d', es).
              Inr (r, d', map_option (add_valid_token (rel_relay_token r) (rel_id r)) srv, es)))"

record relay_connect_response =
  rcr_status :: string
  rcr_session_id :: string
  rcr_relay_endpoint :: string
  rcr_relay_token :: string
  rcr_relay_node :: string
  rcr_relay_region :: string

definition connect_relay_session :: "bool \<Rightarrow> env \<Rightarrow> string \<Rightarrow> device \<Rightarrow> database \<Rightarrow> relay_connect_response response" where
  "connect_relay_session bus e session_id cur d =
     bind_result (parse_uuid session_id) (\<lambda>sid.
       bind_result (activate_relay_session bus (env_now e 0) (env_now e 1) sid d) (\<lambda>(ro, d', es).
         case ro of
           None \<Rightarrow> Inl (HTTPException 404 ''relay session not found or not pending'')
         | Some r \<Rightarrow>
             Inr (\<lparr>rcr_status = ''connected'', rcr_session_id = rel_id r,
                   rcr_relay_endpoint = rel_relay_node r @ '':8765'', rcr_relay_token = rel_relay_token r,
                   rcr_relay_node = rel_relay_node r, rcr_relay_region = rel_relay_region r\<rparr>, d', es)))"

text \<open>The lookup and participant check that two handlers share.\<close>

definition participant_session :: "string \<Rightarrow> device \<Rightarrow> database \<Rightarrow> relay_session result" where
  "participant_session session_id cur d =
     bind_result (parse_uuid session_id) (\<lambda>sid.
       bind_result (get_relay_session_by_id sid d) (\<lambda>ro.
         case ro of
           None \<Rightarrow> Inl (HTTPException 404 ''relay session not found'')
         | Some r \<Rightarrow>
             if dev_id cur \<noteq> rel_initiator_device_id r \<and> dev_id cur \<noteq> rel_target_device_id r
             then Inl (HTTPException 403 ''not a participant in this session'')
             else Inr r))"

definition get_relay_session :: "string \<Rightarrow> device \<Rightarrow> database \<Rightarrow> relay_session result" where
  "get_relay_session = participant_session"

definition heartbeat_relay_session :: "datetime \<Rightarrow> string \<Rightarrow> device \<Rightarrow> database \<Rightarrow> relay_server option
    \<Rightarrow> (string \<times> string) relay_response" where
  "heartbeat_relay_session now session_id cur d srv =
     bind_result (participant_session session_id cur d) (\<lambda>_.
       Inr ((''ok'', session_id), d, map_option (update_heartbeat now (KStr (dev_id cur))) srv, []))"

definition update_relay_stats_endpoint :: "bool \<Rightarrow> env \<Rightarrow> string \<Rightarrow> int \<Rightarrow> int \<Rightarrow> device \<Rightarrow> database
    \<Rightarrow> (string \<times> string \<times> int \<times> int) response" where
  "update_relay_stats_endpoint bus e session_id tx rx cur d =
     bind_result (parse_uuid session_id) (\<lambda>sid.
       bind_result (update_relay_stats bus (env_now e 0) sid tx rx d) (\<lambda>(ro, d', es).
         case ro of
           None \<Rightarrow> Inl (HTTPException 404 ''relay session not found'')
         | Some r \<Rightarrow> Inr ((''ok'', session_id, rel_bytes_tx r, rel_bytes_rx r), d', es)))"

section \<open>Properties\<close>

lemma request_relay_session_Inr:
  assumes "request_relay_session bus e token target region cur d srv = Inr (r, d', srv', es)"
  shows "parse_uuid target = Inr (rel_target_device_id r) \<and> rel_initiator_device_id r = dev_id cur \<and>
     rel_target_device_id r \<noteq> dev_id cur \<and> rel_relay_token r = token \<and> rel_id r = env_uuid e 0 \<and>
     rel_state r = ''pending'' \<and> d' = d\<lparr>relay_sessions := relay_sessions d @ [r]\<rparr> \<and>
     srv' = map_option (add_valid_token token (rel_id r)) srv"
  using assms
  by (auto simp: request_relay_session_def bind_result_eq_Inr create_relay_session_def new_relay_session_def
      Let_def split: if_splits)

text \<open>A client that connects with a session and token the relay server knows is registered on its connection.\<close>

lemma known_token_connects:
  assumes tok: "map_of (rv_valid_tokens srv) (KStr token) = Some sid"
    and "connect_session now sid token k = Inr (bs, k')" and "rk_connected k"
    and "rp_open (rv_protocols srv c)" and "rp_buffer (rv_protocols srv c) = []"
  shows "\<exists>srv' out. data_received t utc c bs srv = (srv', out) \<and>
     get_connection (KStr (rk_device_id k)) srv' = Some c \<and>
     rp_device_id (rv_protocols srv' c) = JStr (rk_device_id k) \<and>
     out = send_message srv c MSG_TYPE_CONNECT_ACK (encode_text (json_dumps (JObj
        [(''status'', JStr ''connected''), (''session_id'', JStr sid), (''device_id'', JStr (rk_device_id k))])))"
proof -
  let ?body = "encode_text (json_dumps (JObj [(''token'', JStr token),
      (''device_id'', JStr (rk_device_id k)), (''session_id'', JStr sid)]))"
  let ?p = "relay_payload MSG_TYPE_CONNECT ?body"
  have bs: "bs = wire ?p" and len: "length ?p < 2 ^ 32"
    using assms(2,3)
    by (auto simp: connect_session_def client_send_def relay_frame_wire bind_result_eq_Inr relay_payload_def
        RELAY_MAGIC_def encode_text_def simp del: json_dumps.simps split: if_splits)
  let ?s1 = "put_protocol c (\<lambda>p. p\<lparr>rp_session_token := JStr token, rp_device_id := JStr (rk_device_id k)\<rparr>) srv"
  let ?s2 = "register_connection t (KStr (rk_device_id k)) c ?s1"
  have "handle_message t utc c ?p srv = (?s2, send_message ?s1 c MSG_TYPE_CONNECT_ACK (encode_text (json_dumps
      (JObj [(''status'', JStr ''connected''), (''session_id'', JStr sid),
         (''device_id'', JStr (rk_device_id k))]))))"
    by (simp add: handle_message_def msg_types handle_connect_def load_object_dumps dict_get_default_def
        validate_session_def dict_key_def tok json_opt_str_def Let_def del: json_dumps.simps)
  then have "data_received t utc c bs srv = (set_rp_buffer c [] ?s2, send_message ?s1 c MSG_TYPE_CONNECT_ACK
     (encode_text (json_dumps (JObj [(''status'', JStr ''connected''), (''session_id'', JStr sid),
         (''device_id'', JStr (rk_device_id k))]))))"
    using server.reassembly [OF assms(5), of "[?p]" "[]" "[bs]" t utc] len bs
    by (simp add: incomplete_def unpack_u32_def case_prod_beta del: json_dumps.simps)
  then show ?thesis
    by (simp add: get_connection_def register_connection_def update_conv' set_rp_buffer_def send_message_def
        del: json_dumps.simps)
qed

text \<open>
  From the API to the relay: after a session has been granted, the participant's client
  connects with the session id and token it was given, the server accepts, registers the device on
  that connection and acknowledges; data sent to that device now goes to this connection.
\<close>

theorem granted_session_connects:
  assumes "request_relay_session bus e token target region cur d (Some srv) = Inr (r, d', Some srv', es)"
    and "connect_session now (rel_id r) (rel_relay_token r) k = Inr (bs, k')" and "rk_connected k"
    and "rp_open (rv_protocols srv' c)" and "rp_buffer (rv_protocols srv' c) = []"
  shows "\<exists>srv'' out. data_received t utc c bs srv' = (srv'', out) \<and>
     get_connection (KStr (rk_device_id k)) srv'' = Some c \<and>
     rp_device_id (rv_protocols srv'' c) = JStr (rk_device_id k) \<and>
     out = send_message srv' c MSG_TYPE_CONNECT_ACK (encode_text (json_dumps (JObj
        [(''status'', JStr ''connected''), (''session_id'', JStr (rel_id r)),
         (''device_id'', JStr (rk_device_id k))])))"
proof -
  note granted = request_relay_session_Inr [OF assms(1)]
  have "map_of (rv_valid_tokens srv') (KStr (rel_relay_token r)) = Some (rel_id r)"
    using granted by (auto simp: add_valid_token_def update_conv')
  from known_token_connects [OF this assms(2-5), of t utc] show ?thesis .
qed

theorem granted_session_connects_witness:
  "\<exists>r d' srv' es bs k' srv'' out. request_relay_session True demo_env ''tok''
       ''00000000-0000-0000-0000-000000000002'' ''default'' (demo_device ''a'' ''n'' None)
       (empty_database\<lparr>devices := [demo_device ''a'' ''n'' None,
          demo_device ''00000000-0000-0000-0000-000000000002'' ''n'' None]\<rparr>) (Some demo_relay_server)
     = Inr (r, d', Some srv', es) \<and>
     connect_session 0 (rel_id r) (rel_relay_token r) (demo_relay_client\<lparr>rk_device_id := ''a''\<rparr>) = Inr (bs, k') \<and>
     data_received 0 0 1 bs srv' = (srv'', out) \<and> get_connection (KStr ''a'') srv'' = Some 1"
proof -
  let ?t = "''00000000-0000-0000-0000-000000000002''"
  let ?d = "empty_database\<lparr>devices := [demo_device ''a'' ''n'' None, demo_device ?t ''n'' None]\<rparr>"
  let ?k = "demo_relay_client\<lparr>rk_device_id := ''a''\<rparr>"
  have uuid: "parse_uuid ?t = Inr ?t" by code_simp
  obtain r d' es where req: "request_relay_session True demo_env ''tok'' ?t ''default'' (demo_device ''a'' ''n'' None)
      ?d (Some demo_relay_server) = Inr (r, d', Some (add_valid_token ''tok'' (env_uuid demo_env 0) demo_relay_server), es)"
    by (simp add: request_relay_session_def uuid create_relay_session_def device_exists_def demo_device_def Let_def
        new_relay_session_def)
  have r: "rel_id r = ''00000000-0000-0000-0000-000000000001''" "rel_relay_token r = ''tok''"
    using request_relay_session_Inr [OF req] by (simp_all add: demo_env_def)
  obtain bs k' where con: "connect_session 0 (rel_id r) (rel_relay_token r) ?k = Inr (bs, k')"
    by (simp add: connect_session_def r client_send_def relay_frame_wire demo_relay_client_def encode_text_def
        dumps_str_def escape_char_def)
  have "\<exists>srv'' out. data_received 0 0 1 bs (add_valid_token ''tok'' (env_uuid demo_env 0) demo_relay_server) = (srv'', out) \<and>
      get_connection (KStr (rk_device_id ?k)) srv'' = Some 1"
    using granted_session_connects [OF req con, of 1 0 0]
    by (auto simp: demo_relay_client_def demo_relay_server_def add_valid_token_def simp del: json_dumps.simps)
  then obtain srv'' out where "data_received 0 0 1 bs (add_valid_token ''tok'' (env_uuid demo_env 0) demo_relay_server)
      = (srv'', out)" "get_connection (KStr ''a'') srv'' = Some 1" by (elim exE conjE) (rule that, simp_all)
  then show ?thesis using req con by (intro exI conjI)
qed

text \<open>
  Who may touch a relay session. Reading a session and sending its heartbeat succeed only for
  one of its two devices. Activating it and adding to its statistics check no such thing: for every
  authenticated device the outcome is the same.
\<close>

theorem relay_participant_check:
  "(\<forall>r. get_relay_session session_id cur d = Inr r \<longrightarrow>
      dev_id cur \<in> {rel_initiator_device_id r, rel_target_device_id r} \<and> r \<in> set (relay_sessions d)) \<and>
   (\<forall>x d' srv' es. heartbeat_relay_session now session_id cur d srv = Inr (x, d', srv', es) \<longrightarrow>
      d' = d \<and> (\<exists>r \<in> set (relay_sessions d). parse_uuid session_id = Inr (rel_id r) \<and>
        dev_id cur \<in> {rel_initiator_device_id r, rel_target_device_id r})) \<and>
   connect_relay_session bus e session_id cur d = connect_relay_session bus e session_id other d \<and>
   update_relay_stats_endpoint bus e session_id tx rx cur d = update_relay_stats_endpoint bus e session_id tx rx other d"
  by (auto simp: get_relay_session_def heartbeat_relay_session_def participant_session_def bind_result_eq_Inr
      connect_relay_session_def update_relay_stats_endpoint_def get_relay_session_by_id_def find_relay_session_def
      dest!: scalar_one_or_none_mem split: option.splits if_splits)

theorem relay_participant_check_witness:
  "get_relay_session ''00000000-0000-0000-0000-000000000002'' (demo_device ''a'' ''n'' None)
     (empty_database\<lparr>relay_sessions := [new_relay_session ''00000000-0000-0000-0000-000000000002'' ''t'' 0 ''a'' ''b''
        ''default'' ''relay0'']\<rparr>) =
     Inr (new_relay_session ''00000000-0000-0000-0000-000000000002'' ''t'' 0 ''a'' ''b'' ''default'' ''relay0'') \<and>
   ''a'' \<in> {rel_initiator_device_id (new_relay_session ''00000000-0000-0000-0000-000000000002'' ''t'' 0 ''a'' ''b''
      ''default'' ''relay0''), ''b''}"
proof -
  let ?u = "''00000000-0000-0000-0000-000000000002''"
  let ?r = "new_relay_session ?u ''t'' 0 ''a'' ''b'' ''default'' ''relay0''"
  let ?d = "empty_database\<lparr>relay_sessions := [?r]\<rparr>"
  have uuid: "parse_uuid ?u = Inr ?u" by code_simp
  have run: "get_relay_session ?u (demo_device ''a'' ''n'' None) ?d = Inr ?r"
    by (simp add: get_relay_session_def participant_session_def uuid get_relay_session_by_id_def
        find_relay_session_def new_relay_session_def demo_device_def)
  have "dev_id (demo_device ''a'' ''n'' None) \<in> {rel_initiator_device_id ?r, rel_target_device_id ?r}"
    by (rule relay_participant_check [THEN conjunct1, rule_format, OF run, THEN conjunct1])
  then show ?thesis using run by (simp add: demo_device_def new_relay_session_def)
qed

end
