(* ===== verification/Networks.thy ===== *)
theory Networks
  imports Config_V2 Access
begin

text \<open>
  Network administration: \<open>backend/app/api/v1/networks.py\<close>. A handler takes the authenticated user
  and the request body after schema validation. Fresh ids and clock readings come from the \<open>env\<close> in
  the order the code asks for them; the key pair that \<open>wg\<close> generates, Fernet encryption and the
  random part of a pre-auth key are arguments. Deleting a network cascades in the ORM to its
  devices, rules, DNS entries and keys; the foreign keys of the other tables are checked by the
  database row by row, the devices in the order of their primary keys.
\<close>

section \<open>Rows\<close>

definition new_device :: "uuid \<Rightarrow> datetime \<Rightarrow> datetime \<Rightarrow> string \<Rightarrow> uuid option \<Rightarrow> uuid \<Rightarrow> string \<Rightarrow> device" where
  "new_device did created updated name user nid ip =
     \<lparr>dev_id = did, dev_name = name, dev_user_id = user, dev_network_id = nid, dev_public_key = None,
      dev_private_key_enc = None, dev_ip_address = Some ip, dev_dns_enabled = True, dev_is_active = True,
      dev_is_node_owned = False, dev_token_hash = None, dev_token_prefix = None,
      dev_enrollment_status = ''active'', dev_enrolled_at = None, dev_last_seen_at = None,
      dev_revoked_at = None, dev_tags = Some [], dev_last_handshake = None, dev_exit_node_id = None,
      dev_created_at = created, dev_updated_at = updated\<rparr>"

definition add_device :: "device \<Rightarrow> database \<Rightarrow> database" where
  "add_device r d = d\<lparr>devices := devices d @ [r]\<rparr>"

text \<open>\<open>onupdate\<close>: the time is written when the flush finds a changed attribute.\<close>

definition write_device :: "datetime \<Rightarrow> uuid \<Rightarrow> (device \<Rightarrow> device) \<Rightarrow> database \<Rightarrow> database" where
  "write_device now did f d = d\<lparr>devices := update_row dev_id did
     (\<lambda>r. if f r = r then r else (f r)\<lparr>dev_updated_at := now\<rparr>) (devices d)\<rparr>"

section \<open>Networks\<close>

record network_create =
  nc_name :: string
  nc_subnet :: string
  nc_description :: "string option"
  nc_interface_name :: "string option"

record network_update =
  nu_name :: "string option"
  nu_description :: "string option"
  nu_interface_name :: "string option"
  nu_topology :: "string option"

definition list_networks :: "user \<Rightarrow> database \<Rightarrow> network list" where
  "list_networks u d = filter_owned_networks u d"

definition create_network :: "(string \<Rightarrow> string) \<Rightarrow> string \<times> string \<Rightarrow> env \<Rightarrow> network_create \<Rightarrow> user \<Rightarrow> database
    \<Rightarrow> network response" where
  "create_network encrypt keypair e req u d =
     (let n = \<lparr>net_id = env_uuid e 0, net_name = nc_name req, net_subnet = nc_subnet req,
               net_description = nc_description req, net_interface_name = nc_interface_name req,
               net_topology = None, net_owner_id = Some (user_id u), net_created_at = env_now e 0\<rparr>;
          d1 = d\<lparr>networks := networks d @ [n]\<rparr>
      in case IPv4Network (nc_subnet req) of
           None \<Rightarrow> Inl (ValueError (nc_subnet req))
         | Some net \<Rightarrow>
             (case hosts net of
                [] \<Rightarrow> Inl IndexError
              | h # _ \<Rightarrow>
                  let srv = (new_device (env_uuid e 1) (env_now e 1) (env_now e 2) server_device_name
                               (Some (user_id u)) (net_id n) (str_ipv4 h))
                              \<lparr>dev_public_key := Some (snd keypair),
                               dev_private_key_enc := Some (encrypt (fst keypair))\<rparr>
                  in Inr (n, audit e 3 ''network.create'' (Some (user_id u)) ''user'' ''network'' (Some (net_id n))
                               [(''name'', JStr (nc_name req)), (''subnet'', JStr (nc_subnet req))]
                               (add_device srv d1),
                          audit_metric ''network.create'')))"

definition get_network :: "uuid \<Rightarrow> user \<Rightarrow> database \<Rightarrow> network result" where
  "get_network nid u d = require_network_owner nid u d"

definition apply_network_update :: "network_update \<Rightarrow> network \<Rightarrow> network" where
  "apply_network_update req n =
     n\<lparr>net_name := (case nu_name req of None \<Rightarrow> net_name n | Some x \<Rightarrow> x),
       net_description := (case nu_description req of None \<Rightarrow> net_description n | Some x \<Rightarrow> Some x),
       net_interface_name := (case nu_interface_name req of None \<Rightarrow> net_interface_name n | Some x \<Rightarrow> Some x),
       net_topology := (case nu_topology req of None \<Rightarrow> net_topology n
                        | Some x \<Rightarrow> if x = [] then None else Some x)\<rparr>"

definition update_network :: "env \<Rightarrow> uuid \<Rightarrow> network_update \<Rightarrow> user \<Rightarrow> database \<Rightarrow> network response" where
  "update_network e nid req u d =
     bind_result (require_network_owner nid u d) (\<lambda>n.
       Inr (apply_network_update req n,
            audit e 0 ''network.update'' (Some (user_id u)) ''user'' ''network'' (Some nid)
              [(''name'', json_opt_str (nu_name req)), (''description'', json_opt_str (nu_description req))]
              (d\<lparr>networks := update_row net_id nid (apply_network_update req) (networks d)\<rparr>),
            audit_metric ''network.update''))"

text \<open>A row of another table, or another device, still refers to the device.\<close>

definition device_referenced :: "uuid \<Rightarrow> database \<Rightarrow> bool" where
  "device_referenced did d \<longleftrightarrow>
     list_ex (\<lambda>x. ep_device_id x = did) (endpoints d) \<or>
     list_ex (\<lambda>x. rt_device_id x = did) (routes d) \<or>
     list_ex (\<lambda>x. nat_initiator_device_id x = did \<or> nat_target_device_id x = did) (nat_sessions d) \<or>
     list_ex (\<lambda>x. rel_initiator_device_id x = did \<or> rel_target_device_id x = did) (relay_sessions d) \<or>
     list_ex (\<lambda>x. dev_id x \<noteq> did \<and> dev_exit_node_id x = Some did) (devices d)"

fun delete_devices :: "uuid list \<Rightarrow> database \<Rightarrow> database result" where
  "delete_devices [] d = Inr d"
| "delete_devices (i # is) d =
     (if device_referenced i d then Inl (IntegrityError ''devices'')
      else delete_devices is (d\<lparr>devices := filter (\<lambda>r. dev_id r \<noteq> i) (devices d)\<rparr>))"

definition delete_network_rows :: "uuid \<Rightarrow> database \<Rightarrow> database result" where
  "delete_network_rows nid d =
     bind_result (delete_devices (sort (map dev_id (filter (\<lambda>r. dev_network_id r = nid) (devices d)))) d) (\<lambda>d1.
       if list_ex (\<lambda>x. rt_network_id x = nid) (routes d1) then Inl (IntegrityError ''networks'')
       else Inr (d1\<lparr>acl_rules := filter (\<lambda>x. acl_network_id x \<noteq> nid) (acl_rules d1),
                    dns_entries := filter (\<lambda>x. dns_network_id x \<noteq> nid) (dns_entries d1),
                    preauth_keys := filter (\<lambda>x. pk_network_id x \<noteq> nid) (preauth_keys d1),
                    networks := filter (\<lambda>x. net_id x \<noteq> nid) (networks d1)\<rparr>))"

definition delete_network :: "env \<Rightarrow> uuid \<Rightarrow> user \<Rightarrow> database \<Rightarrow> unit response" where
  "delete_network e nid u d =
     bind_result (require_network_owner nid u d) (\<lambda>n.
       bind_result (delete_network_rows nid
           (audit e 0 ''network.delete'' (Some (user_id u)) ''user'' ''network'' (Some nid)
              [(''name'', JStr (net_name n))] d)) (\<lambda>d'.
         Inr ((), d', audit_metric ''network.delete'')))"

section \<open>Devices of a network\<close>

definition list_devices :: "uuid \<Rightarrow> user \<Rightarrow> database \<Rightarrow> device list result" where
  "list_devices nid u d =
     bind_result (require_network_owner nid u d) (\<lambda>_.
       Inr (sorted_by dev_created_at (filter (\<lambda>r. dev_network_id r = nid) (devices d))))"

record device_create =
  dc_name :: string
  dc_dns_enabled :: bool
  dc_tags :: "string list"

definition created_details :: "string \<Rightarrow> uuid \<Rightarrow> string \<Rightarrow> dict" where
  "created_details name nid ip =
     [(''name'', JStr name), (''network_id'', JStr nid), (''ip'', JStr ip)]"

definition create_device :: "(string \<Rightarrow> string) \<Rightarrow> string \<times> string \<Rightarrow> env \<Rightarrow> uuid \<Rightarrow> device_create \<Rightarrow> user
    \<Rightarrow> database \<Rightarrow> device response" where
  "create_device encrypt keypair e nid req u d =
     bind_result (require_network_owner nid u d) (\<lambda>n.
       bind_result (allocate_ip d nid (net_subnet n)) (\<lambda>ip.
         let r = (new_device (env_uuid e 0) (env_now e 0) (env_now e 1) (dc_name req) (Some (user_id u)) nid ip)
                   \<lparr>dev_dns_enabled := dc_dns_enabled req, dev_tags := Some (dc_tags req)\<rparr>;
             d1 = save_device_keys encrypt keypair (env_now e 2) (dev_id r) (add_device r d)
         in bind_result (scalar_one (filter (\<lambda>x. dev_id x = dev_id r) (devices d1))) (\<lambda>r'.
              Inr (r', audit e 3 ''device.create'' (Some (user_id u)) ''user'' ''device'' (Some (dev_id r))
                         (created_details (dc_name req) nid ip) d1,
                   audit_metric ''device.create''))))"

definition create_node_device :: "env \<Rightarrow> uuid \<Rightarrow> device_create \<Rightarrow> user \<Rightarrow> database \<Rightarrow> device response" where
  "create_node_device e nid req u d =
     bind_result (require_network_owner nid u d) (\<lambda>n.
       bind_result (allocate_ip d nid (net_subnet n)) (\<lambda>ip.
         let r = (new_device (env_uuid e 0) (env_now e 0) (env_now e 1) (dc_name req) (Some (user_id u)) nid ip)
                   \<lparr>dev_dns_enabled := dc_dns_enabled req, dev_tags := Some (dc_tags req),
                    dev_is_node_owned := True, dev_enrollment_status := ''pending''\<rparr>
         in Inr (r, audit e 2 ''device.create_node_owned'' (Some (user_id u)) ''user'' ''device'' (Some (dev_id r))
                      (created_details (dc_name req) nid ip) (add_device r d),
                 audit_metric ''device.create_node_owned'')))"

section \<open>Pre-auth keys\<close>

definition list_preauth_keys :: "uuid \<Rightarrow> user \<Rightarrow> database \<Rightarrow> preauth_key list result" where
  "list_preauth_keys nid u d =
     bind_result (require_network_owner nid u d) (\<lambda>_.
       Inr (sorted_by (\<lambda>k. - pk_created_at k) (filter (\<lambda>k. pk_network_id k = nid) (preauth_keys d))))"

definition create_preauth_key :: "env \<Rightarrow> string \<Rightarrow> uuid \<Rightarrow> bool \<Rightarrow> int \<Rightarrow> user \<Rightarrow> database \<Rightarrow> preauth_key response" where
  "create_preauth_key e random nid reusable expires_in_hours u d =
     bind_result (require_network_owner nid u d) (\<lambda>_.
       let k = \<lparr>pk_id = env_uuid e 0, pk_key = ''midscale_'' @ random, pk_network_id = nid,
                pk_reusable = reusable, pk_expires_at = env_now e 0 + timedelta_hours expires_in_hours,
                pk_created_at = env_now e 1, pk_used_by = Some []\<rparr>
       in if pk_key k \<in> pk_key ` set (preauth_keys d) then Inl (IntegrityError ''preauth_keys'')
          else Inr (k, audit e 2 ''preauth_key.create'' (Some (user_id u)) ''user'' ''preauth_key'' (Some (pk_id k))
                         [(''network_id'', JStr nid), (''reusable'', JBool reusable),
                          (''expires_in_hours'', JInt expires_in_hours)]
                         (d\<lparr>preauth_keys := preauth_keys d @ [k]\<rparr>),
                    audit_metric ''preauth_key.create''))"

definition delete_preauth_key :: "env \<Rightarrow> uuid \<Rightarrow> uuid \<Rightarrow> user \<Rightarrow> database \<Rightarrow> unit response" where
  "delete_preauth_key e nid kid u d =
     bind_result (require_network_owner nid u d) (\<lambda>_.
       bind_result (scalar_one_or_none (filter (\<lambda>k. pk_id k = kid \<and> pk_network_id k = nid) (preauth_keys d)))
         (\<lambda>ko.
           case ko of
             None \<Rightarrow> Inl (HTTPException 404 ''Key not found'')
           | Some k \<Rightarrow>
               Inr ((), (audit e 0 ''preauth_key.delete'' (Some (user_id u)) ''user'' ''preauth_key'' (Some kid)
                          [(''network_id'', JStr nid)] d)
                          \<lparr>preauth_keys := filter (\<lambda>k. pk_id k \<noteq> kid) (preauth_keys d)\<rparr>,
                    audit_metric ''preauth_key.delete'')))"

section \<open>Lemmas\<close>

lemma delete_devices_Inr:
  "delete_devices is d = Inr d' \<Longrightarrow> d' = d\<lparr>devices := filter (\<lambda>r. dev_id r \<notin> set is) (devices d)\<rparr>"
proof (induction "is" d rule: delete_devices.induct)
  case (2 i "is" d)
  then have "\<not> device_referenced i d" by (auto split: if_splits)
  with 2 show ?case by (auto intro!: arg_cong [where f = "\<lambda>x. d\<lparr>devices := x\<rparr>"] filter_cong)
qed simp

lemma delete_devices_referenced:
  "delete_devices is d = Inr d' \<Longrightarrow> i \<in> set is \<Longrightarrow>
     \<not> list_ex (\<lambda>x. ep_device_id x = i) (endpoints d) \<and> \<not> list_ex (\<lambda>x. rt_device_id x = i) (routes d) \<and>
     \<not> list_ex (\<lambda>x. nat_initiator_device_id x = i \<or> nat_target_device_id x = i) (nat_sessions d) \<and>
     \<not> list_ex (\<lambda>x. rel_initiator_device_id x = i \<or> rel_target_device_id x = i) (relay_sessions d)"
proof (induction "is" d rule: delete_devices.induct)
  case (2 j "is" d)
  then have "\<not> device_referenced j d" by (auto split: if_splits)
  with 2 show ?case by (cases "i = j") (auto simp: device_referenced_def)
qed simp

lemma filter_not_in_network:
  assumes "devices_ok ds"
  shows "filter (\<lambda>r. dev_id r \<notin> set (sort (map dev_id (filter (\<lambda>r. dev_network_id r = nid) ds)))) ds =
    filter (\<lambda>r. dev_network_id r \<noteq> nid) ds"
proof (rule filter_cong [OF refl])
  fix r assume r: "r \<in> set ds"
  have "dev_id r \<in> dev_id ` {x \<in> set ds. dev_network_id x = nid} \<longleftrightarrow> dev_network_id r = nid"
  proof
    assume "dev_id r \<in> dev_id ` {x \<in> set ds. dev_network_id x = nid}"
    then obtain x where "x \<in> set ds" "dev_network_id x = nid" "dev_id x = dev_id r" by auto
    then show "dev_network_id r = nid" using dev.key_unique [OF assms r] by auto
  qed (use r in auto)
  then show "dev_id r \<notin> set (sort (map dev_id (filter (\<lambda>r. dev_network_id r = nid) ds))) \<longleftrightarrow> dev_network_id r \<noteq> nid"
    by simp
qed

lemma delete_network_Inr:
  assumes "devices_ok (devices d)" and run: "delete_network e nid u d = Inr ((), d', es)"
  shows "(\<exists>n \<in> set (networks d). net_id n = nid \<and> (user_is_superuser u \<or> net_owner_id n = Some (user_id u))) \<and>
    networks d' = filter (\<lambda>x. net_id x \<noteq> nid) (networks d) \<and>
    devices d' = filter (\<lambda>x. dev_network_id x \<noteq> nid) (devices d) \<and>
    acl_rules d' = filter (\<lambda>x. acl_network_id x \<noteq> nid) (acl_rules d) \<and>
    dns_entries d' = filter (\<lambda>x. dns_network_id x \<noteq> nid) (dns_entries d) \<and>
    preauth_keys d' = filter (\<lambda>x. pk_network_id x \<noteq> nid) (preauth_keys d) \<and>
    endpoints d' = endpoints d \<and> routes d' = routes d \<and>
    (\<forall>r \<in> set (devices d). dev_network_id r = nid \<longrightarrow>
       \<not> list_ex (\<lambda>x. ep_device_id x = dev_id r) (endpoints d) \<and> \<not> list_ex (\<lambda>x. rt_device_id x = dev_id r) (routes d))"
proof -
  let ?ids = "sort (map dev_id (filter (\<lambda>r. dev_network_id r = nid) (devices d)))"
  let ?a = "\<lambda>n. audit e 0 ''network.delete'' (Some (user_id u)) ''user'' ''network'' (Some nid)
      [(''name'', JStr (net_name n))] d"
  from run obtain n d1 where n: "require_network_owner nid u d = Inr n"
    and del: "delete_devices ?ids (?a n) = Inr d1"
    and d': "d' = d1\<lparr>acl_rules := filter (\<lambda>x. acl_network_id x \<noteq> nid) (acl_rules d1),
                  dns_entries := filter (\<lambda>x. dns_network_id x \<noteq> nid) (dns_entries d1),
                  preauth_keys := filter (\<lambda>x. pk_network_id x \<noteq> nid) (preauth_keys d1),
                  networks := filter (\<lambda>x. net_id x \<noteq> nid) (networks d1)\<rparr>"
    by (auto simp: delete_network_def delete_network_rows_def bind_result_eq_Inr split: if_splits)
  note d1 = delete_devices_Inr [OF del]
  have "\<not> list_ex (\<lambda>x. ep_device_id x = dev_id r) (endpoints d) \<and> \<not> list_ex (\<lambda>x. rt_device_id x = dev_id r) (routes d)"
    if "r \<in> set (devices d)" "dev_network_id r = nid" for r
    using delete_devices_referenced [OF del, of "dev_id r"] that by auto
  then show ?thesis
    using require_network_owner_Inr [OF n] filter_not_in_network [OF assms(1)] by (auto simp: d' d1)
qed

section \<open>Properties\<close>

text \<open>
  Deleting a network. When the request succeeds, it came from the owner or a superuser, the
  network's devices, rules, DNS entries and pre-auth keys are gone together with it, the rows of all
  other networks are untouched, and nothing that is left refers to a removed device. But the request
  cannot succeed, and changes nothing, once any device of the network has reported an endpoint, since
  endpoints are not part of the cascade.
\<close>

theorem delete_network_outcome:
  assumes "devices_ok (devices d)"
  shows "(\<forall>d' es. delete_network e nid u d = Inr ((), d', es) \<longrightarrow>
      (\<exists>n \<in> set (networks d). net_id n = nid \<and> (user_is_superuser u \<or> net_owner_id n = Some (user_id u))) \<and>
      networks d' = filter (\<lambda>x. net_id x \<noteq> nid) (networks d) \<and>
      devices d' = filter (\<lambda>x. dev_network_id x \<noteq> nid) (devices d) \<and>
      acl_rules d' = filter (\<lambda>x. acl_network_id x \<noteq> nid) (acl_rules d) \<and>
      dns_entries d' = filter (\<lambda>x. dns_network_id x \<noteq> nid) (dns_entries d) \<and>
      preauth_keys d' = filter (\<lambda>x. pk_network_id x \<noteq> nid) (preauth_keys d) \<and>
      endpoints d' = endpoints d \<and> routes d' = routes d \<and>
      list_all (\<lambda>r. dev_network_id r = nid \<longrightarrow>
         \<not> list_ex (\<lambda>x. ep_device_id x = dev_id r) (endpoints d') \<and>
         \<not> list_ex (\<lambda>x. rt_device_id x = dev_id r) (routes d')) (devices d)) \<and>
   (list_ex (\<lambda>r. dev_network_id r = nid \<and> list_ex (\<lambda>x. ep_device_id x = dev_id r) (endpoints d)) (devices d) \<longrightarrow>
      (\<exists>err. run_request (delete_network e nid u) d = (Inl err, d)))"
proof -
  note ok = delete_network_Inr [OF assms]
  have "\<exists>err. run_request (delete_network e nid u) d = (Inl err, d)"
    if r: "list_ex (\<lambda>r. dev_network_id r = nid \<and> list_ex (\<lambda>x. ep_device_id x = dev_id r) (endpoints d)) (devices d)"
  proof (cases "delete_network e nid u d")
    case (Inl err)
    then show ?thesis by (auto simp: run_request_simps)
  next
    case (Inr x)
    then obtain d' es where "delete_network e nid u d = Inr ((), d', es)" by (cases x) auto
    from ok [OF this] r show ?thesis by (auto simp: list_ex_iff)
  qed
  with ok show ?thesis by (auto simp: list_all_iff)
qed

theorem delete_network_outcome_witness:
  "(\<exists>d' es. delete_network demo_env ''n'' demo_owner
      (empty_database\<lparr>networks := [demo_network], devices := [demo_device ''b'' ''n'' None]\<rparr>) = Inr ((), d', es) \<and>
      devices d' = [] \<and> networks d' = []) \<and>
   (\<exists>err. run_request (delete_network demo_env ''n'' demo_owner) demo_mesh = (Inl err, demo_mesh))"
proof
  let ?d = "empty_database\<lparr>networks := [demo_network], devices := [demo_device ''b'' ''n'' None]\<rparr>"
  obtain d' es where run: "delete_network demo_env ''n'' demo_owner ?d = Inr ((), d', es)"
    by (simp add: delete_network_def require_network_owner_def demo_network_def demo_owner_def
        delete_network_rows_def device_referenced_def demo_device_def audit_def empty_database_def)
  have "devices_ok (devices ?d)" by (simp add: devices_ok_def)
  from delete_network_outcome [OF this, THEN conjunct1, rule_format, OF run]
  have "devices d' = [] \<and> networks d' = []"
    by (elim conjE) (simp add: demo_device_def demo_network_def)
  then show "\<exists>d' es. delete_network demo_env ''n'' demo_owner ?d = Inr ((), d', es) \<and> devices d' = [] \<and> networks d' = []"
    using run by (intro exI [of _ d'] exI [of _ es] conjI) simp_all
next
  have "devices_ok (devices demo_mesh)" by (simp add: devices_ok_def demo_mesh_defs)
  from delete_network_outcome [OF this, THEN conjunct2, of "''n''" demo_env demo_owner]
  show "\<exists>err. run_request (delete_network demo_env ''n'' demo_owner) demo_mesh = (Inl err, demo_mesh)"
    by (simp add: demo_mesh_defs)
qed

end
