(* ===== verification/Py_Strings.thy ===== *)
theory Py_Strings
  imports Prelude
begin

text \<open>
  More of Python's string methods: lower case, white-space stripping, \<open>endswith\<close>, \<open>in\<close>, \<open>replace\<close>
  of one character, padding, \<open>split()\<close> and \<open>int(text)\<close>. Characters are code points below 256.
\<close>

section \<open>Methods\<close>

definition ascii_lower :: "char \<Rightarrow> char" where
  "ascii_lower c = (let n = (of_char c :: nat) in if 65 \<le> n \<and> n \<le> 90 then char_of (n + 32) else c)"

definition is_space :: "char \<Rightarrow> bool" where
  "is_space c = (let n = (of_char c :: nat) in 9 \<le> n \<and> n \<le> 13 \<or> 28 \<le> n \<and> n \<le> 32 \<or> n = 133 \<or> n = 160)"

definition strip :: "string \<Rightarrow> string" where
  "strip s = rev (dropWhile is_space (rev (dropWhile is_space s)))"

definition rstrip_chars :: "char set \<Rightarrow> string \<Rightarrow> string" where
  "rstrip_chars cs s = rev (dropWhile (\<lambda>c. c \<in> cs) (rev s))"

definition endswith :: "string \<Rightarrow> string \<Rightarrow> bool" where
  "endswith s p \<longleftrightarrow> startswith (rev s) (rev p)"

fun contains :: "string \<Rightarrow> string \<Rightarrow> bool" where
  "contains p [] \<longleftrightarrow> p = []"
| "contains p (c # s) \<longleftrightarrow> startswith (c # s) p \<or> contains p s"

definition replace_char :: "char \<Rightarrow> string \<Rightarrow> string \<Rightarrow> string" where
  "replace_char c by s = concat (map (\<lambda>x. if x = c then by else [x]) s)"

text \<open>\<open>f'{s:<w}'\<close> and \<open>f'{s:>w}'\<close>.\<close>

definition ljust :: "nat \<Rightarrow> string \<Rightarrow> string" where
  "ljust w s = s @ replicate (w - length s) CHR '' ''"

definition rjust :: "nat \<Rightarrow> string \<Rightarrow> string" where
  "rjust w s = replicate (w - length s) CHR '' '' @ s"

text \<open>\<open>s.split()\<close>: the maximal runs of characters that are not white space.\<close>

fun split_ws :: "string \<Rightarrow> string list" where
  "split_ws [] = []"
| "split_ws (c # s) =
     (if is_space c then split_ws s
      else if s = [] \<or> is_space (hd s) then [c] # split_ws s
      else (case split_ws s of [] \<Rightarrow> [[c]] | w # ws \<Rightarrow> (c # w) # ws))"

text \<open>
  \<open>int(s)\<close> in base ten: white space around, one sign, and single underscores between digits.
\<close>

definition parse_digits :: "string \<Rightarrow> nat option" where
  "parse_digits s =
     (if list_all (\<lambda>p. p \<noteq> [] \<and> list_all is_digit p) (split_on CHR ''_'' s)
      then Some (nat_of_digits (concat (split_on CHR ''_'' s))) else None)"

definition py_int :: "string \<Rightarrow> int result" where
  "py_int s =
     (let t = strip s;
          r = (case t of
                 [] \<Rightarrow> None
               | c # u \<Rightarrow> if c = CHR ''-'' then map_option (\<lambda>n. - int n) (parse_digits u)
                          else if c = CHR ''+'' then map_option int (parse_digits u)
                          else map_option int (parse_digits t))
      in case r of None \<Rightarrow> Inl (ValueError s) | Some i \<Rightarrow> Inr i)"

section \<open>Lemmas\<close>

lemma endswith_append [simp]: "endswith (s @ p) p"
  by (simp add: endswith_def)

lemma contains_single: "contains [c] s \<longleftrightarrow> c \<in> set s"
  by (induction s) (auto simp: startswith_def)

lemma digit_not_space: "is_digit c \<Longrightarrow> \<not> is_space c"
  by (auto simp: is_digit_def is_space_def Let_def)

lemma strip_id:
  assumes "s \<noteq> []" and "\<not> is_space (hd s)" and "\<not> is_space (last s)"
  shows "strip s = s"
proof -
  have "dropWhile is_space s = s" using assms(1,2) by (cases s) auto
  moreover have "dropWhile is_space (rev s) = rev s" using assms(1,3) by (cases s rule: rev_cases) auto
  ultimately show ?thesis by (simp add: strip_def)
qed

lemma strip_digits: "s \<noteq> [] \<Longrightarrow> list_all is_digit s \<Longrightarrow> strip s = s"
  by (rule strip_id) (auto simp: list_all_iff digit_not_space)

lemma parse_digits_str_nat [simp]: "parse_digits (str_nat n) = Some n"
proof -
  have "\<not> is_digit CHR ''_''" by (simp add: is_digit_def)
  then show ?thesis by (simp add: parse_digits_def split_on_no_sep str_nat_digits)
qed

lemma py_int_str_nat [simp]: "py_int (str_nat n) = Inr (int n)"
proof -
  obtain c u where s: "str_nat n = c # u" by (cases "str_nat n") auto
  have "is_digit c" using str_nat_digits [of n] by (simp add: s)
  then have "c \<noteq> CHR ''-''" "c \<noteq> CHR ''+''" by (auto simp: is_digit_def)
  then show ?thesis
    using strip_digits [of "str_nat n"] str_nat_digits [of n] parse_digits_str_nat [of n]
    by (simp add: py_int_def s Let_def)
qed

lemma py_int_str_int [simp]: "py_int (str_int i) = Inr i"
proof (cases "i < 0")
  case True
  let ?t = "str_nat (nat (- i))"
  obtain c u where t: "?t = c # u" by (cases ?t) auto
  have d: "list_all is_digit ?t" by (rule str_nat_digits)
  have "last ?t \<in> set ?t" by simp
  then have "\<not> is_space (last ?t)" using d by (auto simp: list_all_iff digit_not_space)
  then have "strip (CHR ''-'' # ?t) = CHR ''-'' # ?t" by (intro strip_id) (simp_all add: is_space_def)
  then show ?thesis using True by (simp add: py_int_def str_int_def Let_def)
qed (simp add: str_int_def)

lemma strip_chars_decompose:
  obtains a b where "s = a @ strip_chars cs s @ b" "set a \<subseteq> cs" "set b \<subseteq> cs"
    "strip_chars cs s = [] \<or> hd (strip_chars cs s) \<notin> cs \<and> last (strip_chars cs s) \<notin> cs"
proof -
  let ?P = "\<lambda>c. c \<in> cs"
  let ?m = "dropWhile ?P s"
  have s: "s = takeWhile ?P s @ ?m" by simp
  have m: "?m = strip_chars cs s @ rev (takeWhile ?P (rev ?m))"
    unfolding strip_chars_def by (metis rev_append rev_rev_ident takeWhile_dropWhile_id)
  have ends: "strip_chars cs s = [] \<or> hd (strip_chars cs s) \<notin> cs \<and> last (strip_chars cs s) \<notin> cs"
  proof (cases "strip_chars cs s")
    case (Cons x xs)
    then have "hd ?m = hd (strip_chars cs s)" by (subst m) simp
    moreover have "?m \<noteq> []" using Cons by (subst m) simp
    moreover have "last (strip_chars cs s) = hd (dropWhile ?P (rev ?m))" and "dropWhile ?P (rev ?m) \<noteq> []"
      using Cons by (simp_all add: strip_chars_def last_rev hd_rev)
    ultimately show ?thesis by (metis hd_dropWhile)
  qed simp
  show thesis
  proof (rule that [OF _ _ _ ends])
    show "s = takeWhile ?P s @ strip_chars cs s @ rev (takeWhile ?P (rev ?m))" using s m by metis
  qed (auto dest: set_takeWhileD)
qed

end
