(* ===== verification/Devices.thy ===== *)
theory Devices
  imports Networks Endpoints Py_Strings
begin

text \<open>
  The device handlers: \<open>backend/app/api/v1/devices.py\<close>. What comes from libraries is gathered in a
  \<open>device_world\<close>: SHA-256, the order of sets, bcrypt, JOSE, Fernet, and whether the event bus and the
  web-socket manager are running. Requests have passed schema validation.
\<close>

section \<open>Operations\<close>

record device_world =
  dw_sha256 :: "string \<Rightarrow> string"
  dw_set_order :: "string set \<Rightarrow> string list"
  dw_settings :: settings
  dw_verify :: "string \<Rightarrow> string \<Rightarrow> bool"
  dw_hash :: "string \<Rightarrow> string"
  dw_jwt_decode :: "datetime \<Rightarrow> string \<Rightarrow> dict option"
  dw_decrypt :: "string \<Rightarrow> string result"
  dw_encrypt :: "string \<Rightarrow> string"
  dw_bus :: bool
  dw_ws :: bool

abbreviation world_config :: "device_world \<Rightarrow> datetime \<Rightarrow> database \<Rightarrow> device \<Rightarrow> config_v2 result" where
  "world_config w \<equiv> build_config_v2 (dw_sha256 w) (dw_set_order w) (dw_settings w)"

definition quoted :: "string \<Rightarrow> string" where
  "quoted s = [CHR 0x27] @ s @ [CHR 0x27]"

definition list_all_devices :: "user \<Rightarrow> database \<Rightarrow> device list" where
  "list_all_devices u d =
     sorted_by dev_created_at
       (filter (\<lambda>r. user_is_superuser u \<or> dev_user_id r = Some (user_id u)) (devices d))"

text \<open>The device and the ownership check most handlers begin with.\<close>

definition lookup_device :: "uuid \<Rightarrow> database \<Rightarrow> device result" where
  "lookup_device did d =
     bind_result (scalar_one_or_none (filter (\<lambda>r. dev_id r = did) (devices d))) (\<lambda>ro.
       case ro of None \<Rightarrow> Inl (HTTPException 404 ''Device not found'') | Some r \<Rightarrow> Inr r)"

definition owns_device_network :: "user \<Rightarrow> device \<Rightarrow> database \<Rightarrow> unit result" where
  "owns_device_network u r d =
     (if user_is_superuser u then Inr ()
      else bind_result (scalar_one_or_none (filter (\<lambda>n. net_id n = dev_network_id r) (networks d))) (\<lambda>no.
        case no of
          None \<Rightarrow> Inl (HTTPException 403 ''Access denied: you do not own this device's network'')
        | Some n \<Rightarrow>
            if net_owner_id n \<noteq> Some (user_id u)
            then Inl (HTTPException 403 ''Access denied: you do not own this device's network'')
            else Inr ()))"

definition owned_device :: "uuid \<Rightarrow> user \<Rightarrow> database \<Rightarrow> device result" where
  "owned_device did u d =
     bind_result (lookup_device did d) (\<lambda>r. bind_result (owns_device_network u r d) (\<lambda>_. Inr r))"

definition get_device :: "uuid \<Rightarrow> user \<Rightarrow> database \<Rightarrow> device result" where
  "get_device = owned_device"

record device_update =
  du_name :: "string option"
  du_dns_enabled :: "bool option"
  du_is_active :: "bool option"
  du_tags :: "string list option"
  du_enrollment_status :: "string option"
  du_exit_node_id :: "uuid option"

definition apply_device_update :: "device_update \<Rightarrow> device \<Rightarrow> device" where
  "apply_device_update req r =
     r\<lparr>dev_name := (case du_name req of None \<Rightarrow> dev_name r | Some x \<Rightarrow> x),
       dev_dns_enabled := (case du_dns_enabled req of None \<Rightarrow> dev_dns_enabled r | Some x \<Rightarrow> x),
       dev_is_active := (case du_is_active req of None \<Rightarrow> dev_is_active r | Some x \<Rightarrow> x),
       dev_tags := (case du_tags req of None \<Rightarrow> dev_tags r | Some x \<Rightarrow> Some x),
       dev_enrollment_status := (case du_enrollment_status req of None \<Rightarrow> dev_enrollment_status r | Some x \<Rightarrow> x),
       dev_exit_node_id := (case du_exit_node_id req of None \<Rightarrow> dev_exit_node_id r | Some x \<Rightarrow> Some x)\<rparr>"

definition json_opt_bool :: "bool option \<Rightarrow> json" where
  "json_opt_bool b = (case b of None \<Rightarrow> JNull | Some x \<Rightarrow> JBool x)"

definition update_device :: "env \<Rightarrow> uuid \<Rightarrow> device_update \<Rightarrow> user \<Rightarrow> database \<Rightarrow> device response" where
  "update_device e did req u d =
     bind_result (owned_device did u d) (\<lambda>r.
       if (case du_exit_node_id req of None \<Rightarrow> False | Some x \<Rightarrow> \<not> list_ex (\<lambda>r. dev_id r = x) (devices d))
       then Inl (IntegrityError ''devices'')
       else let d1 = write_device (env_now e 0) did (apply_device_update req) d in
            bind_result (scalar_one (filter (\<lambda>x. dev_id x = did) (devices d1))) (\<lambda>r'.
              Inr (r', audit e 1 ''device.update'' (Some (user_id u)) ''user'' ''device'' (Some did)
                         [(''name'', json_opt_str (du_name req)), (''is_active'', json_opt_bool (du_is_active req)),
                          (''tags'', case du_tags req of None \<Rightarrow> JNull | Some ts \<Rightarrow> JList (map JStr ts))] d1,
                   audit_metric ''device.update'')))"

text \<open>
  \<open>_publish_config_change\<close>: whatever fails is swallowed, so a configuration that cannot be built
  means that nothing is sent.
\<close>

definition publish_config_change :: "device_world \<Rightarrow> datetime \<Rightarrow> device \<Rightarrow> string \<Rightarrow> database \<Rightarrow> effect list" where
  "publish_config_change w now r reason d =
     (if \<not> dw_bus w then []
      else (case world_config w now d r of
              Inl _ \<Rightarrow> []
            | Inr c \<Rightarrow>
                Publish ''config.changed''
                  [(''device_id'', JStr (dev_id r)), (''network_id'', JStr (dev_network_id r)),
                   (''revision'', JStr (cv_revision c)), (''hash'', JStr (cv_hash c)), (''reason'', JStr reason)] #
                (if dw_ws w
                 then map (\<lambda>p. Ws_send (dev_id p)
                        [(''type'', JStr ''config.changed''), (''device_id'', JStr (dev_id p)),
                         (''network_id'', JStr (dev_network_id r)), (''revision'', JStr (cv_revision c)),
                         (''reason'', JStr reason)])
                      (filter (\<lambda>p. dev_network_id p = dev_network_id r \<and> dev_is_active p \<and> dev_id p \<noteq> dev_id r)
                         (devices d))
                 else [])))"

definition device_heartbeat :: "env \<Rightarrow> uuid \<Rightarrow> string option \<Rightarrow> string option \<Rightarrow> database
    \<Rightarrow> heartbeat_reply response" where
  "device_heartbeat e did public_key ip_address d =
     bind_result (process_heartbeat (env_now e 0) (env_now e 1) did public_key ip_address d) (\<lambda>(reply, d').
       Inr (reply, d', []))"

record endpoint_reply =
  er_status :: string
  er_endpoint_id :: string
  er_recorded_at :: string

definition device_report_endpoint :: "device_world \<Rightarrow> env \<Rightarrow> uuid \<Rightarrow> string \<Rightarrow> string \<Rightarrow> int \<Rightarrow> string option
    \<Rightarrow> string option \<Rightarrow> device \<Rightarrow> database \<Rightarrow> endpoint_reply response" where
  "device_report_endpoint w e did addr source port local_ip public_ip cur d =
     bind_result (report_endpoint e did addr source port local_ip public_ip 100 d) (\<lambda>(ep, d').
       Inr (\<lparr>er_status = ''ok'', er_endpoint_id = ep_id ep, er_recorded_at = isoformat (env_now e 0)\<rparr>, d',
            publish_config_change w (env_now e 2) cur ''endpoint.updated'' d'))"

definition device_probe_result :: "device_world \<Rightarrow> env \<Rightarrow> probe_result \<Rightarrow> device \<Rightarrow> database \<Rightarrow> probe_reply response" where
  "device_probe_result w e p cur d =
     bind_result (process_probe_result e p d) (\<lambda>(reply, d', es).
       Inr (reply, d', es @ publish_config_change w (env_now e 2) cur ''endpoint.probe'' d'))"

record enroll_reply =
  en_device_id :: string
  en_device_token :: string
  en_status :: string

text \<open>\<open>raw\<close> and \<open>secret\<close> are the random draws of \<open>generate_device_token\<close>.\<close>

definition enroll_device :: "device_world \<Rightarrow> env \<Rightarrow> string \<Rightarrow> string \<Rightarrow> uuid \<Rightarrow> string \<Rightarrow> string option \<Rightarrow> user
    \<Rightarrow> database \<Rightarrow> enroll_reply response" where
  "enroll_device w e raw secret did public_key ip_address u d =
     bind_result (owned_device did u d) (\<lambda>r.
       if \<not> dev_is_node_owned r then Inl (HTTPException 400 ''Device is not configured for node-owned keys'')
       else if dev_enrollment_status r \<noteq> ''pending''
       then Inl (HTTPException 400 (''Device enrollment status is '' @ quoted (dev_enrollment_status r) @
              '', expected '' @ quoted ''pending''))
       else let (token, prefix, hashed) = generate_device_token (dw_hash w) raw secret;
                f = (\<lambda>r. r\<lparr>dev_public_key := Some public_key,
                           dev_ip_address := (if truthy_str ip_address then ip_address else dev_ip_address r),
                           dev_token_hash := Some hashed, dev_token_prefix := Some prefix,
                           dev_enrollment_status := ''active'', dev_enrolled_at := Some (env_now e 0)\<rparr>)
            in Inr (\<lparr>en_device_id = did, en_device_token = token, en_status = ''active''\<rparr>,
                    audit e 2 ''device.enroll'' (Some (user_id u)) ''user'' ''device'' (Some did)
                      [(''public_key'', JStr (take 16 public_key @ ''...''))] (write_device (env_now e 1) did f d),
                    audit_metric ''device.enroll''))"

text \<open>The ownership check of the two handlers that put both conditions into the query.\<close>

definition owns_by_query :: "user \<Rightarrow> device \<Rightarrow> database \<Rightarrow> unit result" where
  "owns_by_query u r d =
     (if user_is_superuser u then Inr ()
      else bind_result (scalar_one_or_none (filter (\<lambda>n. net_id n = dev_network_id r \<and>
              net_owner_id n = Some (user_id u)) (networks d))) (\<lambda>no.
        case no of
          None \<Rightarrow> Inl (HTTPException 403 ''Access denied: you do not own this device's network'')
        | Some n \<Rightarrow> Inr ()))"

definition get_device_config_endpoint :: "device_world \<Rightarrow> uuid \<Rightarrow> user \<Rightarrow> database \<Rightarrow> (string \<times> string) result" where
  "get_device_config_endpoint w did u d =
     bind_result (lookup_device did d) (\<lambda>r.
       bind_result (owns_by_query u r d) (\<lambda>_.
         bind_result (get_device_config (dw_decrypt w) (dw_set_order w) (dw_settings w) d did) (\<lambda>c.
           Inr (c, ''midscale-'' @ dev_name r @ ''.conf''))))"

definition rotate_device_token :: "device_world \<Rightarrow> env \<Rightarrow> string \<Rightarrow> string \<Rightarrow> uuid \<Rightarrow> device \<Rightarrow> database
    \<Rightarrow> string response" where
  "rotate_device_token w e raw secret did cur d =
     (if dev_id cur \<noteq> did
      then Inl (HTTPException 403 ''Device token can only be rotated by the device itself'')
      else if dev_enrollment_status cur \<noteq> ''active''
      then Inl (HTTPException 400 (''Cannot rotate token for device with status '' @ quoted (dev_enrollment_status cur)))
      else let (token, prefix, hashed) =
                 (if truthy_str (dev_token_prefix cur)
                  then (TOKEN_PREFIX @ the (dev_token_prefix cur) @ ''_'' @ secret, dev_token_prefix cur, dw_hash w secret)
                  else (let (t, p, h) = generate_device_token (dw_hash w) raw secret in (t, Some p, h)))
           in Inr (token, write_device (env_now e 0) did
                     (\<lambda>r. r\<lparr>dev_token_hash := Some hashed, dev_token_prefix := prefix\<rparr>) d, []))"

definition revoke_device :: "device_world \<Rightarrow> env \<Rightarrow> uuid \<Rightarrow> user \<Rightarrow> database \<Rightarrow> unit response" where
  "revoke_device w e did u d =
     bind_result (lookup_device did d) (\<lambda>r.
       bind_result (owns_by_query u r d) (\<lambda>_.
         if dev_enrollment_status r = ''revoked'' then Inl (HTTPException 400 ''Device is already revoked'')
         else let f = (\<lambda>r. r\<lparr>dev_enrollment_status := ''revoked'', dev_is_active := False,
                            dev_revoked_at := Some (env_now e 0)\<rparr>);
                  d1 = write_device (env_now e 1) did f d
              in Inr ((), audit e 3 ''device.revoke'' (Some (user_id u)) ''user'' ''device'' (Some did)
                            [(''enrollment_status'', JStr ''revoked'')] d1,
                      publish_config_change w (env_now e 2) (f r) ''device.revoked'' d1
                      @ audit_metric ''device.revoke'')))"

definition token_user :: "device_world \<Rightarrow> datetime \<Rightarrow> string \<Rightarrow> database \<Rightarrow> user option result" where
  "token_user w now credentials d =
     (case dw_jwt_decode w now credentials of
        None \<Rightarrow> Inr None
      | Some payload \<Rightarrow>
          if payload = [] \<or> dict_get payload ''type'' \<noteq> Some (JStr ''access'') then Inr None
          else (case dict_get_default payload ''sub'' JNull of
                  JStr s \<Rightarrow>
                    if s = [] then Inr None
                    else (case parse_uuid s of
                            Inl _ \<Rightarrow> Inr None
                          | Inr uid \<Rightarrow>
                              scalar_one_or_none (filter (\<lambda>u. user_id u = uid \<and> user_is_active u) (users d)))
                | v \<Rightarrow> if truthy_json v then Inl (AttributeError ''replace'') else Inr None))"

text \<open>The header is split at the first space; the scheme is compared in lower case.\<close>

definition get_device_config_v2 :: "device_world \<Rightarrow> env \<Rightarrow> uuid \<Rightarrow> string option \<Rightarrow> database \<Rightarrow> config_v2 result" where
  "get_device_config_v2 w e did auth_header d =
     (if \<not> truthy_str auth_header then Inl (HTTPException 401 ''Authentication required'')
      else let h = the auth_header;
               scheme = takeWhile (\<lambda>c. c \<noteq> CHR '' '') h;
               credentials = drop 1 (dropWhile (\<lambda>c. c \<noteq> CHR '' '') h)
           in if map ascii_lower scheme \<noteq> ''bearer'' \<or> credentials = []
              then Inl (HTTPException 401 ''Invalid authorization header'')
              else bind_result (token_user w (env_now e 0) credentials d) (\<lambda>user.
                bind_result (if user = None then lookup_device_by_token (dw_verify w) credentials d
                             else Inr None) (\<lambda>device_auth.
                  if user = None \<and> device_auth = None then Inl (HTTPException 401 ''Invalid authentication'')
                  else if (case device_auth of None \<Rightarrow> False | Some r \<Rightarrow> dev_id r \<noteq> did)
                  then Inl (HTTPException 403 ''Device token does not match requested device'')
                  else bind_result (lookup_device did d) (\<lambda>r.
                    if \<not> dev_is_active r then Inl (HTTPException 400 ''Device is not active'')
                    else if \<not> truthy_str (dev_ip_address r)
                    then Inl (HTTPException 400 ''Device has no IP address assigned'')
                    else if dev_enrollment_status r \<noteq> ''active''
                    then Inl (HTTPException 400 (''Device enrollment status is '' @ quoted (dev_enrollment_status r) @
                                '', expected '' @ quoted ''active''))
                    else world_config w (env_now e 1) d r))))"

section \<open>Enrollment with a pre-auth key\<close>

record enroll_request =
  eq_preauth_key :: string
  eq_name :: string
  eq_public_key :: string
  eq_hostname :: "string option"

record enroll_by_key_reply =
  ek_device_id :: string
  ek_device_token :: string
  ek_network_id :: string
  ek_ip_address :: string
  ek_config_v2 :: config_v2

definition find_preauth :: "string \<Rightarrow> database \<Rightarrow> preauth_key option result" where
  "find_preauth key d = scalar_one_or_none (filter (\<lambda>k. pk_key k = key) (preauth_keys d))"

text \<open>A single-use key is deleted, a reusable one remembers the device.\<close>

definition consume_key :: "preauth_key \<Rightarrow> uuid \<Rightarrow> database \<Rightarrow> database" where
  "consume_key k did d =
     (if \<not> pk_reusable k then d\<lparr>preauth_keys := filter (\<lambda>x. pk_id x \<noteq> pk_id k) (preauth_keys d)\<rparr>
      else d\<lparr>preauth_keys := update_row pk_id (pk_id k)
               (\<lambda>x. x\<lparr>pk_used_by := Some ((case pk_used_by k of None \<Rightarrow> [] | Some us \<Rightarrow> us) @ [did])\<rparr>)
               (preauth_keys d)\<rparr>)"

definition enroll_by_key :: "device_world \<Rightarrow> env \<Rightarrow> string \<Rightarrow> string \<Rightarrow> enroll_request \<Rightarrow> database
    \<Rightarrow> enroll_by_key_reply response" where
  "enroll_by_key w e raw secret req d =
     bind_result (find_preauth (eq_preauth_key req) d) (\<lambda>ko.
       case ko of
         None \<Rightarrow> Inl (HTTPException 401 ''Invalid pre-auth key'')
       | Some k \<Rightarrow>
           if pk_expires_at k < env_now e 0 then Inl (HTTPException 401 ''Pre-auth key has expired'')
           else if \<not> pk_reusable k \<and> pk_used_by k \<noteq> None \<and> the (pk_used_by k) \<noteq> []
           then Inl (HTTPException 401 ''Pre-auth key has already been used'')
           else bind_result (scalar_one (filter (\<lambda>n. net_id n = pk_network_id k) (networks d))) (\<lambda>n.
             bind_result (allocate_ip d (pk_network_id k) (net_subnet n)) (\<lambda>ip.
               let (token, prefix, hashed) = generate_device_token (dw_hash w) raw secret;
                   r = (new_device (env_uuid e 0) (env_now e 2) (env_now e 3) (eq_name req) None (pk_network_id k) ip)
                         \<lparr>dev_public_key := Some (eq_public_key req), dev_is_node_owned := True,
                          dev_token_hash := Some hashed, dev_token_prefix := Some prefix,
                          dev_enrolled_at := Some (env_now e 1), dev_last_seen_at := Some (env_now e 1)\<rparr>;
                   d1 = consume_key k (dev_id r) (add_device r d)
               in bind_result (world_config w (env_now e 4) d1 r) (\<lambda>c.
                    Inr (\<lparr>ek_device_id = dev_id r, ek_device_token = token, ek_network_id = pk_network_id k,
                          ek_ip_address = ip, ek_config_v2 = c\<rparr>,
                         audit e 5 ''device.enroll_by_key'' (Some (dev_id r)) ''device'' ''device'' (Some (dev_id r))
                           (created_details (eq_name req) (pk_network_id k) ip @
                            [(''hostname'', json_opt_str (eq_hostname req))]) d1,
                         Counter_inc ''DEVICE_ENROLLMENT'' ''success'' 1 # audit_metric ''device.enroll_by_key'')))))"

definition register_device :: "device_world \<Rightarrow> env \<Rightarrow> string \<times> string \<Rightarrow> string \<Rightarrow> string \<Rightarrow> database
    \<Rightarrow> device response" where
  "register_device w e keypair key name d =
     bind_result (find_preauth key d) (\<lambda>ko.
       case ko of
         None \<Rightarrow> Inl (HTTPException 401 ''Invalid pre-auth key'')
       | Some k \<Rightarrow>
           if pk_expires_at k < env_now e 0 then Inl (HTTPException 401 ''Pre-auth key has expired'')
           else bind_result (scalar_one (filter (\<lambda>n. net_id n = pk_network_id k) (networks d))) (\<lambda>n.
             bind_result (allocate_ip d (pk_network_id k) (net_subnet n)) (\<lambda>ip.
               let r = new_device (env_uuid e 0) (env_now e 1) (env_now e 2) name None (pk_network_id k) ip;
                   d1 = consume_key k (dev_id r)
                          (save_device_keys (dw_encrypt w) keypair (env_now e 3) (dev_id r) (add_device r d))
               in bind_result (scalar_one (filter (\<lambda>x. dev_id x = dev_id r) (devices d1))) (\<lambda>r'.
                    Inr (r', audit e 4 ''device.register'' (Some (dev_id r)) ''device'' ''device'' (Some (dev_id r))
                               (created_details name (pk_network_id k) ip) d1,
                         audit_metric ''device.register'')))))"

section \<open>Lemmas\<close>

lemma lookup_device_Inr: "lookup_device did d = Inr r \<Longrightarrow> r \<in> set (devices d) \<and> dev_id r = did"
  by (auto simp: lookup_device_def bind_result_eq_Inr dest!: scalar_one_or_none_mem split: option.splits)

lemma build_config_v2_cong:
  assumes "networks d' = networks d" and "devices d' = devices d" and "routes d' = routes d"
    and "endpoints d' = endpoints d" and "dns_entries d' = dns_entries d"
  shows "build_config_v2 sha256 so cfg now d' r = build_config_v2 sha256 so cfg now d r"
proof -
  have eqs: "build_network_state d' i = build_network_state d i" "build_device_states d' i = build_device_states d i"
    "build_dns_servers so d' i = build_dns_servers so d i"
    "build_routes_by_device d' i = build_routes_by_device d i"
    "build_endpoints_by_device d' i = build_endpoints_by_device d i" for i
    using assms
    by (simp_all add: build_network_state_def build_device_states_def active_devices_def build_dns_servers_def
        build_routes_by_device_def approved_routes_def build_endpoints_by_device_def network_endpoints_def)
  show ?thesis unfolding build_config_v2_def eqs ..
qed

lemma build_config_v2_time:
  "build_config_v2 sha256 so cfg now d r = Inr c \<Longrightarrow>
     \<exists>c'. build_config_v2 sha256 so cfg now' d r = Inr c' \<and> cv_hash c' = cv_hash c \<and> cv_peers c' = cv_peers c"
  by (auto simp: build_config_v2_def bind_result_eq_Inr Let_def config_response_def case_prod_beta
      split: option.splits)

lemma consume_key_tables [simp]:
  "networks (consume_key k i d) = networks d" "devices (consume_key k i d) = devices d"
  "routes (consume_key k i d) = routes d" "endpoints (consume_key k i d) = endpoints d"
  "dns_entries (consume_key k i d) = dns_entries d" "users (consume_key k i d) = users d"
  by (simp_all add: consume_key_def)

lemma enroll_by_key_Inr:
  assumes "enroll_by_key w e raw secret req d = Inr (reply, d', es)"
  obtains k n ip token prefix hashed r where
    "find_preauth (eq_preauth_key req) d = Inr (Some k)" "env_now e 0 \<le> pk_expires_at k"
    "n \<in> set (networks d)" "net_id n = pk_network_id k" "allocate_ip d (pk_network_id k) (net_subnet n) = Inr ip"
    "generate_device_token (dw_hash w) raw secret = (token, prefix, hashed)"
    "r = (new_device (env_uuid e 0) (env_now e 2) (env_now e 3) (eq_name req) None (pk_network_id k) ip)
       \<lparr>dev_public_key := Some (eq_public_key req), dev_is_node_owned := True,
        dev_token_hash := Some hashed, dev_token_prefix := Some prefix,
        dev_enrolled_at := Some (env_now e 1), dev_last_seen_at := Some (env_now e 1)\<rparr>"
    "world_config w (env_now e 4) (consume_key k (dev_id r) (add_device r d)) r = Inr (ek_config_v2 reply)"
    "devices d' = devices d @ [r]" "networks d' = networks d" "users d' = users d" "routes d' = routes d"
    "endpoints d' = endpoints d" "dns_entries d' = dns_entries d"
    "preauth_keys d' = preauth_keys (consume_key k (dev_id r) d)"
    "ek_device_id reply = dev_id r" "ek_device_token reply = token" "ek_ip_address reply = ip"
    "ek_network_id reply = pk_network_id k"
proof -
  obtain token prefix hashed where g: "generate_device_token (dw_hash w) raw secret = (token, prefix, hashed)"
    by (cases "generate_device_token (dw_hash w) raw secret")
  let ?r = "\<lambda>k ip. (new_device (env_uuid e 0) (env_now e 2) (env_now e 3) (eq_name req) None (pk_network_id k) ip)
       \<lparr>dev_public_key := Some (eq_public_key req), dev_is_node_owned := True,
        dev_token_hash := Some hashed, dev_token_prefix := Some prefix,
        dev_enrolled_at := Some (env_now e 1), dev_last_seen_at := Some (env_now e 1)\<rparr>"
  let ?d = "\<lambda>k ip. consume_key k (dev_id (?r k ip)) (add_device (?r k ip) d)"
  from assms obtain k n ip c where k: "find_preauth (eq_preauth_key req) d = Inr (Some k)"
    and exp: "\<not> pk_expires_at k < env_now e 0"
    and n: "scalar_one (filter (\<lambda>n. net_id n = pk_network_id k) (networks d)) = Inr n"
    and ip: "allocate_ip d (pk_network_id k) (net_subnet n) = Inr ip"
    and c: "world_config w (env_now e 4) (?d k ip) (?r k ip) = Inr c"
    and reply: "reply = \<lparr>ek_device_id = dev_id (?r k ip), ek_device_token = token, ek_network_id = pk_network_id k,
                          ek_ip_address = ip, ek_config_v2 = c\<rparr>"
    and d': "d' = audit e 5 ''device.enroll_by_key'' (Some (dev_id (?r k ip))) ''device'' ''device''
         (Some (dev_id (?r k ip))) (created_details (eq_name req) (pk_network_id k) ip @
            [(''hostname'', json_opt_str (eq_hostname req))]) (?d k ip)"
    unfolding enroll_by_key_def g Let_def
    by (auto simp add: bind_result_eq_Inr split: option.splits if_splits simp del: consume_key_tables)
  have "n \<in> set (networks d) \<and> net_id n = pk_network_id k" by (rule scalar_one_mem [OF n])
  then show thesis
    using k exp ip c
    by (intro that [OF k _ _ _ ip g refl]) (simp_all add: reply d' add_device_def consume_key_def)
qed

lemma allocated_address:
  assumes "allocate_ip d nid subnet = Inr ip"
  shows "ip \<notin> used_ips d nid \<and> ip \<noteq> []"
proof -
  obtain n where n: "IPv4Network subnet = Some n" by (rule allocate_ip_network [OF assms])
  obtain h where "ip = str_ipv4 h" "ip \<notin> used_ips d nid" by (rule allocate_ip_host [OF assms n])
  then show ?thesis by (simp add: str_ipv4_def octets_def)
qed

lemma lookup_generated_token:
  assumes "generate_device_token (dw_hash w) raw secret = (token, prefix, hashed)"
    and "length raw = 8" and "secret \<noteq> []" and "dw_verify w secret (dw_hash w secret)" and "dw_hash w secret \<noteq> []"
    and "filter (\<lambda>x. dev_token_prefix x = Some prefix \<and> dev_is_active x) (devices d) = [r]"
    and "dev_token_hash r = Some hashed" and "dev_enrollment_status r = ''active''"
  shows "lookup_device_by_token (dw_verify w) token d = Inr (Some r)"
proof -
  have "hashed = dw_hash w secret" using assms(1) by (simp add: generate_device_token_def Let_def)
  moreover have "split_token token = Some (prefix, secret)"
    using split_generated_token [OF assms(1)] assms(2,3) by simp
  ultimately show ?thesis
    using assms(4-8) by (simp add: lookup_device_by_token_def token_matches_def check_device_status_def truthy_str_def)
qed

lemma bearer_split:
  assumes "token \<noteq> []"
  shows "get_device_config_v2 w e did (Some (''Bearer '' @ token)) d =
     bind_result (token_user w (env_now e 0) token d) (\<lambda>user.
                bind_result (if user = None then lookup_device_by_token (dw_verify w) token d
                             else Inr None) (\<lambda>device_auth.
                  if user = None \<and> device_auth = None then Inl (HTTPException 401 ''Invalid authentication'')
                  else if (case device_auth of None \<Rightarrow> False | Some r \<Rightarrow> dev_id r \<noteq> did)
                  then Inl (HTTPException 403 ''Device token does not match requested device'')
                  else bind_result (lookup_device did d) (\<lambda>r.
                    if \<not> dev_is_active r then Inl (HTTPException 400 ''Device is not active'')
                    else if \<not> truthy_str (dev_ip_address r)
                    then Inl (HTTPException 400 ''Device has no IP address assigned'')
                    else if dev_enrollment_status r \<noteq> ''active''
                    then Inl (HTTPException 400 (''Device enrollment status is '' @ quoted (dev_enrollment_status r) @
                                '', expected '' @ quoted ''active''))
                    else world_config w (env_now e 1) d r)))"
proof -
  have "char_of (98 :: nat) = CHR ''b''" by code_simp
  with assms show ?thesis by (simp add: get_device_config_v2_def truthy_str_def ascii_lower_def)
qed

section \<open>Properties\<close>

text \<open>What a successful enrollment leaves behind.\<close>

lemma enrolled_device:
  assumes "enroll_by_key w e raw secret req d = Inr (reply, d', es)"
    and "length raw = 8" and "secret \<noteq> []" and "dw_verify w secret (dw_hash w secret)" and "dw_hash w secret \<noteq> []"
    and "dw_jwt_decode w (env_now e' 0) (ek_device_token reply) = None"
    and "env_uuid e 0 \<notin> dev_id ` set (devices d)"
    and "Some (fst (snd (generate_device_token (dw_hash w) raw secret))) \<notin> dev_token_prefix ` set (devices d)"
  shows "\<exists>r. devices d' = devices d @ [r] \<and> dev_id r = ek_device_id reply \<and> dev_public_key r = Some (eq_public_key req) \<and>
     dev_ip_address r = Some (ek_ip_address reply) \<and>
     ek_ip_address reply \<notin> used_ips d (ek_network_id reply) \<and>
     get_current_device (dw_verify w) (ek_device_token reply) d' = Inr r \<and>
     (\<exists>c. get_device_config_v2 w e' (dev_id r) (Some (''Bearer '' @ ek_device_token reply)) d' = Inr c \<and>
        cv_hash c = cv_hash (ek_config_v2 reply) \<and> cv_peers c = cv_peers (ek_config_v2 reply)) \<and>
     (\<exists>k. find_preauth (eq_preauth_key req) d = Inr (Some k) \<and> env_now e 0 \<le> pk_expires_at k \<and>
        (\<not> pk_reusable k \<longrightarrow> enroll_by_key w2 e2 raw2 secret2 (req2\<lparr>eq_preauth_key := eq_preauth_key req\<rparr>) d' =
            Inl (HTTPException 401 ''Invalid pre-auth key'')))"
  using assms(1)
proof (cases rule: enroll_by_key_Inr)
  case (1 k n ip token prefix hashed r)
  note ip = allocated_address [OF 1(5)]
  have r: "dev_is_active r" "dev_enrollment_status r = ''active''" "dev_ip_address r = Some ip"
    "dev_token_hash r = Some hashed" "dev_token_prefix r = Some prefix" "dev_id r = env_uuid e 0"
    "dev_public_key r = Some (eq_public_key req)"
    by (simp_all add: 1(7) new_device_def)
  have "Some prefix \<notin> dev_token_prefix ` set (devices d)" using assms(8) 1(6) by simp
  then have "filter (\<lambda>x. dev_token_prefix x = Some prefix \<and> dev_is_active x) (devices d') = [r]"
    using r by (auto simp: 1(9) filter_empty_conv image_iff)
  then have look: "lookup_device_by_token (dw_verify w) token d' = Inr (Some r)"
    by (rule lookup_generated_token [OF 1(6) assms(2-5) _ r(4,2)])
  have only: "lookup_device (dev_id r) d' = Inr r"
    using dev.lookup_insert [of r "devices d"] assms(7) r(6) by (simp add: lookup_device_def 1(9))
  have tok: "token \<noteq> []" using 1(6) by (auto simp: generate_device_token_def Let_def TOKEN_PREFIX_def)
  have cong: "world_config w t d' r = world_config w t (consume_key k (dev_id r) (add_device r d)) r" for t
    using 1(9-14) by (intro build_config_v2_cong) (simp_all add: add_device_def)
  have "\<exists>c. get_device_config_v2 w e' (dev_id r) (Some (''Bearer '' @ token)) d' = Inr c \<and>
      cv_hash c = cv_hash (ek_config_v2 reply) \<and> cv_peers c = cv_peers (ek_config_v2 reply)"
    unfolding bearer_split [OF tok]
    using build_config_v2_time [OF 1(8), of "env_now e' 1"] look only r ip assms(6) 1(17)
    by (simp add: token_user_def cong truthy_str_def)
  moreover have "enroll_by_key w2 e2 raw2 secret2 (req2\<lparr>eq_preauth_key := eq_preauth_key req\<rparr>) d' =
      Inl (HTTPException 401 ''Invalid pre-auth key'')" if "\<not> pk_reusable k"
  proof -
    have "filter (\<lambda>x. pk_key x = eq_preauth_key req) (preauth_keys d) = [k]"
      using 1(1) by (auto simp: find_preauth_def dest: scalar_one_or_none_SomeD)
    then have "filter (\<lambda>x. pk_key x = eq_preauth_key req) (preauth_keys d') = []"
      unfolding 1(15) consume_key_def using that filter_single_mem by (fastforce simp: filter_empty_conv)
    then show ?thesis by (simp add: enroll_by_key_def find_preauth_def)
  qed
  ultimately show ?thesis
    using 1(1,2,9,16-19) r ip look by (intro exI [of _ r]) (auto simp: get_current_device_def)
qed

text \<open>
  C5. Enrollment end to end. A successful enrollment adds exactly one device, with an address no
  other device of the network held; the token it returns authenticates as that device; with the
  token the device fetches a configuration whose hash is the one it got on enrollment; and if the
  key was not reusable, it is spent: every further enrollment with it is refused. bcrypt must verify
  its own hashes, a device token must not happen to be a valid JWT, and the fresh id and token
  prefix must be fresh.
\<close>

theorem enrollment_end_to_end:
  assumes "enroll_by_key w e raw secret req d = Inr (reply, d', es)"
    and "length raw = 8" and "secret \<noteq> []" and "dw_verify w secret (dw_hash w secret)" and "dw_hash w secret \<noteq> []"
    and "dw_jwt_decode w (env_now e' 0) (ek_device_token reply) = None"
    and "env_uuid e 0 \<notin> dev_id ` set (devices d)"
    and "Some (fst (snd (generate_device_token (dw_hash w) raw secret))) \<notin> dev_token_prefix ` set (devices d)"
  shows "\<exists>r. devices d' = devices d @ [r] \<and> dev_id r = ek_device_id reply \<and>
     dev_ip_address r = Some (ek_ip_address reply) \<and>
     ek_ip_address reply \<notin> used_ips d (ek_network_id reply) \<and>
     get_current_device (dw_verify w) (ek_device_token reply) d' = Inr r \<and>
     (\<exists>c. get_device_config_v2 w e' (dev_id r) (Some (''Bearer '' @ ek_device_token reply)) d' = Inr c \<and>
        cv_hash c = cv_hash (ek_config_v2 reply)) \<and>
     (\<exists>k. find_preauth (eq_preauth_key req) d = Inr (Some k) \<and> env_now e 0 \<le> pk_expires_at k \<and>
        (\<not> pk_reusable k \<longrightarrow> enroll_by_key w2 e2 raw2 secret2 (req2\<lparr>eq_preauth_key := eq_preauth_key req\<rparr>) d' =
            Inl (HTTPException 401 ''Invalid pre-auth key'')))"
  using enrolled_device [OF assms, of w2 e2 raw2 secret2 req2] by blast

definition demo_device_world :: device_world where
  "demo_device_world = \<lparr>dw_sha256 = (\<lambda>s. s), dw_set_order = sorted_list_of_set, dw_settings = default_settings,
     dw_verify = (\<lambda>s h. h = ''#'' @ s), dw_hash = (\<lambda>s. ''#'' @ s), dw_jwt_decode = (\<lambda>_ _. None),
     dw_decrypt = Inr, dw_encrypt = (\<lambda>s. s), dw_bus = True, dw_ws = True\<rparr>"

definition demo_key_database :: database where
  "demo_key_database = empty_database\<lparr>networks := [demo_network],
     preauth_keys := [\<lparr>pk_id = ''k1'', pk_key = ''midscale_x'', pk_network_id = ''n'', pk_reusable = False,
        pk_expires_at = 10, pk_created_at = 0, pk_used_by = Some []\<rparr>]\<rparr>"

definition demo_enroll_request :: enroll_request where
  "demo_enroll_request = \<lparr>eq_preauth_key = ''midscale_x'', eq_name = ''laptop'', eq_public_key = ''key'',
     eq_hostname = None\<rparr>"

lemma demo_enrollment_digest:
  "\<exists>reply d' es. enroll_by_key (demo_device_world\<lparr>dw_sha256 := f\<rparr>) demo_env ''abcdefgh'' ''secret'' demo_enroll_request demo_key_database =
     Inr (reply, d', es)"
  by (simp add: enroll_by_key_def find_preauth_def demo_key_database_def demo_enroll_request_def demo_env_def
      demo_network_def allocate_ip_cases [OF demo_pool_29(1)] demo_pool_29 demo_addresses used_ips_def empty_database_def
      generate_device_token_def demo_device_world_def new_device_def consume_key_def add_device_def Let_def
      build_config_v2_def build_network_state_def build_device_states_def active_devices_def is_member_def
      server_device_name_def device_state_of_def build_dns_servers_def build_routes_by_device_def
      approved_routes_def build_endpoints_by_device_def network_endpoints_def topology_name_def default_settings_def
      truthy_str_def get_topology_generator_from_state_def TopologyType_def plan_of_def star_generate_plan_def)

lemma demo_enrollment:
  "\<exists>reply d' es. enroll_by_key demo_device_world demo_env ''abcdefgh'' ''secret'' demo_enroll_request demo_key_database =
     Inr (reply, d', es)"
  using demo_enrollment_digest [of "\<lambda>s. s"] by (simp add: demo_device_world_def)

theorem enrollment_end_to_end_witness:
  "\<exists>reply d' es r. enroll_by_key demo_device_world demo_env ''abcdefgh'' ''secret'' demo_enroll_request demo_key_database =
       Inr (reply, d', es) \<and> devices d' = [r] \<and>
     get_current_device (dw_verify demo_device_world) (ek_device_token reply) d' = Inr r \<and>
     enroll_by_key demo_device_world demo_env ''12345678'' ''other'' demo_enroll_request d' =
       Inl (HTTPException 401 ''Invalid pre-auth key'')"
proof -
  obtain reply d' es where run: "enroll_by_key demo_device_world demo_env ''abcdefgh'' ''secret''
      demo_enroll_request demo_key_database = Inr (reply, d', es)" using demo_enrollment by (elim exE)
  have "\<exists>r. devices d' = devices demo_key_database @ [r] \<and>
      get_current_device (dw_verify demo_device_world) (ek_device_token reply) d' = Inr r \<and>
      (\<exists>k. find_preauth (eq_preauth_key demo_enroll_request) demo_key_database = Inr (Some k) \<and>
        (\<not> pk_reusable k \<longrightarrow> enroll_by_key demo_device_world demo_env ''12345678'' ''other''
          (demo_enroll_request\<lparr>eq_preauth_key := eq_preauth_key demo_enroll_request\<rparr>) d' =
            Inl (HTTPException 401 ''Invalid pre-auth key'')))"
    using enrollment_end_to_end [OF run, of demo_env demo_device_world demo_env "''12345678''" "''other''" demo_enroll_request]
    by (simp add: demo_device_world_def demo_key_database_def empty_database_def) blast
  then show ?thesis
    using run by (auto simp: find_preauth_def demo_key_database_def demo_enroll_request_def empty_database_def)
qed

lemma world_config_inactive:
  assumes "\<And>x. x \<in> set (devices d) \<Longrightarrow> dev_id x = dev_id r \<Longrightarrow> \<not> dev_is_active x"
  shows "\<exists>err. world_config w now d r = Inl err"
proof (cases "build_network_state d (dev_network_id r)")
  case (Inr n)
  have "find (\<lambda>s. ds_id s = dev_id r) (fst (build_device_states d (dev_network_id r))) = None"
    using assms
    by (auto simp: build_device_states_def find_None_iff active_devices_def is_member_def device_state_of_def Let_def)
  then show ?thesis using Inr by (simp add: build_config_v2_def case_prod_beta Let_def)
qed (simp add: build_config_v2_def)

lemma write_device_rows:
  "x \<in> set (devices (write_device now did f d)) \<Longrightarrow> (\<And>r. dev_id (f r) = dev_id r) \<Longrightarrow> dev_id x = did \<Longrightarrow>
     \<exists>r \<in> set (devices d). dev_id r = did \<and> (x = f r \<or> x = (f r)\<lparr>dev_updated_at := now\<rparr>)"
  by (auto simp: write_device_def update_row_def split: if_splits)

lemma write_device_keys:
  "(\<And>r. dev_id (f r) = dev_id r) \<Longrightarrow> map dev_id (devices (write_device now did f d)) = map dev_id (devices d)"
  unfolding write_device_def by simp (rule dev.keys_update_row, simp)

lemma write_device_others:
  "(\<And>r. dev_id (f r) = dev_id r) \<Longrightarrow>
     filter (\<lambda>r. dev_id r \<noteq> did) (devices (write_device now did f d)) = filter (\<lambda>r. dev_id r \<noteq> did) (devices d)"
  by (simp add: write_device_def, rule filter_update_row_other) auto

lemma owns_by_query_Inr:
  "owns_by_query u r d = Inr () \<Longrightarrow> user_is_superuser u \<or>
     (\<exists>n \<in> set (networks d). net_id n = dev_network_id r \<and> net_owner_id n = Some (user_id u))"
  by (auto simp: owns_by_query_def bind_result_eq_Inr dest!: scalar_one_or_none_mem split: if_splits option.splits)

text \<open>The renderer of configurations only looks at active devices.\<close>

lemma generate_configs_loop_keys:
  "generate_configs_loop dec plan cfg sn sid dns rs acc = Inr out \<Longrightarrow>
     fst ` set out \<subseteq> dev_id ` set rs \<union> fst ` set acc"
proof (induction rs arbitrary: acc)
  case (Cons r rs)
  show ?case
  proof (cases "\<not> truthy_str (dev_private_key_enc r) \<or> \<not> truthy_str (dev_ip_address r) \<or> \<not> truthy_str (dev_public_key r)")
    case True
    with Cons.prems have "generate_configs_loop dec plan cfg sn sid dns rs acc = Inr out" by simp
    from Cons.IH [OF this] show ?thesis by auto
  next
    case False
    with Cons.prems obtain c where "generate_configs_loop dec plan cfg sn sid dns rs (AList.update (dev_id r) c acc) = Inr out"
      by (auto simp: bind_result_eq_Inr simp del: AList.update.simps)
    from Cons.IH [OF this] show ?thesis by (auto simp: dom_update)
  qed
qed simp

lemma get_device_config_inactive:
  assumes "\<And>r. r \<in> set (devices d) \<Longrightarrow> dev_id r = did \<Longrightarrow> \<not> dev_is_active r"
  shows "get_device_config dec so cfg d did \<noteq> Inr c"
proof -
  have "map_of out did = None"
    if "generate_configs dec gp cfg (active_devices d nid) server n dns rbd ebd = Inr out"
    for gp nid server n dns rbd ebd out
  proof -
    from that have "fst ` set out \<subseteq> dev_id ` set (active_devices d nid)"
      unfolding generate_configs_def Let_def by (rule order.trans [OF generate_configs_loop_keys]) simp
    moreover have "did \<notin> dev_id ` set (active_devices d nid)"
      using assms by (auto simp: active_devices_def is_member_def)
    ultimately show ?thesis by (auto simp: map_of_eq_None_iff)
  qed
  then show ?thesis
    by (auto simp: get_device_config_def bind_result_eq_Inr Let_def split: option.splits if_splits)
qed

text \<open>
  C30. Revocation. It is open to the owner of the device's network and to superusers. The row of the
  device becomes inactive, gets the status \<open>revoked\<close> and the time of the request. From then on no
  token authenticates as the device, whatever its hash, nobody can fetch a configuration for it from
  either of the two endpoints, and the other devices are untouched. The announcement to its peers,
  however, is never sent: it needs the configuration of the device, which can no longer be built,
  and the error is swallowed.
\<close>

theorem device_revocation_effective:
  assumes "revoke_device w e did u d = Inr ((), d', es)"
  shows "(\<exists>r \<in> set (devices d). dev_id r = did \<and> (user_is_superuser u \<or>
        (\<exists>n \<in> set (networks d). net_id n = dev_network_id r \<and> net_owner_id n = Some (user_id u)))) \<and>
     did \<in> dev_id ` set (devices d') \<and>
     (\<forall>r \<in> set (devices d'). dev_id r = did \<longrightarrow> \<not> dev_is_active r \<and>
        dev_enrollment_status r = ''revoked'' \<and> dev_revoked_at r = Some (env_now e 0)) \<and>
     (\<forall>verify token r. get_current_device verify token d' = Inr r \<longrightarrow> dev_id r \<noteq> did) \<and>
     (\<forall>e' header c. get_device_config_v2 w e' did header d' \<noteq> Inr c) \<and>
     (\<forall>w' u' c. get_device_config_endpoint w' did u' d' \<noteq> Inr c) \<and>
     filter (\<lambda>r. dev_id r \<noteq> did) (devices d') = filter (\<lambda>r. dev_id r \<noteq> did) (devices d) \<and>
     es = audit_metric ''device.revoke''"
proof -
  let ?f = "\<lambda>r. r\<lparr>dev_enrollment_status := ''revoked'', dev_is_active := False, dev_revoked_at := Some (env_now e 0)\<rparr>"
  let ?d1 = "write_device (env_now e 1) did ?f d"
  from assms obtain r where r: "lookup_device did d = Inr r" and own: "owns_by_query u r d = Inr ()"
    and d': "devices d' = devices ?d1"
    and es: "es = publish_config_change w (env_now e 2) (?f r) ''device.revoked'' ?d1 @ audit_metric ''device.revoke''"
    by (auto simp: revoke_device_def bind_result_eq_Inr Let_def split: if_splits)
  have revoked: "\<not> dev_is_active x \<and> dev_enrollment_status x = ''revoked'' \<and> dev_revoked_at x = Some (env_now e 0)"
    if "x \<in> set (devices ?d1)" "dev_id x = did" for x
    using write_device_rows [OF that(1) _ that(2)] by auto
  then have inactive: "\<not> dev_is_active x" if "x \<in> set (devices ?d1)" "dev_id x = did" for x
    using that by blast
  have "map dev_id (devices ?d1) = map dev_id (devices d)" by (rule write_device_keys) simp
  then have "dev_id ` set (devices ?d1) = dev_id ` set (devices d)" by (metis list.set_map)
  then have there: "did \<in> dev_id ` set (devices d')" using lookup_device_Inr [OF r] d' by auto
  have ini: "get_device_config_endpoint w' did u' d' \<noteq> Inr c" for w' u' c
    using get_device_config_inactive [of d' did] inactive d'
    by (auto simp: get_device_config_endpoint_def bind_result_eq_Inr)
  have "\<exists>err. world_config w (env_now e 2) ?d1 (?f r) = Inl err"
    using lookup_device_Inr [OF r] inactive by (intro world_config_inactive) auto
  then have es': "es = audit_metric ''device.revoke''" by (auto simp: es publish_config_change_def)
  have auth: "dev_id x \<noteq> did" if "get_current_device verify token d' = Inr x" for verify token x
  proof -
    have "lookup_device_by_token verify token d' = Inr (Some x)"
      using that by (auto simp: get_current_device_def bind_result_eq_Inr split: option.splits)
    from lookup_device_by_token_Some [OF this] show ?thesis using inactive d' by auto
  qed
  have "get_device_config_v2 w e' did header d' \<noteq> Inr c" for e' header c
  proof
    assume "get_device_config_v2 w e' did header d' = Inr c"
    then obtain x where "lookup_device did d' = Inr x" "dev_is_active x"
      by (auto simp: get_device_config_v2_def Let_def bind_result_eq_Inr split: if_splits)
    then show False using inactive d' by (auto dest: lookup_device_Inr)
  qed
  then show ?thesis
    using lookup_device_Inr [OF r] owns_by_query_Inr [OF own] auth es' d' there revoked ini
      write_device_others [of ?f did "env_now e 1" d]
    by auto
qed

theorem device_revocation_effective_witness:
  "\<exists>d' es. revoke_device demo_device_world demo_env ''a'' demo_owner
       (empty_database\<lparr>networks := [demo_network], devices := [demo_device ''a'' ''n'' None]\<rparr>) = Inr ((), d', es) \<and>
     map dev_is_active (devices d') = [False] \<and> map dev_enrollment_status (devices d') = [''revoked''] \<and>
     es = audit_metric ''device.revoke''"
proof -
  obtain d' es where run: "revoke_device demo_device_world demo_env ''a'' demo_owner
       (empty_database\<lparr>networks := [demo_network], devices := [demo_device ''a'' ''n'' None]\<rparr>) = Inr ((), d', es)"
    by (simp add: revoke_device_def lookup_device_def demo_device_def owns_by_query_def demo_owner_def
        demo_network_def Let_def)
  then have "length (devices d') = 1" "map dev_id (devices d') = [''a'']"
    by (auto simp: revoke_device_def lookup_device_def demo_device_def owns_by_query_def demo_owner_def
        demo_network_def Let_def write_device_def update_row_def)
  then obtain x where "devices d' = [x]" "dev_id x = ''a''" by (auto simp: length_Suc_conv)
  with device_revocation_effective [OF run] run show ?thesis by auto
qed

text \<open>
  The configuration endpoint does not look at ownership: for any two active users with a valid
  access token the answer for a device is the same, so every user can read every device's
  configuration.
\<close>

theorem config_v2_open_to_all_users:
  assumes "token_user w (env_now e 0) t1 d = Inr (Some u1)" and "token_user w (env_now e 0) t2 d = Inr (Some u2)"
    and "t1 \<noteq> []" and "t2 \<noteq> []"
  shows "get_device_config_v2 w e did (Some (''Bearer '' @ t1)) d = get_device_config_v2 w e did (Some (''Bearer '' @ t2)) d"
  unfolding bearer_split [OF assms(3)] bearer_split [OF assms(4)] using assms(1,2) by simp

theorem config_v2_open_to_all_users_witness:
  "get_device_config_v2 (demo_device_world\<lparr>dw_jwt_decode := (\<lambda>_ t. Some [(''type'', JStr ''access''), (''sub'', JStr t)])\<rparr>)
      demo_env ''a'' (Some (''Bearer '' @ ''00000000-0000-0000-0000-000000000001''))
      (empty_database\<lparr>users := [demo_owner\<lparr>user_id := ''00000000-0000-0000-0000-000000000001''\<rparr>,
         demo_owner\<lparr>user_id := ''00000000-0000-0000-0000-000000000002''\<rparr>]\<rparr>) =
   get_device_config_v2 (demo_device_world\<lparr>dw_jwt_decode := (\<lambda>_ t. Some [(''type'', JStr ''access''), (''sub'', JStr t)])\<rparr>)
      demo_env ''a'' (Some (''Bearer '' @ ''00000000-0000-0000-0000-000000000002''))
      (empty_database\<lparr>users := [demo_owner\<lparr>user_id := ''00000000-0000-0000-0000-000000000001''\<rparr>,
         demo_owner\<lparr>user_id := ''00000000-0000-0000-0000-000000000002''\<rparr>]\<rparr>)"
proof (rule config_v2_open_to_all_users)
  let ?a = "''00000000-0000-0000-0000-000000000001''" and ?b = "''00000000-0000-0000-0000-000000000002''"
  have "parse_uuid ?a = Inr ?a" "parse_uuid ?b = Inr ?b" by code_simp+
  then show "token_user (demo_device_world\<lparr>dw_jwt_decode := (\<lambda>_ t. Some [(''type'', JStr ''access''), (''sub'', JStr t)])\<rparr>)
      (env_now demo_env 0) ?a (empty_database\<lparr>users := [demo_owner\<lparr>user_id := ?a\<rparr>, demo_owner\<lparr>user_id := ?b\<rparr>]\<rparr>) =
      Inr (Some (demo_owner\<lparr>user_id := ?a\<rparr>))"
    "token_user (demo_device_world\<lparr>dw_jwt_decode := (\<lambda>_ t. Some [(''type'', JStr ''access''), (''sub'', JStr t)])\<rparr>)
      (env_now demo_env 0) ?b (empty_database\<lparr>users := [demo_owner\<lparr>user_id := ?a\<rparr>, demo_owner\<lparr>user_id := ?b\<rparr>]\<rparr>) =
      Inr (Some (demo_owner\<lparr>user_id := ?b\<rparr>))"
    by (simp_all add: token_user_def demo_device_world_def dict_get_def dict_get_default_def demo_owner_def)
qed simp_all

section \<open>Administration as a transition system\<close>

text \<open>
  One successful request that creates, changes or deletes networks and devices, with the addresses
  the request names itself: an enrollment by a user and a heartbeat may carry one, which is stored
  unchecked. Ids drawn for new rows are fresh.
\<close>

inductive admin_step :: "device_world \<Rightarrow> string set \<Rightarrow> database \<Rightarrow> database \<Rightarrow> bool" for w where
  s_create_network: "create_network encrypt keypair e nreq u d = Inr (n, d', es) \<Longrightarrow>
     env_uuid e 0 \<notin> net_id ` set (networks d) \<Longrightarrow> env_uuid e 1 \<notin> dev_id ` set (devices d) \<Longrightarrow> admin_step w {} d d'"
| s_update_network: "update_network e nid ureq u d = Inr (n, d', es) \<Longrightarrow> admin_step w {} d d'"
| s_delete_network: "delete_network e nid u d = Inr ((), d', es) \<Longrightarrow> admin_step w {} d d'"
| s_create_device: "create_device encrypt keypair e nid dreq u d = Inr (r, d', es) \<Longrightarrow>
     env_uuid e 0 \<notin> dev_id ` set (devices d) \<Longrightarrow> admin_step w {} d d'"
| s_create_node_device: "create_node_device e nid dreq u d = Inr (r, d', es) \<Longrightarrow>
     env_uuid e 0 \<notin> dev_id ` set (devices d) \<Longrightarrow> admin_step w {} d d'"
| s_create_key: "create_preauth_key e rnd nid reusable hours u d = Inr (k, d', es) \<Longrightarrow> admin_step w {} d d'"
| s_delete_key: "delete_preauth_key e nid kid u d = Inr ((), d', es) \<Longrightarrow> admin_step w {} d d'"
| s_update_device: "update_device e did req u d = Inr (r, d', es) \<Longrightarrow> admin_step w {} d d'"
| s_enroll: "enroll_device w e raw secret did key ip u d = Inr (er, d', es) \<Longrightarrow> admin_step w (set_option ip) d d'"
| s_heartbeat: "device_heartbeat e did key ip d = Inr (reply, d', es) \<Longrightarrow> admin_step w (set_option ip) d d'"
| s_rotate: "rotate_device_token w e raw secret did cur d = Inr (t, d', es) \<Longrightarrow> admin_step w {} d d'"
| s_revoke: "revoke_device w e did u d = Inr ((), d', es) \<Longrightarrow> admin_step w {} d d'"
| s_enroll_by_key: "enroll_by_key w e raw secret ereq d = Inr (er, d', es) \<Longrightarrow>
     env_uuid e 0 \<notin> dev_id ` set (devices d) \<Longrightarrow> admin_step w {} d d'"
| s_register: "register_device w e keypair key name d = Inr (r, d', es) \<Longrightarrow>
     env_uuid e 0 \<notin> dev_id ` set (devices d) \<Longrightarrow> admin_step w {} d d'"

text \<open>A run from the empty database, with all the addresses its requests have named.\<close>

inductive admin_run :: "device_world \<Rightarrow> string set \<Rightarrow> database \<Rightarrow> bool" for w where
  a_start: "admin_run w {} empty_database"
| a_step: "admin_run w A d \<Longrightarrow> admin_step w B d d' \<Longrightarrow> admin_run w (A \<union> B) d'"

text \<open>The addresses of a network that nobody asked for are held once.\<close>

definition unique_except :: "string set \<Rightarrow> database \<Rightarrow> bool" where
  "unique_except A d \<longleftrightarrow> (\<forall>nid. distinct (filter (\<lambda>a. a \<notin> A) (device_addresses d nid)))"

lemma unique_except_insert:
  assumes "unique_except A d"
    and "\<And>ip. dev_ip_address r = Some ip \<Longrightarrow> ip \<notin> used_ips d (dev_network_id r)"
  shows "unique_except A (d\<lparr>devices := devices d @ [r]\<rparr>)"
proof -
  have a: "device_addresses (d\<lparr>devices := devices d @ [r]\<rparr>) nid =
      device_addresses d nid @ (if dev_network_id r = nid then map the (filter (\<lambda>a. a \<noteq> None) [dev_ip_address r]) else [])" for nid
    by (simp add: device_addresses_def)
  show ?thesis
    using assms unfolding unique_except_def a by (cases "dev_ip_address r") (auto simp: set_device_addresses)
qed

definition tenancy_inv :: "string set \<Rightarrow> database \<Rightarrow> bool" where
  "tenancy_inv A d \<longleftrightarrow> devices_ok (devices d) \<and> networks_ok (networks d) \<and> unique_except A d \<and>
     list_all (\<lambda>r. dev_network_id r \<in> net_id ` set (networks d)) (devices d)"

lemma tenancy_inv_cong:
  "devices d' = devices d \<Longrightarrow> networks d' = networks d \<Longrightarrow> tenancy_inv A d' \<longleftrightarrow> tenancy_inv A d"
  by (simp add: tenancy_inv_def unique_except_def device_addresses_def)

lemma tenancy_audit [simp]: "tenancy_inv A (audit e i ac a at tt t dt d) \<longleftrightarrow> tenancy_inv A d"
  by (rule tenancy_inv_cong) simp_all

lemma tenancy_consume [simp]: "tenancy_inv A (consume_key k i d) \<longleftrightarrow> tenancy_inv A d"
  by (rule tenancy_inv_cong) simp_all

lemma tenancy_keys [simp]: "tenancy_inv A (d\<lparr>preauth_keys := ks\<rparr>) \<longleftrightarrow> tenancy_inv A d"
  by (rule tenancy_inv_cong) simp_all

lemma tenancy_add_device:
  assumes "tenancy_inv A d" and "dev_id r \<notin> dev_id ` set (devices d)" and "dev_network_id r \<in> net_id ` set (networks d)"
    and "\<And>ip. dev_ip_address r = Some ip \<Longrightarrow> ip \<notin> used_ips d (dev_network_id r)"
  shows "tenancy_inv A (add_device r d)"
  using assms unique_except_insert [of A d r]
  by (simp add: tenancy_inv_def add_device_def dev.ok_insert)

text \<open>Changes that keep a device's id, network and address keep the invariant.\<close>

lemma device_addresses_update:
  assumes "\<And>r. dev_network_id (f r) = dev_network_id r" and "\<And>r. dev_ip_address (f r) = dev_ip_address r"
  shows "device_addresses (d\<lparr>devices := update_row dev_id did f (devices d)\<rparr>) nid = device_addresses d nid"
proof -
  have "map (\<lambda>r. the (dev_ip_address r)) (filter (\<lambda>r. dev_network_id r = nid \<and> dev_ip_address r \<noteq> None)
      (update_row dev_id did f ds)) =
    map (\<lambda>r. the (dev_ip_address r)) (filter (\<lambda>r. dev_network_id r = nid \<and> dev_ip_address r \<noteq> None) ds)" for ds
    unfolding update_row_def by (induction ds) (simp_all add: assms)
  then show ?thesis by (simp add: device_addresses_def)
qed

lemma tenancy_update_row:
  assumes "tenancy_inv A d" and "\<And>r. dev_id (f r) = dev_id r" and "\<And>r. dev_network_id (f r) = dev_network_id r"
    and "\<And>r. dev_ip_address (f r) = dev_ip_address r"
  shows "tenancy_inv A (d\<lparr>devices := update_row dev_id did f (devices d)\<rparr>)"
  using assms
  by (auto simp: tenancy_inv_def unique_except_def device_addresses_update dev.ok_update_row list_all_iff
      set_update_row)

lemma tenancy_write_device:
  assumes "tenancy_inv A d" and "\<And>r. dev_id (f r) = dev_id r" and "\<And>r. dev_network_id (f r) = dev_network_id r"
    and "\<And>r. dev_ip_address (f r) = dev_ip_address r"
  shows "tenancy_inv A (write_device now did f d)"
  unfolding write_device_def by (rule tenancy_update_row [OF assms(1)]) (simp_all add: assms(2-4))

lemma tenancy_save_keys: "tenancy_inv A d \<Longrightarrow> tenancy_inv A (save_device_keys enc kp now did d)"
  unfolding save_device_keys_def by (rule tenancy_update_row) simp_all

lemma tenancy_update_network:
  assumes "tenancy_inv A d" and "\<And>n. net_id (f n) = net_id n"
  shows "tenancy_inv A (d\<lparr>networks := update_row net_id nid f (networks d)\<rparr>)"
proof -
  have "net_id ` set (update_row net_id nid f (networks d)) = net_id ` set (networks d)"
    using net.keys_update_row [of f nid "networks d"] assms(2) by (metis list.set_map)
  then show ?thesis
    using assms by (simp add: tenancy_inv_def unique_except_def device_addresses_def net.ok_update_row)
qed

lemma tenancy_delete:
  assumes "tenancy_inv A d" and "devices d' = filter (\<lambda>x. dev_network_id x \<noteq> nid) (devices d)"
    and "networks d' = filter (\<lambda>x. net_id x \<noteq> nid) (networks d)"
  shows "tenancy_inv A d'"
proof -
  have "device_addresses d' i = (if i = nid then [] else device_addresses d i)" for i
    by (auto simp: device_addresses_def assms(2) filter_empty_conv intro!: arg_cong [where f = "map _"] filter_cong)
  then show ?thesis
    using assms
    by (auto simp: tenancy_inv_def unique_except_def devices_ok_def networks_ok_def distinct_map_filter list_all_iff)
qed

lemma tenancy_allocated:
  assumes "tenancy_inv A d" and "dev_id r \<notin> dev_id ` set (devices d)" and "n \<in> set (networks d)"
    and "net_id n = dev_network_id r" and "allocate_ip d (dev_network_id r) subnet = Inr ip" and "dev_ip_address r = Some ip"
  shows "tenancy_inv A (add_device r d)"
  using assms allocated_address [OF assms(5)] by (intro tenancy_add_device) (auto intro: image_eqI [of _ _ n])

lemma tenancy_create_network:
  assumes "tenancy_inv A d" and "create_network enc kp e req u d = Inr (n, d', es)"
    and "env_uuid e 0 \<notin> net_id ` set (networks d)" and "env_uuid e 1 \<notin> dev_id ` set (devices d)"
  shows "tenancy_inv A d'"
proof -
  from assms(2) obtain r i ac a at tt t dt where d': "d' = audit e i ac a at tt t dt (add_device r (d\<lparr>networks := networks d @ [n]\<rparr>))"
    and r: "dev_id r = env_uuid e 1" "dev_network_id r = net_id n" and n: "net_id n = env_uuid e 0"
    by (auto simp: create_network_def new_device_def Let_def split: option.splits list.splits)
  have fresh: "\<forall>x \<in> set (devices d). dev_network_id x \<noteq> net_id n"
    using assms(1,3) unfolding tenancy_inv_def list_all_iff n by metis
  have "tenancy_inv A (d\<lparr>networks := networks d @ [n]\<rparr>)"
    using assms(1,3) n
    by (auto simp: tenancy_inv_def unique_except_def device_addresses_def list_all_iff net.ok_insert)
  moreover have "used_ips (d\<lparr>networks := networks d @ [n]\<rparr>) (net_id n) = {}"
    using fresh by (simp add: used_ips_def filter_empty_conv)
  ultimately show ?thesis
    unfolding d' tenancy_audit using assms(4) r by (intro tenancy_add_device) auto
qed

lemma tenancy_create_device:
  assumes "tenancy_inv A d" and "create_device enc kp e nid req u d = Inr (r', d', es)"
    and "env_uuid e 0 \<notin> dev_id ` set (devices d)"
  shows "tenancy_inv A d'"
proof -
  from assms(2) obtain n ip r i ac a at tt t dt now where n: "require_network_owner nid u d = Inr n"
    and ip: "allocate_ip d nid (net_subnet n) = Inr ip"
    and d': "d' = audit e i ac a at tt t dt (save_device_keys enc kp now (dev_id r) (add_device r d))"
    and r: "dev_id r = env_uuid e 0" "dev_network_id r = nid" "dev_ip_address r = Some ip"
    by (force simp: create_device_def new_device_def Let_def bind_result_eq_Inr)
  show ?thesis
    unfolding d' tenancy_audit using assms r ip require_network_owner_Inr [OF n]
    by (intro tenancy_save_keys tenancy_allocated [of A d r n]) auto
qed

lemma tenancy_create_node_device:
  assumes "tenancy_inv A d" and "create_node_device e nid req u d = Inr (r, d', es)"
    and "env_uuid e 0 \<notin> dev_id ` set (devices d)"
  shows "tenancy_inv A d'"
proof -
  from assms(2) obtain n ip i ac a at tt t dt where n: "require_network_owner nid u d = Inr n"
    and ip: "allocate_ip d nid (net_subnet n) = Inr ip"
    and d': "d' = audit e i ac a at tt t dt (add_device r d)"
    and r: "dev_id r = env_uuid e 0" "dev_network_id r = nid" "dev_ip_address r = Some ip"
    by (force simp: create_node_device_def new_device_def Let_def bind_result_eq_Inr)
  show ?thesis
    unfolding d' tenancy_audit using assms r ip require_network_owner_Inr [OF n]
    by (intro tenancy_allocated [of A d r n]) auto
qed

lemma tenancy_register:
  assumes "tenancy_inv A d" and "register_device w e kp key name d = Inr (r', d', es)"
    and "env_uuid e 0 \<notin> dev_id ` set (devices d)"
  shows "tenancy_inv A d'"
proof -
  let ?r = "\<lambda>k ip. new_device (env_uuid e 0) (env_now e 1) (env_now e 2) name None (pk_network_id k) ip"
  from assms(2) obtain k n ip where
    n: "scalar_one (filter (\<lambda>n. net_id n = pk_network_id k) (networks d)) = Inr n"
    and ip: "allocate_ip d (pk_network_id k) (net_subnet n) = Inr ip"
    and d': "d' = audit e 4 ''device.register'' (Some (dev_id (?r k ip))) ''device'' ''device'' (Some (dev_id (?r k ip)))
        (created_details name (pk_network_id k) ip) (consume_key k (dev_id (?r k ip))
        (save_device_keys (dw_encrypt w) kp (env_now e 3) (dev_id (?r k ip)) (add_device (?r k ip) d)))"
    unfolding register_device_def Let_def
    by (auto simp add: bind_result_eq_Inr split: option.splits if_splits simp del: consume_key_tables)
  have r: "dev_id (?r k ip) = env_uuid e 0" "dev_network_id (?r k ip) = pk_network_id k" "dev_ip_address (?r k ip) = Some ip"
    by (simp_all add: new_device_def)
  show ?thesis
    unfolding d' tenancy_audit tenancy_consume using assms r ip scalar_one_mem [OF n]
    by (intro tenancy_save_keys tenancy_allocated [of A d _ n]) auto
qed

lemma tenancy_enroll_by_key:
  assumes "tenancy_inv A d" and "enroll_by_key w e raw secret req d = Inr (reply, d', es)"
    and "env_uuid e 0 \<notin> dev_id ` set (devices d)"
  shows "tenancy_inv A d'"
  using assms(2)
proof (cases rule: enroll_by_key_Inr)
  case (1 k n ip token prefix hashed r)
  have r: "dev_id r = env_uuid e 0" "dev_network_id r = pk_network_id k" "dev_ip_address r = Some ip"
    by (simp_all add: 1(7) new_device_def)
  have "tenancy_inv A (add_device r d)"
    using assms(1,3) r 1(3-5) by (intro tenancy_allocated [of A d r n]) simp_all
  then show ?thesis
    by (rule iffD2 [OF tenancy_inv_cong, rotated 2]) (simp_all add: 1(9,10) add_device_def)
qed

lemma asked_cons:
  fixes g r :: device
  assumes "distinct (filter (\<lambda>a. a \<notin> A \<union> B) ys) \<and>
      set (filter (\<lambda>a. a \<notin> A \<union> B) ys) \<subseteq> set (filter (\<lambda>a. a \<notin> A) xs)"
    and "distinct (filter (\<lambda>a. a \<notin> A)
      ((if dev_network_id r = nid then case dev_ip_address r of None \<Rightarrow> [] | Some a \<Rightarrow> [a] else []) @ xs))"
    and "dev_network_id g = dev_network_id r" and "dev_ip_address g = dev_ip_address r \<or> set_option (dev_ip_address g) \<subseteq> B"
  shows "distinct (filter (\<lambda>a. a \<notin> A \<union> B)
      ((if dev_network_id g = nid then case dev_ip_address g of None \<Rightarrow> [] | Some a \<Rightarrow> [a] else []) @ ys)) \<and>
    set (filter (\<lambda>a. a \<notin> A \<union> B)
      ((if dev_network_id g = nid then case dev_ip_address g of None \<Rightarrow> [] | Some a \<Rightarrow> [a] else []) @ ys)) \<subseteq>
    set (filter (\<lambda>a. a \<notin> A)
      ((if dev_network_id r = nid then case dev_ip_address r of None \<Rightarrow> [] | Some a \<Rightarrow> [a] else []) @ xs))"
  using assms
  by (cases "dev_network_id r = nid"; cases "dev_ip_address r"; cases "dev_ip_address g"; simp split: if_splits; blast?)

text \<open>A request that names addresses can only spoil the addresses it names.\<close>

lemma asked_addresses:
  fixes rows :: "device list"
  defines "addresses \<equiv> \<lambda>rows nid. map (\<lambda>r. the (dev_ip_address r)) (filter (\<lambda>r. dev_network_id r = nid \<and> dev_ip_address r \<noteq> None) rows)"
  assumes "\<And>r. dev_network_id (f r) = dev_network_id r"
    and "\<And>r. dev_ip_address (f r) = dev_ip_address r \<or> set_option (dev_ip_address (f r)) \<subseteq> B"
    and "distinct (filter (\<lambda>a. a \<notin> A) (addresses rows nid))"
  shows "distinct (filter (\<lambda>a. a \<notin> A \<union> B) (addresses (update_row dev_id did f rows) nid)) \<and>
    set (filter (\<lambda>a. a \<notin> A \<union> B) (addresses (update_row dev_id did f rows) nid)) \<subseteq>
      set (filter (\<lambda>a. a \<notin> A) (addresses rows nid))"
  using assms(4)
proof (induction rows)
  case Nil
  show ?case by (simp add: addresses_def update_row_def)
next
  case (Cons r rows)
  let ?g = "if dev_id r = did then f r else r"
  have step: "dev_network_id ?g = dev_network_id r"
    "dev_ip_address ?g = dev_ip_address r \<or> set_option (dev_ip_address ?g) \<subseteq> B"
    using assms(2,3) by simp_all
  have up: "update_row dev_id did f (r # rows) = ?g # update_row dev_id did f rows"
    by (simp add: update_row_def)
  have "distinct (filter (\<lambda>a. a \<notin> A) (addresses rows nid))"
    using Cons.prems by (auto simp: addresses_def split: if_splits)
  note IH = Cons.IH [OF this]
  have cons: "addresses (x # xs) nid =
      (if dev_network_id x = nid then case dev_ip_address x of None \<Rightarrow> [] | Some a \<Rightarrow> [a] else []) @ addresses xs nid" for x xs
    by (simp add: addresses_def split: option.split)
  show ?case
    unfolding up cons using IH Cons.prems [unfolded cons] step
    by (rule asked_cons)
qed

lemma tenancy_asked:
  assumes "tenancy_inv A d" and "\<And>r. dev_id (f r) = dev_id r" and "\<And>r. dev_network_id (f r) = dev_network_id r"
    and "\<And>r. dev_ip_address (f r) = dev_ip_address r \<or> set_option (dev_ip_address (f r)) \<subseteq> B"
  shows "tenancy_inv (A \<union> B) (d\<lparr>devices := update_row dev_id did f (devices d)\<rparr>)"
  using assms(1,2,3) asked_addresses [OF assms(3,4), of A _ "devices d" did]
  by (auto simp: tenancy_inv_def unique_except_def device_addresses_def dev.ok_update_row list_all_iff set_update_row
      simp del: Un_iff)

lemma tenancy_asked_write:
  assumes "tenancy_inv A d" and "\<And>r. dev_id (f r) = dev_id r" and "\<And>r. dev_network_id (f r) = dev_network_id r"
    and "\<And>r. dev_ip_address (f r) = dev_ip_address r \<or> set_option (dev_ip_address (f r)) \<subseteq> B"
  shows "tenancy_inv (A \<union> B) (write_device now did f d)"
  unfolding write_device_def by (rule tenancy_asked [OF assms(1)]) (use assms(2-4) in simp_all)

lemma heartbeat_touch:
  fixes r r3 :: device
  shows "dev_id (if a then r3\<lparr>dev_updated_at := now\<rparr> else if r3 = r then r else r3\<lparr>dev_updated_at := flush\<rparr>) = dev_id r3"
    "dev_network_id (if a then r3\<lparr>dev_updated_at := now\<rparr> else if r3 = r then r else r3\<lparr>dev_updated_at := flush\<rparr>) = dev_network_id r3"
    "dev_ip_address (if a then r3\<lparr>dev_updated_at := now\<rparr> else if r3 = r then r else r3\<lparr>dev_updated_at := flush\<rparr>) = dev_ip_address r3"
  by (cases a; cases "r3 = r"; simp)+

lemma apply_heartbeat_ids:
  "dev_id (apply_heartbeat now flush key ip r) = dev_id r"
  "dev_network_id (apply_heartbeat now flush key ip r) = dev_network_id r"
  "dev_ip_address (apply_heartbeat now flush key ip r) = dev_ip_address r \<or>
   set_option (dev_ip_address (apply_heartbeat now flush key ip r)) \<subseteq> set_option ip"
  unfolding apply_heartbeat_def Let_def heartbeat_touch by simp_all

lemma admin_step_tenancy:
  assumes "admin_step w B d d'" and "tenancy_inv A d"
  shows "tenancy_inv (A \<union> B) d'"
  using assms
proof cases
  case (s_update_network e nid req u n es)
  then show ?thesis
    using assms(2) by (auto simp: update_network_def bind_result_eq_Inr apply_network_update_def intro!: tenancy_update_network)
next
  case (s_delete_network e nid u es)
  then show ?thesis
    using assms(2) delete_network_Inr [of d e nid u d' es] tenancy_delete [of A d d' nid]
    by (simp add: tenancy_inv_def)
next
  case (s_update_device e did req u r es)
  then show ?thesis
    using assms(2)
    by (auto simp: update_device_def bind_result_eq_Inr Let_def apply_device_update_def split: if_splits
        intro!: tenancy_write_device)
next
  case (s_enroll e raw secret did key ip u er es)
  then show ?thesis
    using assms(2)
    by (auto simp: enroll_device_def bind_result_eq_Inr Let_def truthy_str_def case_prod_beta simp del: Un_iff split: if_splits
        intro!: tenancy_asked_write)
next
  case (s_heartbeat e did key ip reply es)
  then show ?thesis
    using assms(2)
    by (auto simp: device_heartbeat_def process_heartbeat_def bind_result_eq_Inr simp del: Un_iff split: option.splits
        intro!: tenancy_asked apply_heartbeat_ids)
next
  case (s_rotate e raw secret did cur t es)
  then show ?thesis
    using assms(2)
    by (auto simp: rotate_device_token_def Let_def case_prod_beta split: if_splits intro!: tenancy_write_device)
next
  case (s_revoke e did u es)
  then show ?thesis
    using assms(2)
    by (auto simp: revoke_device_def bind_result_eq_Inr Let_def split: if_splits intro!: tenancy_write_device)
next
  case (s_create_key e rnd nid reusable hours u k es)
  then show ?thesis using assms(2) by (auto simp: create_preauth_key_def bind_result_eq_Inr Let_def split: if_splits)
next
  case (s_delete_key e nid kid u es)
  then show ?thesis
    using assms(2) by (auto simp: delete_preauth_key_def bind_result_eq_Inr split: option.splits)
qed (use assms(2) in \<open>simp only: Un_empty_right, blast intro: tenancy_create_network tenancy_create_device tenancy_create_node_device
    tenancy_enroll_by_key tenancy_register\<close>)+

text \<open>
  C4. The address plan. Whatever sequence of administration, enrollment and heartbeat requests
  runs, starting from the empty database: device ids and network ids stay unique, every device
  belongs to an existing network, and an address is held by two devices of a network only when
  some request has named it (an enrollment by a user or a heartbeat, which store the address they
  carry unchecked). Addresses the backend allocates are never held twice as long as nobody asks
  for them.
\<close>

theorem address_plan_invariant:
  assumes "admin_run w asked d"
  shows "distinct (map dev_id (devices d)) \<and> distinct (map net_id (networks d)) \<and>
    list_all (\<lambda>r. dev_network_id r \<in> net_id ` set (networks d)) (devices d) \<and>
    (\<forall>nid. distinct (filter (\<lambda>a. a \<notin> asked) (device_addresses d nid)))"
proof -
  have "tenancy_inv asked d"
    using assms by (induction rule: admin_run.induct)
      (simp add: tenancy_inv_def unique_except_def empty_database_def device_addresses_def devices_ok_def networks_ok_def,
        rule admin_step_tenancy)
  then show ?thesis by (simp add: tenancy_inv_def unique_except_def devices_ok_def networks_ok_def)
qed

text \<open>
  The witness: a network is created, and its hub then takes an address of its own choice by a
  heartbeat.
\<close>

theorem address_plan_invariant_witness:
  "\<exists>n d es d' reply es'. create_network (\<lambda>s. s) (''priv'', ''pub'') demo_env
      \<lparr>nc_name = ''lan'', nc_subnet = ''10.0.0.0/29'', nc_description = None, nc_interface_name = None\<rparr>
      demo_owner empty_database = Inr (n, d, es) \<and> length (devices d) = 1 \<and>
    device_heartbeat demo_env (env_uuid demo_env 1) None (Some ''10.0.0.6'') d = Inr (reply, d', es') \<and>
    device_addresses d' (net_id n) = [''10.0.0.6''] \<and>
    distinct (filter (\<lambda>a. a \<noteq> ''10.0.0.6'') (device_addresses d' (net_id n)))"
proof -
  obtain n d es where run: "create_network (\<lambda>s. s) (''priv'', ''pub'') demo_env
      \<lparr>nc_name = ''lan'', nc_subnet = ''10.0.0.0/29'', nc_description = None, nc_interface_name = None\<rparr>
      demo_owner empty_database = Inr (n, d, es)" and len: "length (devices d) = 1"
    by (simp add: create_network_def demo_pool_29 Let_def add_device_def empty_database_def)
  from run have hub: "map dev_id (devices d) = [env_uuid demo_env 1]" "map dev_network_id (devices d) = [net_id n]"
    by (auto simp: create_network_def demo_pool_29 Let_def add_device_def empty_database_def new_device_def)
  obtain r where r: "devices d = [r]" "dev_id r = env_uuid demo_env 1" "dev_network_id r = net_id n"
    using hub by (auto simp: map_eq_Cons_conv)
  obtain reply d' es' where beat: "device_heartbeat demo_env (env_uuid demo_env 1) None (Some ''10.0.0.6'') d = Inr (reply, d', es')"
    and d': "d' = d\<lparr>devices := [apply_heartbeat (env_now demo_env 0) (env_now demo_env 1) None (Some ''10.0.0.6'') r]\<rparr>"
    using r by (simp add: device_heartbeat_def process_heartbeat_def update_row_def)
  have "dev_ip_address (apply_heartbeat now flush None (Some ''10.0.0.6'') r) = Some ''10.0.0.6''" for now flush
    by (simp add: apply_heartbeat_def Let_def)
  then have a: "device_addresses d' (net_id n) = [''10.0.0.6'']"
    using r(3) by (simp add: d' device_addresses_def apply_heartbeat_ids(2))
  have "admin_step demo_device_world {} empty_database d"
    by (rule s_create_network [OF run]) (simp_all add: empty_database_def)
  from a_step [OF a_start this] have "admin_run demo_device_world {} d" by simp
  from a_step [OF this s_heartbeat [OF beat]] have "admin_run demo_device_world {''10.0.0.6''} d'" by simp
  from address_plan_invariant [OF this] run len beat a show ?thesis by (intro exI conjI) auto
qed

end
