(* ===== verification/Wg_Adapter.thy ===== *)
theory Wg_Adapter
  imports Domain Py_Strings
begin

text \<open>
  Access to WireGuard interfaces: \<open>services/wg_models.py\<close>, \<open>services/wg_exceptions.py\<close> and
  \<open>services/wg_adapter.py\<close>. The abstract class is the record \<open>wg_adapter\<close> of its operations on a world
  \<open>'w\<close>; the law the controller relies on is the locale \<open>peer_table\<close>. The in-memory adapter interprets
  it. The command-line adapter runs the \<open>wg\<close> binary, which is a parameter: what a run does to the
  world, its exit code, and its two output streams.
\<close>

section \<open>Models and errors\<close>

record wg_peer =
  wp_public_key :: string
  wp_allowed_ips :: "string list"
  wp_endpoint :: "string option"
  wp_latest_handshake :: "datetime option"
  wp_transfer_rx :: int
  wp_transfer_tx :: int
  wp_persistent_keepalive :: "int option"

record wg_interface_state =
  wi_name :: string
  wi_private_key :: "string option"
  wi_public_key :: "string option"
  wi_listen_port :: int
  wi_fwmark :: "string option"
  wi_peers :: "wg_peer list"

datatype wg_error =
    WireGuardInterfaceNotFound string
  | WireGuardCommandError string int string
  | WireGuardKeyError string
  | OtherError py_error

type_synonym 'a wg_result = "wg_error + 'a"
type_synonym ('w, 'a) wg_action = "'w \<Rightarrow> 'w \<times> 'a wg_result"

definition wg_error_text :: "wg_error \<Rightarrow> string" where
  "wg_error_text e =
     (case e of
        WireGuardInterfaceNotFound i \<Rightarrow> ''WireGuard interface not found: '' @ i
      | WireGuardCommandError c r s \<Rightarrow>
          ''wg command failed (exit '' @ str_int r @ ''): '' @ c @ [CHR 0x0A] @ s
      | WireGuardKeyError m \<Rightarrow> m
      | OtherError _ \<Rightarrow> [])"

text \<open>\<open>match\<close> with a pattern that ends in \<open>$\<close>: a line feed may follow.\<close>

definition base64_char :: "char \<Rightarrow> bool" where
  "base64_char c \<longleftrightarrow> is_digit c \<or> c = CHR ''+'' \<or> c = CHR ''/'' \<or>
     (65 \<le> (of_char c :: nat) \<and> (of_char c :: nat) \<le> 90) \<or> (97 \<le> (of_char c :: nat) \<and> (of_char c :: nat) \<le> 122)"

definition peer_key_pattern :: "string \<Rightarrow> bool" where
  "peer_key_pattern s \<longleftrightarrow> length s = 44 \<and> list_all base64_char (take 43 s) \<and> s ! 43 = CHR ''=''"

definition hex_key_pattern :: "string \<Rightarrow> bool" where
  "hex_key_pattern s \<longleftrightarrow> length s = 64 \<and> list_all is_hex_digit s"

definition chomp :: "string \<Rightarrow> string" where
  "chomp s = (if s \<noteq> [] \<and> last s = CHR 0x0A then butlast s else s)"

definition validate_wireguard_key :: "string \<Rightarrow> bool" where
  "validate_wireguard_key key \<longleftrightarrow> key \<noteq> [] \<and> (peer_key_pattern (chomp key) \<or> hex_key_pattern (chomp key))"

section \<open>Adapters\<close>

text \<open>
  \<open>ad_held\<close> is what a state object returned earlier shows now: the in-memory adapter hands out the
  object it keeps on changing.
\<close>

record 'w wg_adapter =
  ad_interface_exists :: "string \<Rightarrow> ('w, bool) wg_action"
  ad_get_interface_state :: "string \<Rightarrow> ('w, wg_interface_state) wg_action"
  ad_held :: "wg_interface_state \<Rightarrow> 'w \<Rightarrow> wg_interface_state"
  ad_add_peer :: "string \<Rightarrow> string \<Rightarrow> string list \<Rightarrow> string option \<Rightarrow> int option \<Rightarrow> ('w, unit) wg_action"
  ad_remove_peer :: "string \<Rightarrow> string \<Rightarrow> ('w, unit) wg_action"
  ad_update_peer :: "string \<Rightarrow> string \<Rightarrow> string list option \<Rightarrow> string option \<Rightarrow> int option \<Rightarrow> ('w, unit) wg_action"
  ad_set_peer_endpoint :: "string \<Rightarrow> string \<Rightarrow> string \<Rightarrow> ('w, unit) wg_action"
  ad_list_interfaces :: "('w, string list) wg_action"

section \<open>The command-line adapter\<close>

type_synonym 'w wg_process = "string list \<Rightarrow> 'w \<Rightarrow> 'w \<times> int \<times> string \<times> string"

definition run_wg :: "'w wg_process \<Rightarrow> string \<Rightarrow> string list \<Rightarrow> ('w, string \<times> string) wg_action" where
  "run_wg proc binary args w =
     (case proc (binary # args) w of
        (w', returncode, stdout, stderr) \<Rightarrow>
          let out = strip stdout; err = strip stderr
          in if returncode \<noteq> 0 then (w', Inl (WireGuardCommandError (join '' '' (binary # args)) returncode err))
             else (w', Inr (out, err)))"

definition parse_dump_timestamp :: "string \<Rightarrow> datetime option wg_result" where
  "parse_dump_timestamp raw0 =
     (let raw = strip raw0 in
      if raw = [] \<or> raw = ''0'' then Inr None
      else case py_int raw of
             Inl _ \<Rightarrow> Inr None
           | Inr ts \<Rightarrow>
               if ts = 0 then Inr None
               else if - 62135596800 \<le> ts \<and> ts \<le> 253402300799 then Inr (Some (timedelta_seconds ts))
               else if - (2 ^ 63) \<le> ts \<and> ts < 2 ^ 63 then Inr None
               else Inl (OtherError OverflowError))"

definition wg_int :: "string \<Rightarrow> int wg_result" where
  "wg_int s = (case py_int s of Inl e \<Rightarrow> Inl (OtherError e) | Inr i \<Rightarrow> Inr i)"

definition bind_wg :: "'a wg_result \<Rightarrow> ('a \<Rightarrow> 'b wg_result) \<Rightarrow> 'b wg_result" where
  "bind_wg r f = (case r of Inl e \<Rightarrow> Inl e | Inr x \<Rightarrow> f x)"

text \<open>One peer line, already split at its tabs.\<close>

definition parse_peer :: "string list \<Rightarrow> wg_peer wg_result" where
  "parse_peer parts =
     bind_wg (parse_dump_timestamp (parts ! 3)) (\<lambda>hs.
       bind_wg (if parts ! 4 \<noteq> [] then wg_int (parts ! 4) else Inr 0) (\<lambda>rx.
         bind_wg (if 5 < length parts \<and> parts ! 5 \<noteq> [] then wg_int (parts ! 5) else Inr 0) (\<lambda>tx.
           bind_wg (if 6 < length parts \<and> parts ! 6 \<noteq> [] \<and> parts ! 6 \<noteq> ''(off)''
                    then bind_wg (wg_int (parts ! 6)) (\<lambda>k. Inr (Some k)) else Inr None) (\<lambda>ka.
             Inr \<lparr>wp_public_key = parts ! 0,
                  wp_allowed_ips = (if parts ! 1 \<noteq> [] then split_on CHR '','' (parts ! 1) else []),
                  wp_endpoint = (if parts ! 2 \<noteq> [] \<and> parts ! 2 \<noteq> ''(none)'' then Some (parts ! 2) else None),
                  wp_latest_handshake = hs, wp_transfer_rx = rx, wp_transfer_tx = tx,
                  wp_persistent_keepalive = ka\<rparr>))))"

fun parse_peers :: "string list \<Rightarrow> wg_peer list wg_result" where
  "parse_peers [] = Inr []"
| "parse_peers (line # lines) =
     (let parts = split_on CHR 0x09 line in
      if strip line = [] \<or> length parts < 5 then parse_peers lines
      else bind_wg (parse_peer parts) (\<lambda>p. bind_wg (parse_peers lines) (\<lambda>ps. Inr (p # ps))))"

definition parse_dump :: "string \<Rightarrow> string \<Rightarrow> wg_interface_state wg_result" where
  "parse_dump raw interface =
     (let lines = split_on CHR 0x0A raw; first = split_on CHR 0x09 (hd lines)
      in bind_wg (if 1 < length first then wg_int (first ! 1) else Inr 51820) (\<lambda>port.
           bind_wg (parse_peers (tl lines)) (\<lambda>ps.
             Inr \<lparr>wi_name = interface,
                  wi_private_key = (if first ! 0 \<noteq> ''(none)'' then Some (first ! 0) else None),
                  wi_public_key = (if 2 < length first \<and> first ! 2 \<noteq> ''(none)'' then Some (first ! 2) else None),
                  wi_listen_port = port,
                  wi_fwmark = (if 3 < length first \<and> first ! 3 \<noteq> ''(off)'' then Some (first ! 3) else None),
                  wi_peers = ps\<rparr>)))"

definition cli_interface_exists :: "'w wg_process \<Rightarrow> string \<Rightarrow> string \<Rightarrow> ('w, bool) wg_action" where
  "cli_interface_exists proc b interface w =
     (case run_wg proc b [''show'', interface] w of (w', r) \<Rightarrow> (w', Inr (\<exists>x. r = Inr x)))"

definition cli_get_interface_state :: "'w wg_process \<Rightarrow> string \<Rightarrow> string \<Rightarrow> ('w, wg_interface_state) wg_action" where
  "cli_get_interface_state proc b interface w =
     (case run_wg proc b [''show'', interface, ''dump''] w of
        (w', Inl e) \<Rightarrow> (w', Inl e)
      | (w', Inr (raw, _)) \<Rightarrow>
          (w', if raw = [] then Inl (WireGuardInterfaceNotFound interface) else parse_dump raw interface))"

definition invalid_key :: "string \<Rightarrow> string \<Rightarrow> wg_error" where
  "invalid_key what key = WireGuardKeyError (what @ take 16 key @ ''...'')"

definition missing_device :: "string \<Rightarrow> bool" where
  "missing_device stderr \<longleftrightarrow> contains ''No such device'' stderr \<or> contains ''does not exist'' stderr"

text \<open>A \<open>set\<close> command: a missing device is reported as such.\<close>

definition run_set :: "'w wg_process \<Rightarrow> string \<Rightarrow> string \<Rightarrow> string list \<Rightarrow> ('w, unit) wg_action" where
  "run_set proc b interface args w =
     (case run_wg proc b args w of
        (w', Inl (WireGuardCommandError c r stderr)) \<Rightarrow>
          (w', Inl (if missing_device stderr then WireGuardInterfaceNotFound interface
                    else WireGuardCommandError c r stderr))
      | (w', Inl e) \<Rightarrow> (w', Inl e)
      | (w', Inr _) \<Rightarrow> (w', Inr ()))"

definition cli_add_peer :: "'w wg_process \<Rightarrow> string \<Rightarrow> string \<Rightarrow> string \<Rightarrow> string list \<Rightarrow> string option \<Rightarrow> int option
    \<Rightarrow> ('w, unit) wg_action" where
  "cli_add_peer proc b interface public_key allowed_ips endpoint keepalive w =
     (if \<not> validate_wireguard_key public_key then (w, Inl (invalid_key ''Invalid public key format: '' public_key))
      else run_set proc b interface
             ([''set'', interface, ''peer'', public_key, ''allowed-ips'', join '','' allowed_ips] @
              (if truthy_str endpoint then [''endpoint'', the endpoint] else []) @
              (case keepalive of None \<Rightarrow> [] | Some k \<Rightarrow> [''persistent-keepalive'', str_int k])) w)"

definition cli_remove_peer :: "'w wg_process \<Rightarrow> string \<Rightarrow> string \<Rightarrow> string \<Rightarrow> ('w, unit) wg_action" where
  "cli_remove_peer proc b interface public_key w =
     (if \<not> validate_wireguard_key public_key then (w, Inl (invalid_key ''Invalid public key format: '' public_key))
      else (case run_set proc b interface [''set'', interface, ''peer'', public_key, ''remove''] w of
              (w', Inl (WireGuardCommandError c r stderr)) \<Rightarrow>
                (w', Inl (if contains ''Invalid peer'' stderr \<or> contains ''is not a valid'' stderr
                          then invalid_key ''Invalid peer key: '' public_key
                          else WireGuardCommandError c r stderr))
            | out \<Rightarrow> out))"

definition cli_update_peer :: "'w wg_process \<Rightarrow> string \<Rightarrow> string \<Rightarrow> string \<Rightarrow> string list option \<Rightarrow> string option
    \<Rightarrow> int option \<Rightarrow> ('w, unit) wg_action" where
  "cli_update_peer proc b interface public_key allowed_ips endpoint keepalive w =
     (if \<not> validate_wireguard_key public_key then (w, Inl (invalid_key ''Invalid public key format: '' public_key))
      else let args = [''set'', interface, ''peer'', public_key] @
                  (case allowed_ips of None \<Rightarrow> [] | Some ips \<Rightarrow> [''allowed-ips'', join '','' ips]) @
                  (case endpoint of None \<Rightarrow> [] | Some e \<Rightarrow> [''endpoint'', e]) @
                  (case keepalive of None \<Rightarrow> [] | Some k \<Rightarrow> [''persistent-keepalive'', str_int k])
           in if length args = 4 then (w, Inr ()) else run_set proc b interface args w)"

definition cli_set_peer_endpoint :: "'w wg_process \<Rightarrow> string \<Rightarrow> string \<Rightarrow> string \<Rightarrow> string \<Rightarrow> ('w, unit) wg_action" where
  "cli_set_peer_endpoint proc b interface public_key endpoint w =
     (if \<not> validate_wireguard_key public_key then (w, Inl (invalid_key ''Invalid public key format: '' public_key))
      else run_set proc b interface [''set'', interface, ''peer'', public_key, ''endpoint'', endpoint] w)"

definition cli_list_interfaces :: "'w wg_process \<Rightarrow> string \<Rightarrow> ('w, string list) wg_action" where
  "cli_list_interfaces proc b w =
     (case run_wg proc b [''show'', ''interfaces''] w of
        (w', Inl _) \<Rightarrow> (w', Inr [])
      | (w', Inr (raw, _)) \<Rightarrow> (w', Inr (if raw = [] then [] else split_ws raw)))"

definition cli_adapter :: "'w wg_process \<Rightarrow> string \<Rightarrow> 'w wg_adapter" where
  "cli_adapter proc b =
     \<lparr>ad_interface_exists = cli_interface_exists proc b, ad_get_interface_state = cli_get_interface_state proc b,
      ad_held = (\<lambda>st _. st), ad_add_peer = cli_add_peer proc b, ad_remove_peer = cli_remove_peer proc b,
      ad_update_peer = cli_update_peer proc b, ad_set_peer_endpoint = cli_set_peer_endpoint proc b,
      ad_list_interfaces = cli_list_interfaces proc b\<rparr>"

section \<open>The in-memory adapter\<close>

record mock_world =
  mw_interfaces :: "(string \<times> wg_interface_state) list"
  mw_next_key_counter :: nat

definition make_mock_key :: "mock_world \<Rightarrow> string \<times> mock_world" where
  "make_mock_key w =
     (let n = mw_next_key_counter w + 1
      in (''MOCK_'' @ zfill 40 n @ ''='', w\<lparr>mw_next_key_counter := n\<rparr>))"

definition new_peer :: "string \<Rightarrow> string list \<Rightarrow> string option \<Rightarrow> int option \<Rightarrow> wg_peer" where
  "new_peer key ips endpoint keepalive =
     \<lparr>wp_public_key = key, wp_allowed_ips = ips, wp_endpoint = endpoint, wp_latest_handshake = None,
      wp_transfer_rx = 0, wp_transfer_tx = 0, wp_persistent_keepalive = keepalive\<rparr>"

text \<open>The first peer with the key is rewritten.\<close>

fun rewrite_first :: "string \<Rightarrow> (wg_peer \<Rightarrow> wg_peer) \<Rightarrow> wg_peer list \<Rightarrow> wg_peer list" where
  "rewrite_first key f [] = []"
| "rewrite_first key f (p # ps) = (if wp_public_key p = key then f p # ps else p # rewrite_first key f ps)"

definition change_interface :: "string \<Rightarrow> (wg_peer list \<Rightarrow> wg_peer list) \<Rightarrow> mock_world \<Rightarrow> mock_world" where
  "change_interface i f w =
     w\<lparr>mw_interfaces := map (\<lambda>(k, st). (k, if k = i then st\<lparr>wi_peers := f (wi_peers st)\<rparr> else st)) (mw_interfaces w)\<rparr>"

definition mock_interface_exists :: "string \<Rightarrow> (mock_world, bool) wg_action" where
  "mock_interface_exists i w = (w, Inr (map_of (mw_interfaces w) i \<noteq> None))"

definition mock_get_interface_state :: "string \<Rightarrow> (mock_world, wg_interface_state) wg_action" where
  "mock_get_interface_state i w =
     (w, case map_of (mw_interfaces w) i of None \<Rightarrow> Inl (WireGuardInterfaceNotFound i) | Some st \<Rightarrow> Inr st)"

definition mock_held :: "wg_interface_state \<Rightarrow> mock_world \<Rightarrow> wg_interface_state" where
  "mock_held st w = (case map_of (mw_interfaces w) (wi_name st) of None \<Rightarrow> st | Some st' \<Rightarrow> st')"

definition mock_add_peer :: "string \<Rightarrow> string \<Rightarrow> string list \<Rightarrow> string option \<Rightarrow> int option \<Rightarrow> (mock_world, unit) wg_action" where
  "mock_add_peer i key ips endpoint keepalive w =
     (let w1 = (if map_of (mw_interfaces w) i \<noteq> None then w
                else let (mk, w0) = make_mock_key w
                     in w0\<lparr>mw_interfaces := mw_interfaces w0 @ [(i,
                          \<lparr>wi_name = i, wi_private_key = None, wi_public_key = Some mk, wi_listen_port = 51820,
                           wi_fwmark = None, wi_peers = []\<rparr>)]\<rparr>);
          p = new_peer key ips endpoint keepalive
      in (change_interface i (\<lambda>ps. if key \<in> wp_public_key ` set ps then rewrite_first key (\<lambda>_. p) ps else ps @ [p]) w1,
          Inr ()))"

definition mock_remove_peer :: "string \<Rightarrow> string \<Rightarrow> (mock_world, unit) wg_action" where
  "mock_remove_peer i key w = (change_interface i (filter (\<lambda>p. wp_public_key p \<noteq> key)) w, Inr ())"

definition mock_update_peer :: "string \<Rightarrow> string \<Rightarrow> string list option \<Rightarrow> string option \<Rightarrow> int option
    \<Rightarrow> (mock_world, unit) wg_action" where
  "mock_update_peer i key ips endpoint keepalive w =
     (change_interface i (rewrite_first key (\<lambda>p.
        p\<lparr>wp_allowed_ips := (case ips of None \<Rightarrow> wp_allowed_ips p | Some x \<Rightarrow> x),
          wp_endpoint := (case endpoint of None \<Rightarrow> wp_endpoint p | Some x \<Rightarrow> Some x),
          wp_persistent_keepalive := (case keepalive of None \<Rightarrow> wp_persistent_keepalive p | Some x \<Rightarrow> Some x)\<rparr>)) w, Inr ())"

definition mock_set_peer_endpoint :: "string \<Rightarrow> string \<Rightarrow> string \<Rightarrow> (mock_world, unit) wg_action" where
  "mock_set_peer_endpoint i key endpoint w =
     (change_interface i (rewrite_first key (\<lambda>p. p\<lparr>wp_endpoint := Some endpoint\<rparr>)) w, Inr ())"

definition mock_list_interfaces :: "(mock_world, string list) wg_action" where
  "mock_list_interfaces w = (w, Inr (map fst (mw_interfaces w)))"

definition mock_adapter :: "mock_world wg_adapter" where
  "mock_adapter =
     \<lparr>ad_interface_exists = mock_interface_exists, ad_get_interface_state = mock_get_interface_state,
      ad_held = mock_held, ad_add_peer = mock_add_peer, ad_remove_peer = mock_remove_peer,
      ad_update_peer = mock_update_peer, ad_set_peer_endpoint = mock_set_peer_endpoint,
      ad_list_interfaces = mock_list_interfaces\<rparr>"

section \<open>The law of an adapter\<close>

text \<open>
  An adapter keeps, per interface, a table from public keys to allowed addresses: reading shows it,
  adding and removing a peer change one entry of one interface.
\<close>

locale peer_table =
  fixes ad :: "'w wg_adapter" and ok :: "'w \<Rightarrow> bool" and peers :: "'w \<Rightarrow> string \<Rightarrow> (string \<Rightarrow> string list option) option"
  assumes exists_peers: "ok w \<Longrightarrow> ad_interface_exists ad i w = (w, Inr (peers w i \<noteq> None))"
    and state_peers: "ok w \<Longrightarrow> peers w i = Some m \<Longrightarrow>
      \<exists>st. ad_get_interface_state ad i w = (w, Inr st) \<and> wp_public_key ` set (wi_peers st) = dom m"
    and add_peer: "ok w \<Longrightarrow> peers w i = Some m \<Longrightarrow>
      \<exists>w'. ad_add_peer ad i k ips endpoint keepalive w = (w', Inr ()) \<and> ok w' \<and> peers w' = (peers w)(i \<mapsto> m(k \<mapsto> ips))"
    and remove_peer: "ok w \<Longrightarrow> peers w i = Some m \<Longrightarrow>
      \<exists>w'. ad_remove_peer ad i k w = (w', Inr ()) \<and> ok w' \<and> peers w' = (peers w)(i \<mapsto> m(k := None))"

definition mock_ok :: "mock_world \<Rightarrow> bool" where
  "mock_ok w \<longleftrightarrow> distinct (map fst (mw_interfaces w)) \<and>
     list_all (\<lambda>(i, st). wi_name st = i \<and> distinct (map wp_public_key (wi_peers st))) (mw_interfaces w)"

definition peer_map :: "wg_peer list \<Rightarrow> string \<Rightarrow> string list option" where
  "peer_map ps = map_of (map (\<lambda>p. (wp_public_key p, wp_allowed_ips p)) ps)"

definition mock_peers :: "mock_world \<Rightarrow> string \<Rightarrow> (string \<Rightarrow> string list option) option" where
  "mock_peers w i = map_option (\<lambda>st. peer_map (wi_peers st)) (map_of (mw_interfaces w) i)"

lemma dom_peer_map: "dom (peer_map ps) = wp_public_key ` set ps"
  by (force simp: peer_map_def dom_map_of_conv_image_fst)

lemma peer_map_rewrite:
  "key \<in> wp_public_key ` set ps \<Longrightarrow> wp_public_key p = key \<Longrightarrow> peer_map (rewrite_first key (\<lambda>_. p) ps) = (peer_map ps)(key \<mapsto> wp_allowed_ips p)"
  by (induction ps) (auto simp: peer_map_def fun_eq_iff)

lemma peer_map_snoc: "wp_public_key p \<notin> wp_public_key ` set ps \<Longrightarrow> peer_map (ps @ [p]) = (peer_map ps)(wp_public_key p \<mapsto> wp_allowed_ips p)"
proof -
  assume "wp_public_key p \<notin> wp_public_key ` set ps"
  then have "peer_map ps (wp_public_key p) = None" using dom_peer_map [of ps] by (metis domIff)
  then show ?thesis by (auto simp: peer_map_def map_add_def fun_eq_iff split: option.splits)
qed

lemma peer_map_filter: "peer_map (filter (\<lambda>p. wp_public_key p \<noteq> key) ps) = (peer_map ps)(key := None)"
  by (induction ps) (auto simp: peer_map_def fun_eq_iff)

lemma keys_rewrite_first:
  "(\<And>p. wp_public_key p = key \<Longrightarrow> wp_public_key (f p) = key) \<Longrightarrow> map wp_public_key (rewrite_first key f ps) = map wp_public_key ps"
  by (induction ps) auto

lemma map_of_change:
  "map_of (map (\<lambda>(k, st). (k, if k = i then f st else st)) xs) j =
     (if j = i then map_option f (map_of xs i) else map_of xs j)"
  by (induction xs) auto

lemma change_interface_lookup:
  "map_of (mw_interfaces (change_interface i f w)) j =
     (if j = i then map_option (\<lambda>st. st\<lparr>wi_peers := f (wi_peers st)\<rparr>) (map_of (mw_interfaces w) i)
      else map_of (mw_interfaces w) j)"
  using map_of_change [of i "\<lambda>st. st\<lparr>wi_peers := f (wi_peers st)\<rparr>" "mw_interfaces w" j]
  by (simp add: change_interface_def)

lemma mock_change:
  assumes "mock_ok w" and "mock_peers w i = Some m"
    and "\<And>ps. distinct (map wp_public_key ps) \<Longrightarrow> distinct (map wp_public_key (f ps))"
    and "\<And>ps. peer_map ps = m \<Longrightarrow> peer_map (f ps) = m'"
  shows "mock_ok (change_interface i f w) \<and> mock_peers (change_interface i f w) = (mock_peers w)(i \<mapsto> m')"
proof
  show "mock_ok (change_interface i f w)"
    using assms(1,3) by (force simp: mock_ok_def change_interface_def list_all_iff comp_def case_prod_beta)
  obtain st where st: "map_of (mw_interfaces w) i = Some st" "peer_map (wi_peers st) = m"
    using assms(2) by (auto simp: mock_peers_def)
  show "mock_peers (change_interface i f w) = (mock_peers w)(i \<mapsto> m')"
  proof
    fix j
    show "mock_peers (change_interface i f w) j = ((mock_peers w)(i \<mapsto> m')) j"
      using st assms(4) by (cases "j = i") (simp_all add: mock_peers_def change_interface_lookup)
  qed
qed

interpretation mock: peer_table mock_adapter mock_ok mock_peers
proof
  fix w i m k ips endpoint keepalive
  assume ok: "mock_ok w" and m: "mock_peers w i = Some m"
  then have there: "map_of (mw_interfaces w) i \<noteq> None" by (auto simp: mock_peers_def)
  show "\<exists>st. ad_get_interface_state mock_adapter i w = (w, Inr st) \<and> wp_public_key ` set (wi_peers st) = dom m"
    using m by (auto simp: mock_adapter_def mock_get_interface_state_def mock_peers_def dom_peer_map)
  let ?p = "new_peer k ips endpoint keepalive"
  let ?f = "\<lambda>ps. if k \<in> wp_public_key ` set ps then rewrite_first k (\<lambda>_. ?p) ps else ps @ [?p]"
  have p: "wp_public_key ?p = k" "wp_allowed_ips ?p = ips" by (simp_all add: new_peer_def)
  have keep: "distinct (map wp_public_key (?f ps))" if "distinct (map wp_public_key ps)" for ps
    using that keys_rewrite_first [of k "\<lambda>_. ?p" ps] p by auto
  have change: "peer_map (?f ps) = m(k \<mapsto> ips)" if "peer_map ps = m" for ps
    using peer_map_rewrite [of k ps ?p] peer_map_snoc [of ?p ps] that p by auto
  show "\<exists>w'. ad_add_peer mock_adapter i k ips endpoint keepalive w = (w', Inr ()) \<and> mock_ok w' \<and>
      mock_peers w' = (mock_peers w)(i \<mapsto> m(k \<mapsto> ips))"
    using mock_change [OF ok m keep change] there by (simp add: mock_adapter_def mock_add_peer_def Let_def)
  show "\<exists>w'. ad_remove_peer mock_adapter i k w = (w', Inr ()) \<and> mock_ok w' \<and>
      mock_peers w' = (mock_peers w)(i \<mapsto> m(k := None))"
    using mock_change [OF ok m, of "filter (\<lambda>p. wp_public_key p \<noteq> k)" "m(k := None)"] peer_map_filter
    by (simp add: mock_adapter_def mock_remove_peer_def distinct_map_filter)
qed (simp add: mock_adapter_def mock_interface_exists_def mock_peers_def)

section \<open>Properties\<close>

lemma wg_int_str_nat [simp]: "wg_int (str_nat n) = Inr (int n)"
  by (simp add: wg_int_def)

lemma bind_wg_simps [simp]: "bind_wg (Inl e) f = Inl e" "bind_wg (Inr x) f = f x"
  by (simp_all add: bind_wg_def)

lemma py_int_equals: "py_int (s @ ''='') = Inl (ValueError (s @ ''=''))"
proof -
  have neq: "\<not> is_digit CHR ''=''" "\<not> is_space CHR ''=''" by (simp_all add: is_digit_def is_space_def)
  have bad: "parse_digits (u @ ''='') = None" for u
  proof -
    have "split_on CHR ''_'' (u @ ''='') = butlast (split_on CHR ''_'' u) @ [last (split_on CHR ''_'' u) @ ''='']"
      by (induction u) (auto split: list.splits)
    then show ?thesis using neq by (simp add: parse_digits_def)
  qed
  have "strip (s @ ''='') = dropWhile is_space s @ ''=''"
    using neq by (simp add: strip_def dropWhile_append)
  then show ?thesis
    using bad [of "dropWhile is_space s"] bad [of "tl (dropWhile is_space s)"] bad [of "[]"]
    by (cases "dropWhile is_space s") (simp_all add: py_int_def Let_def)
qed

text \<open>
  The documented layout of \<open>wg show <interface> dump\<close> begins with the private key, the public key
  and then the listening port. The parser takes the second column for the port, so it raises
  \<open>ValueError\<close> for every public key that is not a number, as no key in base 64 with its final \<open>=\<close> is;
  the controller does not handle that exception.
\<close>

theorem documented_dump_rejected:
  assumes "list_all (\<lambda>s. CHR 0x09 \<notin> set s \<and> CHR 0x0A \<notin> set s) [priv, pub, port, fwmark]"
    and "peer_key_pattern pub"
  shows "parse_dump (join [CHR 0x0A] (join [CHR 0x09] [priv, pub, port, fwmark] # lines)) interface =
    Inl (OtherError (ValueError pub))"
proof -
  have "hd (split_on CHR 0x0A (join [CHR 0x0A] (x # lines))) = x" if "CHR 0x0A \<notin> set x" for x
    using that by (cases lines) (simp_all add: split_on_no_sep split_on_append_sep)
  then have "hd (split_on CHR 0x0A (join [CHR 0x0A] (join [CHR 0x09] [priv, pub, port, fwmark] # lines))) =
      join [CHR 0x09] [priv, pub, port, fwmark]"
    using assms(1) by simp
  moreover have "split_on CHR 0x09 (join [CHR 0x09] [priv, pub, port, fwmark]) = [priv, pub, port, fwmark]"
    by (rule split_on_join) (use assms(1) in simp_all)
  moreover have "py_int pub = Inl (ValueError pub)"
  proof -
    have ne: "pub \<noteq> []" using assms(2) by (auto simp: peer_key_pattern_def)
    moreover have "last pub = CHR ''=''" using assms(2) by (simp add: peer_key_pattern_def last_conv_nth [OF ne])
    ultimately have e: "pub = butlast pub @ ''=''" by (metis append_butlast_last_id)
    then show ?thesis by (subst e, subst e) (rule py_int_equals)
  qed
  ultimately show ?thesis by (simp add: parse_dump_def wg_int_def Let_def)
qed

theorem documented_dump_rejected_witness:
  "parse_dump (join [CHR 0x0A] (join [CHR 0x09] [''priv'', replicate 43 CHR ''A'' @ ''='', ''51820'', ''off''] # [])) ''wg0'' =
     Inl (OtherError (ValueError (replicate 43 CHR ''A'' @ ''='')))"
  by (rule documented_dump_rejected) (simp_all add: peer_key_pattern_def base64_char_def list_all_iff nth_append)

end
