(* ===== verification/Dns.thy ===== *)
theory Dns
  imports Access Py_Strings Ipam
begin

text \<open>
  DNS: \<open>services/dns_records.py\<close> builds a forward and a reverse zone for a network,
  \<open>services/dns_provider.py\<close> renders and stores them, \<open>api/v1/dns.py\<close> manages the extra entries of a
  network. A file system is a map from paths to contents that accepts every write; \<open>makedirs\<close> and the
  reload command have no counterpart. The interface between the two services is the locale
  \<open>zone_store\<close>, which the CoreDNS provider interprets.
\<close>

section \<open>Names\<close>

definition label_char :: "char \<Rightarrow> bool" where
  "label_char c \<longleftrightarrow> is_digit c \<or> c = CHR ''-'' \<or> (97 \<le> (of_char c :: nat) \<and> (of_char c :: nat) \<le> 122)"

fun multi_dash :: "string \<Rightarrow> string" where
  "multi_dash (c # d # s) = (if c = CHR ''-'' \<and> d = CHR ''-'' then multi_dash (d # s) else c # multi_dash (d # s))"
| "multi_dash s = s"

text \<open>After \<open>lower()\<close> the pattern's upper-case range matches nothing.\<close>

definition sanitize_dns_name :: "string \<Rightarrow> string" where
  "sanitize_dns_name name =
     (let clean = map (\<lambda>c. if label_char c then c else CHR ''-'') (map ascii_lower name);
          r = strip_chars {CHR ''-''} (multi_dash clean)
      in if r = [] then ''unnamed'' else r)"

text \<open>\<open>int(now.strftime('%Y%m%d%H%M%S'))\<close>.\<close>

definition make_serial :: "datetime \<Rightarrow> int" where
  "make_serial t =
     (let secs = t div 1000000; (y, m, d) = civil_from_days (secs div 86400); sod = secs mod 86400
      in ((((y * 100 + m) * 100 + d) * 100 + sod div 3600) * 100 + sod div 60 mod 60) * 100 + sod mod 60)"

definition reverse_zone_origin :: "string \<Rightarrow> string option" where
  "reverse_zone_origin subnet =
     (case IPv4Network subnet of
        None \<Rightarrow> None
      | Some net \<Rightarrow>
          if prefixlen net < 8 then None
          else let os = map str_nat (octets (network_address net));
                   prefix = (if 24 \<le> prefixlen net then os ! 2 @ ''.'' @ os ! 1 @ ''.'' @ os ! 0
                             else if 16 \<le> prefixlen net then os ! 1 @ ''.'' @ os ! 0
                             else os ! 0)
               in Some (prefix @ ''.in-addr.arpa''))"

definition reverse_record_name :: "string \<Rightarrow> string \<Rightarrow> string result" where
  "reverse_record_name ip_str subnet =
     (case ip_int_from_string ip_str of
        None \<Rightarrow> Inl (ValueError ip_str)
      | Some ip \<Rightarrow>
          (case IPv4Network subnet of
             None \<Rightarrow> Inl (ValueError subnet)
           | Some net \<Rightarrow>
               let os = map str_nat (octets ip)
               in Inr (if 24 \<le> prefixlen net then os ! 3
                       else if 16 \<le> prefixlen net then os ! 3 @ ''.'' @ os ! 2
                       else if 8 \<le> prefixlen net then os ! 3 @ ''.'' @ os ! 2 @ ''.'' @ os ! 1
                       else ip_str)))"

section \<open>Zones\<close>

record dns_record =
  rec_name :: string
  rec_type :: string
  rec_value :: string
  rec_ttl :: int

record zone_data =
  z_origin :: string
  z_records :: "dns_record list"
  z_serial :: int
  z_ttl :: int
  z_admin_email :: string

definition dns_record_of :: "string \<Rightarrow> string \<Rightarrow> string \<Rightarrow> dns_record" where
  "dns_record_of name ty v = \<lparr>rec_name = name, rec_type = ty, rec_value = v, rec_ttl = 300\<rparr>"

definition zone_of :: "string \<Rightarrow> dns_record list \<Rightarrow> int \<Rightarrow> int \<Rightarrow> zone_data" where
  "zone_of origin records serial ttl =
     \<lparr>z_origin = origin, z_records = records, z_serial = serial, z_ttl = ttl, z_admin_email = ''admin.wg.midscale''\<rparr>"

definition forward_origin :: "settings \<Rightarrow> network \<Rightarrow> string" where
  "forward_origin cfg n = sanitize_dns_name (net_name n) @ ''.'' @ cfg_dns_domain cfg"

definition serves_device :: "device \<Rightarrow> bool" where
  "serves_device r \<longleftrightarrow> truthy_str (dev_ip_address r) \<and> dev_is_active r"

definition entry_record :: "string \<Rightarrow> dns_entry \<Rightarrow> dns_record option" where
  "entry_record origin e =
     (let domain = rstrip_chars {CHR ''.''} (dns_domain_name e);
          inside = endswith domain (''.'' @ origin)
      in if inside \<or> CHR ''.'' \<notin> set domain
         then let label = (if inside then remove_all (''.'' @ origin) domain else domain)
              in Some (dns_record_of (if label = [] then ''@'' else label) ''A'' (dns_address e))
         else None)"

definition build_network_zone :: "settings \<Rightarrow> datetime \<Rightarrow> network \<Rightarrow> device list \<Rightarrow> dns_entry list \<Rightarrow> zone_data option" where
  "build_network_zone cfg now n ds es =
     (let origin = forward_origin cfg n;
          records = dns_record_of ''@'' ''NS'' (''ns1.'' @ origin) #
            map (\<lambda>r. dns_record_of (sanitize_dns_name (dev_name r)) ''A'' (the (dev_ip_address r)))
              (filter serves_device ds) @
            List.map_filter (entry_record origin) es
      in if filter (\<lambda>r. rec_type r \<noteq> ''NS'') records = [] then None
         else Some (zone_of origin records (make_serial now) (cfg_dns_default_ttl cfg)))"

fun reverse_records :: "string \<Rightarrow> string \<Rightarrow> device list \<Rightarrow> dns_record list result" where
  "reverse_records subnet origin [] = Inr []"
| "reverse_records subnet origin (r # rs) =
     (if \<not> serves_device r then reverse_records subnet origin rs
      else bind_result (reverse_record_name (the (dev_ip_address r)) subnet) (\<lambda>name.
        bind_result (reverse_records subnet origin rs) (\<lambda>recs.
          Inr (dns_record_of name ''PTR'' (sanitize_dns_name (dev_name r) @ ''.'' @ origin) # recs))))"

definition build_reverse_zone :: "settings \<Rightarrow> datetime \<Rightarrow> network \<Rightarrow> device list \<Rightarrow> zone_data option result" where
  "build_reverse_zone cfg now n ds =
     (case reverse_zone_origin (net_subnet n) of
        None \<Rightarrow> Inr None
      | Some origin \<Rightarrow>
          bind_result (reverse_records (net_subnet n) (forward_origin cfg n) ds) (\<lambda>records.
            Inr (if records = [] then None
                 else Some (zone_of origin records (make_serial now) (cfg_dns_default_ttl cfg)))))"

text \<open>
  The provider's two operations are arguments. A reverse zone that cannot be built raises after the
  forward zone has been written, so the store is returned with the outcome.
\<close>

definition sync_network_dns :: "(zone_data \<Rightarrow> 's \<Rightarrow> 's) \<Rightarrow> (string \<Rightarrow> 's \<Rightarrow> 's) \<Rightarrow> settings \<Rightarrow> (nat \<Rightarrow> datetime)
    \<Rightarrow> database \<Rightarrow> uuid \<Rightarrow> 's \<Rightarrow> 's \<times> unit result" where
  "sync_network_dns ensure remove cfg now d nid s =
     (case scalar_one_or_none (filter (\<lambda>n. net_id n = nid) (networks d)) of
        Inl err \<Rightarrow> (s, Inl err)
      | Inr None \<Rightarrow> (s, Inr ())
      | Inr (Some n) \<Rightarrow>
          let ds = filter (\<lambda>r. dev_network_id r = nid \<and> dev_is_active r \<and> dev_ip_address r \<noteq> None) (devices d);
              es = filter (\<lambda>e. dns_network_id e = nid) (dns_entries d);
              s1 = (case build_network_zone cfg (now 0) n ds es of
                      Some z \<Rightarrow> ensure z s
                    | None \<Rightarrow> remove (forward_origin cfg n) s)
          in case build_reverse_zone cfg (now 1) n ds of
               Inl err \<Rightarrow> (s1, Inl err)
             | Inr (Some z) \<Rightarrow> (ensure z s1, Inr ())
             | Inr None \<Rightarrow>
                 (case reverse_zone_origin (net_subnet n) of
                    None \<Rightarrow> (s1, Inr ())
                  | Some origin \<Rightarrow> (remove origin s1, Inr ())))"

section \<open>The CoreDNS file provider\<close>

type_synonym files = "string \<Rightarrow> string option"

text \<open>Reading in text mode turns every line ending into a line feed.\<close>

fun read_text :: "string \<Rightarrow> string" where
  "read_text [] = []"
| "read_text (c # s) =
     (if c = CHR 0x0D
      then CHR 0x0A # (case s of [] \<Rightarrow> [] | d # t \<Rightarrow> if d = CHR 0x0A then read_text t else read_text s)
      else c # read_text s)"

definition zone_filepath :: "string \<Rightarrow> string \<Rightarrow> string" where
  "zone_filepath zones_path origin =
     (let filename = replace_char CHR ''.'' ''-'' (rstrip_chars {CHR ''.''} origin) @ ''.zone''
      in if zones_path = [] \<or> last zones_path = CHR ''/'' then zones_path @ filename
         else zones_path @ ''/'' @ filename)"

definition record_key :: "dns_record \<Rightarrow> string" where
  "record_key r = rec_name r @ '':'' @ rec_type r @ '':'' @ rec_value r"

definition record_line :: "dns_record \<Rightarrow> string" where
  "record_line r =
     ljust 30 (if rec_name r \<noteq> ''@'' then rec_name r else []) @ '' '' @ str_int (rec_ttl r) @ '' '' @
     rjust 5 (rec_type r) @ '' '' @ rec_value r"

fun record_lines :: "string list \<Rightarrow> dns_record list \<Rightarrow> string list" where
  "record_lines seen [] = []"
| "record_lines seen (r # rs) =
     (if record_key r \<in> set seen then record_lines seen rs
      else record_line r # record_lines (record_key r # seen) rs)"

definition format_zone :: "zone_data \<Rightarrow> string" where
  "format_zone z =
     join [CHR 0x0A]
       ([''$ORIGIN '' @ z_origin z @ ''.'',
         ''$TTL '' @ str_int (z_ttl z),
         [],
         ''@  IN SOA  ns1.'' @ z_origin z @ ''. '' @ replace_char CHR ''@'' ''.'' (z_admin_email z) @ ''. ('',
         ''    '' @ str_int (z_serial z) @ '' ; serial'',
         ''    3600       ; refresh'',
         ''    900        ; retry'',
         ''    86400      ; expire'',
         ''    '' @ str_int (z_ttl z) @ ''  ; minimum'',
         '')'',
         [],
         ''@  IN NS  ns1.'' @ z_origin z @ ''.'',
         []] @ record_lines [] (z_records z) @ [[]])"

definition ensure_zone :: "string \<Rightarrow> zone_data \<Rightarrow> files \<Rightarrow> files" where
  "ensure_zone zones_path z fs =
     (let filepath = zone_filepath zones_path (z_origin z);
          content = format_zone z;
          existing = (case fs filepath of None \<Rightarrow> [] | Some t \<Rightarrow> read_text t)
      in if content \<noteq> existing then fs(filepath \<mapsto> content) else fs)"

definition remove_zone :: "string \<Rightarrow> string \<Rightarrow> files \<Rightarrow> files" where
  "remove_zone zones_path origin fs = fs(zone_filepath zones_path origin := None)"

text \<open>The provider for disabled DNS does nothing.\<close>

definition noop_ensure_zone :: "zone_data \<Rightarrow> files \<Rightarrow> files" where
  "noop_ensure_zone z fs = fs"

definition noop_remove_zone :: "string \<Rightarrow> files \<Rightarrow> files" where
  "noop_remove_zone origin fs = fs"

section \<open>Entries of a network\<close>

definition list_dns :: "uuid \<Rightarrow> user \<Rightarrow> database \<Rightarrow> dns_entry list result" where
  "list_dns nid u d =
     bind_result (require_network_owner nid u d) (\<lambda>_.
       Inr (sorted_by dns_domain_name (filter (\<lambda>e. dns_network_id e = nid) (dns_entries d))))"

definition create_dns :: "env \<Rightarrow> uuid \<Rightarrow> string \<Rightarrow> string \<Rightarrow> user \<Rightarrow> database \<Rightarrow> dns_entry response" where
  "create_dns e nid domain address u d =
     bind_result (require_network_owner nid u d) (\<lambda>_.
       let x = \<lparr>dns_id = env_uuid e 0, dns_network_id = nid, dns_domain_name = domain, dns_address = address,
                dns_created_at = env_now e 0\<rparr>
       in Inr (x, audit e 1 ''dns.create'' (Some (user_id u)) ''user'' ''dns'' (Some (dns_id x))
                    [(''network_id'', JStr nid), (''domain'', JStr domain), (''address'', JStr address)]
                    (d\<lparr>dns_entries := dns_entries d @ [x]\<rparr>),
               audit_metric ''dns.create''))"

definition delete_dns :: "env \<Rightarrow> uuid \<Rightarrow> uuid \<Rightarrow> user \<Rightarrow> database \<Rightarrow> unit response" where
  "delete_dns e nid eid u d =
     bind_result (require_network_owner nid u d) (\<lambda>_.
       bind_result (scalar_one_or_none (filter (\<lambda>x. dns_id x = eid \<and> dns_network_id x = nid) (dns_entries d)))
         (\<lambda>xo.
           case xo of
             None \<Rightarrow> Inl (HTTPException 404 ''DNS entry not found'')
           | Some x \<Rightarrow>
               Inr ((), (audit e 0 ''dns.delete'' (Some (user_id u)) ''user'' ''dns'' (Some eid)
                           [(''network_id'', JStr nid)] d)
                          \<lparr>dns_entries := filter (\<lambda>y. dns_id y \<noteq> dns_id x) (dns_entries d)\<rparr>,
                    audit_metric ''dns.delete'')))"

section \<open>Lemmas on names\<close>

lemma label_char_lower: "label_char c \<Longrightarrow> ascii_lower c = c"
  by (auto simp: label_char_def ascii_lower_def is_digit_def Let_def)

definition no_double_dash :: "string \<Rightarrow> bool" where
  "no_double_dash = successively (\<lambda>x y. \<not> (x = CHR ''-'' \<and> y = CHR ''-''))"

definition dns_label :: "string \<Rightarrow> bool" where
  "dns_label s \<longleftrightarrow> s \<noteq> [] \<and> list_all label_char s \<and> hd s \<noteq> CHR ''-'' \<and> last s \<noteq> CHR ''-'' \<and> no_double_dash s"

lemma set_multi_dash: "set (multi_dash s) = set s"
  by (induction s rule: multi_dash.induct) auto

lemma hd_multi_dash: "s \<noteq> [] \<Longrightarrow> multi_dash s \<noteq> [] \<and> hd (multi_dash s) = hd s"
  by (induction s rule: multi_dash.induct) auto

lemma multi_dash_no_double: "no_double_dash (multi_dash s)"
proof (induction s rule: multi_dash.induct)
  case (1 c d s)
  show ?case
  proof (cases "c = CHR ''-'' \<and> d = CHR ''-''")
    case False
    have "multi_dash (d # s) \<noteq> []" "hd (multi_dash (d # s)) = d" using hd_multi_dash [of "d # s"] by auto
    moreover have "no_double_dash (multi_dash (d # s))" using 1 False by blast
    ultimately show ?thesis using False by (cases "multi_dash (d # s)") (auto simp: no_double_dash_def)
  qed (use 1 in simp)
qed (simp_all add: no_double_dash_def)

lemma multi_dash_id: "no_double_dash s \<Longrightarrow> multi_dash s = s"
  by (induction s rule: multi_dash.induct) (auto simp: no_double_dash_def)

lemma sanitize_label: "dns_label (sanitize_dns_name name)"
proof -
  define s where "s = multi_dash (map (\<lambda>c. if label_char c then c else CHR ''-'') (map ascii_lower name))"
  obtain a b where ab: "s = a @ strip_chars {CHR ''-''} s @ b"
    and ends: "strip_chars {CHR ''-''} s = [] \<or>
      hd (strip_chars {CHR ''-''} s) \<notin> {CHR ''-''} \<and> last (strip_chars {CHR ''-''} s) \<notin> {CHR ''-''}"
    by (rule strip_chars_decompose [of s "{CHR ''-''}"])
  have "list_all label_char s" unfolding s_def list_all_iff set_multi_dash by (auto simp: label_char_def)
  then have chars: "list_all label_char (strip_chars {CHR ''-''} s)" by (subst (asm) ab) simp
  have "no_double_dash s" unfolding s_def by (rule multi_dash_no_double)
  then have "no_double_dash (strip_chars {CHR ''-''} s)"
    by (subst (asm) ab) (auto simp: no_double_dash_def successively_append_iff)
  moreover have "dns_label ''unnamed''"
    by (simp add: dns_label_def label_char_def is_digit_def no_double_dash_def)
  ultimately show ?thesis
    using ends chars by (auto simp: sanitize_dns_name_def dns_label_def s_def Let_def comp_def)
qed

lemma sanitize_label_id:
  assumes "dns_label s"
  shows "sanitize_dns_name s = s"
proof -
  have "map ascii_lower s = s"
    using assms by (intro map_idI) (auto simp: dns_label_def list_all_iff label_char_lower)
  moreover have "map (\<lambda>c. if label_char c then c else CHR ''-'') s = s"
    using assms by (intro map_idI) (auto simp: dns_label_def list_all_iff)
  moreover have "strip_chars {CHR ''-''} s = s"
  proof -
    have "dropWhile (\<lambda>c. c \<in> {CHR ''-''}) s = s" using assms by (cases s) (auto simp: dns_label_def)
    moreover have "dropWhile (\<lambda>c. c \<in> {CHR ''-''}) (rev s) = rev s"
      using assms by (cases s rule: rev_cases) (auto simp: dns_label_def)
    ultimately show ?thesis by (simp add: strip_chars_def)
  qed
  ultimately show ?thesis
    using assms by (simp add: sanitize_dns_name_def dns_label_def multi_dash_id Let_def)
qed

lemma floor_div:
  fixes ip :: nat
  assumes "k \<le> j"
  shows "ip div 2 ^ k * 2 ^ k div 2 ^ j = ip div 2 ^ j"
proof -
  have "(2 :: nat) ^ j = 2 ^ k * 2 ^ (j - k)" using assms by (simp flip: power_add)
  then show ?thesis by (simp add: div_mult2_eq)
qed

lemma network_octets:
  assumes "in_network ip n" and "prefixlen n \<le> 32"
  shows "8 \<le> prefixlen n \<Longrightarrow> octets (network_address n) ! 0 = octets ip ! 0"
    and "16 \<le> prefixlen n \<Longrightarrow> octets (network_address n) ! 1 = octets ip ! 1"
    and "24 \<le> prefixlen n \<Longrightarrow> octets (network_address n) ! 2 = octets ip ! 2"
proof -
  have n: "network_address n = ip div 2 ^ (32 - prefixlen n) * 2 ^ (32 - prefixlen n)"
    using assms(1) by (simp add: in_network_def)
  show "8 \<le> prefixlen n \<Longrightarrow> octets (network_address n) ! 0 = octets ip ! 0"
    using floor_div [of "32 - prefixlen n" 24 ip] by (simp add: octets_def n)
  show "16 \<le> prefixlen n \<Longrightarrow> octets (network_address n) ! 1 = octets ip ! 1"
    using floor_div [of "32 - prefixlen n" 16 ip] by (simp add: octets_def n)
  show "24 \<le> prefixlen n \<Longrightarrow> octets (network_address n) ! 2 = octets ip ! 2"
    using floor_div [of "32 - prefixlen n" 8 ip] by (simp add: octets_def n)
qed

section \<open>The store behind a synchronisation\<close>

text \<open>The two zones of a network, read from the database.\<close>

definition zone_devices :: "database \<Rightarrow> network \<Rightarrow> device list" where
  "zone_devices d n =
     filter (\<lambda>r. dev_network_id r = net_id n \<and> dev_is_active r \<and> dev_ip_address r \<noteq> None) (devices d)"

definition forward_zone :: "settings \<Rightarrow> datetime \<Rightarrow> database \<Rightarrow> network \<Rightarrow> zone_data option" where
  "forward_zone cfg now d n = build_network_zone cfg now n (zone_devices d n)
     (filter (\<lambda>e. dns_network_id e = net_id n) (dns_entries d))"

definition reverse_zone :: "settings \<Rightarrow> datetime \<Rightarrow> database \<Rightarrow> network \<Rightarrow> zone_data option result" where
  "reverse_zone cfg now d n = build_reverse_zone cfg now n (zone_devices d n)"

lemma forward_zone_origin: "forward_zone cfg now d n = Some z \<Longrightarrow> z_origin z = forward_origin cfg n"
  by (auto simp: forward_zone_def build_network_zone_def zone_of_def Let_def split: if_splits)

lemma reverse_zone_origin_Some:
  "reverse_zone cfg now d n = Inr (Some z) \<Longrightarrow> reverse_zone_origin (net_subnet n) = Some (z_origin z)"
  by (auto simp: reverse_zone_def build_reverse_zone_def zone_of_def bind_result_eq_Inr split: option.splits if_splits)

lemma sync_network_dns_eq:
  assumes "networks_ok (networks d)" and "n \<in> set (networks d)"
  shows "sync_network_dns ensure remove cfg now d (net_id n) s =
    (let s1 = (case forward_zone cfg (now 0) d n of Some z \<Rightarrow> ensure z s | None \<Rightarrow> remove (forward_origin cfg n) s)
     in case reverse_zone cfg (now 1) d n of
          Inl err \<Rightarrow> (s1, Inl err)
        | Inr (Some z) \<Rightarrow> (ensure z s1, Inr ())
        | Inr None \<Rightarrow>
            (case reverse_zone_origin (net_subnet n) of None \<Rightarrow> (s1, Inr ()) | Some y \<Rightarrow> (remove y s1, Inr ())))"
  using net.lookup_mem_one_or_none [OF assms]
  by (simp add: sync_network_dns_def forward_zone_def reverse_zone_def zone_devices_def Let_def)

lemma sync_network_dns_total:
  assumes "networks_ok (networks d)" and "n \<in> set (networks d)" and "reverse_zone cfg (now 1) d n = Inr zo"
  shows "\<exists>s'. sync_network_dns ensure remove cfg now d (net_id n) s = (s', Inr ())"
  unfolding sync_network_dns_eq [OF assms(1,2)] assms(3) Let_def
  by (cases zo; cases "reverse_zone_origin (net_subnet n)") simp_all

text \<open>
  What a synchronisation relies on: after storing a zone the store serves its content under every
  origin with the same key, after removing one it serves nothing there, and no other key changes.
\<close>

locale zone_store =
  fixes ensure :: "zone_data \<Rightarrow> 's \<Rightarrow> 's" and remove :: "string \<Rightarrow> 's \<Rightarrow> 's"
    and served :: "'s \<Rightarrow> string \<Rightarrow> string option" and key :: "string \<Rightarrow> string"
    and content :: "zone_data \<Rightarrow> string"
  assumes served_ensure: "served (ensure z s) x = (if key x = key (z_origin z) then Some (content z) else served s x)"
    and served_remove: "served (remove y s) x = (if key x = key y then None else served s x)"
begin

lemma sync_serves:
  assumes "networks_ok (networks d)" and "n \<in> set (networks d)"
    and "sync_network_dns ensure remove cfg now d (net_id n) s = (s', Inr ())"
    and "\<And>y. reverse_zone_origin (net_subnet n) = Some y \<Longrightarrow> key y \<noteq> key (forward_origin cfg n)"
  shows "served s' (forward_origin cfg n) = map_option content (forward_zone cfg (now 0) d n)"
    and "reverse_zone_origin (net_subnet n) = Some y \<Longrightarrow>
      \<exists>zo. reverse_zone cfg (now 1) d n = Inr zo \<and> served s' y = map_option content zo"
    and "key x \<noteq> key (forward_origin cfg n) \<Longrightarrow>
      (\<And>y. reverse_zone_origin (net_subnet n) = Some y \<Longrightarrow> key x \<noteq> key y) \<Longrightarrow> served s' x = served s x"
  using assms(3,4) forward_zone_origin [of cfg "now 0" d n] reverse_zone_origin_Some [of cfg "now 1" d n]
  by (auto simp: sync_network_dns_eq [OF assms(1,2)] Let_def served_ensure served_remove
      split: sum.splits option.splits if_splits)

end

definition served_zone :: "string \<Rightarrow> files \<Rightarrow> string \<Rightarrow> string option" where
  "served_zone zones_path fs origin = map_option read_text (fs (zone_filepath zones_path origin))"

lemma read_text_idem [simp]: "read_text (read_text s) = read_text s"
  by (induction s rule: read_text.induct) (auto split: list.splits)

interpretation coredns: zone_store "ensure_zone p" "remove_zone p" "served_zone p" "zone_filepath p" "\<lambda>z. read_text (format_zone z)"
proof
  fix z fs x
  show "served_zone p (ensure_zone p z fs) x =
      (if zone_filepath p x = zone_filepath p (z_origin z) then Some (read_text (format_zone z)) else served_zone p fs x)"
  proof (cases "fs (zone_filepath p (z_origin z))")
    case None
    have "format_zone z \<noteq> []" by (simp add: format_zone_def)
    then show ?thesis using None by (simp add: served_zone_def ensure_zone_def Let_def)
  next
    case (Some t)
    then show ?thesis
      using read_text_idem [of t] by (auto simp: served_zone_def ensure_zone_def Let_def)
  qed
next
  fix y fs x
  show "served_zone p (remove_zone p y fs) x = (if zone_filepath p x = zone_filepath p y then None else served_zone p fs x)"
    by (simp add: served_zone_def remove_zone_def)
qed

lemma forward_zone_has_device:
  assumes "r \<in> set (devices d)" and "dev_network_id r = net_id n" and "dev_is_active r"
    and "dev_ip_address r = Some ip" and "ip \<noteq> []"
  shows "\<exists>z. forward_zone cfg now d n = Some z \<and> dns_record_of (sanitize_dns_name (dev_name r)) ''A'' ip \<in> set (z_records z)"
proof -
  have r: "r \<in> set (filter serves_device (zone_devices d n))"
    using assms by (simp add: zone_devices_def serves_device_def)
  have "dns_record_of (sanitize_dns_name (dev_name r)) ''A'' (the (dev_ip_address r)) \<in>
      set (map (\<lambda>r. dns_record_of (sanitize_dns_name (dev_name r)) ''A'' (the (dev_ip_address r)))
        (filter serves_device (zone_devices d n)))" unfolding set_map by (rule imageI [OF r])
  moreover have "rec_type (dns_record_of x ''A'' v) \<noteq> ''NS''" for x v by (simp add: dns_record_of_def)
  ultimately show ?thesis
    using assms(4)
    by (auto simp: forward_zone_def build_network_zone_def zone_of_def Let_def filter_empty_conv)
qed

definition demo_dns_network :: network where
  "demo_dns_network = \<lparr>net_id = ''n'', net_name = ''lan'', net_subnet = ''10.0.0.0/29'', net_description = None,
     net_interface_name = None, net_topology = None, net_owner_id = None, net_created_at = 0\<rparr>"

section \<open>Properties\<close>

text \<open>
  Sanitised names are labels: whatever the name, the result is non-empty, consists of lower-case
  letters, digits and hyphens, neither begins nor ends with a hyphen and has no two in a row; a name
  that is such a label already is kept. (The length is not limited, so a long name gives a label DNS
  does not allow.)
\<close>

theorem sanitize_gives_label:
  "dns_label (sanitize_dns_name name) \<and> (sanitize_dns_name name = name \<longleftrightarrow> dns_label name) \<and>
   sanitize_dns_name (sanitize_dns_name name) = sanitize_dns_name name"
  using sanitize_label [of name] sanitize_label_id [of name] sanitize_label_id [OF sanitize_label [of name]] by metis

text \<open>
  Reverse lookups find the device: for an address of a network with a prefix of at least eight
  bits, the name of its record and the origin of its zone together are the four octets in reverse
  order under \<open>in-addr.arpa\<close>.
\<close>

theorem reverse_name_resolves:
  assumes "IPv4Network subnet = Some n" and "8 \<le> prefixlen n" and "in_network ip n" and "ip < 2 ^ 32"
  shows "\<exists>name origin. reverse_record_name (str_ipv4 ip) subnet = Inr name \<and> reverse_zone_origin subnet = Some origin \<and>
    name @ ''.'' @ origin = join ''.'' (rev (map str_nat (octets ip))) @ ''.in-addr.arpa''"
proof -
  have p: "prefixlen n \<le> 32" using IPv4Network_wf [OF assms(1)] by (simp add: wf_network_def)
  note o = network_octets [OF assms(3) p]
  obtain a b c e where ip: "octets ip = [a, b, c, e]" by (simp add: octets_def)
  obtain a' b' c' e' where na: "octets (network_address n) = [a', b', c', e']" by (simp add: octets_def)
  have same: "a' = a" "16 \<le> prefixlen n \<Longrightarrow> b' = b" "24 \<le> prefixlen n \<Longrightarrow> c' = c"
    using o assms(2) by (simp_all add: ip na)
  have read: "ip_int_from_string (str_ipv4 ip) = Some ip" using assms(4) by simp
  show ?thesis
    unfolding reverse_record_name_def reverse_zone_origin_def read assms(1) option.case na ip
    using assms(2) same by (simp add: Let_def)
qed

theorem reverse_name_resolves_witness:
  "reverse_record_name (str_ipv4 167772162) ''10.0.0.0/29'' = Inr ''2'' \<and>
   reverse_zone_origin ''10.0.0.0/29'' = Some ''0.0.10.in-addr.arpa'' \<and>
   (\<exists>name origin. reverse_record_name (str_ipv4 167772162) ''10.0.0.0/29'' = Inr name \<and>
      reverse_zone_origin ''10.0.0.0/29'' = Some origin \<and>
      name @ ''.'' @ origin = join ''.'' (rev (map str_nat (octets 167772162))) @ ''.in-addr.arpa'')"
proof (intro conjI)
  note net = demo_pool_29(1)
  have oc: "octets 167772162 = [10, 0, 0, 2]" "octets 167772160 = [10, 0, 0, 0]" by (simp_all add: octets_def)
  show "\<exists>name origin. reverse_record_name (str_ipv4 167772162) ''10.0.0.0/29'' = Inr name \<and>
      reverse_zone_origin ''10.0.0.0/29'' = Some origin \<and>
      name @ ''.'' @ origin = join ''.'' (rev (map str_nat (octets 167772162))) @ ''.in-addr.arpa''"
    by (rule reverse_name_resolves [OF net]) (simp_all add: in_network_def)
  show "reverse_record_name (str_ipv4 167772162) ''10.0.0.0/29'' = Inr ''2''"
    by (simp add: reverse_record_name_def net oc Let_def str_nat_single digit_char_eval)
  show "reverse_zone_origin ''10.0.0.0/29'' = Some ''0.0.10.in-addr.arpa''"
    by (simp add: reverse_zone_origin_def net oc Let_def str_nat_step str_nat_single digit_char_eval)
qed

text \<open>
  C32. After a synchronisation of one network that succeeds its files serve what the database says:
  the network's forward origin serves exactly its zone, or nothing when there is none, and the zone has
  an address record for every active device with an address; its reverse origin serves the reverse
  zone; and the zones in other files are not touched. The two origins of the network must have different
  files. Nothing is said of two networks that share a file, because their subnets have the same reverse
  zone or their names are the same after cleaning: there the one synchronised last wins.
\<close>

theorem sync_serves_database:
  assumes "networks_ok (networks d)" and "n \<in> set (networks d)"
    and "sync_network_dns (ensure_zone p) (remove_zone p) cfg now d (net_id n) fs = (fs', Inr ())"
    and "\<And>y. reverse_zone_origin (net_subnet n) = Some y \<Longrightarrow> zone_filepath p y \<noteq> zone_filepath p (forward_origin cfg n)"
  shows "served_zone p fs' (forward_origin cfg n) =
      map_option (\<lambda>z. read_text (format_zone z)) (forward_zone cfg (now 0) d n) \<and>
    (\<forall>r \<in> set (devices d). \<forall>ip. dev_network_id r = net_id n \<and> dev_is_active r \<and> dev_ip_address r = Some ip \<and> ip \<noteq> [] \<longrightarrow>
      (\<exists>z. forward_zone cfg (now 0) d n = Some z \<and>
        dns_record_of (sanitize_dns_name (dev_name r)) ''A'' ip \<in> set (z_records z))) \<and>
    (\<forall>y. reverse_zone_origin (net_subnet n) = Some y \<longrightarrow>
      (\<exists>zo. reverse_zone cfg (now 1) d n = Inr zo \<and>
        served_zone p fs' y = map_option (\<lambda>z. read_text (format_zone z)) zo)) \<and>
    (\<forall>x. zone_filepath p x \<noteq> zone_filepath p (forward_origin cfg n) \<and>
      (\<forall>y. reverse_zone_origin (net_subnet n) = Some y \<longrightarrow> zone_filepath p x \<noteq> zone_filepath p y) \<longrightarrow>
      served_zone p fs' x = served_zone p fs x)"
  using coredns.sync_serves [OF assms] forward_zone_has_device [of _ d n _ cfg "now 0"] by blast

text \<open>A network \<open>n\<close> with the subnet 10.0.0.0/29 and one device \<open>a\<close>.\<close>

theorem sync_serves_database_witness:
  "\<exists>fs' z. sync_network_dns (ensure_zone ''/z'') (remove_zone ''/z'') default_settings (\<lambda>_. 0)
      (empty_database\<lparr>networks := [demo_dns_network], devices := [demo_device ''a'' ''n'' (Some ''10.0.0.2'')]\<rparr>) ''n'' Map.empty =
        (fs', Inr ()) \<and>
     served_zone ''/z'' fs' ''lan.wg.midscale'' = Some (read_text (format_zone z)) \<and>
     dns_record_of ''a'' ''A'' ''10.0.0.2'' \<in> set (z_records z)"
proof -
  let ?d = "empty_database\<lparr>networks := [demo_dns_network], devices := [demo_device ''a'' ''n'' (Some ''10.0.0.2'')]\<rparr>"
  have label: "dns_label ''lan''" "dns_label ''a''"
    by (simp_all add: dns_label_def label_char_def is_digit_def no_double_dash_def)
  note net = demo_pool_29(1)
  have ip: "ip_int_from_string ''10.0.0.2'' = Some 167772162"
    using ip_int_from_string_str_ipv4 [of 167772162] by (simp add: demo_addresses)
  have oc: "octets 167772160 = [10, 0, 0, 0]" by (simp add: octets_def)
  have origin: "forward_origin default_settings demo_dns_network = ''lan.wg.midscale''"
    by (simp add: forward_origin_def demo_dns_network_def sanitize_label_id [OF label(1)] default_settings_def)
  have rev: "reverse_zone_origin ''10.0.0.0/29'' = Some ''0.0.10.in-addr.arpa''"
    by (simp add: reverse_zone_origin_def net oc Let_def str_nat_step str_nat_single digit_char_eval)
  have ok: "networks_ok (networks ?d)" "demo_dns_network \<in> set (networks ?d)"
    by (simp_all add: networks_ok_def)
  have sub: "net_subnet demo_dns_network = ''10.0.0.0/29''" "net_id demo_dns_network = ''n''"
    by (simp_all add: demo_dns_network_def)
  have "\<exists>zo. reverse_zone default_settings 0 ?d demo_dns_network = Inr zo"
    by (simp add: reverse_zone_def build_reverse_zone_def zone_devices_def sub rev demo_device_def serves_device_def
        reverse_record_name_def ip net Let_def)
  then obtain fs' where run: "sync_network_dns (ensure_zone ''/z'') (remove_zone ''/z'') default_settings (\<lambda>_. 0) ?d
      (net_id demo_dns_network) Map.empty = (fs', Inr ())"
    using sync_network_dns_total [OF ok, of default_settings "\<lambda>_. 0" _ "ensure_zone ''/z''" "remove_zone ''/z''" Map.empty]
    by (elim exE) blast
  have "zone_filepath ''/z'' ''0.0.10.in-addr.arpa'' \<noteq> zone_filepath ''/z'' ''lan.wg.midscale''" by code_simp
  then have "zone_filepath ''/z'' y \<noteq> zone_filepath ''/z'' (forward_origin default_settings demo_dns_network)"
    if "reverse_zone_origin (net_subnet demo_dns_network) = Some y" for y
    using that by (simp add: sub rev origin)
  from sync_serves_database [OF ok run this] origin run sub sanitize_label_id [OF label(2)] show ?thesis
    by (simp add: demo_device_def) blast
qed

end
