(* ===== verification/Wg_Controller.thy ===== *)
theory Wg_Controller
  imports Wg_Adapter Dns
begin

text \<open>
  The reconciliation of WireGuard interfaces with the database: \<open>services/wg_controller.py\<close>. A cycle
  reads the desired peers of every interface from the database, the actual peers from the adapter,
  removes and adds the difference, and writes handshakes back. Histograms and log lines are left out;
  a duration is text the clock supplies. \<open>so\<close> is the iteration order of a set of strings.
\<close>

section \<open>The difference\<close>

record desired_peer =
  dp_public_key :: string
  dp_allowed_ips :: "string list"
  dp_remove :: bool

record peer_diff =
  to_add :: "desired_peer list"
  to_update :: "desired_peer list"
  to_remove :: "desired_peer list"

definition compute_peer_diff :: "(string set \<Rightarrow> string list) \<Rightarrow> desired_peer list \<Rightarrow> string set \<Rightarrow> peer_diff" where
  "compute_peer_diff so desired actual_keys =
     (let desired_keys = set (map dp_public_key (filter (\<lambda>p. \<not> dp_remove p) desired));
          remove_keys = set (map dp_public_key (filter dp_remove desired));
          orphaned = actual_keys - desired_keys - remove_keys
      in \<lparr>to_add = filter (\<lambda>p. \<not> dp_remove p \<and> dp_public_key p \<notin> actual_keys) desired,
          to_update = filter (\<lambda>p. \<not> dp_remove p \<and> dp_public_key p \<in> actual_keys) desired,
          to_remove = filter (\<lambda>p. dp_remove p \<and> dp_public_key p \<in> actual_keys) desired @
            map (\<lambda>k. \<lparr>dp_public_key = k, dp_allowed_ips = [], dp_remove = True\<rparr>) (so orphaned)\<rparr>)"

section \<open>Desired state\<close>

definition interface_of :: "settings \<Rightarrow> network \<Rightarrow> string" where
  "interface_of cfg n = the (or_str (net_interface_name n) (Some (cfg_wireguard_interface cfg)))"

definition get_managed_interfaces :: "settings \<Rightarrow> database \<Rightarrow> string set" where
  "get_managed_interfaces cfg d =
     (let interfaces = set (map (interface_of cfg) (networks d))
      in if interfaces = {} then {cfg_wireguard_interface cfg} else interfaces)"

definition routed_prefixes :: "database \<Rightarrow> uuid \<Rightarrow> string list" where
  "routed_prefixes d did =
     map rt_prefix (filter (\<lambda>x. rt_approved x \<and> rt_enabled x \<and> rt_device_id x = did) (routes d))"

definition interface_devices :: "settings \<Rightarrow> database \<Rightarrow> string \<Rightarrow> device list" where
  "interface_devices cfg d interface =
     concat (map (\<lambda>r. map (\<lambda>_. r)
         (filter (\<lambda>n. net_id n = dev_network_id r \<and> interface_of cfg n = interface \<and> dev_name r \<noteq> server_device_name)
           (networks d)))
       (filter (\<lambda>r. dev_is_active r \<and> dev_public_key r \<noteq> None \<and> dev_ip_address r \<noteq> None) (devices d)))"

definition get_desired_peers :: "settings \<Rightarrow> database \<Rightarrow> string \<Rightarrow> desired_peer list" where
  "get_desired_peers cfg d interface =
     map (\<lambda>r. \<lparr>dp_public_key = the (dev_public_key r),
               dp_allowed_ips = (the (dev_ip_address r) @ ''/32'') # routed_prefixes d (dev_id r),
               dp_remove = False\<rparr>) (interface_devices cfg d interface)"

section \<open>Runtime metadata\<close>

definition is_online :: "datetime \<Rightarrow> datetime option \<Rightarrow> bool" where
  "is_online now hs = (case hs of None \<Rightarrow> False | Some t \<Rightarrow> now - t < timedelta_seconds 180)"

definition handshake_changed :: "wg_peer \<Rightarrow> device \<Rightarrow> bool" where
  "handshake_changed rp r =
     (case wp_latest_handshake rp of
        None \<Rightarrow> False
      | Some t \<Rightarrow> (case dev_last_handshake r of None \<Rightarrow> True | Some t0 \<Rightarrow> t0 < t))"

definition device_online_event :: "bool \<Rightarrow> device \<Rightarrow> effect list" where
  "device_online_event bus r =
     publish bus ''device.online'' [(''device_id'', JStr (dev_id r)), (''device_name'', JStr (dev_name r))]"

definition device_offline_event :: "bool \<Rightarrow> device \<Rightarrow> datetime option \<Rightarrow> effect list" where
  "device_offline_event bus r hs =
     publish bus ''device.offline'' [(''device_id'', JStr (dev_id r)), (''device_name'', JStr (dev_name r)),
       (''last_seen'', JStr (case hs of None \<Rightarrow> [] | Some t \<Rightarrow> isoformat t))]"

definition sync_peer :: "bool \<Rightarrow> datetime \<Rightarrow> wg_peer \<Rightarrow> device \<Rightarrow> database \<Rightarrow> database \<times> effect list" where
  "sync_peer bus now rp r d =
     (let changed = handshake_changed rp r;
          hs = (if changed then wp_latest_handshake rp else dev_last_handshake r);
          was = is_online now (dev_last_handshake r);
          on = is_online now hs;
          es = (if changed \<and> on \<and> \<not> was then device_online_event bus r
                else if changed \<and> \<not> on \<and> was then device_offline_event bus r hs else [])
      in (if changed
          then d\<lparr>devices := update_row dev_id (dev_id r)
                 (\<lambda>x. x\<lparr>dev_last_handshake := hs, dev_updated_at := now\<rparr>) (devices d)\<rparr>
          else d, es))"

fun sync_runtime_metadata :: "bool \<Rightarrow> datetime \<Rightarrow> wg_peer list \<Rightarrow> database
    \<Rightarrow> database \<times> effect list \<times> py_error option" where
  "sync_runtime_metadata bus now [] d = (d, [], None)"
| "sync_runtime_metadata bus now (rp # rps) d =
     (case scalar_one_or_none (filter (\<lambda>r. dev_public_key r = Some (wp_public_key rp)) (devices d)) of
        Inl err \<Rightarrow> (d, [], Some err)
      | Inr None \<Rightarrow> sync_runtime_metadata bus now rps d
      | Inr (Some r) \<Rightarrow>
          let (d1, es1) = sync_peer bus now rp r d;
              (d2, es2, err) = sync_runtime_metadata bus now rps d1
          in (d2, es1 @ es2, err))"

section \<open>One interface\<close>

record reconciliation_result =
  rr_interface :: string
  rr_peers_added :: int
  rr_peers_removed :: int
  rr_peers_updated :: int
  rr_errors :: "string list"
  rr_duration_ms :: string

text \<open>The errors a single peer may raise without ending the interface.\<close>

definition peer_error :: "wg_error \<Rightarrow> bool" where
  "peer_error e = (case e of WireGuardInterfaceNotFound _ \<Rightarrow> True | WireGuardKeyError _ \<Rightarrow> True | _ \<Rightarrow> False)"

definition add_error :: "string \<Rightarrow> reconciliation_result \<Rightarrow> reconciliation_result" where
  "add_error msg res = res\<lparr>rr_errors := rr_errors res @ [msg]\<rparr>"

fun remove_peers :: "'w wg_adapter \<Rightarrow> string \<Rightarrow> desired_peer list \<Rightarrow> reconciliation_result \<Rightarrow> 'w
    \<Rightarrow> 'w \<times> reconciliation_result \<times> wg_error option" where
  "remove_peers ad interface [] res w = (w, res, None)"
| "remove_peers ad interface (p # ps) res w =
     (case ad_remove_peer ad interface (dp_public_key p) w of
        (w', Inr _) \<Rightarrow> remove_peers ad interface ps (res\<lparr>rr_peers_removed := rr_peers_removed res + 1\<rparr>) w'
      | (w', Inl e) \<Rightarrow>
          if peer_error e
          then remove_peers ad interface ps
                 (add_error (''remove '' @ take 16 (dp_public_key p) @ '': '' @ wg_error_text e) res) w'
          else (w', res, Some e))"

fun add_peers :: "'w wg_adapter \<Rightarrow> string \<Rightarrow> desired_peer list \<Rightarrow> reconciliation_result \<Rightarrow> 'w
    \<Rightarrow> 'w \<times> reconciliation_result \<times> wg_error option" where
  "add_peers ad interface [] res w = (w, res, None)"
| "add_peers ad interface (p # ps) res w =
     (case ad_add_peer ad interface (dp_public_key p) (dp_allowed_ips p) None None w of
        (w', Inr _) \<Rightarrow> add_peers ad interface ps (res\<lparr>rr_peers_added := rr_peers_added res + 1\<rparr>) w'
      | (w', Inl e) \<Rightarrow>
          if peer_error e
          then add_peers ad interface ps
                 (add_error (''add '' @ take 16 (dp_public_key p) @ '': '' @ wg_error_text e) res) w'
          else (w', res, Some e))"

text \<open>The body of the \<open>try\<close> once the interface exists, with what it raises.\<close>

definition reconcile_existing :: "(string set \<Rightarrow> string list) \<Rightarrow> 'w wg_adapter \<Rightarrow> settings \<Rightarrow> bool \<Rightarrow> datetime \<Rightarrow> string
    \<Rightarrow> reconciliation_result \<Rightarrow> 'w \<Rightarrow> database
    \<Rightarrow> 'w \<times> database \<times> effect list \<times> reconciliation_result \<times> wg_error option" where
  "reconcile_existing so ad cfg bus now interface res w d =
     (case ad_get_interface_state ad interface w of
        (w1, Inl e) \<Rightarrow> (w1, d, [], res, Some e)
      | (w1, Inr actual) \<Rightarrow>
          let diff = compute_peer_diff so (get_desired_peers cfg d interface) (wp_public_key ` set (wi_peers actual))
          in case remove_peers ad interface (to_remove diff) res w1 of
               (w2, res2, Some e) \<Rightarrow> (w2, d, [], res2, Some e)
             | (w2, res2, None) \<Rightarrow>
                 (case add_peers ad interface (to_add diff) res2 w2 of
                    (w3, res3, Some e) \<Rightarrow> (w3, d, [], res3, Some e)
                  | (w3, res3, None) \<Rightarrow>
                      (case sync_runtime_metadata bus now (wi_peers (ad_held ad actual w3)) d of
                         (d', es, err) \<Rightarrow> (w3, d', es, res3, map_option OtherError err))))"

definition new_result :: "string \<Rightarrow> reconciliation_result" where
  "new_result interface =
     \<lparr>rr_interface = interface, rr_peers_added = 0, rr_peers_removed = 0, rr_peers_updated = 0, rr_errors = [],
      rr_duration_ms = ''0.0''\<rparr>"

definition result_metrics :: "reconciliation_result \<Rightarrow> effect list" where
  "result_metrics res =
     [Counter_inc ''CONTROLLER_RUNS'' (rr_interface res) 1,
      Counter_inc ''CONTROLLER_PEERS_ADDED'' (rr_interface res) (rr_peers_added res),
      Counter_inc ''CONTROLLER_PEERS_REMOVED'' (rr_interface res) (rr_peers_removed res)] @
     (if rr_errors res \<noteq> [] then [Counter_inc ''CONTROLLER_ERRORS'' (rr_interface res) (int (length (rr_errors res)))]
      else [])"

text \<open>An exception other than the two that are handled leaves the method.\<close>

definition reconcile_interface :: "(string set \<Rightarrow> string list) \<Rightarrow> 'w wg_adapter \<Rightarrow> settings \<Rightarrow> bool \<Rightarrow> datetime
    \<Rightarrow> (string \<Rightarrow> string) \<Rightarrow> string \<Rightarrow> 'w \<Rightarrow> database
    \<Rightarrow> 'w \<times> database \<times> effect list \<times> reconciliation_result wg_result" where
  "reconcile_interface so ad cfg bus now duration interface w d =
     (let finish = (\<lambda>w d es res. let res' = res\<lparr>rr_duration_ms := duration interface\<rparr>
                                 in (w, d, es @ result_metrics res', Inr res'));
          handle = (\<lambda>w d es res e. case e of
             WireGuardInterfaceNotFound _ \<Rightarrow> finish w d es res
           | WireGuardCommandError _ _ _ \<Rightarrow> finish w d es (add_error (''command error: '' @ wg_error_text e) res)
           | _ \<Rightarrow> (w, d, es, Inl e));
          res0 = new_result interface
      in case ad_interface_exists ad interface w of
           (w1, Inl e) \<Rightarrow> handle w1 d [] res0 e
         | (w1, Inr False) \<Rightarrow> (w1, d, [], Inr (res0\<lparr>rr_duration_ms := duration interface\<rparr>))
         | (w1, Inr True) \<Rightarrow>
             (case reconcile_existing so ad cfg bus now interface res0 w1 d of
                (w2, d', es, res, None) \<Rightarrow> finish w2 d' es res
              | (w2, d', es, res, Some e) \<Rightarrow> handle w2 d' es res e))"

section \<open>The cycle\<close>

record controller =
  ct_running :: bool
  ct_last_run :: "datetime option"
  ct_last_results :: "reconciliation_result list"
  ct_cycle_count :: nat

definition CLEANUP_INTERVAL_CYCLES :: nat where "CLEANUP_INTERVAL_CYCLES = 120"

definition new_controller :: controller where
  "new_controller = \<lparr>ct_running = False, ct_last_run = None, ct_last_results = [], ct_cycle_count = 0\<rparr>"

definition start_controller :: "controller \<Rightarrow> controller" where
  "start_controller c = (if ct_running c then c else c\<lparr>ct_running := True\<rparr>)"

definition stop_controller :: "controller \<Rightarrow> controller" where
  "stop_controller c = c\<lparr>ct_running := False\<rparr>"

definition peer_sync_event :: "bool \<Rightarrow> reconciliation_result \<Rightarrow> effect list" where
  "peer_sync_event bus res =
     publish bus ''peer.synced'' [(''interface'', JStr (rr_interface res)), (''peers_added'', JInt (rr_peers_added res)),
       (''peers_removed'', JInt (rr_peers_removed res)), (''peers_updated'', JInt (rr_peers_updated res)),
       (''errors'', JList (map JStr (rr_errors res))), (''duration_ms'', JFloat (rr_duration_ms res))]"

text \<open>\<open>clock\<close> gives the reading for each interface; the flag says whether an exception ended the loop.\<close>

fun reconcile_interfaces :: "(string set \<Rightarrow> string list) \<Rightarrow> 'w wg_adapter \<Rightarrow> settings \<Rightarrow> bool \<Rightarrow> (string \<Rightarrow> datetime)
    \<Rightarrow> (string \<Rightarrow> string) \<Rightarrow> string list \<Rightarrow> controller \<Rightarrow> 'w \<Rightarrow> database
    \<Rightarrow> controller \<times> 'w \<times> database \<times> effect list \<times> bool" where
  "reconcile_interfaces so ad cfg bus clock duration [] c w d = (c, w, d, [], False)"
| "reconcile_interfaces so ad cfg bus clock duration (i # is) c w d =
     (case reconcile_interface so ad cfg bus (clock i) duration i w d of
        (w1, d1, es1, Inl e) \<Rightarrow> (c, w1, d1, es1, True)
      | (w1, d1, es1, Inr res) \<Rightarrow>
          (case reconcile_interfaces so ad cfg bus clock duration is
                  (c\<lparr>ct_last_results := ct_last_results c @ [res]\<rparr>) w1 d1 of
             (c2, w2, d2, es2, failed) \<Rightarrow> (c2, w2, d2, es1 @ peer_sync_event bus res @ es2, failed)))"

text \<open>A network whose zones cannot be built is skipped.\<close>

definition sync_dns :: "(zone_data \<Rightarrow> 'f \<Rightarrow> 'f) \<Rightarrow> (string \<Rightarrow> 'f \<Rightarrow> 'f) \<Rightarrow> settings \<Rightarrow> bool \<Rightarrow> (nat \<Rightarrow> datetime)
    \<Rightarrow> database \<Rightarrow> 'f \<Rightarrow> 'f \<times> effect list" where
  "sync_dns ensure remove cfg bus now d fs =
     (if \<not> cfg_dns_enabled cfg then (fs, [])
      else (foldl (\<lambda>s n. fst (sync_network_dns ensure remove cfg now d (net_id n) s)) fs (networks d),
            publish (bus \<and> networks d \<noteq> []) ''dns.updated'' [(''networks_synced'', JInt (int (length (networks d))))]))"

definition stale_device :: "datetime \<Rightarrow> device \<Rightarrow> bool" where
  "stale_device threshold r \<longleftrightarrow>
     dev_is_active r \<and> (case dev_last_handshake r of None \<Rightarrow> True | Some t \<Rightarrow> t < threshold) \<and>
     dev_created_at r < threshold"

definition cleanup_stale_peers :: "settings \<Rightarrow> datetime \<Rightarrow> (uuid \<Rightarrow> datetime) \<Rightarrow> database \<Rightarrow> database" where
  "cleanup_stale_peers cfg now later d =
     d\<lparr>devices := update_where (stale_device (now - timedelta_days (cfg_stale_device_days cfg)))
         (\<lambda>r. r\<lparr>dev_is_active := False, dev_updated_at := later (dev_id r)\<rparr>) (devices d)\<rparr>"

record cycle_env =
  cy_clock :: "string \<Rightarrow> datetime"
  cy_duration :: "string \<Rightarrow> string"
  cy_dns_now :: "nat \<Rightarrow> datetime"
  cy_now :: datetime
  cy_later :: "uuid \<Rightarrow> datetime"

text \<open>
  The session of a cycle is opened by \<open>async with\<close> on the session factory and closed at its end;
  nothing commits it. Exceptions are logged and swallowed.
\<close>

definition reconcile_all :: "(string set \<Rightarrow> string list) \<Rightarrow> 'w wg_adapter \<Rightarrow> (zone_data \<Rightarrow> 'f \<Rightarrow> 'f) \<Rightarrow> (string \<Rightarrow> 'f \<Rightarrow> 'f)
    \<Rightarrow> settings \<Rightarrow> bool \<Rightarrow> cycle_env \<Rightarrow> controller \<Rightarrow> 'w \<Rightarrow> 'f \<Rightarrow> database
    \<Rightarrow> controller \<times> 'w \<times> 'f \<times> database \<times> effect list" where
  "reconcile_all so ad ensure remove cfg bus e c w fs db =
     (let s = open_session db in
      case reconcile_interfaces so ad cfg bus (cy_clock e) (cy_duration e) (so (get_managed_interfaces cfg (current s)))
             c w (current s) of
        (c1, w1, d1, es1, True) \<Rightarrow> (c1, w1, fs, close_session (flush_session (\<lambda>_. d1) s), es1)
      | (c1, w1, d1, es1, False) \<Rightarrow>
          (case sync_dns ensure remove cfg bus (cy_dns_now e) d1 fs of
             (fs1, es2) \<Rightarrow>
               let due = CLEANUP_INTERVAL_CYCLES \<le> ct_cycle_count c1 + 1;
                   d2 = (if due then cleanup_stale_peers cfg (cy_now e) (cy_later e) d1 else d1);
                   c2 = c1\<lparr>ct_cycle_count := (if due then 0 else ct_cycle_count c1 + 1)\<rparr>
               in (c2, w1, fs1, close_session (flush_session (\<lambda>_. d2) s), es1 @ es2)))"

text \<open>One turn of the loop, and the request that runs a cycle at once.\<close>

definition loop_turn :: "(string set \<Rightarrow> string list) \<Rightarrow> 'w wg_adapter \<Rightarrow> (zone_data \<Rightarrow> 'f \<Rightarrow> 'f) \<Rightarrow> (string \<Rightarrow> 'f \<Rightarrow> 'f)
    \<Rightarrow> settings \<Rightarrow> bool \<Rightarrow> cycle_env \<Rightarrow> controller \<Rightarrow> 'w \<Rightarrow> 'f \<Rightarrow> database
    \<Rightarrow> controller \<times> 'w \<times> 'f \<times> database \<times> effect list" where
  "loop_turn so ad ensure remove cfg bus e c w fs db =
     (case reconcile_all so ad ensure remove cfg bus e c w fs db of
        (c1, rest) \<Rightarrow> (c1\<lparr>ct_last_run := Some (cy_now e)\<rparr>, rest))"

definition reconcile_all_now :: "(string set \<Rightarrow> string list) \<Rightarrow> 'w wg_adapter \<Rightarrow> (zone_data \<Rightarrow> 'f \<Rightarrow> 'f) \<Rightarrow> (string \<Rightarrow> 'f \<Rightarrow> 'f)
    \<Rightarrow> settings \<Rightarrow> bool \<Rightarrow> cycle_env \<Rightarrow> controller \<Rightarrow> 'w \<Rightarrow> 'f \<Rightarrow> database
    \<Rightarrow> (controller \<times> 'w \<times> 'f \<times> database \<times> effect list) \<times> reconciliation_result list" where
  "reconcile_all_now so ad ensure remove cfg bus e c w fs db =
     (let out = reconcile_all so ad ensure remove cfg bus e (c\<lparr>ct_last_results := []\<rparr>) w fs db
      in (out, ct_last_results (fst out)))"

definition reconcile_interface_now :: "(string set \<Rightarrow> string list) \<Rightarrow> 'w wg_adapter \<Rightarrow> settings \<Rightarrow> bool \<Rightarrow> cycle_env
    \<Rightarrow> string \<Rightarrow> 'w \<Rightarrow> database \<Rightarrow> 'w \<times> database \<times> effect list \<times> reconciliation_result wg_result" where
  "reconcile_interface_now so ad cfg bus e interface w db =
     (let s = open_session db in
      case reconcile_interface so ad cfg bus (cy_clock e interface) (cy_duration e) interface w (current s) of
        (w', d', es, out) \<Rightarrow> (w', close_session (flush_session (\<lambda>_. d') s), es, out))"

section \<open>Convergence\<close>

definition desired_keys :: "desired_peer list \<Rightarrow> string set" where
  "desired_keys ps = dp_public_key ` set ps"

lemma get_desired_keeps: "p \<in> set (get_desired_peers cfg d i) \<Longrightarrow> \<not> dp_remove p"
  by (auto simp: get_desired_peers_def)

definition set_order_ok :: "(string set \<Rightarrow> string list) \<Rightarrow> bool" where
  "set_order_ok so \<longleftrightarrow> (\<forall>A. finite A \<longrightarrow> set (so A) = A \<and> distinct (so A))"

lemma diff_keys:
  assumes "set_order_ok so" and "finite actual" and "\<And>p. p \<in> set desired \<Longrightarrow> \<not> dp_remove p"
  shows "desired_keys (to_remove (compute_peer_diff so desired actual)) = actual - desired_keys desired"
    and "desired_keys (to_add (compute_peer_diff so desired actual)) = desired_keys desired - actual"
    and "to_add (compute_peer_diff so desired actual) = filter (\<lambda>p. dp_public_key p \<notin> actual) desired"
proof -
  have none: "filter dp_remove desired = []" "filter (\<lambda>p. \<not> dp_remove p) desired = desired"
    "filter (\<lambda>p. dp_remove p \<and> dp_public_key p \<in> actual) desired = []"
    "filter (\<lambda>p. \<not> dp_remove p \<and> dp_public_key p \<notin> actual) desired = filter (\<lambda>p. dp_public_key p \<notin> actual) desired"
    using assms(3) by (auto simp: filter_empty_conv filter_id_conv intro: filter_cong)
  show "to_add (compute_peer_diff so desired actual) = filter (\<lambda>p. dp_public_key p \<notin> actual) desired"
    by (simp add: compute_peer_diff_def none Let_def)
  then show "desired_keys (to_add (compute_peer_diff so desired actual)) = desired_keys desired - actual"
    by (auto simp: desired_keys_def)
  show "desired_keys (to_remove (compute_peer_diff so desired actual)) = actual - desired_keys desired"
    using assms(1,2) by (auto simp: compute_peer_diff_def none Let_def desired_keys_def set_order_ok_def image_image)
qed

text \<open>The table after adding peers in order: a key listed twice gets the last addresses.\<close>

definition with_peers :: "desired_peer list \<Rightarrow> (string \<Rightarrow> string list option) \<Rightarrow> string \<Rightarrow> string list option" where
  "with_peers ps m = foldl (\<lambda>m p. m(dp_public_key p \<mapsto> dp_allowed_ips p)) m ps"

lemma dom_with_peers: "dom (with_peers ps m) = dom m \<union> desired_keys ps"
  unfolding with_peers_def desired_keys_def by (induction ps arbitrary: m) auto

lemma with_peers_other: "k \<notin> desired_keys ps \<Longrightarrow> with_peers ps m k = m k"
  unfolding with_peers_def desired_keys_def by (induction ps arbitrary: m) auto

lemma with_peers_entry:
  "k \<in> desired_keys ps \<Longrightarrow> \<exists>p \<in> set ps. dp_public_key p = k \<and> with_peers ps m k = Some (dp_allowed_ips p)"
proof (induction ps arbitrary: m)
  case (Cons p ps)
  show ?case
  proof (cases "k \<in> desired_keys ps")
    case True
    from Cons.IH [OF True, of "m(dp_public_key p \<mapsto> dp_allowed_ips p)"] show ?thesis
      unfolding with_peers_def by simp
  next
    case False
    then have "with_peers ps (m(dp_public_key p \<mapsto> dp_allowed_ips p)) k = (m(dp_public_key p \<mapsto> dp_allowed_ips p)) k"
      by (rule with_peers_other)
    with False Cons.prems show ?thesis by (auto simp: with_peers_def desired_keys_def)
  qed
qed (simp add: desired_keys_def)

context peer_table
begin

lemma remove_peers_all:
  "ok w \<Longrightarrow> peers w i = Some m \<Longrightarrow>
     \<exists>w'. remove_peers ad i ps res w = (w', res\<lparr>rr_peers_removed := rr_peers_removed res + int (length ps)\<rparr>, None) \<and>
       ok w' \<and> peers w' = (peers w)(i \<mapsto> m |` (- desired_keys ps))"
proof (induction ps arbitrary: w m res)
  case Nil
  then show ?case by (auto simp: desired_keys_def restrict_map_def fun_eq_iff)
next
  case (Cons p ps)
  obtain w1 where w1: "ad_remove_peer ad i (dp_public_key p) w = (w1, Inr ())" "ok w1"
    "peers w1 = (peers w)(i \<mapsto> m(dp_public_key p := None))"
    using remove_peer [OF Cons.prems] by blast
  have at: "peers w1 i = Some (m(dp_public_key p := None))" by (simp add: w1(3))
  let ?r = "res\<lparr>rr_peers_removed := rr_peers_removed res + 1\<rparr>"
  obtain w2 where w2: "remove_peers ad i ps ?r w1 = (w2, ?r\<lparr>rr_peers_removed := rr_peers_removed ?r + int (length ps)\<rparr>, None)" "ok w2"
    "peers w2 = (peers w1)(i \<mapsto> m(dp_public_key p := None) |` (- desired_keys ps))"
    using Cons.IH [OF w1(2) at, of ?r] by blast
  have "m(dp_public_key p := None) |` (- desired_keys ps) = m |` (- desired_keys (p # ps))"
    by (auto simp: desired_keys_def restrict_map_def fun_eq_iff)
  with w2(3) have "peers w2 = (peers w)(i \<mapsto> m |` (- desired_keys (p # ps)))" by (simp only: w1(3) fun_upd_upd)
  moreover have "remove_peers ad i (p # ps) res w =
      (w2, res\<lparr>rr_peers_removed := rr_peers_removed res + int (length (p # ps))\<rparr>, None)"
    using w1(1) w2(1) by (simp add: algebra_simps)
  ultimately show ?case using w2(2) by blast
qed

lemma add_peers_all:
  "ok w \<Longrightarrow> peers w i = Some m \<Longrightarrow>
     \<exists>w'. add_peers ad i ps res w = (w', res\<lparr>rr_peers_added := rr_peers_added res + int (length ps)\<rparr>, None) \<and>
       ok w' \<and> peers w' = (peers w)(i \<mapsto> with_peers ps m)"
proof (induction ps arbitrary: w m res)
  case Nil
  then show ?case by (auto simp: with_peers_def fun_eq_iff)
next
  case (Cons p ps)
  obtain w1 where w1: "ad_add_peer ad i (dp_public_key p) (dp_allowed_ips p) None None w = (w1, Inr ())" "ok w1"
    "peers w1 = (peers w)(i \<mapsto> m(dp_public_key p \<mapsto> dp_allowed_ips p))"
    using add_peer [OF Cons.prems] by blast
  have at: "peers w1 i = Some (m(dp_public_key p \<mapsto> dp_allowed_ips p))" by (simp add: w1(3))
  let ?r = "res\<lparr>rr_peers_added := rr_peers_added res + 1\<rparr>"
  obtain w2 where w2: "add_peers ad i ps ?r w1 = (w2, ?r\<lparr>rr_peers_added := rr_peers_added ?r + int (length ps)\<rparr>, None)" "ok w2"
    "peers w2 = (peers w1)(i \<mapsto> with_peers ps (m(dp_public_key p \<mapsto> dp_allowed_ips p)))"
    using Cons.IH [OF w1(2) at, of ?r] by blast
  have "with_peers (p # ps) m = with_peers ps (m(dp_public_key p \<mapsto> dp_allowed_ips p))" by (simp add: with_peers_def)
  with w2(3) have "peers w2 = (peers w)(i \<mapsto> with_peers (p # ps) m)" by (simp only: w1(3) fun_upd_upd)
  moreover have "add_peers ad i (p # ps) res w =
      (w2, res\<lparr>rr_peers_added := rr_peers_added res + int (length (p # ps))\<rparr>, None)"
    using w1(1) w2(1) by (simp add: algebra_simps)
  ultimately show ?case using w2(2) by blast
qed

text \<open>The table one reconciliation leaves behind.\<close>

lemma reconcile_peers:
  assumes "ok w" and m: "peers w i = Some m" and "finite (dom m)" and "set_order_ok so"
    and run: "reconcile_interface so ad cfg bus now duration i w d = (w', d', es, Inr r)"
  shows "ok w' \<and> peers w' = (peers w)(i \<mapsto> with_peers (filter (\<lambda>p. dp_public_key p \<notin> dom m) (get_desired_peers cfg d i))
        (m |` desired_keys (get_desired_peers cfg d i))) \<and> rr_errors r = [] \<and>
    rr_peers_added r = int (length (filter (\<lambda>p. dp_public_key p \<notin> dom m) (get_desired_peers cfg d i))) \<and>
    (rr_peers_removed r = 0 \<longleftrightarrow> dom m \<subseteq> desired_keys (get_desired_peers cfg d i))"
proof -
  let ?ps = "get_desired_peers cfg d i"
  let ?diff = "compute_peer_diff so ?ps (dom m)"
  obtain st where st: "ad_get_interface_state ad i w = (w, Inr st)" "wp_public_key ` set (wi_peers st) = dom m"
    using state_peers [OF assms(1) m] by blast
  have keys: "desired_keys (to_remove ?diff) = dom m - desired_keys ?ps"
    "to_add ?diff = filter (\<lambda>p. dp_public_key p \<notin> dom m) ?ps"
    by (rule diff_keys [OF assms(4,3)], erule get_desired_keeps)+
  obtain w1 where w1: "remove_peers ad i (to_remove ?diff) (new_result i) w =
      (w1, (new_result i)\<lparr>rr_peers_removed := rr_peers_removed (new_result i) + int (length (to_remove ?diff))\<rparr>, None)"
    "ok w1" "peers w1 = (peers w)(i \<mapsto> m |` (- desired_keys (to_remove ?diff)))"
    using remove_peers_all [OF assms(1) m] by blast
  let ?res = "(new_result i)\<lparr>rr_peers_removed := rr_peers_removed (new_result i) + int (length (to_remove ?diff))\<rparr>"
  obtain w2 where w2: "add_peers ad i (to_add ?diff) ?res w1 =
      (w2, ?res\<lparr>rr_peers_added := rr_peers_added ?res + int (length (to_add ?diff))\<rparr>, None)"
    "ok w2" "peers w2 = (peers w1)(i \<mapsto> with_peers (to_add ?diff) (m |` (- desired_keys (to_remove ?diff))))"
    using add_peers_all [OF w1(2), of i "m |` (- desired_keys (to_remove ?diff))"] w1(3) by (metis fun_upd_same)
  have "m |` (- desired_keys (to_remove ?diff)) = m |` desired_keys ?ps"
    unfolding keys(1) by (auto simp: restrict_map_def fun_eq_iff)
  then have table: "peers w2 = (peers w)(i \<mapsto> with_peers (filter (\<lambda>p. dp_public_key p \<notin> dom m) ?ps) (m |` desired_keys ?ps))"
    by (simp add: w2(3) w1(3) keys(2))
  have ex: "reconcile_existing so ad cfg bus now i (new_result i) w d =
     (case sync_runtime_metadata bus now (wi_peers (ad_held ad st w2)) d of
        (d', es, err) \<Rightarrow> (w2, d', es, ?res\<lparr>rr_peers_added := rr_peers_added ?res + int (length (to_add ?diff))\<rparr>,
           map_option OtherError err))"
    by (simp add: reconcile_existing_def st w1(1) w2(1) Let_def)
  let ?r = "?res\<lparr>rr_peers_added := rr_peers_added ?res + int (length (to_add ?diff))\<rparr>"
  obtain d1 es1 err where sync: "sync_runtime_metadata bus now (wi_peers (ad_held ad st w2)) d = (d1, es1, err)"
    by (cases "sync_runtime_metadata bus now (wi_peers (ad_held ad st w2)) d")
  have "reconcile_interface so ad cfg bus now duration i w d =
      (case err of None \<Rightarrow> (w2, d1, es1 @ result_metrics (?r\<lparr>rr_duration_ms := duration i\<rparr>), Inr (?r\<lparr>rr_duration_ms := duration i\<rparr>))
       | Some e \<Rightarrow> (w2, d1, es1, Inl (OtherError e)))"
    using exists_peers [OF assms(1), of i] m
    by (simp add: reconcile_interface_def ex sync Let_def split: option.splits)
  then have out: "w' = w2" "r = ?r\<lparr>rr_duration_ms := duration i\<rparr>" using run by (simp_all split: option.splits)
  have "to_remove ?diff = [] \<longleftrightarrow> desired_keys (to_remove ?diff) = {}" by (simp add: desired_keys_def)
  then have removed: "to_remove ?diff = [] \<longleftrightarrow> dom m \<subseteq> desired_keys ?ps" unfolding keys(1) by blast
  show ?thesis using w2(2) table removed by (simp add: out new_result_def keys(2))
qed

end

section \<open>Lemmas on metadata\<close>

text \<open>What a synchronisation may change of a device.\<close>

definition handshake_advances :: "device \<Rightarrow> device \<Rightarrow> bool" where
  "handshake_advances r r' \<longleftrightarrow>
     r' = r\<lparr>dev_last_handshake := dev_last_handshake r', dev_updated_at := dev_updated_at r'\<rparr> \<and>
     (dev_last_handshake r' = dev_last_handshake r \<or>
      (\<exists>t. dev_last_handshake r' = Some t \<and> (\<forall>t0. dev_last_handshake r = Some t0 \<longrightarrow> t0 < t)))"

lemma handshake_advances_refl [simp]: "handshake_advances r r"
  by (simp add: handshake_advances_def)

lemma handshake_advances_trans:
  "handshake_advances a b \<Longrightarrow> handshake_advances b c \<Longrightarrow> handshake_advances a c"
  unfolding handshake_advances_def by (cases a; cases b; cases c) fastforce

lemma handshake_changed_iff:
  "handshake_changed rp r \<longleftrightarrow> (\<exists>t. wp_latest_handshake rp = Some t \<and> (\<forall>t0. dev_last_handshake r = Some t0 \<longrightarrow> t0 < t))"
  by (auto simp: handshake_changed_def split: option.splits)

lemma sync_peer_advances:
  assumes "devices_ok (devices d)" and r: "r \<in> set (devices d)" and run: "sync_peer bus now rp r d = (d', es)"
  shows "devices_ok (devices d') \<and> d' = d\<lparr>devices := devices d'\<rparr> \<and> list_all2 handshake_advances (devices d) (devices d')"
proof (cases "handshake_changed rp r")
  case True
  let ?f = "\<lambda>x. x\<lparr>dev_last_handshake := wp_latest_handshake rp, dev_updated_at := now\<rparr>"
  have d': "d' = d\<lparr>devices := update_row dev_id (dev_id r) ?f (devices d)\<rparr>"
    using run True by (simp add: sync_peer_def Let_def)
  have "handshake_advances x (if dev_id x = dev_id r then ?f x else x)" if "x \<in> set (devices d)" for x
    using that True dev.key_unique [OF assms(1) r, of x] handshake_changed_iff [of rp r]
    by (auto simp: handshake_advances_def)
  then have "list_all2 handshake_advances (devices d) (update_row dev_id (dev_id r) ?f (devices d))"
    by (simp add: update_row_def list_all2_map2 list.rel_refl_strong)
  then show ?thesis using assms(1) by (simp add: d' dev.ok_update_row)
next
  case False
  then show ?thesis using run assms(1) by (auto simp: sync_peer_def Let_def list.rel_refl)
qed

lemma sync_peer_online_only:
  assumes "sync_peer bus now rp r d = (d', es)"
  shows "es = [] \<or> es = device_online_event bus r \<and> \<not> is_online now (dev_last_handshake r) \<and>
    is_online now (wp_latest_handshake rp)"
proof -
  have "is_online now (wp_latest_handshake rp)"
    if "handshake_changed rp r" "is_online now (dev_last_handshake r)"
    using that handshake_changed_iff [of rp r] by (force simp: is_online_def split: option.splits)
  then show ?thesis using assms by (auto simp: sync_peer_def Let_def split: if_splits)
qed

lemma list_all2_advances_trans:
  "list_all2 handshake_advances as bs \<Longrightarrow> list_all2 handshake_advances bs cs \<Longrightarrow> list_all2 handshake_advances as cs"
  by (rule list_all2_trans [of handshake_advances handshake_advances]) (blast intro: handshake_advances_trans)+

lemma sync_metadata_advances:
  "devices_ok (devices d) \<Longrightarrow> sync_runtime_metadata bus now rps d = (d', es, err) \<Longrightarrow>
     d' = d\<lparr>devices := devices d'\<rparr> \<and> list_all2 handshake_advances (devices d) (devices d') \<and>
     (\<forall>e \<in> set es. \<exists>payload. e = Publish ''device.online'' payload)"
proof (induction rps arbitrary: d es)
  case Nil
  then show ?case by (simp add: list.rel_refl)
next
  case (Cons rp rps)
  show ?case
  proof (cases "scalar_one_or_none (filter (\<lambda>r. dev_public_key r = Some (wp_public_key rp)) (devices d))")
    case (Inl err)
    then show ?thesis using Cons.prems by (auto simp: list.rel_refl)
  next
    case (Inr ro)
    show ?thesis
    proof (cases ro)
      case None
      then show ?thesis using Cons Inr by simp
    next
      case (Some r)
      obtain d1 es1 d2 es2 err2 where s: "sync_peer bus now rp r d = (d1, es1)"
        "sync_runtime_metadata bus now rps d1 = (d2, es2, err2)" by (metis prod_cases3 surj_pair)
      have out: "d' = d2" "es = es1 @ es2" "err = err2" using Cons.prems(2) Inr Some s by simp_all
      have "r \<in> set (devices d)" using scalar_one_or_none_mem [OF Inr [unfolded Some]] by simp
      note one = sync_peer_advances [OF Cons.prems(1) this s(1)] sync_peer_online_only [OF s(1)]
      have rest: "d2 = d1\<lparr>devices := devices d2\<rparr> \<and> list_all2 handshake_advances (devices d1) (devices d2) \<and>
          (\<forall>e \<in> set es2. \<exists>payload. e = Publish ''device.online'' payload)"
        using Cons.IH [of d1 es2] one(1) s(2) out by simp
      have "d2 = d\<lparr>devices := devices d2\<rparr>" using one(1) rest by (metis database.surjective database.update_convs(3))
      moreover have "list_all2 handshake_advances (devices d) (devices d2)"
        using one(1) rest list_all2_advances_trans by blast
      moreover have "\<forall>e \<in> set (es1 @ es2). \<exists>payload. e = Publish ''device.online'' payload"
        using one rest by (auto simp: device_online_event_def publish_def)
      ultimately show ?thesis by (simp add: out)
    qed
  qed
qed

lemma with_peers_Nil: "with_peers [] m = m"
  by (simp add: with_peers_def)

lemma restrict_dom_self: "m |` dom m = m"
  by (auto simp: restrict_map_def fun_eq_iff domIff)

definition demo_mock :: mock_world where
  "demo_mock = \<lparr>mw_interfaces = [(''wg0'', \<lparr>wi_name = ''wg0'', wi_private_key = None, wi_public_key = None,
     wi_listen_port = 51820, wi_fwmark = None, wi_peers = [new_peer ''old'' [] None None]\<rparr>)], mw_next_key_counter = 0\<rparr>"

definition demo_controlled :: database where
  "demo_controlled = empty_database\<lparr>networks := [demo_dns_network], devices := [demo_device ''a'' ''n'' (Some ''10.0.0.2'')]\<rparr>"

lemma demo_desired: "get_desired_peers default_settings demo_controlled ''wg0'' =
    [\<lparr>dp_public_key = ''a_key'', dp_allowed_ips = [''10.0.0.2/32''], dp_remove = False\<rparr>]"
  by (simp add: get_desired_peers_def interface_devices_def demo_controlled_def demo_dns_network_def demo_device_def
      interface_of_def default_settings_def server_device_name_def routed_prefixes_def empty_database_def)

lemma demo_diff: "compute_peer_diff sorted_list_of_set [\<lparr>dp_public_key = ''a_key'', dp_allowed_ips = [''10.0.0.2/32''], dp_remove = False\<rparr>]
    {''old''} = \<lparr>to_add = [\<lparr>dp_public_key = ''a_key'', dp_allowed_ips = [''10.0.0.2/32''], dp_remove = False\<rparr>], to_update = [],
      to_remove = [\<lparr>dp_public_key = ''old'', dp_allowed_ips = [], dp_remove = True\<rparr>]\<rparr>"
proof -
  have "sorted_list_of_set ({''old''} - {''a_key''} - {}) = [''old'']" by (simp add: insert_Diff_if)
  then show ?thesis by (simp add: compute_peer_diff_def)
qed

lemma demo_reconcile:
  "\<exists>w' d' es r. reconcile_interface sorted_list_of_set mock_adapter default_settings True 0 (\<lambda>_. ''1.0'') ''wg0'' demo_mock
      demo_controlled = (w', d', es, Inr r)"
proof -
  have "\<exists>d' es. sync_runtime_metadata True 0 [new_peer ''a_key'' [''10.0.0.2/32''] None None] demo_controlled = (d', es, None)"
    by (simp add: demo_controlled_def demo_device_def new_peer_def sync_peer_def handshake_changed_def Let_def)
  then obtain d' es where "sync_runtime_metadata True 0 [new_peer ''a_key'' [''10.0.0.2/32''] None None] demo_controlled =
      (d', es, None)" by blast
  then show ?thesis
    by (simp add: reconcile_interface_def reconcile_existing_def demo_desired demo_diff mock_adapter_def
      mock_interface_exists_def mock_get_interface_state_def demo_mock_def new_peer_def mock_remove_peer_def
      mock_add_peer_def change_interface_def mock_held_def Let_def)
qed

lemma reconcile_interfaces_results:
  "reconcile_interfaces so ad cfg bus clock duration is c w d = (c', w', d', es, failed) \<Longrightarrow>
     \<exists>rs. ct_last_results c' = ct_last_results c @ rs \<and> ct_cycle_count c' = ct_cycle_count c"
proof (induction "is" arbitrary: c w d es)
  case (Cons i "is")
  then show ?case by (fastforce split: prod.splits sum.splits)
qed simp

section \<open>Properties\<close>

text \<open>Convergence on an interface that the in-memory adapter knows.\<close>

lemma known_interface_converges:
  assumes "mock_ok w" and "mock_peers w i = Some m" and "set_order_ok so"
    and "reconcile_interface so mock_adapter cfg bus now duration i w d = (w', d', es, Inr r)"
  shows "\<exists>m'. mock_peers w' = (mock_peers w)(i \<mapsto> m') \<and> mock_ok w' \<and>
    dom m' = desired_keys (get_desired_peers cfg d i) \<and> rr_errors r = [] \<and>
    (\<forall>k \<in> dom m \<inter> dom m'. m' k = m k) \<and>
    (\<forall>k \<in> dom m' - dom m. \<exists>p \<in> set (get_desired_peers cfg d i). dp_public_key p = k \<and> m' k = Some (dp_allowed_ips p)) \<and>
    (\<forall>bus2 now2 duration2 w2 d2 es2 r2.
       reconcile_interface so mock_adapter cfg bus2 now2 duration2 i w' d = (w2, d2, es2, Inr r2) \<longrightarrow>
       rr_peers_added r2 = 0 \<and> rr_peers_removed r2 = 0 \<and> mock_peers w2 = mock_peers w')"
proof -
  let ?D = "get_desired_peers cfg d i"
  let ?new = "filter (\<lambda>p. dp_public_key p \<notin> dom m) ?D"
  let ?m = "with_peers ?new (m |` desired_keys ?D)"
  have fin: "finite (dom (mm :: string \<Rightarrow> string list option))" if "mock_peers v j = Some mm" for v j mm
    using that by (auto simp: mock_peers_def dom_peer_map)
  note run = mock.reconcile_peers [OF assms(1,2) fin [OF assms(2)] assms(3,4)]
  have new: "desired_keys ?new = desired_keys ?D - dom m" by (auto simp: desired_keys_def)
  have dom: "dom ?m = desired_keys ?D" unfolding dom_with_peers new by auto
  have kept: "\<forall>k \<in> dom m \<inter> dom ?m. ?m k = m k"
    using dom new with_peers_other [of _ ?new "m |` desired_keys ?D"] by auto
  have fresh: "\<exists>p \<in> set ?D. dp_public_key p = k \<and> ?m k = Some (dp_allowed_ips p)" if "k \<in> dom ?m - dom m" for k
    using that dom new with_peers_entry [of k ?new "m |` desired_keys ?D"] by auto
  have m': "mock_peers w' i = Some ?m" using run by simp
  have again: "rr_peers_added r2 = 0 \<and> rr_peers_removed r2 = 0 \<and> mock_peers w2 = mock_peers w'"
    if run2: "reconcile_interface so mock_adapter cfg bus2 now2 duration2 i w' d = (w2, d2, es2, Inr r2)"
    for bus2 now2 duration2 w2 d2 es2 r2
  proof -
    have none: "filter (\<lambda>p. dp_public_key p \<notin> dom ?m) ?D = []"
      unfolding dom by (simp add: desired_keys_def filter_empty_conv)
    have same: "with_peers [] (?m |` desired_keys ?D) = ?m"
      using restrict_dom_self [of ?m] dom by (simp only: with_peers_Nil)
    have "mock_ok w'" using run by simp
    note step = mock.reconcile_peers [OF this m' fin [OF m'] assms(3) run2, unfolded none same]
    show ?thesis using step dom m' by (simp add: fun_upd_idem)
  qed
  show ?thesis
    by (intro exI [of _ ?m] conjI ballI allI impI) (use run dom kept fresh again in blast)+
qed

text \<open>
  What \<open>wg show <interface> dump\<close> prints as documented: the first line has the private key, the
  public key, the listening port and the mark, the other lines are the peers.
\<close>

definition documented_dump :: "string \<Rightarrow> string \<Rightarrow> bool" where
  "documented_dump pub raw \<longleftrightarrow> peer_key_pattern pub \<and>
     (\<exists>priv port fwmark lines. raw = join [CHR 0x0A] (join [CHR 0x09] [priv, pub, port, fwmark] # lines) \<and>
        list_all (\<lambda>s. CHR 0x09 \<notin> set s \<and> CHR 0x0A \<notin> set s) [priv, pub, port, fwmark])"

lemma documented_dump_read:
  assumes "documented_dump pub raw"
  shows "raw \<noteq> [] \<and> parse_dump raw interface = Inl (OtherError (ValueError pub))"
proof -
  obtain priv port fwmark lines where raw: "raw = join [CHR 0x0A] (join [CHR 0x09] [priv, pub, port, fwmark] # lines)"
    and plain: "list_all (\<lambda>s. CHR 0x09 \<notin> set s \<and> CHR 0x0A \<notin> set s) [priv, pub, port, fwmark]"
    and pat: "peer_key_pattern pub" using assms by (auto simp: documented_dump_def)
  have "raw \<noteq> []" unfolding raw by (cases lines) simp_all
  then show ?thesis unfolding raw using documented_dump_rejected [OF plain pat] by simp
qed

lemma cli_reconcile_raises:
  assumes "proc [b, ''show'', i] v = (v1, 0, out, err)" and "proc [b, ''show'', i, ''dump''] v1 = (v2, 0, raw, err2)"
    and "documented_dump pub (strip raw)"
  shows "reconcile_interface so (cli_adapter proc b) cfg bus now duration i v d =
    (v2, d, [], Inl (OtherError (ValueError pub)))"
  using documented_dump_read [OF assms(3), of i] assms(1,2)
  by (simp add: reconcile_interface_def reconcile_existing_def cli_adapter_def cli_interface_exists_def
      cli_get_interface_state_def run_wg_def Let_def)

lemma unknown_interface_skipped:
  assumes "mock_peers w i = None"
  shows "reconcile_interface so mock_adapter cfg bus now duration i w d =
    (w, d, [], Inr ((new_result i)\<lparr>rr_duration_ms := duration i\<rparr>))"
  using assms
  by (simp add: reconcile_interface_def mock_adapter_def mock_interface_exists_def mock_peers_def Let_def)

text \<open>A \<open>wg\<close> that answers as documented and keeps the commands it was given.\<close>

definition demo_wg :: "string list list wg_process" where
  "demo_wg args log = (log @ [args], 0, if last args = ''dump''
     then join [CHR 0x09] [''priv'', replicate 43 CHR ''A'' @ ''='', ''51820'', ''off''] else ''interface'', [])"

lemma demo_wg:
  "demo_wg [''wg'', ''show'', ''wg0''] [] = ([[''wg'', ''show'', ''wg0'']], 0, ''interface'', [])"
  "demo_wg [''wg'', ''show'', ''wg0'', ''dump''] [[''wg'', ''show'', ''wg0'']] =
     ([[''wg'', ''show'', ''wg0''], [''wg'', ''show'', ''wg0'', ''dump'']], 0,
      join [CHR 0x09] [''priv'', replicate 43 CHR ''A'' @ ''='', ''51820'', ''off''], [])"
  "documented_dump (replicate 43 CHR ''A'' @ ''='')
     (strip (join [CHR 0x09] [''priv'', replicate 43 CHR ''A'' @ ''='', ''51820'', ''off'']))"
proof -
  have "strip (join [CHR 0x09] [''priv'', replicate 43 CHR ''A'' @ ''='', ''51820'', ''off'']) =
      join [CHR 0x0A] [join [CHR 0x09] [''priv'', replicate 43 CHR ''A'' @ ''='', ''51820'', ''off'']]"
    by code_simp
  moreover have "peer_key_pattern (replicate 43 CHR ''A'' @ ''='')"
    by (simp add: peer_key_pattern_def base64_char_def list_all_iff nth_append)
  moreover have "list_all (\<lambda>s. CHR 0x09 \<notin> set s \<and> CHR 0x0A \<notin> set s) [''priv'', replicate 43 CHR ''A'' @ ''='', ''51820'', ''off'']"
    by simp
  ultimately show "documented_dump (replicate 43 CHR ''A'' @ ''='')
     (strip (join [CHR 0x09] [''priv'', replicate 43 CHR ''A'' @ ''='', ''51820'', ''off'']))"
    unfolding documented_dump_def
    by (intro conjI exI [of _ "''priv''"] exI [of _ "''51820''"] exI [of _ "''off''"] exI [of _ "[]"])
qed (simp_all add: demo_wg_def)

text \<open>
  C6. What a reconciliation does with each of the two adapters. In memory: an interface the adapter
  does not know is skipped, and nothing changes (the controller's own adapter starts without
  interfaces, so there every reconciliation is skipped until something else adds a peer). Whatever
  peers a known interface has, one reconciliation that returns leaves it with exactly the public keys
  the database wants, no other interface is touched, new peers get the addresses of their device, and
  no error is recorded; a second reconciliation adds and removes nothing. But a peer that was present
  keeps the addresses it had, also when the database now wants others: the update part of the
  difference is never applied. On the command line: for an interface that exists and whose dump
  begins as documented the reconciliation raises \<open>ValueError\<close> right after the two commands that read;
  no \<open>wg set\<close> is run and the database is as it was.
\<close>

theorem reconcile_converges:
  assumes "set_order_ok so" and "mock_ok w"
    and "reconcile_interface so mock_adapter cfg bus now duration i w d = (w', d', es, Inr r)"
    and "proc [b, ''show'', i] v = (v1, 0, out, err)" and "proc [b, ''show'', i, ''dump''] v1 = (v2, 0, raw, err2)"
    and "documented_dump pub (strip raw)"
  shows "(case mock_peers w i of
      None \<Rightarrow> w' = w \<and> d' = d \<and> es = [] \<and> r = (new_result i)\<lparr>rr_duration_ms := duration i\<rparr>
    | Some m \<Rightarrow> \<exists>m'. mock_peers w' = (mock_peers w)(i \<mapsto> m') \<and> mock_ok w' \<and>
        dom m' = desired_keys (get_desired_peers cfg d i) \<and> rr_errors r = [] \<and>
        (\<forall>k \<in> dom m \<inter> dom m'. m' k = m k) \<and>
        (\<forall>k \<in> dom m' - dom m. \<exists>p \<in> set (get_desired_peers cfg d i). dp_public_key p = k \<and> m' k = Some (dp_allowed_ips p)) \<and>
        (\<forall>bus2 now2 duration2 w2 d2 es2 r2.
           reconcile_interface so mock_adapter cfg bus2 now2 duration2 i w' d = (w2, d2, es2, Inr r2) \<longrightarrow>
           rr_peers_added r2 = 0 \<and> rr_peers_removed r2 = 0 \<and> mock_peers w2 = mock_peers w')) \<and>
    reconcile_interface so (cli_adapter proc b) cfg bus now duration i v d = (v2, d, [], Inl (OtherError (ValueError pub)))"
proof (cases "mock_peers w i")
  case None
  then show ?thesis
    using assms(3) unknown_interface_skipped [OF None, of so cfg bus now duration d] cli_reconcile_raises [OF assms(4-6)] by simp
next
  case (Some m)
  then show ?thesis
    using known_interface_converges [OF assms(2) Some assms(1,3)] cli_reconcile_raises [OF assms(4-6)] by simp
qed

theorem reconcile_converges_witness:
  "\<exists>w' d' es r m'. reconcile_interface sorted_list_of_set mock_adapter default_settings True 0 (\<lambda>_. ''1.0'') ''wg0'' demo_mock
      demo_controlled = (w', d', es, Inr r) \<and>
     mock_peers w' = (mock_peers demo_mock)(''wg0'' \<mapsto> m') \<and> dom m' = {''a_key''} \<and> m' ''a_key'' = Some [''10.0.0.2/32''] \<and>
     reconcile_interface sorted_list_of_set (cli_adapter demo_wg ''wg'') default_settings True 0 (\<lambda>_. ''1.0'') ''wg0'' []
       demo_controlled = ([[''wg'', ''show'', ''wg0''], [''wg'', ''show'', ''wg0'', ''dump'']], demo_controlled, [],
         Inl (OtherError (ValueError (replicate 43 CHR ''A'' @ ''=''))))"
proof -
  obtain w' d' es r where run: "reconcile_interface sorted_list_of_set mock_adapter default_settings True 0 (\<lambda>_. ''1.0'')
      ''wg0'' demo_mock demo_controlled = (w', d', es, Inr r)" using demo_reconcile by (elim exE)
  have ok: "mock_ok demo_mock" by (simp add: mock_ok_def demo_mock_def)
  have m: "mock_peers demo_mock ''wg0'' = Some [''old'' \<mapsto> []]"
    by (simp add: mock_peers_def demo_mock_def peer_map_def new_peer_def)
  have so: "set_order_ok sorted_list_of_set" by (simp add: set_order_ok_def)
  let ?D = "get_desired_peers default_settings demo_controlled ''wg0''"
  note all = reconcile_converges [OF so ok run demo_wg, unfolded m option.case]
  from conjunct1 [OF all] obtain m' where
    m': "mock_peers w' = (mock_peers demo_mock)(''wg0'' \<mapsto> m')" "dom m' = desired_keys ?D"
    "\<forall>k \<in> dom m' - dom [''old'' \<mapsto> ([] :: string list)]. \<exists>p \<in> set ?D. dp_public_key p = k \<and> m' k = Some (dp_allowed_ips p)"
    by (elim exE conjE) (rule that)
  have "dom m' = {''a_key''}" unfolding m'(2) by (simp add: demo_desired desired_keys_def)
  moreover from this have "m' ''a_key'' = Some [''10.0.0.2/32'']" using m'(3) by (simp add: demo_desired)
  ultimately show ?thesis using run m'(1) conjunct2 [OF all] by (intro exI conjI)
qed

text \<open>
  Writing handshakes back: a device's last handshake only moves forward, nothing else of it
  changes but the time of the update, no other table changes, and the only event is that a device
  came online. (So \<open>device.offline\<close> is never announced: a handshake that is newer than one within the
  last three minutes is itself within them.)
\<close>

theorem metadata_only_advances:
  assumes "devices_ok (devices d)" and "sync_runtime_metadata bus now rps d = (d', es, err)"
  shows "d' = d\<lparr>devices := devices d'\<rparr> \<and> list_all2 handshake_advances (devices d) (devices d') \<and>
    list_all (\<lambda>e. \<exists>payload. e = Publish ''device.online'' payload) es"
  using sync_metadata_advances [OF assms] by (simp add: list_all_iff)

theorem metadata_only_advances_witness:
  "\<exists>d' es. sync_runtime_metadata True 100 [(new_peer ''a_key'' [] None None)\<lparr>wp_latest_handshake := Some 90\<rparr>] demo_controlled =
      (d', es, None) \<and> list_all2 handshake_advances (devices demo_controlled) (devices d') \<and> length es = 1"
proof -
  have ok: "devices_ok (devices demo_controlled)" by (simp add: demo_controlled_def devices_ok_def)
  obtain d' es where run: "sync_runtime_metadata True 100
      [(new_peer ''a_key'' [] None None)\<lparr>wp_latest_handshake := Some 90\<rparr>] demo_controlled = (d', es, None)" "length es = 1"
    by (simp add: demo_controlled_def demo_device_def new_peer_def sync_peer_def handshake_changed_def is_online_def
        timedelta_defs device_online_event_def publish_def Let_def)
  from metadata_only_advances [OF ok run(1)] run show ?thesis by blast
qed

text \<open>
  C31. Nothing a cycle writes to the database survives it, handshakes and deactivated devices
  included, since its session is closed without a commit. And every cycle appends its results to
  those of all earlier ones.
\<close>

theorem cycle_writes_discarded:
  assumes "reconcile_all so ad ensure remove cfg bus e c w fs db = (c', w', fs', db', es)"
  shows "db' = db \<and> (\<exists>rs. ct_last_results c' = ct_last_results c @ rs) \<and> ct_cycle_count c' \<le> ct_cycle_count c + 1"
proof -
  obtain c1 w1 d1 es1 failed where r: "reconcile_interfaces so ad cfg bus (cy_clock e) (cy_duration e)
      (so (get_managed_interfaces cfg db)) c w db = (c1, w1, d1, es1, failed)"
    by (metis prod_cases5)
  show ?thesis
    using assms r reconcile_interfaces_results [OF r]
    by (cases failed) (auto simp: reconcile_all_def open_session_def flush_session_def close_session_def Let_def
        split: prod.splits if_splits)
qed

theorem cycle_writes_discarded_witness:
  "\<exists>c' w' fs' db' es. reconcile_all sorted_list_of_set mock_adapter (ensure_zone ''/z'') (remove_zone ''/z'') default_settings True
      \<lparr>cy_clock = (\<lambda>_. 0), cy_duration = (\<lambda>_. ''1.0''), cy_dns_now = (\<lambda>_. 0), cy_now = 0, cy_later = (\<lambda>_. 0)\<rparr>
      new_controller demo_mock Map.empty demo_controlled = (c', w', fs', db', es) \<and> db' = demo_controlled"
proof -
  obtain c' w' fs' db' es where run: "reconcile_all sorted_list_of_set mock_adapter (ensure_zone ''/z'') (remove_zone ''/z'')
      default_settings True
      \<lparr>cy_clock = (\<lambda>_. 0), cy_duration = (\<lambda>_. ''1.0''), cy_dns_now = (\<lambda>_. 0), cy_now = 0, cy_later = (\<lambda>_. 0)\<rparr>
      new_controller demo_mock Map.empty demo_controlled = (c', w', fs', db', es)"
    by (rule prod_cases5)
  have "db' = demo_controlled" using cycle_writes_discarded [OF run] by (rule conjunct1)
  with run show ?thesis by (intro exI conjI)
qed

end
