(* ===== verification/Wg_Runtime.thy ===== *)
theory Wg_Runtime
  imports Wg_Adapter
begin

text \<open>
  The daemon's WireGuard interface: \<open>midscaled/daemon/wg_runtime.py\<close>. Running a program is a
  parameter: from the argument vector, the text on its standard input and the state of the host it
  gives the new state and either nothing, when starting the program or waiting for it raised, or the
  exit code and the two output streams. A \<open>host\<close> also keeps the list of commands that were run.
\<close>

section \<open>Running programs\<close>

type_synonym command = "string list \<times> string option"

record 'x host =
  h_log :: "command list"
  h_state :: 'x

type_synonym 'x programs = "command \<Rightarrow> 'x \<Rightarrow> 'x \<times> (int \<times> string \<times> string) option"

definition run_program :: "'x programs \<Rightarrow> command \<Rightarrow> 'x host \<Rightarrow> 'x host \<times> (int \<times> string \<times> string) option" where
  "run_program prog c h =
     (case prog c (h_state h) of (x, out) \<Rightarrow> (\<lparr>h_log = h_log h @ [c], h_state = x\<rparr>, out))"

text \<open>\<open>_run\<close> does not look at the exit code. Empty input is not sent.\<close>

definition daemon_run :: "'x programs \<Rightarrow> string \<Rightarrow> string list \<Rightarrow> string option \<Rightarrow> 'x host
    \<Rightarrow> 'x host \<times> (string \<times> string) option" where
  "daemon_run prog wg args input h =
     (case run_program prog (wg # args, if truthy_str input then input else None) h of
        (h', None) \<Rightarrow> (h', None)
      | (h', Some (_, out, err)) \<Rightarrow> (h', Some (strip out, strip err)))"

section \<open>Reading state\<close>

record peer_state =
  ps_public_key :: string
  ps_allowed_ips :: "string list"
  ps_endpoint :: "string option"
  ps_latest_handshake :: "datetime option"
  ps_transfer_rx :: int
  ps_transfer_tx :: int

record interface_state =
  is_name :: string
  is_public_key :: "string option"
  is_listen_port :: int
  is_peers :: "peer_state list"

definition daemon_parse_peer :: "string list \<Rightarrow> peer_state wg_result" where
  "daemon_parse_peer parts =
     bind_wg (parse_dump_timestamp (parts ! 3)) (\<lambda>hs.
       bind_wg (if parts ! 4 \<noteq> [] then wg_int (parts ! 4) else Inr 0) (\<lambda>rx.
         bind_wg (if 5 < length parts \<and> parts ! 5 \<noteq> [] then wg_int (parts ! 5) else Inr 0) (\<lambda>tx.
           Inr \<lparr>ps_public_key = parts ! 0,
                ps_allowed_ips = (if parts ! 1 \<noteq> [] then split_on CHR '','' (parts ! 1) else []),
                ps_endpoint = (if parts ! 2 \<noteq> [] \<and> parts ! 2 \<noteq> ''(none)'' then Some (parts ! 2) else None),
                ps_latest_handshake = hs, ps_transfer_rx = rx, ps_transfer_tx = tx\<rparr>)))"

fun daemon_parse_peers :: "string list \<Rightarrow> peer_state list wg_result" where
  "daemon_parse_peers [] = Inr []"
| "daemon_parse_peers (line # lines) =
     (let parts = split_on CHR 0x09 line in
      if strip line = [] \<or> length parts < 5 then daemon_parse_peers lines
      else bind_wg (daemon_parse_peer parts) (\<lambda>p. bind_wg (daemon_parse_peers lines) (\<lambda>ps. Inr (p # ps))))"

definition daemon_parse_dump :: "string \<Rightarrow> string \<Rightarrow> interface_state wg_result" where
  "daemon_parse_dump raw interface =
     (let lines = split_on CHR 0x0A raw; first = split_on CHR 0x09 (hd lines)
      in bind_wg (if 1 < length first then wg_int (first ! 1) else Inr 51820) (\<lambda>port.
           bind_wg (daemon_parse_peers (tl lines)) (\<lambda>ps.
             Inr \<lparr>is_name = interface,
                  is_public_key = (if 2 < length first \<and> first ! 2 \<noteq> ''(none)'' then Some (first ! 2) else None),
                  is_listen_port = port, is_peers = ps\<rparr>)))"

definition daemon_interface_exists :: "'x programs \<Rightarrow> string \<Rightarrow> string \<Rightarrow> 'x host \<Rightarrow> 'x host \<times> bool" where
  "daemon_interface_exists prog wg interface h =
     (case daemon_run prog wg [''show'', interface] None h of (h', r) \<Rightarrow> (h', r \<noteq> None))"

definition get_state :: "'x programs \<Rightarrow> string \<Rightarrow> string \<Rightarrow> 'x host \<Rightarrow> 'x host \<times> interface_state option" where
  "get_state prog wg interface h =
     (case daemon_run prog wg [''show'', interface, ''dump''] None h of
        (h', None) \<Rightarrow> (h', None)
      | (h', Some (raw, _)) \<Rightarrow>
          (h', if raw = [] then None
               else case daemon_parse_dump raw interface of Inl _ \<Rightarrow> None | Inr st \<Rightarrow> Some st))"

section \<open>Applying a configuration\<close>

record desired_wg_peer =
  dw_public_key :: string
  dw_allowed_ips :: "string list"
  dw_endpoint :: "string option"
  dw_endpoint_port :: "int option"
  dw_persistent_keepalive :: "int option"
  dw_relay_required :: bool
  dw_relay_candidates :: "dict list"

record desired_config =
  dc_private_key :: string
  dc_address :: string
  dc_subnet :: string
  dc_listen_port :: "int option"
  dc_dns_servers :: "string list option"
  dc_peers :: "desired_wg_peer list"
  dc_mtu :: "int option"

definition peer_args :: "string \<Rightarrow> desired_wg_peer \<Rightarrow> string list" where
  "peer_args interface p =
     [''set'', interface, ''peer'', dw_public_key p, ''allowed-ips'', join '','' (dw_allowed_ips p)] @
     (if truthy_str (dw_endpoint p)
      then [''endpoint'', the (dw_endpoint p) @ '':'' @ str_int (the (or_int (dw_endpoint_port p) (Some 51820)))] else []) @
     (case dw_persistent_keepalive p of None \<Rightarrow> [] | Some k \<Rightarrow> [''persistent-keepalive'', str_int k])"

text \<open>A sequence of \<open>wg\<close> commands: the first that cannot be run ends it.\<close>

fun run_all :: "'x programs \<Rightarrow> string \<Rightarrow> string list list \<Rightarrow> 'x host \<Rightarrow> 'x host \<times> bool" where
  "run_all prog wg [] h = (h, True)"
| "run_all prog wg (args # rest) h =
     (case daemon_run prog wg args None h of
        (h', None) \<Rightarrow> (h', False)
      | (h', Some _) \<Rightarrow> run_all prog wg rest h')"

definition apply_config :: "(string set \<Rightarrow> string list) \<Rightarrow> 'x programs \<Rightarrow> string \<Rightarrow> string \<Rightarrow> desired_config \<Rightarrow> 'x host
    \<Rightarrow> 'x host \<times> bool" where
  "apply_config so prog wg interface config h =
     (case daemon_run prog wg [''set'', interface, ''private-key'', ''/dev/stdin'', ''listen-port'',
               str_int (the (or_int (dc_listen_port config) (Some 51820)))] (Some (dc_private_key config)) h of
        (h1, None) \<Rightarrow> (h1, False)
      | (h1, Some _) \<Rightarrow>
          (case get_state prog wg interface h1 of
             (h2, cur) \<Rightarrow>
               let current_keys = (case cur of None \<Rightarrow> {} | Some st \<Rightarrow> ps_public_key ` set (is_peers st));
                   desired_keys = set (map dw_public_key (dc_peers config))
               in (case run_all prog wg (map (peer_args interface) (dc_peers config)) h2 of
                     (h3, False) \<Rightarrow> (h3, False)
                   | (h3, True) \<Rightarrow>
                       run_all prog wg
                         (map (\<lambda>key. [''set'', interface, ''peer'', key, ''remove''])
                           (filter (\<lambda>key. key \<notin> desired_keys) (so current_keys))) h3)))"

section \<open>Bringing an interface up and down\<close>

definition run_ip :: "'x programs \<Rightarrow> string list \<Rightarrow> 'x host \<Rightarrow> 'x host \<times> bool" where
  "run_ip prog args h = (case run_program prog (''ip'' # args, None) h of (h', r) \<Rightarrow> (h', r \<noteq> None))"

fun run_ips :: "'x programs \<Rightarrow> string list list \<Rightarrow> 'x host \<Rightarrow> 'x host \<times> bool" where
  "run_ips prog [] h = (h, True)"
| "run_ips prog (args # rest) h =
     (case run_ip prog args h of (h', False) \<Rightarrow> (h', False) | (h', True) \<Rightarrow> run_ips prog rest h')"

definition address_args :: "string \<Rightarrow> string \<Rightarrow> string \<Rightarrow> string list" where
  "address_args interface address subnet =
     [''addr'', ''add'',
      address @ ''/'' @ (if CHR ''/'' \<in> set subnet then split_on CHR ''/'' subnet ! 1 else ''24''), ''dev'', interface]"

definition link_up_args :: "string \<Rightarrow> string list" where
  "link_up_args interface = [''link'', ''set'', interface, ''up'']"

definition bring_up_interface :: "'x programs \<Rightarrow> string \<Rightarrow> string \<Rightarrow> string \<Rightarrow> string \<Rightarrow> 'x host \<Rightarrow> 'x host \<times> bool" where
  "bring_up_interface prog wg interface address subnet h =
     (case daemon_interface_exists prog wg interface h of
        (h1, True) \<Rightarrow> run_ips prog [address_args interface address subnet, link_up_args interface] h1
      | (h1, False) \<Rightarrow>
          (case run_program prog ([wg, ''genkey''], None) h1 of
             (h2, None) \<Rightarrow> (h2, False)
           | (h2, Some (code, out, _)) \<Rightarrow>
               let private_key = (if code = 0 then strip out else [])
               in (case run_ips prog [[''link'', ''add'', interface, ''type'', ''wireguard''],
                           address_args interface address subnet, link_up_args interface] h2 of
                     (h3, False) \<Rightarrow> (h3, False)
                   | (h3, True) \<Rightarrow>
                       if private_key = [] then (h3, True)
                       else (case run_program prog ([wg, ''set'', interface, ''private-key'', ''/dev/stdin''],
                                   Some private_key) h3 of
                               (h4, r) \<Rightarrow> (h4, r \<noteq> None)))))"

definition bring_down_interface :: "'x programs \<Rightarrow> string \<Rightarrow> 'x host \<Rightarrow> 'x host \<times> bool" where
  "bring_down_interface prog interface h =
     run_ips prog [[''link'', ''set'', interface, ''down''], [''link'', ''delete'', interface]] h"

text \<open>\<open>generate_keypair\<close>: the private key and the public key derived from it, or none.\<close>

definition generate_keypair :: "'x programs \<Rightarrow> string \<Rightarrow> 'x host \<Rightarrow> 'x host \<times> (string \<times> string) option" where
  "generate_keypair prog wg h =
     (case run_program prog ([wg, ''genkey''], None) h of
        (h1, None) \<Rightarrow> (h1, None)
      | (h1, Some (code, out, _)) \<Rightarrow>
          if code \<noteq> 0 then (h1, None)
          else (case run_program prog ([wg, ''pubkey''], Some (strip out)) h1 of
                  (h2, None) \<Rightarrow> (h2, None)
                | (h2, Some (code2, out2, _)) \<Rightarrow>
                    (h2, if code2 \<noteq> 0 then None else Some (strip out, strip out2))))"

section \<open>Lemmas\<close>

text \<open>Every program can be started.\<close>

definition programs_start :: "'x programs \<Rightarrow> bool" where
  "programs_start prog \<longleftrightarrow> (\<forall>c x. snd (prog c x) \<noteq> None)"

text \<open>The host after a list of commands has been run one by one.\<close>

definition host_after :: "'x programs \<Rightarrow> command list \<Rightarrow> 'x host \<Rightarrow> 'x host" where
  "host_after prog cs h = \<lparr>h_log = h_log h @ cs, h_state = fold (\<lambda>c x. fst (prog c x)) cs (h_state h)\<rparr>"

lemma host_after_Nil [simp]: "host_after prog [] h = h"
  by (simp add: host_after_def)

lemma host_after_append [simp]: "host_after prog ds (host_after prog cs h) = host_after prog (cs @ ds) h"
  by (simp add: host_after_def)

lemma host_after_log [simp]: "h_log (host_after prog cs h) = h_log h @ cs"
  by (simp add: host_after_def)

lemma run_program_after: "run_program prog c h = (host_after prog [c] h, snd (prog c (h_state h)))"
  by (simp add: run_program_def host_after_def case_prod_beta)

lemma program_answers:
  assumes "programs_start prog"
  obtains code out err where "snd (prog c x) = Some (code, out, err)"
proof -
  have "snd (prog c x) \<noteq> None" using assms unfolding programs_start_def by blast
  then show ?thesis using that by auto
qed

lemma daemon_run_starts:
  assumes "programs_start prog"
  shows "\<exists>out. daemon_run prog wg args input h =
    (host_after prog [(wg # args, if truthy_str input then input else None)] h, Some out)"
  by (rule program_answers [OF assms, of "(wg # args, if truthy_str input then input else None)" "h_state h"])
    (simp add: daemon_run_def run_program_after)

lemma run_all_starts:
  assumes "programs_start prog"
  shows "run_all prog wg cmds h = (host_after prog (map (\<lambda>a. (wg # a, None)) cmds) h, True)"
proof (induction cmds arbitrary: h)
  case (Cons c cmds)
  obtain out where "daemon_run prog wg c None h = (host_after prog [(wg # c, None)] h, Some out)"
    using daemon_run_starts [OF assms, of wg c None h] by auto
  then show ?case by (simp add: Cons.IH)
qed simp

lemma run_ips_starts:
  assumes "programs_start prog"
  shows "run_ips prog cmds h = (host_after prog (map (\<lambda>a. (''ip'' # a, None)) cmds) h, True)"
proof (induction cmds arbitrary: h)
  case (Cons c cmds)
  show ?case
    by (rule program_answers [OF assms, of "(''ip'' # c, None)" "h_state h"]) (simp add: run_ip_def run_program_after Cons.IH)
qed simp

text \<open>The keys a dump shows: none when nothing can be read from it.\<close>

definition dump_keys :: "'x programs \<Rightarrow> string \<Rightarrow> string \<Rightarrow> 'x host \<Rightarrow> string set" where
  "dump_keys prog wg interface h =
     (case snd (prog ([wg, ''show'', interface, ''dump''], None) (h_state h)) of
        None \<Rightarrow> {}
      | Some (_, out, _) \<Rightarrow>
          if strip out = [] then {}
          else (case daemon_parse_dump (strip out) interface of
                  Inl _ \<Rightarrow> {} | Inr st \<Rightarrow> ps_public_key ` set (is_peers st)))"

lemma get_state_starts:
  assumes "programs_start prog"
  shows "\<exists>cur. get_state prog wg interface h = (host_after prog [([wg, ''show'', interface, ''dump''], None)] h, cur) \<and>
    (case cur of None \<Rightarrow> {} | Some st \<Rightarrow> ps_public_key ` set (is_peers st)) = dump_keys prog wg interface h"
  by (rule program_answers [OF assms, of "([wg, ''show'', interface, ''dump''], None)" "h_state h"])
    (simp add: get_state_def daemon_run_def run_program_after dump_keys_def split: sum.split)

section \<open>What is run\<close>

text \<open>
  What bringing an interface up runs when every program can be started: a look at the interface,
  the address and the link state, and it reports success. Since exit codes are not looked at, an
  interface that is missing counts as present, so the command that would create it is never run.
\<close>

lemma interface_never_created:
  assumes "programs_start prog"
  shows "bring_up_interface prog wg interface address subnet h =
    (host_after prog [([wg, ''show'', interface], None), (''ip'' # address_args interface address subnet, None),
      (''ip'' # link_up_args interface, None)] h, True)"
proof -
  obtain out where "daemon_run prog wg [''show'', interface] None h = (host_after prog [([wg, ''show'', interface], None)] h, Some out)"
    using daemon_run_starts [OF assms, of wg "[''show'', interface]" None h] by auto
  then show ?thesis
    using run_ips_starts [OF assms, of "[address_args interface address subnet, link_up_args interface]"]
    by (simp add: bring_up_interface_def daemon_interface_exists_def)
qed

definition demo_programs :: "unit programs" where
  "demo_programs c x = (x, Some (0, [], []))"

lemma demo_programs_start: "programs_start demo_programs"
  by (simp add: programs_start_def demo_programs_def)

text \<open>
  What applying a configuration runs when every program can be started: the private key on
  standard input with the listening port, a dump, one command per peer in order with its addresses,
  endpoint and keep-alive, and one removal for each key the dump showed that is not wanted. It
  reports success, whatever the commands answered.
\<close>

definition apply_commands :: "(string set \<Rightarrow> string list) \<Rightarrow> string \<Rightarrow> string \<Rightarrow> desired_config \<Rightarrow> string set \<Rightarrow> command list" where
  "apply_commands so wg interface config shown =
     map (\<lambda>p. (wg # peer_args interface p, None)) (dc_peers config) @
     map (\<lambda>key. ([wg, ''set'', interface, ''peer'', key, ''remove''], None))
       (filter (\<lambda>key. key \<notin> dw_public_key ` set (dc_peers config)) (so shown))"

lemma apply_config_commands:
  assumes "programs_start prog" and "dc_private_key config \<noteq> []"
    and "set_key = ([wg, ''set'', interface, ''private-key'', ''/dev/stdin'', ''listen-port'',
         str_int (the (or_int (dc_listen_port config) (Some 51820)))], Some (dc_private_key config))"
  shows "apply_config so prog wg interface config h =
    (host_after prog ([set_key, ([wg, ''show'', interface, ''dump''], None)] @
       apply_commands so wg interface config (dump_keys prog wg interface (host_after prog [set_key] h))) h, True)"
proof -
  let ?first = "[''set'', interface, ''private-key'', ''/dev/stdin'', ''listen-port'',
      str_int (the (or_int (dc_listen_port config) (Some 51820)))]"
  let ?peers = "map (peer_args interface) (dc_peers config)"
  obtain out where h1: "daemon_run prog wg ?first (Some (dc_private_key config)) h = (host_after prog [set_key] h, Some out)"
    using daemon_run_starts [OF assms(1), of wg ?first "Some (dc_private_key config)" h] assms(2,3) by auto
  obtain cur where h2: "get_state prog wg interface (host_after prog [set_key] h) =
      (host_after prog [set_key, ([wg, ''show'', interface, ''dump''], None)] h, cur)"
    and cur: "(case cur of None \<Rightarrow> {} | Some st \<Rightarrow> ps_public_key ` set (is_peers st)) =
      dump_keys prog wg interface (host_after prog [set_key] h)"
    using get_state_starts [OF assms(1), of wg interface "host_after prog [set_key] h"] by auto
  show ?thesis
    by (simp only: apply_config_def h1 h2 cur run_all_starts [OF assms(1)] prod.case option.case bool.case Let_def
        host_after_append apply_commands_def map_map comp_def append.simps append_assoc list.set_map)
qed

end
