(* ===== verification/Config_Ini.thy ===== *)
theory Config_Ini
  imports Wg_Runtime Topology
begin

text \<open>
  The daemon's reader of WireGuard INI text: \<open>_parse_config_ini\<close> of \<open>midscaled/daemon/reconciler.py\<close>.
  The regular expressions are written out as scanners; \<open>^\<close> and \<open>$\<close> are those of \<open>re\<close> with and without
  \<open>MULTILINE\<close>. The theory shows that the daemon reads back what \<open>WireGuardConfig.to_ini\<close> of the backend
  writes.
\<close>

section \<open>Scanners\<close>

abbreviation LF :: char where "LF \<equiv> CHR 0x0A"

text \<open>\<open>\w\<close> for code points below 256.\<close>

definition is_word :: "char \<Rightarrow> bool" where
  "is_word c =
     (let n = (of_char c :: nat) in
      is_digit c \<or> 65 \<le> n \<and> n \<le> 90 \<or> 97 \<le> n \<and> n \<le> 122 \<or> c = CHR ''_'' \<or>
      n \<in> {170, 178, 179, 181, 185, 186, 188, 189, 190} \<or> 192 \<le> n \<and> n \<noteq> 215 \<and> n \<noteq> 247)"

text \<open>
  \<open>^(\w+)\s*=\s*(.*)$\<close> at the start of a line: key, value and what follows. The white space after the
  equals sign may run over line ends.
\<close>

definition kv_match :: "string \<Rightarrow> (string \<times> string \<times> string) option" where
  "kv_match s =
     (let k = takeWhile is_word s in
      if k = [] then None
      else case dropWhile is_space (dropWhile is_word s) of
             [] \<Rightarrow> None
           | c # t \<Rightarrow>
               if c \<noteq> CHR ''='' then None
               else let u = dropWhile is_space t
                    in Some (k, takeWhile (\<lambda>c. c \<noteq> LF) u, dropWhile (\<lambda>c. c \<noteq> LF) u))"

text \<open>\<open>findall\<close>; the flag says whether the position is the start of a line.\<close>

lemma kv_match_shorter: "kv_match s = Some (k, v, r) \<Longrightarrow> length r < length s"
proof -
  assume m: "kv_match s = Some (k, v, r)"
  then obtain t where t: "dropWhile is_space (dropWhile is_word s) = CHR ''='' # t" "r = dropWhile (\<lambda>c. c \<noteq> LF) (dropWhile is_space t)"
    by (auto simp: kv_match_def Let_def split: if_splits list.splits)
  have "length r \<le> length t" unfolding t(2) by (meson le_trans length_dropWhile_le)
  moreover have "Suc (length t) \<le> length s"
    using length_dropWhile_le [of is_space "dropWhile is_word s"] length_dropWhile_le [of is_word s] by (simp add: t(1))
  ultimately show ?thesis by simp
qed

function kv_scan :: "bool \<Rightarrow> string \<Rightarrow> (string \<times> string) list" where
  "kv_scan bol [] = []"
| "kv_scan bol (c # s) =
     (case (if bol then kv_match (c # s) else None) of
        Some (k, v, rest) \<Rightarrow> (k, v) # kv_scan False rest
      | None \<Rightarrow> kv_scan (c = LF) s)"
  by pat_completeness auto

termination
  by (relation "measure (\<lambda>(b, s). length s)") (auto dest!: kv_match_shorter split: if_splits)

text \<open>\<open>dict(pairs).get(key, '')\<close>: the last pair with the key wins.\<close>

definition kv_get :: "(string \<times> string) list \<Rightarrow> string \<Rightarrow> string" where
  "kv_get pairs key = (case map_of (rev pairs) key of None \<Rightarrow> [] | Some v \<Rightarrow> v)"

text \<open>\<open>.*?(?=marker|$)\<close>: up to the marker, the end, or a line feed that is the last character.\<close>

fun until :: "string \<Rightarrow> string \<Rightarrow> string" where
  "until marker [] = []"
| "until marker (c # s) =
     (if startswith (c # s) marker \<or> c # s = [LF] then [] else c # until marker s)"

fun after_first :: "string \<Rightarrow> string \<Rightarrow> string option" where
  "after_first p [] = None"
| "after_first p (c # s) =
     (if startswith (c # s) p then Some (drop (length p) (c # s)) else after_first p s)"

definition interface_section :: "string \<Rightarrow> string option" where
  "interface_section ini = map_option (until ''[Peer]'') (after_first ''[Interface]'' ini)"

function peer_blocks :: "string \<Rightarrow> string list" where
  "peer_blocks [] = []"
| "peer_blocks (c # s) =
     (if startswith (c # s) ''[Peer]''
      then let body = until ''['' (drop 6 (c # s))
           in (''[Peer]'' @ body) # peer_blocks (drop (6 + length body) (c # s))
      else peer_blocks s)"
  by pat_completeness auto

termination
  by (relation "measure length") (auto simp: Let_def)

section \<open>The parser\<close>

definition strip_list :: "string \<Rightarrow> string list" where
  "strip_list raw = filter (\<lambda>s. s \<noteq> []) (map strip (split_on CHR '','' raw))"

text \<open>\<open>s.rsplit(':', 1)\<close> of a text with a colon.\<close>

definition rsplit_colon :: "string \<Rightarrow> string \<times> string" where
  "rsplit_colon s =
     (rev (drop 1 (dropWhile (\<lambda>c. c \<noteq> CHR '':'') (rev s))), rev (takeWhile (\<lambda>c. c \<noteq> CHR '':'') (rev s)))"

definition endpoint_of :: "string \<Rightarrow> string option \<times> int option" where
  "endpoint_of raw =
     (if raw = [] then (None, None)
      else if CHR '':'' \<in> set raw
      then let (host, port_str) = rsplit_colon raw
           in (Some host, Some (case py_int port_str of Inl _ \<Rightarrow> 51820 | Inr p \<Rightarrow> p))
      else (Some raw, None))"

definition optional_int :: "string \<Rightarrow> int option result" where
  "optional_int raw = (if raw = [] then Inr None else bind_result (py_int raw) (\<lambda>i. Inr (Some i)))"

fun ini_peers :: "string list \<Rightarrow> desired_wg_peer list result" where
  "ini_peers [] = Inr []"
| "ini_peers (block # blocks) =
     (let pkv = kv_scan True block; public_key = kv_get pkv ''PublicKey'' in
      if public_key = [] then ini_peers blocks
      else bind_result (optional_int (kv_get pkv ''PersistentKeepalive'')) (\<lambda>keepalive.
        bind_result (ini_peers blocks) (\<lambda>rest.
          let (endpoint, port) = endpoint_of (kv_get pkv ''Endpoint'')
          in Inr (\<lparr>dw_public_key = public_key, dw_allowed_ips = strip_list (kv_get pkv ''AllowedIPs''),
                   dw_endpoint = endpoint, dw_endpoint_port = port, dw_persistent_keepalive = keepalive,
                   dw_relay_required = False, dw_relay_candidates = []\<rparr> # rest))))"

definition subnet_of_address :: "string \<Rightarrow> string" where
  "subnet_of_address raw =
     (if CHR ''/'' \<in> set raw then ''0.0.0.0/'' @ split_on CHR ''/'' raw ! 1 else [])"

definition address_of :: "string \<Rightarrow> string" where
  "address_of raw = (if raw = [] then [] else hd (split_on CHR ''/'' raw))"

definition parse_config_ini :: "string \<Rightarrow> desired_config option result" where
  "parse_config_ini ini =
     (case interface_section ini of
        None \<Rightarrow> Inr None
      | Some section \<Rightarrow>
          let kv = kv_scan True section; address_raw = kv_get kv ''Address''; dns_raw = kv_get kv ''DNS'' in
          bind_result (ini_peers (peer_blocks ini)) (\<lambda>peers.
            bind_result (optional_int (kv_get kv ''ListenPort'')) (\<lambda>port.
              bind_result (optional_int (kv_get kv ''MTU'')) (\<lambda>mtu.
                Inr (Some \<lparr>dc_private_key = kv_get kv ''PrivateKey'', dc_address = address_of address_raw,
                           dc_subnet = subnet_of_address address_raw, dc_listen_port = port,
                           dc_dns_servers = (if dns_raw \<noteq> [] then Some (strip_list dns_raw) else None),
                           dc_peers = peers, dc_mtu = mtu\<rparr>)))))"

section \<open>Lemmas on the scanners\<close>

text \<open>A block of lines, each after a line feed; a line is empty or a key and a value.\<close>

definition block_text :: "string list \<Rightarrow> string" where
  "block_text ls = concat (map (\<lambda>l. LF # l) ls)"

definition kv_line :: "string \<times> string \<Rightarrow> string" where
  "kv_line p = fst p @ '' = '' @ snd p"

definition clean_value :: "string \<Rightarrow> bool" where
  "clean_value v \<longleftrightarrow> v \<noteq> [] \<and> \<not> is_space (hd v) \<and> \<not> is_space (last v) \<and> LF \<notin> set v \<and> CHR ''['' \<notin> set v"

definition clean_pair :: "string \<times> string \<Rightarrow> bool" where
  "clean_pair p \<longleftrightarrow> fst p \<noteq> [] \<and> list_all is_word (fst p) \<and> clean_value (snd p)"

lemma word_chars: "is_word c \<Longrightarrow> \<not> is_space c \<and> c \<noteq> CHR ''='' \<and> c \<noteq> LF \<and> c \<noteq> CHR ''[''"
  by (auto simp: is_word_def is_space_def is_digit_def Let_def)

lemma not_word: "\<not> is_word LF" "\<not> is_word CHR ''[''" "\<not> is_word CHR '' ''"
  by (simp_all add: is_word_def is_digit_def)

lemma block_text_Nil [simp]: "block_text [] = []"
  by (simp add: block_text_def)

lemma block_text_Cons [simp]: "block_text (l # ls) = LF # l @ block_text ls"
  by (simp add: block_text_def)

lemma block_text_append: "block_text (xs @ ys) = block_text xs @ block_text ys"
  by (simp add: block_text_def)

lemma block_text_start: "block_text ls = [] \<or> (\<exists>t. block_text ls = LF # t)"
  by (cases ls) auto

lemma kv_match_not_word: "\<not> is_word c \<Longrightarrow> kv_match (c # s) = None"
  by (simp add: kv_match_def)

lemma kv_match_line:
  assumes "clean_pair p"
  shows "kv_match (kv_line p @ block_text ls) = Some (fst p, snd p, block_text ls)"
proof -
  obtain k v where p: "p = (k, v)" by (cases p)
  have k: "k \<noteq> []" "\<And>c. c \<in> set k \<Longrightarrow> is_word c" and v: "v \<noteq> []" "\<not> is_space (hd v)" "LF \<notin> set v"
    using assms by (auto simp: clean_pair_def clean_value_def p list_all_iff)
  have w: "takeWhile is_word (k @ CHR '' '' # s) = k" "dropWhile is_word (k @ CHR '' '' # s) = CHR '' '' # s" for s
    using k(2) not_word by (auto simp: takeWhile_append2 dropWhile_append2)
  have sp: "is_space CHR '' ''" "\<not> is_space CHR ''=''" by (simp_all add: is_space_def)
  have drop: "dropWhile is_space (v @ s) = v @ s" for s using v(1,2) by (cases v) auto
  have line: "takeWhile (\<lambda>c. c \<noteq> LF) (v @ block_text ls) = v" "dropWhile (\<lambda>c. c \<noteq> LF) (v @ block_text ls) = block_text ls"
  proof -
    have all: "\<And>c. c \<in> set v \<Longrightarrow> c \<noteq> LF" using v(3) by blast
    have "takeWhile (\<lambda>c. c \<noteq> LF) (block_text ls) = [] \<and> dropWhile (\<lambda>c. c \<noteq> LF) (block_text ls) = block_text ls"
      using block_text_start [of ls] by (elim disjE exE) simp_all
    then show "takeWhile (\<lambda>c. c \<noteq> LF) (v @ block_text ls) = v" "dropWhile (\<lambda>c. c \<noteq> LF) (v @ block_text ls) = block_text ls"
      using takeWhile_append2 [of v "\<lambda>c. c \<noteq> LF" "block_text ls"] dropWhile_append2 [of v "\<lambda>c. c \<noteq> LF" "block_text ls"] all
      by simp_all
  qed
  have lay: "kv_line p @ block_text ls = k @ CHR '' '' # CHR ''='' # CHR '' '' # v @ block_text ls"
    by (simp add: p kv_line_def)
  have eq: "dropWhile is_space (CHR '' '' # CHR ''='' # CHR '' '' # v @ block_text ls) = CHR ''='' # CHR '' '' # v @ block_text ls"
    "dropWhile is_space (CHR '' '' # v @ block_text ls) = v @ block_text ls"
    using sp by (simp_all add: drop)
  show ?thesis
    unfolding lay kv_match_def w Let_def eq by (simp add: k(1) line sp drop p)
qed

lemma kv_scan_LF: "kv_scan b (LF # s) = kv_scan True s"
  by (simp add: kv_match_not_word not_word)

text \<open>A line as \<open>None\<close>, the empty one, or its pair.\<close>

definition line_text :: "(string \<times> string) option \<Rightarrow> string" where
  "line_text l = (case l of None \<Rightarrow> [] | Some p \<Rightarrow> kv_line p)"

lemma line_text_Some: "line_text (Some p) = kv_line p"
  by (simp add: line_text_def)

lemma kv_scan_block:
  "list_all (\<lambda>l. case l of None \<Rightarrow> True | Some p \<Rightarrow> clean_pair p) ls \<Longrightarrow> kv_scan b (block_text (map line_text ls)) = List.map_filter id ls"
proof (induction ls arbitrary: b)
  case (Cons l ls)
  show ?case
  proof (cases l)
    case (Some p)
    then have p: "clean_pair p" using Cons.prems by simp
    then obtain c t where ct: "kv_line p = c # t" by (cases "kv_line p") (auto simp: clean_pair_def kv_line_def)
    have "kv_scan True (kv_line p @ block_text (map line_text ls)) = p # kv_scan False (block_text (map line_text ls))"
      using kv_match_line [OF p, of "map line_text ls"] by (simp add: ct)
    then show ?thesis
      using Cons.IH [of False] Cons.prems by (simp add: Some kv_scan_LF map_filter_simps line_text_Some del: kv_scan.simps)
  qed (use Cons in \<open>simp add: line_text_def kv_scan_LF map_filter_simps del: kv_scan.simps\<close>)
qed (simp add: map_filter_simps)

lemma until_end: "CHR ''['' \<notin> set a \<Longrightarrow> marker \<noteq> [] \<Longrightarrow> hd marker = CHR ''['' \<Longrightarrow> until marker (a @ [LF]) = a"
proof (induction a)
  case (Cons c a)
  then have "\<not> startswith (c # a @ [LF]) marker" by (cases marker) (auto simp: startswith_def)
  then show ?case using Cons by simp
qed simp

lemma until_marker:
  assumes "CHR ''['' \<notin> set a" and "startswith b marker" and "marker \<noteq> []" and "hd marker = CHR ''[''"
  shows "until marker (a @ b) = a"
  using assms(1)
proof (induction a)
  case Nil
  show ?case using assms(2,3) by (cases b) (auto simp: startswith_def)
next
  case (Cons c a)
  then have "\<not> startswith (c # a @ b) marker" using assms(3,4) by (cases marker) (auto simp: startswith_def)
  moreover have "b \<noteq> []" using assms(2,3) by (auto simp: startswith_def)
  ultimately show ?case using Cons by simp
qed

lemma startswith_Cons_ne: "p \<noteq> [] \<Longrightarrow> hd p \<noteq> c \<Longrightarrow> \<not> startswith (c # s) p"
  by (cases p) (auto simp: startswith_def)

lemma peer_blocks_skip: "CHR ''['' \<notin> set a \<Longrightarrow> peer_blocks (a @ b) = peer_blocks b"
proof (induction a)
  case (Cons c a)
  then have "\<not> startswith (c # a @ b) ''[Peer]''" by (intro startswith_Cons_ne) auto
  then show ?case using Cons by simp
qed simp

lemma peer_blocks_header: "peer_blocks (''[Interface]'' @ s) = peer_blocks s"
proof -
  have "peer_blocks (CHR ''['' # ''Interface]'' @ s) = peer_blocks (''Interface]'' @ s)"
    by (simp add: startswith_def)
  then show ?thesis using peer_blocks_skip [of "''Interface]''" s] by simp
qed

section \<open>What the backend writes\<close>

definition header_pairs :: "wireguard_config \<Rightarrow> nat \<Rightarrow> (string \<times> string) list" where
  "header_pairs c plen =
     [(''PrivateKey'', wc_private_key c), (''Address'', wc_address c @ ''/'' @ str_nat plen)] @
     (if truthy_int (wc_listen_port c) then [(''ListenPort'', str_int (the (wc_listen_port c)))] else []) @
     (case wc_dns_servers c of None \<Rightarrow> [] | Some ds \<Rightarrow> if ds = [] then [] else [(''DNS'', join '', '' ds)]) @
     (if truthy_int (wc_mtu c) then [(''MTU'', str_int (the (wc_mtu c)))] else [])"

definition peer_pairs :: "peer_config \<Rightarrow> (string \<times> string) list" where
  "peer_pairs p =
     [(''PublicKey'', pc_public_key p)] @
     (if truthy_str (pc_endpoint p)
      then [(''Endpoint'', the (pc_endpoint p) @ '':'' @ str_int (the (or_int (pc_endpoint_port p) (Some 51820))))] else []) @
     (if pc_allowed_ips p = [] then [] else [(''AllowedIPs'', join '', '' (pc_allowed_ips p))]) @
     (case pc_persistent_keepalive p of None \<Rightarrow> [] | Some k \<Rightarrow> [(''PersistentKeepalive'', str_int k)])"

lemma peer_lines_pairs: "peer_lines p = ''[Peer]'' # map kv_line (peer_pairs p) @ [[]]"
  by (auto simp: peer_lines_def peer_pairs_def kv_line_def or_int_def truthy_int_def split: option.splits)

lemma join_block: "join [LF] (x # xs) = x @ block_text xs"
  by (induction xs arbitrary: x) simp_all

lemma to_ini_text:
  "to_ini c = Inr ini \<Longrightarrow> \<exists>n. IPv4Network (wc_subnet c) = Some n \<and>
     ini = ''[Interface]'' @ block_text (map kv_line (header_pairs c (prefixlen n)) @ [[]] @ concat (map peer_lines (wc_peers c)))"
  unfolding to_ini_def
  by (auto simp: header_pairs_def kv_line_def join_block [symmetric] split: option.splits)

section \<open>What can be written\<close>

text \<open>Values the format carries: no line feed, no bracket, no white space at the ends; items no comma.\<close>

definition clean_item :: "string \<Rightarrow> bool" where
  "clean_item v \<longleftrightarrow> clean_value v \<and> CHR '','' \<notin> set v"

definition clean_peer :: "peer_config \<Rightarrow> bool" where
  "clean_peer p \<longleftrightarrow> clean_value (pc_public_key p) \<and> list_all clean_item (pc_allowed_ips p) \<and>
     (truthy_str (pc_endpoint p) \<longrightarrow> clean_value (the (pc_endpoint p)))"

definition clean_config :: "wireguard_config \<Rightarrow> bool" where
  "clean_config c \<longleftrightarrow> clean_value (wc_private_key c) \<and> clean_value (wc_address c) \<and> CHR ''/'' \<notin> set (wc_address c) \<and>
     (case wc_dns_servers c of None \<Rightarrow> True | Some ds \<Rightarrow> list_all clean_item ds) \<and> list_all clean_peer (wc_peers c)"

lemma str_nat_chars: "c \<in> set (str_nat n) \<Longrightarrow> is_digit c"
  using str_nat_digits [of n] by (simp add: list_all_iff)

lemma str_int_chars: "c \<in> set (str_int i) \<Longrightarrow> is_digit c \<or> c = CHR ''-''"
  by (auto simp: str_int_def dest: str_nat_chars split: if_splits)

lemma clean_str_int: "clean_value (str_int i)"
proof -
  have "str_int i \<noteq> []" by (simp add: str_int_def)
  moreover have "\<not> is_space c \<and> c \<noteq> LF \<and> c \<noteq> CHR ''[''" if "c \<in> set (str_int i)" for c
    using str_int_chars [OF that] by (auto simp: is_digit_def is_space_def)
  ultimately show ?thesis unfolding clean_value_def using hd_in_set last_in_set by metis
qed

lemma str_int_not_Nil [simp]: "str_int i \<noteq> []"
  using clean_str_int [of i] by (simp add: clean_value_def)

lemma clean_append_colon: "clean_value a \<Longrightarrow> clean_value b \<Longrightarrow> CHR ''['' \<notin> set m \<Longrightarrow> LF \<notin> set m \<Longrightarrow> clean_value (a @ m @ b)"
  by (auto simp: clean_value_def)

lemma clean_join: "list_all clean_item xs \<Longrightarrow> xs \<noteq> [] \<Longrightarrow> clean_value (join '', '' xs)"
proof (induction xs rule: induct_list012)
  case (3 x y xs)
  then have "clean_value (join '', '' (y # xs))" "clean_value x" by (simp_all add: clean_item_def)
  then show ?case using clean_append_colon [of x "join '', '' (y # xs)" "'', ''"] by simp
qed (simp_all add: clean_item_def)

lemma clean_pair_names [simp]:
  "clean_pair (''PrivateKey'', v) = clean_value v" "clean_pair (''Address'', v) = clean_value v"
  "clean_pair (''ListenPort'', v) = clean_value v" "clean_pair (''DNS'', v) = clean_value v" "clean_pair (''MTU'', v) = clean_value v"
  "clean_pair (''PublicKey'', v) = clean_value v" "clean_pair (''Endpoint'', v) = clean_value v"
  "clean_pair (''AllowedIPs'', v) = clean_value v" "clean_pair (''PersistentKeepalive'', v) = clean_value v"
  by (simp_all add: clean_pair_def is_word_def)

lemma clean_str_nat: "clean_value (str_nat n)"
  using clean_str_int [of "int n"] by (simp add: str_int_def)

lemma clean_header: "clean_config c \<Longrightarrow> list_all clean_pair (header_pairs c plen)"
  using clean_append_colon [of "wc_address c" "str_nat plen" "''/''"] clean_str_nat [of plen]
  by (auto simp: header_pairs_def clean_config_def clean_str_int clean_join split: option.splits)

lemma clean_peer_pairs: "clean_peer p \<Longrightarrow> list_all clean_pair (peer_pairs p)"
  using clean_append_colon [of "the (pc_endpoint p)" "str_int (the (or_int (pc_endpoint_port p) (Some 51820)))" "'':''"]
    clean_str_int
  by (auto simp: peer_pairs_def clean_peer_def clean_join split: option.splits)

lemma no_bracket: "list_all clean_pair ps \<Longrightarrow> CHR ''['' \<notin> set (block_text (map kv_line ps))"
  by (induction ps) (auto simp: kv_line_def clean_pair_def clean_value_def list_all_iff not_word)

lemma scan_pairs: "list_all clean_pair ps \<Longrightarrow>
    kv_scan b (block_text (map kv_line ps)) = ps \<and> kv_scan b (block_text (map kv_line ps @ [[], []])) = ps"
  using kv_scan_block [of "map Some ps" b] kv_scan_block [of "map Some ps @ [None, None]" b]
  by (simp add: list_all_iff comp_def line_text_def map_filter_def)

section \<open>Reading it back\<close>

lemma interface_section_ini:
  assumes "list_all clean_pair hp"
  shows "\<exists>s. interface_section (''[Interface]'' @ block_text (map kv_line hp @ [[]] @ concat (map peer_lines ps))) = Some s \<and>
    kv_scan True s = hp"
proof -
  have after: "after_first ''[Interface]'' (''[Interface]'' @ t) = Some t" for t by (simp add: startswith_def)
  show ?thesis
  proof (cases ps)
    case Nil
    have "until ''[Peer]'' (block_text (map kv_line hp) @ [LF]) = block_text (map kv_line hp)"
      by (rule until_end) (simp_all add: no_bracket assms)
    moreover have eq: "block_text (map kv_line hp @ [[]] @ concat (map peer_lines ps)) = block_text (map kv_line hp) @ [LF]"
      by (simp add: Nil block_text_append)
    ultimately show ?thesis using scan_pairs [OF assms] unfolding eq interface_section_def after by simp
  next
    case (Cons p qs)
    let ?a = "block_text (map kv_line hp @ [[], []])"
    let ?b = "''[Peer]'' @ block_text (map kv_line (peer_pairs p) @ [[]] @ concat (map peer_lines qs))"
    have eq: "block_text (map kv_line hp @ [[]] @ concat (map peer_lines ps)) = ?a @ ?b"
      by (simp add: Cons peer_lines_pairs block_text_append)
    have "until ''[Peer]'' (?a @ ?b) = ?a"
      by (rule until_marker) (simp_all add: no_bracket assms block_text_append startswith_def)
    then show ?thesis using scan_pairs [OF assms] unfolding eq interface_section_def after by simp
  qed
qed

lemma drop_own_length: "drop (length a) (a @ b) = b"
  by simp

lemma peer_block_scan: "kv_scan True (''[Peer]'' @ s) = kv_scan False s"
  by (simp add: kv_match_not_word not_word)

lemmas peer_block_scan_chars = peer_block_scan [simplified append_Cons append_Nil]

lemma peer_blocks_peers:
  "list_all clean_peer ps \<Longrightarrow> map (kv_scan True) (peer_blocks (block_text (concat (map peer_lines ps)))) = map peer_pairs ps"
proof (induction ps)
  case (Cons p ps)
  note clean = clean_peer_pairs [of p] no_bracket [of "peer_pairs p"] scan_pairs [of "peer_pairs p" False]
  let ?kv = "map kv_line (peer_pairs p)" and ?rest = "block_text (concat (map peer_lines ps))"
  have lay: "block_text (concat (map peer_lines (p # ps))) = LF # ''[Peer]'' @ block_text ?kv @ LF # ?rest"
    by (simp add: peer_lines_pairs block_text_append)
  have skip: "peer_blocks (LF # s) = peer_blocks s" for s using peer_blocks_skip [of "[LF]" s] by simp
  have step: "peer_blocks (''[Peer]'' @ s) = (''[Peer]'' @ until ''['' s) # peer_blocks (drop (length (until ''['' s)) s)" for s
  proof -
    have "drop (6 + n) (''[Peer]'' @ s) = drop n s" for n by (simp add: numeral_eq_Suc)
    moreover have "drop 6 (''[Peer]'' @ s) = s" by simp
    moreover have "peer_blocks (CHR ''['' # ''Peer]'' @ s) = (let body = until ''['' (drop 6 (''[Peer]'' @ s))
        in (''[Peer]'' @ body) # peer_blocks (drop (6 + length body) (''[Peer]'' @ s)))"
      unfolding peer_blocks.simps by (simp add: startswith_def)
    ultimately show ?thesis by (simp only: Let_def append.simps)
  qed
  show ?case
  proof (cases ps)
    case Nil
    have "until ''['' (block_text ?kv @ [LF]) = block_text ?kv"
      by (rule until_end) (use clean Cons.prems in simp_all)
    then show ?thesis
      unfolding lay skip step using clean Cons.prems skip [of "[]"]
      by (simp add: Nil peer_block_scan_chars del: kv_scan.simps peer_blocks.simps(2))
  next
    case (Cons q qs)
    let ?t = "''[Peer]'' @ block_text (map kv_line (peer_pairs q) @ [[]] @ concat (map peer_lines qs))"
    have rest: "?rest = LF # ?t" by (simp add: Cons peer_lines_pairs block_text_append)
    have split: "block_text ?kv @ LF # ?rest = block_text (?kv @ [[], []]) @ ?t" by (simp add: rest block_text_append)
    have upto: "until ''['' (block_text (?kv @ [[], []]) @ ?t) = block_text (?kv @ [[], []])"
      by (rule until_marker) (use clean Cons.prems in \<open>simp_all add: block_text_append startswith_def\<close>)
    have "peer_blocks (''[Peer]'' @ block_text (?kv @ [[], []]) @ ?t) =
        (''[Peer]'' @ block_text (?kv @ [[], []])) # peer_blocks ?t"
      using step [of "block_text (?kv @ [[], []]) @ ?t"] by (simp only: upto drop_own_length)
    moreover have "peer_blocks ?t = peer_blocks ?rest" unfolding rest skip ..
    ultimately have blocks: "peer_blocks (''[Peer]'' @ block_text (?kv @ [[], []]) @ ?t) =
        (''[Peer]'' @ block_text (?kv @ [[], []])) # peer_blocks ?rest" by (simp only:)
    have scan: "kv_scan True (''[Peer]'' @ block_text (?kv @ [[], []])) = peer_pairs p"
      unfolding peer_block_scan using clean Cons.prems by simp
    have IH: "map (kv_scan True) (peer_blocks ?rest) = map peer_pairs ps" using Cons.IH Cons.prems by simp
    show ?thesis unfolding lay skip split blocks by (simp only: list.map scan IH)
  qed
qed simp

lemma split_join_items:
  "list_all (\<lambda>x. CHR '','' \<notin> set x) (x # xs) \<Longrightarrow> split_on CHR '','' (join '', '' (x # xs)) = x # map (\<lambda>y. CHR '' '' # y) xs"
proof (induction xs arbitrary: x)
  case (Cons y xs)
  have "split_on CHR '','' (CHR '' '' # join '', '' (y # xs)) = (CHR '' '' # y) # map (\<lambda>y. CHR '' '' # y) xs"
    using Cons.IH [of y] Cons.prems by (cases xs) simp_all
  then show ?case using Cons.prems by (simp add: split_on_append_sep)
qed (simp add: split_on_no_sep)

lemma strip_items:
  assumes "list_all clean_item xs"
  shows "strip_list (if xs = [] then [] else join '', '' xs) = xs"
proof (cases xs)
  case (Cons x ys)
  have strip: "strip v = v \<and> strip (CHR '' '' # v) = v \<and> v \<noteq> []" if "clean_item v" for v
  proof -
    have "v \<noteq> []" "\<not> is_space (hd v)" "\<not> is_space (last v)" using that by (simp_all add: clean_item_def clean_value_def)
    then show ?thesis using strip_id [of v] by (simp add: strip_def is_space_def)
  qed
  have "map strip (split_on CHR '','' (join '', '' xs)) = xs"
  proof -
    have "list_all (\<lambda>v. CHR '','' \<notin> set v) (x # ys)" using assms by (auto simp: Cons list_all_iff clean_item_def)
    from split_join_items [OF this] show ?thesis using assms strip by (auto simp: Cons list_all_iff intro: map_idI)
  qed
  then show ?thesis using assms strip by (auto simp: Cons strip_list_def list_all_iff filter_id_conv)
qed (simp add: strip_list_def strip_def)

lemma endpoint_of_written: "e \<noteq> [] \<Longrightarrow> endpoint_of (e @ '':'' @ str_int port) = (Some e, Some port)"
proof -
  have "CHR '':'' \<notin> set (str_int port)" using str_int_chars [of "CHR '':''" port] by auto
  then have "takeWhile (\<lambda>c. c \<noteq> CHR '':'') (rev (e @ '':'' @ str_int port)) = rev (str_int port)"
    "dropWhile (\<lambda>c. c \<noteq> CHR '':'') (rev (e @ '':'' @ str_int port)) = CHR '':'' # rev e"
    using takeWhile_append2 [of "rev (str_int port)" "\<lambda>c. c \<noteq> CHR '':''" "CHR '':'' # rev e"]
      dropWhile_append2 [of "rev (str_int port)" "\<lambda>c. c \<noteq> CHR '':''" "CHR '':'' # rev e"] by auto
  then show "e \<noteq> [] \<Longrightarrow> ?thesis" unfolding endpoint_of_def rsplit_colon_def by simp
qed

lemma optional_int_written: "optional_int (str_int k) = Inr (Some k)"
  using clean_str_int [of k] by (simp add: optional_int_def clean_value_def)

text \<open>The peer the daemon reads for a peer the backend wrote.\<close>

definition peer_read :: "peer_config \<Rightarrow> desired_wg_peer" where
  "peer_read p =
     \<lparr>dw_public_key = pc_public_key p, dw_allowed_ips = pc_allowed_ips p,
      dw_endpoint = (if truthy_str (pc_endpoint p) then pc_endpoint p else None),
      dw_endpoint_port = (if truthy_str (pc_endpoint p) then or_int (pc_endpoint_port p) (Some 51820) else None),
      dw_persistent_keepalive = pc_persistent_keepalive p, dw_relay_required = False, dw_relay_candidates = []\<rparr>"

lemma kv_get_peer:
  "kv_get (peer_pairs p) ''PublicKey'' = pc_public_key p"
  "kv_get (peer_pairs p) ''Endpoint'' =
     (if truthy_str (pc_endpoint p) then the (pc_endpoint p) @ '':'' @ str_int (the (or_int (pc_endpoint_port p) (Some 51820))) else [])"
  "kv_get (peer_pairs p) ''AllowedIPs'' = (if pc_allowed_ips p = [] then [] else join '', '' (pc_allowed_ips p))"
  "kv_get (peer_pairs p) ''PersistentKeepalive'' = (case pc_persistent_keepalive p of None \<Rightarrow> [] | Some k \<Rightarrow> str_int k)"
  by (auto simp: kv_get_def peer_pairs_def split: option.splits)

lemma ini_peers_written:
  "list_all clean_peer ps \<Longrightarrow> map (kv_scan True) bs = map peer_pairs ps \<Longrightarrow> ini_peers bs = Inr (map peer_read ps)"
proof (induction ps arbitrary: bs)
  case (Cons p ps)
  then obtain b bs' where bs: "bs = b # bs'" "kv_scan True b = peer_pairs p" "map (kv_scan True) bs' = map peer_pairs ps" by auto
  have key: "pc_public_key p \<noteq> []" and ips: "list_all clean_item (pc_allowed_ips p)"
    using Cons.prems(1) by (auto simp: clean_peer_def clean_value_def)
  have port: "\<exists>i. or_int q (Some 51820) = Some i" for q by (cases q) auto
  have ep: "endpoint_of (kv_get (peer_pairs p) ''Endpoint'') = (dw_endpoint (peer_read p), dw_endpoint_port (peer_read p))"
    using endpoint_of_written [of "the (pc_endpoint p)"] port [of "pc_endpoint_port p"]
    by (cases "pc_endpoint p") (auto simp: kv_get_peer peer_read_def endpoint_of_def)
  have ka: "optional_int (kv_get (peer_pairs p) ''PersistentKeepalive'') = Inr (pc_persistent_keepalive p)"
    by (cases "pc_persistent_keepalive p") (simp_all add: kv_get_peer optional_int_written optional_int_def)
  have rest: "ini_peers bs' = Inr (map peer_read ps)" using Cons bs by simp
  show ?case
    unfolding bs(1) ini_peers.simps bs(2) Let_def ep ka rest
    using key strip_items [OF ips] by (simp add: kv_get_peer(1,3) peer_read_def)
qed simp

lemma IPv4Network_29: "IPv4Network ''10.0.0.0/29'' = Some \<lparr>network_address = 167772160, prefixlen = 29\<rparr>"
  by (simp add: py_simps)

section \<open>Properties\<close>

text \<open>
  C29. What the backend renders, the daemon reads: for a configuration whose values the format can
  carry, parsing the INI text gives the private key, the address with the prefix length of the
  network, the port, the DNS servers and the MTU (a port or MTU of zero is not written), and every
  peer in order with its key, addresses, endpoint with its port (51820 when there was none) and
  keep-alive.
\<close>

theorem config_ini_roundtrip:
  assumes "to_ini c = Inr ini" and "clean_config c"
  shows "\<exists>n. IPv4Network (wc_subnet c) = Some n \<and> parse_config_ini ini = Inr (Some
    \<lparr>dc_private_key = wc_private_key c, dc_address = wc_address c, dc_subnet = ''0.0.0.0/'' @ str_nat (prefixlen n),
     dc_listen_port = (if truthy_int (wc_listen_port c) then wc_listen_port c else None),
     dc_dns_servers = (if wc_dns_servers c = Some [] then None else wc_dns_servers c),
     dc_peers = map peer_read (wc_peers c),
     dc_mtu = (if truthy_int (wc_mtu c) then wc_mtu c else None)\<rparr>)"
proof -
  obtain n where n: "IPv4Network (wc_subnet c) = Some n"
    and ini: "ini = ''[Interface]'' @ block_text (map kv_line (header_pairs c (prefixlen n)) @ [[]] @ concat (map peer_lines (wc_peers c)))"
    using to_ini_text [OF assms(1)] by (elim exE conjE)
  let ?hp = "header_pairs c (prefixlen n)"
  have clean: "list_all clean_pair ?hp" and peers: "list_all clean_peer (wc_peers c)"
    using clean_header [OF assms(2)] assms(2) by (simp_all add: clean_config_def)
  obtain s where s: "interface_section ini = Some s" "kv_scan True s = ?hp"
    using interface_section_ini [OF clean, of "wc_peers c"] unfolding ini by blast
  have "peer_blocks ini = peer_blocks (block_text (concat (map peer_lines (wc_peers c))))"
    using peer_blocks_skip [of "block_text (map kv_line ?hp @ [[]])" "block_text (concat (map peer_lines (wc_peers c)))"]
      no_bracket [OF clean]
    unfolding ini peer_blocks_header by (simp add: block_text_append del: peer_blocks.simps)
  then have read: "ini_peers (peer_blocks ini) = Inr (map peer_read (wc_peers c))"
    using ini_peers_written [OF peers] peer_blocks_peers [OF peers] by simp
  have get: "kv_get ?hp ''PrivateKey'' = wc_private_key c" "kv_get ?hp ''Address'' = wc_address c @ ''/'' @ str_nat (prefixlen n)"
    "kv_get ?hp ''ListenPort'' = (if truthy_int (wc_listen_port c) then str_int (the (wc_listen_port c)) else [])"
    "kv_get ?hp ''DNS'' = (case wc_dns_servers c of None \<Rightarrow> [] | Some ds \<Rightarrow> if ds = [] then [] else join '', '' ds)"
    "kv_get ?hp ''MTU'' = (if truthy_int (wc_mtu c) then str_int (the (wc_mtu c)) else [])"
    by (auto simp: kv_get_def header_pairs_def split: option.splits)
  have slash: "CHR ''/'' \<notin> set (wc_address c)" "wc_address c \<noteq> []"
    using assms(2) by (simp_all add: clean_config_def clean_value_def)
  have addr: "address_of (wc_address c @ ''/'' @ str_nat (prefixlen n)) = wc_address c"
    "subnet_of_address (wc_address c @ ''/'' @ str_nat (prefixlen n)) = ''0.0.0.0/'' @ str_nat (prefixlen n)"
    using slash by (simp_all add: address_of_def subnet_of_address_def split_on_append_sep split_on_no_sep)
  have ints: "optional_int (if truthy_int i then str_int (the i) else []) = Inr (if truthy_int i then i else None)" for i
    by (cases i) (simp_all add: optional_int_written optional_int_def)
  have dns: "(if kv_get ?hp ''DNS'' \<noteq> [] then Some (strip_list (kv_get ?hp ''DNS'')) else None) =
      (if wc_dns_servers c = Some [] then None else wc_dns_servers c)"
  proof (cases "wc_dns_servers c")
    case (Some ds)
    then have items: "list_all clean_item ds" using assms(2) by (simp add: clean_config_def)
    show ?thesis using strip_items [OF items] clean_join [OF items] by (auto simp: get Some clean_value_def)
  qed (simp add: get)
  show ?thesis
    using n addr by (simp add: parse_config_ini_def s read Let_def get(1-3,5) ints dns)
qed

theorem config_ini_roundtrip_witness:
  "\<exists>ini. to_ini \<lparr>wc_private_key = ''priv'', wc_address = ''10.0.0.2'', wc_subnet = ''10.0.0.0/29'', wc_listen_port = None,
       wc_dns_servers = Some [''10.0.0.1''], wc_peers = [\<lparr>pc_public_key = ''key'', pc_allowed_ips = [''10.0.0.3/32'', ''10.1.0.0/16''],
         pc_endpoint = Some ''a.example'', pc_endpoint_port = None, pc_persistent_keepalive = Some 25\<rparr>], wc_mtu = None\<rparr> = Inr ini \<and>
     (\<exists>dc. parse_config_ini ini = Inr (Some dc) \<and> dc_address dc = ''10.0.0.2'' \<and>
        map dw_allowed_ips (dc_peers dc) = [[''10.0.0.3/32'', ''10.1.0.0/16'']] \<and> map dw_endpoint_port (dc_peers dc) = [Some 51820])"
proof -
  let ?c = "\<lparr>wc_private_key = ''priv'', wc_address = ''10.0.0.2'', wc_subnet = ''10.0.0.0/29'', wc_listen_port = None,
       wc_dns_servers = Some [''10.0.0.1''], wc_peers = [\<lparr>pc_public_key = ''key'', pc_allowed_ips = [''10.0.0.3/32'', ''10.1.0.0/16''],
         pc_endpoint = Some ''a.example'', pc_endpoint_port = None, pc_persistent_keepalive = Some 25\<rparr>], wc_mtu = None\<rparr>"
  obtain ini where ini: "to_ini ?c = Inr ini" by (simp add: to_ini_def IPv4Network_29)
  have "clean_config ?c" by (simp add: clean_config_def clean_peer_def clean_item_def clean_value_def is_space_def)
  from config_ini_roundtrip [OF ini this] ini show ?thesis by (auto simp: peer_read_def)
qed

end
