(* ===== verification/State_Store.thy ===== *)
theory State_Store
  imports Json
begin

text \<open>
  The daemon's state on disk: \<open>midscaled/daemon/state_store.py\<close>. A file holds text or the JSON value
  that \<open>json.dump\<close> wrote and \<open>json.load\<close> reads back; directories exist and writes succeed. A file written
  through a temporary one and \<open>os.replace\<close> has its final content and mode.
\<close>

section \<open>Files\<close>

datatype file_content = Json_content json | Text_content string

record stored_file =
  f_content :: file_content
  f_private :: bool

type_synonym disk = "string \<Rightarrow> stored_file option"

definition path_join :: "string \<Rightarrow> string \<Rightarrow> string" where
  "path_join a b = (if a = [] \<or> last a = CHR ''/'' then a @ b else a @ ''/'' @ b)"

text \<open>A file that is missing or is no JSON text counts as empty.\<close>

definition read_json :: "disk \<Rightarrow> string \<Rightarrow> json" where
  "read_json fs path =
     (case fs path of
        None \<Rightarrow> JObj []
      | Some f \<Rightarrow> (case f_content f of
                    Json_content j \<Rightarrow> j
                  | Text_content t \<Rightarrow> (case json_loads t of None \<Rightarrow> JObj [] | Some j \<Rightarrow> j)))"

definition write_json :: "string \<Rightarrow> json \<Rightarrow> disk \<Rightarrow> disk" where
  "write_json path data fs =
     fs(path \<mapsto> \<lparr>f_content = Json_content data,
                 f_private = (case fs path of None \<Rightarrow> False | Some f \<Rightarrow> f_private f)\<rparr>)"

definition secure_write :: "string \<Rightarrow> json \<Rightarrow> disk \<Rightarrow> disk" where
  "secure_write path data fs = fs(path \<mapsto> \<lparr>f_content = Json_content data, f_private = True\<rparr>, path @ ''.tmp'' := None)"

text \<open>The text of a file. \<open>json.dump\<close> is called with \<open>indent=2\<close>.\<close>

fun json_indented :: "nat \<Rightarrow> json \<Rightarrow> string" where
  "json_indented n (JList xs) =
     (if xs = [] then ''[]''
      else ''['' @ [CHR 0x0A] @ replicate (n + 2) CHR '' '' @
        join ('','' @ [CHR 0x0A] @ replicate (n + 2) CHR '' '') (map (json_indented (n + 2)) xs) @
        [CHR 0x0A] @ replicate n CHR '' '' @ '']'')"
| "json_indented n (JObj kvs) =
     (if kvs = [] then ''{}''
      else ''{'' @ [CHR 0x0A] @ replicate (n + 2) CHR '' '' @
        join ('','' @ [CHR 0x0A] @ replicate (n + 2) CHR '' '')
          (map (\<lambda>(k, v). dumps_str k @ '': '' @ json_indented (n + 2) v) kvs) @
        [CHR 0x0A] @ replicate n CHR '' '' @ ''}'')"
| "json_indented n v = json_dumps v"

fun file_text :: "file_content \<Rightarrow> string" where
  "file_text (Json_content j) = json_indented 0 j"
| "file_text (Text_content t) = t"

definition read_text :: "disk \<Rightarrow> string \<Rightarrow> string option" where
  "read_text fs path = map_option (\<lambda>f. file_text (f_content f)) (fs path)"

section \<open>The store\<close>

record state_store =
  ss_state_dir :: string
  ss_identity :: dict
  ss_enrollment :: dict
  ss_cache :: dict
  ss_disk :: disk

definition identity_file :: "state_store \<Rightarrow> string" where
  "identity_file s = path_join (ss_state_dir s) ''identity.json''"

definition enrollment_file :: "state_store \<Rightarrow> string" where
  "enrollment_file s = path_join (ss_state_dir s) ''enrollment.json''"

definition cache_file :: "state_store \<Rightarrow> string" where
  "cache_file s = path_join (ss_state_dir s) ''cache.json''"

definition get_private_key_path :: "state_store \<Rightarrow> string" where
  "get_private_key_path s = path_join (path_join (ss_state_dir s) ''keys'') ''private.key''"

definition new_store :: "string \<Rightarrow> disk \<Rightarrow> state_store" where
  "new_store dir fs = \<lparr>ss_state_dir = dir, ss_identity = [], ss_enrollment = [], ss_cache = [], ss_disk = fs\<rparr>"

text \<open>A top-level value that is no object is kept by the source; here only objects are read.\<close>

definition load_dict :: "disk \<Rightarrow> string \<Rightarrow> dict" where
  "load_dict fs path = (case read_json fs path of JObj kvs \<Rightarrow> kvs | _ \<Rightarrow> [])"

definition load_state :: "state_store \<Rightarrow> state_store" where
  "load_state s =
     s\<lparr>ss_identity := load_dict (ss_disk s) (identity_file s),
       ss_enrollment := load_dict (ss_disk s) (enrollment_file s),
       ss_cache := load_dict (ss_disk s) (cache_file s)\<rparr>"

definition save_identity :: "string option \<Rightarrow> state_store \<Rightarrow> state_store" where
  "save_identity device_id s =
     (let d = dict_set (ss_identity s) ''device_id'' (json_opt_str device_id)
      in s\<lparr>ss_identity := d, ss_disk := write_json (identity_file s) (JObj d) (ss_disk s)\<rparr>)"

definition get_device_id :: "state_store \<Rightarrow> json option" where
  "get_device_id s = dict_get (ss_identity s) ''device_id''"

definition save_enrollment :: "string option \<Rightarrow> string option \<Rightarrow> string \<Rightarrow> string option \<Rightarrow> state_store \<Rightarrow> state_store" where
  "save_enrollment device_id device_token private_key network_id s =
     (let d = dict_set (dict_set (dict_set (ss_enrollment s) ''device_id'' (json_opt_str device_id))
                ''device_token'' (json_opt_str device_token)) ''network_id'' (JStr (the (or_str network_id (Some []))));
          fs = secure_write (enrollment_file s) (JObj d) (ss_disk s);
          key_path = get_private_key_path s
      in s\<lparr>ss_enrollment := d,
           ss_disk := fs(key_path \<mapsto> \<lparr>f_content = Text_content (private_key @ [CHR 0x0A]), f_private = True\<rparr>,
                         key_path @ ''.tmp'' := None)\<rparr>)"

definition get_device_token :: "state_store \<Rightarrow> json option" where
  "get_device_token s = dict_get (ss_enrollment s) ''device_token''"

definition get_network_id :: "state_store \<Rightarrow> json option" where
  "get_network_id s =
     (case dict_get (ss_enrollment s) ''network_id'' of None \<Rightarrow> None | Some n \<Rightarrow> if truthy_json n then Some n else None)"

definition has_enrollment :: "state_store \<Rightarrow> bool" where
  "has_enrollment s \<longleftrightarrow> dict_get (ss_enrollment s) ''device_token'' \<noteq> None \<and> ss_disk s (get_private_key_path s) \<noteq> None"

definition update_cache :: "string \<Rightarrow> json \<Rightarrow> state_store \<Rightarrow> state_store" where
  "update_cache key v s =
     (let d = dict_set (ss_cache s) key v
      in s\<lparr>ss_cache := d, ss_disk := write_json (cache_file s) (JObj d) (ss_disk s)\<rparr>)"

definition get_cache :: "string \<Rightarrow> state_store \<Rightarrow> json" where
  "get_cache key s = dict_get_default (ss_cache s) key JNull"

definition clear_state :: "state_store \<Rightarrow> state_store" where
  "clear_state s =
     s\<lparr>ss_identity := [], ss_enrollment := [], ss_cache := [],
       ss_disk := (ss_disk s)(identity_file s := None, enrollment_file s := None, cache_file s := None,
                              get_private_key_path s := None)\<rparr>"

section \<open>Properties\<close>

text \<open>The process starts again: a new store on the same disk, loaded.\<close>

definition restart :: "state_store \<Rightarrow> state_store" where
  "restart s = load_state (new_store (ss_state_dir s) (ss_disk s))"

lemma path_join_eq [simp]: "path_join d a = path_join d b \<longleftrightarrow> a = b"
  by (simp add: path_join_def)

text \<open>Every file of the store is the state directory joined with a constant, so distinct files have distinct paths.\<close>

lemma path_join_append: "path_join d a @ b = path_join d (a @ b)"
  by (simp add: path_join_def)

lemma path_join_nested: "a \<noteq> [] \<Longrightarrow> last a \<noteq> CHR ''/'' \<Longrightarrow> path_join (path_join d a) b = path_join d (a @ ''/'' @ b)"
  by (simp add: path_join_def)

lemmas store_paths = identity_file_def enrollment_file_def cache_file_def get_private_key_path_def path_join_append path_join_nested

lemma load_dict_of_file:
  "fs p = Some \<lparr>f_content = Json_content (JObj d), f_private = b\<rparr> \<Longrightarrow> load_dict fs p = d"
  "fs p = None \<Longrightarrow> load_dict fs p = []"
  by (simp_all add: load_dict_def read_json_def)

lemma restart_fields:
  "ss_enrollment (restart s) = load_dict (ss_disk s) (enrollment_file s)"
  "ss_cache (restart s) = load_dict (ss_disk s) (cache_file s)"
  "ss_disk (restart s) = ss_disk s"
  "get_private_key_path (restart s) = get_private_key_path s"
  by (simp_all add: restart_def load_state_def new_store_def store_paths)

lemma save_enrollment_files:
  "ss_disk (save_enrollment did token key net s) (get_private_key_path s) =
     Some \<lparr>f_content = Text_content (key @ [CHR 0x0A]), f_private = True\<rparr>"
  "ss_disk (save_enrollment did token key net s) (enrollment_file s) =
     Some \<lparr>f_content = Json_content (JObj (ss_enrollment (save_enrollment did token key net s))), f_private = True\<rparr>"
  by (simp_all add: save_enrollment_def Let_def secure_write_def store_paths)

lemma save_enrollment_path [simp]:
  "get_private_key_path (save_enrollment did token key net s) = get_private_key_path s"
  "enrollment_file (save_enrollment did token key net s) = enrollment_file s"
  by (simp_all add: save_enrollment_def Let_def store_paths)

lemma restart_enrollment:
  "ss_enrollment (restart (save_enrollment did token key net s)) = ss_enrollment (save_enrollment did token key net s)"
  unfolding restart_fields save_enrollment_path by (rule load_dict_of_file(1)) (rule save_enrollment_files(2))

lemma saved_enrollment:
  "dict_get (ss_enrollment (save_enrollment did token key net s)) ''device_token'' = Some (json_opt_str token)"
  "dict_get (ss_enrollment (save_enrollment did token key net s)) ''network_id'' = Some (JStr (the (or_str net (Some []))))"
  by (simp_all add: save_enrollment_def Let_def)

text \<open>What the cache holds is on the disk, and a restart reads it back.\<close>

lemma get_cache_update [simp]: "get_cache k (update_cache k' v s) = (if k = k' then v else get_cache k s)"
  by (auto simp: get_cache_def update_cache_def Let_def dict_get_default_def dict_get_def [symmetric])

lemma cache_survives_restart: "ss_cache (restart (update_cache k v s)) = ss_cache (update_cache k v s)"
  by (simp add: restart_fields update_cache_def Let_def write_json_def store_paths load_dict_of_file(1))

text \<open>
  Enrollment survives a restart: after saving it, a new store on the same disk has it, with the
  same token and network, the private key file holds the key and is private, as is the enrollment
  file; and clearing the store removes all of it.
\<close>

theorem enrollment_survives_restart:
  "has_enrollment (restart (save_enrollment did (Some token) key net s)) \<and>
   get_device_token (restart (save_enrollment did (Some token) key net s)) = Some (JStr token) \<and>
   get_network_id (restart (save_enrollment did (Some token) key net s)) = (if truthy_str net then Some (JStr (the net)) else None) \<and>
   ss_disk (save_enrollment did (Some token) key net s) (get_private_key_path s) =
     Some \<lparr>f_content = Text_content (key @ [CHR 0x0A]), f_private = True\<rparr> \<and>
   map_option f_private (ss_disk (save_enrollment did (Some token) key net s) (enrollment_file s)) = Some True \<and>
   \<not> has_enrollment (restart (clear_state (save_enrollment did (Some token) key net s)))"
proof (intro conjI)
  show "has_enrollment (restart (save_enrollment did (Some token) key net s))"
    unfolding has_enrollment_def restart_enrollment saved_enrollment restart_fields(3,4) by (simp add: save_enrollment_files)
  show "get_device_token (restart (save_enrollment did (Some token) key net s)) = Some (JStr token)"
    by (simp add: get_device_token_def restart_enrollment saved_enrollment json_opt_str_def)
  show "get_network_id (restart (save_enrollment did (Some token) key net s)) = (if truthy_str net then Some (JStr (the net)) else None)"
    by (cases net) (simp_all add: get_network_id_def restart_enrollment saved_enrollment truthy_json_def)
  show "\<not> has_enrollment (restart (clear_state (save_enrollment did (Some token) key net s)))"
    by (simp add: has_enrollment_def restart_fields clear_state_def store_paths load_dict_of_file(2) dict_get_def)
qed (simp_all add: save_enrollment_files)

end
