(* ===== verification/Reconciler.thy ===== *)
theory Reconciler
  imports Config_Ini State_Store Config_V2
begin

text \<open>
  The daemon's reconciliation: \<open>midscaled/daemon/reconciler.py\<close> with the dataclasses of
  \<open>midscaled/daemon/models.py\<close> it fills in. One call of \<open>reconcile_once\<close> takes what the server
  answered to the pull; the host, the store and the daemon's state are threaded through. The server's
  JSON is read as the typed records of the configuration pipeline.
\<close>

section \<open>State\<close>

record daemon_state =
  das_registered :: bool
  das_enrolled :: bool
  das_device_id :: "string option"
  das_last_config_fetch :: "datetime option"
  das_last_heartbeat :: "datetime option"
  das_last_endpoint_report :: "datetime option"
  das_current_endpoint :: "string option"
  das_reconfigure_count :: int
  das_error_count :: int
  das_last_config_hash :: "string option"
  das_last_config_revision :: "string option"

definition new_daemon_state :: daemon_state where
  "new_daemon_state =
     \<lparr>das_registered = False, das_enrolled = False, das_device_id = None, das_last_config_fetch = None,
      das_last_heartbeat = None, das_last_endpoint_report = None, das_current_endpoint = None,
      das_reconfigure_count = 0, das_error_count = 0, das_last_config_hash = None, das_last_config_revision = None\<rparr>"

record config_pull =
  cp_success :: bool
  cp_config_ini :: "string option"
  cp_filename :: "string option"
  cp_error :: "string option"

record config_v2_pull =
  vp_success :: bool
  vp_interface :: "config_interface option"
  vp_peers :: "peer_info list option"
  vp_routes :: "string list option"
  vp_exit_node :: "string option"
  vp_revision :: "string option"
  vp_hash :: "string option"
  vp_version :: "string option"
  vp_error :: "string option"

record probe_target =
  pt_peer_device_id :: string
  pt_public_key :: string
  pt_endpoint :: string
  pt_port :: "int option"

text \<open>
  \<open>re_relay\<close> tells whether there is a connected relay client, \<open>re_relay_tasks\<close> lists the peers a
  relay activation was started for; \<open>re_targets\<close> is what the prober was last given, when there is one.
\<close>

record 'x reconciler =
  re_store :: state_store
  re_host :: "'x host"
  re_last_config :: "string option"
  re_state :: daemon_state
  re_relay :: bool
  re_relay_tasks :: "desired_wg_peer list"
  re_targets :: "probe_target list option"

section \<open>Reading the second version of the configuration\<close>

definition candidate_dict :: "relay_candidate_info \<Rightarrow> dict" where
  "candidate_dict c = (case relay_candidate_json c of JObj d \<Rightarrow> d | _ \<Rightarrow> [])"

definition desired_peer_of :: "peer_info \<Rightarrow> desired_wg_peer" where
  "desired_peer_of p =
     \<lparr>dw_public_key = pi_public_key p, dw_allowed_ips = pi_allowed_ips p, dw_endpoint = pi_endpoint p,
      dw_endpoint_port = pi_endpoint_port p, dw_persistent_keepalive = pi_persistent_keepalive p,
      dw_relay_required = pi_relay_required p,
      dw_relay_candidates = (case pi_relay_candidates p of None \<Rightarrow> [] | Some cs \<Rightarrow> map candidate_dict cs)\<rparr>"

text \<open>A missing interface or peer list raises inside the \<open>try\<close>, so nothing is returned.\<close>

definition parse_config_v2 :: "config_interface option \<Rightarrow> peer_info list option \<Rightarrow> string \<Rightarrow> desired_config option" where
  "parse_config_v2 interface peers private_key =
     (case (interface, peers) of
        (Some i, Some ps) \<Rightarrow>
          Some \<lparr>dc_private_key = private_key, dc_address = address_of (ci_address i),
                dc_subnet = subnet_of_address (ci_address i), dc_listen_port = None, dc_dns_servers = ci_dns i,
                dc_peers = map desired_peer_of ps, dc_mtu = ci_mtu i\<rparr>
      | _ \<Rightarrow> None)"

definition pull_json :: "config_v2_pull \<Rightarrow> json" where
  "pull_json p = JObj
     [(''interface'', case vp_interface p of None \<Rightarrow> JNull | Some i \<Rightarrow> interface_json i),
      (''peers'', case vp_peers p of None \<Rightarrow> JNull | Some ps \<Rightarrow> JList (map peer_json ps)),
      (''routes'', case vp_routes p of None \<Rightarrow> JNull | Some rs \<Rightarrow> json_strs rs),
      (''exit_node'', json_opt_str (vp_exit_node p))]"

text \<open>The targets for the prober: the chosen endpoint of a peer, then its candidates.\<close>

definition peer_targets :: "peer_info \<Rightarrow> probe_target list" where
  "peer_targets p =
     (if truthy_str (pi_endpoint p)
      then [\<lparr>pt_peer_device_id = pi_public_key p, pt_public_key = pi_public_key p,
             pt_endpoint = the (pi_endpoint p), pt_port = pi_endpoint_port p\<rparr>] else []) @
     map (\<lambda>c. \<lparr>pt_peer_device_id = pi_public_key p, pt_public_key = pi_public_key p,
                pt_endpoint = ec_endpoint c, pt_port = Some (ec_port c)\<rparr>) (pi_endpoint_candidates p)"

section \<open>Applying\<close>

definition reconcile_apply :: "(string set \<Rightarrow> string list) \<Rightarrow> 'x programs \<Rightarrow> string \<Rightarrow> string \<Rightarrow> desired_config
    \<Rightarrow> 'x reconciler \<Rightarrow> 'x reconciler" where
  "reconcile_apply so prog wg interface config r =
     (case bring_up_interface prog wg interface (dc_address config) (dc_subnet config) (re_host r) of
        (h1, False) \<Rightarrow> r\<lparr>re_host := h1\<rparr>
      | (h1, True) \<Rightarrow>
          (case apply_config so prog wg interface config h1 of
             (h2, ok) \<Rightarrow>
               r\<lparr>re_host := h2,
                 re_state := (if ok then (re_state r)\<lparr>das_reconfigure_count := das_reconfigure_count (re_state r) + 1\<rparr>
                              else (re_state r)\<lparr>das_error_count := das_error_count (re_state r) + 1\<rparr>)\<rparr>))"

definition fetched :: "datetime \<Rightarrow> 'x reconciler \<Rightarrow> 'x reconciler" where
  "fetched now r = r\<lparr>re_state := (re_state r)\<lparr>das_last_config_fetch := Some now\<rparr>\<rparr>"

definition re_update_cache :: "string \<Rightarrow> json \<Rightarrow> 'x reconciler \<Rightarrow> 'x reconciler" where
  "re_update_cache k v r = r\<lparr>re_store := update_cache k v (re_store r)\<rparr>"

text \<open>Parsing the text may raise; then the steps before it have been done.\<close>

definition apply_ini :: "(string set \<Rightarrow> string list) \<Rightarrow> 'x programs \<Rightarrow> string \<Rightarrow> string \<Rightarrow> string
    \<Rightarrow> 'x reconciler \<Rightarrow> 'x reconciler \<times> unit result" where
  "apply_ini so prog wg interface ini r =
     (case parse_config_ini ini of
        Inl e \<Rightarrow> (r, Inl e)
      | Inr None \<Rightarrow> (r, Inr ())
      | Inr (Some config) \<Rightarrow> (reconcile_apply so prog wg interface config r, Inr ()))"

section \<open>One reconciliation\<close>

definition reconcile_v1 :: "(string set \<Rightarrow> string list) \<Rightarrow> 'x programs \<Rightarrow> string \<Rightarrow> string \<Rightarrow> datetime \<Rightarrow> config_pull
    \<Rightarrow> 'x reconciler \<Rightarrow> 'x reconciler \<times> unit result" where
  "reconcile_v1 so prog wg interface now p r =
     (if \<not> cp_success p then
        (case get_cache ''last_config'' (re_store r) of
           JStr cached \<Rightarrow>
             if cached \<noteq> [] \<and> re_last_config r = None
             then apply_ini so prog wg interface cached (r\<lparr>re_last_config := Some cached\<rparr>)
             else (r, Inr ())
         | v \<Rightarrow> if truthy_json v \<and> re_last_config r = None then (r, Inl (TypeError ''expected string'')) else (r, Inr ()))
      else
        (case cp_config_ini p of
           None \<Rightarrow> (r, Inr ())
         | Some ini \<Rightarrow>
             if ini = [] then (r, Inr ())
             else if re_last_config r = Some ini then (fetched now r, Inr ())
             else apply_ini so prog wg interface ini
                    ((re_update_cache ''last_config'' (JStr ini) r)\<lparr>re_last_config := Some ini\<rparr>)))"

definition read_private_key :: "state_store \<Rightarrow> string option" where
  "read_private_key s = map_option strip (read_text (ss_disk s) (get_private_key_path s))"

definition config_known :: "config_v2_pull \<Rightarrow> state_store \<Rightarrow> bool" where
  "config_known p s \<longleftrightarrow>
     (if truthy_str (vp_hash p) then get_cache ''last_config_hash'' s = JStr (the (vp_hash p))
      else get_cache ''last_config_v2'' s = JStr (json_dumps_sorted (pull_json p)))"

text \<open>What is recorded once the configuration has been handed to the interface, whatever came of it.\<close>

definition record_config :: "config_v2_pull \<Rightarrow> 'x reconciler \<Rightarrow> 'x reconciler" where
  "record_config p r =
     (let r1 = re_update_cache ''last_config_v2'' (JStr (json_dumps_sorted (pull_json p))) r
      in if truthy_str (vp_hash p)
         then (re_update_cache ''last_config_hash'' (JStr (the (vp_hash p))) r1)
                \<lparr>re_state := (re_state r1)\<lparr>das_last_config_hash := vp_hash p, das_last_config_revision := vp_revision p\<rparr>\<rparr>
         else r1)"

definition start_relay_tasks :: "desired_config \<Rightarrow> 'x reconciler \<Rightarrow> 'x reconciler" where
  "start_relay_tasks config r =
     (if re_relay r
      then r\<lparr>re_relay_tasks := re_relay_tasks r @
               filter (\<lambda>p. dw_relay_required p \<and> dw_relay_candidates p \<noteq> []) (dc_peers config)\<rparr> else r)"

definition update_targets :: "config_v2_pull \<Rightarrow> 'x reconciler \<Rightarrow> 'x reconciler" where
  "update_targets p r =
     (case (re_targets r, vp_peers p) of
        (Some _, Some ps) \<Rightarrow> if ps = [] then r else r\<lparr>re_targets := Some (concat (map peer_targets ps))\<rparr>
      | _ \<Rightarrow> r)"

definition reconcile_v2 :: "(string set \<Rightarrow> string list) \<Rightarrow> 'x programs \<Rightarrow> string \<Rightarrow> string \<Rightarrow> datetime \<Rightarrow> config_v2_pull
    \<Rightarrow> 'x reconciler \<Rightarrow> 'x reconciler" where
  "reconcile_v2 so prog wg interface now p r =
     (case read_private_key (re_store r) of
        None \<Rightarrow> r
      | Some key \<Rightarrow>
          if key = [] then r
          else if \<not> vp_success p then r
          else if config_known p (re_store r) then fetched now r
          else
            (case parse_config_v2 (vp_interface p) (vp_peers p) key of
               None \<Rightarrow> r
             | Some config \<Rightarrow>
                 update_targets p
                   (record_config p (start_relay_tasks config (reconcile_apply so prog wg interface config r)))))"

text \<open>An enrolled daemon pulls the second version; \<open>p1\<close> and \<open>p2\<close> are what the server answers to either pull.\<close>

definition reconcile_once :: "(string set \<Rightarrow> string list) \<Rightarrow> 'x programs \<Rightarrow> string \<Rightarrow> string \<Rightarrow> datetime \<Rightarrow> config_pull
    \<Rightarrow> config_v2_pull \<Rightarrow> 'x reconciler \<Rightarrow> 'x reconciler \<times> unit result" where
  "reconcile_once so prog wg interface now p1 p2 r =
     (if das_enrolled (re_state r) then (reconcile_v2 so prog wg interface now p2 r, Inr ())
      else reconcile_v1 so prog wg interface now p1 r)"

text \<open>One turn of \<open>_run_loop\<close>.\<close>

definition loop_turn :: "(string set \<Rightarrow> string list) \<Rightarrow> 'x programs \<Rightarrow> string \<Rightarrow> string \<Rightarrow> datetime \<Rightarrow> config_pull
    \<Rightarrow> config_v2_pull \<Rightarrow> 'x reconciler \<Rightarrow> 'x reconciler" where
  "loop_turn so prog wg interface now p1 p2 r =
     (case reconcile_once so prog wg interface now p1 p2 r of
        (r', Inr _) \<Rightarrow> fetched now r'
      | (r', Inl _) \<Rightarrow> r'\<lparr>re_state := (re_state r')\<lparr>das_error_count := das_error_count (re_state r') + 1\<rparr>\<rparr>)"

section \<open>Relay activation\<close>

text \<open>The device a public key belongs to, looked up in the last configuration; every exception counts as unknown.\<close>

definition resolve_peer_device_id :: "string \<Rightarrow> 'x reconciler \<Rightarrow> json option" where
  "resolve_peer_device_id pk r =
     (if \<not> truthy_str (re_last_config r) then None
      else (case get_cache ''last_config_v2'' (re_store r) of
              JStr cached \<Rightarrow>
                (case json_loads cached of
                   Some (JObj d) \<Rightarrow>
                     (case dict_get d ''peers'' of
                        Some (JList ps) \<Rightarrow>
                          (case filter (\<lambda>p. case p of JObj kvs \<Rightarrow> dict_get kvs ''public_key'' = Some (JStr pk) | _ \<Rightarrow> False) ps of
                             JObj kvs # _ \<Rightarrow> dict_get kvs ''device_id''
                           | _ \<Rightarrow> None)
                      | _ \<Rightarrow> None)
                 | _ \<Rightarrow> None)
            | _ \<Rightarrow> None))"

text \<open>The device a relay session is asked for, when one is.\<close>

definition activate_relay_for_peer :: "bool \<Rightarrow> desired_wg_peer \<Rightarrow> 'x reconciler \<Rightarrow> json option" where
  "activate_relay_for_peer has_device_id peer r =
     (if \<not> re_relay r \<or> \<not> has_device_id \<or> dw_relay_candidates peer = [] then None
      else (case resolve_peer_device_id (dw_public_key peer) r of
              None \<Rightarrow> None
            | Some v \<Rightarrow> if truthy_json v then Some v else None))"

section \<open>What a reconciliation does to the host\<close>

lemma re_update_cache_fields [simp]:
  "re_store (re_update_cache k v r) = update_cache k v (re_store r)" "re_host (re_update_cache k v r) = re_host r"
  "re_last_config (re_update_cache k v r) = re_last_config r" "re_state (re_update_cache k v r) = re_state r"
  "re_relay (re_update_cache k v r) = re_relay r"
  by (simp_all add: re_update_cache_def)

lemma fetched_fields [simp]:
  "re_store (fetched now r) = re_store r" "re_host (fetched now r) = re_host r" "re_last_config (fetched now r) = re_last_config r"
  "das_enrolled (re_state (fetched now r)) = das_enrolled (re_state r)"
  by (simp_all add: fetched_def)

lemma reconcile_apply_fields [simp]:
  "re_store (reconcile_apply so prog wg interface c r) = re_store r"
  "re_last_config (reconcile_apply so prog wg interface c r) = re_last_config r"
  "das_enrolled (re_state (reconcile_apply so prog wg interface c r)) = das_enrolled (re_state r)"
  by (simp_all add: reconcile_apply_def split: prod.splits bool.splits)

lemma start_relay_tasks_fields [simp]:
  "re_store (start_relay_tasks c r) = re_store r" "re_host (start_relay_tasks c r) = re_host r"
  "re_last_config (start_relay_tasks c r) = re_last_config r" "re_state (start_relay_tasks c r) = re_state r"
  by (simp_all add: start_relay_tasks_def)

lemma update_targets_fields [simp]:
  "re_store (update_targets p r) = re_store r" "re_host (update_targets p r) = re_host r"
  "re_last_config (update_targets p r) = re_last_config r" "re_state (update_targets p r) = re_state r"
  by (simp_all add: update_targets_def split: option.splits)

lemma record_config_fields [simp]:
  "re_host (record_config p r) = re_host r" "re_last_config (record_config p r) = re_last_config r"
  "das_enrolled (re_state (record_config p r)) = das_enrolled (re_state r)"
  "das_reconfigure_count (re_state (record_config p r)) = das_reconfigure_count (re_state r)"
  by (simp_all add: record_config_def Let_def)

lemma record_config_store:
  "re_store (record_config p r) =
     (let s = update_cache ''last_config_v2'' (JStr (json_dumps_sorted (pull_json p))) (re_store r)
      in if truthy_str (vp_hash p) then update_cache ''last_config_hash'' (JStr (the (vp_hash p))) s else s)"
  by (simp add: record_config_def Let_def)

text \<open>What was recorded is known, also to a process started on the same disk.\<close>

lemma config_known_recorded: "config_known p (re_store (record_config p r))"
  by (simp add: config_known_def record_config_store Let_def)

lemma config_known_restart: "config_known p (restart (re_store (record_config p r)))"
proof -
  have "ss_cache (restart (re_store (record_config p r))) = ss_cache (re_store (record_config p r))"
    by (simp add: record_config_store Let_def cache_survives_restart)
  then have "get_cache k (restart (re_store (record_config p r))) = get_cache k (re_store (record_config p r))" for k
    by (simp add: get_cache_def)
  then show ?thesis using config_known_recorded [of p r] unfolding config_known_def by (simp only: )
qed

lemma config_known_hash:
  "config_known p s \<Longrightarrow> truthy_str (vp_hash p) \<Longrightarrow> vp_hash q = vp_hash p \<Longrightarrow> config_known q s"
  by (simp add: config_known_def)

lemma reconcile_known_no_op: "config_known p (re_store r) \<Longrightarrow> re_host (reconcile_v2 so prog wg interface now p r) = re_host r"
  by (simp add: reconcile_v2_def split: option.split)

text \<open>The effect of an enrolled reconciliation that gets a configuration it has not seen.\<close>

lemma reconcile_v2_new:
  assumes "read_private_key (re_store r) = Some key" and "key \<noteq> []" and "vp_success p" and "\<not> config_known p (re_store r)"
    and "parse_config_v2 (vp_interface p) (vp_peers p) key = Some config"
  shows "reconcile_v2 so prog wg interface now p r =
    update_targets p (record_config p (start_relay_tasks config (reconcile_apply so prog wg interface config r)))"
  using assms by (simp add: reconcile_v2_def)

lemma reconcile_apply_starts:
  assumes start: "programs_start prog" and key: "dc_private_key config \<noteq> []"
    and before: "before = [([wg, ''show'', interface], None), (''ip'' # address_args interface (dc_address config) (dc_subnet config), None),
       (''ip'' # link_up_args interface, None),
       ([wg, ''set'', interface, ''private-key'', ''/dev/stdin'', ''listen-port'',
         str_int (the (or_int (dc_listen_port config) (Some 51820)))], Some (dc_private_key config))]"
  shows "reconcile_apply so prog wg interface config r =
    r\<lparr>re_host := host_after prog (before @ ([wg, ''show'', interface, ''dump''], None) #
        apply_commands so wg interface config (dump_keys prog wg interface (host_after prog before (re_host r)))) (re_host r),
      re_state := (re_state r)\<lparr>das_reconfigure_count := das_reconfigure_count (re_state r) + 1\<rparr>\<rparr>"
  unfolding before
  by (simp add: reconcile_apply_def interface_never_created [OF start] apply_config_commands [OF start key refl])

section \<open>Properties\<close>

text \<open>The commands of a reconciliation, in order.\<close>

definition before_dump :: "string \<Rightarrow> string \<Rightarrow> config_interface \<Rightarrow> string \<Rightarrow> command list" where
  "before_dump wg interface i key =
     [([wg, ''show'', interface], None),
      (''ip'' # address_args interface (address_of (ci_address i)) (subnet_of_address (ci_address i)), None),
      (''ip'' # link_up_args interface, None),
      ([wg, ''set'', interface, ''private-key'', ''/dev/stdin'', ''listen-port'', ''51820''], Some key)]"

lemma reconcile_once_commands:
  assumes "programs_start prog" and "das_enrolled (re_state r)"
    and "read_private_key (re_store r) = Some key" and "key \<noteq> []"
    and "vp_success p" and "vp_interface p = Some i" and "vp_peers p = Some ps" and "\<not> config_known p (re_store r)"
    and "before = before_dump wg interface i key"
  shows "\<exists>r'. reconcile_once so prog wg interface now p1 p r = (r', Inr ()) \<and>
    re_host r' = host_after prog (before @ [([wg, ''show'', interface, ''dump''], None)] @
      map (\<lambda>x. (wg # peer_args interface (desired_peer_of x), None)) ps @
      map (\<lambda>k. ([wg, ''set'', interface, ''peer'', k, ''remove''], None))
        (filter (\<lambda>k. k \<notin> pi_public_key ` set ps)
          (so (dump_keys prog wg interface (host_after prog before (re_host r)))))) (re_host r) \<and>
    config_known p (re_store r') \<and>
    das_reconfigure_count (re_state r') = das_reconfigure_count (re_state r) + 1"
proof -
  define c where "c = \<lparr>dc_private_key = key, dc_address = address_of (ci_address i), dc_subnet = subnet_of_address (ci_address i),
      dc_listen_port = None, dc_dns_servers = ci_dns i, dc_peers = map desired_peer_of ps, dc_mtu = ci_mtu i\<rparr>"
  have c: "dc_private_key c = key" "dc_address c = address_of (ci_address i)" "dc_subnet c = subnet_of_address (ci_address i)"
      "dc_listen_port c = None" "dc_peers c = map desired_peer_of ps"
    by (simp_all add: c_def)
  let ?a = "reconcile_apply so prog wg interface c r"
  let ?r = "update_targets p (record_config p (start_relay_tasks c ?a))"
  have run: "reconcile_once so prog wg interface now p1 p r = (?r, Inr ())"
    using assms by (simp add: reconcile_once_def reconcile_v2_new parse_config_v2_def c_def)
  have keys: "dw_public_key ` desired_peer_of ` set ps = pi_public_key ` set ps"
    by (auto simp add: image_image desired_peer_of_def)
  have key: "dc_private_key c \<noteq> []" by (simp add: c assms(4))
  have "str_int (the (or_int None (Some 51820))) = ''51820''"
    by (simp add: str_int_def str_nat.simps [of 51820] str_nat.simps [of 5182] str_nat.simps [of 518] str_nat.simps [of 51]
        str_nat.simps [of 5] py_simps)
  then have before: "before = [([wg, ''show'', interface], None), (''ip'' # address_args interface (dc_address c) (dc_subnet c), None),
       (''ip'' # link_up_args interface, None),
       ([wg, ''set'', interface, ''private-key'', ''/dev/stdin'', ''listen-port'',
         str_int (the (or_int (dc_listen_port c) (Some 51820)))], Some (dc_private_key c))]"
    by (simp only: assms(9) before_dump_def c)
  note effect = reconcile_apply_starts [OF assms(1) key before, of so r]
  have "re_host ?r = re_host ?a" by simp
  also have "\<dots> = host_after prog (before @ [([wg, ''show'', interface, ''dump''], None)] @
      map (\<lambda>x. (wg # peer_args interface (desired_peer_of x), None)) ps @
      map (\<lambda>k. ([wg, ''set'', interface, ''peer'', k, ''remove''], None))
        (filter (\<lambda>k. k \<notin> pi_public_key ` set ps)
          (so (dump_keys prog wg interface (host_after prog before (re_host r)))))) (re_host r)"
    unfolding effect by (simp add: apply_commands_def c keys comp_def)
  finally have host: "re_host ?r = \<dots>" .
  have known: "config_known p (re_store ?r)" by (simp add: config_known_recorded)
  have counted: "das_reconfigure_count (re_state ?r) = das_reconfigure_count (re_state r) + 1" by (simp add: effect)
  show ?thesis
    by (rule exI [of _ ?r], intro conjI run host known counted)
qed


text \<open>
  C8. A configuration is tried once. After an enrolled reconciliation of a configuration with a hash,
  whatever the programs answered and whether or not they could be started, every later
  reconciliation whose pull carries the same hash leaves the host alone, also in a daemon that was
  started again on the same disk, as long as no other configuration has been recorded since: a failed
  or lost configuration is not applied until it changes.
\<close>

theorem failed_config_never_retried:
  assumes "das_enrolled (re_state r)" and "read_private_key (re_store r) = Some key" and "key \<noteq> []"
    and "vp_success p" and "vp_interface p \<noteq> None" and "vp_peers p \<noteq> None"
    and "\<not> config_known p (re_store r)" and "vp_hash p = Some hash" and "hash \<noteq> []"
    and "das_enrolled (re_state late)" and "vp_hash q = Some hash"
    and "r' = fst (reconcile_once so prog wg interface now p1 p r)"
    and "re_store late = re_store r' \<or> re_store late = restart (re_store r')"
  shows "re_host (fst (reconcile_once so2 prog2 wg interface now2 q1 q late)) = re_host late"
proof -
  obtain config where "parse_config_v2 (vp_interface p) (vp_peers p) key = Some config"
    using assms(5,6) by (auto simp: parse_config_v2_def)
  with assms have "r' = update_targets p (record_config p (start_relay_tasks config (reconcile_apply so prog wg interface config r)))"
    by (simp add: reconcile_once_def reconcile_v2_new)
  then have "config_known p (re_store late)"
    using \<open>re_store late = re_store r' \<or> re_store late = restart (re_store r')\<close>
    by (auto simp only: update_targets_fields config_known_recorded config_known_restart)
  moreover have "truthy_str (vp_hash p)" "vp_hash q = vp_hash p" using assms(8-11) by simp_all
  ultimately have "config_known q (re_store late)" by (rule config_known_hash)
  then show ?thesis by (simp add: reconcile_once_def reconcile_known_no_op \<open>das_enrolled (re_state late)\<close>)
qed

definition demo_store :: state_store where
  "demo_store = save_enrollment (Some ''d'') (Some ''device_d_s'') ''priv'' (Some ''n'') (new_store ''/var'' Map.empty)"

definition demo_daemon :: "unit reconciler" where
  "demo_daemon =
     \<lparr>re_store = demo_store, re_host = \<lparr>h_log = [], h_state = ()\<rparr>, re_last_config = None,
      re_state = new_daemon_state\<lparr>das_registered := True, das_enrolled := True, das_device_id := Some ''d''\<rparr>,
      re_relay = False, re_relay_tasks = [], re_targets = None\<rparr>"

definition demo_peer :: peer_info where
  "demo_peer =
     \<lparr>pi_public_key = ''hub'', pi_allowed_ips = [''10.0.0.0/29''], pi_endpoint = Some ''1.1.1.1'', pi_endpoint_port = Some 51820,
      pi_persistent_keepalive = Some 25, pi_endpoint_candidates = [], pi_relay_fallback = False,
      pi_relay_candidates = None, pi_relay_required = False\<rparr>"

definition demo_pull :: config_v2_pull where
  "demo_pull =
     \<lparr>vp_success = True, vp_interface = Some \<lparr>ci_address = ''10.0.0.2/29'', ci_dns = None, ci_mtu = None\<rparr>,
      vp_peers = Some [demo_peer], vp_routes = Some [], vp_exit_node = None, vp_revision = Some ''1'', vp_hash = Some ''h'',
      vp_version = Some ''2'', vp_error = None\<rparr>"

definition demo_pull_v1 :: config_pull where
  "demo_pull_v1 = \<lparr>cp_success = False, cp_config_ini = None, cp_filename = None, cp_error = Some ''not registered''\<rparr>"

definition failing_programs :: "unit programs" where
  "failing_programs c x = (x, None)"

lemma demo_store_cache: "ss_cache demo_store = []"
  by (simp add: demo_store_def save_enrollment_def new_store_def Let_def)

lemma strip_priv: "strip (''priv'' @ [CHR 0x0A]) = ''priv''"
  by (simp add: strip_def is_space_def)

lemma demo_store_key: "read_private_key demo_store = Some ''priv''"
proof -
  have "ss_disk demo_store (get_private_key_path demo_store) =
      Some \<lparr>f_content = Text_content (''priv'' @ [CHR 0x0A]), f_private = True\<rparr>"
    unfolding demo_store_def save_enrollment_path by (rule save_enrollment_files(1))
  then show ?thesis by (simp only: read_private_key_def read_text_def option.map file_text.simps stored_file.simps strip_priv)
qed

lemma demo_pull_unknown: "\<not> config_known demo_pull demo_store"
  by (simp add: config_known_def demo_pull_def get_cache_def demo_store_cache dict_get_default_def)

lemma demo_daemon_fields:
  "re_store demo_daemon = demo_store" "das_enrolled (re_state demo_daemon)"
  "vp_success demo_pull" "vp_interface demo_pull = Some \<lparr>ci_address = ''10.0.0.2/29'', ci_dns = None, ci_mtu = None\<rparr>"
  "vp_peers demo_pull = Some [demo_peer]" "vp_hash demo_pull = Some ''h''"
  by (simp_all add: demo_daemon_def demo_pull_def)

text \<open>
  The witness: a \<open>wg\<close> whose dump is laid out the way the reader expects it and shows a key that the
  server does not list.
\<close>

lemma wg_int_zero: "wg_int ''0'' = Inr 0"
proof -
  have "str_nat 0 = ''0''" by code_simp
  then show ?thesis using wg_int_str_nat [of 0] by simp
qed

definition demo_dump :: string where
  "demo_dump = ''priv'' @ [CHR 0x0A] @ ''old'' @ [CHR 0x09, CHR 0x09] @ ''(none)'' @ [CHR 0x09] @ ''0'' @ [CHR 0x09] @ ''0''"

lemma demo_dump: "strip demo_dump = demo_dump" "demo_dump \<noteq> []"
  "daemon_parse_dump demo_dump ''midscale0'' = Inr \<lparr>is_name = ''midscale0'', is_public_key = None, is_listen_port = 51820,
      is_peers = [\<lparr>ps_public_key = ''old'', ps_allowed_ips = [], ps_endpoint = None, ps_latest_handshake = None,
        ps_transfer_rx = 0, ps_transfer_tx = 0\<rparr>]\<rparr>"
  by (simp_all add: demo_dump_def strip_def is_space_def daemon_parse_dump_def daemon_parse_peer_def Let_def wg_int_zero parse_dump_timestamp_def bind_wg_def)
definition dumping_programs :: "unit programs" where
  "dumping_programs c x = (x, Some (0, if last (fst c) = ''dump'' then demo_dump else [], []))"

lemma dumped_keys: "dump_keys dumping_programs ''wg'' ''midscale0'' h = {''old''}"
  by (simp add: dump_keys_def dumping_programs_def demo_dump)


theorem failed_config_never_retried_witness:
  "\<exists>r'. r' = fst (reconcile_once sorted_list_of_set failing_programs ''wg'' ''midscale0'' 0 demo_pull_v1 demo_pull demo_daemon) \<and>
     re_host (fst (reconcile_once sorted_list_of_set demo_programs ''wg'' ''midscale0'' 1 demo_pull_v1 demo_pull
       (demo_daemon\<lparr>re_store := restart (re_store r')\<rparr>))) = \<lparr>h_log = [], h_state = ()\<rparr>"
proof -
  have key: "read_private_key (re_store demo_daemon) = Some ''priv''" and new: "\<not> config_known demo_pull (re_store demo_daemon)"
    by (simp_all only: demo_daemon_fields demo_store_key demo_pull_unknown not_False_eq_True)
  let ?r = "fst (reconcile_once sorted_list_of_set failing_programs ''wg'' ''midscale0'' 0 demo_pull_v1 demo_pull demo_daemon)"
  let ?late = "demo_daemon\<lparr>re_store := restart (re_store ?r)\<rparr>"
  have late: "das_enrolled (re_state ?late)" "re_store ?late = re_store ?r \<or> re_store ?late = restart (re_store ?r)"
    by (simp_all add: demo_daemon_fields)
  have some: "vp_interface demo_pull \<noteq> None" "vp_peers demo_pull \<noteq> None" and ne: "''priv'' \<noteq> []" "''h'' \<noteq> []"
    by (simp_all add: demo_daemon_fields)
  have "re_host (fst (reconcile_once sorted_list_of_set demo_programs ''wg'' ''midscale0'' 1 demo_pull_v1 demo_pull ?late)) = re_host ?late"
    by (rule failed_config_never_retried [OF demo_daemon_fields(2) key ne(1) demo_daemon_fields(3) some new demo_daemon_fields(6) ne(2)
          late(1) demo_daemon_fields(6) refl late(2)])
  then show ?thesis by (intro exI [of _ ?r]) (simp add: demo_daemon_def)
qed

end
