(* ===== verification/Hole_Puncher.thy ===== *)
theory Hole_Puncher
  imports Bytes "HOL-Library.Sublist"
begin

text \<open>
  The daemon's hole punching engine: \<open>midscaled/daemon/hole_puncher.py\<close>. What happens outside during
  one attempt (whether the engine is still running, the clock, whether sending raised, which
  datagrams came in while the attempt waited) is a value of \<open>punch_io\<close>; a session is driven by one of
  these per attempt. The callbacks a session makes are listed in order.
\<close>

section \<open>State\<close>

definition PUNCH_MAGIC :: bytes where
  "PUNCH_MAGIC = encode_text ''MIDSCALE_PUNCH_V1''"

text \<open>A candidate of a punch request; a key the message lacks is \<open>None\<close>.\<close>

record punch_candidate =
  pc_side :: "string option"
  pc_endpoint :: "string option"
  pc_port :: "int option"

record candidate_pair =
  cpair_local_endpoint :: string
  cpair_local_port :: int
  cpair_remote_endpoint :: string
  cpair_remote_port :: int
  cpair_key :: string

definition new_candidate_pair :: "string \<Rightarrow> int \<Rightarrow> string \<Rightarrow> int \<Rightarrow> candidate_pair" where
  "new_candidate_pair le lp re rp =
     \<lparr>cpair_local_endpoint = le, cpair_local_port = lp, cpair_remote_endpoint = re, cpair_remote_port = rp,
      cpair_key = le @ '':'' @ str_int lp @ ''->'' @ re @ '':'' @ str_int rp\<rparr>"

record punch_attempt =
  pa_pair :: candidate_pair
  pa_success :: bool
  pa_latency_ms :: "int option"
  pa_error :: "string option"

record punch_session =
  pu_session_id :: string
  pu_target_device_id :: string
  pu_candidates :: "candidate_pair list"
  pu_attempts :: "punch_attempt list"
  pu_state :: string
  pu_result_endpoint :: "string option"
  pu_result_port :: "int option"
  pu_result_latency_ms :: "int option"
  pu_on_success :: bool
  pu_on_failure :: bool
  pu_on_relay_fallback :: bool

text \<open>
  \<open>hp_expected\<close> holds the futures of the protocol by key, \<open>None\<close> while one is pending; \<open>hp_sent\<close> the
  datagrams that were sent.
\<close>

record hole_puncher =
  hp_enabled :: bool
  hp_running :: bool
  hp_retries :: nat
  hp_bind_port :: int
  hp_transport :: bool
  hp_active :: "string \<rightharpoonup> punch_session"
  hp_expected :: "string \<rightharpoonup> bytes option"
  hp_sent :: "(bytes \<times> string \<times> int) list"

record punch_io =
  pio_running :: bool
  pio_clock :: string
  pio_send_error :: "string option"
  pio_arrivals :: "(bytes \<times> string \<times> int) list"
  pio_latency :: int

datatype punch_callback = On_success punch_session | On_failure punch_session | On_relay_fallback punch_session

section \<open>Starting and stopping\<close>

definition start_puncher :: "bool \<Rightarrow> hole_puncher \<Rightarrow> hole_puncher" where
  "start_puncher bind_ok p =
     (if \<not> hp_enabled p \<or> hp_running p then p
      else p\<lparr>hp_running := True, hp_expected := Map.empty, hp_transport := bind_ok \<or> hp_transport p\<rparr>)"

definition stop_puncher :: "hole_puncher \<Rightarrow> hole_puncher" where
  "stop_puncher p = p\<lparr>hp_running := False, hp_transport := False\<rparr>"

section \<open>The protocol\<close>

definition datagram_key :: "string \<Rightarrow> int \<Rightarrow> string" where
  "datagram_key host port = host @ '':'' @ str_int port @ ''->...''"

text \<open>A future that is done keeps its first result.\<close>

definition deliver_response :: "string \<Rightarrow> bytes \<Rightarrow> hole_puncher \<Rightarrow> hole_puncher" where
  "deliver_response key data p =
     (case hp_expected p key of
        Some None \<Rightarrow> p\<lparr>hp_expected := (hp_expected p)(key \<mapsto> Some data)\<rparr>
      | _ \<Rightarrow> p)"

definition handle_datagram :: "bytes \<times> string \<times> int \<Rightarrow> hole_puncher \<Rightarrow> hole_puncher" where
  "handle_datagram d p =
     (case d of (data, host, port) \<Rightarrow>
        if take (length PUNCH_MAGIC) data = PUNCH_MAGIC then deliver_response (datagram_key host port) data p else p)"

definition datagram_received :: "bytes \<times> string \<times> int \<Rightarrow> hole_puncher \<Rightarrow> hole_puncher" where
  "datagram_received d p =
     (case d of (data, host, port) \<Rightarrow>
        handle_datagram d
          (if take (length PUNCH_MAGIC) data = PUNCH_MAGIC then deliver_response (datagram_key host port) data p else p))"

section \<open>Candidate pairs\<close>

definition with_side :: "string \<Rightarrow> punch_candidate list \<Rightarrow> punch_candidate list" where
  "with_side s cs = filter (\<lambda>c. pc_side c = Some s) cs"

definition pair_of :: "int \<Rightarrow> punch_candidate \<Rightarrow> punch_candidate \<Rightarrow> candidate_pair" where
  "pair_of bind_port ic tc =
     new_candidate_pair (case pc_endpoint ic of None \<Rightarrow> ''127.0.0.1'' | Some e \<Rightarrow> e)
       (case pc_port ic of None \<Rightarrow> bind_port | Some q \<Rightarrow> q)
       (case pc_endpoint tc of None \<Rightarrow> [] | Some e \<Rightarrow> e)
       (case pc_port tc of None \<Rightarrow> bind_port | Some q \<Rightarrow> q)"

definition build_candidate_pairs :: "(candidate_pair list \<Rightarrow> candidate_pair list) \<Rightarrow> int \<Rightarrow> punch_candidate list
    \<Rightarrow> candidate_pair list" where
  "build_candidate_pairs shuffle bind_port cs =
     (let use_all = with_side ''initiator'' cs = [] \<or> with_side ''target'' cs = [];
          ics = (if use_all then cs else with_side ''initiator'' cs);
          tcs = (if use_all then cs else with_side ''target'' cs);
          pairs = concat (map (\<lambda>ic. map (pair_of bind_port ic) tcs) ics)
      in shuffle (if pairs = [] then [new_candidate_pair ''127.0.0.1'' bind_port ''127.0.0.1'' bind_port] else pairs))"

section \<open>Punching\<close>

definition initiate_punch :: "(candidate_pair list \<Rightarrow> candidate_pair list) \<Rightarrow> string \<Rightarrow> string \<Rightarrow> punch_candidate list
    \<Rightarrow> hole_puncher \<Rightarrow> hole_puncher \<times> punch_session" where
  "initiate_punch shuffle session_id target cs p =
     (let s = \<lparr>pu_session_id = session_id, pu_target_device_id = target, pu_candidates = [], pu_attempts = [],
               pu_state = ''disabled'', pu_result_endpoint = None, pu_result_port = None, pu_result_latency_ms = None,
               pu_on_success = False, pu_on_failure = False, pu_on_relay_fallback = False\<rparr>
      in if \<not> hp_enabled p then (p, s)
         else let s' = s\<lparr>pu_candidates := build_candidate_pairs shuffle (hp_bind_port p) cs, pu_state := ''punching'',
                         pu_on_success := True, pu_on_failure := True, pu_on_relay_fallback := True\<rparr>
              in (p\<lparr>hp_active := (hp_active p)(session_id \<mapsto> s')\<rparr>, s'))"

definition attempt_pair :: "punch_io \<Rightarrow> candidate_pair \<Rightarrow> hole_puncher \<Rightarrow> hole_puncher \<times> punch_attempt" where
  "attempt_pair io pair p =
     (let failed = (\<lambda>e. \<lparr>pa_pair = pair, pa_success = False, pa_latency_ms = None, pa_error = Some e\<rparr>)
      in if \<not> hp_transport p then (p, failed ''no transport'')
         else case pio_send_error io of
           Some e \<Rightarrow> (p, failed e)
         | None \<Rightarrow>
             let d = (PUNCH_MAGIC @ take 8 (encode_text (pio_clock io)), cpair_remote_endpoint pair, cpair_remote_port pair);
                 p1 = p\<lparr>hp_sent := hp_sent p @ [d, d, d], hp_expected := (hp_expected p)(cpair_key pair \<mapsto> None)\<rparr>;
                 p2 = foldl (\<lambda>q a. datagram_received a q) p1 (pio_arrivals io);
                 p3 = p2\<lparr>hp_expected := (hp_expected p2)(cpair_key pair := None)\<rparr>
             in (p3, if (\<exists>r \<in> set_option (hp_expected p2 (cpair_key pair)). r \<noteq> None)
                     then \<lparr>pa_pair = pair, pa_success = True, pa_latency_ms = Some (pio_latency io), pa_error = None\<rparr>
                     else failed ''timeout''))"

datatype punch_end = Stopped | Connected | Exhausted

fun try_pairs :: "(nat \<Rightarrow> punch_io) \<Rightarrow> candidate_pair list \<Rightarrow> hole_puncher \<Rightarrow> punch_session
    \<Rightarrow> hole_puncher \<times> punch_session \<times> punch_end" where
  "try_pairs io [] p s = (p, s, Exhausted)"
| "try_pairs io (pair # pairs) p s =
     (let i = io (length (pu_attempts s)) in
      if \<not> pio_running i then (p, s, Stopped)
      else case attempt_pair i pair p of
        (p', a) \<Rightarrow>
          let s1 = s\<lparr>pu_attempts := pu_attempts s @ [a]\<rparr>
          in if pa_success a
             then (p', s1\<lparr>pu_state := ''connected'', pu_result_endpoint := Some (cpair_remote_endpoint pair),
                          pu_result_port := Some (cpair_remote_port pair), pu_result_latency_ms := pa_latency_ms a\<rparr>, Connected)
             else try_pairs io pairs p' s1)"

fun punch_rounds :: "(nat \<Rightarrow> punch_io) \<Rightarrow> nat \<Rightarrow> hole_puncher \<Rightarrow> punch_session
    \<Rightarrow> hole_puncher \<times> punch_session \<times> punch_end" where
  "punch_rounds io 0 p s = (p, s, Exhausted)"
| "punch_rounds io (Suc n) p s =
     (if \<not> pio_running (io (length (pu_attempts s))) then (p, s, Stopped)
      else case try_pairs io (pu_candidates s) p s of
        (p', s', Exhausted) \<Rightarrow> punch_rounds io n p' s'
      | (p', s', e) \<Rightarrow> (p', s', e))"

definition execute_punch :: "(nat \<Rightarrow> punch_io) \<Rightarrow> hole_puncher \<Rightarrow> punch_session
    \<Rightarrow> hole_puncher \<times> punch_session \<times> punch_callback list" where
  "execute_punch io p s =
     (case punch_rounds io (hp_retries p) p s of
        (p', s', e) \<Rightarrow>
          let p'' = p'\<lparr>hp_active := (hp_active p')(pu_session_id s := None)\<rparr>
          in (case e of
                Stopped \<Rightarrow> (p'', s', [])
              | Connected \<Rightarrow> (p'', s', if pu_on_success s' then [On_success s'] else [])
              | Exhausted \<Rightarrow>
                  let f = s'\<lparr>pu_state := ''failed''\<rparr>
                  in (p'', f, (if pu_on_failure f then [On_failure f] else []) @
                              (if pu_on_relay_fallback f then [On_relay_fallback f] else []))))"

section \<open>Lemmas\<close>

text \<open>The key a session waits for ends in a digit, the key of a datagram in a dot.\<close>

lemma last_str_nat: "is_digit (last (str_nat n))"
  using str_nat_digits [of n] last_in_set [of "str_nat n"] by (auto simp: list_all_iff)

lemma last_str_int: "str_int i \<noteq> [] \<and> is_digit (last (str_int i))"
  by (simp add: str_int_def last_str_nat)

lemma keys_differ: "datagram_key host port \<noteq> cpair_key (new_candidate_pair le lp re rp)"
proof
  assume "datagram_key host port = cpair_key (new_candidate_pair le lp re rp)"
  then have "last (datagram_key host port) = last (cpair_key (new_candidate_pair le lp re rp))" by (rule arg_cong)
  moreover have "last (datagram_key host port) = CHR ''.''" by (simp add: datagram_key_def)
  moreover have "last (cpair_key (new_candidate_pair le lp re rp)) = last (str_int rp)"
    using last_str_int [of rp] by (simp add: new_candidate_pair_def)
  ultimately have "is_digit CHR ''.''" using last_str_int [of rp] by simp
  then show False by (simp add: is_digit_def)
qed

definition computed_key :: "candidate_pair \<Rightarrow> bool" where
  "computed_key c \<longleftrightarrow> (\<forall>host port. datagram_key host port \<noteq> cpair_key c)"

lemma computed_key_new: "computed_key (new_candidate_pair le lp re rp)"
  by (simp add: computed_key_def keys_differ)

lemma computed_key_pair_of: "computed_key (pair_of bp ic tc)"
  by (simp add: pair_of_def computed_key_new)

lemma build_pairs_keys:
  assumes "\<And>xs. set (shuffle xs) = set xs" and "c \<in> set (build_candidate_pairs shuffle bp cs)"
  shows "computed_key c"
  using assms by (auto simp: build_candidate_pairs_def Let_def computed_key_new computed_key_pair_of split: if_splits)

lemma deliver_other: "k \<noteq> key \<Longrightarrow> hp_expected (deliver_response k d p) key = hp_expected p key"
  by (simp add: deliver_response_def split: option.splits)

lemma datagram_other:
  "\<forall>host port. datagram_key host port \<noteq> key \<Longrightarrow> hp_expected (datagram_received d p) key = hp_expected p key"
  by (cases d) (simp add: datagram_received_def handle_datagram_def deliver_other)

lemma datagrams_other:
  "\<forall>host port. datagram_key host port \<noteq> key \<Longrightarrow>
     hp_expected (foldl (\<lambda>q a. datagram_received a q) p ds) key = hp_expected p key"
  by (induction ds arbitrary: p) (simp_all add: datagram_other)

lemma attempt_fails: "computed_key pair \<Longrightarrow> \<not> pa_success (snd (attempt_pair io pair p))"
  by (simp add: attempt_pair_def Let_def computed_key_def datagrams_other split: option.splits)

lemma attempt_of_pair: "pa_pair (snd (attempt_pair io pair p)) = pair"
  by (simp add: attempt_pair_def Let_def split: option.splits)

text \<open>Going through the pairs once: an attempt for each, unless the engine is stopped.\<close>

lemma try_pairs_end:
  assumes "\<forall>c \<in> set pairs. computed_key c" and "try_pairs io pairs p s = (p', s', e)"
  shows "\<exists>as. s' = s\<lparr>pu_attempts := pu_attempts s @ as\<rparr> \<and> prefix (map pa_pair as) pairs \<and> e \<noteq> Connected \<and>
    (e = Exhausted \<longrightarrow> map pa_pair as = pairs) \<and> (e = Stopped \<longrightarrow> (\<exists>n. \<not> pio_running (io n)))"
  using assms
proof (induction pairs arbitrary: p s)
  case Nil
  then show ?case by (intro exI [of _ "[]"]) simp
next
  case (Cons pair pairs)
  let ?i = "io (length (pu_attempts s))"
  show ?case
  proof (cases "pio_running ?i")
    case False
    then show ?thesis using Cons.prems(2) by (intro exI [of _ "[]"]) auto
  next
    case True
    obtain p1 a where a: "attempt_pair ?i pair p = (p1, a)" by (cases "attempt_pair ?i pair p")
    have fails: "\<not> pa_success a" and pair: "pa_pair a = pair"
      using attempt_fails [of pair ?i p] attempt_of_pair [of ?i pair p] Cons.prems(1) a by simp_all
    have "try_pairs io pairs p1 (s\<lparr>pu_attempts := pu_attempts s @ [a]\<rparr>) = (p', s', e)"
      using Cons.prems(2) True a fails by (simp add: Let_def)
    with Cons.IH Cons.prems(1) obtain as where as: "s' = s\<lparr>pu_attempts := pu_attempts s @ [a] @ as\<rparr>"
      "prefix (map pa_pair as) pairs" "e \<noteq> Connected" "e = Exhausted \<longrightarrow> map pa_pair as = pairs"
      "e = Stopped \<longrightarrow> (\<exists>n. \<not> pio_running (io n))" by fastforce
    then show ?thesis using pair by (intro exI [of _ "a # as"]) simp
  qed
qed

lemma punch_rounds_end:
  assumes "\<forall>c \<in> set (pu_candidates s). computed_key c" and "punch_rounds io n p s = (p', s', e)"
  shows "\<exists>as. s' = s\<lparr>pu_attempts := pu_attempts s @ as\<rparr> \<and> length as \<le> n * length (pu_candidates s) \<and> e \<noteq> Connected \<and>
    (e = Exhausted \<longrightarrow> map pa_pair as = concat (replicate n (pu_candidates s))) \<and>
    (e = Stopped \<longrightarrow> (\<exists>k. \<not> pio_running (io k)))"
  using assms
proof (induction n arbitrary: p s)
  case 0
  then show ?case by (intro exI [of _ "[]"]) simp
next
  case (Suc n)
  show ?case
  proof (cases "pio_running (io (length (pu_attempts s)))")
    case False
    then show ?thesis using Suc.prems(2) by (intro exI [of _ "[]"]) auto
  next
    case True
    obtain p1 s1 e1 where one: "try_pairs io (pu_candidates s) p s = (p1, s1, e1)"
      by (cases "try_pairs io (pu_candidates s) p s") auto
    obtain as where as: "s1 = s\<lparr>pu_attempts := pu_attempts s @ as\<rparr>" "prefix (map pa_pair as) (pu_candidates s)" "e1 \<noteq> Connected"
      "e1 = Exhausted \<longrightarrow> map pa_pair as = pu_candidates s" "e1 = Stopped \<longrightarrow> (\<exists>k. \<not> pio_running (io k))"
      using try_pairs_end [OF Suc.prems(1) one] by (elim exE conjE) (rule that)
    have len: "length as \<le> length (pu_candidates s)" using prefix_length_le [OF as(2)] by simp
    show ?thesis
    proof (cases e1)
      case Exhausted
      then have "punch_rounds io n p1 s1 = (p', s', e)" using Suc.prems(2) True one by simp
      moreover have "\<forall>c \<in> set (pu_candidates s1). computed_key c" using Suc.prems(1) as(1) by simp
      ultimately obtain bs where bs: "s' = s1\<lparr>pu_attempts := pu_attempts s1 @ bs\<rparr>" "length bs \<le> n * length (pu_candidates s1)"
        "e \<noteq> Connected" "e = Exhausted \<longrightarrow> map pa_pair bs = concat (replicate n (pu_candidates s1))"
        "e = Stopped \<longrightarrow> (\<exists>k. \<not> pio_running (io k))"
        using Suc.IH by blast
      then show ?thesis using as Exhausted len by (intro exI [of _ "as @ bs"]) simp
    next
      case Stopped
      then show ?thesis using Suc.prems(2) True one as len by (intro exI [of _ as]) auto
    next
      case Connected
      then show ?thesis using as(3) by simp
    qed
  qed
qed

text \<open>How a session ends that was started from the candidates of a request.\<close>

lemma execute_punch_end:
  assumes "\<forall>c \<in> set (pu_candidates s). computed_key c" and "execute_punch io p s = (q, s', calls)"
  shows "\<exists>as. pu_attempts s' = pu_attempts s @ as \<and> pu_candidates s' = pu_candidates s \<and>
    length as \<le> hp_retries p * length (pu_candidates s) \<and> hp_active q (pu_session_id s) = None \<and>
    (pu_state s' = pu_state s \<and> calls = [] \<and> (\<exists>k. \<not> pio_running (io k)) \<or>
     pu_state s' = ''failed'' \<and> map pa_pair as = concat (replicate (hp_retries p) (pu_candidates s)) \<and>
     calls = (if pu_on_failure s then [On_failure s'] else []) @ (if pu_on_relay_fallback s then [On_relay_fallback s'] else []))"
proof -
  obtain p1 s1 e where run: "punch_rounds io (hp_retries p) p s = (p1, s1, e)" by (cases "punch_rounds io (hp_retries p) p s") auto
  obtain as where as: "s1 = s\<lparr>pu_attempts := pu_attempts s @ as\<rparr>" "length as \<le> hp_retries p * length (pu_candidates s)"
    "e \<noteq> Connected" "e = Exhausted \<longrightarrow> map pa_pair as = concat (replicate (hp_retries p) (pu_candidates s))"
    "e = Stopped \<longrightarrow> (\<exists>k. \<not> pio_running (io k))"
    using punch_rounds_end [OF assms(1) run] by (elim exE conjE) (rule that)
  show ?thesis
  proof (cases e)
    case Connected
    then show ?thesis using as(3) by simp
  next
    case Stopped
    then show ?thesis using as run assms(2) by (intro exI [of _ as]) (auto simp: execute_punch_def Let_def)
  next
    case Exhausted
    then show ?thesis using as run assms(2) by (intro exI [of _ as]) (auto simp: execute_punch_def Let_def)
  qed
qed

lemma initiate_punch_session:
  assumes "initiate_punch shuffle sid target cs p = (p1, s)" and "hp_enabled p"
  shows "pu_candidates s = build_candidate_pairs shuffle (hp_bind_port p) cs" "pu_attempts s = []" "pu_session_id s = sid"
    "pu_state s = ''punching''" "pu_on_failure s" "pu_on_relay_fallback s" "hp_retries p1 = hp_retries p"
    "hp_active p1 sid = Some s"
  using assms by (auto simp: initiate_punch_def Let_def)

section \<open>Properties\<close>

text \<open>
  C24. A hole punch never succeeds. Whatever datagrams come in, a session that runs to its end has
  tried every candidate pair once per retry, in the shuffled order, and has failed each time: the
  future it waits for is filed under a key that no datagram delivers to. The session ends failed,
  reports the failure, asks for the relay, and is forgotten.
\<close>

theorem hole_punch_always_fails:
  assumes "\<And>xs. set (shuffle xs) = set xs" and "hp_enabled p" and "\<And>n. pio_running (io n)"
    and "initiate_punch shuffle sid target cs p = (p1, s)"
  shows "\<exists>q f. execute_punch io p1 s = (q, f, [On_failure f, On_relay_fallback f]) \<and> pu_state f = ''failed'' \<and>
    map pa_pair (pu_attempts f) = concat (replicate (hp_retries p) (build_candidate_pairs shuffle (hp_bind_port p) cs)) \<and>
    hp_active q sid = None"
proof -
  note s = initiate_punch_session [OF assms(4,2)]
  obtain q f calls where run: "execute_punch io p1 s = (q, f, calls)" by (cases "execute_punch io p1 s") auto
  have "\<forall>c \<in> set (pu_candidates s). computed_key c" using build_pairs_keys [OF assms(1)] by (simp add: s)
  from execute_punch_end [OF this run] show ?thesis using run assms(3) by (auto simp: s)
qed

definition demo_puncher :: hole_puncher where
  "demo_puncher =
     \<lparr>hp_enabled = True, hp_running = True, hp_retries = 3, hp_bind_port = 51820, hp_transport = True,
      hp_active = Map.empty, hp_expected = Map.empty, hp_sent = []\<rparr>"

definition demo_candidates :: "punch_candidate list" where
  "demo_candidates =
     [\<lparr>pc_side = Some ''initiator'', pc_endpoint = Some ''1.1.1.1'', pc_port = Some 51820\<rparr>,
      \<lparr>pc_side = Some ''target'', pc_endpoint = Some ''2.2.2.2'', pc_port = Some 51820\<rparr>]"

text \<open>The peer answers every attempt from the address that was tried.\<close>

definition demo_io :: "bool \<Rightarrow> nat \<Rightarrow> punch_io" where
  "demo_io running n =
     \<lparr>pio_running = running, pio_clock = ''1700000000.5'', pio_send_error = None,
      pio_arrivals = [(PUNCH_MAGIC, ''2.2.2.2'', 51820)], pio_latency = 20\<rparr>"

lemma demo_pairs: "length (build_candidate_pairs rev (hp_bind_port demo_puncher) demo_candidates) = 1"
  by (simp add: build_candidate_pairs_def with_side_def demo_candidates_def)

theorem hole_punch_always_fails_witness:
  "\<exists>q f. execute_punch (demo_io True) (fst (initiate_punch rev ''s'' ''t'' demo_candidates demo_puncher))
       (snd (initiate_punch rev ''s'' ''t'' demo_candidates demo_puncher)) = (q, f, [On_failure f, On_relay_fallback f]) \<and>
     length (pu_attempts f) = 3"
proof -
  let ?i = "initiate_punch rev ''s'' ''t'' demo_candidates demo_puncher"
  have en: "hp_enabled demo_puncher" by (simp add: demo_puncher_def)
  have running: "pio_running (demo_io True n)" for n by (simp add: demo_io_def)
  obtain q f where run: "execute_punch (demo_io True) (fst ?i) (snd ?i) = (q, f, [On_failure f, On_relay_fallback f])"
    and all: "map pa_pair (pu_attempts f) =
      concat (replicate (hp_retries demo_puncher) (build_candidate_pairs rev (hp_bind_port demo_puncher) demo_candidates))"
    using hole_punch_always_fails [of rev demo_puncher "demo_io True" "''s''" "''t''" demo_candidates "fst ?i" "snd ?i",
        OF set_rev en running prod.collapse [symmetric]] by (elim exE conjE) (rule that)
  have "length (map pa_pair (pu_attempts f)) = 3"
    using demo_pairs unfolding all by (simp add: length_concat demo_puncher_def numeral_3_eq_3)
  with run show ?thesis by auto
qed

text \<open>
  C25. Punching ends. Whatever happens outside, also when the engine is stopped in between, a session
  makes at most one attempt per candidate pair and retry, there is at least one pair, and at the end
  the session is no longer active; a session that was stopped stays \<open>punching\<close> and reports nothing.
\<close>

theorem hole_punch_terminates:
  assumes "\<And>xs. set (shuffle xs) = set xs" and "hp_enabled p"
    and "initiate_punch shuffle sid target cs p = (p1, s)" and "execute_punch io p1 s = (q, f, calls)"
  shows "build_candidate_pairs shuffle (hp_bind_port p) cs \<noteq> [] \<and>
    length (pu_attempts f) \<le> hp_retries p * length (build_candidate_pairs shuffle (hp_bind_port p) cs) \<and>
    hp_active q sid = None \<and>
    (pu_state f = ''punching'' \<and> calls = [] \<and> (\<exists>n. \<not> pio_running (io n)) \<or>
     pu_state f = ''failed'' \<and> calls = [On_failure f, On_relay_fallback f])"
proof -
  note s = initiate_punch_session [OF assms(3,2)]
  have "\<forall>c \<in> set (pu_candidates s). computed_key c" using build_pairs_keys [OF assms(1)] by (simp add: s)
  from execute_punch_end [OF this assms(4)] have end_of: "length (pu_attempts f) \<le> hp_retries p *
      length (build_candidate_pairs shuffle (hp_bind_port p) cs) \<and> hp_active q sid = None \<and>
    (pu_state f = ''punching'' \<and> calls = [] \<and> (\<exists>n. \<not> pio_running (io n)) \<or>
     pu_state f = ''failed'' \<and> calls = [On_failure f, On_relay_fallback f])"
    by (auto simp: s)
  have "shuffle xs \<noteq> []" if "xs \<noteq> []" for xs using assms(1) [of xs] that by (metis set_empty)
  then have "build_candidate_pairs shuffle (hp_bind_port p) cs \<noteq> []"
    by (simp add: build_candidate_pairs_def Let_def)
  with end_of show ?thesis by simp
qed

theorem hole_punch_terminates_witness:
  "\<exists>q f calls. execute_punch (demo_io False) (fst (initiate_punch rev ''s'' ''t'' demo_candidates demo_puncher))
       (snd (initiate_punch rev ''s'' ''t'' demo_candidates demo_puncher)) = (q, f, calls) \<and>
     length (pu_attempts f) \<le> 3"
proof -
  let ?i = "initiate_punch rev ''s'' ''t'' demo_candidates demo_puncher"
  have en: "hp_enabled demo_puncher" by (simp add: demo_puncher_def)
  obtain q f calls where run: "execute_punch (demo_io False) (fst ?i) (snd ?i) = (q, f, calls)"
    by (cases "execute_punch (demo_io False) (fst ?i) (snd ?i)") auto
  from hole_punch_terminates [of rev, OF set_rev en prod.collapse [symmetric] run]
  have "length (pu_attempts f) \<le> hp_retries demo_puncher * length (build_candidate_pairs rev (hp_bind_port demo_puncher) demo_candidates)"
    by simp
  then show ?thesis using run demo_pairs by (auto simp: demo_puncher_def)
qed

end
