(* ===== verification/Event_Ws.thy ===== *)
theory Event_Ws
  imports Access
begin

text \<open>
  Delivery of events: \<open>services/event_bus.py\<close>, \<open>services/ws_manager.py\<close>, the web socket endpoints of
  \<open>api/v1/ws.py\<close> and the bridge between them in \<open>main.py\<close>. A socket and a callback are numbers. What
  a socket is sent is logged; \<open>alive\<close> tells whether sending to a socket works. Redis is only whether
  it can be reached: a message published on it reaches every listener that has subscribed.
\<close>

section \<open>The event bus\<close>

record event_bus =
  eb_redis_url :: bool
  eb_redis :: bool
  eb_pubsub :: bool
  eb_running :: bool
  eb_subscribers :: "nat list"
  eb_listener :: "nat option"
  eb_subscribed :: bool

definition new_event_bus :: "bool \<Rightarrow> event_bus" where
  "new_event_bus url =
     \<lparr>eb_redis_url = url, eb_redis = False, eb_pubsub = False, eb_running = False, eb_subscribers = [],
      eb_listener = None, eb_subscribed = False\<rparr>"

definition connect_redis :: "bool \<Rightarrow> event_bus \<Rightarrow> event_bus" where
  "connect_redis reachable b = b\<lparr>eb_redis := reachable, eb_pubsub := reachable\<rparr>"

definition start_bus :: "bool \<Rightarrow> event_bus \<Rightarrow> event_bus" where
  "start_bus reachable b =
     (if eb_running b then b
      else if eb_redis_url b then connect_redis reachable (b\<lparr>eb_running := True\<rparr>) else b\<lparr>eb_running := True\<rparr>)"

definition stop_bus :: "event_bus \<Rightarrow> event_bus" where
  "stop_bus b = b\<lparr>eb_running := False, eb_listener := None, eb_subscribed := False\<rparr>"

definition subscribe_in_memory :: "nat \<Rightarrow> event_bus \<Rightarrow> event_bus" where
  "subscribe_in_memory cb b = b\<lparr>eb_subscribers := eb_subscribers b @ [cb]\<rparr>"

text \<open>\<open>list.remove\<close>.\<close>

definition unsubscribe_in_memory :: "nat \<Rightarrow> event_bus \<Rightarrow> event_bus result" where
  "unsubscribe_in_memory cb b =
     (if cb \<in> set (eb_subscribers b) then Inr (b\<lparr>eb_subscribers := remove1 cb (eb_subscribers b)\<rparr>)
      else Inl (ValueError ''list.remove(x): x not in list''))"

text \<open>\<open>listen\<close> up to its first wait, and one turn of its loop without a connection.\<close>

definition start_listener :: "nat \<Rightarrow> event_bus \<Rightarrow> event_bus" where
  "start_listener handler b =
     (if eb_listener b \<noteq> None then b else b\<lparr>eb_listener := Some handler, eb_subscribed := eb_pubsub b\<rparr>)"

definition listener_turn :: "bool \<Rightarrow> event_bus \<Rightarrow> event_bus" where
  "listener_turn reachable b =
     (if eb_listener b = None \<or> eb_subscribed b \<or> \<not> eb_running b then b
      else if eb_redis_url b \<and> \<not> eb_redis b
      then let b' = connect_redis reachable b in if reachable then b'\<lparr>eb_subscribed := True\<rparr> else b'
      else b)"

text \<open>The callbacks that get an event that is published, in order. Publishing over Redis can fail.\<close>

definition publish :: "bool \<Rightarrow> event_bus \<Rightarrow> nat list" where
  "publish redis_ok b =
     (case eb_listener b of
        Some h \<Rightarrow> if eb_redis b \<and> redis_ok \<and> eb_subscribed b then [h] else []
      | None \<Rightarrow> []) @ eb_subscribers b"

section \<open>The connection manager\<close>

type_synonym socket = nat

text \<open>The set of connections is a list without duplicates, the dictionary of daemons an association list.\<close>

record ws_manager =
  wm_connections :: "socket list"
  wm_daemons :: "(uuid \<times> socket) list"
  wm_sent :: "(socket \<times> json) list"

definition new_ws_manager :: ws_manager where
  "new_ws_manager = \<lparr>wm_connections = [], wm_daemons = [], wm_sent = []\<rparr>"

definition ws_connect :: "socket \<Rightarrow> ws_manager \<Rightarrow> ws_manager" where
  "ws_connect s m = m\<lparr>wm_connections := List.insert s (wm_connections m)\<rparr>"

definition connect_daemon :: "socket \<Rightarrow> uuid \<Rightarrow> ws_manager \<Rightarrow> ws_manager" where
  "connect_daemon s did m =
     m\<lparr>wm_connections := List.insert s (wm_connections m), wm_daemons := AList.update did s (wm_daemons m)\<rparr>"

text \<open>The loop that deletes the first entry of a socket and leaves.\<close>

fun forget_socket :: "socket \<Rightarrow> (uuid \<times> socket) list \<Rightarrow> (uuid \<times> socket) list" where
  "forget_socket s [] = []"
| "forget_socket s ((did, t) # rest) = (if t = s then rest else (did, t) # forget_socket s rest)"

definition drop_socket :: "socket \<Rightarrow> ws_manager \<Rightarrow> ws_manager" where
  "drop_socket s m =
     m\<lparr>wm_connections := filter (\<lambda>t. t \<noteq> s) (wm_connections m), wm_daemons := forget_socket s (wm_daemons m)\<rparr>"

definition ws_disconnect :: "socket \<Rightarrow> ws_manager \<Rightarrow> ws_manager" where
  "ws_disconnect s m = drop_socket s m"

definition broadcast :: "(socket \<Rightarrow> bool) \<Rightarrow> json \<Rightarrow> ws_manager \<Rightarrow> ws_manager" where
  "broadcast alive msg m =
     foldl (\<lambda>m s. drop_socket s m)
       (m\<lparr>wm_sent := wm_sent m @ map (\<lambda>s. (s, msg)) (filter alive (wm_connections m))\<rparr>)
       (filter (\<lambda>s. \<not> alive s) (wm_connections m))"

definition send_to_device :: "(socket \<Rightarrow> bool) \<Rightarrow> uuid \<Rightarrow> json \<Rightarrow> ws_manager \<Rightarrow> ws_manager \<times> bool" where
  "send_to_device alive did msg m =
     (case map_of (wm_daemons m) did of
        None \<Rightarrow> (m, False)
      | Some s \<Rightarrow>
          if alive s then (m\<lparr>wm_sent := wm_sent m @ [(s, msg)]\<rparr>, True)
          else (m\<lparr>wm_connections := filter (\<lambda>t. t \<noteq> s) (wm_connections m), wm_daemons := AList.delete did (wm_daemons m)\<rparr>, False))"

definition is_device_connected :: "uuid \<Rightarrow> ws_manager \<Rightarrow> bool" where
  "is_device_connected did m \<longleftrightarrow> map_of (wm_daemons m) did \<noteq> None"

section \<open>The bridge\<close>

record bus_event =
  be_id :: string
  be_type :: string
  be_created_at :: string
  be_data :: dict

definition event_to_dict :: "bus_event \<Rightarrow> json" where
  "event_to_dict e = JObj
     [(''id'', JStr (be_id e)), (''type'', JStr (be_type e)), (''created_at'', JStr (be_created_at e)), (''data'', JObj (be_data e))]"

text \<open>\<open>bridge_event\<close>: everybody gets everything; the device a \<open>config.changed\<close> names gets it again.\<close>

definition bridge_event :: "(socket \<Rightarrow> bool) \<Rightarrow> bus_event \<Rightarrow> ws_manager \<Rightarrow> ws_manager" where
  "bridge_event alive e m =
     (let m1 = broadcast alive (event_to_dict e) m
      in if be_type e = ''config.changed''
         then (case dict_get_default (be_data e) ''device_id'' (JStr []) of
                 JStr did \<Rightarrow> if did \<noteq> [] then fst (send_to_device alive did (event_to_dict e) m1) else m1
               | _ \<Rightarrow> m1)
         else m1)"

section \<open>The endpoints\<close>

datatype ws_open = Ws_closed int string | Ws_accepted

definition websocket_endpoint :: "(datetime \<Rightarrow> string \<Rightarrow> dict option) \<Rightarrow> datetime \<Rightarrow> socket \<Rightarrow> string option
    \<Rightarrow> ws_manager option \<Rightarrow> ws_open \<times> ws_manager option" where
  "websocket_endpoint jwt_decode now s token mo =
     (case mo of
        None \<Rightarrow> (Ws_closed 1011 [], None)
      | Some m \<Rightarrow>
          if truthy_str token \<and>
             (case jwt_decode now (the token) of
                None \<Rightarrow> True | Some payload \<Rightarrow> dict_get payload ''type'' \<noteq> Some (JStr ''access''))
          then (Ws_closed 1008 [], Some m)
          else (Ws_accepted, Some (ws_connect s m)))"

definition daemon_websocket_endpoint :: "(string \<Rightarrow> string \<Rightarrow> bool) \<Rightarrow> database \<Rightarrow> socket \<Rightarrow> string option
    \<Rightarrow> ws_manager option \<Rightarrow> (ws_open \<times> ws_manager option) result" where
  "daemon_websocket_endpoint verify d s token mo =
     (case mo of
        None \<Rightarrow> Inr (Ws_closed 1011 [], None)
      | Some m \<Rightarrow>
          if \<not> truthy_str token then Inr (Ws_closed 1008 ''Device token required'', Some m)
          else bind_result (lookup_device_by_token verify (the token) d) (\<lambda>ro.
            case ro of
              None \<Rightarrow> Inr (Ws_closed 1008 ''Invalid device token'', Some m)
            | Some r \<Rightarrow>
                if dev_enrollment_status r \<noteq> ''active''
                then Inr (Ws_closed 1008 (''Device status is '' @ [CHR 0x27] @ dev_enrollment_status r @ [CHR 0x27]), Some m)
                else Inr (Ws_accepted, Some (connect_daemon s (dev_id r) m))))"

section \<open>Steps\<close>

text \<open>What happens to the manager over time. A socket that opens is a new one.\<close>

inductive ws_step :: "ws_manager \<Rightarrow> ws_manager \<Rightarrow> bool" where
  opened: "s \<notin> set (wm_connections m) \<Longrightarrow> ws_step m (ws_connect s m)"
| daemon_opened: "s \<notin> set (wm_connections m) \<Longrightarrow> ws_step m (connect_daemon s did m)"
| closed: "ws_step m (ws_disconnect s m)"
| bridged: "ws_step m (bridge_event alive e m)"
| told: "ws_step m (fst (send_to_device alive did msg m))"

inductive ws_reachable :: "ws_manager \<Rightarrow> bool" where
  start: "ws_reachable new_ws_manager"
| step: "ws_reachable m \<Longrightarrow> ws_step m m' \<Longrightarrow> ws_reachable m'"

inductive bus_step :: "event_bus \<Rightarrow> event_bus \<Rightarrow> bool" where
  bus_start: "bus_step b (start_bus reachable b)"
| bus_stop: "bus_step b (stop_bus b)"
| bus_listen: "bus_step b (start_listener h b)"
| bus_turn: "bus_step b (listener_turn reachable b)"

inductive bus_reachable :: "event_bus \<Rightarrow> event_bus \<Rightarrow> bool" where
  bus_refl: "bus_reachable b b"
| bus_trans: "bus_reachable b b1 \<Longrightarrow> bus_step b1 b2 \<Longrightarrow> bus_reachable b b2"

section \<open>Invariant\<close>

definition ws_inv :: "ws_manager \<Rightarrow> bool" where
  "ws_inv m \<longleftrightarrow> distinct (wm_connections m) \<and> distinct (map fst (wm_daemons m)) \<and> distinct (map snd (wm_daemons m)) \<and>
     snd ` set (wm_daemons m) \<subseteq> set (wm_connections m)"

lemma forget_socket_filter: "distinct (map snd ds) \<Longrightarrow> forget_socket s ds = filter (\<lambda>e. snd e \<noteq> s) ds"
proof (induction ds)
  case (Cons e ds)
  obtain did t where e: "e = (did, t)" by (cases e)
  have "filter (\<lambda>e. snd e \<noteq> t) ds = ds" using Cons.prems e by (auto simp: filter_id_conv image_iff)
  then show ?case using Cons e by auto
qed simp

lemma drop_socket_eq:
  "ws_inv m \<Longrightarrow> drop_socket s m =
     m\<lparr>wm_connections := filter (\<lambda>t. t \<noteq> s) (wm_connections m), wm_daemons := filter (\<lambda>e. snd e \<noteq> s) (wm_daemons m)\<rparr>"
  by (simp add: drop_socket_def forget_socket_filter ws_inv_def)

lemma ws_inv_drop: "ws_inv m \<Longrightarrow> ws_inv (drop_socket s m)"
  by (simp add: drop_socket_eq) (auto simp: ws_inv_def distinct_map_filter)

lemma ws_inv_sent [simp]: "ws_inv (m\<lparr>wm_sent := l\<rparr>) = ws_inv m"
  by (simp add: ws_inv_def)

lemma foldl_drop:
  "ws_inv m \<Longrightarrow> ws_inv (foldl (\<lambda>m s. drop_socket s m) m ss) \<and>
     wm_connections (foldl (\<lambda>m s. drop_socket s m) m ss) = filter (\<lambda>t. t \<notin> set ss) (wm_connections m) \<and>
     wm_daemons (foldl (\<lambda>m s. drop_socket s m) m ss) = filter (\<lambda>e. snd e \<notin> set ss) (wm_daemons m) \<and>
     wm_sent (foldl (\<lambda>m s. drop_socket s m) m ss) = wm_sent m"
proof (induction ss arbitrary: m)
  case (Cons s ss)
  from Cons.IH [OF ws_inv_drop [OF Cons.prems, of s]] show ?case
    by (simp add: drop_socket_eq [OF Cons.prems] conj_commute)
qed simp

lemma broadcast_effect:
  assumes "ws_inv m"
  shows "ws_inv (broadcast alive msg m)" "wm_connections (broadcast alive msg m) = filter alive (wm_connections m)"
    "wm_daemons (broadcast alive msg m) = filter (\<lambda>e. alive (snd e)) (wm_daemons m)"
    "wm_sent (broadcast alive msg m) = wm_sent m @ map (\<lambda>s. (s, msg)) (filter alive (wm_connections m))"
proof -
  let ?m = "m\<lparr>wm_sent := wm_sent m @ map (\<lambda>s. (s, msg)) (filter alive (wm_connections m))\<rparr>"
  let ?ss = "filter (\<lambda>s. \<not> alive s) (wm_connections m)"
  have "ws_inv ?m" using assms by simp
  note f = foldl_drop [OF this, of ?ss, folded broadcast_def]
  show "ws_inv (broadcast alive msg m)" using f by (rule conjunct1)
  have "wm_connections (broadcast alive msg m) = filter (\<lambda>t. t \<notin> set ?ss) (wm_connections ?m)"
    using f by (elim conjE)
  also have "\<dots> = filter alive (wm_connections m)" by (auto intro: filter_cong)
  finally show "wm_connections (broadcast alive msg m) = filter alive (wm_connections m)" .
  have daemons: "snd e \<in> set (wm_connections m)" if "e \<in> set (wm_daemons m)" for e using assms that by (auto simp: ws_inv_def)
  have "wm_daemons (broadcast alive msg m) = filter (\<lambda>e. snd e \<notin> set ?ss) (wm_daemons ?m)"
    using f by (elim conjE)
  also have "\<dots> = filter (\<lambda>e. alive (snd e)) (wm_daemons m)" using daemons by (auto intro!: filter_cong)
  finally show "wm_daemons (broadcast alive msg m) = filter (\<lambda>e. alive (snd e)) (wm_daemons m)" .
  have "wm_sent (broadcast alive msg m) = wm_sent ?m" using f by (elim conjE)
  then show "wm_sent (broadcast alive msg m) = wm_sent m @ map (\<lambda>s. (s, msg)) (filter alive (wm_connections m))" by simp
qed

lemma ws_inv_new: "ws_inv new_ws_manager"
  by (simp add: ws_inv_def new_ws_manager_def)

lemma ws_inv_connect: "ws_inv m \<Longrightarrow> ws_inv (ws_connect s m)"
  by (auto simp: ws_inv_def ws_connect_def)

lemma snd_update_subset: "snd ` set (AList.update k v ds) \<subseteq> insert v (snd ` set ds)"
  by (induction ds) auto

lemma distinct_snd_update:
  "distinct (map snd ds) \<Longrightarrow> v \<notin> snd ` set ds \<Longrightarrow> distinct (map snd (AList.update k v ds))"
proof (induction ds)
  case (Cons e ds)
  then show ?case using snd_update_subset [of k v ds] by (cases e) auto
qed simp

lemma ws_inv_connect_daemon:
  assumes "ws_inv m" and "s \<notin> set (wm_connections m)"
  shows "ws_inv (connect_daemon s did m)"
proof -
  have "s \<notin> snd ` set (wm_daemons m)" using assms by (auto simp: ws_inv_def)
  with assms show ?thesis
    using snd_update_subset [of did s "wm_daemons m"] distinct_snd_update [of "wm_daemons m" s did]
    by (auto simp: ws_inv_def connect_daemon_def distinct_update)
qed

lemma ws_inv_told: "ws_inv m \<Longrightarrow> ws_inv (fst (send_to_device alive did msg m))"
proof (cases "map_of (wm_daemons m) did")
  case (Some s)
  assume inv: "ws_inv m"
  have kept: "snd e \<noteq> s" if "e \<in> set (AList.delete did (wm_daemons m))" for e
  proof
    assume "snd e = s"
    moreover have "e \<in> set (wm_daemons m)" "fst e \<noteq> did" using that by (auto simp: AList.delete_eq)
    moreover have "(did, s) \<in> set (wm_daemons m)" using Some by (rule map_of_SomeD)
    ultimately show False using inv inj_onD [of snd "set (wm_daemons m)" e "(did, s)"] by (auto simp: ws_inv_def distinct_map)
  qed
  have sub: "set (AList.delete did (wm_daemons m)) \<subseteq> set (wm_daemons m)" by (auto simp: AList.delete_eq)
  have conn: "\<forall>e \<in> set (AList.delete did (wm_daemons m)). snd e \<in> set (wm_connections m)"
    using sub inv unfolding ws_inv_def by blast
  have "distinct (map snd (AList.delete did (wm_daemons m)))" "distinct (map fst (AList.delete did (wm_daemons m)))"
    using inv by (simp_all add: ws_inv_def AList.delete_eq distinct_map_filter)
  then show ?thesis using inv Some kept conn by (auto simp: send_to_device_def ws_inv_def)
qed (simp add: send_to_device_def)

lemma ws_inv_bridge: "ws_inv m \<Longrightarrow> ws_inv (bridge_event alive e m)"
  using broadcast_effect(1) [of m alive "event_to_dict e"] by (simp add: bridge_event_def Let_def ws_inv_told split: json.split)

lemma ws_inv_step: "ws_step m m' \<Longrightarrow> ws_inv m \<Longrightarrow> ws_inv m'"
  by (induction rule: ws_step.induct)
    (simp_all add: ws_inv_connect ws_inv_connect_daemon ws_disconnect_def ws_inv_drop ws_inv_bridge ws_inv_told)

lemma ws_inv_reachable: "ws_reachable m \<Longrightarrow> ws_inv m"
  by (induction rule: ws_reachable.induct) (simp_all add: ws_inv_new ws_inv_step)

lemma bus_in_memory:
  "bus_reachable b0 b \<Longrightarrow> \<not> eb_redis_url b0 \<Longrightarrow> \<not> eb_redis b0 \<Longrightarrow>
     \<not> eb_redis_url b \<and> \<not> eb_redis b \<and> eb_subscribers b = eb_subscribers b0"
proof (induction rule: bus_reachable.induct)
  case (bus_trans b b1 b2)
  from bus_trans.hyps(2) bus_trans.IH [OF bus_trans.prems] show ?case
    by cases (auto simp: start_bus_def stop_bus_def start_listener_def listener_turn_def)
qed simp

section \<open>Properties\<close>

text \<open>
  The table of sockets stays consistent over any sequence of connections, disconnections and
  deliveries: no device and no daemon socket is listed twice, and the socket of every daemon is also
  a connection. So when a socket is closed nothing is left of it, although the code stops at the
  first entry it finds.
\<close>

theorem ws_sockets_consistent:
  assumes "ws_reachable m"
  shows "distinct (map fst (wm_daemons m)) \<and> distinct (map snd (wm_daemons m)) \<and>
    snd ` set (wm_daemons m) \<subseteq> set (wm_connections m) \<and>
    s \<notin> set (wm_connections (ws_disconnect s m)) \<and> s \<notin> snd ` set (wm_daemons (ws_disconnect s m))"
  using ws_inv_reachable [OF assms] by (auto simp: ws_disconnect_def drop_socket_eq) (auto simp: ws_inv_def)

theorem ws_sockets_consistent_witness:
  "ws_reachable (connect_daemon 2 ''d'' (connect_daemon 1 ''d'' new_ws_manager)) \<and>
   wm_daemons (ws_disconnect 1 (connect_daemon 2 ''d'' (connect_daemon 1 ''d'' new_ws_manager))) = [(''d'', 2)] \<and>
   2 \<notin> set (wm_connections (ws_disconnect 2 (connect_daemon 2 ''d'' (connect_daemon 1 ''d'' new_ws_manager))))"
proof -
  have "ws_reachable (connect_daemon 1 ''d'' new_ws_manager)"
    by (rule ws_reachable.step [OF ws_reachable.start daemon_opened]) (simp add: new_ws_manager_def)
  then have r: "ws_reachable (connect_daemon 2 ''d'' (connect_daemon 1 ''d'' new_ws_manager))"
    by (rule ws_reachable.step [OF _ daemon_opened]) (simp add: new_ws_manager_def connect_daemon_def)
  moreover have "wm_daemons (ws_disconnect 1 (connect_daemon 2 ''d'' (connect_daemon 1 ''d'' new_ws_manager))) = [(''d'', 2)]"
    by (simp add: ws_disconnect_def drop_socket_def connect_daemon_def new_ws_manager_def)
  ultimately show ?thesis using ws_sockets_consistent [OF r, of 2] by blast
qed

text \<open>
  Who gets an event. Bridging an event sends it once to every live socket, also to the daemons of
  other devices and networks; a \<open>config.changed\<close> event that names a device with a live socket is
  sent to that socket a second time. Dead sockets are removed.
\<close>

theorem config_changed_reaches_everyone:
  assumes "ws_reachable m" and "be_type e = ''config.changed''"
    and "dict_get (be_data e) ''device_id'' = Some (JStr did)" and "did \<noteq> []"
    and "map_of (wm_daemons m) did = Some s" and "alive s"
  shows "wm_sent (bridge_event alive e m) =
      wm_sent m @ map (\<lambda>t. (t, event_to_dict e)) (filter alive (wm_connections m)) @ [(s, event_to_dict e)] \<and>
    s \<in> set (wm_connections m) \<and>
    wm_connections (bridge_event alive e m) = filter alive (wm_connections m)"
proof -
  have inv: "ws_inv m" using assms(1) by (rule ws_inv_reachable)
  note b = broadcast_effect [OF inv, of alive "event_to_dict e"]
  have "map_of (filter (\<lambda>e. alive (snd e)) (wm_daemons m)) did = Some s"
    using inv assms(5,6) by (intro map_of_is_SomeI) (auto simp: ws_inv_def distinct_map_filter dest: map_of_SomeD)
  then have "map_of (wm_daemons (broadcast alive (event_to_dict e) m)) did = Some s" by (simp add: b)
  moreover have "s \<in> set (wm_connections m)" using inv map_of_SomeD [OF assms(5)] by (force simp: ws_inv_def)
  moreover have "dict_get_default (be_data e) ''device_id'' (JStr []) = JStr did"
    using assms(3) by (simp add: dict_get_default_def dict_get_def)
  ultimately show ?thesis using assms(2,4,6) by (simp add: bridge_event_def Let_def send_to_device_def b)
qed

definition demo_event :: bus_event where
  "demo_event = \<lparr>be_id = ''e'', be_type = ''config.changed'', be_created_at = ''t'', be_data = [(''device_id'', JStr ''d'')]\<rparr>"

theorem config_changed_reaches_everyone_witness:
  "map fst (wm_sent (bridge_event (\<lambda>_. True) demo_event (connect_daemon 2 ''d'' (connect_daemon 1 ''other'' new_ws_manager)))) = [2, 1, 2]"
proof -
  have "ws_reachable (connect_daemon 1 ''other'' new_ws_manager)"
    by (rule ws_reachable.step [OF ws_reachable.start daemon_opened]) (simp add: new_ws_manager_def)
  then have r: "ws_reachable (connect_daemon 2 ''d'' (connect_daemon 1 ''other'' new_ws_manager))"
    by (rule ws_reachable.step [OF _ daemon_opened]) (simp add: new_ws_manager_def connect_daemon_def)
  have "map_of (wm_daemons (connect_daemon 2 ''d'' (connect_daemon 1 ''other'' new_ws_manager))) ''d'' = Some 2"
    by (simp add: connect_daemon_def new_ws_manager_def)
  with config_changed_reaches_everyone [OF r, of demo_event "''d''" 2 "\<lambda>_. True"] show ?thesis
    by (simp add: demo_event_def dict_get_def connect_daemon_def new_ws_manager_def)
qed

text \<open>
  C27. Without Redis nothing is pushed. On a bus that was made without a Redis address, whatever
  sequence of starts, stops, listener starts and listener turns happens, publishing an event calls
  no callback: the bridge waits for a connection instead of subscribing in memory, so no web socket
  gets an event in the mode meant for development.
\<close>

theorem events_lost_without_redis:
  assumes "bus_reachable (new_event_bus False) b"
  shows "publish redis_ok b = []"
  using bus_in_memory [OF assms] by (auto simp: publish_def new_event_bus_def split: option.split)

theorem events_lost_without_redis_witness:
  "eb_listener (start_listener 7 (start_bus True (new_event_bus False))) = Some 7 \<and>
   publish True (start_listener 7 (start_bus True (new_event_bus False))) = []"
proof -
  have "bus_reachable (new_event_bus False) (start_listener 7 (start_bus True (new_event_bus False)))"
    by (rule bus_trans [OF bus_trans [OF bus_refl bus_start] bus_listen])
  from events_lost_without_redis [OF this] show ?thesis
    by (simp add: start_listener_def start_bus_def new_event_bus_def)
qed

text \<open>
  C26. Events are open to everybody. A socket that opens the endpoint of the user interface without a
  token is accepted, and gets every event that is bridged from then on; a daemon's socket is accepted
  only with a token that authenticates an active device, and is registered as that device.
\<close>

theorem anonymous_socket_gets_events:
  assumes "ws_reachable m" and "alive s"
  shows "\<exists>m'. websocket_endpoint jwt_decode now s None (Some m) = (Ws_accepted, Some m') \<and>
      (s, event_to_dict e) \<in> set (wm_sent (bridge_event alive e m')) \<and>
      (\<forall>mo. daemon_websocket_endpoint verify d s token (Some m) = Inr (Ws_accepted, mo) \<longrightarrow>
         (\<exists>r. lookup_device_by_token verify (the token) d = Inr (Some r) \<and> dev_enrollment_status r = ''active'' \<and>
            mo = Some (connect_daemon s (dev_id r) m)))"
proof (rule exI [of _ "ws_connect s m"], intro conjI allI impI)
  show "websocket_endpoint jwt_decode now s None (Some m) = (Ws_accepted, Some (ws_connect s m))"
    by (simp add: websocket_endpoint_def)
  have inv: "ws_inv (ws_connect s m)" using ws_inv_connect [OF ws_inv_reachable [OF assms(1)]] .
  have mem: "s \<in> set (wm_connections (ws_connect s m))" by (simp add: ws_connect_def)
  have "(s, event_to_dict e) \<in> set (wm_sent (broadcast alive (event_to_dict e) (ws_connect s m)))"
    using assms(2) mem by (simp add: broadcast_effect(4) [OF inv])
  then show "(s, event_to_dict e) \<in> set (wm_sent (bridge_event alive e (ws_connect s m)))"
    by (simp add: bridge_event_def Let_def send_to_device_def split: json.split option.split)
next
  fix mo assume "daemon_websocket_endpoint verify d s token (Some m) = Inr (Ws_accepted, mo)"
  then show "\<exists>r. lookup_device_by_token verify (the token) d = Inr (Some r) \<and> dev_enrollment_status r = ''active'' \<and>
      mo = Some (connect_daemon s (dev_id r) m)"
    unfolding daemon_websocket_endpoint_def bind_result_def by (auto split: if_splits option.splits sum.splits)
qed

theorem anonymous_socket_gets_events_witness:
  "\<exists>m'. websocket_endpoint (\<lambda>_ _. None) 0 3 None (Some new_ws_manager) = (Ws_accepted, Some m') \<and>
     (3, event_to_dict demo_event) \<in> set (wm_sent (bridge_event (\<lambda>_. True) demo_event m'))"
proof -
  from anonymous_socket_gets_events [where alive = "\<lambda>_. True" and s = 3 and jwt_decode = "\<lambda>_ _. None" and now = 0
      and e = demo_event and verify = "\<lambda>_ _. False" and d = empty_database and token = None, OF ws_reachable.start TrueI]
  obtain m' where "websocket_endpoint (\<lambda>_ _. None) 0 3 None (Some new_ws_manager) = (Ws_accepted, Some m')"
    and "(3, event_to_dict demo_event) \<in> set (wm_sent (bridge_event (\<lambda>_. True) demo_event m'))" by (elim exE conjE) (rule that)
  then show ?thesis by (intro exI conjI)
qed

end
