(* ===== verification/Migrations.thy ===== *)
theory Migrations
  imports Prelude
begin

text \<open>
  The database schema: the revisions under \<open>backend/alembic/versions\<close> as lists of operations on a
  schema, and the tables that the ORM models of \<open>app/models\<close> declare. An operation fails the way
  PostgreSQL and Alembic refuse it; \<open>populated\<close> tells which tables hold rows and \<open>has_null\<close> which of
  their columns hold a null.
\<close>

section \<open>Schemas\<close>

datatype column_type = T_UUID | T_String nat | T_Text | T_Boolean | T_Integer | T_BigInteger | T_JSON | T_DateTime

record column =
  c_name :: string
  c_type :: column_type
  c_nullable :: bool
  c_server_default :: bool
  c_primary_key :: bool
  c_references :: "string option"

text \<open>Indexes are kept by name with their column and whether they are unique.\<close>

record table =
  t_columns :: "column list"
  t_unique :: "string list"
  t_indexes :: "(string \<times> string \<times> bool) list"

type_synonym schema = "(string \<times> table) list"

definition col :: "string \<Rightarrow> column_type \<Rightarrow> bool \<Rightarrow> bool \<Rightarrow> bool \<Rightarrow> string option \<Rightarrow> column" where
  "col n ty nullable dflt pk ref =
     \<lparr>c_name = n, c_type = ty, c_nullable = nullable, c_server_default = dflt, c_primary_key = pk, c_references = ref\<rparr>"

section \<open>Operations\<close>

text \<open>
  \<open>Create_table\<close> has the unique columns and the columns declared with \<open>index=True\<close>, whose indexes
  are named after table and column, as \<open>op.f\<close> names them.
\<close>

datatype operation =
    Create_table string "column list" "string list" "string list"
  | Drop_table string
  | Add_column string column
  | Drop_column string string
  | Create_index string string string bool
  | Drop_index string string
  | Alter_nullable string string bool
  | Create_foreign_key string string string
  | Drop_unnamed_constraint string

record revision =
  rev_id :: string
  rev_down :: "string option"
  rev_upgrade :: "operation list"
  rev_downgrade :: "operation list"

definition index_name :: "string \<Rightarrow> string \<Rightarrow> string" where
  "index_name t c = ''ix_'' @ t @ ''_'' @ c"

definition ref_table :: "string \<Rightarrow> string" where
  "ref_table r = takeWhile (\<lambda>c. c \<noteq> CHR ''.'') r"

definition refers_to :: "string \<Rightarrow> column \<Rightarrow> bool" where
  "refers_to t c \<longleftrightarrow> (case c_references c of None \<Rightarrow> False | Some r \<Rightarrow> ref_table r = t)"

definition reference_ok :: "schema \<Rightarrow> string \<Rightarrow> column \<Rightarrow> bool" where
  "reference_ok s self c \<longleftrightarrow>
     (case c_references c of None \<Rightarrow> True | Some r \<Rightarrow> ref_table r = self \<or> map_of s (ref_table r) \<noteq> None)"

definition on_table :: "string \<Rightarrow> (table \<Rightarrow> table result) \<Rightarrow> schema \<Rightarrow> schema result" where
  "on_table n f s =
     (case map_of s n of
        None \<Rightarrow> Inl (ValueError ''no such table'')
      | Some t \<Rightarrow> bind_result (f t) (\<lambda>t'. Inr (map (\<lambda>(m, u). if m = n then (m, t') else (m, u)) s)))"

definition has_column :: "string \<Rightarrow> table \<Rightarrow> bool" where
  "has_column c t \<longleftrightarrow> list_ex (\<lambda>x. c_name x = c) (t_columns t)"

definition update_column :: "string \<Rightarrow> (column \<Rightarrow> column) \<Rightarrow> table \<Rightarrow> table" where
  "update_column c f t = t\<lparr>t_columns := map (\<lambda>x. if c_name x = c then f x else x) (t_columns t)\<rparr>"

fun apply_operation :: "(string \<Rightarrow> bool) \<Rightarrow> (string \<Rightarrow> string \<Rightarrow> bool) \<Rightarrow> operation \<Rightarrow> schema \<Rightarrow> schema result" where
  "apply_operation populated has_null (Create_table n cols uniq indexed) s =
     (if map_of s n \<noteq> None then Inl (ValueError ''table exists'')
      else if \<not> list_all (reference_ok s n) cols then Inl (ValueError ''no referenced table'')
      else Inr (s @ [(n, \<lparr>t_columns = cols, t_unique = uniq, t_indexes = map (\<lambda>c. (index_name n c, c, False)) indexed\<rparr>)]))"
| "apply_operation populated has_null (Drop_table n) s =
     (if map_of s n = None then Inl (ValueError ''no such table'')
      else if list_ex (\<lambda>(m, t). m \<noteq> n \<and> list_ex (refers_to n) (t_columns t)) s
      then Inl (ValueError ''other objects depend on the table'')
      else Inr (filter (\<lambda>(m, t). m \<noteq> n) s))"
| "apply_operation populated has_null (Add_column n c) s =
     (if \<not> reference_ok s n c then Inl (ValueError ''no referenced table'')
      else on_table n (\<lambda>t.
        if has_column (c_name c) t then Inl (ValueError ''column exists'')
        else if \<not> c_nullable c \<and> \<not> c_server_default c \<and> populated n then Inl (IntegrityError ''column contains null values'')
        else Inr (t\<lparr>t_columns := t_columns t @ [c]\<rparr>)) s)"
| "apply_operation populated has_null (Drop_column n c) s =
     on_table n (\<lambda>t.
       if \<not> has_column c t then Inl (ValueError ''no such column'')
       else Inr (t\<lparr>t_columns := filter (\<lambda>x. c_name x \<noteq> c) (t_columns t), t_unique := filter (\<lambda>x. x \<noteq> c) (t_unique t),
                   t_indexes := filter (\<lambda>(i, x, u). x \<noteq> c) (t_indexes t)\<rparr>)) s"
| "apply_operation populated has_null (Create_index i n c uniq) s =
     (if list_ex (\<lambda>(m, t). list_ex (\<lambda>(j, x, u). j = i) (t_indexes t)) s then Inl (ValueError ''index exists'')
      else on_table n (\<lambda>t.
        if \<not> has_column c t then Inl (ValueError ''no such column'')
        else Inr (t\<lparr>t_indexes := t_indexes t @ [(i, c, uniq)]\<rparr>)) s)"
| "apply_operation populated has_null (Drop_index i n) s =
     on_table n (\<lambda>t.
       if \<not> list_ex (\<lambda>(j, x, u). j = i) (t_indexes t) then Inl (ValueError ''no such index'')
       else Inr (t\<lparr>t_indexes := filter (\<lambda>(j, x, u). j \<noteq> i) (t_indexes t)\<rparr>)) s"
| "apply_operation populated has_null (Alter_nullable n c nullable) s =
     on_table n (\<lambda>t.
       if \<not> has_column c t then Inl (ValueError ''no such column'')
       else if \<not> nullable \<and> has_null n c \<and> populated n then Inl (IntegrityError ''column contains null values'')
       else Inr (update_column c (\<lambda>x. x\<lparr>c_nullable := nullable\<rparr>) t)) s"
| "apply_operation populated has_null (Create_foreign_key n c ref) s =
     (if map_of s (ref_table ref) = None then Inl (ValueError ''no referenced table'')
      else on_table n (\<lambda>t.
        if \<not> has_column c t then Inl (ValueError ''no such column'')
        else Inr (update_column c (\<lambda>x. x\<lparr>c_references := Some ref\<rparr>) t)) s)"
| "apply_operation populated has_null (Drop_unnamed_constraint n) s = Inl (ValueError ''constraint has no name'')"

fun apply_operations :: "(string \<Rightarrow> bool) \<Rightarrow> (string \<Rightarrow> string \<Rightarrow> bool) \<Rightarrow> operation list \<Rightarrow> schema \<Rightarrow> schema result" where
  "apply_operations populated has_null [] s = Inr s"
| "apply_operations populated has_null (p # ps) s =
     bind_result (apply_operation populated has_null p s) (apply_operations populated has_null ps)"

section \<open>Revisions\<close>

definition upgrade_initial :: "operation list" where
  "upgrade_initial =
     [Create_table ''networks''
       [col ''id'' T_UUID False False True None,
        col ''name'' (T_String 255) False False False None,
        col ''subnet'' (T_String 18) False False False None,
        col ''description'' T_Text True False False None,
        col ''created_at'' T_DateTime False True False None]
       [] [],
      Create_table ''users''
       [col ''id'' T_UUID False False True None,
        col ''email'' (T_String 255) False False False None,
        col ''password_hash'' (T_String 255) False False False None,
        col ''display_name'' (T_String 255) False False False None,
        col ''is_active'' T_Boolean False False False None,
        col ''is_superuser'' T_Boolean False False False None,
        col ''created_at'' T_DateTime False True False None,
        col ''updated_at'' T_DateTime False True False None]
       [] [],
      Create_index ''ix_users_email'' ''users'' ''email'' True,
      Create_table ''acl_rules''
       [col ''id'' T_UUID False False True None,
        col ''network_id'' T_UUID False False False (Some ''networks.id''),
        col ''src_tags'' T_JSON False False False None,
        col ''dst_tags'' T_JSON False False False None,
        col ''action'' (T_String 10) False False False None,
        col ''priority'' T_Integer False False False None,
        col ''created_at'' T_DateTime False True False None]
       [] [],
      Create_table ''devices''
       [col ''id'' T_UUID False False True None,
        col ''name'' (T_String 255) False False False None,
        col ''user_id'' T_UUID False False False (Some ''users.id''),
        col ''network_id'' T_UUID False False False (Some ''networks.id''),
        col ''public_key'' T_Text True False False None,
        col ''private_key_enc'' T_Text True False False None,
        col ''ip_address'' (T_String 45) True False False None,
        col ''dns_enabled'' T_Boolean False False False None,
        col ''is_active'' T_Boolean False False False None,
        col ''tags'' T_JSON True False False None,
        col ''last_handshake'' T_DateTime True False False None,
        col ''created_at'' T_DateTime False True False None,
        col ''updated_at'' T_DateTime False True False None]
       [] [],
      Create_table ''dns_entries''
       [col ''id'' T_UUID False False True None,
        col ''network_id'' T_UUID False False False (Some ''networks.id''),
        col ''domain'' (T_String 255) False False False None,
        col ''address'' (T_String 45) False False False None,
        col ''created_at'' T_DateTime False True False None]
       [] [],
      Create_table ''preauth_keys''
       [col ''id'' T_UUID False False True None,
        col ''key'' (T_String 255) False False False None,
        col ''network_id'' T_UUID False False False (Some ''networks.id''),
        col ''reusable'' T_Boolean False False False None,
        col ''expires_at'' T_DateTime False False False None,
        col ''created_at'' T_DateTime False True False None,
        col ''used_by'' T_JSON True False False None]
       [''key''] []]"

definition downgrade_initial :: "operation list" where
  "downgrade_initial =
     [Drop_table ''preauth_keys'',
      Drop_table ''dns_entries'',
      Drop_table ''devices'',
      Drop_table ''acl_rules'',
      Drop_index ''ix_users_email'' ''users'',
      Drop_table ''users'',
      Drop_table ''networks'']"

definition upgrade_python_side_defaults :: "operation list" where
  "upgrade_python_side_defaults =
     []"

definition downgrade_python_side_defaults :: "operation list" where
  "downgrade_python_side_defaults =
     []"

definition upgrade_add_interface_name_to_networks :: "operation list" where
  "upgrade_add_interface_name_to_networks =
     [Add_column ''networks'' (col ''interface_name'' (T_String 15) True False False None)]"

definition downgrade_add_interface_name_to_networks :: "operation list" where
  "downgrade_add_interface_name_to_networks =
     [Drop_column ''networks'' ''interface_name'']"

definition upgrade_add_device_endpoints_table :: "operation list" where
  "upgrade_add_device_endpoints_table =
     [Create_table ''device_endpoints''
       [col ''id'' T_UUID False False True None,
        col ''device_id'' T_UUID False False False (Some ''devices.id''),
        col ''endpoint'' (T_String 255) False False False None,
        col ''source'' (T_String 20) False False False None,
        col ''port'' T_Integer False False False None,
        col ''last_seen'' T_DateTime False False False None,
        col ''created_at'' T_DateTime False False False None]
       [] []]"

definition downgrade_add_device_endpoints_table :: "operation list" where
  "downgrade_add_device_endpoints_table =
     [Drop_table ''device_endpoints'']"

definition upgrade_add_audit_logs_table :: "operation list" where
  "upgrade_add_audit_logs_table =
     [Create_table ''audit_logs''
       [col ''id'' T_UUID False False True None,
        col ''actor_id'' (T_String 255) True False False None,
        col ''actor_type'' (T_String 20) False True False None,
        col ''action'' (T_String 50) False False False None,
        col ''target_type'' (T_String 50) False True False None,
        col ''target_id'' (T_String 255) True False False None,
        col ''details'' T_JSON True False False None,
        col ''ip_address'' (T_String 45) True False False None,
        col ''created_at'' T_DateTime False False False None]
       [] [],
      Create_index ''ix_audit_logs_actor_id'' ''audit_logs'' ''actor_id'' False,
      Create_index ''ix_audit_logs_action'' ''audit_logs'' ''action'' False,
      Create_index ''ix_audit_logs_created_at'' ''audit_logs'' ''created_at'' False]"

definition downgrade_add_audit_logs_table :: "operation list" where
  "downgrade_add_audit_logs_table =
     [Drop_index ''ix_audit_logs_created_at'' ''audit_logs'',
      Drop_index ''ix_audit_logs_action'' ''audit_logs'',
      Drop_index ''ix_audit_logs_actor_id'' ''audit_logs'',
      Drop_table ''audit_logs'']"

definition upgrade_add_advertised_routes_and_exit_node :: "operation list" where
  "upgrade_add_advertised_routes_and_exit_node =
     [Create_table ''advertised_routes''
       [col ''id'' T_UUID False False True None,
        col ''device_id'' T_UUID False False False (Some ''devices.id''),
        col ''network_id'' T_UUID False False False (Some ''networks.id''),
        col ''prefix'' (T_String 43) False False False None,
        col ''enabled'' T_Boolean False False False None,
        col ''approved'' T_Boolean False False False None,
        col ''is_exit_node'' T_Boolean False False False None,
        col ''created_at'' T_DateTime False False False None,
        col ''updated_at'' T_DateTime False False False None]
       [] [''device_id'', ''network_id''],
      Add_column ''devices'' (col ''exit_node_id'' T_UUID True False False (Some ''devices.id''))]"

definition downgrade_add_advertised_routes_and_exit_node :: "operation list" where
  "downgrade_add_advertised_routes_and_exit_node =
     [Drop_column ''devices'' ''exit_node_id'',
      Drop_table ''advertised_routes'']"

definition upgrade_add_node_owned_key_fields :: "operation list" where
  "upgrade_add_node_owned_key_fields =
     [Add_column ''devices'' (col ''is_node_owned'' T_Boolean False True False None),
      Add_column ''devices'' (col ''device_token_hash'' (T_String 255) True False False None),
      Add_column ''devices'' (col ''enrollment_status'' (T_String 20) False True False None),
      Add_column ''devices'' (col ''enrolled_at'' T_DateTime True False False None),
      Add_column ''devices'' (col ''last_seen_at'' T_DateTime True False False None),
      Add_column ''devices'' (col ''revoked_at'' T_DateTime True False False None)]"

definition downgrade_add_node_owned_key_fields :: "operation list" where
  "downgrade_add_node_owned_key_fields =
     [Drop_column ''devices'' ''revoked_at'',
      Drop_column ''devices'' ''last_seen_at'',
      Drop_column ''devices'' ''enrolled_at'',
      Drop_column ''devices'' ''enrollment_status'',
      Drop_column ''devices'' ''device_token_hash'',
      Drop_column ''devices'' ''is_node_owned'']"

definition upgrade_make_device_user_id_nullable :: "operation list" where
  "upgrade_make_device_user_id_nullable =
     [Alter_nullable ''devices'' ''user_id'' True]"

definition downgrade_make_device_user_id_nullable :: "operation list" where
  "downgrade_make_device_user_id_nullable =
     [Alter_nullable ''devices'' ''user_id'' False]"

definition upgrade_add_device_token_prefix :: "operation list" where
  "upgrade_add_device_token_prefix =
     [Add_column ''devices'' (col ''device_token_prefix'' (T_String 16) True False False None),
      Create_index ''ix_devices_device_token_prefix'' ''devices'' ''device_token_prefix'' False]"

definition downgrade_add_device_token_prefix :: "operation list" where
  "downgrade_add_device_token_prefix =
     [Drop_index ''ix_devices_device_token_prefix'' ''devices'',
      Drop_column ''devices'' ''device_token_prefix'']"

definition upgrade_add_topology_field_to_networks :: "operation list" where
  "upgrade_add_topology_field_to_networks =
     [Add_column ''device_endpoints'' (col ''local_ip'' (T_String 45) True False False None),
      Add_column ''device_endpoints'' (col ''public_ip'' (T_String 45) True False False None),
      Add_column ''device_endpoints'' (col ''priority'' T_Integer False True False None),
      Add_column ''device_endpoints'' (col ''is_active'' T_Boolean False True False None),
      Create_index ''ix_device_endpoints_device_id'' ''device_endpoints'' ''device_id'' False,
      Add_column ''networks'' (col ''topology'' (T_String 10) True False False None)]"

definition downgrade_add_topology_field_to_networks :: "operation list" where
  "downgrade_add_topology_field_to_networks =
     [Drop_column ''networks'' ''topology'',
      Drop_index ''ix_device_endpoints_device_id'' ''device_endpoints'',
      Drop_column ''device_endpoints'' ''is_active'',
      Drop_column ''device_endpoints'' ''priority'',
      Drop_column ''device_endpoints'' ''public_ip'',
      Drop_column ''device_endpoints'' ''local_ip'']"

definition upgrade_add_endpoint_scoring_fields :: "operation list" where
  "upgrade_add_endpoint_scoring_fields =
     [Add_column ''device_endpoints'' (col ''latency_ms'' T_Integer True False False None),
      Add_column ''device_endpoints'' (col ''reachable'' T_Boolean False True False None),
      Add_column ''device_endpoints'' (col ''last_probe_at'' T_DateTime True False False None),
      Add_column ''device_endpoints'' (col ''failure_count'' T_Integer False True False None),
      Add_column ''device_endpoints'' (col ''success_count'' T_Integer False True False None),
      Add_column ''device_endpoints'' (col ''score'' T_Integer False True False None)]"

definition downgrade_add_endpoint_scoring_fields :: "operation list" where
  "downgrade_add_endpoint_scoring_fields =
     [Drop_column ''device_endpoints'' ''score'',
      Drop_column ''device_endpoints'' ''success_count'',
      Drop_column ''device_endpoints'' ''failure_count'',
      Drop_column ''device_endpoints'' ''last_probe_at'',
      Drop_column ''device_endpoints'' ''reachable'',
      Drop_column ''device_endpoints'' ''latency_ms'']"

definition upgrade_add_nat_sessions :: "operation list" where
  "upgrade_add_nat_sessions =
     [Create_table ''nat_sessions''
       [col ''id'' T_UUID False False True None,
        col ''initiator_device_id'' T_UUID False False False (Some ''devices.id''),
        col ''target_device_id'' T_UUID False False False (Some ''devices.id''),
        col ''state'' (T_String 20) False False False None,
        col ''selected_candidate'' T_JSON True False False None,
        col ''connectivity_established'' T_Boolean False False False None,
        col ''extra_metadata'' T_JSON True False False None,
        col ''created_at'' T_DateTime False False False None,
        col ''updated_at'' T_DateTime False False False None,
        col ''expires_at'' T_DateTime False False False None]
       [] [''initiator_device_id'', ''target_device_id'', ''state'']]"

definition downgrade_add_nat_sessions :: "operation list" where
  "downgrade_add_nat_sessions =
     [Drop_table ''nat_sessions'']"

definition upgrade_add_relay_sessions :: "operation list" where
  "upgrade_add_relay_sessions =
     [Create_table ''relay_sessions''
       [col ''id'' T_UUID False False True None,
        col ''initiator_device_id'' T_UUID False False False (Some ''devices.id''),
        col ''target_device_id'' T_UUID False False False (Some ''devices.id''),
        col ''relay_region'' (T_String 64) False False False None,
        col ''relay_node'' (T_String 128) False False False None,
        col ''relay_token'' (T_String 255) False False False None,
        col ''state'' (T_String 20) False False False None,
        col ''bytes_tx'' T_BigInteger False False False None,
        col ''bytes_rx'' T_BigInteger False False False None,
        col ''connected_at'' T_DateTime True False False None,
        col ''expires_at'' T_DateTime True False False None,
        col ''created_at'' T_DateTime False False False None,
        col ''updated_at'' T_DateTime False False False None]
       [] [''initiator_device_id'', ''target_device_id'', ''state'']]"

definition downgrade_add_relay_sessions :: "operation list" where
  "downgrade_add_relay_sessions =
     [Drop_table ''relay_sessions'']"

definition upgrade_add_owner_id_to_networks :: "operation list" where
  "upgrade_add_owner_id_to_networks =
     [Add_column ''networks'' (col ''owner_id'' T_UUID True False False None),
      Create_index ''ix_networks_owner_id'' ''networks'' ''owner_id'' False,
      Create_foreign_key ''networks'' ''owner_id'' ''users.id'']"

definition downgrade_add_owner_id_to_networks :: "operation list" where
  "downgrade_add_owner_id_to_networks =
     [Drop_unnamed_constraint ''networks'',
      Drop_index ''ix_networks_owner_id'' ''networks'',
      Drop_column ''networks'' ''owner_id'']"

text \<open>The revisions in the order of their \<open>down_revision\<close> links.\<close>

definition revisions :: "revision list" where
  "revisions =
     [\<lparr>rev_id = ''b02bde8a120e'', rev_down = None, rev_upgrade = upgrade_initial, rev_downgrade = downgrade_initial\<rparr>,
      \<lparr>rev_id = ''e44cb5174045'', rev_down = Some ''b02bde8a120e'', rev_upgrade = upgrade_python_side_defaults, rev_downgrade = downgrade_python_side_defaults\<rparr>,
      \<lparr>rev_id = ''2c1a3b5e6d7f'', rev_down = Some ''e44cb5174045'', rev_upgrade = upgrade_add_interface_name_to_networks, rev_downgrade = downgrade_add_interface_name_to_networks\<rparr>,
      \<lparr>rev_id = ''3d4e5f6a7b8c'', rev_down = Some ''2c1a3b5e6d7f'', rev_upgrade = upgrade_add_device_endpoints_table, rev_downgrade = downgrade_add_device_endpoints_table\<rparr>,
      \<lparr>rev_id = ''4a5b6c7d8e9f'', rev_down = Some ''3d4e5f6a7b8c'', rev_upgrade = upgrade_add_audit_logs_table, rev_downgrade = downgrade_add_audit_logs_table\<rparr>,
      \<lparr>rev_id = ''5f6a7b8c9d0e'', rev_down = Some ''4a5b6c7d8e9f'', rev_upgrade = upgrade_add_advertised_routes_and_exit_node, rev_downgrade = downgrade_add_advertised_routes_and_exit_node\<rparr>,
      \<lparr>rev_id = ''6a7b8c9d0e1f'', rev_down = Some ''5f6a7b8c9d0e'', rev_upgrade = upgrade_add_node_owned_key_fields, rev_downgrade = downgrade_add_node_owned_key_fields\<rparr>,
      \<lparr>rev_id = ''7b8c9d0e1f2a'', rev_down = Some ''6a7b8c9d0e1f'', rev_upgrade = upgrade_make_device_user_id_nullable, rev_downgrade = downgrade_make_device_user_id_nullable\<rparr>,
      \<lparr>rev_id = ''8c9d0e1f2a3b'', rev_down = Some ''7b8c9d0e1f2a'', rev_upgrade = upgrade_add_device_token_prefix, rev_downgrade = downgrade_add_device_token_prefix\<rparr>,
      \<lparr>rev_id = ''737e64bcc13f'', rev_down = Some ''8c9d0e1f2a3b'', rev_upgrade = upgrade_add_topology_field_to_networks, rev_downgrade = downgrade_add_topology_field_to_networks\<rparr>,
      \<lparr>rev_id = ''c3cdac7f1f30'', rev_down = Some ''737e64bcc13f'', rev_upgrade = upgrade_add_endpoint_scoring_fields, rev_downgrade = downgrade_add_endpoint_scoring_fields\<rparr>,
      \<lparr>rev_id = ''9d0e1f2a3b4c'', rev_down = Some ''c3cdac7f1f30'', rev_upgrade = upgrade_add_nat_sessions, rev_downgrade = downgrade_add_nat_sessions\<rparr>,
      \<lparr>rev_id = ''ae1b2c3d4e5f'', rev_down = Some ''9d0e1f2a3b4c'', rev_upgrade = upgrade_add_relay_sessions, rev_downgrade = downgrade_add_relay_sessions\<rparr>,
      \<lparr>rev_id = ''1ea06c46da06'', rev_down = Some ''ae1b2c3d4e5f'', rev_upgrade = upgrade_add_owner_id_to_networks, rev_downgrade = downgrade_add_owner_id_to_networks\<rparr>]"

section \<open>Models\<close>

text \<open>A model's indexes are given by column and uniqueness.\<close>

definition model_table :: "string \<Rightarrow> column list \<Rightarrow> string list \<Rightarrow> (string \<times> bool) list \<Rightarrow> table" where
  "model_table n cols uniq indexed =
     \<lparr>t_columns = cols, t_unique = uniq, t_indexes = map (\<lambda>(c, u). (index_name n c, c, u)) indexed\<rparr>"

definition model_users :: "string \<times> table" where
  "model_users = (''users'', model_table ''users''
     [col ''id'' T_UUID False False True None,
      col ''email'' (T_String 255) False False False None,
      col ''password_hash'' (T_String 255) False False False None,
      col ''display_name'' (T_String 255) False False False None,
      col ''is_active'' T_Boolean False False False None,
      col ''is_superuser'' T_Boolean False False False None,
      col ''created_at'' T_DateTime False False False None,
      col ''updated_at'' T_DateTime False False False None]
     [] [(''email'', True)])"

definition model_networks :: "string \<times> table" where
  "model_networks = (''networks'', model_table ''networks''
     [col ''id'' T_UUID False False True None,
      col ''name'' (T_String 255) False False False None,
      col ''subnet'' (T_String 18) False False False None,
      col ''description'' T_Text True False False None,
      col ''interface_name'' (T_String 15) True False False None,
      col ''topology'' (T_String 10) True False False None,
      col ''owner_id'' T_UUID True False False (Some ''users.id''),
      col ''created_at'' T_DateTime False False False None]
     [] [(''owner_id'', False)])"

definition model_devices :: "string \<times> table" where
  "model_devices = (''devices'', model_table ''devices''
     [col ''id'' T_UUID False False True None,
      col ''name'' (T_String 255) False False False None,
      col ''user_id'' T_UUID True False False (Some ''users.id''),
      col ''network_id'' T_UUID False False False (Some ''networks.id''),
      col ''public_key'' T_Text True False False None,
      col ''private_key_enc'' T_Text True False False None,
      col ''ip_address'' (T_String 45) True False False None,
      col ''dns_enabled'' T_Boolean False False False None,
      col ''is_active'' T_Boolean False False False None,
      col ''is_node_owned'' T_Boolean False False False None,
      col ''device_token_hash'' (T_String 255) True False False None,
      col ''device_token_prefix'' (T_String 16) True False False None,
      col ''enrollment_status'' (T_String 20) False False False None,
      col ''enrolled_at'' T_DateTime True False False None,
      col ''last_seen_at'' T_DateTime True False False None,
      col ''revoked_at'' T_DateTime True False False None,
      col ''tags'' T_JSON True False False None,
      col ''last_handshake'' T_DateTime True False False None,
      col ''exit_node_id'' T_UUID True False False (Some ''devices.id''),
      col ''created_at'' T_DateTime False False False None,
      col ''updated_at'' T_DateTime False False False None]
     [] [(''device_token_prefix'', False)])"

definition model_device_endpoints :: "string \<times> table" where
  "model_device_endpoints = (''device_endpoints'', model_table ''device_endpoints''
     [col ''id'' T_UUID False False True None,
      col ''device_id'' T_UUID False False False (Some ''devices.id''),
      col ''endpoint'' (T_String 255) False False False None,
      col ''source'' (T_String 20) False False False None,
      col ''port'' T_Integer False False False None,
      col ''local_ip'' (T_String 45) True False False None,
      col ''public_ip'' (T_String 45) True False False None,
      col ''priority'' T_Integer False False False None,
      col ''is_active'' T_Boolean False False False None,
      col ''last_seen'' T_DateTime False False False None,
      col ''latency_ms'' T_Integer True False False None,
      col ''reachable'' T_Boolean False False False None,
      col ''last_probe_at'' T_DateTime True False False None,
      col ''failure_count'' T_Integer False False False None,
      col ''success_count'' T_Integer False False False None,
      col ''score'' T_Integer False False False None,
      col ''created_at'' T_DateTime False False False None]
     [] [(''device_id'', False)])"

definition model_advertised_routes :: "string \<times> table" where
  "model_advertised_routes = (''advertised_routes'', model_table ''advertised_routes''
     [col ''id'' T_UUID False False True None,
      col ''device_id'' T_UUID False False False (Some ''devices.id''),
      col ''network_id'' T_UUID False False False (Some ''networks.id''),
      col ''prefix'' (T_String 43) False False False None,
      col ''enabled'' T_Boolean False False False None,
      col ''approved'' T_Boolean False False False None,
      col ''is_exit_node'' T_Boolean False False False None,
      col ''created_at'' T_DateTime False False False None,
      col ''updated_at'' T_DateTime False False False None]
     [] [(''device_id'', False), (''network_id'', False)])"

definition model_preauth_keys :: "string \<times> table" where
  "model_preauth_keys = (''preauth_keys'', model_table ''preauth_keys''
     [col ''id'' T_UUID False False True None,
      col ''key'' (T_String 255) False False False None,
      col ''network_id'' T_UUID False False False (Some ''networks.id''),
      col ''reusable'' T_Boolean False False False None,
      col ''expires_at'' T_DateTime False False False None,
      col ''created_at'' T_DateTime False False False None,
      col ''used_by'' T_JSON True False False None]
     [''key''] [])"

definition model_acl_rules :: "string \<times> table" where
  "model_acl_rules = (''acl_rules'', model_table ''acl_rules''
     [col ''id'' T_UUID False False True None,
      col ''network_id'' T_UUID False False False (Some ''networks.id''),
      col ''src_tags'' T_JSON False False False None,
      col ''dst_tags'' T_JSON False False False None,
      col ''action'' (T_String 10) False False False None,
      col ''priority'' T_Integer False False False None,
      col ''created_at'' T_DateTime False False False None]
     [] [])"

definition model_dns_entries :: "string \<times> table" where
  "model_dns_entries = (''dns_entries'', model_table ''dns_entries''
     [col ''id'' T_UUID False False True None,
      col ''network_id'' T_UUID False False False (Some ''networks.id''),
      col ''domain'' (T_String 255) False False False None,
      col ''address'' (T_String 45) False False False None,
      col ''created_at'' T_DateTime False False False None]
     [] [])"

definition model_nat_sessions :: "string \<times> table" where
  "model_nat_sessions = (''nat_sessions'', model_table ''nat_sessions''
     [col ''id'' T_UUID False False True None,
      col ''initiator_device_id'' T_UUID False False False (Some ''devices.id''),
      col ''target_device_id'' T_UUID False False False (Some ''devices.id''),
      col ''state'' (T_String 20) False False False None,
      col ''selected_candidate'' T_JSON True False False None,
      col ''connectivity_established'' T_Boolean False False False None,
      col ''extra_metadata'' T_JSON True False False None,
      col ''created_at'' T_DateTime False False False None,
      col ''updated_at'' T_DateTime False False False None,
      col ''expires_at'' T_DateTime False False False None]
     [] [(''initiator_device_id'', False), (''target_device_id'', False), (''state'', False)])"

definition model_relay_sessions :: "string \<times> table" where
  "model_relay_sessions = (''relay_sessions'', model_table ''relay_sessions''
     [col ''id'' T_UUID False False True None,
      col ''initiator_device_id'' T_UUID False False False (Some ''devices.id''),
      col ''target_device_id'' T_UUID False False False (Some ''devices.id''),
      col ''relay_region'' (T_String 64) False False False None,
      col ''relay_node'' (T_String 128) False False False None,
      col ''relay_token'' (T_String 255) False False False None,
      col ''state'' (T_String 20) False False False None,
      col ''bytes_tx'' T_BigInteger False False False None,
      col ''bytes_rx'' T_BigInteger False False False None,
      col ''connected_at'' T_DateTime True False False None,
      col ''expires_at'' T_DateTime True False False None,
      col ''created_at'' T_DateTime False False False None,
      col ''updated_at'' T_DateTime False False False None]
     [] [(''initiator_device_id'', False), (''target_device_id'', False), (''state'', False)])"

definition model_audit_logs :: "string \<times> table" where
  "model_audit_logs = (''audit_logs'', model_table ''audit_logs''
     [col ''id'' T_UUID False False True None,
      col ''actor_id'' (T_String 255) True False False None,
      col ''actor_type'' (T_String 20) False False False None,
      col ''action'' (T_String 50) False False False None,
      col ''target_type'' (T_String 50) False False False None,
      col ''target_id'' (T_String 255) True False False None,
      col ''details'' T_JSON True False False None,
      col ''ip_address'' (T_String 45) True False False None,
      col ''created_at'' T_DateTime False False False None]
     [] [(''actor_id'', False), (''action'', False), (''created_at'', False)])"

definition models :: schema where
  "models =
     [model_users, model_networks, model_devices, model_device_endpoints, model_advertised_routes, model_preauth_keys,
      model_acl_rules, model_dns_entries, model_nat_sessions, model_relay_sessions, model_audit_logs]"

section \<open>Running\<close>

text \<open>\<open>alembic upgrade head\<close>: the upgrades of all revisions, one after the other.\<close>

definition upgrade_head :: "(string \<Rightarrow> bool) \<Rightarrow> (string \<Rightarrow> string \<Rightarrow> bool) \<Rightarrow> schema \<Rightarrow> schema result" where
  "upgrade_head populated has_null s = apply_operations populated has_null (concat (map rev_upgrade revisions)) s"

text \<open>The schema before each revision is reached by the upgrades of the ones before it.\<close>

definition upgrade_to :: "nat \<Rightarrow> (string \<Rightarrow> bool) \<Rightarrow> (string \<Rightarrow> string \<Rightarrow> bool) \<Rightarrow> schema result" where
  "upgrade_to k populated has_null = apply_operations populated has_null (concat (map rev_upgrade (take k revisions))) []"

text \<open>Two tables declare the same: server defaults and the order of columns aside.\<close>

definition column_shape :: "column \<Rightarrow> string \<times> column_type \<times> bool \<times> bool \<times> string option" where
  "column_shape c = (c_name c, c_type c, c_nullable c, c_primary_key c, c_references c)"

definition same_items :: "'a list \<Rightarrow> 'a list \<Rightarrow> bool" where
  "same_items xs ys \<longleftrightarrow> list_all (\<lambda>x. List.member ys x) xs \<and> list_all (\<lambda>y. List.member xs y) ys"

definition same_table :: "table \<Rightarrow> table \<Rightarrow> bool" where
  "same_table t u \<longleftrightarrow> same_items (map column_shape (t_columns t)) (map column_shape (t_columns u)) \<and>
     same_items (t_unique t) (t_unique u) \<and> same_items (t_indexes t) (t_indexes u)"

definition same_schema :: "schema \<Rightarrow> schema \<Rightarrow> bool" where
  "same_schema s m \<longleftrightarrow> length s = length m \<and>
     list_all (\<lambda>(n, t). case map_of s n of None \<Rightarrow> False | Some u \<Rightarrow> same_table u t) m"

section \<open>Properties\<close>

lemma upgrade_head_computed:
  "case upgrade_head populated has_null [] of Inr s \<Rightarrow> same_schema s models | Inl _ \<Rightarrow> False"
  by code_simp

lemma revisions_linked: "map rev_down revisions = None # map (\<lambda>r. Some (rev_id r)) (butlast revisions)"
  by code_simp

text \<open>
  C15. The migrations build the schema the models declare. Each revision names the one before it, and
  upgrading an empty database to the head succeeds, also when every table gets rows in between, and
  ends with exactly the tables of the ORM models: the same columns with type, nullability, primary
  key and reference, and the same unique columns and indexes, by name.
\<close>

theorem migrations_build_models:
  "\<exists>s. upgrade_head populated has_null [] = Inr s \<and> same_schema s models \<and>
     map rev_down revisions = None # map (\<lambda>r. Some (rev_id r)) (butlast revisions)"
  using upgrade_head_computed [of populated has_null] revisions_linked by (cases "upgrade_head populated has_null []") auto

text \<open>\<open>alembic downgrade -1\<close> after the first \<open>k + 1\<close> revisions.\<close>

definition undone :: "nat \<Rightarrow> (string \<Rightarrow> bool) \<Rightarrow> (string \<Rightarrow> string \<Rightarrow> bool) \<Rightarrow> schema result" where
  "undone k populated has_null =
     bind_result (upgrade_to (Suc k) populated has_null) (apply_operations populated has_null (rev_downgrade (revisions ! k)))"

lemma apply_operations_append:
  "apply_operations populated has_null (ps @ qs) s =
     bind_result (apply_operations populated has_null ps s) (apply_operations populated has_null qs)"
proof (induction ps arbitrary: s)
  case (Cons p ps)
  then show ?case by (cases "apply_operation populated has_null p s") simp_all
qed simp

text \<open>Each revision of a list, applied to the schema the ones before it built and undone, gives it restored.\<close>

fun all_undone :: "(string \<Rightarrow> bool) \<Rightarrow> revision list \<Rightarrow> schema \<Rightarrow> bool" where
  "all_undone populated [] s \<longleftrightarrow> True"
| "all_undone populated (r # rs) s \<longleftrightarrow>
     (case apply_operations populated (\<lambda>_ _. False) (rev_upgrade r) s of
        Inl _ \<Rightarrow> False
      | Inr s' \<Rightarrow> (case apply_operations populated (\<lambda>_ _. False) (rev_downgrade r) s' of Inl _ \<Rightarrow> False | Inr s'' \<Rightarrow> s'' = s) \<and>
                all_undone populated rs s')"

lemma all_undone_nth:
  "all_undone populated rs s \<Longrightarrow> k < length rs \<Longrightarrow>
     bind_result (apply_operations populated (\<lambda>_ _. False) (concat (map rev_upgrade (take (Suc k) rs))) s)
       (apply_operations populated (\<lambda>_ _. False) (rev_downgrade (rs ! k))) =
     apply_operations populated (\<lambda>_ _. False) (concat (map rev_upgrade (take k rs))) s"
proof (induction rs arbitrary: s k)
  case (Cons r rs)
  then obtain s' where s': "apply_operations populated (\<lambda>_ _. False) (rev_upgrade r) s = Inr s'" "all_undone populated rs s'"
    and restored: "apply_operations populated (\<lambda>_ _. False) (rev_downgrade r) s' = Inr s"
    by (auto split: sum.splits)
  show ?case
  proof (cases k)
    case 0
    then show ?thesis using s' restored by (simp add: apply_operations_append)
  next
    case (Suc j)
    then show ?thesis using Cons.IH [OF s'(2), of j] Cons.prems(2) s'(1) by (simp add: apply_operations_append)
  qed
qed simp

lemma revisions_undone: "all_undone populated (butlast revisions) []"
  by code_simp

lemma length_revisions: "length revisions = 14"
  by (simp add: revisions_def)

text \<open>
  Undoing a revision. Every revision but the last, applied to the schema it is made for and
  undone, gives that schema restored when no column holds a null; but from the head no downgrade is
  possible, since the downgrade of the last revision starts with dropping a constraint without a
  name, and once a device without a user exists the revision that allowed it cannot be undone.
\<close>

theorem downgrades_restore_schema:
  "(k < 13 \<longrightarrow> undone k populated (\<lambda>_ _. False) = upgrade_to k populated (\<lambda>_ _. False)) \<and>
   undone 13 populated has_null = Inl (ValueError ''constraint has no name'') \<and>
   undone 7 (\<lambda>_. True) (\<lambda>_ _. True) = Inl (IntegrityError ''column contains null values'')"
proof (intro conjI impI)
  assume "k < 13"
  then show "undone k populated (\<lambda>_ _. False) = upgrade_to k populated (\<lambda>_ _. False)"
    using all_undone_nth [OF revisions_undone, of k populated]
    by (simp add: undone_def upgrade_to_def take_butlast nth_butlast length_revisions)
next
  show "undone 13 populated has_null = Inl (ValueError ''constraint has no name'')" by code_simp
  show "undone 7 (\<lambda>_. True) (\<lambda>_ _. True) = Inl (IntegrityError ''column contains null values'')" by code_simp
qed

theorem downgrades_restore_schema_witness:
  "undone 2 (\<lambda>_. True) (\<lambda>_ _. False) = upgrade_to 2 (\<lambda>_. True) (\<lambda>_ _. False)"
  using downgrades_restore_schema [of 2 "\<lambda>_. True"] by simp

end
