(* ===== verification/Api_Client.thy ===== *)
theory Api_Client
  imports Reconciler
begin

text \<open>
  The daemon's HTTP client: \<open>midscaled/daemon/api_client.py\<close>. The server is a parameter: from a
  request and its own state it gives the new state and either a reply, with its status, its JSON
  body if it is JSON, and its text, or the error of the connection. A request has the segments of its
  path. The fields of a reply are read as the strings and numbers they are annotated with; \<open>py_str\<close> is
  Python's \<open>str\<close> on a decoded value that is not text.
\<close>

section \<open>Requests and replies\<close>

record http_request =
  rq_method :: string
  rq_path :: "string list"
  rq_auth :: "string option"
  rq_body :: "json option"

datatype http_reply = Reply int "json option" string | Request_error string

type_synonym 'w server = "http_request \<Rightarrow> 'w \<Rightarrow> 'w \<times> http_reply"

record api_client =
  ac_device_id :: "string option"
  ac_device_token :: "string option"

definition set_device_auth :: "string option \<Rightarrow> string option \<Rightarrow> api_client \<Rightarrow> api_client" where
  "set_device_auth did token c = c\<lparr>ac_device_id := did, ac_device_token := token\<rparr>"

definition auth_headers :: "api_client \<Rightarrow> string option" where
  "auth_headers c = (if truthy_str (ac_device_token c) then Some (''Bearer '' @ the (ac_device_token c)) else None)"

definition get_request :: "string list \<Rightarrow> string option \<Rightarrow> http_request" where
  "get_request path auth = \<lparr>rq_method = ''GET'', rq_path = path, rq_auth = auth, rq_body = None\<rparr>"

definition post_request :: "string list \<Rightarrow> string option \<Rightarrow> dict \<Rightarrow> http_request" where
  "post_request path auth body = \<lparr>rq_method = ''POST'', rq_path = path, rq_auth = auth, rq_body = Some (JObj body)\<rparr>"

text \<open>\<open>if v is not None: body[k] = v\<close> and \<open>if v: body[k] = v\<close>.\<close>

definition add_some :: "string \<Rightarrow> json option \<Rightarrow> dict \<Rightarrow> dict" where
  "add_some k v d = (case v of None \<Rightarrow> d | Some j \<Rightarrow> dict_set d k j)"

definition add_truthy :: "string \<Rightarrow> json \<Rightarrow> dict \<Rightarrow> dict" where
  "add_truthy k v d = (if truthy_json v then dict_set d k v else d)"

section \<open>Reading replies\<close>

fun error_texts :: "(json \<Rightarrow> string) \<Rightarrow> json list \<Rightarrow> string list result" where
  "error_texts py_str [] = Inr []"
| "error_texts py_str (JObj d # es) =
     (case dict_get_default d ''msg'' (JStr (py_str (JObj d))) of
        JStr s \<Rightarrow> bind_result (error_texts py_str es) (\<lambda>ss. Inr (s # ss))
      | _ \<Rightarrow> Inl (TypeError ''sequence item: expected str instance''))"
| "error_texts py_str (e # es) = Inl (AttributeError ''get'')"

definition detail_text :: "(json \<Rightarrow> string) \<Rightarrow> json \<Rightarrow> string" where
  "detail_text py_str j = (case j of JStr s \<Rightarrow> s | _ \<Rightarrow> py_str j)"

definition extract_error :: "(json \<Rightarrow> string) \<Rightarrow> json option \<Rightarrow> string \<Rightarrow> string result" where
  "extract_error py_str body text =
     (case body of
        None \<Rightarrow> Inr (take 200 text)
      | Some (JObj d) \<Rightarrow>
          (case dict_get_default d ''detail'' (JObj d) of
             JList es \<Rightarrow> bind_result (error_texts py_str es) (\<lambda>ss. Inr (join ''; '' ss))
           | detail \<Rightarrow> Inr (detail_text py_str detail))
      | Some j \<Rightarrow> Inr (detail_text py_str j))"

definition body_dict :: "json option \<Rightarrow> dict result" where
  "body_dict body =
     (case body of
        None \<Rightarrow> Inl (ValueError ''JSONDecodeError'')
      | Some (JObj d) \<Rightarrow> Inr d
      | Some _ \<Rightarrow> Inl (AttributeError ''get''))"

definition str_field :: "dict \<Rightarrow> string \<Rightarrow> string option" where
  "str_field d k = (case dict_get d k of Some (JStr s) \<Rightarrow> Some s | _ \<Rightarrow> None)"

text \<open>
  The frame of every method: send, and branch on the connection, the status and the body. \<open>good\<close> is
  the branch for the statuses in \<open>ok\<close>, \<open>bad\<close> what is made of an error text.
\<close>

definition exchange :: "(json \<Rightarrow> string) \<Rightarrow> 'w server \<Rightarrow> int set \<Rightarrow> http_request \<Rightarrow> (json option \<Rightarrow> 'r result)
    \<Rightarrow> (string \<Rightarrow> 'r) \<Rightarrow> 'w \<Rightarrow> 'w \<times> 'r result" where
  "exchange py_str server ok rq good bad w =
     (case server rq w of
        (w', Request_error e) \<Rightarrow> (w', Inr (bad e))
      | (w', Reply status body text) \<Rightarrow>
          (w', if status \<in> ok then good body
               else bind_result (extract_error py_str body text) (\<lambda>e. Inr (bad e))))"

section \<open>Results\<close>

text \<open>\<open>HeartbeatResult\<close>, \<open>EndpointReportResult\<close>, \<open>ProbeReportResult\<close> and \<open>RouteAdvertiseResult\<close>.\<close>

record api_result =
  ar_success :: bool
  ar_error :: "string option"

definition api_ok :: api_result where
  "api_ok = \<lparr>ar_success = True, ar_error = None\<rparr>"

definition api_failed :: "string \<Rightarrow> api_result" where
  "api_failed e = \<lparr>ar_success = False, ar_error = Some e\<rparr>"

record registration_result =
  rr_success :: bool
  rr_device_id :: "string option"
  rr_error :: "string option"

record enroll_result =
  er_success :: bool
  er_device_id :: "string option"
  er_device_token :: "string option"
  er_network_id :: "string option"
  er_ip_address :: "string option"
  er_config_v2 :: "dict option"
  er_error :: "string option"

record relay_session_result =
  rsr_success :: bool
  rsr_session_id :: "string option"
  rsr_relay_token :: "string option"
  rsr_relay_region :: "string option"
  rsr_relay_node :: "string option"
  rsr_error :: "string option"

definition enroll_failed :: "string \<Rightarrow> enroll_result" where
  "enroll_failed e =
     \<lparr>er_success = False, er_device_id = None, er_device_token = None, er_network_id = None, er_ip_address = None,
      er_config_v2 = None, er_error = Some e\<rparr>"

definition relay_failed :: "string \<Rightarrow> relay_session_result" where
  "relay_failed e =
     \<lparr>rsr_success = False, rsr_session_id = None, rsr_relay_token = None, rsr_relay_region = None, rsr_relay_node = None,
      rsr_error = Some e\<rparr>"

definition pull_failed :: "string \<Rightarrow> config_v2_pull" where
  "pull_failed e =
     \<lparr>vp_success = False, vp_interface = None, vp_peers = None, vp_routes = None, vp_exit_node = None, vp_revision = None,
      vp_hash = None, vp_version = None, vp_error = Some e\<rparr>"

section \<open>Reading a configuration\<close>

text \<open>The typed reading of the fields the reconciler takes from the JSON of a configuration.\<close>

definition json_opt :: "(json \<Rightarrow> 'a option) \<Rightarrow> json \<Rightarrow> 'a option option" where
  "json_opt f j = (case j of JNull \<Rightarrow> Some None | _ \<Rightarrow> map_option Some (f j))"

definition json_str :: "json \<Rightarrow> string option" where
  "json_str j = (case j of JStr s \<Rightarrow> Some s | _ \<Rightarrow> None)"

definition json_int :: "json \<Rightarrow> int option" where
  "json_int j = (case j of JInt i \<Rightarrow> Some i | _ \<Rightarrow> None)"

definition json_bool :: "json \<Rightarrow> bool option" where
  "json_bool j = (case j of JBool b \<Rightarrow> Some b | _ \<Rightarrow> None)"

definition json_list :: "(json \<Rightarrow> 'a option) \<Rightarrow> json \<Rightarrow> 'a list option" where
  "json_list f j =
     (case j of JList xs \<Rightarrow> if list_all (\<lambda>x. f x \<noteq> None) xs then Some (map (\<lambda>x. the (f x)) xs) else None | _ \<Rightarrow> None)"

definition field :: "(json \<Rightarrow> 'a option) \<Rightarrow> dict \<Rightarrow> string \<Rightarrow> 'a option" where
  "field f d k = f (dict_get_default d k JNull)"

definition read_candidate :: "json \<Rightarrow> endpoint_candidate option" where
  "read_candidate j =
     (case j of
        JObj d \<Rightarrow>
          (case (field json_str d ''endpoint'', field json_int d ''port'', field json_str d ''source'', field json_int d ''priority'',
                 field (json_opt json_str) d ''last_seen_at'', field (json_opt json_str) d ''local_ip'',
                 field (json_opt json_str) d ''public_ip'', field json_bool d ''reachable'',
                 field (json_opt json_int) d ''latency_ms'', field json_int d ''score'', field json_bool d ''preferred'') of
             (Some ep, Some port, Some src, Some prio, Some seen, Some lip, Some pip, Some reach, Some lat, Some score, Some pref) \<Rightarrow>
               Some \<lparr>ec_endpoint = ep, ec_port = port, ec_source = src, ec_priority = prio, ec_last_seen_at = seen,
                     ec_local_ip = lip, ec_public_ip = pip, ec_reachable = reach, ec_latency_ms = lat, ec_score = score,
                     ec_preferred = pref\<rparr>
           | _ \<Rightarrow> None)
      | _ \<Rightarrow> None)"

definition read_relay_candidate :: "json \<Rightarrow> relay_candidate_info option" where
  "read_relay_candidate j =
     (case j of
        JObj d \<Rightarrow>
          (case (field json_str d ''relay_node'', field json_str d ''relay_region'', field json_str d ''relay_endpoint'',
                 field json_int d ''priority'', field json_bool d ''preferred'') of
             (Some n, Some r, Some e, Some p, Some b) \<Rightarrow>
               Some \<lparr>rc_relay_node = n, rc_relay_region = r, rc_relay_endpoint = e, rc_priority = p, rc_preferred = b\<rparr>
           | _ \<Rightarrow> None)
      | _ \<Rightarrow> None)"

definition read_peer :: "json \<Rightarrow> peer_info option" where
  "read_peer j =
     (case j of
        JObj d \<Rightarrow>
          (case (field json_str d ''public_key'', field (json_list json_str) d ''allowed_ips'', field (json_opt json_str) d ''endpoint'',
                 field (json_opt json_int) d ''endpoint_port'', field (json_opt json_int) d ''persistent_keepalive'',
                 field (json_list read_candidate) d ''endpoint_candidates'', field json_bool d ''relay_fallback'',
                 field (json_opt (json_list read_relay_candidate)) d ''relay_candidates'', field json_bool d ''relay_required'') of
             (Some pk, Some ips, Some ep, Some port, Some ka, Some cands, Some fb, Some rcs, Some rr) \<Rightarrow>
               Some \<lparr>pi_public_key = pk, pi_allowed_ips = ips, pi_endpoint = ep, pi_endpoint_port = port,
                     pi_persistent_keepalive = ka, pi_endpoint_candidates = cands, pi_relay_fallback = fb,
                     pi_relay_candidates = rcs, pi_relay_required = rr\<rparr>
           | _ \<Rightarrow> None)
      | _ \<Rightarrow> None)"

definition read_interface :: "json \<Rightarrow> config_interface option" where
  "read_interface j =
     (case j of
        JObj d \<Rightarrow>
          (case (field json_str d ''address'', field (json_opt (json_list json_str)) d ''dns'', field (json_opt json_int) d ''mtu'') of
             (Some a, Some dns, Some mtu) \<Rightarrow> Some \<lparr>ci_address = a, ci_dns = dns, ci_mtu = mtu\<rparr>
           | _ \<Rightarrow> None)
      | _ \<Rightarrow> None)"

definition read_pull :: "dict \<Rightarrow> config_v2_pull" where
  "read_pull d =
     \<lparr>vp_success = True, vp_interface = field read_interface d ''interface'',
      vp_peers = field (json_list read_peer) d ''peers'', vp_routes = field (json_list json_str) d ''routes'',
      vp_exit_node = str_field d ''exit_node'', vp_revision = str_field d ''revision'', vp_hash = str_field d ''hash'',
      vp_version = str_field d ''version'', vp_error = None\<rparr>"

text \<open>What the server's \<open>DeviceConfigV2Response\<close> is on the wire.\<close>

definition config_v2_dict :: "config_v2 \<Rightarrow> dict" where
  "config_v2_dict c =
     [(''interface'', interface_json (cv_interface c)), (''peers'', JList (map peer_json (cv_peers c))),
      (''routes'', json_strs (cv_routes c)), (''exit_node'', json_opt_str (cv_exit_node c)),
      (''version'', JStr (cv_version c)), (''config_version'', JStr (cv_config_version c)),
      (''schema_version'', JStr (cv_schema_version c)), (''min_daemon_version'', json_opt_str (cv_min_daemon_version c)),
      (''revision'', JStr (cv_revision c)), (''generated_at'', JStr (cv_generated_at c)), (''hash'', JStr (cv_hash c))]"

definition pull_of :: "config_v2 \<Rightarrow> config_v2_pull" where
  "pull_of c =
     \<lparr>vp_success = True, vp_interface = Some (cv_interface c), vp_peers = Some (cv_peers c), vp_routes = Some (cv_routes c),
      vp_exit_node = cv_exit_node c, vp_revision = Some (cv_revision c), vp_hash = Some (cv_hash c),
      vp_version = Some (cv_version c), vp_error = None\<rparr>"

named_theorems wire

lemma wire_scalars [wire]:
  "json_str (JStr s) = Some s" "json_int (JInt i) = Some i" "json_bool (JBool b) = Some b"
  "json_opt json_str (json_opt_str x) = Some x" "json_opt json_int (json_opt_int y) = Some y"
  by (simp_all add: json_str_def json_int_def json_bool_def json_opt_def json_opt_str_def json_opt_int_def split: option.split)

lemma wire_list: "(\<And>x. f (g x) = Some x) \<Longrightarrow> json_list f (JList (map g xs)) = Some xs"
  by (simp add: json_list_def list_all_iff comp_def)

lemma wire_strs [wire]: "json_list json_str (json_strs xs) = Some xs"
  by (simp add: json_strs_def wire_list wire_scalars)

lemma wire_opt_list:
  "(\<And>x. f (g x) = Some x) \<Longrightarrow> json_opt (json_list f) (case o1 of None \<Rightarrow> JNull | Some xs \<Rightarrow> JList (map g xs)) = Some o1"
  by (cases o1) (simp_all add: json_opt_def wire_list)

lemma wire_opt_strs [wire]: "json_opt (json_list json_str) (case o1 of None \<Rightarrow> JNull | Some xs \<Rightarrow> json_strs xs) = Some o1"
  by (cases o1) (simp_all add: json_opt_def json_strs_def wire_list wire_scalars)

lemma read_candidate_json [wire]: "read_candidate (candidate_json c) = Some c"
  by (simp add: read_candidate_def candidate_json_def field_def dict_get_default_def wire)

lemma read_relay_candidate_json [wire]: "read_relay_candidate (relay_candidate_json c) = Some c"
  by (simp add: read_relay_candidate_def relay_candidate_json_def field_def dict_get_default_def wire)

lemma read_peer_json [wire]: "read_peer (peer_json p) = Some p"
  by (simp add: read_peer_def peer_json_def field_def dict_get_default_def wire wire_list wire_opt_list)

lemma read_interface_json [wire]: "read_interface (interface_json i) = Some i"
  by (simp add: read_interface_def interface_json_def field_def dict_get_default_def wire)

lemma read_config_v2: "read_pull (config_v2_dict c) = pull_of c"
  by (cases "cv_exit_node c")
    (simp_all add: read_pull_def config_v2_dict_def pull_of_def field_def str_field_def dict_get_default_def dict_get_def
      wire wire_list json_opt_str_def)

section \<open>Requests\<close>

definition api_path :: "string list \<Rightarrow> string list" where
  "api_path segs = ''api'' # ''v1'' # segs"

definition enroll_rq :: "string \<Rightarrow> string \<Rightarrow> string \<Rightarrow> http_request" where
  "enroll_rq key name pk = post_request (api_path [''devices'', ''enroll'']) None
     [(''preauth_key'', JStr key), (''name'', JStr name), (''public_key'', JStr pk)]"

definition register_rq :: "string \<Rightarrow> string \<Rightarrow> http_request" where
  "register_rq key name = post_request (api_path [''devices'', ''register'']) None [(''key'', JStr key), (''name'', JStr name)]"

definition config_rq :: "string \<Rightarrow> http_request" where
  "config_rq did = get_request (api_path [''devices'', did, ''config'']) None"

definition config_v2_rq :: "string \<Rightarrow> string option \<Rightarrow> http_request" where
  "config_v2_rq did auth = get_request (api_path [''devices'', did, ''config-v2'']) auth"

definition heartbeat_rq :: "string \<Rightarrow> string option \<Rightarrow> string option \<Rightarrow> string option \<Rightarrow> http_request" where
  "heartbeat_rq did auth pk ip = post_request (api_path [''devices'', did, ''heartbeat'']) auth
     [(''public_key'', json_opt_str pk), (''ip_address'', json_opt_str ip)]"

definition endpoint_rq :: "string \<Rightarrow> string option \<Rightarrow> string \<Rightarrow> string \<Rightarrow> int \<Rightarrow> string option \<Rightarrow> string option \<Rightarrow> http_request" where
  "endpoint_rq did auth ep source port local_ip public_ip = post_request (api_path [''devices'', did, ''endpoint'']) auth
     (add_some ''public_ip'' (map_option JStr public_ip) (add_some ''local_ip'' (map_option JStr local_ip)
       [(''endpoint'', JStr ep), (''source'', JStr source), (''port'', JInt port)]))"

text \<open>The latency of a probe is a number rounded to one decimal.\<close>

definition probe_rq :: "string \<Rightarrow> string option \<Rightarrow> string \<Rightarrow> string \<Rightarrow> bool \<Rightarrow> json \<Rightarrow> json option \<Rightarrow> string option \<Rightarrow> string option
    \<Rightarrow> http_request" where
  "probe_rq did auth peer ep reachable port latency local_ip public_ip =
     post_request (api_path [''devices'', did, ''probe-result'']) auth
       (add_some ''public_ip'' (map_option JStr public_ip) (add_some ''local_ip'' (map_option JStr local_ip)
         (add_some ''latency_ms'' latency
           [(''peer_device_id'', JStr peer), (''endpoint'', JStr ep), (''reachable'', JBool reachable), (''port'', port),
            (''source'', JStr ''probe'')])))"

definition advertise_rq :: "string \<Rightarrow> string option \<Rightarrow> string \<Rightarrow> http_request" where
  "advertise_rq did auth prefix = post_request (api_path [''routes'', ''devices'', did, ''advertise'']) auth
     [(''prefix'', JStr prefix), (''is_exit_node'', JBool False)]"

definition nat_punch_rq :: "string option \<Rightarrow> string \<Rightarrow> string \<Rightarrow> int \<Rightarrow> string option \<Rightarrow> string option \<Rightarrow> http_request" where
  "nat_punch_rq auth target ep port local_ip public_ip = post_request (api_path [''nat'', ''punch'']) auth
     (add_truthy ''initiator_public_ip'' (json_opt_str public_ip) (add_truthy ''initiator_local_ip'' (json_opt_str local_ip)
       [(''target_device_id'', JStr target), (''initiator_endpoint'', JStr ep), (''initiator_port'', JInt port)]))"

definition punch_result_rq :: "string \<Rightarrow> string option \<Rightarrow> bool \<Rightarrow> string option \<Rightarrow> int option \<Rightarrow> int option \<Rightarrow> string option
    \<Rightarrow> http_request" where
  "punch_result_rq sid auth success ep port latency err = post_request (api_path [''nat'', sid, ''result'']) auth
     (add_truthy ''error'' (json_opt_str err) (add_some ''latency_ms'' (map_option JInt latency)
       (add_truthy ''selected_port'' (json_opt_int port) (add_truthy ''selected_endpoint'' (json_opt_str ep)
         [(''session_id'', JStr sid), (''success'', JBool success)]))))"

definition validate_rq :: "string \<Rightarrow> string option \<Rightarrow> string \<Rightarrow> int \<Rightarrow> bool \<Rightarrow> int option \<Rightarrow> http_request" where
  "validate_rq sid auth ep port reachable latency = post_request (api_path [''nat'', sid, ''validate'']) auth
     (add_some ''latency_ms'' (map_option JInt latency)
       [(''session_id'', JStr sid), (''target_endpoint'', JStr ep), (''target_port'', JInt port), (''reachable'', JBool reachable)])"

definition relay_session_rq :: "string option \<Rightarrow> string \<Rightarrow> string \<Rightarrow> http_request" where
  "relay_session_rq auth target region = post_request (api_path [''relay'', ''sessions'']) auth
     [(''target_device_id'', JStr target), (''relay_region'', JStr region)]"

definition relay_connect_rq :: "string option \<Rightarrow> string \<Rightarrow> http_request" where
  "relay_connect_rq auth sid = post_request (api_path [''relay'', ''connect'']) auth [(''session_id'', JStr sid)]"

definition relay_stats_rq :: "string option \<Rightarrow> string \<Rightarrow> int \<Rightarrow> int \<Rightarrow> http_request" where
  "relay_stats_rq auth sid tx rx = post_request (api_path [''relay'', sid, ''stats'']) auth
     [(''session_id'', JStr sid), (''bytes_tx'', JInt tx), (''bytes_rx'', JInt rx)]"

definition health_rq :: http_request where
  "health_rq = get_request [''health''] None"

section \<open>Methods\<close>

definition api_enroll :: "(json \<Rightarrow> string) \<Rightarrow> 'w server \<Rightarrow> string \<Rightarrow> string \<Rightarrow> string \<Rightarrow> api_client \<times> 'w
    \<Rightarrow> (api_client \<times> 'w) \<times> enroll_result result" where
  "api_enroll py_str server key name pk cw =
     (case cw of (c, w) \<Rightarrow>
        (case exchange py_str server {201} (enroll_rq key name pk)
               (\<lambda>body. bind_result (body_dict body) (\<lambda>d.
                  Inr \<lparr>er_success = True, er_device_id = str_field d ''device_id'', er_device_token = str_field d ''device_token'',
                       er_network_id = str_field d ''network_id'', er_ip_address = str_field d ''ip_address'',
                       er_config_v2 = (case dict_get d ''config_v2'' of Some (JObj o1) \<Rightarrow> Some o1 | _ \<Rightarrow> None),
                       er_error = None\<rparr>)) enroll_failed w of
           (w', Inr r) \<Rightarrow> ((if er_success r then set_device_auth (er_device_id r) (er_device_token r) c else c, w'), Inr r)
         | (w', Inl e) \<Rightarrow> ((c, w'), Inl e)))"

definition api_pull_config_v2 :: "(json \<Rightarrow> string) \<Rightarrow> 'w server \<Rightarrow> api_client \<Rightarrow> 'w \<Rightarrow> 'w \<times> config_v2_pull result" where
  "api_pull_config_v2 py_str server c w =
     (if \<not> truthy_str (ac_device_id c) \<or> \<not> truthy_str (ac_device_token c) then (w, Inr (pull_failed ''not enrolled''))
      else exchange py_str server {200} (config_v2_rq (the (ac_device_id c)) (auth_headers c))
             (\<lambda>body. bind_result (body_dict body) (\<lambda>d. Inr (read_pull d))) pull_failed w)"

definition api_register :: "(json \<Rightarrow> string) \<Rightarrow> 'w server \<Rightarrow> string \<Rightarrow> string \<Rightarrow> 'w \<Rightarrow> 'w \<times> registration_result result" where
  "api_register py_str server key name w =
     exchange py_str server {201} (register_rq key name)
       (\<lambda>body. bind_result (body_dict body) (\<lambda>d.
          Inr \<lparr>rr_success = True, rr_device_id = str_field d ''id'', rr_error = None\<rparr>))
       (\<lambda>e. \<lparr>rr_success = False, rr_device_id = None, rr_error = Some e\<rparr>) w"

definition config_failed :: "string \<Rightarrow> config_pull" where
  "config_failed e = \<lparr>cp_success = False, cp_config_ini = None, cp_filename = None, cp_error = Some e\<rparr>"

definition api_pull_config :: "(json \<Rightarrow> string) \<Rightarrow> 'w server \<Rightarrow> api_client \<Rightarrow> 'w \<Rightarrow> 'w \<times> config_pull result" where
  "api_pull_config py_str server c w =
     (if \<not> truthy_str (ac_device_id c) then (w, Inr (config_failed ''not registered''))
      else exchange py_str server {200} (config_rq (the (ac_device_id c)))
             (\<lambda>body. bind_result (body_dict body) (\<lambda>d.
               Inr \<lparr>cp_success = True, cp_config_ini = str_field d ''config'', cp_filename = str_field d ''filename'', cp_error = None\<rparr>))
            config_failed w)"

text \<open>A method that needs the device id and whose reply is only looked at for its status.\<close>

definition api_report :: "(json \<Rightarrow> string) \<Rightarrow> 'w server \<Rightarrow> string \<Rightarrow> int set \<Rightarrow> (string \<Rightarrow> http_request) \<Rightarrow> api_client \<Rightarrow> 'w
    \<Rightarrow> 'w \<times> api_result result" where
  "api_report py_str server missing ok rq c w =
     (if \<not> truthy_str (ac_device_id c) then (w, Inr (api_failed missing))
      else exchange py_str server ok (rq (the (ac_device_id c))) (\<lambda>_. Inr api_ok) api_failed w)"

definition api_send_heartbeat :: "(json \<Rightarrow> string) \<Rightarrow> 'w server \<Rightarrow> string option \<Rightarrow> string option \<Rightarrow> api_client \<Rightarrow> 'w
    \<Rightarrow> 'w \<times> api_result result" where
  "api_send_heartbeat py_str server pk ip c =
     api_report py_str server ''not registered'' {200} (\<lambda>did. heartbeat_rq did (auth_headers c) pk ip) c"

definition api_report_endpoint :: "(json \<Rightarrow> string) \<Rightarrow> 'w server \<Rightarrow> string \<Rightarrow> string \<Rightarrow> int \<Rightarrow> string option \<Rightarrow> string option
    \<Rightarrow> api_client \<Rightarrow> 'w \<Rightarrow> 'w \<times> api_result result" where
  "api_report_endpoint py_str server ep source port local_ip public_ip c =
     api_report py_str server ''not registered'' {200} (\<lambda>did. endpoint_rq did (auth_headers c) ep source port local_ip public_ip) c"

definition api_report_probe_result :: "(json \<Rightarrow> string) \<Rightarrow> 'w server \<Rightarrow> string \<Rightarrow> string \<Rightarrow> bool \<Rightarrow> json \<Rightarrow> json option
    \<Rightarrow> api_client \<Rightarrow> 'w \<Rightarrow> 'w \<times> api_result result" where
  "api_report_probe_result py_str server peer ep reachable port latency c =
     api_report py_str server ''not enrolled'' {200}
       (\<lambda>did. probe_rq did (auth_headers c) peer ep reachable port latency None None) c"

definition api_advertise_route :: "(json \<Rightarrow> string) \<Rightarrow> 'w server \<Rightarrow> string \<Rightarrow> api_client \<Rightarrow> 'w \<Rightarrow> 'w \<times> api_result result" where
  "api_advertise_route py_str server prefix c =
     api_report py_str server ''not registered'' {200, 201} (\<lambda>did. advertise_rq did (auth_headers c) prefix) c"

text \<open>Methods that answer with the body of the reply, or with whether the status was right.\<close>

definition api_status :: "'w server \<Rightarrow> int \<Rightarrow> http_request \<Rightarrow> 'w \<Rightarrow> 'w \<times> bool" where
  "api_status server ok rq w =
     (case server rq w of (w', Request_error e) \<Rightarrow> (w', False) | (w', Reply status body text) \<Rightarrow> (w', status = ok))"

definition api_body :: "'w server \<Rightarrow> int \<Rightarrow> http_request \<Rightarrow> 'w \<Rightarrow> 'w \<times> json option result" where
  "api_body server ok rq w =
     (case server rq w of
        (w', Request_error e) \<Rightarrow> (w', Inr None)
      | (w', Reply status body text) \<Rightarrow>
          (w', if status = ok then (case body of None \<Rightarrow> Inl (ValueError ''JSONDecodeError'') | Some j \<Rightarrow> Inr (Some j)) else Inr None))"

definition api_request_nat_punch :: "'w server \<Rightarrow> string \<Rightarrow> string \<Rightarrow> int \<Rightarrow> string option \<Rightarrow> string option \<Rightarrow> api_client \<Rightarrow> 'w
    \<Rightarrow> 'w \<times> json option result" where
  "api_request_nat_punch server target ep port local_ip public_ip c w =
     (if \<not> truthy_str (ac_device_id c) then (w, Inr None)
      else api_body server 201 (nat_punch_rq (auth_headers c) target ep port local_ip public_ip) w)"

definition api_report_nat_punch_result :: "'w server \<Rightarrow> string \<Rightarrow> bool \<Rightarrow> string option \<Rightarrow> int option \<Rightarrow> int option \<Rightarrow> string option
    \<Rightarrow> api_client \<Rightarrow> 'w \<Rightarrow> 'w \<times> bool" where
  "api_report_nat_punch_result server sid success ep port latency err c w =
     (if \<not> truthy_str (ac_device_id c) then (w, False)
      else api_status server 200 (punch_result_rq sid (auth_headers c) success ep port latency err) w)"

definition api_report_nat_connectivity_validation :: "'w server \<Rightarrow> string \<Rightarrow> string \<Rightarrow> int \<Rightarrow> bool \<Rightarrow> int option \<Rightarrow> api_client \<Rightarrow> 'w
    \<Rightarrow> 'w \<times> json option result" where
  "api_report_nat_connectivity_validation server sid ep port reachable latency c w =
     (if \<not> truthy_str (ac_device_id c) then (w, Inr None)
      else api_body server 200 (validate_rq sid (auth_headers c) ep port reachable latency) w)"

definition read_relay_session :: "string \<Rightarrow> json option \<Rightarrow> relay_session_result result" where
  "read_relay_session id_key body =
     bind_result (body_dict body) (\<lambda>d.
       Inr \<lparr>rsr_success = True, rsr_session_id = str_field d id_key, rsr_relay_token = str_field d ''relay_token'',
            rsr_relay_region = str_field d ''relay_region'', rsr_relay_node = str_field d ''relay_node'', rsr_error = None\<rparr>)"

definition api_request_relay_session :: "(json \<Rightarrow> string) \<Rightarrow> 'w server \<Rightarrow> string \<Rightarrow> string \<Rightarrow> api_client \<Rightarrow> 'w
    \<Rightarrow> 'w \<times> relay_session_result result" where
  "api_request_relay_session py_str server target region c w =
     (if \<not> truthy_str (ac_device_id c) then (w, Inr (relay_failed ''not enrolled''))
      else exchange py_str server {201} (relay_session_rq (auth_headers c) target region) (read_relay_session ''id'') relay_failed w)"

definition api_connect_relay_session :: "(json \<Rightarrow> string) \<Rightarrow> 'w server \<Rightarrow> string \<Rightarrow> api_client \<Rightarrow> 'w
    \<Rightarrow> 'w \<times> relay_session_result result" where
  "api_connect_relay_session py_str server sid c w =
     (if \<not> truthy_str (ac_device_id c) then (w, Inr (relay_failed ''not enrolled''))
      else exchange py_str server {200} (relay_connect_rq (auth_headers c) sid) (read_relay_session ''session_id'') relay_failed w)"

definition api_request_relay_session_update :: "'w server \<Rightarrow> string \<Rightarrow> int \<Rightarrow> int \<Rightarrow> api_client \<Rightarrow> 'w \<Rightarrow> 'w \<times> bool" where
  "api_request_relay_session_update server sid tx rx c w =
     (if \<not> truthy_str (ac_device_id c) then (w, False)
      else api_status server 200 (relay_stats_rq (auth_headers c) sid tx rx) w)"

definition api_health_check :: "'w server \<Rightarrow> 'w \<Rightarrow> 'w \<times> bool" where
  "api_health_check server w = api_status server 200 health_rq w"

end
