(* ===== verification/Api_Contract.thy ===== *)
theory Api_Contract
  imports Api_Client
begin

text \<open>
  What the backend's routers accept (\<open>api/v1/*.py\<close>, \<open>schemas/*.py\<close>, the end of \<open>main.py\<close>), against what
  the daemon's client sends. A path pattern matches segment by segment, a parameter any segment that
  is not empty, and the first route of the right method wins. Validation of a field is the parameter
  \<open>valid\<close>; what pydantic documents of it is the predicate \<open>documented\<close>.
\<close>

section \<open>Routes\<close>

datatype segment = Lit string | Any

type_synonym api_route = "string \<times> segment list \<times> string"

definition auth_router :: "api_route list" where
  "auth_router =
     [(''POST'', [Lit ''auth'', Lit ''register''], ''auth.register''),
      (''POST'', [Lit ''auth'', Lit ''login''], ''auth.login''),
      (''POST'', [Lit ''auth'', Lit ''refresh''], ''auth.refresh''),
      (''GET'', [Lit ''auth'', Lit ''me''], ''auth.me'')]"

definition networks_router :: "api_route list" where
  "networks_router =
     [(''GET'', [Lit ''networks''], ''networks.list_networks''),
      (''POST'', [Lit ''networks''], ''networks.create_network''),
      (''GET'', [Lit ''networks'', Any], ''networks.get_network''),
      (''PUT'', [Lit ''networks'', Any], ''networks.update_network''),
      (''DELETE'', [Lit ''networks'', Any], ''networks.delete_network''),
      (''GET'', [Lit ''networks'', Any, Lit ''devices''], ''networks.list_devices''),
      (''POST'', [Lit ''networks'', Any, Lit ''devices''], ''networks.create_device''),
      (''POST'', [Lit ''networks'', Any, Lit ''node-devices''], ''networks.create_node_device''),
      (''GET'', [Lit ''networks'', Any, Lit ''preauth-keys''], ''networks.list_preauth_keys''),
      (''POST'', [Lit ''networks'', Any, Lit ''preauth-keys''], ''networks.create_preauth_key''),
      (''DELETE'', [Lit ''networks'', Any, Lit ''preauth-keys'', Any], ''networks.delete_preauth_key'')]"

definition devices_router :: "api_route list" where
  "devices_router =
     [(''GET'', [Lit ''devices''], ''devices.list_all_devices''),
      (''GET'', [Lit ''devices'', Any], ''devices.get_device''),
      (''PUT'', [Lit ''devices'', Any], ''devices.update_device''),
      (''POST'', [Lit ''devices'', Any, Lit ''heartbeat''], ''devices.device_heartbeat''),
      (''POST'', [Lit ''devices'', Any, Lit ''endpoint''], ''devices.device_report_endpoint''),
      (''POST'', [Lit ''devices'', Any, Lit ''probe-result''], ''devices.device_probe_result''),
      (''POST'', [Lit ''devices'', Any, Lit ''enroll''], ''devices.enroll_device''),
      (''GET'', [Lit ''devices'', Any, Lit ''config''], ''devices.get_device_config_endpoint''),
      (''POST'', [Lit ''devices'', Any, Lit ''rotate-token''], ''devices.rotate_device_token''),
      (''POST'', [Lit ''devices'', Any, Lit ''revoke''], ''devices.revoke_device''),
      (''GET'', [Lit ''devices'', Any, Lit ''config-v2''], ''devices.get_device_config_v2''),
      (''POST'', [Lit ''devices'', Lit ''enroll''], ''devices.enroll_by_key''),
      (''POST'', [Lit ''devices'', Lit ''register''], ''devices.register_device'')]"

definition acls_router :: "api_route list" where
  "acls_router =
     [(''GET'', [Lit ''networks'', Any, Lit ''acls''], ''acls.list_acls''),
      (''POST'', [Lit ''networks'', Any, Lit ''acls''], ''acls.create_acl''),
      (''PUT'', [Lit ''networks'', Any, Lit ''acls'', Any], ''acls.update_acl''),
      (''DELETE'', [Lit ''networks'', Any, Lit ''acls'', Any], ''acls.delete_acl'')]"

definition dns_router :: "api_route list" where
  "dns_router =
     [(''GET'', [Lit ''networks'', Any, Lit ''dns''], ''dns.list_dns''),
      (''POST'', [Lit ''networks'', Any, Lit ''dns''], ''dns.create_dns''),
      (''DELETE'', [Lit ''networks'', Any, Lit ''dns'', Any], ''dns.delete_dns'')]"

definition routes_router :: "api_route list" where
  "routes_router =
     [(''GET'', [Lit ''routes'', Lit ''networks'', Any], ''routes.list_routes''),
      (''GET'', [Lit ''routes'', Lit ''devices'', Any], ''routes.list_device_routes''),
      (''POST'', [Lit ''routes'', Lit ''networks'', Any, Lit ''advertise''], ''routes.advertise_route''),
      (''POST'', [Lit ''routes'', Any, Lit ''approve''], ''routes.approve_route''),
      (''PUT'', [Lit ''routes'', Any], ''routes.update_route''),
      (''DELETE'', [Lit ''routes'', Any], ''routes.delete_route''),
      (''POST'', [Lit ''routes'', Lit ''devices'', Any, Lit ''exit-node''], ''routes.select_exit_node''),
      (''POST'', [Lit ''routes'', Lit ''devices'', Any, Lit ''advertise''], ''routes.device_advertise_route'')]"

definition audit_router :: "api_route list" where
  "audit_router =
     [(''GET'', [Lit ''audit''], ''audit.list_audit_logs''),
      (''GET'', [Lit ''audit'', Lit ''actions''], ''audit.list_audit_actions'')]"

definition nat_router :: "api_route list" where
  "nat_router =
     [(''POST'', [Lit ''nat'', Lit ''punch''], ''nat.request_punch''),
      (''POST'', [Lit ''nat'', Any, Lit ''result''], ''nat.report_punch_result''),
      (''POST'', [Lit ''nat'', Any, Lit ''validate''], ''nat.report_connectivity_validation''),
      (''GET'', [Lit ''nat'', Any], ''nat.get_session'')]"

definition relay_router :: "api_route list" where
  "relay_router =
     [(''GET'', [Lit ''relay'', Lit ''candidates''], ''relay.get_relay_candidates''),
      (''POST'', [Lit ''relay'', Lit ''sessions''], ''relay.request_relay_session''),
      (''POST'', [Lit ''relay'', Lit ''connect''], ''relay.connect_relay_session''),
      (''GET'', [Lit ''relay'', Lit ''sessions'', Any], ''relay.get_relay_session''),
      (''POST'', [Lit ''relay'', Any, Lit ''heartbeat''], ''relay.heartbeat_relay_session''),
      (''POST'', [Lit ''relay'', Any, Lit ''stats''], ''relay.update_relay_stats_endpoint'')]"

definition health_router :: "api_route list" where
  "health_router =
     [(''GET'', [Lit ''health'', Lit ''live''], ''health.health_live''),
      (''GET'', [Lit ''health'', Lit ''ready''], ''health.health_ready''),
      (''GET'', [Lit ''health'', Lit ''startup''], ''health.health_startup'')]"

text \<open>\<open>app.include_router\<close> in order, with the prefix, then the routes of the application itself.\<close>

definition under_api :: "api_route list \<Rightarrow> api_route list" where
  "under_api rs = map (\<lambda>(m, p, h). (m, Lit ''api'' # Lit ''v1'' # p, h)) rs"

definition app_routes :: "api_route list" where
  "app_routes =
     under_api (auth_router @ networks_router @ devices_router @ acls_router @ dns_router @ routes_router @
       audit_router @ nat_router @ relay_router) @ health_router @
     [(''GET'', [Lit ''health''], ''main.health''), (''GET'', [Lit ''metrics''], ''main.metrics'')]"

fun path_matches :: "segment list \<Rightarrow> string list \<Rightarrow> bool" where
  "path_matches [] [] \<longleftrightarrow> True"
| "path_matches (Lit s # ps) (x # xs) \<longleftrightarrow> s = x \<and> path_matches ps xs"
| "path_matches (Any # ps) (x # xs) \<longleftrightarrow> x \<noteq> [] \<and> path_matches ps xs"
| "path_matches _ _ \<longleftrightarrow> False"

definition route_of :: "http_request \<Rightarrow> api_route option" where
  "route_of rq = find (\<lambda>(m, p, h). m = rq_method rq \<and> path_matches p (rq_path rq)) app_routes"

definition handler_of :: "http_request \<Rightarrow> string option" where
  "handler_of rq = map_option (\<lambda>(m, p, h). h) (route_of rq)"

section \<open>Bodies\<close>

text \<open>
  The types of fields: text, text with a least and a greatest length, the pattern of a route prefix,
  a UUID, an integer, a truth value, an optional one, and a list of text.
\<close>

datatype field_type = F_uuid | F_str | F_text nat "nat option" | F_prefix | F_int | F_bool | F_opt field_type | F_strs

text \<open>A schema lists its fields with their type and whether they are required.\<close>

type_synonym body_schema = "(string \<times> field_type \<times> bool) list"

definition EnrollByKeyRequest :: body_schema where
  "EnrollByKeyRequest =
     [(''preauth_key'', F_text 1 None, True), (''name'', F_text 1 (Some 255), True), (''public_key'', F_text 1 None, True),
      (''machine_info'', F_opt F_str, False), (''hostname'', F_opt F_str, False), (''advertised_routes'', F_strs, False)]"

definition DeviceRegisterRequest :: body_schema where
  "DeviceRegisterRequest = [(''key'', F_str, True), (''name'', F_text 1 (Some 255), True)]"

definition HeartbeatRequest :: body_schema where
  "HeartbeatRequest = [(''public_key'', F_opt F_str, False), (''ip_address'', F_opt F_str, False)]"

definition EndpointReport :: body_schema where
  "EndpointReport =
     [(''endpoint'', F_str, True), (''source'', F_str, False), (''port'', F_int, False), (''local_ip'', F_opt F_str, False),
      (''public_ip'', F_opt F_str, False)]"

definition ProbeResultRequest :: body_schema where
  "ProbeResultRequest =
     [(''peer_device_id'', F_str, True), (''endpoint'', F_str, True), (''source'', F_str, False), (''port'', F_int, False),
      (''reachable'', F_bool, False), (''latency_ms'', F_opt F_int, False), (''local_ip'', F_opt F_str, False),
      (''public_ip'', F_opt F_str, False)]"

definition RouteAdvertiseRequest :: body_schema where
  "RouteAdvertiseRequest = [(''prefix'', F_prefix, True), (''is_exit_node'', F_bool, False)]"

definition PunchRequest :: body_schema where
  "PunchRequest =
     [(''target_device_id'', F_str, True), (''initiator_endpoint'', F_str, True), (''initiator_port'', F_int, False),
      (''initiator_local_ip'', F_opt F_str, False), (''initiator_public_ip'', F_opt F_str, False)]"

definition PunchResult :: body_schema where
  "PunchResult =
     [(''session_id'', F_str, True), (''success'', F_bool, True), (''selected_endpoint'', F_opt F_str, False),
      (''selected_port'', F_opt F_int, False), (''latency_ms'', F_opt F_int, False), (''error'', F_opt F_str, False)]"

definition ConnectivityValidationRequest :: body_schema where
  "ConnectivityValidationRequest =
     [(''session_id'', F_str, True), (''target_endpoint'', F_str, True), (''target_port'', F_int, False),
      (''reachable'', F_bool, True), (''latency_ms'', F_opt F_int, False)]"

definition RelaySessionRequest :: body_schema where
  "RelaySessionRequest = [(''target_device_id'', F_str, True), (''relay_region'', F_str, False)]"

definition RelayConnectRequest :: body_schema where
  "RelayConnectRequest = [(''session_id'', F_str, True)]"

definition RelayStatsUpdate :: body_schema where
  "RelayStatsUpdate = [(''session_id'', F_str, True), (''bytes_tx'', F_int, False), (''bytes_rx'', F_int, False)]"

definition field_accepted :: "(field_type \<Rightarrow> json \<Rightarrow> bool) \<Rightarrow> dict \<Rightarrow> string \<times> field_type \<times> bool \<Rightarrow> bool" where
  "field_accepted valid d f = (case f of (k, ty, required) \<Rightarrow>
     (case dict_get d k of None \<Rightarrow> \<not> required | Some j \<Rightarrow> valid ty j))"

definition accepted :: "(field_type \<Rightarrow> json \<Rightarrow> bool) \<Rightarrow> body_schema \<Rightarrow> http_request \<Rightarrow> bool" where
  "accepted valid schema rq = (case rq_body rq of Some (JObj d) \<Rightarrow> list_all (field_accepted valid d) schema | _ \<Rightarrow> False)"

text \<open>
  The handlers of NAT traversal and relaying declare their path parameters as text, all others that
  have any declare them as UUIDs.
\<close>

definition text_parameters :: "string \<Rightarrow> bool" where
  "text_parameters h \<longleftrightarrow> takeWhile (\<lambda>c. c \<noteq> CHR ''.'') h \<in> {''nat'', ''relay''}"

definition path_parameters :: "segment list \<Rightarrow> string list \<Rightarrow> string list" where
  "path_parameters ps xs = map snd (filter (\<lambda>(p, x). p = Any) (zip ps xs))"

definition parameters_accepted :: "(field_type \<Rightarrow> json \<Rightarrow> bool) \<Rightarrow> http_request \<Rightarrow> bool" where
  "parameters_accepted valid rq =
     (case route_of rq of
        None \<Rightarrow> False
      | Some (m, p, h) \<Rightarrow> text_parameters h \<or> list_all (\<lambda>x. valid F_uuid (JStr x)) (path_parameters p (rq_path rq)))"

text \<open>The request gets to the handler with parameters it accepts.\<close>

definition reaches :: "(field_type \<Rightarrow> json \<Rightarrow> bool) \<Rightarrow> http_request \<Rightarrow> string \<Rightarrow> bool" where
  "reaches valid rq h \<longleftrightarrow> handler_of rq = Some h \<and> parameters_accepted valid rq"

text \<open>A number with a fraction that is not zero, as a literal.\<close>

definition fractional :: "string \<Rightarrow> bool" where
  "fractional x \<longleftrightarrow> list_ex (\<lambda>c. c \<noteq> CHR ''0'') (drop 1 (dropWhile (\<lambda>c. c \<noteq> CHR ''.'') x))"

definition documented :: "(field_type \<Rightarrow> json \<Rightarrow> bool) \<Rightarrow> bool" where
  "documented valid \<longleftrightarrow>
     (\<forall>s. valid F_str (JStr s)) \<and> (\<forall>s lo. lo \<le> length s \<longrightarrow> valid (F_text lo None) (JStr s)) \<and>
     (\<forall>s lo hi. lo \<le> length s \<and> length s \<le> hi \<longrightarrow> valid (F_text lo (Some hi)) (JStr s)) \<and>
     (\<forall>i. valid F_int (JInt i)) \<and> (\<forall>b. valid F_bool (JBool b)) \<and>
     (\<forall>ty. valid (F_opt ty) JNull) \<and> (\<forall>ty j. valid ty j \<longrightarrow> valid (F_opt ty) j) \<and>
     (\<forall>x. fractional x \<longrightarrow> \<not> valid (F_opt F_int) (JFloat x))"

section \<open>Properties\<close>

lemmas router_defs = auth_router_def networks_router_def devices_router_def acls_router_def dns_router_def routes_router_def
  audit_router_def nat_router_def relay_router_def health_router_def app_routes_def under_api_def

lemmas request_defs = post_request_def get_request_def api_path_def enroll_rq_def register_rq_def config_rq_def config_v2_rq_def
  heartbeat_rq_def endpoint_rq_def probe_rq_def advertise_rq_def nat_punch_rq_def punch_result_rq_def validate_rq_def
  relay_session_rq_def relay_connect_rq_def relay_stats_rq_def health_rq_def

lemmas schema_field_defs = EnrollByKeyRequest_def DeviceRegisterRequest_def HeartbeatRequest_def EndpointReport_def
  ProbeResultRequest_def RouteAdvertiseRequest_def PunchRequest_def PunchResult_def ConnectivityValidationRequest_def
  RelaySessionRequest_def RelayConnectRequest_def RelayStatsUpdate_def

definition api :: "string \<Rightarrow> segment list \<Rightarrow> string \<Rightarrow> api_route" where
  "api m p h = (m, Lit ''api'' # Lit ''v1'' # p, h)"

lemma device_routes:
  assumes "did \<noteq> []"
  shows "route_of (config_rq did) = Some (api ''GET'' [Lit ''devices'', Any, Lit ''config''] ''devices.get_device_config_endpoint'')"
    "route_of (config_v2_rq did auth) = Some (api ''GET'' [Lit ''devices'', Any, Lit ''config-v2''] ''devices.get_device_config_v2'')"
    "route_of (heartbeat_rq did auth pk ip) = Some (api ''POST'' [Lit ''devices'', Any, Lit ''heartbeat''] ''devices.device_heartbeat'')"
    "route_of (endpoint_rq did auth ep source port lip pip) =
       Some (api ''POST'' [Lit ''devices'', Any, Lit ''endpoint''] ''devices.device_report_endpoint'')"
    "route_of (probe_rq did auth peer ep reachable jport latency lip pip) =
       Some (api ''POST'' [Lit ''devices'', Any, Lit ''probe-result''] ''devices.device_probe_result'')"
    "route_of (advertise_rq did auth prefix) =
       Some (api ''POST'' [Lit ''routes'', Lit ''devices'', Any, Lit ''advertise''] ''routes.device_advertise_route'')"
  using assms by (simp_all add: route_of_def router_defs request_defs api_def)

lemma session_routes:
  assumes "sid \<noteq> []"
  shows "route_of (punch_result_rq sid auth ok ep oport olat err) =
      Some (api ''POST'' [Lit ''nat'', Any, Lit ''result''] ''nat.report_punch_result'')"
    "route_of (validate_rq sid auth vep port reachable olat) =
      Some (api ''POST'' [Lit ''nat'', Any, Lit ''validate''] ''nat.report_connectivity_validation'')"
    "route_of (relay_stats_rq auth sid tx rx) =
      Some (api ''POST'' [Lit ''relay'', Any, Lit ''stats''] ''relay.update_relay_stats_endpoint'')"
  using assms by (simp_all add: route_of_def router_defs request_defs api_def)

lemma plain_routes:
  "route_of (enroll_rq key name pk) = Some (api ''POST'' [Lit ''devices'', Lit ''enroll''] ''devices.enroll_by_key'')"
  "route_of (register_rq key name) = Some (api ''POST'' [Lit ''devices'', Lit ''register''] ''devices.register_device'')"
  "route_of (nat_punch_rq auth target ep port lip pip) = Some (api ''POST'' [Lit ''nat'', Lit ''punch''] ''nat.request_punch'')"
  "route_of (relay_session_rq auth target region) =
     Some (api ''POST'' [Lit ''relay'', Lit ''sessions''] ''relay.request_relay_session'')"
  "route_of (relay_connect_rq auth sid) = Some (api ''POST'' [Lit ''relay'', Lit ''connect''] ''relay.connect_relay_session'')"
  "route_of health_rq = Some (''GET'', [Lit ''health''], ''main.health'')"
  by (simp_all add: route_of_def router_defs request_defs api_def)

lemma device_requests_resolve:
  assumes "did \<noteq> []"
  shows "handler_of (config_rq did) = Some ''devices.get_device_config_endpoint''"
    "handler_of (config_v2_rq did auth) = Some ''devices.get_device_config_v2''"
    "handler_of (heartbeat_rq did auth pk ip) = Some ''devices.device_heartbeat''"
    "handler_of (endpoint_rq did auth ep source port lip pip) = Some ''devices.device_report_endpoint''"
    "handler_of (probe_rq did auth peer ep reachable jport latency lip pip) = Some ''devices.device_probe_result''"
    "handler_of (advertise_rq did auth prefix) = Some ''routes.device_advertise_route''"
  by (simp_all add: handler_of_def device_routes [OF assms] api_def)

lemma session_requests_resolve:
  assumes "sid \<noteq> []"
  shows "handler_of (punch_result_rq sid auth ok ep oport olat err) = Some ''nat.report_punch_result''"
    "handler_of (validate_rq sid auth vep port reachable olat) = Some ''nat.report_connectivity_validation''"
    "handler_of (relay_stats_rq auth sid tx rx) = Some ''relay.update_relay_stats_endpoint''"
  by (simp_all add: handler_of_def session_routes [OF assms] api_def)

lemma plain_requests_resolve:
  "handler_of (enroll_rq key name pk) = Some ''devices.enroll_by_key''"
  "handler_of (register_rq key name) = Some ''devices.register_device''"
  "handler_of (nat_punch_rq auth target ep port lip pip) = Some ''nat.request_punch''"
  "handler_of (relay_session_rq auth target region) = Some ''relay.request_relay_session''"
  "handler_of (relay_connect_rq auth sid) = Some ''relay.connect_relay_session''"
  "handler_of health_rq = Some ''main.health''"
  by (simp_all add: handler_of_def plain_routes api_def)

text \<open>What is documented of each type of field, as rules.\<close>

lemma documented_rules:
  assumes "documented valid"
  shows "valid F_str (JStr s)" "lo \<le> length s \<Longrightarrow> valid (F_text lo None) (JStr s)"
    "lo \<le> length s \<Longrightarrow> length s \<le> hi \<Longrightarrow> valid (F_text lo (Some hi)) (JStr s)"
    "valid F_int (JInt i)" "valid F_bool (JBool b)" "valid (F_opt ty) JNull" "valid ty j \<Longrightarrow> valid (F_opt ty) j"
    "fractional x \<Longrightarrow> \<not> valid (F_opt F_int) (JFloat x)"
  using assms unfolding documented_def by simp_all

lemma documented_options:
  assumes "documented valid"
  shows "valid (F_opt F_str) (json_opt_str os)" "valid (F_opt F_int) (json_opt_int oi)" "valid (F_opt F_str) (JStr s)"
    "valid (F_opt F_int) (JInt i)"
  using documented_rules [OF assms] by (simp_all add: json_opt_str_def json_opt_int_def split: option.split)

lemma dict_get_add:
  "dict_get (add_some k v d) k' = (if k = k' \<and> v \<noteq> None then v else dict_get d k')"
  "dict_get (add_truthy k j d) k' = (if k = k' \<and> truthy_json j then Some j else dict_get d k')"
  "dict_get ((k, j) # d) k' = (if k = k' then Some j else dict_get d k')" "dict_get [] k' = None"
  by (auto simp: add_some_def add_truthy_def dict_get_def dict_set_def update_conv split: option.split)

lemmas body_rules = accepted_def field_accepted_def schema_field_defs request_defs dict_get_add

lemma bodies_accepted:
  assumes "documented valid"
  shows "name \<noteq> [] \<Longrightarrow> length name \<le> 255 \<Longrightarrow> key \<noteq> [] \<Longrightarrow> pk \<noteq> [] \<Longrightarrow> accepted valid EnrollByKeyRequest (enroll_rq key name pk)"
    "name \<noteq> [] \<Longrightarrow> length name \<le> 255 \<Longrightarrow> accepted valid DeviceRegisterRequest (register_rq key name)"
    "accepted valid HeartbeatRequest (heartbeat_rq did auth opk oip)"
    "accepted valid EndpointReport (endpoint_rq did auth ep source port lip pip)"
    "valid F_prefix (JStr prefix) \<Longrightarrow> accepted valid RouteAdvertiseRequest (advertise_rq did auth prefix)"
    "accepted valid PunchRequest (nat_punch_rq auth target ep port lip pip)"
    "accepted valid PunchResult (punch_result_rq sid auth ok oep oport olat err)"
    "accepted valid ConnectivityValidationRequest (validate_rq sid auth ep port reachable olat)"
    "accepted valid RelaySessionRequest (relay_session_rq auth target region)"
    "accepted valid RelayConnectRequest (relay_connect_rq auth sid)"
    "accepted valid RelayStatsUpdate (relay_stats_rq auth sid tx rx)"
  by (simp_all add: body_rules documented_rules [OF assms] documented_options [OF assms] Suc_le_eq split: option.split)

lemmas parameter_rules = parameters_accepted_def request_defs text_parameters_def path_parameters_def api_def

lemma parameters_ok:
  assumes "valid F_uuid (JStr did)" and "did \<noteq> []"
  shows "parameters_accepted valid (config_rq did)" "parameters_accepted valid (config_v2_rq did auth)"
    "parameters_accepted valid (heartbeat_rq did auth opk oip)"
    "parameters_accepted valid (endpoint_rq did auth ep source port lip pip)"
    "parameters_accepted valid (probe_rq did auth peer ep reachable jport latency lip pip)"
    "parameters_accepted valid (advertise_rq did auth prefix)"
  using assms(1) device_routes [OF assms(2)] by (simp_all add: parameter_rules)

lemma session_parameters_ok:
  assumes "sid \<noteq> []"
  shows "parameters_accepted valid (punch_result_rq sid auth ok ep oport olat err)"
    "parameters_accepted valid (validate_rq sid auth vep port reachable olat)"
    "parameters_accepted valid (relay_stats_rq auth sid tx rx)"
  using session_routes [OF assms] by (simp_all add: parameter_rules)

lemma no_parameters_ok:
  "parameters_accepted valid (enroll_rq key name pk)" "parameters_accepted valid (register_rq key name)"
  "parameters_accepted valid (nat_punch_rq auth target ep port lip pip)"
  "parameters_accepted valid (relay_session_rq auth target region)"
  "parameters_accepted valid (relay_connect_rq auth sid)" "parameters_accepted valid health_rq"
  using plain_routes by (simp_all add: parameter_rules)

lemma probes_accepted:
  assumes "documented valid"
  shows "accepted valid ProbeResultRequest (probe_rq did auth peer ep reachable (JInt port) None lip pip)"
    "accepted valid ProbeResultRequest (probe_rq did auth peer ep reachable (JInt port) (Some (JInt ms)) lip pip)"
    "fractional x \<Longrightarrow> \<not> accepted valid ProbeResultRequest (probe_rq did auth peer ep reachable (JInt port) (Some (JFloat x)) lip pip)"
  by (cases lip; cases pip; simp add: body_rules documented_rules [OF assms] documented_options [OF assms])+


fun demo_valid :: "field_type \<Rightarrow> json \<Rightarrow> bool" where
  "demo_valid F_uuid (JStr s) \<longleftrightarrow> (\<exists>u. parse_uuid s = Inr u)"
| "demo_valid F_str (JStr s) \<longleftrightarrow> True"
| "demo_valid (F_text lo None) (JStr s) \<longleftrightarrow> lo \<le> length s"
| "demo_valid (F_text lo (Some hi)) (JStr s) \<longleftrightarrow> lo \<le> length s \<and> length s \<le> hi"
| "demo_valid F_prefix (JStr s) \<longleftrightarrow> s = ''10.9.0.0/16''"
| "demo_valid F_int (JInt i) \<longleftrightarrow> True"
| "demo_valid F_bool (JBool b) \<longleftrightarrow> True"
| "demo_valid (F_opt ty) JNull \<longleftrightarrow> True"
| "demo_valid (F_opt ty) j \<longleftrightarrow> demo_valid ty j"
| "demo_valid _ _ \<longleftrightarrow> False"

lemma demo_valid_opt: "demo_valid ty j \<Longrightarrow> demo_valid (F_opt ty) j"
  by (cases j) simp_all

lemma demo_documented: "documented demo_valid"
  unfolding documented_def using demo_valid_opt by simp


end
