(* ===== verification/Daemon_Config.thy ===== *)
theory Daemon_Config
  imports Config_Ini
begin

text \<open>
  The daemon's settings: \<open>midscaled/daemon/config.py\<close>. The environment is a map from names to texts.
  A setting that is a float is kept as its text, which \<open>float()\<close> must accept.
\<close>

section \<open>Settings\<close>

record daemon_config =
  dg_server_url :: string
  dg_preauth_key :: string
  dg_device_name :: string
  dg_device_token :: string
  dg_interface_name :: string
  dg_wg_binary :: string
  dg_wg_port :: int
  dg_polling_interval_seconds :: int
  dg_heartbeat_interval_seconds :: int
  dg_endpoint_check_interval_seconds :: int
  dg_ws_enabled :: bool
  dg_ws_reconnect_delay :: string
  dg_advertised_routes :: "string list"
  dg_stun_enabled :: bool
  dg_stun_servers :: "string list"
  dg_stun_timeout :: string
  dg_probe_enabled :: bool
  dg_probe_interval_seconds :: int
  dg_probe_timeout :: string
  dg_hole_punch_enabled :: bool
  dg_hole_punch_timeout :: string
  dg_hole_punch_retries :: int
  dg_relay_enabled :: bool
  dg_relay_host :: string
  dg_relay_port :: int
  dg_relay_region :: string
  dg_relay_reconnect_delay :: string
  dg_state_dir :: string
  dg_config_dir :: string
  dg_log_dir :: string
  dg_tls_verify :: bool
  dg_request_timeout_seconds :: int
  dg_debug :: bool

text \<open>The defaults of the dataclass.\<close>

definition default_daemon_config :: daemon_config where
  "default_daemon_config =
     \<lparr>dg_server_url = ''http://localhost:8000'', dg_preauth_key = [], dg_device_name = [], dg_device_token = [],
      dg_interface_name = ''midscale0'', dg_wg_binary = ''wg'', dg_wg_port = 51820,
      dg_polling_interval_seconds = 30, dg_heartbeat_interval_seconds = 60, dg_endpoint_check_interval_seconds = 120,
      dg_ws_enabled = True, dg_ws_reconnect_delay = ''5.0'', dg_advertised_routes = [],
      dg_stun_enabled = True, dg_stun_servers = [], dg_stun_timeout = ''3.0'',
      dg_probe_enabled = True, dg_probe_interval_seconds = 180, dg_probe_timeout = ''5.0'',
      dg_hole_punch_enabled = True, dg_hole_punch_timeout = ''10.0'', dg_hole_punch_retries = 3,
      dg_relay_enabled = True, dg_relay_host = ''127.0.0.1'', dg_relay_port = 8765, dg_relay_region = ''default'',
      dg_relay_reconnect_delay = ''5.0'',
      dg_state_dir = ''/var/lib/midscaled'', dg_config_dir = ''/etc/midscaled'', dg_log_dir = ''/var/log/midscaled'',
      dg_tls_verify = True, dg_request_timeout_seconds = 30, dg_debug = False\<rparr>"

section \<open>Reading the environment\<close>

type_synonym environ = "string \<Rightarrow> string option"

definition env_get :: "environ \<Rightarrow> string \<Rightarrow> string \<Rightarrow> string" where
  "env_get env k d = (case env k of None \<Rightarrow> d | Some v \<Rightarrow> v)"

definition env_true :: "environ \<Rightarrow> string \<Rightarrow> string \<Rightarrow> bool" where
  "env_true env k d \<longleftrightarrow> map ascii_lower (env_get env k d) = ''true''"

text \<open>Which texts \<open>float()\<close> accepts.\<close>

definition is_float_number :: "string \<Rightarrow> bool" where
  "is_float_number u =
     (let mant = takeWhile (\<lambda>c. c \<noteq> CHR ''e'') u; rest = dropWhile (\<lambda>c. c \<noteq> CHR ''e'') u;
          a = takeWhile (\<lambda>c. c \<noteq> CHR ''.'') mant; b = drop 1 (dropWhile (\<lambda>c. c \<noteq> CHR ''.'') mant);
          digits = (\<lambda>s. s = [] \<or> parse_digits s \<noteq> None);
          ex = (case drop 1 rest of [] \<Rightarrow> [] | c # cs \<Rightarrow> if c = CHR ''-'' \<or> c = CHR ''+'' then cs else c # cs)
      in digits a \<and> digits b \<and> (a \<noteq> [] \<or> b \<noteq> []) \<and> (rest = [] \<or> ex \<noteq> [] \<and> parse_digits ex \<noteq> None))"

definition py_float :: "string \<Rightarrow> string result" where
  "py_float s =
     (let t = map ascii_lower (strip s);
          u = (case t of [] \<Rightarrow> [] | c # cs \<Rightarrow> if c = CHR ''-'' \<or> c = CHR ''+'' then cs else t)
      in if u = ''inf'' \<or> u = ''infinity'' \<or> u = ''nan'' \<or> is_float_number u then Inr s else Inl (ValueError s))"

definition env_int :: "environ \<Rightarrow> string \<Rightarrow> string \<Rightarrow> int result" where
  "env_int env k d = py_int (env_get env k d)"

definition env_float :: "environ \<Rightarrow> string \<Rightarrow> string \<Rightarrow> string result" where
  "env_float env k d = py_float (env_get env k d)"

definition load_config :: "environ \<Rightarrow> string \<Rightarrow> daemon_config result" where
  "load_config env nodename =
     bind_result (env_int env ''MIDSCALE_WG_PORT'' ''51820'') (\<lambda>wg_port.
     bind_result (env_int env ''MIDSCALE_POLL_INTERVAL'' ''30'') (\<lambda>poll.
     bind_result (env_int env ''MIDSCALE_HEARTBEAT_INTERVAL'' ''60'') (\<lambda>heartbeat.
     bind_result (env_int env ''MIDSCALE_ENDPOINT_INTERVAL'' ''120'') (\<lambda>endpoint.
     bind_result (env_int env ''MIDSCALE_REQUEST_TIMEOUT'' ''30'') (\<lambda>request.
     bind_result (env_float env ''MIDSCALE_WS_RECONNECT_DELAY'' ''5.0'') (\<lambda>ws_delay.
     bind_result (env_float env ''MIDSCALE_STUN_TIMEOUT'' ''3.0'') (\<lambda>stun.
     bind_result (env_int env ''MIDSCALE_PROBE_INTERVAL'' ''180'') (\<lambda>probe_interval.
     bind_result (env_float env ''MIDSCALE_PROBE_TIMEOUT'' ''5.0'') (\<lambda>probe.
     bind_result (env_float env ''MIDSCALE_HOLE_PUNCH_TIMEOUT'' ''10.0'') (\<lambda>punch.
     bind_result (env_int env ''MIDSCALE_HOLE_PUNCH_RETRIES'' ''3'') (\<lambda>retries.
     bind_result (env_int env ''MIDSCALE_RELAY_PORT'' ''8765'') (\<lambda>relay_port.
     bind_result (env_float env ''MIDSCALE_RELAY_RECONNECT_DELAY'' ''5.0'') (\<lambda>relay_delay.
     Inr \<lparr>dg_server_url = env_get env ''MIDSCALE_SERVER_URL'' ''http://localhost:8000'',
          dg_preauth_key = env_get env ''MIDSCALE_PREAUTH_KEY'' [],
          dg_device_name = env_get env ''MIDSCALE_DEVICE_NAME'' nodename,
          dg_device_token = env_get env ''MIDSCALE_DEVICE_TOKEN'' [],
          dg_interface_name = env_get env ''MIDSCALE_INTERFACE'' ''midscale0'',
          dg_wg_binary = env_get env ''MIDSCALE_WG_BINARY'' ''wg'',
          dg_wg_port = wg_port, dg_polling_interval_seconds = poll, dg_heartbeat_interval_seconds = heartbeat,
          dg_endpoint_check_interval_seconds = endpoint,
          dg_ws_enabled = env_true env ''MIDSCALE_WS_ENABLED'' ''true'', dg_ws_reconnect_delay = ws_delay,
          dg_advertised_routes = strip_list (env_get env ''MIDSCALE_ADVERTISED_ROUTES'' []),
          dg_stun_enabled = env_true env ''MIDSCALE_STUN_ENABLED'' ''true'',
          dg_stun_servers = strip_list (env_get env ''MIDSCALE_STUN_SERVERS'' []), dg_stun_timeout = stun,
          dg_probe_enabled = env_true env ''MIDSCALE_PROBE_ENABLED'' ''true'',
          dg_probe_interval_seconds = probe_interval, dg_probe_timeout = probe,
          dg_hole_punch_enabled = env_true env ''MIDSCALE_HOLE_PUNCH_ENABLED'' ''true'',
          dg_hole_punch_timeout = punch, dg_hole_punch_retries = retries,
          dg_relay_enabled = env_true env ''MIDSCALE_RELAY_ENABLED'' ''true'',
          dg_relay_host = env_get env ''MIDSCALE_RELAY_HOST'' ''127.0.0.1'', dg_relay_port = relay_port,
          dg_relay_region = env_get env ''MIDSCALE_RELAY_REGION'' ''default'', dg_relay_reconnect_delay = relay_delay,
          dg_state_dir = env_get env ''MIDSCALE_STATE_DIR'' ''/var/lib/midscaled'',
          dg_config_dir = env_get env ''MIDSCALE_CONFIG_DIR'' ''/etc/midscaled'',
          dg_log_dir = env_get env ''MIDSCALE_LOG_DIR'' ''/var/log/midscaled'',
          dg_tls_verify = env_true env ''MIDSCALE_TLS_VERIFY'' ''true'', dg_request_timeout_seconds = request,
          dg_debug = env_true env ''MIDSCALE_DEBUG'' ''false''\<rparr>)))))))))))))"

section \<open>Properties\<close>

definition integer_variables :: "string list" where
  "integer_variables =
     [''MIDSCALE_WG_PORT'', ''MIDSCALE_POLL_INTERVAL'', ''MIDSCALE_HEARTBEAT_INTERVAL'', ''MIDSCALE_ENDPOINT_INTERVAL'',
      ''MIDSCALE_REQUEST_TIMEOUT'', ''MIDSCALE_PROBE_INTERVAL'', ''MIDSCALE_HOLE_PUNCH_RETRIES'', ''MIDSCALE_RELAY_PORT'']"

definition float_variables :: "string list" where
  "float_variables =
     [''MIDSCALE_WS_RECONNECT_DELAY'', ''MIDSCALE_STUN_TIMEOUT'', ''MIDSCALE_PROBE_TIMEOUT'', ''MIDSCALE_HOLE_PUNCH_TIMEOUT'',
      ''MIDSCALE_RELAY_RECONNECT_DELAY'']"

lemma str_nat_defaults:
  "str_nat 51820 = ''51820''" "str_nat 51821 = ''51821''" "str_nat 30 = ''30''" "str_nat 60 = ''60''" "str_nat 120 = ''120''"
  "str_nat 180 = ''180''" "str_nat 3 = ''3''" "str_nat 8765 = ''8765''"
  by (simp_all add: str_nat.simps [of 51820] str_nat.simps [of 51821] str_nat.simps [of 5182] str_nat.simps [of 518]
      str_nat.simps [of 51] str_nat.simps [of 5] str_nat.simps [of 30] str_nat.simps [of 3] str_nat.simps [of 60]
      str_nat.simps [of 6] str_nat.simps [of 120] str_nat.simps [of 12] str_nat.simps [of 1] str_nat.simps [of 180]
      str_nat.simps [of 18] str_nat.simps [of 8765] str_nat.simps [of 876] str_nat.simps [of 87] str_nat.simps [of 8] py_simps)

lemmas int_defaults = str_nat_defaults [THEN arg_cong [of _ _ py_int], unfolded py_int_str_nat, symmetric, simplified]

lemma float_defaults:
  "py_float ''5.0'' = Inr ''5.0''" "py_float ''3.0'' = Inr ''3.0''" "py_float ''10.0'' = Inr ''10.0''"
  by (code_simp+)

lemma env_int_Inr:
  "py_int d = Inr i \<Longrightarrow> (\<exists>r. env_int env k d = Inr r) \<longleftrightarrow> (\<forall>v. env k = Some v \<longrightarrow> (\<exists>i. py_int v = Inr i))"
  by (auto simp: env_int_def env_get_def split: option.split)

lemma env_float_Inr:
  "py_float d = Inr x \<Longrightarrow> (\<exists>r. env_float env k d = Inr r) \<longleftrightarrow> (\<forall>v. env k = Some v \<longrightarrow> (\<exists>x. py_float v = Inr x))"
  by (auto simp: env_float_def env_get_def split: option.split)

lemma bind_ex_Inr: "(\<exists>y. bind_result x f = Inr y) \<longleftrightarrow> (\<exists>r. x = Inr r \<and> (\<exists>y. f r = Inr y))"
  by (auto simp: bind_result_eq_Inr)
text \<open>
  Loading the settings succeeds exactly when each of the thirteen variables that hold numbers is
  unset or holds one; the flags, lists and texts never fail. With nothing set, the result is the
  defaults of the dataclass with the host's name as device name: the two lists of defaults agree.
\<close>

theorem load_config_total:
  "((\<exists>c. load_config env nodename = Inr c) \<longleftrightarrow>
     (\<forall>k \<in> set integer_variables. \<forall>v. env k = Some v \<longrightarrow> (\<exists>i. py_int v = Inr i)) \<and>
     (\<forall>k \<in> set float_variables. \<forall>v. env k = Some v \<longrightarrow> (\<exists>x. py_float v = Inr x))) \<and>
   load_config Map.empty nodename = Inr (default_daemon_config\<lparr>dg_device_name := nodename\<rparr>)"
proof (intro conjI)
  note ints = int_defaults [THEN env_int_Inr] and floats = float_defaults [THEN env_float_Inr]
  show "(\<exists>c. load_config env nodename = Inr c) \<longleftrightarrow>
     (\<forall>k \<in> set integer_variables. \<forall>v. env k = Some v \<longrightarrow> (\<exists>i. py_int v = Inr i)) \<and>
     (\<forall>k \<in> set float_variables. \<forall>v. env k = Some v \<longrightarrow> (\<exists>x. py_float v = Inr x))"
    unfolding load_config_def bind_ex_Inr integer_variables_def float_variables_def
    by (simp add: ints floats) blast
  show "load_config Map.empty nodename = Inr (default_daemon_config\<lparr>dg_device_name := nodename\<rparr>)"
    by (simp add: load_config_def env_int_def env_float_def env_true_def env_get_def int_defaults float_defaults
        default_daemon_config_def strip_list_def strip_def ascii_lower_def)
qed

theorem load_config_total_witness:
  "\<exists>c. load_config [''MIDSCALE_WG_PORT'' \<mapsto> ''51821''] ''host'' = Inr c"
proof -
  have "py_int ''51821'' = Inr 51821" by (rule int_defaults(2))
  then show ?thesis
    using load_config_total [of "[''MIDSCALE_WG_PORT'' \<mapsto> ''51821'']" "''host''"]
    by (simp add: integer_variables_def float_variables_def)
qed

end
