(* ===== verification/Daemon_Loops.thy ===== *)
theory Daemon_Loops
  imports Api_Contract Daemon_Config Devices Stun
begin

text \<open>
  The daemon's periodic reports: \<open>midscaled/daemon/heartbeat.py\<close>, \<open>endpoint_monitor.py\<close>,
  \<open>peer_prober.py\<close> and \<open>route_advertiser.py\<close>. One turn of a loop takes what the host and the network
  did during it; the server, the daemon's state and the host are threaded through. The waiting
  between turns is left out.
\<close>

section \<open>Heartbeats\<close>

text \<open>A turn that raises is logged and otherwise forgotten.\<close>

definition heartbeat_turn :: "(json \<Rightarrow> string) \<Rightarrow> 'w server \<Rightarrow> api_client \<Rightarrow> datetime \<Rightarrow> daemon_state \<times> 'w
    \<Rightarrow> daemon_state \<times> 'w" where
  "heartbeat_turn py_str server c now sw =
     (case sw of (s, w) \<Rightarrow>
        (case api_send_heartbeat py_str server None None c w of
           (w', Inl _) \<Rightarrow> (s, w')
         | (w', Inr r) \<Rightarrow> (if ar_success r then s\<lparr>das_last_heartbeat := Some now\<rparr> else s, w')))"

section \<open>The endpoint monitor\<close>

text \<open>
  \<open>urlparse(url).hostname\<close>: leading control characters and all tabs and line breaks are removed, a scheme is
  cut off, and what follows \<open>//\<close> up to the next slash, question mark or hash is the network location.
  A bracketed host is taken to be an address.
\<close>

definition scheme_rest :: "string \<Rightarrow> string" where
  "scheme_rest url =
     (let i = takeWhile (\<lambda>c. c \<noteq> CHR '':'') url;
          letter = (\<lambda>c. ascii_lower c \<in> set ''abcdefghijklmnopqrstuvwxyz'');
          scheme_char = (\<lambda>c. letter c \<or> is_digit c \<or> c \<in> set ''+-.'')
      in if CHR '':'' \<in> set url \<and> i \<noteq> [] \<and> letter (hd i) \<and> list_all scheme_char i then drop (length i + 1) url else url)"

definition partition_at :: "char \<Rightarrow> string \<Rightarrow> string \<times> string" where
  "partition_at x s = (takeWhile (\<lambda>c. c \<noteq> x) s, drop 1 (dropWhile (\<lambda>c. c \<noteq> x) s))"

definition url_hostname :: "string \<Rightarrow> string option result" where
  "url_hostname url =
     (let u = filter (\<lambda>c. c \<notin> {CHR 0x09, CHR 0x0A, CHR 0x0D}) (dropWhile (\<lambda>c. (of_char c :: nat) \<le> 32) url);
          rest = scheme_rest u;
          netloc = (if take 2 rest = ''//'' then takeWhile (\<lambda>c. c \<notin> set ''/?#'') (drop 2 rest) else [])
      in if (CHR ''['' \<in> set netloc) \<noteq> (CHR '']'' \<in> set netloc) then Inl (ValueError ''Invalid IPv6 URL'')
         else
           (let hostinfo = rev (takeWhile (\<lambda>c. c \<noteq> CHR ''@'') (rev netloc));
                hostname = (if CHR ''['' \<in> set hostinfo
                            then fst (partition_at CHR '']'' (snd (partition_at CHR ''['' hostinfo)))
                            else fst (partition_at CHR '':'' hostinfo));
                address = takeWhile (\<lambda>c. c \<noteq> CHR ''%'') hostname
            in Inr (if hostname = [] then None else Some (map ascii_lower address @ drop (length address) hostname))))"

fun stun_entries :: "string list \<Rightarrow> (string \<times> int) list" where
  "stun_entries [] = []"
| "stun_entries (x # xs) =
     (let e = strip x
      in if e = [] then stun_entries xs
         else if CHR '':'' \<in> set e
         then (case rsplit_colon e of (host, port_str) \<Rightarrow>
                 (host, case py_int port_str of Inl _ \<Rightarrow> 3478 | Inr p \<Rightarrow> p) # stun_entries xs)
         else (e, 3478) # stun_entries xs)"

definition parse_stun_servers :: "daemon_config \<Rightarrow> (string \<times> int) list result" where
  "parse_stun_servers cfg =
     (let servers = stun_entries (dg_stun_servers cfg)
      in if servers \<noteq> [] then Inr servers
         else bind_result (url_hostname (dg_server_url cfg)) (\<lambda>h. Inr [(the (or_str h (Some ''localhost'')), 3478)]))"

text \<open>
  What a turn sees: the local address when it asks for it the first and the second time, and what
  each STUN server answers, the public address and port it saw.
\<close>

record endpoint_inputs =
  ei_local_ip :: "string option"
  ei_stun :: "string \<times> int \<Rightarrow> (string \<times> int) option"
  ei_local_ip_again :: "string option"

definition detect_endpoint_stun :: "daemon_config \<Rightarrow> (string \<times> int) list \<Rightarrow> endpoint_inputs
    \<Rightarrow> (string \<times> string \<times> string) option" where
  "detect_endpoint_stun cfg servers io =
     (if \<not> dg_stun_enabled cfg \<or> servers = [] then None
      else (case query_stun_servers (ei_stun io) servers of
              None \<Rightarrow> None
            | Some (ip, _) \<Rightarrow>
                Some (ip @ '':'' @ str_int (dg_wg_port cfg), ip, the (or_str (ei_local_ip io) (Some ip)))))"

definition detect_endpoint_local :: "daemon_config \<Rightarrow> string option \<Rightarrow> (string \<times> string \<times> string) option" where
  "detect_endpoint_local cfg local_ip =
     (if truthy_str local_ip
      then Some (the local_ip @ '':'' @ str_int (dg_wg_port cfg), the local_ip, the local_ip) else None)"

definition detect_endpoint :: "daemon_config \<Rightarrow> (string \<times> int) list \<Rightarrow> endpoint_inputs
    \<Rightarrow> (string \<times> string \<times> string \<times> string) option" where
  "detect_endpoint cfg servers io =
     (case detect_endpoint_stun cfg servers io of
        Some (ep, pub_ip, loc_ip) \<Rightarrow> Some (ep, ''stun'', pub_ip, loc_ip)
      | None \<Rightarrow>
          map_option (\<lambda>(ep, pub_ip, loc_ip). (ep, ''local'', pub_ip, loc_ip))
            (detect_endpoint_local cfg
               (if \<not> dg_stun_enabled cfg \<or> servers = [] then ei_local_ip io else ei_local_ip_again io)))"

definition endpoint_turn :: "(json \<Rightarrow> string) \<Rightarrow> 'w server \<Rightarrow> daemon_config \<Rightarrow> (string \<times> int) list \<Rightarrow> api_client
    \<Rightarrow> endpoint_inputs \<Rightarrow> datetime \<Rightarrow> daemon_state \<times> 'w \<Rightarrow> daemon_state \<times> 'w" where
  "endpoint_turn py_str server cfg servers c io now sw =
     (case sw of (s, w) \<Rightarrow>
        (case detect_endpoint cfg servers io of
           None \<Rightarrow> (s, w)
         | Some (ep, source, public_ip, local_ip) \<Rightarrow>
             if das_current_endpoint s = Some ep then (s, w)
             else (case api_report_endpoint py_str server ep source (dg_wg_port cfg) (Some local_ip) (Some public_ip) c w of
                     (w', Inl _) \<Rightarrow> (s, w')
                   | (w', Inr r) \<Rightarrow>
                       (if ar_success r
                        then s\<lparr>das_current_endpoint := Some ep, das_last_endpoint_report := Some now\<rparr> else s, w'))))"

section \<open>The peer prober\<close>

text \<open>
  Probing one target: the peer answered, nothing came back in time, or sending raised. Times are in
  milliseconds, rounded to one decimal, as text. A missing port makes \<open>connect\<close> raise.
\<close>

datatype probe_outcome = Answered json | Unanswered json | Probe_raised string

record peer_probe =
  pp_peer_device_id :: string
  pp_endpoint :: string
  pp_port :: "int option"
  pp_reachable :: bool
  pp_latency_ms :: "json option"
  pp_error :: "string option"

definition probe_endpoint :: "(probe_target \<Rightarrow> probe_outcome) \<Rightarrow> probe_target \<Rightarrow> peer_probe" where
  "probe_endpoint net t =
     (case (if pt_port t = None then Probe_raised ''an integer is required'' else net t) of
        Answered ms \<Rightarrow>
          \<lparr>pp_peer_device_id = pt_peer_device_id t, pp_endpoint = pt_endpoint t, pp_port = pt_port t,
           pp_reachable = True, pp_latency_ms = Some ms, pp_error = None\<rparr>
      | Unanswered ms \<Rightarrow>
          \<lparr>pp_peer_device_id = pt_peer_device_id t, pp_endpoint = pt_endpoint t, pp_port = pt_port t,
           pp_reachable = False, pp_latency_ms = Some ms, pp_error = Some ''timeout''\<rparr>
      | Probe_raised e \<Rightarrow>
          \<lparr>pp_peer_device_id = pt_peer_device_id t, pp_endpoint = pt_endpoint t, pp_port = pt_port t,
           pp_reachable = False, pp_latency_ms = None, pp_error = Some e\<rparr>)"

text \<open>
  A cycle over the targets. \<open>stopped\<close> is how many targets are probed before the prober is stopped; the
  one being probed then is not reported. A report that raises ends the cycle.
\<close>

fun probe_cycle :: "(json \<Rightarrow> string) \<Rightarrow> 'w server \<Rightarrow> api_client \<Rightarrow> (probe_target \<Rightarrow> probe_outcome) \<Rightarrow> nat option
    \<Rightarrow> probe_target list \<Rightarrow> 'w \<Rightarrow> 'w \<times> unit result" where
  "probe_cycle py_str server c net stopped [] w = (w, Inr ())"
| "probe_cycle py_str server c net stopped (t # ts) w =
     (if stopped = Some 0 then (w, Inr ())
      else
        (let p = probe_endpoint net t
         in case api_report_probe_result py_str server (pp_peer_device_id p) (pp_endpoint p) (pp_reachable p)
                   (json_opt_int (pp_port p)) (pp_latency_ms p) c w of
              (w', Inl e) \<Rightarrow> (w', Inl e)
            | (w', Inr _) \<Rightarrow> probe_cycle py_str server c net (map_option (\<lambda>n. n - 1) stopped) ts w'))"

definition prober_turn :: "(json \<Rightarrow> string) \<Rightarrow> 'w server \<Rightarrow> daemon_config \<Rightarrow> api_client \<Rightarrow> (probe_target \<Rightarrow> probe_outcome)
    \<Rightarrow> nat option \<Rightarrow> probe_target list \<Rightarrow> 'w \<Rightarrow> 'w" where
  "prober_turn py_str server cfg c net stopped ts w =
     (if dg_probe_enabled cfg then fst (probe_cycle py_str server c net stopped ts w) else w)"

section \<open>The route advertiser\<close>

fun advertise_all :: "(json \<Rightarrow> string) \<Rightarrow> 'w server \<Rightarrow> api_client \<Rightarrow> string list \<Rightarrow> 'w \<Rightarrow> 'w \<times> unit result" where
  "advertise_all py_str server c [] w = (w, Inr ())"
| "advertise_all py_str server c (p # ps) w =
     (case api_advertise_route py_str server p c w of
        (w', Inl e) \<Rightarrow> (w', Inl e)
      | (w', Inr _) \<Rightarrow> advertise_all py_str server c ps w')"

definition routes_turn :: "(json \<Rightarrow> string) \<Rightarrow> 'w server \<Rightarrow> daemon_config \<Rightarrow> api_client \<Rightarrow> 'w \<Rightarrow> 'w" where
  "routes_turn py_str server cfg c w = fst (advertise_all py_str server c (dg_advertised_routes cfg) w)"

definition ensure_ip_forwarding :: "'x programs \<Rightarrow> 'x host \<Rightarrow> 'x host \<times> bool" where
  "ensure_ip_forwarding prog h =
     (case run_program prog ([''sysctl'', ''-n'', ''net.ipv4.ip_forward''], None) h of
        (h1, None) \<Rightarrow> (h1, False)
      | (h1, Some (_, out, _)) \<Rightarrow>
          if strip out = ''1'' then (h1, True)
          else (case run_program prog ([''sysctl'', ''-w'', ''net.ipv4.ip_forward=1''], None) h1 of
                  (h2, r) \<Rightarrow> (h2, r \<noteq> None)))"

definition nat_rule :: "string \<Rightarrow> string list" where
  "nat_rule interface = [''-s'', ''100.64.0.0/10'', ''-o''] @ split_ws interface @ [''-j'', ''MASQUERADE'']"

definition ensure_nat :: "'x programs \<Rightarrow> string \<Rightarrow> 'x host \<Rightarrow> 'x host \<times> bool" where
  "ensure_nat prog interface h =
     (case run_program prog ([''iptables'', ''-t'', ''nat'', ''-C'', ''POSTROUTING''] @ nat_rule interface, None) h of
        (h1, None) \<Rightarrow> (h1, False)
      | (h1, Some (code, _, _)) \<Rightarrow>
          if code = 0 then (h1, True)
          else (case run_program prog ([''iptables'', ''-t'', ''nat'', ''-A'', ''POSTROUTING''] @ nat_rule interface, None) h1 of
                  (h2, r) \<Rightarrow> (h2, r \<noteq> None)))"

end
