(* ===== verification/Daemon_Main.thy ===== *)
theory Daemon_Main
  imports Daemon_Loops Hole_Puncher
begin

text \<open>
  The daemon's process: \<open>midscaled/daemon/main.py\<close> and the web-socket clients of
  \<open>midscaled/daemon/ws_client.py\<close>. It enrolls, starts on what the state directory holds, and reacts to
  events. The turns of its loops are those of \<open>Daemon_Loops\<close> and \<open>Reconciler\<close>; tasks that are created
  run in the order of their creation. Signals and the orderly shutdown are left out.
\<close>

section \<open>Enrolling\<close>

record enroll_args =
  ea_server :: string
  ea_preauth_key :: string
  ea_name :: string
  ea_state_dir :: string
  ea_insecure :: bool
  ea_apply :: bool

definition enroll_config :: "enroll_args \<Rightarrow> daemon_config" where
  "enroll_config args =
     default_daemon_config\<lparr>dg_server_url := ea_server args, dg_preauth_key := ea_preauth_key args,
       dg_device_name := ea_name args,
       dg_state_dir := (if ea_state_dir args \<noteq> [] then ea_state_dir args else ''/var/lib/midscaled''),
       dg_tls_verify := \<not> ea_insecure args\<rparr>"

definition new_api_client :: api_client where
  "new_api_client = \<lparr>ac_device_id = None, ac_device_token = None\<rparr>"

definition apply_enrolled_config :: "(string set \<Rightarrow> string list) \<Rightarrow> 'x programs \<Rightarrow> daemon_config \<Rightarrow> dict option \<Rightarrow> string
    \<Rightarrow> 'x host \<Rightarrow> 'x host" where
  "apply_enrolled_config so prog cfg config_v2 private_key h =
     (case config_v2 of
        None \<Rightarrow> h
      | Some d \<Rightarrow>
          if d = [] then h
          else
            (case parse_config_v2 (vp_interface (read_pull d)) (vp_peers (read_pull d)) private_key of
               None \<Rightarrow> h
             | Some config \<Rightarrow>
                 (case bring_up_interface prog (dg_wg_binary cfg) (dg_interface_name cfg) (dc_address config) (dc_subnet config) h of
                    (h1, False) \<Rightarrow> h1
                  | (h1, True) \<Rightarrow> fst (apply_config so prog (dg_wg_binary cfg) (dg_interface_name cfg) config h1))))"

text \<open>The new store, host and server, and the exit code of the command.\<close>

definition cmd_enroll :: "(json \<Rightarrow> string) \<Rightarrow> (string set \<Rightarrow> string list) \<Rightarrow> 'w server \<Rightarrow> 'x programs \<Rightarrow> enroll_args \<Rightarrow> disk
    \<Rightarrow> 'x host \<Rightarrow> 'w \<Rightarrow> state_store \<times> 'x host \<times> 'w \<times> int" where
  "cmd_enroll py_str so server prog args fs h w =
     (let cfg = enroll_config args; s = load_state (new_store (dg_state_dir cfg) fs)
      in if has_enrollment s then (s, h, w, 0)
         else
           (case generate_keypair prog (dg_wg_binary cfg) h of
              (h1, None) \<Rightarrow> (s, h1, w, 1)
            | (h1, Some (private_key, public_key)) \<Rightarrow>
                if private_key = [] \<or> public_key = [] then (s, h1, w, 1)
                else
                  (case api_enroll py_str server (ea_preauth_key args) (ea_name args) public_key (new_api_client, w) of
                     ((c, w1), Inl e) \<Rightarrow> (s, h1, w1, 1)
                   | ((c, w1), Inr r) \<Rightarrow>
                       if \<not> er_success r then (s, h1, w1, 1)
                       else
                         (save_identity (er_device_id r)
                            (save_enrollment (er_device_id r) (er_device_token r) private_key (er_network_id r) s),
                          if ea_apply args then apply_enrolled_config so prog cfg (er_config_v2 r) private_key h1 else h1,
                          w1, 0))))"

section \<open>Starting\<close>

record 'x daemon =
  dn_client :: api_client
  dn_recon :: "'x reconciler"
  dn_relay_client :: bool
  dn_websocket :: bool

text \<open>A value of the store that is a text and not empty. The store never holds anything else there.\<close>

definition stored_text :: "json option \<Rightarrow> string option" where
  "stored_text j = (case j of Some (JStr s) \<Rightarrow> if s = [] then None else Some s | _ \<Rightarrow> None)"

definition legacy_register :: "(json \<Rightarrow> string) \<Rightarrow> 'w server \<Rightarrow> daemon_config \<Rightarrow> state_store \<times> daemon_state \<Rightarrow> 'w
    \<Rightarrow> 'w \<times> (state_store \<times> daemon_state) result" where
  "legacy_register py_str server cfg sd w =
     (case api_register py_str server (dg_preauth_key cfg) (dg_device_name cfg) w of
        (w', Inl e) \<Rightarrow> (w', Inl e)
      | (w', Inr r) \<Rightarrow>
          (w', Inr (if rr_success r \<and> truthy_str (rr_device_id r)
                    then (save_identity (rr_device_id r) (fst sd),
                          (snd sd)\<lparr>das_device_id := rr_device_id r, das_registered := True\<rparr>)
                    else sd)))"

text \<open>
  The identity a start ends up with: from the store, from a registration, or none and the process
  exits. An enrollment that lacks a part is looked at a second time, with the same outcome.
\<close>

definition find_identity :: "(json \<Rightarrow> string) \<Rightarrow> 'w server \<Rightarrow> daemon_config \<Rightarrow> state_store \<Rightarrow> 'w
    \<Rightarrow> state_store \<times> 'w \<times> (daemon_state \<times> api_client) option" where
  "find_identity py_str server cfg s w =
     (case (stored_text (get_device_id s), stored_text (get_device_token s)) of
        (Some did, Some token) \<Rightarrow>
          (s, w, Some (new_daemon_state\<lparr>das_device_id := Some did, das_registered := True, das_enrolled := True\<rparr>,
                       set_device_auth (Some did) (Some token) new_api_client))
      | _ \<Rightarrow>
          if has_enrollment s then (s, w, None)
          else if dg_preauth_key cfg = [] then (s, w, None)
          else
            (case legacy_register py_str server cfg (s, new_daemon_state) w of
               (w', Inl e) \<Rightarrow> (s, w', None)
             | (w', Inr (s', st)) \<Rightarrow> (s', w', if das_registered st then Some (st, new_api_client) else None)))"

text \<open>With routes to advertise the start turns on the forwarding of the host, before any loop has a turn.\<close>

definition start_host :: "'x programs \<Rightarrow> daemon_config \<Rightarrow> 'x host \<Rightarrow> 'x host" where
  "start_host prog cfg h = (if dg_advertised_routes cfg \<noteq> [] then fst (ensure_ip_forwarding prog h) else h)"

text \<open>\<open>relay_up\<close> tells whether a relay client that is started gets connected.\<close>

definition start_daemon :: "(json \<Rightarrow> string) \<Rightarrow> 'w server \<Rightarrow> 'x programs \<Rightarrow> daemon_config \<Rightarrow> bool \<Rightarrow> disk \<Rightarrow> 'x host \<Rightarrow> 'w
    \<Rightarrow> state_store \<times> 'w \<times> 'x daemon option" where
  "start_daemon py_str server prog cfg relay_up fs h w =
     (case find_identity py_str server cfg (load_state (new_store (dg_state_dir cfg) fs)) w of
        (s, w', None) \<Rightarrow> (s, w', None)
      | (s, w', Some (st, c)) \<Rightarrow>
          (let token = stored_text (get_device_token s); relay = dg_relay_enabled cfg \<and> token \<noteq> None
           in (s, w', Some
                \<lparr>dn_client = c,
                 dn_recon = \<lparr>re_store = s, re_host = start_host prog cfg h, re_last_config = None, re_state = st, re_relay = relay \<and> relay_up,
                             re_relay_tasks = [], re_targets = None\<rparr>,
                 dn_relay_client = relay,
                 dn_websocket = (dg_ws_enabled cfg \<and> das_enrolled st \<and> token \<noteq> None)\<rparr>)))"

section \<open>A turn of the reconciliation\<close>

text \<open>
  The pull an iteration makes: of the second version when enrolled and the private key can be read,
  of the first version otherwise. A pull that raises counts as an error.
\<close>

definition failed_turn :: "'x reconciler \<Rightarrow> 'x reconciler" where
  "failed_turn r = r\<lparr>re_state := (re_state r)\<lparr>das_error_count := das_error_count (re_state r) + 1\<rparr>\<rparr>"

definition reconcile_turn :: "(json \<Rightarrow> string) \<Rightarrow> (string set \<Rightarrow> string list) \<Rightarrow> 'w server \<Rightarrow> 'x programs \<Rightarrow> daemon_config
    \<Rightarrow> datetime \<Rightarrow> api_client \<Rightarrow> 'x reconciler \<times> 'w \<Rightarrow> 'x reconciler \<times> 'w" where
  "reconcile_turn py_str so server prog cfg now c rw =
     (case rw of (r, w) \<Rightarrow>
        (let turn = (\<lambda>p1 p2. loop_turn so prog (dg_wg_binary cfg) (dg_interface_name cfg) now p1 p2 r)
         in if das_enrolled (re_state r) then
              (if truthy_str (read_private_key (re_store r)) then
                 (case api_pull_config_v2 py_str server c w of
                    (w', Inl e) \<Rightarrow> (failed_turn r, w')
                  | (w', Inr p) \<Rightarrow> (turn (config_failed []) p, w'))
               else (turn (config_failed []) (pull_failed []), w))
            else
              (case api_pull_config py_str server c w of
                 (w', Inl e) \<Rightarrow> (failed_turn r, w')
               | (w', Inr p) \<Rightarrow> (turn p (pull_failed []), w'))))"

section \<open>Events\<close>

text \<open>What the daemon does on an event: reconcile now, punch a hole, or connect a relay session.\<close>

datatype daemon_action = Trigger_reconcile | Start_punch json json json | Connect_relay json json

definition event_data :: "dict \<Rightarrow> dict result" where
  "event_data d = (case dict_get_default d ''data'' (JObj []) of JObj kvs \<Rightarrow> Inr kvs | _ \<Rightarrow> Inl (AttributeError ''get''))"

definition on_nat_punch_requested :: "bool \<Rightarrow> dict \<Rightarrow> daemon_action list result" where
  "on_nat_punch_requested enabled d =
     (if \<not> enabled then Inr []
      else bind_result (event_data d) (\<lambda>kvs.
             let session_id = dict_get_default kvs ''session_id'' (JStr []);
                 target = dict_get_default kvs ''target_device_id'' (JStr []);
                 candidates = dict_get_default kvs ''candidates'' (JList [])
             in Inr (if \<not> truthy_json session_id \<or> \<not> truthy_json target then []
                     else [Start_punch session_id target candidates])))"

definition on_nat_punch_started :: "dict \<Rightarrow> daemon_action list result" where
  "on_nat_punch_started d = bind_result (event_data d) (\<lambda>_. Inr [])"

definition on_relay_fallback :: "bool \<Rightarrow> dict \<Rightarrow> daemon_action list result" where
  "on_relay_fallback connected d =
     (if \<not> connected then Inr []
      else bind_result (event_data d) (\<lambda>kvs.
             let sid = dict_get_default kvs ''relay_session_id'' (JStr [])
             in Inr (if truthy_json sid then [Connect_relay sid (JStr [])] else [])))"

definition on_ws_message :: "bool \<Rightarrow> json \<Rightarrow> daemon_action list result" where
  "on_ws_message enabled j =
     (case j of
        JObj d \<Rightarrow>
          (let t = dict_get_default d ''type'' (JStr [])
           in if t = JStr ''config.changed'' then Inr [Trigger_reconcile]
              else if t = JStr ''nat.punch_requested'' then on_nat_punch_requested enabled d
              else if t = JStr ''nat.punch_started'' then on_nat_punch_started d
              else Inr [])
      | _ \<Rightarrow> Inl (AttributeError ''get''))"

text \<open>
  \<open>WebSocketClient.listen\<close>: a message that is no JSON is skipped; any other exception ends the
  listener, and nothing connects again.
\<close>

fun ws_listen :: "(json \<Rightarrow> daemon_action list result) \<Rightarrow> string list \<Rightarrow> daemon_action list" where
  "ws_listen callback [] = []"
| "ws_listen callback (m # ms) =
     (case json_loads m of
        None \<Rightarrow> ws_listen callback ms
      | Some j \<Rightarrow> (case callback j of Inl e \<Rightarrow> [] | Inr as \<Rightarrow> as @ ws_listen callback ms))"

text \<open>\<open>DaemonWebSocketClient._on_message\<close>, which knows one more event.\<close>

definition daemon_on_message :: "bool \<Rightarrow> bool \<Rightarrow> json \<Rightarrow> daemon_action list result" where
  "daemon_on_message enabled connected j =
     (case j of
        JObj d \<Rightarrow>
          (if dict_get_default d ''type'' (JStr []) = JStr ''relay.fallback'' then on_relay_fallback connected d
           else on_ws_message enabled j)
      | _ \<Rightarrow> Inl (AttributeError ''get''))"

text \<open>
  \<open>DaemonWebSocketClient._run\<close>: an attempt is refused, raises, or is upgraded. After an upgrade nothing
  is read from the connection; the client asks for a reconciliation every fifteen seconds, forever.
  The result is the waits, in seconds, up to then, and whether an upgrade happened.
\<close>

datatype ws_attempt = Refused int | Attempt_raised | Upgraded

fun ws_attempts :: "int \<Rightarrow> ws_attempt list \<Rightarrow> int list \<times> bool" where
  "ws_attempts delay [] = ([], False)"
| "ws_attempts delay (Upgraded # as) = ([], True)"
| "ws_attempts delay (a # as) =
     (case ws_attempts (min (delay * 2) 60) as of (ws, up) \<Rightarrow> (delay # ws, up))"

definition ws_polls :: "bool \<Rightarrow> nat \<Rightarrow> daemon_action list" where
  "ws_polls has_callback n = (if has_callback then replicate n Trigger_reconcile else [])"

section \<open>After a punch\<close>

definition on_punch_success :: "'w server \<Rightarrow> api_client \<Rightarrow> punch_session \<Rightarrow> 'w \<Rightarrow> 'w \<times> daemon_action list" where
  "on_punch_success server c s w =
     (let w1 = fst (api_report_nat_punch_result server (pu_session_id s) True (pu_result_endpoint s) (pu_result_port s)
                      (pu_result_latency_ms s) None c w);
          w2 = fst (api_report_nat_connectivity_validation server (pu_session_id s)
                      (the (or_str (pu_result_endpoint s) (Some []))) (the (or_int (pu_result_port s) (Some 51820))) True
                      (pu_result_latency_ms s) c w1)
      in (w2, [Trigger_reconcile]))"

definition on_punch_failure :: "'w server \<Rightarrow> api_client \<Rightarrow> punch_session \<Rightarrow> 'w \<Rightarrow> 'w" where
  "on_punch_failure server c s w =
     fst (api_report_nat_punch_result server (pu_session_id s) False None None None
            (Some ''all candidate pairs failed'') c w)"

definition on_punch_relay_fallback :: "(json \<Rightarrow> string) \<Rightarrow> 'w server \<Rightarrow> bool \<Rightarrow> api_client \<Rightarrow> punch_session \<Rightarrow> 'w
    \<Rightarrow> 'w \<times> daemon_action list" where
  "on_punch_relay_fallback py_str server relay c s w =
     (if \<not> relay then (w, [])
      else (case api_request_relay_session py_str server (pu_target_device_id s) ''default'' c w of
              (w', Inl e) \<Rightarrow> (w', [])
            | (w', Inr r) \<Rightarrow>
                (w', if rsr_success r \<and> truthy_str (rsr_session_id r) \<and> truthy_str (rsr_relay_token r)
                     then [Connect_relay (JStr (the (rsr_session_id r))) (JStr (the (rsr_relay_token r)))] else [])))"


text \<open>The waits between failing attempts double from one second up to a minute.\<close>

lemma ws_backoff:
  assumes "Upgraded \<notin> set as"
  shows "ws_attempts (min (2 ^ j) 60) as = (map (\<lambda>k. min (2 ^ (j + k)) 60) [0..<length as], False)"
  using assms
proof (induction as arbitrary: j)
  case (Cons a as)
  have "min (min (2 ^ j) 60 * 2) 60 = min (2 ^ Suc j) (60 :: int)" by (simp add: min_def)
  then have "ws_attempts (min (min (2 ^ j) 60 * 2) 60) as = (map (\<lambda>k. min (2 ^ (Suc j + k)) 60) [0..<length as], False)"
    using Cons.IH [of "Suc j"] Cons.prems unfolding \<open>min (min (2 ^ j) 60 * 2) 60 = min (2 ^ Suc j) (60 :: int)\<close> by simp
  moreover have "[0..<length (a # as)] = 0 # map Suc [0..<length as]" by (simp add: upt_conv_Cons map_Suc_upt del: upt_Suc)
  ultimately show ?case using Cons.prems by (cases a) (simp_all add: comp_def del: upt_Suc)
qed simp

end
