(* ===== verification/Backend_Server.thy ===== *)
theory Backend_Server
  imports Api_Contract Devices
begin

text \<open>
  The backend as a server for the daemon's client: a request is routed, its body validated, the caller
  authenticated and the handler run in a session of its own, and the result or the exception becomes a
  reply. The handlers of the requests an enrolled daemon makes of its own accord are wired up here;
  \<open>rest\<close> stands for the others, and the rate limiter in front is left aside. Every request draws its
  instants, ids and random texts from \<open>draws\<close>.
\<close>

section \<open>Replies\<close>

record backend =
  bk_db :: database
  bk_turn :: nat

record draws =
  dr_env :: env
  dr_raw :: string
  dr_secret :: string

record deployment =
  dp_world :: device_world
  dp_valid :: "field_type \<Rightarrow> json \<Rightarrow> bool"
  dp_draws :: "nat \<Rightarrow> draws"
  dp_bearer_401 :: bool
  dp_unprocessable :: json

definition json_reply :: "int \<Rightarrow> json \<Rightarrow> http_reply" where
  "json_reply status j = Reply status (Some j) (json_dumps j)"

text \<open>An \<open>HTTPException\<close> becomes its status with the detail; every other exception a plain 500.\<close>

definition error_reply :: "py_error \<Rightarrow> http_reply" where
  "error_reply e =
     (case e of HTTPException status detail \<Rightarrow> json_reply status (JObj [(''detail'', JStr detail)])
      | _ \<Rightarrow> Reply 500 None ''Internal Server Error'')"

definition reply_of :: "int \<Rightarrow> ('a \<Rightarrow> json) \<Rightarrow> 'a result \<Rightarrow> http_reply" where
  "reply_of status js r = (case r of Inl e \<Rightarrow> error_reply e | Inr x \<Rightarrow> json_reply status (js x))"

text \<open>
  The status of a request without a bearer token is 403 in older and 401 in newer releases of FastAPI;
  the detail of a validation error is whatever pydantic says.
\<close>

definition unauthenticated :: "deployment \<Rightarrow> http_reply" where
  "unauthenticated p = json_reply (if dp_bearer_401 p then 401 else 403) (JObj [(''detail'', JStr ''Not authenticated'')])"

definition unprocessable :: "deployment \<Rightarrow> http_reply" where
  "unprocessable p = json_reply 422 (JObj [(''detail'', dp_unprocessable p)])"

definition run_handler :: "int \<Rightarrow> ('a \<Rightarrow> json) \<Rightarrow> (database \<Rightarrow> 'a response) \<Rightarrow> backend \<Rightarrow> backend \<times> http_reply" where
  "run_handler status js h b =
     (case run_request h (bk_db b) of (r, d) \<Rightarrow> (\<lparr>bk_db = d, bk_turn = Suc (bk_turn b)\<rparr>, reply_of status js r))"

definition refuse :: "http_reply \<Rightarrow> backend \<Rightarrow> backend \<times> http_reply" where
  "refuse reply b = (b\<lparr>bk_turn := Suc (bk_turn b)\<rparr>, reply)"

section \<open>Reading requests\<close>

definition body_of :: "http_request \<Rightarrow> dict" where
  "body_of rq = (case rq_body rq of Some (JObj d) \<Rightarrow> d | _ \<Rightarrow> [])"

definition text_field :: "string \<Rightarrow> string \<Rightarrow> dict \<Rightarrow> string" where
  "text_field default_text k d = (case str_field d k of None \<Rightarrow> default_text | Some s \<Rightarrow> s)"

definition int_field :: "int \<Rightarrow> string \<Rightarrow> dict \<Rightarrow> int" where
  "int_field i k d = (case dict_get d k of Some (JInt j) \<Rightarrow> j | _ \<Rightarrow> i)"

text \<open>\<open>HTTPBearer\<close>: the header is split at the first space, the scheme is compared in lower case.\<close>

definition bearer_token :: "string option \<Rightarrow> string option" where
  "bearer_token header =
     (case header of
        None \<Rightarrow> None
      | Some h \<Rightarrow>
          (let scheme = takeWhile (\<lambda>c. c \<noteq> CHR '' '') h; credentials = drop 1 (dropWhile (\<lambda>c. c \<noteq> CHR '' '') h)
           in if map ascii_lower scheme \<noteq> ''bearer'' \<or> credentials = [] then None else Some credentials))"

section \<open>Handlers\<close>

definition enroll_reply_json :: "enroll_by_key_reply \<Rightarrow> json" where
  "enroll_reply_json r = JObj
     [(''device_id'', JStr (ek_device_id r)), (''device_token'', JStr (ek_device_token r)),
      (''network_id'', JStr (ek_network_id r)), (''ip_address'', JStr (ek_ip_address r)),
      (''config_v2'', JObj (config_v2_dict (ek_config_v2 r)))]"

definition enroll_request_of :: "dict \<Rightarrow> enroll_request" where
  "enroll_request_of d =
     \<lparr>eq_preauth_key = text_field [] ''preauth_key'' d, eq_name = text_field [] ''name'' d,
      eq_public_key = text_field [] ''public_key'' d, eq_hostname = str_field d ''hostname''\<rparr>"

definition serve_enroll :: "deployment \<Rightarrow> http_request \<Rightarrow> backend \<Rightarrow> backend \<times> http_reply" where
  "serve_enroll p rq b =
     (if \<not> accepted (dp_valid p) EnrollByKeyRequest rq then refuse (unprocessable p) b
      else let dr = dp_draws p (bk_turn b)
           in run_handler 201 enroll_reply_json
                (enroll_by_key (dp_world p) (dr_env dr) (dr_raw dr) (dr_secret dr) (enroll_request_of (body_of rq))) b)"

definition serve_config_v2 :: "deployment \<Rightarrow> string \<Rightarrow> http_request \<Rightarrow> backend \<Rightarrow> backend \<times> http_reply" where
  "serve_config_v2 p did rq b =
     (case parse_uuid did of
        Inl _ \<Rightarrow> refuse (unprocessable p) b
      | Inr u \<Rightarrow>
          run_handler 200 (\<lambda>c. JObj (config_v2_dict c))
            (\<lambda>d. bind_result (get_device_config_v2 (dp_world p) (dr_env (dp_draws p (bk_turn b))) u (rq_auth rq) d)
                   (\<lambda>c. Inr (c, d, []))) b)"

text \<open>
  A request of a device about itself: the bearer header, then the path, then the token, then the body,
  and only then the handler.
\<close>

definition serve_device :: "deployment \<Rightarrow> body_schema \<Rightarrow> string \<Rightarrow> (uuid \<Rightarrow> device \<Rightarrow> backend \<Rightarrow> backend \<times> http_reply)
    \<Rightarrow> http_request \<Rightarrow> backend \<Rightarrow> backend \<times> http_reply" where
  "serve_device p schema did h rq b =
     (case bearer_token (rq_auth rq) of
        None \<Rightarrow> refuse (unauthenticated p) b
      | Some token \<Rightarrow>
          (case parse_uuid did of
             Inl _ \<Rightarrow> refuse (unprocessable p) b
           | Inr u \<Rightarrow>
               (case get_current_device_by_id (dw_verify (dp_world p)) u token (bk_db b) of
                  Inl e \<Rightarrow> refuse (error_reply e) b
                | Inr cur \<Rightarrow>
                    if \<not> accepted (dp_valid p) schema rq then refuse (unprocessable p) b else h u cur b)))"

definition heartbeat_json :: "heartbeat_reply \<Rightarrow> json" where
  "heartbeat_json r = JObj
     [(''status'', JStr (hb_status r)), (''device_id'', JStr (hb_device_id r)),
      (''last_heartbeat'', JStr (hb_last_heartbeat r)), (''config_url'', JStr (hb_config_url r))]"

definition serve_heartbeat :: "deployment \<Rightarrow> string \<Rightarrow> http_request \<Rightarrow> backend \<Rightarrow> backend \<times> http_reply" where
  "serve_heartbeat p did rq b =
     serve_device p HeartbeatRequest did
       (\<lambda>u cur. run_handler 200 heartbeat_json
          (device_heartbeat (dr_env (dp_draws p (bk_turn b))) u (str_field (body_of rq) ''public_key'')
             (str_field (body_of rq) ''ip_address''))) rq b"

definition endpoint_reply_json :: "endpoint_reply \<Rightarrow> json" where
  "endpoint_reply_json r = JObj
     [(''status'', JStr (er_status r)), (''endpoint_id'', JStr (er_endpoint_id r)), (''recorded_at'', JStr (er_recorded_at r))]"

definition serve_endpoint :: "deployment \<Rightarrow> string \<Rightarrow> http_request \<Rightarrow> backend \<Rightarrow> backend \<times> http_reply" where
  "serve_endpoint p did rq b =
     serve_device p EndpointReport did
       (\<lambda>u cur. run_handler 200 endpoint_reply_json
          (device_report_endpoint (dp_world p) (dr_env (dp_draws p (bk_turn b))) u
             (text_field [] ''endpoint'' (body_of rq)) (text_field ''reported'' ''source'' (body_of rq))
             (int_field 51820 ''port'' (body_of rq)) (str_field (body_of rq) ''local_ip'')
             (str_field (body_of rq) ''public_ip'') cur)) rq b"

definition backend_server :: "deployment \<Rightarrow> backend server \<Rightarrow> backend server" where
  "backend_server p rest rq b =
     (let did = rq_path rq ! 3
      in case handler_of rq of
           None \<Rightarrow> refuse (json_reply 404 (JObj [(''detail'', JStr ''Not Found'')])) b
         | Some h \<Rightarrow>
             if h = ''devices.enroll_by_key'' then serve_enroll p rq b
             else if h = ''devices.get_device_config_v2'' then serve_config_v2 p did rq b
             else if h = ''devices.device_heartbeat'' then serve_heartbeat p did rq b
             else if h = ''devices.device_report_endpoint'' then serve_endpoint p did rq b
             else rest rq b)"

section \<open>What the client's requests are to the server\<close>

lemma request_fields [simp]:
  "rq_auth (config_v2_rq did auth) = auth" "rq_path (config_v2_rq did auth) = [''api'', ''v1'', ''devices'', did, ''config-v2'']"
  "rq_auth (heartbeat_rq did auth pk ip) = auth" "rq_path (heartbeat_rq did auth pk ip) = [''api'', ''v1'', ''devices'', did, ''heartbeat'']"
  "rq_auth (endpoint_rq did auth ep source port lip pip) = auth"
  "rq_path (endpoint_rq did auth ep source port lip pip) = [''api'', ''v1'', ''devices'', did, ''endpoint'']"
  by (simp_all add: request_defs)

lemma backend_enroll: "backend_server p rest (enroll_rq key name pk) b = serve_enroll p (enroll_rq key name pk) b"
  by (simp add: backend_server_def plain_requests_resolve)

lemma backend_config_v2:
  "did \<noteq> [] \<Longrightarrow> backend_server p rest (config_v2_rq did auth) b = serve_config_v2 p did (config_v2_rq did auth) b"
  by (simp add: backend_server_def device_requests_resolve)

lemma backend_heartbeat:
  "did \<noteq> [] \<Longrightarrow> backend_server p rest (heartbeat_rq did auth pk ip) b = serve_heartbeat p did (heartbeat_rq did auth pk ip) b"
  by (simp add: backend_server_def device_requests_resolve)

lemma backend_endpoint:
  "did \<noteq> [] \<Longrightarrow> backend_server p rest (endpoint_rq did auth ep source port lip pip) b =
     serve_endpoint p did (endpoint_rq did auth ep source port lip pip) b"
  by (simp add: backend_server_def device_requests_resolve)

lemma enroll_request_read:
  "enroll_request_of (body_of (enroll_rq key name pk)) =
     \<lparr>eq_preauth_key = key, eq_name = name, eq_public_key = pk, eq_hostname = None\<rparr>"
  by (simp add: enroll_request_of_def body_of_def text_field_def str_field_def enroll_rq_def post_request_def dict_get_add)

lemma bearer_token_header: "token \<noteq> [] \<Longrightarrow> bearer_token (Some (''Bearer '' @ token)) = Some token"
proof -
  assume "token \<noteq> []"
  moreover have "char_of (98 :: nat) = CHR ''b''" by code_simp
  ultimately show ?thesis by (simp add: bearer_token_def ascii_lower_def)
qed

lemma run_handler_ok: "h (bk_db b) = Inr (x, d, es) \<Longrightarrow>
    run_handler status js h b = (\<lparr>bk_db = d, bk_turn = Suc (bk_turn b)\<rparr>, json_reply status (js x))"
  by (simp add: run_handler_def run_request_simps reply_of_def)

lemma run_handler_error: "h (bk_db b) = Inl e \<Longrightarrow>
    run_handler status js h b = (b\<lparr>bk_turn := Suc (bk_turn b)\<rparr>, error_reply e)"
  by (cases b) (simp add: run_handler_def run_request_simps reply_of_def)

end
