(* ===== verification/Daemon_System.thy ===== *)
theory Daemon_System
  imports Daemon_Main Backend_Server Event_Ws Nat_Punch
begin

text \<open>
  The daemon as a whole, and with the backend. \<open>daemon_run\<close> is the reachable states of a daemon and its
  server from a disk, a host and a server state: the process starts, its loops take turns in any
  order, the connection of the relay client comes and goes, events arrive and hole punches of any
  session end, tasks for peers that need a relay run, the server changes on its own, and the process is
  started again on its disk. Events and punches need the web socket, which only an enrolled daemon opens.
\<close>

section \<open>The daemon as a transition system\<close>

inductive daemon_run :: "(json \<Rightarrow> string) \<Rightarrow> (string set \<Rightarrow> string list) \<Rightarrow> 'w server \<Rightarrow> 'x programs \<Rightarrow> daemon_config
    \<Rightarrow> disk \<Rightarrow> 'x host \<Rightarrow> 'w \<Rightarrow> 'x daemon \<times> 'w \<Rightarrow> bool"
  for py_str so server prog cfg fs0 h0 w0 where
  boot: "start_daemon py_str server prog cfg up fs0 h0 w0 = (s, w, Some dn) \<Longrightarrow>
     daemon_run py_str so server prog cfg fs0 h0 w0 (dn, w)"
| reconciling: "daemon_run py_str so server prog cfg fs0 h0 w0 (dn, w) \<Longrightarrow>
     reconcile_turn py_str so server prog cfg now (dn_client dn) (dn_recon dn, w) = (r, w') \<Longrightarrow>
     daemon_run py_str so server prog cfg fs0 h0 w0 (dn\<lparr>dn_recon := r\<rparr>, w')"
| heartbeat: "daemon_run py_str so server prog cfg fs0 h0 w0 (dn, w) \<Longrightarrow>
     heartbeat_turn py_str server (dn_client dn) now (re_state (dn_recon dn), w) = (st, w') \<Longrightarrow>
     daemon_run py_str so server prog cfg fs0 h0 w0 (dn\<lparr>dn_recon := (dn_recon dn)\<lparr>re_state := st\<rparr>\<rparr>, w')"
| endpoint: "daemon_run py_str so server prog cfg fs0 h0 w0 (dn, w) \<Longrightarrow>
     endpoint_turn py_str server cfg servers (dn_client dn) io now (re_state (dn_recon dn), w) = (st, w') \<Longrightarrow>
     daemon_run py_str so server prog cfg fs0 h0 w0 (dn\<lparr>dn_recon := (dn_recon dn)\<lparr>re_state := st\<rparr>\<rparr>, w')"
| advertising: "daemon_run py_str so server prog cfg fs0 h0 w0 (dn, w) \<Longrightarrow>
     daemon_run py_str so server prog cfg fs0 h0 w0 (dn, routes_turn py_str server cfg (dn_client dn) w)"
| relay_link: "daemon_run py_str so server prog cfg fs0 h0 w0 (dn, w) \<Longrightarrow> dn_relay_client dn \<Longrightarrow>
     daemon_run py_str so server prog cfg fs0 h0 w0 (dn\<lparr>dn_recon := (dn_recon dn)\<lparr>re_relay := connected\<rparr>\<rparr>, w)"
| relay_task: "daemon_run py_str so server prog cfg fs0 h0 w0 (dn, w) \<Longrightarrow> peer \<in> set (re_relay_tasks (dn_recon dn)) \<Longrightarrow>
     activate_relay_for_peer (truthy_str (ac_device_id (dn_client dn))) peer (dn_recon dn) = Some (JStr target) \<Longrightarrow>
     api_request_relay_session py_str server target ''default'' (dn_client dn) w = (w', asked) \<Longrightarrow>
     daemon_run py_str so server prog cfg fs0 h0 w0 (dn, w')"
| event: "daemon_run py_str so server prog cfg fs0 h0 w0 (dn, w) \<Longrightarrow> dn_websocket dn \<Longrightarrow>
     on_ws_message (dg_hole_punch_enabled cfg) msg = Inr actions \<Longrightarrow> daemon_run py_str so server prog cfg fs0 h0 w0 (dn, w)"
| punched: "daemon_run py_str so server prog cfg fs0 h0 w0 (dn, w) \<Longrightarrow> dn_websocket dn \<Longrightarrow>
     on_punch_success server (dn_client dn) session w = (w', actions) \<Longrightarrow> daemon_run py_str so server prog cfg fs0 h0 w0 (dn, w')"
| punch_failed: "daemon_run py_str so server prog cfg fs0 h0 w0 (dn, w) \<Longrightarrow> dn_websocket dn \<Longrightarrow>
     on_punch_failure server (dn_client dn) session w = w1 \<Longrightarrow>
     on_punch_relay_fallback py_str server (dn_relay_client dn) (dn_client dn) session w1 = (w', actions) \<Longrightarrow>
     daemon_run py_str so server prog cfg fs0 h0 w0 (dn, w')"
| server_alone: "daemon_run py_str so server prog cfg fs0 h0 w0 (dn, w) \<Longrightarrow> daemon_run py_str so server prog cfg fs0 h0 w0 (dn, w')"
| restarted: "daemon_run py_str so server prog cfg fs0 h0 w0 (dn, w) \<Longrightarrow>
     start_daemon py_str server prog cfg up (ss_disk (re_store (dn_recon dn))) (re_host (dn_recon dn)) w = (s, w', Some dn') \<Longrightarrow>
     daemon_run py_str so server prog cfg fs0 h0 w0 (dn', w')"

section \<open>What the turns leave alone\<close>

lemma heartbeat_turn_enrolled:
  "heartbeat_turn py_str server c now (st, w) = (st', w') \<Longrightarrow> das_enrolled st' = das_enrolled st"
  by (auto simp: heartbeat_turn_def split: prod.splits sum.splits if_splits)

lemma endpoint_turn_enrolled:
  "endpoint_turn py_str server cfg servers c io now (st, w) = (st', w') \<Longrightarrow> das_enrolled st' = das_enrolled st"
  by (auto simp: endpoint_turn_def split: prod.splits sum.splits if_splits option.splits)

lemma reconcile_v2_enrolled:
  "das_enrolled (re_state (reconcile_v2 so prog wg interface now p r)) = das_enrolled (re_state r)"
  "re_last_config (reconcile_v2 so prog wg interface now p r) = re_last_config r"
  by (simp_all add: reconcile_v2_def split: option.split)

lemma reconcile_v1_enrolled:
  "reconcile_v1 so prog wg interface now p r = (r', x) \<Longrightarrow> das_enrolled (re_state r') = das_enrolled (re_state r)"
  by (auto simp: reconcile_v1_def apply_ini_def split: if_splits option.splits json.splits sum.splits prod.splits)

lemma loop_turn_enrolled:
  "das_enrolled (re_state (loop_turn so prog wg interface now p1 p2 r)) = das_enrolled (re_state r)"
  "das_enrolled (re_state r) \<Longrightarrow> re_last_config (loop_turn so prog wg interface now p1 p2 r) = re_last_config r"
  by (auto simp: loop_turn_def reconcile_once_def reconcile_v2_enrolled reconcile_v1_enrolled split: prod.split sum.split)

lemma reconcile_turn_enrolled:
  assumes "reconcile_turn py_str so server prog cfg now c (r, w) = (r', w')"
  shows "das_enrolled (re_state r') = das_enrolled (re_state r) \<and> (das_enrolled (re_state r) \<longrightarrow> re_last_config r' = re_last_config r)"
  using assms by (auto simp: reconcile_turn_def Let_def failed_turn_def loop_turn_enrolled split: if_splits prod.splits sum.splits)

lemma start_daemon_recon:
  assumes "start_daemon py_str server prog cfg up fs h w = (s, w', Some dn)"
  shows "re_last_config (dn_recon dn) = None \<and> re_host (dn_recon dn) = start_host prog cfg h \<and> re_store (dn_recon dn) = s"
  using assms by (auto simp: start_daemon_def Let_def split: prod.splits option.splits)

text \<open>
  Whether a process is enrolled is decided at its start; while it is, the text of the last
  configuration of the first version stays unset, which is what activating a relay looks at.
\<close>

lemma daemon_run_last_config:
  assumes "daemon_run py_str so server prog cfg fs0 h0 w0 dw" and "das_enrolled (re_state (dn_recon (fst dw)))"
  shows "re_last_config (dn_recon (fst dw)) = None"
  using assms
proof (induction rule: daemon_run.induct)
  case (boot up s w dn)
  then show ?case by (simp add: start_daemon_recon)
next
  case (reconciling dn w now r w')
  then show ?case using reconcile_turn_enrolled [OF reconciling.hyps(2)] by simp
next
  case (heartbeat dn w now st w')
  then show ?case by (simp add: heartbeat_turn_enrolled [OF heartbeat.hyps(2)])
next
  case (endpoint dn w servers io now st w')
  then show ?case by (simp add: endpoint_turn_enrolled [OF endpoint.hyps(2)])
next
  case (restarted dn w up s w' dn')
  then show ?case by (simp add: start_daemon_recon)
qed simp_all


section \<open>Enrolling, then starting\<close>

lemma strip_twice: "strip (strip s @ [CHR 0x0A]) = strip s"
proof -
  let ?u = "dropWhile is_space s" and ?v = "strip s"
  have nl: "is_space (CHR 0x0A)" by (simp add: is_space_def)
  have v: "?v = rev (dropWhile is_space (rev ?u))" by (simp add: strip_def)
  have last: "?v = [] \<or> \<not> is_space (last ?v)"
    using hd_dropWhile [of is_space "rev ?u"] by (auto simp: v last_rev)
  have hd: "?v = [] \<or> \<not> is_space (hd ?v)"
  proof (cases "?v = []")
    case False
    obtain w where w: "?u = ?v @ w" by (metis v append_eq_conv_conj rev_append rev_rev_ident takeWhile_dropWhile_id)
    then have "hd ?u = hd ?v" using False by simp
    moreover have "?u \<noteq> []" using False w by auto
    ultimately show ?thesis using hd_dropWhile [of is_space s] by simp
  qed simp
  show ?thesis
  proof (cases "?v = []")
    case True
    have "strip [CHR 0x0A] = []" by (simp add: strip_def nl)
    then show ?thesis by (simp only: True append_Nil)
  next
    case False
    then have "dropWhile is_space (?v @ [CHR 0x0A]) = ?v @ [CHR 0x0A]" using hd by (cases ?v) auto
    moreover have "dropWhile is_space (rev ?v) = rev ?v" using False last by (cases "rev ?v") (auto simp: last_rev [symmetric] hd_rev)
    ultimately show ?thesis unfolding strip_def [of "?v @ _"] by (simp add: nl)
  qed
qed

text \<open>What a process started on the disk of an enrollment finds.\<close>

definition enrolled_store :: "string \<Rightarrow> string \<Rightarrow> string \<Rightarrow> string option \<Rightarrow> state_store \<Rightarrow> state_store" where
  "enrolled_store did token key net s = save_identity (Some did) (save_enrollment (Some did) (Some token) key net s)"

lemma enrolled_store_disk:
  "ss_state_dir (enrolled_store did token key net s) = ss_state_dir s"
  "load_dict (ss_disk (enrolled_store did token key net s)) (enrollment_file s) =
     ss_enrollment (save_enrollment (Some did) (Some token) key net s)"
  "load_dict (ss_disk (enrolled_store did token key net s)) (identity_file s) = dict_set (ss_identity s) ''device_id'' (JStr did)"
  "load_dict (ss_disk (enrolled_store did token key net s)) (cache_file s) = load_dict (ss_disk s) (cache_file s)"
  "read_text (ss_disk (enrolled_store did token key net s)) (get_private_key_path s) = Some (key @ [CHR 0x0A])"
  by (simp_all add: enrolled_store_def save_identity_def save_enrollment_def Let_def write_json_def secure_write_def store_paths
      load_dict_def read_json_def read_text_def json_opt_str_def)

lemma restart_enrolled:
  assumes "s' = load_state (new_store (ss_state_dir s) (ss_disk (enrolled_store did token key net s)))"
  shows "get_device_id s' = Some (JStr did)" "get_device_token s' = Some (JStr token)"
    "read_private_key s' = Some (strip (key @ [CHR 0x0A]))" "ss_cache s' = load_dict (ss_disk s) (cache_file s)"
proof -
  have files: "identity_file (new_store (ss_state_dir s) fs) = identity_file s" "enrollment_file (new_store (ss_state_dir s) fs) = enrollment_file s"
    "cache_file (new_store (ss_state_dir s) fs) = cache_file s" "get_private_key_path s' = get_private_key_path s" for fs
    by (simp_all add: assms load_state_def new_store_def store_paths)
  have disk: "ss_disk (new_store (ss_state_dir s) fs) = fs" for fs by (simp add: new_store_def)
  show "get_device_id s' = Some (JStr did)"
    by (simp add: assms get_device_id_def load_state_def files disk enrolled_store_disk)
  show "get_device_token s' = Some (JStr token)"
    using saved_enrollment(1) [of "Some did" "Some token" key net s]
    by (simp add: assms get_device_token_def load_state_def files disk enrolled_store_disk json_opt_str_def)
  show "ss_cache s' = load_dict (ss_disk s) (cache_file s)"
    by (simp add: assms load_state_def files disk enrolled_store_disk)
  have "ss_disk s' = ss_disk (enrolled_store did token key net s)" by (simp add: assms load_state_def disk)
  then show "read_private_key s' = Some (strip (key @ [CHR 0x0A]))"
    by (simp add: read_private_key_def files enrolled_store_disk)
qed

lemma start_enrolled:
  assumes "dg_state_dir cfg = ss_state_dir s" and "did \<noteq> []" and "token \<noteq> []"
  shows "\<exists>s' dn. start_daemon py_str server prog cfg up (ss_disk (enrolled_store did token key net s)) h w = (s', w, Some dn) \<and>
     dn_client dn = \<lparr>ac_device_id = Some did, ac_device_token = Some token\<rparr> \<and> re_store (dn_recon dn) = s' \<and> re_host (dn_recon dn) = start_host prog cfg h \<and>
     das_enrolled (re_state (dn_recon dn)) \<and> das_device_id (re_state (dn_recon dn)) = Some did \<and>
     read_private_key s' = Some (strip (key @ [CHR 0x0A])) \<and> ss_cache s' = load_dict (ss_disk s) (cache_file s) \<and>
     das_reconfigure_count (re_state (dn_recon dn)) = 0 \<and> re_relay (dn_recon dn) = (dg_relay_enabled cfg \<and> up)"
proof -
  define s' where "s' = load_state (new_store (ss_state_dir s) (ss_disk (enrolled_store did token key net s)))"
  note st = restart_enrolled [OF s'_def]
  have texts: "stored_text (get_device_id s') = Some did" "stored_text (get_device_token s') = Some token"
    using assms(2,3) by (simp_all add: st stored_text_def)
  let ?st = "new_daemon_state\<lparr>das_device_id := Some did, das_registered := True, das_enrolled := True\<rparr>"
  have "find_identity py_str server cfg s' w =
      (s', w, Some (?st, \<lparr>ac_device_id = Some did, ac_device_token = Some token\<rparr>))"
    by (simp add: find_identity_def texts set_device_auth_def new_api_client_def)
  then have "start_daemon py_str server prog cfg up (ss_disk (enrolled_store did token key net s)) h w =
      (s', w, Some \<lparr>dn_client = \<lparr>ac_device_id = Some did, ac_device_token = Some token\<rparr>,
        dn_recon = \<lparr>re_store = s', re_host = start_host prog cfg h, re_last_config = None, re_state = ?st, re_relay = dg_relay_enabled cfg \<and> up,
                    re_relay_tasks = [], re_targets = None\<rparr>,
        dn_relay_client = dg_relay_enabled cfg, dn_websocket = dg_ws_enabled cfg\<rparr>)"
    by (simp add: start_daemon_def assms(1) s'_def [symmetric] texts)
  then show ?thesis by (simp add: st new_daemon_state_def)
qed

text \<open>The two exchanges of an enrolling daemon, with the backend at the other end.\<close>

lemma api_enroll_backend:
  assumes "documented (dp_valid p)" and "key \<noteq> []" and "name \<noteq> []" and "length name \<le> 255" and "pk \<noteq> []"
    and "dr = dp_draws p (bk_turn b)"
    and "enroll_by_key (dp_world p) (dr_env dr) (dr_raw dr) (dr_secret dr)
       \<lparr>eq_preauth_key = key, eq_name = name, eq_public_key = pk, eq_hostname = None\<rparr> (bk_db b) = Inr (reply, d', es)"
  shows "api_enroll py_str (backend_server p rest) key name pk (c, b) =
    ((\<lparr>ac_device_id = Some (ek_device_id reply), ac_device_token = Some (ek_device_token reply)\<rparr>,
      \<lparr>bk_db = d', bk_turn = Suc (bk_turn b)\<rparr>),
     Inr \<lparr>er_success = True, er_device_id = Some (ek_device_id reply), er_device_token = Some (ek_device_token reply),
          er_network_id = Some (ek_network_id reply), er_ip_address = Some (ek_ip_address reply),
          er_config_v2 = Some (config_v2_dict (ek_config_v2 reply)), er_error = None\<rparr>)"
proof -
  have ok: "accepted (dp_valid p) EnrollByKeyRequest (enroll_rq key name pk)"
    using bodies_accepted(1) [OF assms(1,3,4,2,5)] .
  have "backend_server p rest (enroll_rq key name pk) b =
      (\<lparr>bk_db = d', bk_turn = Suc (bk_turn b)\<rparr>, json_reply 201 (enroll_reply_json reply))"
    using run_handler_ok [of "enroll_by_key (dp_world p) (dr_env dr) (dr_raw dr) (dr_secret dr)
        \<lparr>eq_preauth_key = key, eq_name = name, eq_public_key = pk, eq_hostname = None\<rparr>" b reply d' es] assms(7)
    by (simp add: backend_enroll serve_enroll_def ok enroll_request_read Let_def assms(6))
  then show ?thesis
    by (cases c) (simp add: api_enroll_def exchange_def json_reply_def body_dict_def enroll_reply_json_def str_field_def
        dict_get_add set_device_auth_def)
qed

lemma api_pull_backend:
  assumes "did \<noteq> []" and "token \<noteq> []" and "parse_uuid did = Inr did"
    and "get_device_config_v2 (dp_world p) (dr_env (dp_draws p (bk_turn b))) did (Some (''Bearer '' @ token)) (bk_db b) = Inr c"
  shows "api_pull_config_v2 py_str (backend_server p rest) \<lparr>ac_device_id = Some did, ac_device_token = Some token\<rparr> b =
    (b\<lparr>bk_turn := Suc (bk_turn b)\<rparr>, Inr (pull_of c))"
proof -
  let ?h = "\<lambda>d. bind_result (get_device_config_v2 (dp_world p) (dr_env (dp_draws p (bk_turn b))) did
      (Some (''Bearer '' @ token)) d) (\<lambda>c. Inr (c, d, []))"
  have "run_handler 200 (\<lambda>c. JObj (config_v2_dict c)) ?h b =
      (\<lparr>bk_db = bk_db b, bk_turn = Suc (bk_turn b)\<rparr>, json_reply 200 (JObj (config_v2_dict c)))"
    by (rule run_handler_ok [where es = "[]"]) (simp only: assms(4) bind_result_simps)
  then have "backend_server p rest (config_v2_rq did (Some (''Bearer '' @ token))) b =
      (b\<lparr>bk_turn := Suc (bk_turn b)\<rparr>, json_reply 200 (JObj (config_v2_dict c)))"
    by (simp add: backend_config_v2 assms(1,3) serve_config_v2_def)
  then show ?thesis
    by (simp add: api_pull_config_v2_def auth_headers_def assms(1,2) exchange_def json_reply_def body_dict_def read_config_v2)
qed

lemma enrolled_token:
  assumes "enroll_by_key w e raw secret req d = Inr (reply, d', es)"
  shows "ek_device_token reply \<noteq> []"
  using assms
proof (cases rule: enroll_by_key_Inr)
  case (1 k n ip token prefix hashed r)
  have "token \<noteq> []" using 1(6) by (auto simp: generate_device_token_def Let_def TOKEN_PREFIX_def)
  then show ?thesis using 1 by simp
qed

lemma enrolled_hash:
  assumes "enroll_by_key w e raw secret req d = Inr (reply, d', es)"
  shows "\<exists>s. cv_hash (ek_config_v2 reply) = dw_sha256 w s"
  using assms
proof (cases rule: enroll_by_key_Inr)
  case (1 k n ip token prefix hashed r)
  then show ?thesis using build_config_v2_hash [OF 1(8)] by (auto simp: compute_config_hash_def)
qed

lemma cmd_enroll_succeeds:
  assumes "generate_keypair prog ''wg'' h = (h1, Some (priv, pub))" and "priv \<noteq> []" and "pub \<noteq> []"
    and "\<not> has_enrollment s" and "s = load_state (new_store (dg_state_dir (enroll_config args)) fs)"
    and "api_enroll py_str server (ea_preauth_key args) (ea_name args) pub (new_api_client, w) = ((c, w'), Inr r)"
    and "er_success r" and "er_device_id r = Some did" and "er_device_token r = Some token"
  shows "\<exists>h'. cmd_enroll py_str so server prog args fs h w = (enrolled_store did token priv (er_network_id r) s, h', w', 0)"
  using assms by (simp add: cmd_enroll_def Let_def enrolled_store_def enroll_config_def default_daemon_config_def)

lemma reconcile_turn_pulls:
  assumes "api_pull_config_v2 py_str server c w = (w', Inr p)" and "das_enrolled (re_state r)"
    and "read_private_key (re_store r) = Some key" and "key \<noteq> []"
    and "reconcile_once so prog (dg_wg_binary cfg) (dg_interface_name cfg) now (config_failed []) p r = (r', Inr ())"
  shows "reconcile_turn py_str so server prog cfg now c (r, w) = (fetched now r', w')"
  using assms by (simp add: reconcile_turn_def Let_def loop_turn_def)

text \<open>The first turn of an enrolled daemon that gets a configuration and has none in its cache.\<close>

lemma first_turn_applies:
  assumes "programs_start prog" and "api_pull_config_v2 py_str server c w = (w', Inr (pull_of cv))" and "das_enrolled (re_state r)"
    and "read_private_key (re_store r) = Some key" and "key \<noteq> []" and "ss_cache (re_store r) = []" and "cv_hash cv \<noteq> []"
    and "wg = dg_wg_binary cfg" and "interface = dg_interface_name cfg"
  shows "\<exists>rc. reconcile_turn py_str so server prog cfg now c (r, w) = (rc, w') \<and> config_known (pull_of cv) (re_store rc) \<and>
    ([wg, ''set'', interface, ''private-key'', ''/dev/stdin'', ''listen-port'', ''51820''], Some key) \<in> set (h_log (re_host rc)) \<and>
    (\<forall>x \<in> set (cv_peers cv). (wg # peer_args interface (desired_peer_of x), None) \<in> set (h_log (re_host rc)))"
proof -
  have p: "vp_success (pull_of cv)" "vp_interface (pull_of cv) = Some (cv_interface cv)" "vp_peers (pull_of cv) = Some (cv_peers cv)"
    by (simp_all add: pull_of_def)
  have fresh: "\<not> config_known (pull_of cv) (re_store r)"
    using assms(6,7) by (simp add: config_known_def pull_of_def get_cache_def dict_get_default_def dict_get_def)
  obtain rc where once: "reconcile_once so prog wg interface now (config_failed []) (pull_of cv) r = (rc, Inr ())"
    and host: "re_host rc = host_after prog (before_dump wg interface (cv_interface cv) key @ [([wg, ''show'', interface, ''dump''], None)] @
      map (\<lambda>x. (wg # peer_args interface (desired_peer_of x), None)) (cv_peers cv) @
      map (\<lambda>k. ([wg, ''set'', interface, ''peer'', k, ''remove''], None))
        (filter (\<lambda>k. k \<notin> pi_public_key ` set (cv_peers cv))
          (so (dump_keys prog wg interface (host_after prog (before_dump wg interface (cv_interface cv) key) (re_host r)))))) (re_host r)"
    and known: "config_known (pull_of cv) (re_store rc)"
    using reconcile_once_commands [OF assms(1,3,4,5) p fresh refl, of so wg interface now "config_failed []"]
    by (elim exE conjE) (rule that)
  have "reconcile_turn py_str so server prog cfg now c (r, w) = (fetched now rc, w')"
    using once unfolding assms(8,9) by (rule reconcile_turn_pulls [OF assms(2-5)])
  then show ?thesis using known by (intro exI [of _ "fetched now rc"]) (auto simp: host before_dump_def)
qed

text \<open>
  C1. Enrolling, then starting, end to end. On a machine with an empty state directory, when the key
  pair can be made and the backend accepts the pre-auth key, \<open>midscaled enroll\<close> exits with 0; a daemon
  started on that state directory is enrolled, as the one device that was added and has the public key;
  its first turn gets the configuration the backend builds for that device, whose peers are those it was
  told on enrolling, leaves the backend as it is, sets the private key that belongs to the public key on
  the interface, and sets every peer of the configuration, with the addresses and endpoint given there.
\<close>

theorem enroll_then_start:
  assumes "generate_keypair prog ''wg'' h = (h1, Some (priv, pub))" and "priv \<noteq> []" and "pub \<noteq> []" and "programs_start prog"
    and "documented (dp_valid p)" and "ea_preauth_key args \<noteq> []" and "ea_name args \<noteq> []" and "length (ea_name args) \<le> 255"
    and "dr = dp_draws p (bk_turn b)" and "w = dp_world p"
    and "enroll_by_key w (dr_env dr) (dr_raw dr) (dr_secret dr)
       \<lparr>eq_preauth_key = ea_preauth_key args, eq_name = ea_name args, eq_public_key = pub, eq_hostname = None\<rparr> (bk_db b) =
         Inr (reply, d', es)"
    and "length (dr_raw dr) = 8" and "dr_secret dr \<noteq> []" and "dw_verify w (dr_secret dr) (dw_hash w (dr_secret dr))"
    and "dw_hash w (dr_secret dr) \<noteq> []" and "\<And>t. dw_jwt_decode w t (ek_device_token reply) = None"
    and "parse_uuid (ek_device_id reply) = Inr (ek_device_id reply)"
    and "env_uuid (dr_env dr) 0 \<notin> dev_id ` set (devices (bk_db b))"
    and "Some (fst (snd (generate_device_token (dw_hash w) (dr_raw dr) (dr_secret dr)))) \<notin> dev_token_prefix ` set (devices (bk_db b))"
    and "dg_state_dir cfg = dg_state_dir (enroll_config args)" and "\<And>s. dw_sha256 w s \<noteq> []"
    and "server = backend_server p rest"
  shows "\<exists>s h' b1 s' dn r c rc b2.
    cmd_enroll py_str so server prog args Map.empty h b = (s, h', b1, 0) \<and> bk_db b1 = d' \<and>
    start_daemon py_str server prog cfg up (ss_disk s) h' b1 = (s', b1, Some dn) \<and>
    das_enrolled (re_state (dn_recon dn)) \<and> das_device_id (re_state (dn_recon dn)) = Some (dev_id r) \<and>
    devices d' = devices (bk_db b) @ [r] \<and> dev_public_key r = Some pub \<and>
    reconcile_turn py_str so server prog cfg now (dn_client dn) (dn_recon dn, b1) = (rc, b2) \<and>
    get_device_config_v2 w (dr_env (dp_draws p (bk_turn b1))) (dev_id r) (Some (''Bearer '' @ ek_device_token reply)) d' = Inr c \<and>
    cv_hash c = cv_hash (ek_config_v2 reply) \<and> cv_peers c = cv_peers (ek_config_v2 reply) \<and>
    bk_db b2 = d' \<and> config_known (pull_of c) (re_store rc) \<and>
    ([dg_wg_binary cfg, ''set'', dg_interface_name cfg, ''private-key'', ''/dev/stdin'', ''listen-port'', ''51820''], Some priv)
      \<in> set (h_log (re_host rc)) \<and>
    (\<forall>x \<in> set (cv_peers c). (dg_wg_binary cfg # peer_args (dg_interface_name cfg) (desired_peer_of x), None) \<in> set (h_log (re_host rc)))"
proof -
  let ?did = "ek_device_id reply" and ?token = "ek_device_token reply"
  let ?b1 = "\<lparr>bk_db = d', bk_turn = Suc (bk_turn b)\<rparr>" and ?c = "\<lparr>ac_device_id = Some ?did, ac_device_token = Some ?token\<rparr>"
  define s0 where "s0 = load_state (new_store (dg_state_dir (enroll_config args)) Map.empty)"
  have s0: "\<not> has_enrollment s0" "ss_state_dir s0 = dg_state_dir cfg" "load_dict (ss_disk s0) (cache_file s0) = []"
    by (simp_all add: s0_def has_enrollment_def load_state_def new_store_def load_dict_def read_json_def dict_get_def assms(20))
  let ?e = "dr_env (dp_draws p (Suc (bk_turn b)))"
  obtain r c where r: "devices d' = devices (bk_db b) @ [r]" "dev_id r = ?did" "dev_public_key r = Some pub"
    and c': "get_device_config_v2 w ?e (dev_id r) (Some (''Bearer '' @ ?token)) d' = Inr c" "cv_hash c = cv_hash (ek_config_v2 reply)"
      "cv_peers c = cv_peers (ek_config_v2 reply)"
    using enrolled_device [OF assms(11-15) assms(16) assms(18,19), of ?e w ?e "[]" "[]" "\<lparr>eq_preauth_key = [], eq_name = [], eq_public_key = [], eq_hostname = None\<rparr>", unfolded enroll_request.simps]
    by (elim exE conjE) (rule that; assumption)
  have c: "get_device_config_v2 w ?e ?did (Some (''Bearer '' @ ?token)) d' = Inr c"
    using c'(1) unfolding r(2) .
  have ne: "?did \<noteq> []" "?token \<noteq> []"
    using assms(17) enrolled_token [OF assms(11)] by (auto simp: parse_uuid_def Let_def split: if_splits)
  note enrolled = api_enroll_backend [OF assms(5-8,3,9), folded assms(10), OF assms(11), of py_str rest new_api_client, folded assms(22)]
  obtain h' where cmd: "cmd_enroll py_str so server prog args Map.empty h b =
      (enrolled_store ?did ?token priv (Some (ek_network_id reply)) s0, h', ?b1, 0)"
    using cmd_enroll_succeeds [OF assms(1-3) s0(1) s0_def enrolled, of ?did ?token so] by auto
  obtain s' dn where start: "start_daemon py_str server prog cfg up (ss_disk (enrolled_store ?did ?token priv (Some (ek_network_id reply)) s0)) h' ?b1 = (s', ?b1, Some dn)"
    and dn: "dn_client dn = ?c" "re_store (dn_recon dn) = s'" "das_enrolled (re_state (dn_recon dn))"
      "das_device_id (re_state (dn_recon dn)) = Some ?did" "ss_cache s' = []"
    and key: "read_private_key s' = Some (strip (priv @ [CHR 0x0A]))"
    using start_enrolled [OF s0(2) [symmetric] ne, of py_str server prog up priv "Some (ek_network_id reply)" h' ?b1] s0(3)
    by (elim exE conjE) (rule that, assumption+, simp)
  have pull: "api_pull_config_v2 py_str server ?c ?b1 = (\<lparr>bk_db = d', bk_turn = Suc (Suc (bk_turn b))\<rparr>, Inr (pull_of c))"
    (is "_ = (?b2, _)")
    using api_pull_backend [OF ne assms(17), of p ?b1 c py_str rest] c by (simp add: assms(10,22))
  have priv: "strip (priv @ [CHR 0x0A]) = priv"
    using assms(1) strip_twice by (auto simp: generate_keypair_def split: prod.splits option.splits if_splits)
  have key': "read_private_key (re_store (dn_recon dn)) = Some priv" using key priv by (simp add: dn)
  obtain rc where turn: "reconcile_turn py_str so server prog cfg now (dn_client dn) (dn_recon dn, ?b1) = (rc, ?b2)"
    "config_known (pull_of c) (re_store rc)"
    "([dg_wg_binary cfg, ''set'', dg_interface_name cfg, ''private-key'', ''/dev/stdin'', ''listen-port'', ''51820''], Some priv)
      \<in> set (h_log (re_host rc))"
    "\<forall>x \<in> set (cv_peers c). (dg_wg_binary cfg # peer_args (dg_interface_name cfg) (desired_peer_of x), None) \<in> set (h_log (re_host rc))"
    using first_turn_applies [OF assms(4) pull dn(3) key' assms(2) _ _ refl refl, of so cfg now] c'(2) assms(21) enrolled_hash [OF assms(11)]
    unfolding dn(1) by (auto simp: dn)
  show ?thesis
    by (rule exI, rule exI [of _ h'], rule exI [of _ ?b1], rule exI [of _ s'], rule exI [of _ dn], rule exI [of _ r], rule exI [of _ c],
        rule exI [of _ rc], rule exI [of _ ?b2], intro conjI, rule cmd)
      (use start dn(3,4) r c' turn in \<open>simp_all\<close>)
qed

definition demo_keygen :: "unit programs" where
  "demo_keygen c x = (x, Some (0, ''key'', []))"

definition demo_enroll_args :: enroll_args where
  "demo_enroll_args = \<lparr>ea_server = ''https://m'', ea_preauth_key = ''midscale_x'', ea_name = ''laptop'', ea_state_dir = ''/s'',
     ea_insecure = False, ea_apply = False\<rparr>"

definition demo_deployment :: deployment where
  "demo_deployment = \<lparr>dp_world = demo_device_world\<lparr>dw_sha256 := (\<lambda>s. ''h'' @ s)\<rparr>, dp_valid = demo_valid,
     dp_draws = (\<lambda>_. \<lparr>dr_env = demo_env, dr_raw = ''abcdefgh'', dr_secret = ''secret''\<rparr>), dp_bearer_401 = True,
     dp_unprocessable = JNull\<rparr>"

definition demo_backend :: "backend server" where
  "demo_backend = backend_server demo_deployment (\<lambda>rq b. (b, Request_error ''down''))"

definition demo_cfg :: daemon_config where
  "demo_cfg = enroll_config demo_enroll_args"

lemma demo_keypair: "generate_keypair demo_keygen ''wg'' h = (\<lparr>h_log = h_log h @ [([''wg'', ''genkey''], None), ([''wg'', ''pubkey''], Some ''key'')],
    h_state = ()\<rparr>, Some (''key'', ''key''))"
  by (simp add: generate_keypair_def run_program_def demo_keygen_def strip_def is_space_def)

theorem enroll_then_start_witness:
  "\<exists>s h' b1 s' dn r. cmd_enroll (\<lambda>_. []) sorted_list_of_set demo_backend demo_keygen demo_enroll_args Map.empty \<lparr>h_log = [], h_state = ()\<rparr>
       \<lparr>bk_db = demo_key_database, bk_turn = 0\<rparr> = (s, h', b1, 0) \<and>
     start_daemon (\<lambda>_. []) demo_backend demo_keygen demo_cfg True (ss_disk s) h' b1 = (s', b1, Some dn) \<and>
     devices (bk_db b1) = [r] \<and> dev_public_key r = Some ''key'' \<and> das_device_id (re_state (dn_recon dn)) = Some (dev_id r)"
proof -
  let ?w = "dp_world demo_deployment" and ?b = "\<lparr>bk_db = demo_key_database, bk_turn = 0\<rparr>" and ?dr = "dp_draws demo_deployment 0"
  obtain reply d' es where run: "enroll_by_key ?w (dr_env ?dr) (dr_raw ?dr) (dr_secret ?dr)
      \<lparr>eq_preauth_key = ea_preauth_key demo_enroll_args, eq_name = ea_name demo_enroll_args, eq_public_key = ''key'', eq_hostname = None\<rparr>
      (bk_db ?b) = Inr (reply, d', es)"
    using demo_enrollment_digest [of "\<lambda>s. ''h'' @ s"]
    by (auto simp: demo_deployment_def demo_enroll_args_def demo_enroll_request_def)
  have did: "ek_device_id reply = env_uuid demo_env 0"
    using run by (auto elim!: enroll_by_key_Inr simp: demo_deployment_def new_device_def)
  have key: "''key'' \<noteq> []" and prog: "programs_start demo_keygen" and doc: "documented (dp_valid demo_deployment)"
    by (simp_all add: programs_start_def demo_keygen_def demo_deployment_def demo_documented)
  have args: "ea_preauth_key demo_enroll_args \<noteq> []" "ea_name demo_enroll_args \<noteq> []" "length (ea_name demo_enroll_args) \<le> 255"
    by (simp_all add: demo_enroll_args_def)
  have dr: "length (dr_raw ?dr) = 8" "dr_secret ?dr \<noteq> []" "dw_verify ?w (dr_secret ?dr) (dw_hash ?w (dr_secret ?dr))"
    "dw_hash ?w (dr_secret ?dr) \<noteq> []" "dw_jwt_decode ?w t (ek_device_token reply) = None"
    "parse_uuid (ek_device_id reply) = Inr (ek_device_id reply)" "env_uuid (dr_env ?dr) 0 \<notin> dev_id ` set (devices (bk_db ?b))"
    "Some (fst (snd (generate_device_token (dw_hash ?w) (dr_raw ?dr) (dr_secret ?dr)))) \<notin> dev_token_prefix ` set (devices (bk_db ?b))"
    "dg_state_dir demo_cfg = dg_state_dir (enroll_config demo_enroll_args)" "dw_sha256 ?w s \<noteq> []" for t s
    using demo_uuid by (simp_all add: did demo_deployment_def demo_device_world_def demo_key_database_def empty_database_def demo_cfg_def demo_env_def)
  have turn: "?dr = dp_draws demo_deployment (bk_turn ?b)" by simp
  from enroll_then_start [OF demo_keypair [of "\<lparr>h_log = [], h_state = ()\<rparr>"] key key prog doc args turn refl run dr demo_backend_def,
      where py_str = "\<lambda>_. []" and so = sorted_list_of_set and up = True and now = 0]
  obtain s h' b1 s' dn r where "cmd_enroll (\<lambda>_. []) sorted_list_of_set demo_backend demo_keygen demo_enroll_args Map.empty
      \<lparr>h_log = [], h_state = ()\<rparr> ?b = (s, h', b1, 0)"
    and "bk_db b1 = d'" and "start_daemon (\<lambda>_. []) demo_backend demo_keygen demo_cfg True (ss_disk s) h' b1 = (s', b1, Some dn)"
    and "das_device_id (re_state (dn_recon dn)) = Some (dev_id r)" and "devices d' = devices (bk_db ?b) @ [r]"
    and "dev_public_key r = Some ''key''"
    by (elim exE conjE) (rule that, assumption+)
  moreover have "devices (bk_db ?b) = []" by (simp add: demo_key_database_def empty_database_def)
  ultimately show ?thesis
    by (intro exI [of _ s] exI [of _ h'] exI [of _ b1] exI [of _ s'] exI [of _ dn] exI [of _ r] conjI) simp_all
qed

section \<open>Over any run\<close>



text \<open>The state of a daemon that has only ever registered: nothing of an enrollment, no configuration.\<close>

definition only_registered :: "'x programs \<Rightarrow> daemon_config \<Rightarrow> 'x host \<Rightarrow> 'x daemon \<Rightarrow> bool" where
  "only_registered prog cfg h0 dn \<longleftrightarrow>
     (let r = dn_recon dn; s = re_store r
      in dn_client dn = new_api_client \<and> \<not> dn_websocket dn \<and> \<not> dn_relay_client dn \<and>
         (\<exists>n. re_host r = (start_host prog cfg ^^ Suc n) h0) \<and> \<not> das_enrolled (re_state r) \<and> re_last_config r = None \<and>
         ss_state_dir s = dg_state_dir cfg \<and> ss_cache s = [] \<and> ss_disk s (enrollment_file s) = None \<and> ss_disk s (cache_file s) = None)"

definition no_enrollment :: "string \<Rightarrow> disk \<Rightarrow> bool" where
  "no_enrollment dir fs \<longleftrightarrow> (let s = new_store dir fs in fs (enrollment_file s) = None \<and> fs (cache_file s) = None)"

lemma find_identity_legacy:
  assumes "find_identity py_str server cfg s w = (s', w', Some (st, c))" and "get_device_token s = None" and "\<not> has_enrollment s"
  shows "c = new_api_client \<and> \<not> das_enrolled st \<and> (\<exists>did. s' = save_identity did s)"
  using assms
  by (cases "get_device_id s")
    (auto simp: find_identity_def stored_text_def legacy_register_def new_daemon_state_def
      split: prod.splits sum.splits if_splits json.splits)

lemma start_without_enrollment:
  assumes "start_daemon py_str server prog cfg up fs h w = (s, w', Some dn)" and "no_enrollment (dg_state_dir cfg) fs"
  shows "only_registered prog cfg h dn"
proof -
  define s0 where "s0 = load_state (new_store (dg_state_dir cfg) fs)"
  have s0: "ss_enrollment s0 = []" "ss_cache s0 = []" "ss_disk s0 = fs" "ss_state_dir s0 = dg_state_dir cfg"
    "ss_disk s0 (enrollment_file s0) = None" "ss_disk s0 (cache_file s0) = None"
    using assms(2)
    by (simp_all add: s0_def no_enrollment_def Let_def load_state_def new_store_def load_dict_def read_json_def store_paths)
  have tok: "get_device_token s0 = None" "\<not> has_enrollment s0"
    by (simp_all add: get_device_token_def has_enrollment_def s0 dict_get_def)
  obtain s' st c where found: "find_identity py_str server cfg s0 w = (s', w', Some (st, c))"
    and dn: "dn_client dn = c" "re_state (dn_recon dn) = st"
    using assms(1) by (auto simp: start_daemon_def s0_def [symmetric] Let_def split: prod.splits option.splits)
  obtain did where s': "s' = save_identity did s0" and c: "c = new_api_client" "\<not> das_enrolled st"
    using find_identity_legacy [OF found tok] by blast
  have "get_device_token s' = None" using tok(1) by (simp add: s' save_identity_def write_json_def get_device_token_def Let_def)
  then have "re_store (dn_recon dn) = s'" "\<not> dn_websocket dn" "\<not> dn_relay_client dn"
    using assms(1) found by (auto simp: start_daemon_def s0_def [symmetric] Let_def stored_text_def)
  then show ?thesis
    using start_daemon_recon [OF assms(1)] s0 s' exI [of "\<lambda>n. start_host prog cfg h = (start_host prog cfg ^^ Suc n) h" 0]
    by (simp add: only_registered_def Let_def dn c save_identity_def write_json_def store_paths)
qed

lemma unidentified_client:
  "api_pull_config py_str server new_api_client w = (w, Inr (config_failed ''not registered''))"
  "api_report py_str server missing ok rq new_api_client w = (w, Inr (api_failed missing))"
  by (simp_all add: api_pull_config_def api_report_def new_api_client_def)

lemma only_registered_reconcile:
  assumes "only_registered prog cfg h0 dn"
  shows "reconcile_turn py_str so server prog cfg now (dn_client dn) (dn_recon dn, w) = (fetched now (dn_recon dn), w)"
  using assms
  by (simp add: only_registered_def Let_def reconcile_turn_def unidentified_client loop_turn_def reconcile_once_def
      reconcile_v1_def config_failed_def get_cache_def dict_get_default_def dict_get_def truthy_json_def)

lemma only_registered_heartbeat:
  "only_registered prog cfg h0 dn \<Longrightarrow> heartbeat_turn py_str server (dn_client dn) now (st, w) = (st, w)"
  by (simp add: only_registered_def Let_def heartbeat_turn_def api_send_heartbeat_def unidentified_client api_failed_def)

lemma only_registered_endpoint:
  "only_registered prog cfg h0 dn \<Longrightarrow> endpoint_turn py_str server cfg servers (dn_client dn) io now (st, w) = (st, w)"
  by (simp add: only_registered_def Let_def endpoint_turn_def api_report_endpoint_def unidentified_client api_failed_def
      split: option.split)

lemma only_registered_routes:
  assumes "only_registered prog cfg h0 dn"
  shows "routes_turn py_str server cfg (dn_client dn) w = w"
proof -
  have "advertise_all py_str server new_api_client ps w = (w, Inr ())" for ps
    by (induction ps) (simp_all add: api_advertise_route_def unidentified_client)
  then show ?thesis using assms by (simp add: only_registered_def Let_def routes_turn_def)
qed

lemma only_registered_fields:
  assumes "only_registered prog cfg h0 dn"
  shows "only_registered prog cfg h0 (dn\<lparr>dn_recon := fetched now (dn_recon dn)\<rparr>)"
    "\<exists>n. re_host (dn_recon dn) = (start_host prog cfg ^^ Suc n) h0" "\<not> dn_websocket dn" "\<not> dn_relay_client dn" "no_enrollment (dg_state_dir cfg) (ss_disk (re_store (dn_recon dn)))"
  using assms by (auto simp: only_registered_def no_enrollment_def Let_def new_store_def store_paths)

text \<open>A start on the host of a registered daemon is one more start.\<close>

lemma only_registered_again:
  assumes "only_registered prog cfg (re_host (dn_recon dn)) dn'" and "only_registered prog cfg h0 dn"
  shows "only_registered prog cfg h0 dn'"
proof -
  obtain n m where "re_host (dn_recon dn) = (start_host prog cfg ^^ Suc n) h0"
    "re_host (dn_recon dn') = (start_host prog cfg ^^ Suc m) (re_host (dn_recon dn))"
    using assms by (auto simp: only_registered_def Let_def)
  then have "re_host (dn_recon dn') = (start_host prog cfg ^^ (Suc m + Suc n)) h0" by (simp only: funpow_add comp_apply)
  then have "\<exists>k. re_host (dn_recon dn') = (start_host prog cfg ^^ Suc k) h0" unfolding add_Suc by (rule exI)
  then show ?thesis using assms(1) by (simp add: only_registered_def Let_def)
qed

lemma daemon_run_only_registered:
  assumes "daemon_run py_str so server prog cfg fs0 h0 w0 dw" and "no_enrollment (dg_state_dir cfg) fs0"
  shows "only_registered prog cfg h0 (fst dw)"
  using assms
proof (induction rule: daemon_run.induct)
  case (boot up s w dn)
  then show ?case by (simp add: start_without_enrollment)
next
  case (reconciling dn w now r w')
  then show ?case by (auto simp: only_registered_reconcile only_registered_fields(1))
next
  case (heartbeat dn w now st w')
  then show ?case by (auto simp: only_registered_heartbeat)
next
  case (endpoint dn w servers io now st w')
  then show ?case by (auto simp: only_registered_endpoint)
next
  case (relay_link dn w connected)
  then show ?case by (auto dest: only_registered_fields(4))
next
  case (restarted dn w up s w' dn')
  then have reg: "only_registered prog cfg h0 dn" by simp
  show ?case
    using start_without_enrollment [OF restarted.hyps(2) only_registered_fields(5) [OF reg]] reg by (auto intro: only_registered_again)
qed simp_all

lemma restart_registers:
  assumes "no_enrollment (dg_state_dir cfg) fs" and "dg_preauth_key cfg \<noteq> []"
  shows "fst (snd (start_daemon py_str server prog cfg up fs h w)) =
    fst (api_register py_str server (dg_preauth_key cfg) (dg_device_name cfg) w)"
proof -
  define s0 where "s0 = load_state (new_store (dg_state_dir cfg) fs)"
  have tok: "get_device_token s0 = None" "\<not> has_enrollment s0"
    using assms(1) by (simp_all add: s0_def no_enrollment_def Let_def load_state_def new_store_def load_dict_def read_json_def
        store_paths get_device_token_def has_enrollment_def dict_get_def)
  have "fst (snd (find_identity py_str server cfg s0 w)) = fst (api_register py_str server (dg_preauth_key cfg) (dg_device_name cfg) w)"
    using assms(2) tok by (auto simp: find_identity_def stored_text_def legacy_register_def split: prod.split sum.split option.split)
  then show ?thesis by (auto simp: start_daemon_def s0_def [symmetric] Let_def split: prod.split option.split)
qed

text \<open>
  C2. A daemon that registers with its pre-auth key instead of enrolling does nothing afterwards. From a
  state directory without an enrollment, whatever the server answers, in every reachable state no turn
  of any loop makes a request, neither the relay client nor the web socket has been started, and the
  host is as the starts of the process left it: each of them turns forwarding on when there are routes
  to advertise, and without any the host is untouched. A restart registers once more, since the
  identity that was saved is not enough to be recognised.
\<close>

theorem registered_daemon_inert:
  assumes "daemon_run py_str so server prog cfg fs0 h0 w0 (dn, w)" and "no_enrollment (dg_state_dir cfg) fs0"
    and "dg_preauth_key cfg \<noteq> []"
  shows "(\<exists>n. re_host (dn_recon dn) = (start_host prog cfg ^^ Suc n) h0) \<and>
    (dg_advertised_routes cfg = [] \<longrightarrow> re_host (dn_recon dn) = h0) \<and> \<not> dn_websocket dn \<and> \<not> dn_relay_client dn \<and>
    re_host (fst (reconcile_turn py_str so server prog cfg now (dn_client dn) (dn_recon dn, w))) = re_host (dn_recon dn) \<and>
    snd (reconcile_turn py_str so server prog cfg now (dn_client dn) (dn_recon dn, w)) = w \<and>
    snd (heartbeat_turn py_str server (dn_client dn) now (re_state (dn_recon dn), w)) = w \<and>
    snd (endpoint_turn py_str server cfg servers (dn_client dn) io now (re_state (dn_recon dn), w)) = w \<and>
    routes_turn py_str server cfg (dn_client dn) w = w \<and>
    fst (snd (start_daemon py_str server prog cfg up (ss_disk (re_store (dn_recon dn))) h w)) =
      fst (api_register py_str server (dg_preauth_key cfg) (dg_device_name cfg) w)"
proof -
  have reg: "only_registered prog cfg h0 dn" using daemon_run_only_registered [OF assms(1,2)] by simp
  note fields = only_registered_fields(2-4) [OF reg]
  have "(start_host prog cfg ^^ n) h0 = h0" if "dg_advertised_routes cfg = []" for n
    by (induction n) (simp_all add: start_host_def that)
  then have "dg_advertised_routes cfg = [] \<longrightarrow> re_host (dn_recon dn) = h0" using fields(1) by metis
  with reg fields show ?thesis
    using restart_registers [OF only_registered_fields(5) [OF reg] assms(3)]
    by (simp add: only_registered_reconcile only_registered_heartbeat only_registered_endpoint only_registered_routes)
qed

definition counting_server :: "nat server" where
  "counting_server rq n = (Suc n, Reply 201 (Some (JObj [(''id'', JStr ''d'')])) [])"

theorem registered_daemon_inert_witness:
  "\<exists>dn. daemon_run (\<lambda>_. []) sorted_list_of_set counting_server demo_programs demo_cfg Map.empty \<lparr>h_log = [], h_state = ()\<rparr> 0 (dn, 1) \<and>
     routes_turn (\<lambda>_. []) counting_server demo_cfg (dn_client dn) 1 = 1 \<and>
     fst (snd (start_daemon (\<lambda>_. []) counting_server demo_programs demo_cfg True (ss_disk (re_store (dn_recon dn))) \<lparr>h_log = [], h_state = ()\<rparr> 1)) = (2 :: nat)"
proof -
  have empty: "no_enrollment (dg_state_dir demo_cfg) Map.empty" by (simp add: no_enrollment_def Let_def)
  have key: "dg_preauth_key demo_cfg \<noteq> []" by (simp add: demo_cfg_def enroll_config_def demo_enroll_args_def)
  have reg: "api_register (\<lambda>_. []) counting_server k n w =
      (Suc w, Inr \<lparr>rr_success = True, rr_device_id = Some ''d'', rr_error = None\<rparr>)" for k n w
    by (simp add: api_register_def exchange_def counting_server_def body_dict_def str_field_def dict_get_add)
  obtain s dn where "start_daemon (\<lambda>_. []) counting_server demo_programs demo_cfg True Map.empty \<lparr>h_log = [], h_state = ()\<rparr> 0 = (s, Suc 0, Some dn)"
    using key by (auto simp: start_daemon_def find_identity_def load_state_def new_store_def load_dict_def read_json_def get_device_id_def
        get_device_token_def dict_get_def stored_text_def has_enrollment_def legacy_register_def reg new_daemon_state_def Let_def)
  then have run: "daemon_run (\<lambda>_. []) sorted_list_of_set counting_server demo_programs demo_cfg Map.empty \<lparr>h_log = [], h_state = ()\<rparr> 0 (dn, 1)"
    by (intro daemon_run.boot [where up = True and s = s]) simp
  show ?thesis
    using run registered_daemon_inert [OF run empty key, where up = True and h = "\<lparr>h_log = [], h_state = ()\<rparr>"] reg [of _ _ 1]
    by (intro exI [of _ dn]) (simp add: numeral_2_eq_2)
qed

section \<open>Reports to the backend\<close>

lemma row_stamps:
  "map (\<lambda>r. r\<lparr>dev_last_seen_at := None, dev_updated_at := 0\<rparr>) (update_row dev_id did (apply_heartbeat now flush None None) rs) =
   map (\<lambda>r. r\<lparr>dev_last_seen_at := None, dev_updated_at := 0\<rparr>) rs"
  by (simp add: update_row_def apply_heartbeat_def Let_def)

lemma refuse_db [simp]: "bk_db (fst (refuse reply b)) = bk_db b"
  by (simp add: refuse_def)

lemma run_handler_db: "bk_db (fst (run_handler status js h b)) = snd (run_request h (bk_db b))"
  by (simp add: run_handler_def split: prod.split)

lemma serve_device_db:
  assumes "\<And>u cur. bearer_token (rq_auth rq) \<noteq> None \<Longrightarrow> parse_uuid did = Inr u \<Longrightarrow>
      get_current_device_by_id (dw_verify (dp_world p)) u (the (bearer_token (rq_auth rq))) (bk_db b) = Inr cur \<Longrightarrow>
      P (bk_db (fst (h u cur b)))"
    and "P (bk_db b)"
  shows "P (bk_db (fst (serve_device p schema did h rq b)))"
  using assms by (auto simp: serve_device_def split: option.split sum.split)

lemma exchange_world: "fst (exchange py_str server ok rq good bad w) = fst (server rq w)"
  by (simp add: exchange_def split: prod.split http_reply.split)

lemma heartbeat_database:
  assumes "b' = snd (heartbeat_turn py_str (backend_server p rest) c now (st, b))"
  shows "map (\<lambda>r. r\<lparr>dev_last_seen_at := None, dev_updated_at := 0\<rparr>) (devices (bk_db b')) =
      map (\<lambda>r. r\<lparr>dev_last_seen_at := None, dev_updated_at := 0\<rparr>) (devices (bk_db b)) \<and>
    (bk_db b')\<lparr>devices := []\<rparr> = (bk_db b)\<lparr>devices := []\<rparr>"
proof (cases "truthy_str (ac_device_id c)")
  case False
  then show ?thesis using assms by (auto simp: heartbeat_turn_def api_send_heartbeat_def api_report_def api_failed_def)
next
  case True
  let ?did = "the (ac_device_id c)" and ?rq = "heartbeat_rq (the (ac_device_id c)) (auth_headers c) None None"
  let ?P = "\<lambda>d. map (\<lambda>r. r\<lparr>dev_last_seen_at := None, dev_updated_at := 0\<rparr>) (devices d) =
      map (\<lambda>r. r\<lparr>dev_last_seen_at := None, dev_updated_at := 0\<rparr>) (devices (bk_db b)) \<and> d\<lparr>devices := []\<rparr> = (bk_db b)\<lparr>devices := []\<rparr>"
  have did: "?did \<noteq> []" using True by (cases "ac_device_id c") (simp_all add: truthy_str_def)
  have body: "str_field (body_of ?rq) ''public_key'' = None" "str_field (body_of ?rq) ''ip_address'' = None"
    by (simp_all add: body_of_def str_field_def heartbeat_rq_def post_request_def json_opt_str_def dict_get_add)
  have "b' = fst (backend_server p rest ?rq b)"
    using assms True exchange_world [of py_str "backend_server p rest" "{200}" ?rq "\<lambda>_. Inr api_ok" api_failed b]
    by (auto simp: heartbeat_turn_def api_send_heartbeat_def api_report_def split: prod.splits sum.splits)
  then have b': "bk_db b' = bk_db (fst (serve_heartbeat p ?did ?rq b))" by (simp add: backend_heartbeat [OF did])
  have ok: "?P (snd (run_request (device_heartbeat e u None None) (bk_db b)))" for e u
  proof (cases "device_heartbeat e u None None (bk_db b)")
    case (Inl err)
    then show ?thesis by (simp add: run_request_simps)
  next
    case (Inr r)
    obtain reply d es where "r = (reply, d, es)" by (rule prod_cases3)
    with Inr have r: "device_heartbeat e u None None (bk_db b) = Inr (reply, d, es)" by simp
    then have "d = (bk_db b)\<lparr>devices := update_row dev_id u (apply_heartbeat (env_now e 0) (env_now e 1) None None) (devices (bk_db b))\<rparr>"
      by (auto simp: device_heartbeat_def process_heartbeat_def bind_result_eq_Inr split: option.splits)
    then show ?thesis by (simp add: run_request_simps(2) [of "device_heartbeat e u None None", OF r] row_stamps)
  qed
  have "?P (bk_db (fst (serve_heartbeat p ?did ?rq b)))"
    unfolding serve_heartbeat_def body by (rule serve_device_db) (simp_all add: run_handler_db ok)
  then show ?thesis by (simp add: b')
qed

text \<open>
  The heartbeats a daemon sends carry neither key nor address, so with the backend at the other end a
  heartbeat changes at most two time stamps of devices, and nothing else in the database.
\<close>

theorem heartbeat_changes_only_stamps:
  "let b' = snd (heartbeat_turn py_str (backend_server p rest) c now (st, b))
   in map (\<lambda>r. r\<lparr>dev_last_seen_at := None, dev_updated_at := 0\<rparr>) (devices (bk_db b')) =
      map (\<lambda>r. r\<lparr>dev_last_seen_at := None, dev_updated_at := 0\<rparr>) (devices (bk_db b)) \<and>
    (bk_db b')\<lparr>devices := []\<rparr> = (bk_db b)\<lparr>devices := []\<rparr>"
  unfolding Let_def by (rule heartbeat_database) (rule refl)

text \<open>The arguments for a peer start with six that are always there.\<close>

lemma peer_args_endpoint:
  "pi_endpoint x = Some ep \<Longrightarrow> ep \<noteq> [] \<Longrightarrow> pi_endpoint_port x = Some port \<Longrightarrow> port \<noteq> 0 \<Longrightarrow>
     peer_args interface (desired_peer_of x) ! 6 = ''endpoint'' \<and>
     peer_args interface (desired_peer_of x) ! 7 = ep @ '':'' @ str_int port"
  by (simp add: peer_args_def desired_peer_of_def truthy_str_def or_int_def truthy_int_def)

lemma detected_text:
  "detect_endpoint cfg servers io = Some (ep, source, public_ip, local_ip) \<Longrightarrow> ep = public_ip @ '':'' @ str_int (dg_wg_port cfg)"
  by (auto simp: detect_endpoint_def detect_endpoint_stun_def detect_endpoint_local_def split: option.splits prod.splits if_splits)

lemma endpoint_body:
  "text_field [] ''endpoint'' (body_of (endpoint_rq did auth ep source port lip pip)) = ep"
  "int_field i ''port'' (body_of (endpoint_rq did auth ep source port lip pip)) = port"
  by (simp_all add: body_of_def text_field_def int_field_def str_field_def endpoint_rq_def post_request_def dict_get_add)

text \<open>What the endpoint handler adds to the database, when it adds anything.\<close>

lemma serve_endpoint_adds:
  assumes "endpoints (bk_db (fst (serve_endpoint p did (endpoint_rq did auth ep source port lip pip) b))) \<noteq> endpoints (bk_db b)"
  shows "\<exists>e reply. endpoints (bk_db (fst (serve_endpoint p did (endpoint_rq did auth ep source port lip pip) b))) = endpoints (bk_db b) @ [e] \<and>
    ep_endpoint e = ep \<and> ep_port e = port \<and> Inr (ep_device_id e) = parse_uuid did \<and>
    snd (serve_endpoint p did (endpoint_rq did auth ep source port lip pip) b) = json_reply 200 reply"
proof -
  let ?rq = "endpoint_rq did auth ep source port lip pip"
  obtain u cur where u: "parse_uuid did = Inr u" and run: "serve_endpoint p did ?rq b = run_handler 200 endpoint_reply_json
      (device_report_endpoint (dp_world p) (dr_env (dp_draws p (bk_turn b))) u ep (text_field ''reported'' ''source'' (body_of ?rq)) port
         (str_field (body_of ?rq) ''local_ip'') (str_field (body_of ?rq) ''public_ip'') cur) b"
    using assms by (auto simp: serve_endpoint_def serve_device_def endpoint_body split: option.splits sum.splits if_splits)
  let ?h = "device_report_endpoint (dp_world p) (dr_env (dp_draws p (bk_turn b))) u ep (text_field ''reported'' ''source'' (body_of ?rq)) port
         (str_field (body_of ?rq) ''local_ip'') (str_field (body_of ?rq) ''public_ip'') cur"
  have "\<exists>x. ?h (bk_db b) = Inr x"
    using assms run_handler_error [of ?h b] unfolding run by (cases "?h (bk_db b)") auto
  then obtain reply d es where h: "?h (bk_db b) = Inr (reply, d, es)" by auto
  have "\<exists>e. endpoints d = endpoints (bk_db b) @ [e] \<and> ep_endpoint e = ep \<and> ep_port e = port \<and> ep_device_id e = u"
    using h by (auto simp: device_report_endpoint_def report_endpoint_def bind_result_eq_Inr new_endpoint_def Let_def split: option.splits)
  then show ?thesis unfolding run run_handler_ok [of ?h, OF h] using u by auto
qed

text \<open>
  C3. The port is doubled. When an endpoint report adds a row to the backend's table, the row's address is
  the address with the port, and its port is the port; so a peer entry that the configuration pipeline
  builds from that row makes the daemon of the other device hand \<open>ip:port:port\<close> to \<open>wg set\<close>.
\<close>

theorem endpoint_port_doubled:
  assumes "endpoint_turn py_str (backend_server p rest) cfg servers c io now (st, b) = (st', b')"
    and "endpoints (bk_db b') \<noteq> endpoints (bk_db b)" and "dg_wg_port cfg \<noteq> 0"
  shows "\<exists>e ip. endpoints (bk_db b') = endpoints (bk_db b) @ [e] \<and>
    ep_endpoint e = ip @ '':'' @ str_int (dg_wg_port cfg) \<and> ep_port e = dg_wg_port cfg \<and> das_current_endpoint st' = Some (ep_endpoint e) \<and>
    (\<forall>settings me m ebd pp peer interface eps.
       peer_info_of settings me True m ebd pp = Inr peer \<and> eps = get_list ebd (case m (pp_public_key pp) of None \<Rightarrow> [] | Some i \<Rightarrow> i) \<and>
         distinct (map ep_id eps) \<and> select_best_endpoint eps = Some e \<longrightarrow>
       peer_args interface (desired_peer_of peer) ! 6 = ''endpoint'' \<and>
       peer_args interface (desired_peer_of peer) ! 7 =
         ip @ '':'' @ str_int (dg_wg_port cfg) @ '':'' @ str_int (dg_wg_port cfg))"
proof -
  obtain ep source pip lip where det: "detect_endpoint cfg servers io = Some (ep, source, pip, lip)"
    and call: "(case api_report_endpoint py_str (backend_server p rest) ep source (dg_wg_port cfg) (Some lip) (Some pip) c b of
       (w', Inl _) \<Rightarrow> (st, w')
     | (w', Inr r) \<Rightarrow> (if ar_success r then st\<lparr>das_current_endpoint := Some ep, das_last_endpoint_report := Some now\<rparr> else st, w')) = (st', b')"
    using assms(1,2) by (auto simp: endpoint_turn_def split: option.splits if_splits)
  have ip: "ep = pip @ '':'' @ str_int (dg_wg_port cfg)" using det by (rule detected_text)
  let ?did = "the (ac_device_id c)"
  let ?rq = "endpoint_rq ?did (auth_headers c) ep source (dg_wg_port cfg) (Some lip) (Some pip)"
  have id: "truthy_str (ac_device_id c)"
    using call assms(2) by (auto simp: api_report_endpoint_def api_report_def split: if_splits)
  then have did: "?did \<noteq> []" by (cases "ac_device_id c") (simp_all add: truthy_str_def)
  have served: "backend_server p rest ?rq b = serve_endpoint p ?did ?rq b" by (rule backend_endpoint [OF did])
  have "b' = fst (serve_endpoint p ?did ?rq b)"
    using call id exchange_world [of py_str "backend_server p rest" "{200}" ?rq "\<lambda>_. Inr api_ok" api_failed b]
    by (auto simp: api_report_endpoint_def api_report_def served split: prod.splits sum.splits)
  then obtain e reply where e: "endpoints (bk_db b') = endpoints (bk_db b) @ [e]" "ep_endpoint e = ep" "ep_port e = dg_wg_port cfg"
    and ok: "snd (serve_endpoint p ?did ?rq b) = json_reply 200 reply"
    using serve_endpoint_adds assms(2) by blast
  have "das_current_endpoint st' = Some ep"
    using call id ok by (cases "serve_endpoint p ?did ?rq b")
      (auto simp: api_report_endpoint_def api_report_def exchange_def served json_reply_def api_ok_def)
  moreover have "peer_args interface (desired_peer_of peer) ! 6 = ''endpoint'' \<and>
       peer_args interface (desired_peer_of peer) ! 7 = ep @ '':'' @ str_int (dg_wg_port cfg)"
    if "peer_info_of settings me True m ebd pp = Inr peer" "distinct (map ep_id eps)" "select_best_endpoint eps = Some e"
      "eps = get_list ebd (case m (pp_public_key pp) of None \<Rightarrow> [] | Some i \<Rightarrow> i)" for settings me m ebd pp peer interface eps
    using peer_info_of_direct(1,2) [OF that] e(2,3) assms(3) ip
    by (intro peer_args_endpoint) (simp_all add: or_str_def or_int_def truthy_str_def truthy_int_def)
  ultimately show ?thesis using e ip by (intro exI [of _ e] exI [of _ pip]) auto
qed

definition reporting_device :: device where
  "reporting_device = demo_enrolled\<lparr>dev_id := env_uuid demo_env 0\<rparr>"

definition reporting_deployment :: deployment where
  "reporting_deployment =
     demo_deployment\<lparr>dp_world := demo_device_world\<lparr>dw_verify := (\<lambda>p h. h = ''h:'' @ p)\<rparr>\<rparr>"

definition reporting_backend :: backend where
  "reporting_backend = \<lparr>bk_db = empty_database\<lparr>devices := [reporting_device]\<rparr>, bk_turn = 0\<rparr>"

definition reporting_client :: api_client where
  "reporting_client = \<lparr>ac_device_id = Some (env_uuid demo_env 0), ac_device_token = Some ''midscale_device_ab_cd_ef_secret''\<rparr>"

definition stun_inputs :: endpoint_inputs where
  "stun_inputs = \<lparr>ei_local_ip = None, ei_stun = (\<lambda>_. Some (''1.2.3.4'', 40000)), ei_local_ip_again = None\<rparr>"

lemma reporting_authenticates:
  "get_current_device_by_id (dw_verify (dp_world reporting_deployment)) (env_uuid demo_env 0) ''midscale_device_ab_cd_ef_secret''
     (bk_db reporting_backend) = Inr reporting_device"
  by (simp add: get_current_device_by_id_def lookup_device_by_token_def split_token_def TOKEN_PREFIX_def startswith_def
      reporting_backend_def reporting_device_def demo_enrolled_defs token_matches_def check_device_status_def
      reporting_deployment_def demo_device_world_def)

lemma reporting_served:
  "\<exists>e. endpoints (bk_db (fst (serve_endpoint reporting_deployment (env_uuid demo_env 0)
     (endpoint_rq (env_uuid demo_env 0) (auth_headers reporting_client) ep source port lip pip) reporting_backend))) = [e]"
proof -
  let ?rq = "endpoint_rq (env_uuid demo_env 0) (auth_headers reporting_client) ep source port lip pip"
  have auth: "bearer_token (auth_headers reporting_client) = Some ''midscale_device_ab_cd_ef_secret''"
    using bearer_token_header [of "''midscale_device_ab_cd_ef_secret''"] by (simp add: auth_headers_def reporting_client_def)
  have uuid: "parse_uuid (env_uuid demo_env 0) = Inr (env_uuid demo_env 0)" using demo_uuid by (simp add: demo_env_def)
  have valid: "accepted (dp_valid reporting_deployment) EndpointReport ?rq"
    using bodies_accepted(4) [OF demo_documented] by (simp add: reporting_deployment_def demo_deployment_def)
  have "\<exists>reply d es. device_report_endpoint w e (env_uuid demo_env 0) a s q l x cur (bk_db reporting_backend) = Inr (reply, d, es) \<and>
      (\<exists>r. endpoints d = [r])" for w e a s q l x cur
    by (simp add: device_report_endpoint_def report_endpoint_def reporting_backend_def reporting_device_def empty_database_def Let_def)
  then obtain reply d es r where "device_report_endpoint (dp_world reporting_deployment) (dr_env (dp_draws reporting_deployment (bk_turn reporting_backend)))
      (env_uuid demo_env 0) (text_field [] ''endpoint'' (body_of ?rq)) (text_field ''reported'' ''source'' (body_of ?rq))
      (int_field 51820 ''port'' (body_of ?rq)) (str_field (body_of ?rq) ''local_ip'') (str_field (body_of ?rq) ''public_ip'') reporting_device
      (bk_db reporting_backend) = Inr (reply, d, es)" "endpoints d = [r]" by blast
  then show ?thesis
    by (simp add: serve_endpoint_def serve_device_def auth uuid valid reporting_authenticates run_handler_def run_request_simps)
qed

theorem endpoint_port_doubled_witness:
  "\<exists>e. endpoints (bk_db (snd (endpoint_turn (\<lambda>_. []) (backend_server reporting_deployment (\<lambda>rq b. (b, Request_error ''down'')))
     default_daemon_config [(''s'', 3478)] reporting_client stun_inputs 0 (new_daemon_state, reporting_backend)))) = [e] \<and>
     ep_port e = 51820 \<and> (\<exists>ip. ep_endpoint e = ip @ '':'' @ str_int 51820)"
proof -
  let ?server = "backend_server reporting_deployment (\<lambda>rq b. (b, Request_error ''down''))"
  obtain st' b' where run: "endpoint_turn (\<lambda>_. []) ?server default_daemon_config [(''s'', 3478)] reporting_client stun_inputs 0
      (new_daemon_state, reporting_backend) = (st', b')" by (cases "endpoint_turn (\<lambda>_. []) ?server default_daemon_config [(''s'', 3478)]
      reporting_client stun_inputs 0 (new_daemon_state, reporting_backend)") auto
  let ?did = "env_uuid demo_env 0"
  have did: "?did \<noteq> []" "ac_device_id reporting_client = Some ?did" by (simp_all add: demo_env_def reporting_client_def)
  let ?rq = "endpoint_rq ?did (auth_headers reporting_client) (''1.2.3.4'' @ '':'' @ str_int 51820) ''stun'' 51820 (Some ''1.2.3.4'') (Some ''1.2.3.4'')"
  have "b' = fst (?server ?rq reporting_backend)"
    using run did exchange_world [of "\<lambda>_. []" ?server "{200}" ?rq "\<lambda>_. Inr api_ok" api_failed reporting_backend]
    by (auto simp: endpoint_turn_def detect_endpoint_def detect_endpoint_stun_def stun_inputs_def new_daemon_state_def default_daemon_config_def
        api_report_endpoint_def api_report_def or_str_def truthy_str_def split: prod.splits sum.splits)
  then have "\<exists>e. endpoints (bk_db b') = [e]" using reporting_served by (simp add: backend_endpoint [OF did(1)])
  moreover have "endpoints (bk_db reporting_backend) = []" by (simp add: reporting_backend_def empty_database_def)
  ultimately have ne: "endpoints (bk_db b') \<noteq> endpoints (bk_db reporting_backend)" by auto
  have port: "dg_wg_port default_daemon_config = 51820" by (simp add: default_daemon_config_def)
  obtain e ip where "endpoints (bk_db b') = endpoints (bk_db reporting_backend) @ [e]"
    and "ep_endpoint e = ip @ '':'' @ str_int 51820" "ep_port e = 51820"
    using endpoint_port_doubled [OF run ne] unfolding port by auto
  moreover have "endpoints (bk_db reporting_backend) = []" by (simp add: reporting_backend_def empty_database_def)
  ultimately show ?thesis unfolding run snd_conv by auto
qed

section \<open>Events\<close>

text \<open>The bridge sends an event to the socket of every daemon that is connected.\<close>

lemma bridged_to_daemon:
  assumes "ws_reachable m" and "(did, s) \<in> set (wm_daemons m)" and "alive s" and "be_type ev \<noteq> ''config.changed''"
  shows "(s, event_to_dict ev) \<in> set (wm_sent (bridge_event alive ev m))"
proof -
  have inv: "ws_inv m" using assms(1) by (rule ws_inv_reachable)
  then have "s \<in> set (wm_connections m)" using assms(2) by (force simp: ws_inv_def)
  then show ?thesis using assms(3,4) broadcast_effect(4) [OF inv] by (simp add: bridge_event_def)
qed

text \<open>The datagrams of a punch that got no candidates go from the loopback address to itself.\<close>

lemma no_candidates_pairs:
  "hp_enabled p \<Longrightarrow> pu_candidates (snd (initiate_punch shuffle sid tgt [] p)) =
     shuffle [new_candidate_pair ''127.0.0.1'' (hp_bind_port p) ''127.0.0.1'' (hp_bind_port p)]"
  by (simp add: initiate_punch_def Hole_Puncher.build_candidate_pairs_def with_side_def Let_def)

lemma nat_session_of_punch:
  assumes "request_punch True e target ep port cur d = Inr (reply, d', es)"
  shows "\<exists>tgt. parse_uuid target = Inr tgt \<and> py_session_id reply = env_uuid e 0 \<and> py_target_device_id reply = tgt \<and>
    Publish ''nat.punch_requested''
      [(''session_id'', JStr (env_uuid e 0)), (''initiator_device_id'', JStr (dev_id cur)), (''target_device_id'', JStr tgt)] \<in> set es"
  using assms
  by (auto simp: request_punch_def create_nat_session_def nat_event_def Domain.publish_def bind_result_eq_Inr Let_def
      split: if_splits option.splits prod.splits)

text \<open>
  C12. What comes of a request for a hole punch. With a listener on Redis the event that the backend
  publishes for it is handed to the bridge, which sends it to the web socket of every connected daemon,
  whichever device it is. The event carries no candidates, so each of these daemons, when it reads the
  message, starts a punch to the target device whose only pair of addresses is its own loopback address,
  and no datagram goes to a peer.
\<close>

theorem requested_punch_hits_loopback:
  assumes "request_punch True e target ep port cur d = Inr (reply, d', es)" and "env_uuid e 0 \<noteq> []"
    and "hp_enabled p" and "eb_listener bus = Some bridge" and "eb_redis bus" and "eb_subscribed bus" and "ws_reachable m"
  shows "\<exists>data. Publish ''nat.punch_requested'' data \<in> set es \<and> bridge \<in> set (Event_Ws.publish True bus) \<and>
    (\<forall>ev. be_type ev = ''nat.punch_requested'' \<and> be_data ev = data \<longrightarrow>
       (\<forall>(did, s) \<in> set (wm_daemons m). alive s \<longrightarrow> (s, event_to_dict ev) \<in> set (wm_sent (bridge_event alive ev m))) \<and>
       on_ws_message True (event_to_dict ev) =
         Inr [Start_punch (JStr (py_session_id reply)) (JStr (py_target_device_id reply)) (JList [])]) \<and>
    pu_candidates (snd (initiate_punch shuffle (py_session_id reply) (py_target_device_id reply) [] p)) =
      shuffle [new_candidate_pair ''127.0.0.1'' (hp_bind_port p) ''127.0.0.1'' (hp_bind_port p)]"
proof -
  obtain tgt where tgt: "parse_uuid target = Inr tgt" "py_session_id reply = env_uuid e 0" "py_target_device_id reply = tgt"
    and pub: "Publish ''nat.punch_requested''
      [(''session_id'', JStr (env_uuid e 0)), (''initiator_device_id'', JStr (dev_id cur)), (''target_device_id'', JStr tgt)] \<in> set es"
    (is "Publish _ ?data \<in> _") using nat_session_of_punch [OF assms(1)] by blast
  have "tgt \<noteq> []" using tgt(1) by (auto simp: parse_uuid_def Let_def split: if_splits)
  then have "on_ws_message True (event_to_dict ev) = Inr [Start_punch (JStr (env_uuid e 0)) (JStr tgt) (JList [])]"
    if "be_type ev = ''nat.punch_requested''" "be_data ev = ?data" for ev
    using that assms(2)
    by (simp add: on_ws_message_def event_to_dict_def dict_get_default_def dict_get_add on_nat_punch_requested_def event_data_def
        truthy_json_def Let_def)
  moreover have "bridge \<in> set (Event_Ws.publish True bus)" using assms(4-6) by (simp add: Event_Ws.publish_def)
  moreover have "(s, event_to_dict ev) \<in> set (wm_sent (bridge_event alive ev m))"
    if "(did, s) \<in> set (wm_daemons m)" "alive s" "be_type ev = ''nat.punch_requested''" for did s ev
    using bridged_to_daemon [OF assms(7) that(1), of alive] that(2,3) by simp
  ultimately show ?thesis
    using pub no_candidates_pairs [OF assms(3)] by (intro exI [of _ ?data]) (auto simp: tgt)
qed

theorem requested_punch_hits_loopback_witness:
  "\<exists>reply d' es data. request_punch True demo_env ''00000000-0000-0000-0000-000000000001'' ''1.1.1.1'' 51820 (demo_device ''a'' ''n'' None)
      (empty_database\<lparr>devices := [demo_device ''a'' ''n'' None, demo_device ''00000000-0000-0000-0000-000000000001'' ''n'' None]\<rparr>) =
        Inr (reply, d', es) \<and>
     Publish ''nat.punch_requested'' data \<in> set es \<and>
     (\<forall>ev. be_type ev = ''nat.punch_requested'' \<and> be_data ev = data \<longrightarrow>
        (7, event_to_dict ev) \<in> set (wm_sent (bridge_event (\<lambda>_. True) ev (connect_daemon 7 ''a'' new_ws_manager)))) \<and>
     pu_candidates (snd (initiate_punch (\<lambda>ps. ps) (py_session_id reply) (py_target_device_id reply) [] demo_puncher)) =
       [new_candidate_pair ''127.0.0.1'' (hp_bind_port demo_puncher) ''127.0.0.1'' (hp_bind_port demo_puncher)]"
proof -
  let ?d = "empty_database\<lparr>devices := [demo_device ''a'' ''n'' None, demo_device ''00000000-0000-0000-0000-000000000001'' ''n'' None]\<rparr>"
  have "\<exists>reply d' es. request_punch True demo_env ''00000000-0000-0000-0000-000000000001'' ''1.1.1.1'' 51820 (demo_device ''a'' ''n'' None) ?d =
      Inr (reply, d', es)"
    using demo_uuid by (simp add: request_punch_def create_nat_session_def start_punch_def device_exists_def demo_device_def demo_env_def
        empty_database_def timedelta_defs SESSION_TIMEOUT_MINUTES_def Let_def)
  then obtain reply d' es where run: "request_punch True demo_env ''00000000-0000-0000-0000-000000000001'' ''1.1.1.1'' 51820
      (demo_device ''a'' ''n'' None) ?d = Inr (reply, d', es)" by (elim exE)
  let ?bus = "start_listener 0 (start_bus True (new_event_bus True))" and ?m = "connect_daemon 7 ''a'' new_ws_manager"
  have "env_uuid demo_env 0 \<noteq> []" "hp_enabled demo_puncher" "eb_listener ?bus = Some 0" "eb_redis ?bus" "eb_subscribed ?bus"
    by (simp_all add: demo_env_def demo_puncher_def start_listener_def start_bus_def new_event_bus_def connect_redis_def)
  moreover have "ws_reachable ?m"
    by (rule ws_reachable.step [OF ws_reachable.start ws_step.daemon_opened]) (simp add: new_ws_manager_def)
  ultimately have hyps: "env_uuid demo_env 0 \<noteq> []" "hp_enabled demo_puncher" "eb_listener ?bus = Some 0" "eb_redis ?bus" "eb_subscribed ?bus"
    "ws_reachable ?m" by blast+
  from requested_punch_hits_loopback [OF run hyps, of "\<lambda>_. True" "\<lambda>ps. ps"] obtain data where
    "Publish ''nat.punch_requested'' data \<in> set es"
    "\<forall>ev. be_type ev = ''nat.punch_requested'' \<and> be_data ev = data \<longrightarrow>
       (\<forall>(did, s) \<in> set (wm_daemons ?m). True \<longrightarrow> (s, event_to_dict ev) \<in> set (wm_sent (bridge_event (\<lambda>_. True) ev ?m)))"
    "pu_candidates (snd (initiate_punch (\<lambda>ps. ps) (py_session_id reply) (py_target_device_id reply) [] demo_puncher)) =
       [new_candidate_pair ''127.0.0.1'' (hp_bind_port demo_puncher) ''127.0.0.1'' (hp_bind_port demo_puncher)]" by blast
  moreover have "wm_daemons ?m = [(''a'', 7)]" by (simp add: connect_daemon_def new_ws_manager_def)
  ultimately show ?thesis using run by fastforce
qed

end
