(* ===== verification/Daemon_Process.thy ===== *)
theory Daemon_Process
  imports Daemon_Main
begin

text \<open>
  Which parts a started daemon consists of and how it takes them down: the second half of
  \<open>MidscaledDaemon.run\<close> and \<open>_cleanup\<close> in \<open>midscaled/daemon/main.py\<close>. The parts themselves are the loops and
  clients of the other theories.
\<close>

datatype part =
    Relay_client_part | Reconciler_part | Heartbeat_part | Endpoint_monitor_part | Hole_puncher_part
  | Route_advertiser_part | Event_client_part | Live_push_part

text \<open>The parts in the order of their start; \<open>token\<close> tells whether the store holds a device token.\<close>

definition started_parts :: "daemon_config \<Rightarrow> bool \<Rightarrow> bool \<Rightarrow> part list" where
  "started_parts cfg enrolled token =
     (if dg_relay_enabled cfg \<and> token then [Relay_client_part] else []) @
     [Reconciler_part, Heartbeat_part, Endpoint_monitor_part, Hole_puncher_part] @
     (if dg_advertised_routes cfg \<noteq> [] then [Route_advertiser_part] else []) @
     (if dg_ws_enabled cfg \<and> enrolled \<and> token then [Event_client_part, Live_push_part] else [])"

definition cleanup_order :: "part list" where
  "cleanup_order = [Hole_puncher_part, Relay_client_part, Live_push_part, Event_client_part, Reconciler_part, Heartbeat_part,
     Endpoint_monitor_part, Route_advertiser_part]"

definition stopped_parts :: "part list \<Rightarrow> part list" where
  "stopped_parts started = filter (\<lambda>p. p \<in> set started) cleanup_order"

text \<open>A shutdown stops every part that was started, once.\<close>

lemma shutdown_complete:
  "distinct (stopped_parts (started_parts cfg enrolled token)) \<and>
   set (stopped_parts (started_parts cfg enrolled token)) = set (started_parts cfg enrolled token)"
  by (auto simp: stopped_parts_def cleanup_order_def started_parts_def)

text \<open>The parts agree with what \<open>start_daemon\<close> says of the relay client and the web socket.\<close>

lemma started_parts_agree:
  assumes "start_daemon py_str server prog cfg relay_up fs h w = (s, w', Some dn)"
  shows "(Relay_client_part \<in> set (started_parts cfg (das_enrolled (re_state (dn_recon dn))) (stored_text (get_device_token s) \<noteq> None)))
       = dn_relay_client dn"
    and "(Event_client_part \<in> set (started_parts cfg (das_enrolled (re_state (dn_recon dn))) (stored_text (get_device_token s) \<noteq> None)))
       = dn_websocket dn"
  using assms by (auto simp: start_daemon_def started_parts_def Let_def split: prod.splits option.splits)

end
