(* ===== verification/Daemon_Tasks.thy ===== *)
theory Daemon_Tasks
  imports Daemon_Loops
begin

text \<open>
  Starting and stopping the daemon's loops: \<open>start\<close> and \<open>stop\<close> of the heartbeat sender, the endpoint
  monitor, the route advertiser, the peer prober and the reconciler, and how a pushed event wakes the
  reconciler. What a loop does in a turn is in \<open>Daemon_Loops\<close> and \<open>Reconciler\<close>.
\<close>

section \<open>Loops with a task\<close>

text \<open>\<open>lt_alive\<close> counts the tasks that were created and not cancelled; the objects do not keep it.\<close>

record loop_task =
  lt_running :: bool
  lt_task :: bool
  lt_alive :: nat

definition new_loop :: loop_task where
  "new_loop = \<lparr>lt_running = False, lt_task = False, lt_alive = 0\<rparr>"

definition create_task :: "'a loop_task_scheme \<Rightarrow> 'a loop_task_scheme" where
  "create_task t = t\<lparr>lt_task := True, lt_alive := Suc (lt_alive t)\<rparr>"

definition cancel_task :: "'a loop_task_scheme \<Rightarrow> 'a loop_task_scheme" where
  "cancel_task t = (if lt_task t then t\<lparr>lt_task := False, lt_alive := lt_alive t - 1\<rparr> else t)"

definition start_heartbeat :: "loop_task \<Rightarrow> loop_task" where
  "start_heartbeat t = (if lt_running t then t else create_task (t\<lparr>lt_running := True\<rparr>))"

definition stop_heartbeat :: "loop_task \<Rightarrow> loop_task" where
  "stop_heartbeat t = cancel_task (t\<lparr>lt_running := False\<rparr>)"

definition start_advertiser :: "loop_task \<Rightarrow> loop_task" where
  "start_advertiser t = (if lt_running t then t else create_task (t\<lparr>lt_running := True\<rparr>))"

definition stop_advertiser :: "loop_task \<Rightarrow> loop_task" where
  "stop_advertiser t = cancel_task (t\<lparr>lt_running := False\<rparr>)"

record monitor_task = loop_task +
  mo_stun_servers :: "(string \<times> int) list"

definition new_monitor :: monitor_task where
  "new_monitor = loop_task.extend new_loop \<lparr>mo_stun_servers = []\<rparr>"

text \<open>The flag is set before the servers are read, which can raise.\<close>

definition start_monitor :: "daemon_config \<Rightarrow> monitor_task \<Rightarrow> monitor_task \<times> unit result" where
  "start_monitor cfg t =
     (if lt_running t then (t, Inr ())
      else let t1 = t\<lparr>lt_running := True\<rparr>
           in case parse_stun_servers cfg of
                Inl e \<Rightarrow> (t1, Inl e)
              | Inr servers \<Rightarrow> (create_task (t1\<lparr>mo_stun_servers := servers\<rparr>), Inr ()))"

definition stop_monitor :: "monitor_task \<Rightarrow> monitor_task" where
  "stop_monitor t = cancel_task (t\<lparr>lt_running := False\<rparr>)"

record prober_task = loop_task +
  pt_targets :: "probe_target list"

definition new_prober :: prober_task where
  "new_prober = loop_task.extend new_loop \<lparr>pt_targets = []\<rparr>"

definition start_prober :: "prober_task \<Rightarrow> prober_task" where
  "start_prober t = (if lt_running t then t else create_task (t\<lparr>lt_running := True\<rparr>))"

definition stop_prober :: "prober_task \<Rightarrow> prober_task" where
  "stop_prober t = cancel_task (t\<lparr>lt_running := False\<rparr>)"

definition prober_update_targets :: "probe_target list \<Rightarrow> prober_task \<Rightarrow> prober_task" where
  "prober_update_targets ts t = t\<lparr>pt_targets := ts\<rparr>"

section \<open>The reconciler's loop\<close>

datatype loop_phase = Starting | Reconciling | Waiting

record reconciler_task = loop_task +
  rt_phase :: loop_phase
  rt_push :: bool

definition new_reconciler_task :: reconciler_task where
  "new_reconciler_task = loop_task.extend new_loop \<lparr>rt_phase = Starting, rt_push = False\<rparr>"

definition start_reconciler :: "reconciler_task \<Rightarrow> reconciler_task" where
  "start_reconciler t = (if lt_running t then t else create_task (t\<lparr>lt_running := True, rt_phase := Starting\<rparr>))"

definition stop_reconciler :: "reconciler_task \<Rightarrow> reconciler_task" where
  "stop_reconciler t = cancel_task (t\<lparr>lt_running := False, rt_push := True\<rparr>)"

definition trigger :: "reconciler_task \<Rightarrow> reconciler_task" where
  "trigger t = t\<lparr>rt_push := True\<rparr>"

text \<open>
  What can happen while the loop runs. The wait between two turns ends with the event or, when the event
  is not set, with the time-out; the event is cleared in both cases.
\<close>

datatype loop_event = Triggered | Turn_begins | Turn_ends

inductive loop_step :: "reconciler_task \<Rightarrow> loop_event \<Rightarrow> reconciler_task \<Rightarrow> bool" where
  pushed: "loop_step t Triggered (trigger t)"
| first: "rt_phase t = Starting \<Longrightarrow> loop_step t Turn_begins (t\<lparr>rt_phase := Reconciling\<rparr>)"
| finished: "rt_phase t = Reconciling \<Longrightarrow> loop_step t Turn_ends (t\<lparr>rt_phase := Waiting\<rparr>)"
| woken: "rt_phase t = Waiting \<Longrightarrow> rt_push t \<Longrightarrow> loop_step t Turn_begins (t\<lparr>rt_phase := Reconciling, rt_push := False\<rparr>)"
| timeout: "rt_phase t = Waiting \<Longrightarrow> \<not> rt_push t \<Longrightarrow> loop_step t Turn_begins (t\<lparr>rt_phase := Reconciling, rt_push := False\<rparr>)"

inductive_cases loop_stepE: "loop_step t ev t'"

inductive loop_run :: "reconciler_task \<Rightarrow> loop_event list \<Rightarrow> reconciler_task \<Rightarrow> bool" where
  stay: "loop_run t [] t"
| step: "loop_run t evs t' \<Longrightarrow> loop_step t' ev t'' \<Longrightarrow> loop_run t (evs @ [ev]) t''"

text \<open>A trigger that no turn has followed.\<close>

definition unanswered :: "loop_event list \<Rightarrow> bool" where
  "unanswered evs \<longleftrightarrow> Triggered \<in> set (takeWhile (\<lambda>ev. ev \<noteq> Turn_begins) (rev evs))"

lemma unanswered_snoc [simp]:
  "unanswered [] = False"
  "unanswered (evs @ [ev]) = (case ev of Triggered \<Rightarrow> True | Turn_begins \<Rightarrow> False | Turn_ends \<Rightarrow> unanswered evs)"
  by (simp_all add: unanswered_def split: loop_event.splits)

text \<open>
  No push is lost, also when it arrives during a turn: as long as no turn has begun since, the event is
  set, so that the next wait ends at once.
\<close>

lemma no_push_lost: "loop_run t evs t' \<Longrightarrow> unanswered evs \<Longrightarrow> rt_push t'"
  by (induction rule: loop_run.induct) (auto simp: trigger_def elim!: loop_stepE)

section \<open>At most one task\<close>

locale background_loop =
  fixes start stop :: "'s \<Rightarrow> 's" and loop :: "'s \<Rightarrow> loop_task"
  assumes start: "lt_running (loop s) \<Longrightarrow> loop (start s) = loop s"
    "\<not> lt_running (loop s) \<Longrightarrow> loop (start s) = create_task ((loop s)\<lparr>lt_running := True\<rparr>) \<or> loop (start s) = (loop s)\<lparr>lt_running := True\<rparr>"
  and stop: "loop (stop s) = cancel_task ((loop s)\<lparr>lt_running := False\<rparr>)"
begin

definition one_task :: "'s \<Rightarrow> bool" where
  "one_task s \<longleftrightarrow> lt_alive (loop s) = of_bool (lt_task (loop s)) \<and> (lt_task (loop s) \<longrightarrow> lt_running (loop s))"

lemma start_one_task: "one_task s \<Longrightarrow> one_task (start s)"
  using start [of s] by (cases "lt_running (loop s)") (auto simp: one_task_def create_task_def)

lemma stop_one_task: "one_task s \<Longrightarrow> one_task (stop s)"
  by (auto simp: one_task_def stop cancel_task_def)

text \<open>Whatever is started and stopped in whatever order, one task is alive at most and none after a stop.\<close>

lemma run_one_task: "one_task s \<Longrightarrow> one_task (fold (\<lambda>b. if b then start else stop) bs s)"
  by (induction bs arbitrary: s) (simp_all add: start_one_task stop_one_task)

lemma at_most_one: "one_task s \<Longrightarrow> lt_alive (loop (fold (\<lambda>b. if b then start else stop) bs s)) \<le> 1"
  using run_one_task [of s bs] by (simp add: one_task_def)

lemma none_after_stop: "one_task s \<Longrightarrow> lt_alive (loop (stop s)) = 0 \<and> \<not> lt_running (loop (stop s))"
  by (auto simp: one_task_def stop cancel_task_def)

end

lemmas loop_defs = create_task_def cancel_task_def loop_task.truncate_def

interpretation heartbeat_loop: background_loop start_heartbeat stop_heartbeat "\<lambda>t. t"
  by unfold_locales (simp_all add: start_heartbeat_def stop_heartbeat_def)

interpretation advertiser_loop: background_loop start_advertiser stop_advertiser "\<lambda>t. t"
  by unfold_locales (simp_all add: start_advertiser_def stop_advertiser_def)

interpretation monitor_loop: background_loop "\<lambda>t. fst (start_monitor cfg t)" stop_monitor loop_task.truncate for cfg
  by unfold_locales (simp_all add: start_monitor_def stop_monitor_def loop_defs Let_def split: sum.splits)

interpretation prober_loop: background_loop start_prober stop_prober loop_task.truncate
  by unfold_locales (simp_all add: start_prober_def stop_prober_def loop_defs)

interpretation reconciler_loop: background_loop start_reconciler stop_reconciler loop_task.truncate
  by unfold_locales (simp_all add: start_reconciler_def stop_reconciler_def loop_defs)

lemma loops_begin_idle:
  "heartbeat_loop.one_task new_loop" "advertiser_loop.one_task new_loop" "monitor_loop.one_task new_monitor"
  "prober_loop.one_task new_prober" "reconciler_loop.one_task new_reconciler_task"
  by (simp_all add: heartbeat_loop.one_task_def advertiser_loop.one_task_def monitor_loop.one_task_def prober_loop.one_task_def
      reconciler_loop.one_task_def new_loop_def new_monitor_def new_prober_def new_reconciler_task_def loop_task.defs)

end
