(* ===== verification/Health.thy ===== *)
theory Health
  imports App_Settings Event_Ws Wg_Controller
begin

text \<open>
  The probes: \<open>services/health.py\<close> and \<open>api/v1/health.py\<close>. What a check finds outside is an input: the
  outcome of \<open>SELECT 1\<close>, the value of the Redis gauge, whether Fernet takes the key, and how running the
  \<open>wg\<close> program ends.
\<close>

section \<open>Checks\<close>

record check_result =
  hc_healthy :: bool
  hc_message :: string
  hc_details :: dict

definition check :: "bool \<Rightarrow> string \<Rightarrow> check_result" where
  "check healthy message = \<lparr>hc_healthy = healthy, hc_message = message, hc_details = []\<rparr>"

record health_status =
  hs_healthy :: bool
  hs_checks :: "(string \<times> check_result) list"
  hs_version :: string
  hs_timestamp :: string

text \<open>What the checker was constructed with; whether there is a DNS provider is all that is asked of it.\<close>

record health_checker =
  hk_session_factory :: bool
  hk_wg_controller :: "controller option"
  hk_event_bus :: "event_bus option"
  hk_dns_provider :: bool

text \<open>How running a program ends: \<open>Inl\<close> for an exception other than the two that are caught.\<close>

datatype wg_run = Wg_ran | Wg_not_found | Wg_timed_out | Wg_raised py_error

record probe_inputs =
  pi_database :: "string option"
  pi_redis_gauge :: "int option"
  pi_fernet :: "string \<Rightarrow> string option"
  pi_wg :: wg_run
  pi_now :: datetime

definition check_database :: "health_checker \<Rightarrow> probe_inputs \<Rightarrow> check_result" where
  "check_database h i =
     (if \<not> hk_session_factory h then check False ''no session factory configured''
      else case pi_database i of
             None \<Rightarrow> check True ''database reachable''
           | Some e \<Rightarrow> check False (''database unreachable: '' @ e))"

text \<open>The message of the last branch has a dash outside ASCII, written here as three characters of UTF-8.\<close>

definition dash :: string where
  "dash = [CHR 0xE2, CHR 0x80, CHR 0x94]"

definition check_redis_connection :: "app_settings \<Rightarrow> health_checker \<Rightarrow> probe_inputs \<Rightarrow> check_result" where
  "check_redis_connection cfg h i =
     (if cfg_redis_url cfg = [] then check True ''redis not configured''
      else if hk_event_bus h = None then check False ''event bus not initialized''
      else if truthy_int (pi_redis_gauge i) then check True ''redis connected''
      else check False (''redis disconnected '' @ dash @ '' in-memory fallback active''))"

definition check_wg_controller :: "app_settings \<Rightarrow> health_checker \<Rightarrow> check_result" where
  "check_wg_controller cfg h =
     (if \<not> cfg_wg_controller_enabled cfg then check True ''controller disabled''
      else case hk_wg_controller h of
             None \<Rightarrow> check False ''controller not initialized''
           | Some c \<Rightarrow>
               if ct_running c
               then check True (''controller running, last_run='' @
                      (case ct_last_run c of None \<Rightarrow> ''never'' | Some t \<Rightarrow> isoformat t))
               else check False ''controller not running'')"

definition check_event_bus :: "health_checker \<Rightarrow> check_result" where
  "check_event_bus h =
     (case hk_event_bus h of
        None \<Rightarrow> check False ''event bus not initialized''
      | Some b \<Rightarrow> if eb_running b then check True ''event bus running'' else check False ''event bus not running'')"

definition check_dns_provider :: "app_settings \<Rightarrow> health_checker \<Rightarrow> check_result" where
  "check_dns_provider cfg h =
     (if \<not> cfg_dns_enabled cfg then check True ''dns disabled''
      else if \<not> hk_dns_provider h then check False ''dns provider not configured''
      else check True ''dns provider configured'')"

definition check_encryption_key :: "app_settings \<Rightarrow> probe_inputs \<Rightarrow> check_result" where
  "check_encryption_key cfg i =
     (case pi_fernet i (cfg_encryption_key cfg) of
        None \<Rightarrow> check True ''encryption key valid''
      | Some e \<Rightarrow> check False (''invalid encryption key: '' @ e))"

definition missing_config :: "app_settings \<Rightarrow> string list" where
  "missing_config cfg =
     (if cfg_secret_key cfg = [] \<or> cfg_secret_key cfg = DEFAULT_SECRET_KEY then [''SECRET_KEY is default''] else []) @
     (if cfg_database_url cfg = [] then [''DATABASE_URL is empty''] else [])"

definition check_config :: "app_settings \<Rightarrow> check_result" where
  "check_config cfg =
     (if missing_config cfg \<noteq> []
      then \<lparr>hc_healthy = False, hc_message = ''required config missing'',
            hc_details = [(''missing'', JList (map JStr (missing_config cfg)))]\<rparr>
      else check True ''all required config present'')"

definition check_wg_adapter :: "app_settings \<Rightarrow> probe_inputs \<Rightarrow> check_result result" where
  "check_wg_adapter cfg i =
     (case pi_wg i of
        Wg_ran \<Rightarrow> Inr (check True (''adapter '' @ cfg_wireguard_binary cfg @ '' available''))
      | Wg_raised e \<Rightarrow> Inl e
      | _ \<Rightarrow> Inr (check True (''adapter '' @ cfg_wireguard_binary cfg @ '' not found '' @ dash @ '' mock mode'')))"

definition build_status :: "datetime \<Rightarrow> (string \<times> check_result) list \<Rightarrow> health_status" where
  "build_status now checks =
     \<lparr>hs_healthy = list_all (\<lambda>(_, c). hc_healthy c) checks, hs_checks = checks, hs_version = ''0.1.0'',
      hs_timestamp = isoformat now\<rparr>"

section \<open>Probes\<close>

definition check_liveness :: "probe_inputs \<Rightarrow> health_status" where
  "check_liveness i = build_status (pi_now i) [(''app'', check True ''application running'')]"

definition check_readiness :: "app_settings \<Rightarrow> health_checker \<Rightarrow> probe_inputs \<Rightarrow> health_status" where
  "check_readiness cfg h i = build_status (pi_now i)
     [(''database'', check_database h i), (''redis'', check_redis_connection cfg h i),
      (''wg_controller'', check_wg_controller cfg h), (''event_bus'', check_event_bus h),
      (''dns_provider'', check_dns_provider cfg h)]"

definition check_startup :: "app_settings \<Rightarrow> health_checker \<Rightarrow> probe_inputs \<Rightarrow> health_status result" where
  "check_startup cfg h i =
     bind_result (check_wg_adapter cfg i) (\<lambda>adapter.
       Inr (build_status (pi_now i)
         [(''database'', check_database h i), (''encryption_key'', check_encryption_key cfg i),
          (''config'', check_config cfg), (''wg_adapter'', adapter)]))"

section \<open>Endpoints\<close>

record json_response =
  jr_status :: int
  jr_content :: json

definition health_response :: "health_status \<Rightarrow> json_response" where
  "health_response s =
     \<lparr>jr_status = (if hs_healthy s then 200 else 503),
      jr_content = JObj
        [(''healthy'', JBool (hs_healthy s)), (''version'', JStr (hs_version s)), (''timestamp'', JStr (hs_timestamp s)),
         (''checks'', JObj (map (\<lambda>(name, c). (name,
            JObj [(''healthy'', JBool (hc_healthy c)), (''message'', JStr (hc_message c))])) (hs_checks s)))]\<rparr>"

definition not_initialized :: json_response where
  "not_initialized = \<lparr>jr_status = 503,
     jr_content = JObj [(''healthy'', JBool False), (''message'', JStr ''health checker not initialized'')]\<rparr>"

definition health_live :: "health_checker option \<Rightarrow> probe_inputs \<Rightarrow> json_response" where
  "health_live ho i =
     (case ho of
        None \<Rightarrow> \<lparr>jr_status = 200, jr_content = JObj [(''healthy'', JBool True), (''message'', JStr ''no checker configured'')]\<rparr>
      | Some h \<Rightarrow> health_response (check_liveness i))"

definition health_ready :: "app_settings \<Rightarrow> health_checker option \<Rightarrow> probe_inputs \<Rightarrow> json_response" where
  "health_ready cfg ho i =
     (case ho of None \<Rightarrow> not_initialized | Some h \<Rightarrow> health_response (check_readiness cfg h i))"

definition health_startup :: "app_settings \<Rightarrow> health_checker option \<Rightarrow> probe_inputs \<Rightarrow> json_response result" where
  "health_startup cfg ho i =
     (case ho of
        None \<Rightarrow> Inr not_initialized
      | Some h \<Rightarrow> bind_result (check_startup cfg h i) (\<lambda>s. Inr (health_response s)))"

section \<open>Lemmas\<close>

lemma check_simps [simp]: "hc_healthy (check b m) = b"
  by (simp add: check_def)

text \<open>The liveness probe never fails, and the readiness probe is the conjunction of its five checks.\<close>

lemma health_live_ok [simp]: "jr_status (health_live ho i) = 200"
  by (simp add: health_live_def health_response_def check_liveness_def build_status_def split: option.splits)

lemma health_ready_ok:
  "jr_status (health_ready cfg (Some h) i) = 200 \<longleftrightarrow>
     hk_session_factory h \<and> pi_database i = None \<and>
     (cfg_redis_url cfg \<noteq> [] \<longrightarrow> hk_event_bus h \<noteq> None \<and> truthy_int (pi_redis_gauge i)) \<and>
     (cfg_wg_controller_enabled cfg \<longrightarrow> (\<exists>c. hk_wg_controller h = Some c \<and> ct_running c)) \<and>
     (\<exists>b. hk_event_bus h = Some b \<and> eb_running b) \<and>
     (cfg_dns_enabled cfg \<longrightarrow> hk_dns_provider h)"
  by (auto simp: health_ready_def health_response_def check_readiness_def build_status_def check_database_def
      check_redis_connection_def check_wg_controller_def check_event_bus_def check_dns_provider_def
      split: option.splits if_splits)

lemma check_wg_adapter_ok:
  "\<forall>e. pi_wg i \<noteq> Wg_raised e \<Longrightarrow> \<exists>m. check_wg_adapter cfg i = Inr (check True m)"
  by (cases "pi_wg i") (auto simp: check_wg_adapter_def)

lemma missing_config_Nil: "missing_config cfg = [] \<longleftrightarrow> cfg_secret_key cfg \<notin> {[], DEFAULT_SECRET_KEY} \<and> cfg_database_url cfg \<noteq> []"
  by (simp add: missing_config_def)

text \<open>The startup probe is that of database, key and settings: a missing \<open>wg\<close> program does not count.\<close>

lemma health_startup_ok:
  assumes "\<forall>e. pi_wg i \<noteq> Wg_raised e"
  shows "\<exists>r. health_startup cfg (Some h) i = Inr r \<and>
     (jr_status r = 200 \<longleftrightarrow> hk_session_factory h \<and> pi_database i = None \<and> pi_fernet i (cfg_encryption_key cfg) = None \<and>
        cfg_secret_key cfg \<notin> {[], DEFAULT_SECRET_KEY} \<and> cfg_database_url cfg \<noteq> [])"
proof -
  obtain m where "check_wg_adapter cfg i = Inr (check True m)" using check_wg_adapter_ok [OF assms] by blast
  moreover have "hc_healthy (check_config cfg) \<longleftrightarrow> missing_config cfg = []" by (simp add: check_config_def)
  moreover have "hc_healthy (check_database h i) \<longleftrightarrow> hk_session_factory h \<and> pi_database i = None"
    by (simp add: check_database_def split: option.splits)
  moreover have "hc_healthy (check_encryption_key cfg i) \<longleftrightarrow> pi_fernet i (cfg_encryption_key cfg) = None"
    by (simp add: check_encryption_key_def split: option.splits)
  ultimately show ?thesis
    by (simp add: health_startup_def check_startup_def health_response_def build_status_def missing_config_Nil)
qed

end
