(* ===== verification/Rate_Redis.thy ===== *)
theory Rate_Redis
  imports Rate_Limiter Py_Strings
begin

text \<open>
  The Redis backend of \<open>services/rate_limiter.py\<close>. The store is a service of its own: its commands are a
  parameter, \<open>redis_ops\<close>, over its states, and \<open>sorted_set_laws\<close> says what Redis documents of sorted sets.
  A pipeline is either carried out or raises without effect: \<open>up i\<close> tells which of the \<open>i\<close>-th. The wall
  clock is read in microseconds; \<open>fl\<close> is \<open>str\<close> of a reading, the member under which a request is stored.
\<close>

section \<open>The store\<close>

record 'r redis_ops =
  ro_zremrangebyscore :: "string \<Rightarrow> int \<Rightarrow> int \<Rightarrow> 'r \<Rightarrow> 'r"
  ro_zcard :: "string \<Rightarrow> 'r \<Rightarrow> int"
  ro_zrange_first :: "string \<Rightarrow> 'r \<Rightarrow> (string \<times> int) list"
  ro_zadd :: "string \<Rightarrow> string \<Rightarrow> int \<Rightarrow> 'r \<Rightarrow> 'r"
  ro_expire :: "string \<Rightarrow> int \<Rightarrow> 'r \<Rightarrow> 'r"
  ro_delete :: "string \<Rightarrow> 'r \<Rightarrow> 'r"

text \<open>
  \<open>rows r k\<close> are the members of the set at \<open>k\<close> with their scores, in the order of the scores.
\<close>

definition sorted_set_laws :: "'r redis_ops \<Rightarrow> ('r \<Rightarrow> string \<Rightarrow> (string \<times> int) list) \<Rightarrow> bool" where
  "sorted_set_laws ops rows \<longleftrightarrow>
     (\<forall>r k lo hi. rows (ro_zremrangebyscore ops k lo hi r) =
        (rows r)(k := filter (\<lambda>(_, s). \<not> (lo \<le> s \<and> s \<le> hi)) (rows r k))) \<and>
     (\<forall>r k. ro_zcard ops k r = int (length (rows r k))) \<and>
     (\<forall>r k. ro_zrange_first ops k r = take 1 (rows r k)) \<and>
     (\<forall>r k m s. (\<forall>(_, t) \<in> set (rows r k). t < s) \<longrightarrow>
        rows (ro_zadd ops k m s r) = (rows r)(k := filter (\<lambda>(x, _). x \<noteq> m) (rows r k) @ [(m, s)])) \<and>
     (\<forall>r k n. rows (ro_expire ops k n r) = rows r) \<and>
     (\<forall>r k. rows (ro_delete ops k r) = (rows r)(k := []))"

section \<open>Operations\<close>

definition redis_key :: "string \<Rightarrow> string" where
  "redis_key key = ''midscale:ratelimit:'' @ key"

definition check_redis :: "'r redis_ops \<Rightarrow> (int \<Rightarrow> string) \<Rightarrow> (nat \<Rightarrow> bool) \<Rightarrow> string \<Rightarrow> int \<Rightarrow> rate_limiter \<Rightarrow> 'r
    \<Rightarrow> (bool \<times> int) \<times> 'r" where
  "check_redis ops fl up key now rl r =
     (let k = redis_key key; window_start = now - window_us rl
      in if \<not> up 0 then ((True, 0), r)
         else
           (let r1 = ro_zremrangebyscore ops k 0 window_start r; count = ro_zcard ops k r1
            in if rl_max rl \<le> count
               then if \<not> up 1 then ((True, 0), r1)
                    else let oldest_score = (case ro_zrange_first ops k r1 of [] \<Rightarrow> now | (_, s) # _ \<Rightarrow> s)
                         in ((False, max (trunc_seconds (oldest_score + window_us rl - now)) 1), r1)
               else if \<not> up 2 then ((True, 0), r1)
               else ((True, 0), ro_expire ops k (rl_window rl * 2) (ro_zadd ops k (fl now) now r1))))"

text \<open>A limiter with the backend it was started on. Without an URL or a reachable server it is the memory.\<close>

record limiter =
  lm_memory :: rate_limiter
  lm_redis :: bool

definition start_limiter :: "int \<Rightarrow> int \<Rightarrow> string \<Rightarrow> bool \<Rightarrow> limiter" where
  "start_limiter max_requests window_seconds redis_url reachable =
     \<lparr>lm_memory = rate_limiter_init max_requests window_seconds, lm_redis = (redis_url \<noteq> [] \<and> reachable)\<rparr>"

definition stop_limiter :: "limiter \<Rightarrow> limiter" where
  "stop_limiter l = l\<lparr>lm_redis := False\<rparr>"

text \<open>The monotonic clock is read by the memory, the wall clock by Redis.\<close>

record instants =
  in_monotonic :: int
  in_wall :: int

definition limiter_check :: "'r redis_ops \<Rightarrow> (int \<Rightarrow> string) \<Rightarrow> (nat \<Rightarrow> bool) \<Rightarrow> string \<Rightarrow> instants \<Rightarrow> limiter \<times> 'r
    \<Rightarrow> (bool \<times> int) result \<times> limiter \<times> 'r" where
  "limiter_check ops fl up key t lr =
     (case lr of (l, r) \<Rightarrow>
        if lm_redis l
        then (case check_redis ops fl up key (in_wall t) (lm_memory l) r of (res, r') \<Rightarrow> (Inr res, l, r'))
        else (case check_memory key (in_monotonic t) (lm_memory l) of (res, m) \<Rightarrow> (res, l\<lparr>lm_memory := m\<rparr>, r)))"

definition reset_limiter :: "'r redis_ops \<Rightarrow> string \<Rightarrow> limiter \<times> 'r \<Rightarrow> limiter \<times> 'r" where
  "reset_limiter ops key lr =
     (case lr of (l, r) \<Rightarrow>
        if lm_redis l then (l, ro_delete ops (redis_key key) r)
        else (l\<lparr>lm_memory := reset_key key (lm_memory l)\<rparr>, r))"

section \<open>All limiters count together\<close>

text \<open>
  A run over the one store: every check comes with its limiter. The log has the admitted requests of all
  limiters, oldest first.
\<close>

fun redis_step :: "'r redis_ops \<Rightarrow> (int \<Rightarrow> string) \<Rightarrow> int \<times> string \<times> rate_limiter \<Rightarrow> (string \<times> int) list \<times> 'r
    \<Rightarrow> (string \<times> int) list \<times> 'r" where
  "redis_step ops fl (now, key, rl) (log, r) =
     (case check_redis ops fl (\<lambda>_. True) key now rl r of
        ((True, _), r') \<Rightarrow> (log @ [(key, now)], r')
      | (_, r') \<Rightarrow> (log, r'))"

definition redis_run :: "'r redis_ops \<Rightarrow> (int \<Rightarrow> string) \<Rightarrow> 'r \<Rightarrow> (int \<times> string \<times> rate_limiter) list
    \<Rightarrow> (string \<times> int) list \<times> 'r" where
  "redis_run ops fl r checks = foldl (\<lambda>s c. redis_step ops fl c s) ([], r) checks"

text \<open>The set of a client holds its admissions after some instant that has left the window.\<close>

definition redis_inv :: "(int \<Rightarrow> string) \<Rightarrow> ('r \<Rightarrow> string \<Rightarrow> (string \<times> int) list) \<Rightarrow> int \<Rightarrow> int \<Rightarrow> (string \<times> int) list \<times> 'r \<Rightarrow> bool" where
  "redis_inv fl rows w now s \<longleftrightarrow>
     (\<forall>k. \<forall>t \<in> set (admitted k (fst s)). 0 \<le> t \<and> t \<le> now) \<and>
     (\<forall>k. \<exists>b \<le> now - w. rows (snd s) (redis_key k) =
        map (\<lambda>t. (fl t, t)) (filter (\<lambda>t. b < t) (admitted k (fst s))))"

lemma redis_inv_later: "redis_inv fl rows w now s \<Longrightarrow> now \<le> now' \<Longrightarrow> redis_inv fl rows w now' s"
  unfolding redis_inv_def by (meson order.trans diff_mono order_refl)

lemma redis_key_inj [simp]: "redis_key j = redis_key k \<longleftrightarrow> j = k"
  by (simp add: redis_key_def)

lemma zcard_law: "sorted_set_laws ops rows \<Longrightarrow> ro_zcard ops k r = int (length (rows r k))"
  by (simp add: sorted_set_laws_def)

text \<open>After the purge a set is what all limiters admitted inside the window.\<close>

lemma redis_purged:
  assumes laws: "sorted_set_laws ops rows" and inv: "redis_inv fl rows w now (log, r)"
  shows "rows (ro_zremrangebyscore ops (redis_key k) 0 (now - w) r) =
     (rows r)(redis_key k := map (\<lambda>t. (fl t, t)) (filter (\<lambda>t. now - w < t) (admitted k log)))"
proof -
  obtain b where b: "b \<le> now - w" "rows r (redis_key k) = map (\<lambda>t. (fl t, t)) (filter (\<lambda>t. b < t) (admitted k log))"
    using inv unfolding redis_inv_def fst_conv snd_conv by blast
  have "\<forall>t \<in> set ts. 0 \<le> t \<Longrightarrow> filter (\<lambda>(_, s). \<not> (0 \<le> s \<and> s \<le> now - w)) (map (\<lambda>t. (fl t, t)) (filter (\<lambda>t. b < t) ts)) =
      map (\<lambda>t. (fl t, t)) (filter (\<lambda>t. now - w < t) ts)" for ts
    using b(1) by (induction ts) auto
  moreover have "\<forall>t \<in> set (admitted k log). 0 \<le> t" using inv by (simp add: redis_inv_def)
  ultimately show ?thesis using laws b(2) by (simp add: sorted_set_laws_def)
qed

lemma redis_decision:
  assumes "sorted_set_laws ops rows" and "redis_inv fl rows (window_us rl) now (log, r)"
  shows "fst (fst (check_redis ops fl (\<lambda>_. True) key now rl r)) \<longleftrightarrow>
     int (length (filter (\<lambda>t. now - window_us rl < t) (admitted key log))) < rl_max rl"
  by (simp add: check_redis_def Let_def zcard_law [OF assms(1)] redis_purged [OF assms])

lemma redis_inv_check:
  assumes laws: "sorted_set_laws ops rows" and inv: "redis_inv fl rows (window_us rl) before (log, r)"
    and now: "before < now" "0 \<le> now" and fl: "inj fl" and w: "0 < window_us rl"
  shows "redis_inv fl rows (window_us rl) now (redis_step ops fl (now, key, rl) (log, r))"
proof -
  let ?w = "window_us rl" and ?in = "\<lambda>t. now - window_us rl < t"
  define r1 where "r1 = ro_zremrangebyscore ops (redis_key key) 0 (now - ?w) r"
  define live where "live = filter ?in (admitted key log)"
  have inv': "redis_inv fl rows ?w now (log, r)" by (rule redis_inv_later [OF inv]) (use now in simp)
  have r1: "rows r1 = (rows r)(redis_key key := map (\<lambda>t. (fl t, t)) live)"
    unfolding r1_def live_def by (rule redis_purged [OF laws inv'])
  have inv1: "redis_inv fl rows ?w now (log, r1)" using inv' r1 by (auto simp: redis_inv_def live_def)
  have past: "\<forall>t \<in> set live. t < now" using inv now(1) by (fastforce simp: redis_inv_def live_def)
  show ?thesis
  proof (cases "rl_max rl \<le> ro_zcard ops (redis_key key) r1")
    case True
    then have "redis_step ops fl (now, key, rl) (log, r) = (log, r1)"
      by (simp add: check_redis_def Let_def r1_def)
    then show ?thesis using inv1 by simp
  next
    case False
    let ?r2 = "ro_expire ops (redis_key key) (rl_window rl * 2) (ro_zadd ops (redis_key key) (fl now) now r1)"
    have "filter (\<lambda>(x, _). x \<noteq> fl now) (map (\<lambda>t. (fl t, t)) live) = map (\<lambda>t. (fl t, t)) live"
      using past fl by (fastforce simp: inj_eq intro: filter_True)
    then have "rows ?r2 = (rows r)(redis_key key := map (\<lambda>t. (fl t, t)) (live @ [now]))"
      using laws r1 past unfolding sorted_set_laws_def by simp
    moreover have "live @ [now] = filter ?in (admitted key (log @ [(key, now)]))"
      using w by (simp add: admitted_snoc live_def)
    ultimately have rows2: "rows ?r2 = (rows r)(redis_key key := map (\<lambda>t. (fl t, t)) (filter ?in (admitted key (log @ [(key, now)]))))"
      by simp
    have "redis_step ops fl (now, key, rl) (log, r) = (log @ [(key, now)], ?r2)"
      using False by (simp add: check_redis_def Let_def r1_def)
    moreover have "redis_inv fl rows ?w now (log @ [(key, now)], ?r2)"
      unfolding redis_inv_def fst_conv snd_conv
    proof (intro conjI allI)
      fix k
      show "\<forall>t \<in> set (admitted k (log @ [(key, now)])). 0 \<le> t \<and> t \<le> now"
        using inv' now(2) by (auto simp: redis_inv_def admitted_snoc)
      show "\<exists>b \<le> now - ?w. rows ?r2 (redis_key k) =
          map (\<lambda>t. (fl t, t)) (filter (\<lambda>t. b < t) (admitted k (log @ [(key, now)])))"
      proof (cases "k = key")
        case True
        then show ?thesis using rows2 by (intro exI [of _ "now - ?w"]) simp
      next
        case False
        then show ?thesis using inv' rows2 by (simp add: redis_inv_def admitted_snoc)
      qed
    qed
    ultimately show ?thesis by simp
  qed
qed

lemma redis_inv_run:
  assumes laws: "sorted_set_laws ops rows" and fl: "inj fl" and w: "0 < w"
  shows "redis_inv fl rows w before s \<Longrightarrow> sorted_wrt (<) (before # map fst checks) \<Longrightarrow> 0 \<le> before + 1 \<Longrightarrow>
     \<forall>(t, k, rl) \<in> set checks. window_us rl = w \<Longrightarrow>
     redis_inv fl rows w (last (before # map fst checks)) (foldl (\<lambda>s c. redis_step ops fl c s) s checks)"
proof (induction checks arbitrary: before s)
  case (Cons c checks)
  obtain now k rl where c: "c = (now, k, rl)" by (cases c) auto
  have "redis_inv fl rows w now (redis_step ops fl c s)"
    using redis_inv_check [OF laws, of fl rl before "fst s" "snd s" now k] Cons.prems fl w c by simp
  from Cons.IH [OF this] show ?case using Cons.prems c by simp
qed simp

section \<open>Property\<close>

text \<open>
  C10. Over Redis the limiters of a deployment do not count separately: the key has no part that names
  the limiter, so after any run of checks through limiters with the same window a limiter admits a
  client exactly when fewer than its own limit of requests of that client were admitted by all
  limiters together inside the window.
\<close>

theorem redis_limit_shared:
  assumes "sorted_set_laws ops rows" and "inj fl" and "\<forall>k. rows r0 k = []"
    and "\<forall>(t, k, l) \<in> set checks. rl_window l = W \<and> 0 \<le> t" and "0 < W" and "0 \<le> now"
    and "sorted_wrt (<) (map fst checks @ [now])"
    and "redis_run ops fl r0 checks = (log, r)" and "rl_window rl = W"
  shows "fst (fst (check_redis ops fl (\<lambda>_. True) key now rl r)) \<longleftrightarrow>
     int (length (filter (\<lambda>(k, t). k = key \<and> now - timedelta_seconds W < t) log)) < rl_max rl"
proof -
  have w: "0 < timedelta_seconds W" using assms(5) by (simp add: timedelta_seconds_def microseconds_per_second_def)
  have "redis_inv fl rows (timedelta_seconds W) (- 1) ([], r0)"
    using assms(3) by (auto simp: redis_inv_def admitted_def intro: exI [of _ "- 1 - timedelta_seconds W"])
  moreover have "sorted_wrt (<) (- 1 # map fst checks)"
    using assms(4,7) by (fastforce simp: sorted_wrt_append)
  moreover have "\<forall>(t, k, l) \<in> set checks. window_us l = timedelta_seconds W"
    using assms(4) by (auto simp: window_us_def)
  ultimately have "redis_inv fl rows (timedelta_seconds W) (last (- 1 # map fst checks)) (log, r)"
    using redis_inv_run [OF assms(1,2) w, of "- 1" "([], r0)" checks] assms(8) by (simp add: redis_run_def)
  moreover have "last (- 1 # map fst checks) \<le> now"
    using assms(6,7) by (cases checks rule: rev_cases) (auto simp: sorted_wrt_append)
  ultimately have "redis_inv fl rows (timedelta_seconds W) now (log, r)" by (rule redis_inv_later)
  moreover have "length (filter P (admitted key log)) = length (filter (\<lambda>(k, t). k = key \<and> P t) log)" for P
    unfolding admitted_def by (induction log) auto
  ultimately show ?thesis
    using redis_decision [OF assms(1), of fl rl now log r key] assms(9) by (simp add: window_us_def)
qed

text \<open>A store of sorted sets, as a function from keys to lists.\<close>

definition demo_redis :: "(string \<Rightarrow> (string \<times> int) list) redis_ops" where
  "demo_redis =
     \<lparr>ro_zremrangebyscore = (\<lambda>k lo hi r. r(k := filter (\<lambda>(_, s). \<not> (lo \<le> s \<and> s \<le> hi)) (r k))),
      ro_zcard = (\<lambda>k r. int (length (r k))),
      ro_zrange_first = (\<lambda>k r. take 1 (r k)),
      ro_zadd = (\<lambda>k m s r. r(k := insort_key snd (m, s) (filter (\<lambda>(x, _). x \<noteq> m) (r k)))),
      ro_expire = (\<lambda>k n r. r),
      ro_delete = (\<lambda>k r. r(k := []))\<rparr>"

lemma insort_key_last: "\<forall>y \<in> set ys. f y < f x \<Longrightarrow> insort_key f x ys = ys @ [x]"
  by (induction ys) (auto simp: not_le)

lemma demo_redis_laws: "sorted_set_laws demo_redis (\<lambda>r. r)"
  unfolding sorted_set_laws_def demo_redis_def by (fastforce intro!: insort_key_last)

lemma str_int_inj: "inj str_int"
  by (rule injI) (metis py_int_str_int sum.inject(2))

text \<open>Two requests of another kind use up a limit of two logins that nobody has tried.\<close>

theorem redis_limit_shared_witness:
  "fst (redis_run demo_redis str_int (\<lambda>_. []) [(1, ''a'', rate_limiter_init 9 60), (2, ''a'', rate_limiter_init 9 60)]) =
     [(''a'', 1), (''a'', 2)] \<and>
   \<not> fst (fst (check_redis demo_redis str_int (\<lambda>_. True) ''a'' 3 (rate_limiter_init 2 60)
       (snd (redis_run demo_redis str_int (\<lambda>_. []) [(1, ''a'', rate_limiter_init 9 60), (2, ''a'', rate_limiter_init 9 60)]))))"
proof -
  let ?checks = "[(1, ''a'', rate_limiter_init 9 60), (2, ''a'', rate_limiter_init 9 60)]"
  obtain log r where run: "redis_run demo_redis str_int (\<lambda>_. []) ?checks = (log, r)" by force
  have log: "log = [(''a'', 1), (''a'', 2)]"
    using run by (simp add: redis_run_def check_redis_def demo_redis_def rate_limiter_init_def Let_def window_us_def timedelta_defs)
  have "fst (fst (check_redis demo_redis str_int (\<lambda>_. True) ''a'' 3 (rate_limiter_init 2 60) r)) \<longleftrightarrow>
      int (length (filter (\<lambda>(k, t). k = ''a'' \<and> 3 - timedelta_seconds 60 < t) log)) < rl_max (rate_limiter_init 2 60)"
    by (rule redis_limit_shared [OF demo_redis_laws str_int_inj _ _ _ _ _ run]) (auto simp: rate_limiter_init_def)
  then show ?thesis using run log by (simp add: rate_limiter_init_def timedelta_defs)
qed

end
