(* ===== verification/Middleware.thy ===== *)
theory Middleware
  imports App_Settings Rate_Redis
begin

text \<open>
  \<open>backend/app/core/middleware.py\<close>, the rate limiting in front of every HTTP request, over the limiters
  that \<open>lifespan\<close> of \<open>main.py\<close> starts. The application behind it is any function on a state of its own.
  The labels of a counter are joined by spaces.
\<close>

section \<open>The limiters of a deployment\<close>

text \<open>The entries of \<open>app.state.rate_limiters\<close>: name, \<open>max_requests\<close> and \<open>window_seconds\<close>.\<close>

definition limits :: "app_settings \<Rightarrow> (string \<times> int \<times> int) list" where
  "limits cfg =
     [(''default'', cfg_rate_limit_default_max cfg, cfg_rate_limit_default_window_seconds cfg),
      (''auth'', cfg_rate_limit_auth_max cfg, cfg_rate_limit_auth_window_seconds cfg),
      (''register'', cfg_rate_limit_register_max cfg, cfg_rate_limit_register_window_seconds cfg),
      (''heartbeat'', cfg_rate_limit_heartbeat_max cfg, cfg_rate_limit_heartbeat_window_seconds cfg),
      (''websocket'', cfg_rate_limit_websocket_max cfg, cfg_rate_limit_websocket_window_seconds cfg),
      (''admin'', cfg_rate_limit_admin_max cfg, cfg_rate_limit_admin_window_seconds cfg)]"

type_synonym limiters = "(string \<times> limiter) list"

definition start_limiters :: "app_settings \<Rightarrow> bool \<Rightarrow> limiters" where
  "start_limiters cfg reachable =
     (if cfg_rate_limit_enabled cfg
      then map (\<lambda>(name, m, w). (name, start_limiter m w (cfg_redis_url cfg) reachable)) (limits cfg) else [])"

section \<open>Dispatch\<close>

record web_request =
  mw_client :: "string option"
  mw_method :: string
  mw_path :: string

record web_response =
  ws_status :: int
  ws_headers :: "(string \<times> string) list"
  ws_content :: json

definition classify_path :: "string \<Rightarrow> string" where
  "classify_path path =
     (if startswith path ''/api/v1/auth/'' then ''auth''
      else if contains ''/register'' path then ''register''
      else if contains ''/heartbeat'' path then ''heartbeat''
      else if startswith path ''/ws'' then ''websocket''
      else if startswith path ''/api/v1/routes/'' \<or> startswith path ''/api/v1/audit'' then ''admin''
      else ''default'')"

text \<open>The name of the limiter that is used, if any.\<close>

definition get_limiter :: "limiters \<Rightarrow> string \<Rightarrow> string option" where
  "get_limiter ls path =
     (if ls = [] then None
      else if map_of ls (classify_path path) \<noteq> None then Some (classify_path path)
      else if map_of ls ''default'' \<noteq> None then Some ''default'' else None)"

definition client_ip :: "web_request \<Rightarrow> string" where
  "client_ip rq = (case mw_client rq of None \<Rightarrow> ''127.0.0.1'' | Some h \<Rightarrow> h)"

definition count_request :: "web_request \<Rightarrow> int \<Rightarrow> effect list" where
  "count_request rq status =
     [Counter_inc ''API_REQUESTS'' (mw_method rq @ '' '' @ mw_path rq @ '' '' @ str_int status) 1]"

definition too_many :: "limiter \<Rightarrow> int \<Rightarrow> int \<Rightarrow> web_response" where
  "too_many l retry_after now =
     \<lparr>ws_status = 429,
      ws_headers = [(''Retry-After'', str_int retry_after), (''X-RateLimit-Limit'', str_int (rl_max (lm_memory l))),
        (''X-RateLimit-Reset'', str_int (trunc_seconds (now + timedelta_seconds retry_after)))],
      ws_content = JObj [(''detail'', JStr ''Too many requests. Please try again later.'')]\<rparr>"

definition dispatch :: "'r redis_ops \<Rightarrow> (int \<Rightarrow> string) \<Rightarrow> (nat \<Rightarrow> bool) \<Rightarrow> instants \<Rightarrow> int \<Rightarrow> web_request
    \<Rightarrow> ('s \<Rightarrow> web_response result \<times> 's) \<Rightarrow> limiters \<times> 'r \<times> 's
    \<Rightarrow> web_response result \<times> (limiters \<times> 'r \<times> 's) \<times> effect list" where
  "dispatch ops fl up t later rq call_next st =
     (case st of (ls, r, s) \<Rightarrow>
        (let pass = (\<lambda>ls r. case call_next s of
                       (Inl e, s') \<Rightarrow> (Inl e, (ls, r, s'), [])
                     | (Inr resp, s') \<Rightarrow> (Inr resp, (ls, r, s'), count_request rq (ws_status resp)))
         in case get_limiter ls (mw_path rq) of
              None \<Rightarrow> pass ls r
            | Some name \<Rightarrow>
                (let l = the (map_of ls name)
                 in case limiter_check ops fl up (client_ip rq) t (l, r) of
                      (Inl e, l', r') \<Rightarrow> (Inl e, (AList.update name l' ls, r', s), [])
                    | (Inr (True, _), l', r') \<Rightarrow> pass (AList.update name l' ls) r'
                    | (Inr (False, retry_after), l', r') \<Rightarrow>
                        (Inr (too_many l retry_after later), (AList.update name l' ls, r', s),
                         count_request rq 429 @
                         [Counter_inc ''RATE_LIMIT_BLOCKED'' (classify_path (mw_path rq) @ '' '' @ mw_path rq) 1]))))"

section \<open>Runs\<close>

text \<open>
  A run of requests against an application \<open>app\<close>, with the rounds of each limiter's clean-up task between
  them; the log records which requests reached the application and when.
\<close>

datatype web_event = Web_request instants int "nat \<Rightarrow> bool" web_request | Purge string int

fun event_time :: "web_event \<Rightarrow> int" where
  "event_time (Web_request t later up rq) = in_monotonic t"
| "event_time (Purge name now) = now"

definition purge :: "string \<Rightarrow> int \<Rightarrow> limiters \<Rightarrow> limiters" where
  "purge name now ls =
     (case map_of ls name of
        None \<Rightarrow> ls
      | Some l \<Rightarrow> AList.update name (l\<lparr>lm_memory := cleanup now (lm_memory l)\<rparr>) ls)"

type_synonym web_log = "(web_request \<times> int) list"

definition mw_step :: "'r redis_ops \<Rightarrow> (int \<Rightarrow> string) \<Rightarrow> (web_request \<Rightarrow> 's \<Rightarrow> web_response result \<times> 's)
    \<Rightarrow> web_event \<Rightarrow> limiters \<times> 'r \<times> 's \<times> web_log \<Rightarrow> limiters \<times> 'r \<times> 's \<times> web_log" where
  "mw_step ops fl app ev st =
     (case ev of
        Web_request t later up rq \<Rightarrow>
          fst (snd (dispatch ops fl up t later rq
            (\<lambda>(s, log). case app rq s of (res, s') \<Rightarrow> (res, (s', log @ [(rq, in_monotonic t)]))) st))
      | Purge name now \<Rightarrow> (case st of (ls, rest) \<Rightarrow> (purge name now ls, rest)))"

definition mw_run :: "'r redis_ops \<Rightarrow> (int \<Rightarrow> string) \<Rightarrow> (web_request \<Rightarrow> 's \<Rightarrow> web_response result \<times> 's) \<Rightarrow> limiters \<Rightarrow> 'r \<Rightarrow> 's
    \<Rightarrow> web_event list \<Rightarrow> limiters \<times> 'r \<times> 's \<times> web_log" where
  "mw_run ops fl app ls r s evs = foldl (\<lambda>st ev. mw_step ops fl app ev st) (ls, r, s, []) evs"

text \<open>What reached the application of one kind of path, as a log of the limiter of that kind.\<close>

definition kind_log :: "string \<Rightarrow> web_log \<Rightarrow> (string \<times> int) list" where
  "kind_log c log = map (\<lambda>(rq, t). (client_ip rq, t)) (filter (\<lambda>(rq, t). classify_path (mw_path rq) = c) log)"

definition mw_inv :: "app_settings \<Rightarrow> int \<Rightarrow> limiters \<times> web_log \<Rightarrow> bool" where
  "mw_inv cfg now st \<longleftrightarrow>
     (\<forall>c m w. map_of (limits cfg) c = Some (m, w) \<longrightarrow>
        (\<exists>l. map_of (fst st) c = Some l \<and> \<not> lm_redis l \<and> rl_max (lm_memory l) = m \<and> rl_window (lm_memory l) = w \<and>
             rl_inv now (kind_log c (snd st), lm_memory l)))"

lemma classified: "\<exists>mw. map_of (limits cfg) (classify_path path) = Some mw"
  by (simp add: limits_def classify_path_def)

lemma mw_inv_kind:
  "mw_inv cfg now (ls, log) \<Longrightarrow> map_of (limits cfg) c = Some (m, w) \<Longrightarrow>
     \<exists>l. map_of ls c = Some l \<and> \<not> lm_redis l \<and> rl_max (lm_memory l) = m \<and> rl_window (lm_memory l) = w \<and>
       rl_inv now (kind_log c log, lm_memory l)"
  by (simp add: mw_inv_def)

lemma limiter_of_path:
  "mw_inv cfg now (ls, log) \<Longrightarrow> get_limiter ls path = Some (classify_path path)"
  using classified [of cfg path] by (fastforce simp: mw_inv_def get_limiter_def)

lemma check_memory_limits:
  "check_memory key now rl = (res, rl') \<Longrightarrow> rl_max rl' = rl_max rl \<and> rl_window rl' = rl_window rl"
  by (auto simp: check_memory_def Let_def split: if_splits list.splits)

lemma kind_log_snoc:
  "kind_log c (log @ [(rq, t)]) = (if classify_path (mw_path rq) = c then kind_log c log @ [(client_ip rq, t)] else kind_log c log)"
  by (simp add: kind_log_def)

lemma mw_inv_step:
  assumes inv: "mw_inv cfg before (ls, log)" and now: "before \<le> in_monotonic t"
  shows "case mw_step ops fl app (Web_request t later up rq) (ls, r, s, log) of (ls', r', s', log') \<Rightarrow>
     mw_inv cfg (in_monotonic t) (ls', log')"
proof -
  let ?c = "classify_path (mw_path rq)" and ?now = "in_monotonic t"
  obtain m w where mw: "map_of (limits cfg) ?c = Some (m, w)" using classified by fast
  obtain l where l: "map_of ls ?c = Some l" "\<not> lm_redis l" "rl_max (lm_memory l) = m" "rl_window (lm_memory l) = w"
    "rl_inv before (kind_log ?c log, lm_memory l)"
    using mw_inv_kind [OF inv mw] by blast
  obtain res rl' where ck: "check_memory (client_ip rq) ?now (lm_memory l) = (res, rl')" by fastforce
  let ?pass = "case res of Inr (True, _) \<Rightarrow> True | _ \<Rightarrow> False"
  let ?log = "if ?pass then log @ [(rq, ?now)] else log"
  have step: "\<exists>r' s'. mw_step ops fl app (Web_request t later up rq) (ls, r, s, log) =
      (AList.update ?c (l\<lparr>lm_memory := rl'\<rparr>) ls, r', s', ?log)"
    using ck l(1,2) limiter_of_path [OF inv]
    by (auto simp: mw_step_def dispatch_def limiter_check_def Let_def split: sum.splits prod.splits bool.splits)
  have "rl_inv ?now (rl_step (?now, Check (client_ip rq)) (kind_log ?c log, lm_memory l))"
    by (rule rl_inv_check [OF rl_inv_later [OF l(5) now]])
  then have new: "rl_inv ?now (kind_log ?c ?log, rl')"
    using ck by (auto simp: kind_log_snoc split: sum.splits bool.splits)
  have "\<exists>l'. map_of (AList.update ?c (l\<lparr>lm_memory := rl'\<rparr>) ls) c = Some l' \<and> \<not> lm_redis l' \<and> rl_max (lm_memory l') = m' \<and>
      rl_window (lm_memory l') = w' \<and> rl_inv ?now (kind_log c ?log, lm_memory l')"
    if c: "map_of (limits cfg) c = Some (m', w')" for c m' w'
  proof (cases "c = ?c")
    case True
    then show ?thesis using c mw l new check_memory_limits [OF ck] by (simp add: update_conv)
  next
    case False
    then have "kind_log c ?log = kind_log c log" by (simp add: kind_log_snoc)
    moreover obtain l' where "map_of ls c = Some l'" "\<not> lm_redis l'" "rl_max (lm_memory l') = m'" "rl_window (lm_memory l') = w'"
      "rl_inv before (kind_log c log, lm_memory l')" using mw_inv_kind [OF inv c] by blast
    ultimately show ?thesis using False rl_inv_later [OF _ now] by (simp add: update_conv)
  qed
  then show ?thesis using step by (auto simp: mw_inv_def)
qed

lemma mw_inv_purge:
  assumes inv: "mw_inv cfg before (ls, log)" and now: "before \<le> now"
  shows "mw_inv cfg now (purge name now ls, log)"
proof -
  have "\<exists>l'. map_of (purge name now ls) c = Some l' \<and> \<not> lm_redis l' \<and> rl_max (lm_memory l') = m \<and> rl_window (lm_memory l') = w \<and>
      rl_inv now (kind_log c log, lm_memory l')" if c: "map_of (limits cfg) c = Some (m, w)" for c m w
  proof -
    obtain l where l: "map_of ls c = Some l" "\<not> lm_redis l" "rl_max (lm_memory l) = m" "rl_window (lm_memory l) = w"
      "rl_inv before (kind_log c log, lm_memory l)" using mw_inv_kind [OF inv c] by blast
    have "rl_inv now (kind_log c log, cleanup now (lm_memory l))"
      using rl_inv_cleanup [OF rl_inv_later [OF l(5) now]] by simp
    then show ?thesis
      using l rl_inv_later [OF l(5) now]
      by (cases "name = c") (auto simp: purge_def update_conv cleanup_def split: option.split)
  qed
  then show ?thesis by (simp add: mw_inv_def)
qed

lemma mw_inv_foldl:
  "mw_inv cfg before (ls, log) \<Longrightarrow> sorted (before # map event_time evs) \<Longrightarrow>
     case foldl (\<lambda>st ev. mw_step ops fl app ev st) (ls, r, s, log) evs of
       (ls', r', s', log') \<Rightarrow> \<exists>now. mw_inv cfg now (ls', log')"
proof (induction evs arbitrary: before ls r s log)
  case (Cons ev evs)
  obtain ls1 r1 s1 log1 where step: "mw_step ops fl app ev (ls, r, s, log) = (ls1, r1, s1, log1)"
    using prod_cases4 by blast
  have later: "before \<le> event_time ev" using Cons.prems(2) by simp
  have "mw_inv cfg (event_time ev) (ls1, log1)"
  proof (cases ev)
    case (Web_request t later up rq)
    then show ?thesis
      using mw_inv_step [OF Cons.prems(1), of t ops fl app later up rq r s] later step by simp
  next
    case (Purge name now)
    then show ?thesis using mw_inv_purge [OF Cons.prems(1), of now name] later step by (auto simp: mw_step_def)
  qed
  then show ?case using Cons.IH [of "event_time ev" ls1 log1 r1 s1] Cons.prems(2) step by simp
qed auto

lemma map_of_third: "map_of (map (\<lambda>(k, a, b). (k, f a b)) xs) c = map_option (\<lambda>(a, b). f a b) (map_of xs c)"
  by (induction xs) auto

lemma mw_inv_start:
  assumes "cfg_rate_limit_enabled cfg" and "cfg_redis_url cfg = [] \<or> \<not> reachable"
  shows "mw_inv cfg now (start_limiters cfg reachable, [])"
  using assms rl_inv_init
  by (auto simp: mw_inv_def start_limiters_def map_of_third start_limiter_def kind_log_def rate_limiter_init_def)

text \<open>What a limiter's invariant says of any window.\<close>

lemma rl_inv_bound:
  assumes "rl_inv now (log, rl)"
  shows "int (length (filter (\<lambda>(k, t). k = key \<and> b \<le> t \<and> t \<le> b + window_us rl) log)) \<le> max 0 (rl_max rl)"
proof -
  have "length (filter P (admitted key log)) = length (filter (\<lambda>(k, t). k = key \<and> P t) log)" for P
    unfolding admitted_def by (induction log) auto
  then show ?thesis
    using window_ok_bound rl_inv_client [OF assms, of key] by (fastforce simp: client_inv_def)
qed

text \<open>Every router is mounted under \<open>/api/v1\<close>, so the limit for web sockets is never used.\<close>

lemma websocket_limit_unused: "classify_path (''/api/v1/'' @ path) \<noteq> ''websocket''"
  by (simp add: classify_path_def startswith_def)

section \<open>Property\<close>

text \<open>
  C9. The middleware keeps its promise whatever the application does: started without Redis and with
  rate limiting enabled, over any sequence of requests and of clean-up rounds with a monotonic clock, no
  client gets more requests of one kind (logins,
  registrations, heartbeats and so on) through to the application in any window than that kind's limit.
\<close>

theorem requests_limited:
  assumes "cfg_rate_limit_enabled cfg" and "cfg_redis_url cfg = [] \<or> \<not> reachable"
    and "sorted (map event_time evs)"
    and "mw_run ops fl app (start_limiters cfg reachable) r s evs = (ls', r', s', log)"
    and "map_of (limits cfg) kind = Some (m, w)"
  shows "int (length (filter (\<lambda>(rq, t). client_ip rq = ip \<and> classify_path (mw_path rq) = kind \<and>
     b \<le> t \<and> t \<le> b + timedelta_seconds w) log)) \<le> max 0 m"
proof -
  define t0 where "t0 = (if evs = [] then 0 else event_time (hd evs))"
  have "sorted (t0 # map event_time evs)"
    using assms(3) by (cases evs) (auto simp: t0_def)
  from mw_inv_foldl [OF mw_inv_start [OF assms(1,2)] this, of ops fl app r s] obtain now where "mw_inv cfg now (ls', log)"
    using assms(4) unfolding mw_run_def by fastforce
  from mw_inv_kind [OF this assms(5)] obtain l :: limiter where
    l: "rl_max (lm_memory l) = m" "rl_window (lm_memory l) = w" "rl_inv now (kind_log kind log, lm_memory l)" by blast
  have "length (filter (\<lambda>(k, t). k = ip \<and> P t) (kind_log kind log)) =
      length (filter (\<lambda>(rq, t). client_ip rq = ip \<and> classify_path (mw_path rq) = kind \<and> P t) log)" for P
    by (induction log) (auto simp: kind_log_def)
  then show ?thesis using rl_inv_bound [OF l(3), of ip b] l(1,2) by (simp add: window_us_def)
qed

text \<open>With a limit of one login, the second of two logins is refused and a request for devices is not.\<close>

definition demo_request :: "string \<Rightarrow> web_request" where
  "demo_request path = \<lparr>mw_client = Some ''10.0.0.9'', mw_method = ''POST'', mw_path = path\<rparr>"

definition demo_app :: "web_request \<Rightarrow> nat \<Rightarrow> web_response result \<times> nat" where
  "demo_app rq n = (Inr \<lparr>ws_status = 200, ws_headers = [], ws_content = JNull\<rparr>, Suc n)"

definition demo_limits :: app_settings where
  "demo_limits = default_app_settings\<lparr>cfg_rate_limit_auth_max := 1\<rparr>"

definition demo_requests :: "web_event list" where
  "demo_requests = map (\<lambda>(t, p). Web_request \<lparr>in_monotonic = t, in_wall = t\<rparr> t (\<lambda>_. True) (demo_request p))
     [(1, ''/api/v1/auth/login''), (2, ''/api/v1/auth/login''), (3, ''/api/v1/devices'')] @ [Purge ''auth'' 4]"

theorem requests_limited_witness:
  "map snd (snd (snd (snd (mw_run demo_redis str_int demo_app (start_limiters demo_limits False) (\<lambda>_. []) 0 demo_requests)))) = [1, 3] \<and>
   int (length (filter (\<lambda>(rq, t). client_ip rq = ''10.0.0.9'' \<and> classify_path (mw_path rq) = ''auth'' \<and>
     0 \<le> t \<and> t \<le> 0 + timedelta_seconds 60)
     (snd (snd (snd (mw_run demo_redis str_int demo_app (start_limiters demo_limits False) (\<lambda>_. []) 0 demo_requests)))))) \<le> max 0 1"
proof -
  let ?run = "mw_run demo_redis str_int demo_app (start_limiters demo_limits False) (\<lambda>_. []) 0 demo_requests"
  obtain ls r s log where run: "?run = (ls, r, s, log)" using prod_cases4 by blast
  have "map snd (snd (snd (snd ?run))) = [1, 3]" by code_simp
  moreover have "int (length (filter (\<lambda>(rq, t). client_ip rq = ''10.0.0.9'' \<and> classify_path (mw_path rq) = ''auth'' \<and>
     0 \<le> t \<and> t \<le> 0 + timedelta_seconds 60) log)) \<le> max 0 1"
    by (rule requests_limited [OF _ _ _ run])
       (simp_all add: demo_limits_def demo_requests_def limits_def)
  ultimately show ?thesis using run by simp
qed

end
