(* ===== verification/App.thy ===== *)
theory App
  imports Health Middleware Relay_Api Nat_Punch Stun
begin

text \<open>
  The application itself, \<open>backend/app/main.py\<close>: what \<open>lifespan\<close> starts and stops, the work its background
  loops do, and the two endpoints that \<open>main.py\<close> defines. Objects that are shared are read from the state
  of the application when they are used. Creating the database engine, the time between the turns of a
  loop and the cancelling of tasks are left out.
\<close>

section \<open>Start and stop\<close>

record app =
  ap_limiters :: limiters
  ap_ws :: "ws_manager option"
  ap_bus :: "event_bus option"
  ap_controller :: "controller option"
  ap_checker :: bool
  ap_stun :: "stun_server option"
  ap_relay :: "relay_server option"

definition new_app :: app where
  "new_app = \<lparr>ap_limiters = [], ap_ws = None, ap_bus = None, ap_controller = None, ap_checker = False,
     ap_stun = None, ap_relay = None\<rparr>"

text \<open>
  What the start finds outside: whether Redis answers the limiters and the bus, the outcome of binding
  the STUN socket, and the exception of the relay server's socket, if any.
\<close>

record start_inputs =
  si_limiter_redis :: bool
  si_bus_redis :: bool
  si_stun_bound :: "int option option"
  si_relay_error :: "py_error option"

definition new_relay_server :: relay_server where
  "new_relay_server =
     \<lparr>rv_protocols = (\<lambda>_. \<lparr>rp_open = False, rp_buffer = [], rp_session_token = JNull, rp_device_id = JNull\<rparr>),
      rv_connections = [], rv_heartbeats = [], rv_valid_tokens = []\<rparr>"

text \<open>The bridge of events to the web sockets is the only handler, number 0.\<close>

definition start_core :: "app_settings \<Rightarrow> start_inputs \<Rightarrow> app \<Rightarrow> app" where
  "start_core cfg si ap =
     ap\<lparr>ap_limiters := (if cfg_rate_limit_enabled cfg then start_limiters cfg (si_limiter_redis si) else ap_limiters ap),
        ap_ws := Some new_ws_manager,
        ap_bus := Some (start_listener 0 (start_bus (si_bus_redis si) (new_event_bus (cfg_redis_url cfg \<noteq> [])))),
        ap_controller := (if cfg_wg_controller_enabled cfg then Some (start_controller new_controller) else ap_controller ap),
        ap_checker := True\<rparr>"

definition start_stun :: "app_settings \<Rightarrow> start_inputs \<Rightarrow> app \<Rightarrow> app" where
  "start_stun cfg si ap =
     (if cfg_stun_enabled cfg
      then ap\<lparr>ap_stun := Some (start_stun_server (si_stun_bound si) (new_stun_server (cfg_stun_host cfg) (cfg_stun_port cfg)))\<rparr>
      else ap)"

definition start_relay :: "app_settings \<Rightarrow> start_inputs \<Rightarrow> app \<Rightarrow> app \<times> unit result" where
  "start_relay cfg si ap =
     (if cfg_relay_enabled cfg
      then (case si_relay_error si of
              Some e \<Rightarrow> (ap, Inl e)
            | None \<Rightarrow> (ap\<lparr>ap_relay := Some new_relay_server\<rparr>, Inr ()))
      else (ap, Inr ()))"

definition lifespan_start :: "app_settings \<Rightarrow> start_inputs \<Rightarrow> app \<Rightarrow> app \<times> unit result" where
  "lifespan_start cfg si ap = start_relay cfg si (start_stun cfg si (start_core cfg si ap))"

text \<open>A relay server that cannot be stopped ends the shutdown.\<close>

definition lifespan_stop :: "app \<Rightarrow> app \<times> unit result" where
  "lifespan_stop ap =
     (let ap1 = ap\<lparr>ap_stun := map_option stop_stun_server (ap_stun ap)\<rparr>;
          rest = (\<lambda>a. a\<lparr>ap_controller := map_option stop_controller (ap_controller a),
                        ap_bus := map_option stop_bus (ap_bus a),
                        ap_limiters := map (\<lambda>(n, l). (n, stop_limiter l)) (ap_limiters a)\<rparr>)
      in case ap_relay ap1 of
           None \<Rightarrow> (rest ap1, Inr ())
         | Some s \<Rightarrow> (case stop_server s of
                        Inl e \<Rightarrow> (ap1, Inl e)
                      | Inr _ \<Rightarrow> (rest (ap1\<lparr>ap_relay := None\<rparr>), Inr ())))"

section \<open>Background work\<close>

text \<open>A turn of each loop. Only the services of the last two commit their session.\<close>

definition stale_endpoint_turn :: "datetime \<Rightarrow> database \<Rightarrow> database" where
  "stale_endpoint_turn now d =
     (let s = open_session d
      in case stale_endpoint_cleanup now 30 (current s) of
           (cleaned, d') \<Rightarrow> close_session (if cleaned \<noteq> 0 then flush_session (\<lambda>_. d') s else s))"

definition relay_cleanup_turn :: "datetime \<Rightarrow> datetime \<Rightarrow> database \<times> relay_server option
    \<Rightarrow> (database \<times> relay_server option) \<times> effect list" where
  "relay_cleanup_turn now monotonic st =
     (let s = open_session (fst st)
      in case cleanup_expired_relays now (current s) of
           (n, d', es) \<Rightarrow>
             ((close_session (commit_session (flush_session (\<lambda>_. d') s)),
               map_option (remove_expired_tokens monotonic) (snd st)), es))"

definition nat_cleanup_turn :: "datetime \<Rightarrow> database \<Rightarrow> database \<times> effect list" where
  "nat_cleanup_turn now d =
     (let s = open_session d
      in case expire_stale_sessions now (current s) of
           (n, d', es) \<Rightarrow> (close_session (commit_session (flush_session (\<lambda>_. d') s)), es))"

inductive background_step :: "database \<times> relay_server option \<Rightarrow> database \<times> relay_server option \<Rightarrow> bool" where
  stale: "background_step (d, rs) (stale_endpoint_turn now d, rs)"
| relay: "background_step st (fst (relay_cleanup_turn now monotonic st))"
| nat: "background_step (d, rs) (fst (nat_cleanup_turn now d), rs)"

inductive_cases background_stepE: "background_step st st'"

section \<open>Probes and metrics\<close>

definition app_checker :: "app \<Rightarrow> health_checker option" where
  "app_checker ap =
     (if ap_checker ap
      then Some \<lparr>hk_session_factory = True, hk_wg_controller = ap_controller ap, hk_event_bus = ap_bus ap,
                 hk_dns_provider = False\<rparr>
      else None)"

definition bool_gauge :: "bool \<Rightarrow> int" where "bool_gauge b = (if b then 1 else 0)"

text \<open>
  \<open>_update_metrics\<close>; a label is appended to the name of its gauge. The count of web sockets that daemons
  hold and the count of recent handshakes go to the same gauge.
\<close>

definition metrics_turn :: "app_settings \<Rightarrow> app \<Rightarrow> probe_inputs \<Rightarrow> database \<Rightarrow> effect list" where
  "metrics_turn cfg ap i d =
     (case ap_ws ap of
        None \<Rightarrow> []
      | Some m \<Rightarrow> [Gauge_set ''WS_CONNECTIONS'' (int (length (wm_connections m))),
                   Gauge_set ''DEVICES_ONLINE'' (int (length (wm_daemons m)))]) @
     (case app_checker ap of
        None \<Rightarrow> []
      | Some h \<Rightarrow>
          [Gauge_set ''HEALTH_CHECK live'' (bool_gauge (hs_healthy (check_liveness i))),
           Gauge_set ''HEALTH_CHECK ready'' (bool_gauge (hs_healthy (check_readiness cfg h i))),
           Gauge_set ''HEALTH_CHECK startup''
             (case check_startup cfg h i of Inl _ \<Rightarrow> 0 | Inr s \<Rightarrow> bool_gauge (hs_healthy s))]) @
     (if ap_controller ap = None \<or> pi_database i \<noteq> None then []
      else [Gauge_set ''DEVICES_TOTAL'' (int (length (devices d))),
            Gauge_set ''DEVICES_ONLINE'' (int (length (filter
              (\<lambda>r. case dev_last_handshake r of None \<Rightarrow> False | Some t \<Rightarrow> pi_now i - timedelta_seconds 180 < t) (devices d))))])"

text \<open>
  The guard that \<open>/health\<close> and \<open>/metrics\<close> share: it refuses when the header carries an access token of an
  active user without privileges. Every exception on the way lets the request pass.
\<close>

definition ordinary_user :: "(datetime \<Rightarrow> string \<Rightarrow> dict option) \<Rightarrow> datetime \<Rightarrow> string \<Rightarrow> database \<Rightarrow> bool" where
  "ordinary_user jwt_decode now header d \<longleftrightarrow>
     startswith header ''Bearer '' \<and>
     (case jwt_decode now (drop 7 header) of
        None \<Rightarrow> False
      | Some payload \<Rightarrow>
          payload \<noteq> [] \<and> dict_get payload ''type'' = Some (JStr ''access'') \<and>
          (case dict_get payload ''sub'' of
             Some (JStr uid) \<Rightarrow>
               uid \<noteq> [] \<and>
               (case parse_uuid uid of
                  Inl _ \<Rightarrow> False
                | Inr u \<Rightarrow>
                    (case scalar_one_or_none (filter (\<lambda>r. user_id r = u \<and> user_is_active r) (users d)) of
                       Inr (Some r) \<Rightarrow> \<not> user_is_superuser r
                     | _ \<Rightarrow> False))
           | _ \<Rightarrow> False))"

definition superuser_required :: string where
  "superuser_required = ''Access denied: superuser privileges required''"

definition health_content :: "app_settings \<Rightarrow> app \<Rightarrow> json" where
  "health_content cfg ap = JObj
     [(''status'', JStr ''ok''),
      (''wg_controller'', JObj
         [(''running'', JBool (case ap_controller ap of None \<Rightarrow> False | Some c \<Rightarrow> ct_running c)),
          (''last_run'', case ap_controller ap of
             None \<Rightarrow> JNull | Some c \<Rightarrow> (case ct_last_run c of None \<Rightarrow> JNull | Some t \<Rightarrow> JStr (isoformat t)))]),
      (''websocket'', JObj
         [(''active_connections'', JInt (case ap_ws ap of None \<Rightarrow> 0 | Some m \<Rightarrow> int (length (wm_connections m))))]),
      (''stun'', JObj
         [(''enabled'', JBool (cfg_stun_enabled cfg)),
          (''running'', JBool (case ap_stun ap of None \<Rightarrow> False | Some s \<Rightarrow> ss_running s)),
          (''port'', case ap_stun ap of None \<Rightarrow> JNull | Some s \<Rightarrow> JInt (ss_port s))]),
      (''relay'', JObj
         [(''enabled'', JBool (cfg_relay_enabled cfg)), (''running'', JBool (ap_relay ap \<noteq> None)),
          (''port'', JInt (cfg_relay_port cfg))])]"

definition health_endpoint :: "(datetime \<Rightarrow> string \<Rightarrow> dict option) \<Rightarrow> app_settings \<Rightarrow> app \<Rightarrow> datetime \<Rightarrow> string option
    \<Rightarrow> database \<Rightarrow> json_response" where
  "health_endpoint jwt_decode cfg ap now header d =
     (if ordinary_user jwt_decode now (case header of None \<Rightarrow> [] | Some h \<Rightarrow> h) d
      then \<lparr>jr_status = 403, jr_content = JObj [(''detail'', JStr superuser_required)]\<rparr>
      else \<lparr>jr_status = 200, jr_content = health_content cfg ap\<rparr>)"

text \<open>\<open>exposition\<close> is what \<open>generate_latest\<close> makes of all metrics.\<close>

definition metrics_endpoint :: "(datetime \<Rightarrow> string \<Rightarrow> dict option) \<Rightarrow> string \<Rightarrow> datetime \<Rightarrow> string option \<Rightarrow> database
    \<Rightarrow> string result" where
  "metrics_endpoint jwt_decode exposition now header d =
     (if ordinary_user jwt_decode now (case header of None \<Rightarrow> [] | Some h \<Rightarrow> h) d
      then Inl (HTTPException 403 superuser_required) else Inr exposition)"

section \<open>Lemmas\<close>

lemma stale_endpoint_turn_id [simp]: "stale_endpoint_turn now d = d"
  by (simp add: stale_endpoint_turn_def Let_def close_session_def flush_session_def open_session_def split: prod.splits)

lemma commit_flushed: "close_session (commit_session (flush_session (\<lambda>_. d') (open_session d))) = d'"
  by (simp add: close_session_def commit_session_def flush_session_def)

lemma relay_cleanup_turn_eq:
  "cleanup_expired_relays now d = (n, d', es) \<Longrightarrow>
     relay_cleanup_turn now monotonic (d, rs) = ((d', map_option (remove_expired_tokens monotonic) rs), es)"
  by (simp add: relay_cleanup_turn_def Let_def commit_flushed) (simp add: open_session_def)

lemma nat_cleanup_turn_eq:
  "expire_stale_sessions now d = (n, d', es) \<Longrightarrow> nat_cleanup_turn now d = (d', es)"
  by (simp add: nat_cleanup_turn_def Let_def commit_flushed) (simp add: open_session_def)

text \<open>What background work may touch.\<close>

definition same_but_sessions :: "database \<Rightarrow> database \<Rightarrow> bool" where
  "same_but_sessions d d' \<longleftrightarrow>
     d'\<lparr>nat_sessions := [], relay_sessions := []\<rparr> = d\<lparr>nat_sessions := [], relay_sessions := []\<rparr>"

lemma background_frame: "background_step st st' \<Longrightarrow> same_but_sessions (fst st) (fst st')"
proof (induction rule: background_step.induct)
  case (relay st now monotonic)
  obtain d rs n d' es where "st = (d, rs)" "cleanup_expired_relays now d = (n, d', es)" by (metis prod.exhaust)
  then show ?case by (auto simp: relay_cleanup_turn_eq same_but_sessions_def cleanup_expired_relays_def Let_def)
next
  case (nat d rs now)
  obtain n d' es where "expire_stale_sessions now d = (n, d', es)" by (metis prod.exhaust)
  then show ?case by (auto simp: nat_cleanup_turn_eq same_but_sessions_def expire_stale_sessions_def Let_def)
qed (simp add: same_but_sessions_def)

lemma background_run_frame: "background_step\<^sup>*\<^sup>* st st' \<Longrightarrow> same_but_sessions (fst st) (fst st')"
proof (induction rule: rtranclp_induct)
  case (step y z)
  then show ?case using background_frame [OF step(2)] by (simp add: same_but_sessions_def)
qed (simp add: same_but_sessions_def)

lemma start_shape:
  assumes "lifespan_start cfg si new_app = (ap, Inr ())"
  shows "ap_bus ap = Some (start_listener 0 (start_bus (si_bus_redis si) (new_event_bus (cfg_redis_url cfg \<noteq> []))))"
    and "ap_controller ap = (if cfg_wg_controller_enabled cfg then Some (start_controller new_controller) else None)"
    and "ap_checker ap" and "ap_ws ap = Some new_ws_manager"
    and "ap_relay ap = (if cfg_relay_enabled cfg then Some new_relay_server else None)"
  using assms
  by (auto simp: lifespan_start_def start_relay_def start_stun_def start_core_def new_app_def split: if_splits option.splits)

lemma bus_started [simp]: "eb_running (start_listener h (start_bus up (new_event_bus url)))"
  by (simp add: start_listener_def start_bus_def new_event_bus_def connect_redis_def)

lemma controller_started [simp]: "ct_running (start_controller c)"
  by (simp add: start_controller_def)

section \<open>Properties\<close>

text \<open>
  C16. The application is ready after its start exactly when the database answers, DNS is off and, where an
  URL for Redis is set, the event bus is connected: the health checker is constructed without the DNS
  provider, so a deployment that turns DNS on never passes its readiness probe.
\<close>

theorem readiness_after_start:
  assumes "lifespan_start cfg si new_app = (ap, Inr ())"
  shows "jr_status (health_ready cfg (app_checker ap) i) = 200 \<longleftrightarrow>
     pi_database i = None \<and> \<not> cfg_dns_enabled cfg \<and> (cfg_redis_url cfg \<noteq> [] \<longrightarrow> truthy_int (pi_redis_gauge i))"
  using start_shape [OF assms] by (auto simp: app_checker_def health_ready_ok)

definition demo_inputs :: probe_inputs where
  "demo_inputs = \<lparr>pi_database = None, pi_redis_gauge = Some 0, pi_fernet = (\<lambda>_. None), pi_wg = Wg_not_found, pi_now = 0\<rparr>"

definition demo_start :: start_inputs where
  "demo_start = \<lparr>si_limiter_redis = False, si_bus_redis = False, si_stun_bound = Some (Some 3478), si_relay_error = None\<rparr>"

theorem readiness_after_start_witness:
  "\<exists>ap. lifespan_start (default_app_settings\<lparr>cfg_dns_enabled := True\<rparr>) demo_start new_app = (ap, Inr ()) \<and>
     jr_status (health_ready (default_app_settings\<lparr>cfg_dns_enabled := True\<rparr>) (app_checker ap) demo_inputs) \<noteq> 200"
proof -
  let ?cfg = "default_app_settings\<lparr>cfg_dns_enabled := True\<rparr>"
  obtain ap where a: "lifespan_start ?cfg demo_start new_app = (ap, Inr ())"
    by (cases "cfg_relay_enabled ?cfg") (auto simp: lifespan_start_def start_relay_def demo_start_def)
  then show ?thesis using readiness_after_start [OF a, of demo_inputs] by auto
qed

text \<open>
  C17. Background work never changes anything but NAT and relay sessions: however often the loop for stale
  endpoints runs, no endpoint is ever deactivated, because its session is closed without a commit.
\<close>

theorem stale_endpoints_kept:
  assumes "background_step\<^sup>*\<^sup>* (d, rs) (d', rs')"
  shows "endpoints d' = endpoints d \<and> d' = d\<lparr>nat_sessions := nat_sessions d', relay_sessions := relay_sessions d'\<rparr>"
proof -
  have "d'\<lparr>nat_sessions := [], relay_sessions := []\<rparr> = d\<lparr>nat_sessions := [], relay_sessions := []\<rparr>"
    using background_run_frame [OF assms] by (simp add: same_but_sessions_def)
  then show ?thesis by (cases d; cases d') simp
qed

text \<open>An endpoint not seen for a year: the service would deactivate it, the loops leave it active.\<close>

theorem stale_endpoints_kept_witness:
  "fst (stale_endpoint_cleanup (timedelta_days 365) 30 (empty_database\<lparr>endpoints := [demo_reported]\<rparr>)) = 1 \<and>
   ep_is_active demo_reported \<and>
   (\<exists>d' rs'. background_step\<^sup>*\<^sup>* (empty_database\<lparr>endpoints := [demo_reported]\<rparr>, None) (d', rs') \<and> endpoints d' = [demo_reported])"
proof -
  let ?d = "empty_database\<lparr>endpoints := [demo_reported]\<rparr>"
  have "fst (stale_endpoint_cleanup (timedelta_days 365) 30 ?d) = 1"
    by (simp add: stale_endpoint_cleanup_def endpoint_is_stale_def demo_reported_def new_endpoint_def timedelta_defs)
  moreover have "ep_is_active demo_reported" by (simp add: demo_reported_def new_endpoint_def)
  moreover have "\<exists>d' rs'. background_step\<^sup>*\<^sup>* (?d, None) (d', rs') \<and> endpoints d' = [demo_reported]"
  proof -
    obtain d' rs' where run: "background_step\<^sup>*\<^sup>* (?d, None) (d', rs')"
      using background_step.stale [of ?d None "timedelta_days 365"] by blast
    then show ?thesis using stale_endpoints_kept [OF run] by auto
  qed
  ultimately show ?thesis by blast
qed

lemma remove_expired_keeps_tokens:
  assumes "\<forall>(k, v) \<in> set (rv_valid_tokens s). KStr v \<notin> fst ` set (rv_heartbeats s)"
  shows "rv_valid_tokens (remove_expired_tokens now s) = rv_valid_tokens s \<and>
     rv_protocols (remove_expired_tokens now s) = rv_protocols s"
proof -
  have "(\<forall>(k, v) \<in> set (rv_valid_tokens s). KStr v \<notin> set ids) \<Longrightarrow>
      rv_valid_tokens (fold unregister_connection ids s) = rv_valid_tokens s \<and>
      rv_protocols (fold unregister_connection ids s) = rv_protocols s" for ids
  proof (induction ids arbitrary: s)
    case (Cons i ids)
    then have "filter (\<lambda>(_, v). KStr v \<noteq> i) (rv_valid_tokens s) = rv_valid_tokens s"
      by (intro filter_True) auto
    then have same: "rv_valid_tokens (unregister_connection i s) = rv_valid_tokens s"
      "rv_protocols (unregister_connection i s) = rv_protocols s" by (simp_all add: unregister_connection_def)
    show ?case using Cons.IH [of "unregister_connection i s"] Cons.prems same by auto
  qed simp
  moreover have "\<forall>(k, v) \<in> set (rv_valid_tokens s).
      KStr v \<notin> set (map fst (filter (\<lambda>(_, ts). ts < now - timedelta_seconds 120) (rv_heartbeats s)))"
    using assms by fastforce
  ultimately show ?thesis by (simp add: remove_expired_tokens_def)
qed

lemma cleanup_expires:
  assumes "cleanup_expired_relays now d = (n, d', es)" and "r \<in> set (relay_sessions d)" and "relay_is_stale now r"
  shows "r\<lparr>rel_state := ''expired'', rel_updated_at := now\<rparr> \<in> set (relay_sessions d')"
  using assms by (force simp: cleanup_expired_relays_def Let_def update_where_def)

text \<open>
  C19. The clean-up of relay sessions stops at the database: after a turn that has marked a session
  expired, its token still registers a device at the relay server, since tokens are only dropped for
  heartbeat keys, which are device ids and never session ids.
\<close>

theorem expired_session_still_connects:
  assumes "r \<in> set (relay_sessions d)" and "relay_is_stale now r"
    and "map_of (rv_valid_tokens srv) (KStr (rel_relay_token r)) = Some (rel_id r)"
    and "\<forall>(k, v) \<in> set (rv_valid_tokens srv). KStr v \<notin> fst ` set (rv_heartbeats srv)"
    and "relay_cleanup_turn now monotonic (d, Some srv) = ((d', Some srv'), es)"
    and "connect_session later (rel_id r) (rel_relay_token r) k = Inr (bs, k')" and "rk_connected k"
    and "rp_open (rv_protocols srv c)" and "rp_buffer (rv_protocols srv c) = []"
  shows "r\<lparr>rel_state := ''expired'', rel_updated_at := now\<rparr> \<in> set (relay_sessions d') \<and>
     get_connection (KStr (rk_device_id k)) (fst (data_received t utc c bs srv')) = Some c"
proof -
  obtain n d1 es1 where cl: "cleanup_expired_relays now d = (n, d1, es1)" by (metis prod.exhaust)
  have out: "d' = d1" "srv' = remove_expired_tokens monotonic srv"
    using assms(5) by (simp_all add: relay_cleanup_turn_eq [OF cl])
  note kept = remove_expired_keeps_tokens [OF assms(4), of monotonic]
  have "map_of (rv_valid_tokens srv') (KStr (rel_relay_token r)) = Some (rel_id r)"
    "rp_open (rv_protocols srv' c)" "rp_buffer (rv_protocols srv' c) = []"
    using kept assms(3,8,9) by (simp_all add: out)
  from known_token_connects [OF this(1) assms(6,7) this(2,3), of t utc]
  have "get_connection (KStr (rk_device_id k)) (fst (data_received t utc c bs srv')) = Some c"
    by (elim exE conjE) simp
  then show ?thesis using cleanup_expires [OF cl assms(1,2)] out by simp
qed

text \<open>A known session \<open>s\<close> that has expired, and a device that connects to it afterwards.\<close>

theorem expired_session_still_connects_witness:
  "\<exists>d' srv' es bs k'. relay_cleanup_turn (timedelta_days 30) 0
       (empty_database\<lparr>relay_sessions := [demo_relay_row]\<rparr>, Some (add_valid_token ''t'' ''s'' demo_relay_server)) = ((d', Some srv'), es) \<and>
     connect_session 0 ''s'' ''t'' demo_relay_client = Inr (bs, k') \<and>
     demo_relay_row\<lparr>rel_state := ''expired'', rel_updated_at := timedelta_days 30\<rparr> \<in> set (relay_sessions d') \<and>
     get_connection (KStr ''b'') (fst (data_received 0 0 1 bs srv')) = Some 1"
proof -
  let ?d = "empty_database\<lparr>relay_sessions := [demo_relay_row]\<rparr>"
  let ?srv = "add_valid_token ''t'' ''s'' demo_relay_server"
  obtain n d' es where cl: "cleanup_expired_relays (timedelta_days 30) ?d = (n, d', es)" by (metis prod.exhaust)
  define rs where "rs = remove_expired_tokens 0 ?srv"
  have turn: "relay_cleanup_turn (timedelta_days 30) 0 (?d, Some ?srv) = ((d', Some rs), es)"
    by (simp add: relay_cleanup_turn_eq [OF cl] rs_def)
  obtain bs k' where con: "connect_session 0 ''s'' ''t'' demo_relay_client = Inr (bs, k')"
    by (simp add: connect_session_def client_send_def relay_frame_wire demo_relay_client_def encode_text_def
        dumps_str_def escape_char_def)
  have row: "rel_id demo_relay_row = ''s''" "rel_relay_token demo_relay_row = ''t''" "relay_is_stale (timedelta_days 30) demo_relay_row"
    by (simp_all add: demo_relay_row_def new_relay_session_def relay_is_stale_def RELAY_SESSION_TIMEOUT_HOURS_def timedelta_defs)
  have "demo_relay_row\<lparr>rel_state := ''expired'', rel_updated_at := timedelta_days 30\<rparr> \<in> set (relay_sessions d') \<and>
     get_connection (KStr (rk_device_id demo_relay_client)) (fst (data_received 0 0 1 bs rs)) = Some 1"
    by (rule expired_session_still_connects [OF _ row(3) _ _ turn])
       (use con row in \<open>auto simp: demo_relay_server_def add_valid_token_def demo_relay_client_def\<close>)
  then show ?thesis using turn con by (intro exI conjI) (auto simp: demo_relay_client_def)
qed

section \<open>Who may read \<open>/health\<close> and \<open>/metrics\<close>\<close>

lemma active_user_lookup:
  assumes "users_ok rows"
  shows "scalar_one_or_none (filter (\<lambda>r. user_id r = u \<and> user_is_active r) rows) =
     (case scalar_one_or_none (filter (\<lambda>r. user_id r = u) rows) of
        Inr (Some r) \<Rightarrow> Inr (if user_is_active r then Some r else None) | x \<Rightarrow> x)"
proof -
  have "filter (\<lambda>r. user_id r = u \<and> user_is_active r) rows = filter user_is_active (filter (\<lambda>r. user_id r = u) rows)"
    by (simp add: conj_commute)
  moreover have "length (filter (\<lambda>r. user_id r = u) rows) \<le> 1" by (rule usr.filter_key_le_one [OF assms])
  ultimately show ?thesis
    by (cases "filter (\<lambda>r. user_id r = u) rows"; cases "tl (filter (\<lambda>r. user_id r = u) rows)") auto
qed

lemma parse_uuid_Nil: "\<exists>e. parse_uuid [] = Inl e"
  by (simp add: parse_uuid_def strip_chars_def Let_def)

lemma ordinary_user_iff:
  assumes "users_ok (users d)"
  shows "ordinary_user jwt_decode now header d \<longleftrightarrow>
     (\<exists>token u. header = ''Bearer '' @ token \<and> get_current_user jwt_decode now token d = Inr u \<and> \<not> user_is_superuser u)"
proof (cases "startswith header ''Bearer ''")
  case True
  then obtain token where h: "header = ''Bearer '' @ token" by (rule startswithE)
  have "ordinary_user jwt_decode now (''Bearer '' @ token) d \<longleftrightarrow>
      (\<exists>u. get_current_user jwt_decode now token d = Inr u \<and> \<not> user_is_superuser u)"
    using parse_uuid_Nil
    by (auto simp: ordinary_user_def get_current_user_def active_user_lookup [OF assms] dict_get_def bind_result_def startswith_def
        split: option.splits json.splits sum.splits if_splits)
  then show ?thesis using h by simp
next
  case False
  then show ?thesis by (auto simp: ordinary_user_def startswith_def)
qed

text \<open>
  C23. The endpoints \<open>/health\<close> and \<open>/metrics\<close> refuse exactly the ordinary users whose token the API would
  accept: everybody else is served, superusers and anybody without a valid token alike.
\<close>

theorem health_refuses_only_users:
  assumes "users_ok (users d)"
  shows "(jr_status (health_endpoint jwt_decode cfg ap now header d) = 403 \<longleftrightarrow>
       (\<exists>token u. header = Some (''Bearer '' @ token) \<and> get_current_user jwt_decode now token d = Inr u \<and> \<not> user_is_superuser u)) \<and>
     (metrics_endpoint jwt_decode exposition now header d = Inr exposition \<longleftrightarrow>
       jr_status (health_endpoint jwt_decode cfg ap now header d) = 200)"
proof -
  have "ordinary_user jwt_decode now (case header of None \<Rightarrow> [] | Some h \<Rightarrow> h) d \<longleftrightarrow>
      (\<exists>token u. header = Some (''Bearer '' @ token) \<and> get_current_user jwt_decode now token d = Inr u \<and> \<not> user_is_superuser u)"
  proof (cases header)
    case None
    then show ?thesis by (simp add: ordinary_user_def startswith_def)
  next
    case (Some h)
    then show ?thesis using ordinary_user_iff [OF assms, of jwt_decode now h] by simp
  qed
  note guard = this [symmetric]
  show ?thesis unfolding guard health_endpoint_def metrics_endpoint_def by simp
qed

text \<open>Without a header, and with the token of an ordinary user, on a database with that user.\<close>

definition demo_caller :: user where
  "demo_caller = demo_owner\<lparr>user_id := ''00000000-0000-0000-0000-000000000001''\<rparr>"

definition demo_decode :: "datetime \<Rightarrow> string \<Rightarrow> dict option" where
  "demo_decode now token = (if token = ''ok'' then Some [(''sub'', JStr (user_id demo_caller)), (''type'', JStr ''access'')] else None)"

theorem health_refuses_only_users_witness:
  "jr_status (health_endpoint demo_decode default_app_settings new_app 0 (Some (''Bearer '' @ ''ok'')) (empty_database\<lparr>users := [demo_caller]\<rparr>)) = 403 \<and>
   metrics_endpoint demo_decode ''metrics'' 0 None (empty_database\<lparr>users := [demo_caller]\<rparr>) = Inr ''metrics''"
proof -
  let ?d = "empty_database\<lparr>users := [demo_caller]\<rparr>"
  have ok: "users_ok (users ?d)" by (simp add: users_ok_def)
  have "get_current_user demo_decode 0 ''ok'' ?d = Inr demo_caller" "\<not> user_is_superuser demo_caller"
    using demo_uuid by (simp_all add: get_current_user_def demo_decode_def demo_caller_def demo_owner_def dict_get_def)
  then have "jr_status (health_endpoint demo_decode default_app_settings new_app 0 (Some (''Bearer '' @ ''ok'')) ?d) = 403"
    using health_refuses_only_users [OF ok, of demo_decode default_app_settings new_app 0 "Some (''Bearer '' @ ''ok'')" "[]"] by blast
  moreover have "jr_status (health_endpoint demo_decode default_app_settings new_app 0 None ?d) = 200"
    by (simp add: health_endpoint_def ordinary_user_def startswith_def)
  then have "metrics_endpoint demo_decode ''metrics'' 0 None ?d = Inr ''metrics''"
    using health_refuses_only_users [OF ok, of demo_decode default_app_settings new_app 0 None "''metrics''"] by blast
  ultimately show ?thesis by blast
qed

end
