(* ===== verification/Admin_Api.thy ===== *)
theory Admin_Api
  imports Access "HOL-Library.Multiset"
begin

text \<open>
  The handlers of \<open>api/v1/auth.py\<close> and \<open>api/v1/audit.py\<close>, and \<open>seed.py\<close>. What the database leaves open is a
  parameter: the order of rows with the same creation time, and the collation of texts.
\<close>

section \<open>Accounts\<close>

record token_reply =
  tr_access_token :: string
  tr_refresh_token :: string
  tr_token_type :: string

definition token_reply_of :: "string \<Rightarrow> string \<Rightarrow> token_reply" where
  "token_reply_of a r = \<lparr>tr_access_token = a, tr_refresh_token = r, tr_token_type = ''bearer''\<rparr>"

text \<open>The audit entry takes the fifth draw of the request, after those of the service.\<close>

definition auth_register :: "(string \<Rightarrow> string) \<Rightarrow> (dict \<Rightarrow> string) \<Rightarrow> settings \<Rightarrow> env \<Rightarrow> string \<Rightarrow> string
    \<Rightarrow> string \<Rightarrow> database \<Rightarrow> token_reply response" where
  "auth_register hash_pw jwt_encode cfg e email password display_name d =
     bind_result (register_user hash_pw jwt_encode cfg e email password display_name d) (\<lambda>((u, a, r), d').
       Inr (token_reply_of a r,
            audit e 4 ''auth.register'' (Some (user_id u)) ''user'' ''user'' (Some (user_id u))
              [(''email'', JStr email), (''display_name'', JStr display_name)] d',
            audit_metric ''auth.register''))"

definition auth_login :: "(string \<Rightarrow> string \<Rightarrow> bool) \<Rightarrow> (dict \<Rightarrow> string) \<Rightarrow> settings \<Rightarrow> env \<Rightarrow> string
    \<Rightarrow> string \<Rightarrow> database \<Rightarrow> token_reply response" where
  "auth_login verify jwt_encode cfg e email password d =
     bind_result (login_user verify jwt_encode cfg e email password d) (\<lambda>(u, a, r).
       Inr (token_reply_of a r,
            audit e 4 ''auth.login'' (Some (user_id u)) ''user'' ''user'' (Some (user_id u)) [(''email'', JStr email)] d,
            audit_metric ''auth.login''))"

definition auth_refresh :: "(datetime \<Rightarrow> string \<Rightarrow> dict option) \<Rightarrow> (dict \<Rightarrow> string) \<Rightarrow> settings
    \<Rightarrow> datetime \<Rightarrow> datetime \<Rightarrow> string \<Rightarrow> token_reply result" where
  "auth_refresh jwt_decode jwt_encode cfg now1 now2 token =
     bind_result (refresh_access_token jwt_decode jwt_encode cfg now1 now2 token) (\<lambda>a. Inr (token_reply_of a token))"

record user_reply =
  ur_id :: uuid
  ur_email :: string
  ur_display_name :: string
  ur_is_active :: bool
  ur_is_superuser :: bool
  ur_created_at :: datetime
  ur_updated_at :: datetime

definition user_reply_of :: "user \<Rightarrow> user_reply" where
  "user_reply_of u =
     \<lparr>ur_id = user_id u, ur_email = user_email u, ur_display_name = user_display_name u, ur_is_active = user_is_active u,
      ur_is_superuser = user_is_superuser u, ur_created_at = user_created_at u, ur_updated_at = user_updated_at u\<rparr>"

definition auth_me :: "(datetime \<Rightarrow> string \<Rightarrow> dict option) \<Rightarrow> datetime \<Rightarrow> string \<Rightarrow> database \<Rightarrow> user_reply result" where
  "auth_me jwt_decode now token d = bind_result (get_current_user jwt_decode now token d) (\<lambda>u. Inr (user_reply_of u))"

section \<open>The first administrator\<close>

text \<open>The result tells whether the account was created.\<close>

definition seed :: "(string \<Rightarrow> string) \<Rightarrow> env \<Rightarrow> database \<Rightarrow> bool response" where
  "seed hash_pw e d =
     bind_result (scalar_one_or_none (filter (\<lambda>u. user_email u = ''admin@midscale.local'') (users d))) (\<lambda>uo.
       case uo of
         Some _ \<Rightarrow> Inr (False, d, [])
       | None \<Rightarrow> Inr (True, d\<lparr>users := users d @
           [\<lparr>user_id = env_uuid e 0, user_email = ''admin@midscale.local'', user_password_hash = hash_pw ''admin123'',
             user_display_name = ''Admin'', user_is_active = True, user_is_superuser = True,
             user_created_at = env_now e 0, user_updated_at = env_now e 1\<rparr>]\<rparr>, []))"

section \<open>Reading the audit log\<close>

record audit_query =
  aq_actor_id :: "string option"
  aq_action :: "string option"
  aq_target_type :: "string option"
  aq_target_id :: "string option"

record audit_page =
  apg_items :: "audit_log list"
  apg_total :: int
  apg_skip :: nat
  apg_limit :: nat

text \<open>A filter that is missing or empty is not applied; a column without a value matches no filter.\<close>

definition matches :: "audit_query \<Rightarrow> audit_log \<Rightarrow> bool" where
  "matches q a \<longleftrightarrow>
     (truthy_str (aq_actor_id q) \<longrightarrow> au_actor_id a = aq_actor_id q) \<and>
     (truthy_str (aq_action q) \<longrightarrow> Some (au_action a) = aq_action q) \<and>
     (truthy_str (aq_target_type q) \<longrightarrow> Some (au_target_type a) = aq_target_type q) \<and>
     (truthy_str (aq_target_id q) \<longrightarrow> au_target_id a = aq_target_id q)"

text \<open>What FastAPI accepts for \<open>skip\<close> and \<open>limit\<close>.\<close>

definition page_ok :: "int \<Rightarrow> int \<Rightarrow> bool" where
  "page_ok skip limit \<longleftrightarrow> 0 \<le> skip \<and> 1 \<le> limit \<and> limit \<le> 500"

definition list_audit_logs :: "(audit_log list \<Rightarrow> audit_log list) \<Rightarrow> user \<Rightarrow> audit_query \<Rightarrow> nat \<Rightarrow> nat \<Rightarrow> database
    \<Rightarrow> audit_page result" where
  "list_audit_logs newest_first cur q skip limit d =
     bind_result (get_current_superuser cur) (\<lambda>_.
       let rows = filter (matches q) (audit_logs d)
       in Inr \<lparr>apg_items = take limit (drop skip (newest_first rows)), apg_total = int (length rows),
               apg_skip = skip, apg_limit = limit\<rparr>)"

definition list_audit_actions :: "(string list \<Rightarrow> string list) \<Rightarrow> user \<Rightarrow> database \<Rightarrow> string list result" where
  "list_audit_actions collate cur d =
     bind_result (get_current_superuser cur) (\<lambda>_. Inr (collate (remdups (map au_action (audit_logs d)))))"

text \<open>\<open>ORDER BY created_at DESC\<close>: some arrangement of the rows, the newest first.\<close>

definition newest_first_law :: "(audit_log list \<Rightarrow> audit_log list) \<Rightarrow> bool" where
  "newest_first_law f \<longleftrightarrow> (\<forall>rows. mset (f rows) = mset rows \<and> sorted_wrt (\<lambda>a b. au_created_at b \<le> au_created_at a) (f rows))"

section \<open>Lemmas\<close>

lemma sorted_wrt_unique:
  fixes key :: "'a \<Rightarrow> 'k :: linorder"
  assumes "mset xs = mset ys" and "sorted_wrt (\<lambda>a b. key b \<le> key a) xs" and "sorted_wrt (\<lambda>a b. key b \<le> key a) ys"
    and "distinct (map key xs)"
  shows "xs = ys"
proof -
  have sorted: "sorted (map key (rev xs))" "sorted (map key (rev ys))"
    using assms(2,3) by (simp_all add: sorted_map sorted_wrt_rev)
  have set: "set xs = set ys" using assms(1) by (rule mset_eq_setD)
  have "distinct (map key ys)" using assms(1,4) by (metis mset_eq_imp_distinct_iff mset_map)
  then have "map key (rev xs) = map key (rev ys)"
    using sorted assms(4) set by (intro sorted_distinct_set_unique) (simp_all add: rev_map [symmetric])
  moreover have "inj_on key (set (rev xs) \<union> set (rev ys))" using assms(4) set by (simp add: distinct_map)
  ultimately have "rev xs = rev ys" by (rule map_inj_on)
  then show ?thesis by simp
qed

lemma sorted_by_desc_law: "newest_first_law (sorted_by_desc au_created_at)"
proof -
  have "sorted_wrt (\<lambda>a b. au_created_at a \<le> au_created_at b) (sort_key au_created_at rows)"
    for rows :: "audit_log list"
    using sorted_sort_key [of au_created_at rows] by (simp add: sorted_map)
  then show ?thesis by (simp add: newest_first_law_def sorted_by_desc_def sorted_wrt_rev)
qed

lemma newest_first_unique:
  assumes "newest_first_law f" and "newest_first_law g" and "distinct (map au_created_at rows)"
  shows "f rows = g rows"
proof (rule sorted_wrt_unique [where key = au_created_at])
  have f: "mset (f rows) = mset rows" and g: "mset (g rows) = mset rows"
    using assms(1,2) by (simp_all add: newest_first_law_def)
  show "mset (f rows) = mset (g rows)" using f g by simp
  have "mset (map au_created_at (f rows)) = mset (map au_created_at rows)" using f by simp
  then show "distinct (map au_created_at (f rows))" using assms(3) mset_eq_imp_distinct_iff by blast
qed (use assms in \<open>simp_all add: newest_first_law_def\<close>)

text \<open>Cutting a list into pages loses nothing.\<close>

lemma pages_concat: "concat (map (\<lambda>i. take n (drop (i * n) xs)) [0..<k]) = take (k * n) xs"
proof (induction k)
  case (Suc k)
  have "take (Suc k * n) xs = take (k * n) xs @ take n (drop (k * n) xs)"
    by (simp add: take_add [symmetric] add.commute)
  then show ?case using Suc by simp
qed simp

section \<open>Property\<close>

text \<open>
  C22. Reading the audit log page by page gives a superuser every matching entry once, the newest first,
  as long as no two of them were written in the same microsecond (among entries of the same instant each
  query may order differently) and the log is the same for all the pages. Nobody else gets a page.
\<close>

theorem audit_pages_complete:
  assumes "\<forall>i. newest_first_law (order i)" and "distinct (map au_created_at (filter (matches q) (audit_logs d)))"
    and "length (filter (matches q) (audit_logs d)) \<le> k * n"
  shows "if user_is_superuser cur
     then \<exists>page. (\<forall>i. list_audit_logs (order i) cur q (i * n) n d = Inr (page i)) \<and>
       concat (map (\<lambda>i. apg_items (page i)) [0..<k]) = sorted_by_desc au_created_at (filter (matches q) (audit_logs d)) \<and>
       (\<forall>i. apg_total (page i) = int (length (filter (matches q) (audit_logs d))))
     else \<forall>i. list_audit_logs (order i) cur q (i * n) n d = Inl (HTTPException 403 ''Superuser privileges required'')"
proof (cases "user_is_superuser cur")
  case True
  let ?rows = "filter (matches q) (audit_logs d)"
  define page where "page = (\<lambda>i. \<lparr>apg_items = take n (drop (i * n) (order i ?rows)), apg_total = int (length ?rows),
    apg_skip = i * n, apg_limit = n\<rparr>)"
  have "order i ?rows = sorted_by_desc au_created_at ?rows" for i
    using newest_first_unique [OF _ sorted_by_desc_law assms(2)] assms(1) by blast
  then have "concat (map (\<lambda>i. apg_items (page i)) [0..<k]) = take (k * n) (sorted_by_desc au_created_at ?rows)"
    by (simp add: page_def pages_concat)
  moreover have "length (sorted_by_desc au_created_at ?rows) \<le> k * n"
    using assms(3) by (simp add: sorted_by_desc_def)
  moreover have "\<forall>i. list_audit_logs (order i) cur q (i * n) n d = Inr (page i)"
    using True by (simp add: list_audit_logs_def get_current_superuser_def page_def Let_def)
  moreover have "\<forall>i. apg_total (page i) = int (length ?rows)" by (simp add: page_def)
  ultimately show ?thesis using True by (intro if_P [THEN iffD2] exI [of _ page]) simp_all
next
  case False
  then show ?thesis by (simp add: list_audit_logs_def get_current_superuser_def)
qed

text \<open>Three logins, of which two match, read one to a page.\<close>

definition demo_entry :: "string \<Rightarrow> datetime \<Rightarrow> audit_log" where
  "demo_entry action t =
     \<lparr>au_id = action, au_actor_id = None, au_actor_type = ''user'', au_action = action, au_target_type = ''user'',
      au_target_id = None, au_details = [], au_ip_address = None, au_created_at = t\<rparr>"

theorem audit_pages_complete_witness:
  "\<exists>page. (\<forall>i. list_audit_logs (sorted_by_desc au_created_at) (demo_owner\<lparr>user_is_superuser := True\<rparr>)
       \<lparr>aq_actor_id = None, aq_action = Some ''auth.login'', aq_target_type = None, aq_target_id = Some []\<rparr> (i * 1) 1
       (empty_database\<lparr>audit_logs := [demo_entry ''auth.login'' 1, demo_entry ''x'' 1, demo_entry ''auth.login'' 3]\<rparr>) = Inr (page i)) \<and>
     concat (map (\<lambda>i. apg_items (page i)) [0..<2]) = [demo_entry ''auth.login'' 3, demo_entry ''auth.login'' 1]"
proof -
  let ?q = "\<lparr>aq_actor_id = None, aq_action = Some ''auth.login'', aq_target_type = None, aq_target_id = Some []\<rparr>"
  let ?d = "empty_database\<lparr>audit_logs := [demo_entry ''auth.login'' 1, demo_entry ''x'' 1, demo_entry ''auth.login'' 3]\<rparr>"
  let ?u = "demo_owner\<lparr>user_is_superuser := True\<rparr>"
  have rows: "filter (matches ?q) (audit_logs ?d) = [demo_entry ''auth.login'' 1, demo_entry ''auth.login'' 3]"
    by (simp add: matches_def demo_entry_def)
  have sorted: "sorted_by_desc au_created_at [demo_entry ''auth.login'' 1, demo_entry ''auth.login'' 3] =
      [demo_entry ''auth.login'' 3, demo_entry ''auth.login'' 1]"
    by (simp add: sorted_by_desc_def demo_entry_def)
  have "if user_is_superuser ?u
     then \<exists>page. (\<forall>i. list_audit_logs (sorted_by_desc au_created_at) ?u ?q (i * 1) 1 ?d = Inr (page i)) \<and>
       concat (map (\<lambda>i. apg_items (page i)) [0..<2]) = sorted_by_desc au_created_at (filter (matches ?q) (audit_logs ?d)) \<and>
       (\<forall>i. apg_total (page i) = int (length (filter (matches ?q) (audit_logs ?d))))
     else \<forall>i. list_audit_logs (sorted_by_desc au_created_at) ?u ?q (i * 1) 1 ?d = Inl (HTTPException 403 ''Superuser privileges required'')"
    by (rule audit_pages_complete) (use rows sorted_by_desc_law in \<open>simp_all add: demo_entry_def\<close>)
  then show ?thesis unfolding rows sorted by (simp add: demo_owner_def) blast
qed

end
