(* ===== verification/Relay_Client_Run.thy ===== *)
theory Relay_Client_Run
  imports Relay_Api Backend_Server
begin

text \<open>
  The life of the daemon's relay client, \<open>midscaled/daemon/relay_client.py\<close>, around the messages of
  \<open>Relay_Server\<close>: starting and stopping, reconnecting, and what its two loops send by themselves, over
  the relay server and the statistics of the API. How an attempt to connect ends is an input, and the
  waits are in seconds.
\<close>

section \<open>Start, stop and reconnecting\<close>

record relay_runner =
  rr_running :: bool
  rr_task :: bool
  rr_client :: relay_client

definition new_relay_runner :: "string \<Rightarrow> relay_runner" where
  "new_relay_runner did =
     \<lparr>rr_running = False, rr_task = False,
      rr_client = \<lparr>rk_device_id = did, rk_connected = False, rk_buffer = [], rk_active_sessions = [], rk_bytes_tx = 0, rk_bytes_rx = 0\<rparr>\<rparr>"

definition start_relay_client :: "relay_runner \<Rightarrow> relay_runner" where
  "start_relay_client r = (if rr_running r then r else r\<lparr>rr_running := True, rr_task := True\<rparr>)"

definition stop_relay_client :: "relay_runner \<Rightarrow> relay_runner" where
  "stop_relay_client r = r\<lparr>rr_running := False, rr_task := False, rr_client := (rr_client r)\<lparr>rk_connected := False\<rparr>\<rparr>"

definition RECONNECT_BASE_DELAY :: int where "RECONNECT_BASE_DELAY = 1"
definition RECONNECT_MAX_DELAY :: int where "RECONNECT_MAX_DELAY = 60"

text \<open>A time-out, a refusal and any other exception differ in the log only.\<close>

datatype relay_attempt = Session_ran | Attempt_failed

fun relay_waits :: "int \<Rightarrow> relay_attempt list \<Rightarrow> int list" where
  "relay_waits delay [] = []"
| "relay_waits delay (a # as) =
     (let d = (if a = Session_ran then RECONNECT_BASE_DELAY else delay)
      in d # relay_waits (min (d * 2) RECONNECT_MAX_DELAY) as)"

lemma relay_waits_bounded:
  "1 \<le> delay \<Longrightarrow> delay \<le> 60 \<Longrightarrow> w \<in> set (relay_waits delay as) \<Longrightarrow> 1 \<le> w \<and> w \<le> 60"
proof (induction as arbitrary: delay)
  case (Cons a as)
  define d where "d = (if a = Session_ran then RECONNECT_BASE_DELAY else delay)"
  have d: "1 \<le> d" "d \<le> 60" using Cons.prems(1,2) by (simp_all add: d_def RECONNECT_BASE_DELAY_def)
  consider "w = d" | "w \<in> set (relay_waits (min (d * 2) RECONNECT_MAX_DELAY) as)"
    using Cons.prems(3) by (auto simp: Let_def d_def)
  then show ?case
    using d Cons.IH [of "min (d * 2) RECONNECT_MAX_DELAY"] by cases (auto simp: RECONNECT_MAX_DELAY_def)
qed simp

section \<open>What the client sends by itself\<close>

text \<open>
  A round of one of the two loops. Every connection starts a new pair of loops, and neither they nor
  anything else repeats the sessions that were connected before.
\<close>

datatype client_round = Heartbeat_round | Stats_round

definition round_message :: "client_round \<Rightarrow> relay_client \<Rightarrow> bytes result" where
  "round_message a k = (case a of Heartbeat_round \<Rightarrow> heartbeat_round k | Stats_round \<Rightarrow> stats_round k)"

text \<open>
  The totals go to the API as well, once for every active session; what it answers is not looked at,
  and the client stays as it is.
\<close>

fun report_sessions :: "'w server \<Rightarrow> api_client \<Rightarrow> relay_client \<Rightarrow> string list \<Rightarrow> 'w \<Rightarrow> 'w" where
  "report_sessions server c k [] w = w"
| "report_sessions server c k (sid # sids) w =
     report_sessions server c k sids
       (fst (api_request_relay_session_update server sid (rk_bytes_tx k) (rk_bytes_rx k) c w))"

definition stats_turn :: "'w server \<Rightarrow> api_client \<Rightarrow> relay_client \<Rightarrow> 'w \<Rightarrow> relay_client \<times> 'w" where
  "stats_turn server c k w =
     (k, case stats_round k of Inl e \<Rightarrow> w | Inr _ \<Rightarrow> report_sessions server c k (map fst (rk_active_sessions k)) w)"

text \<open>The client while it is connected: bytes that come in, and the loop for the statistics.\<close>

datatype relay_event = Received bytes | Stats_due

fun relay_life :: "'w server \<Rightarrow> api_client \<Rightarrow> relay_event list \<Rightarrow> relay_client \<Rightarrow> 'w \<Rightarrow> relay_client \<times> 'w" where
  "relay_life server c [] k w = (k, w)"
| "relay_life server c (Received bs # evs) k w = relay_life server c evs (fst (client_read bs k)) w"
| "relay_life server c (Stats_due # evs) k w =
     (case stats_turn server c k w of (k', w') \<Rightarrow> relay_life server c evs k' w')"

text \<open>The endpoint on the other side: the bearer token, the body, then the handler.\<close>

definition serve_relay_stats :: "deployment \<Rightarrow> bool \<Rightarrow> backend server" where
  "serve_relay_stats p bus rq b =
     (case bearer_token (rq_auth rq) of
        None \<Rightarrow> refuse (unauthenticated p) b
      | Some token \<Rightarrow>
          (case get_current_device (dw_verify (dp_world p)) token (bk_db b) of
             Inl e \<Rightarrow> refuse (error_reply e) b
           | Inr cur \<Rightarrow>
               if \<not> accepted (dp_valid p) RelayStatsUpdate rq then refuse (unprocessable p) b
               else run_handler 200
                      (\<lambda>(status, sid, tx, rx). JObj [(''status'', JStr status), (''session_id'', JStr sid),
                         (''bytes_tx'', JInt tx), (''bytes_rx'', JInt rx)])
                      (update_relay_stats_endpoint bus (dr_env (dp_draws p (bk_turn b))) (rq_path rq ! 3)
                        (int_field 0 ''bytes_tx'' (body_of rq)) (int_field 0 ''bytes_rx'' (body_of rq)) cur) b))"

section \<open>A lost connection\<close>

fun deliver :: "nat \<Rightarrow> (datetime \<times> datetime \<times> bytes) list \<Rightarrow> relay_server \<Rightarrow> relay_server" where
  "deliver c [] s = s"
| "deliver c ((now, utc, bs) # rest) s = deliver c rest (fst (data_received now utc c bs s))"

definition unidentified :: "nat \<Rightarrow> relay_server \<Rightarrow> bool" where
  "unidentified c s \<longleftrightarrow> rp_device_id (rv_protocols s c) = JNull \<and> rp_buffer (rv_protocols s c) = []"

text \<open>A heartbeat on a connection that has not identified itself changes nothing.\<close>

lemma heartbeat_unidentified:
  assumes "unidentified c s" and "length (relay_payload MSG_TYPE_HEARTBEAT body) < 2 ^ 32"
  shows "unidentified c (fst (data_received now utc c (wire (relay_payload MSG_TYPE_HEARTBEAT body)) s)) \<and>
     rv_connections (fst (data_received now utc c (wire (relay_payload MSG_TYPE_HEARTBEAT body)) s)) = rv_connections s"
proof -
  let ?p = "relay_payload MSG_TYPE_HEARTBEAT body"
  have "fst (handle_message now utc c ?p s) = s"
    using assms(1)
    by (simp add: handle_message_def msg_types handle_heartbeat_def unidentified_def Let_def truthy_json_def split: option.splits)
  then have "fst (data_received now utc c (wire ?p) s) = set_rp_buffer c [] s"
    using server.reassembly [of s c "[?p]" "[]" "[wire ?p]" now utc] assms
    by (simp add: unidentified_def incomplete_def unpack_u32_def case_prod_beta)
  then show ?thesis using assms(1) by (simp add: unidentified_def) (simp add: set_rp_buffer_def)
qed

lemma nothing_received:
  assumes "unidentified c s"
  shows "fst (data_received now utc c [] s) = set_rp_buffer c [] s"
  using assms by (simp add: data_received_def unidentified_def frame_loop_incomplete incomplete_def unpack_u32_def set_rp_buffer_def)

lemma round_unidentified:
  assumes "unidentified c s" and "round_message a k = Inr bs"
  shows "unidentified c (fst (data_received now utc c bs s)) \<and> rv_connections (fst (data_received now utc c bs s)) = rv_connections s"
proof (cases "bs = []")
  case True
  then show ?thesis using assms(1) nothing_received [OF assms(1)] by (simp add: unidentified_def) (simp add: set_rp_buffer_def)
next
  case False
  then obtain body where "client_send k MSG_TYPE_HEARTBEAT body = Inr bs" "bs \<noteq> []"
    using assms(2) by (auto simp: round_message_def heartbeat_round_def stats_round_def split: client_round.splits if_splits)
  then have "bs = wire (relay_payload MSG_TYPE_HEARTBEAT body)" "length body + 18 < 2 ^ 32"
    by (auto simp: client_send_def relay_frame_wire split: if_splits)
  moreover have "length (relay_payload MSG_TYPE_HEARTBEAT body) = length body + 18"
    by (simp add: relay_payload_def RELAY_MAGIC_def encode_text_def)
  ultimately show ?thesis using heartbeat_unidentified [OF assms(1)] by simp
qed

lemma rounds_unidentified:
  "unidentified c s \<Longrightarrow> \<forall>(now, utc, bs) \<in> set msgs. \<exists>a k. round_message a k = Inr bs \<Longrightarrow>
     unidentified c (deliver c msgs s) \<and> rv_connections (deliver c msgs s) = rv_connections s"
proof (induction msgs arbitrary: s)
  case (Cons m msgs)
  obtain now utc bs where m: "m = (now, utc, bs)" by (cases m) auto
  obtain a k where "round_message a k = Inr bs" using Cons.prems(2) m by auto
  from round_unidentified [OF Cons.prems(1) this, of now utc] show ?case
    using Cons.IH [of "fst (data_received now utc c bs s)"] Cons.prems(2) m by simp
qed simp

section \<open>Properties\<close>

text \<open>
  C18. A relay connection that breaks is never restored: whatever the client's loops send on the new
  connection, the relay server does not know the device again, so data for it is no longer forwarded.
\<close>

theorem relay_not_restored:
  assumes "rp_device_id (rv_protocols srv c) = JStr did" and "did \<noteq> []"
    and "\<forall>(now, utc, bs) \<in> set msgs. \<exists>a k. round_message a k = Inr bs"
  shows "get_connection (KStr did) (deliver c' msgs (connection_made c' (connection_lost c srv))) = None"
proof -
  let ?s = "connection_made c' (connection_lost c srv)"
  have "unidentified c' ?s" by (simp add: unidentified_def connection_made_def)
  from rounds_unidentified [OF this assms(3)]
  have "rv_connections (deliver c' msgs ?s) = rv_connections (connection_lost c srv)"
    by (simp add: connection_made_def)
  moreover have "get_connection (KStr did) (connection_lost c srv) = None"
    using assms(1,2)
    by (simp add: connection_lost_def dict_key_def unregister_connection_def get_connection_def truthy_json_def delete_conv')
  ultimately show ?thesis by (simp add: get_connection_def)
qed

theorem relay_not_restored_witness:
  "\<exists>bs. round_message Heartbeat_round demo_relay_client = Inr bs \<and>
     get_connection (KStr ''b'') (demo_relay_server\<lparr>rv_protocols := (rv_protocols demo_relay_server)
       (2 := (rv_protocols demo_relay_server 2)\<lparr>rp_device_id := JStr ''b''\<rparr>)\<rparr>) = Some 2 \<and>
     get_connection (KStr ''b'') (deliver 3 [(0, 0, bs), (9, 9, bs)] (connection_made 3 (connection_lost 2
       (demo_relay_server\<lparr>rv_protocols := (rv_protocols demo_relay_server)
          (2 := (rv_protocols demo_relay_server 2)\<lparr>rp_device_id := JStr ''b''\<rparr>)\<rparr>)))) = None"
proof -
  let ?srv = "demo_relay_server\<lparr>rv_protocols := (rv_protocols demo_relay_server)
       (2 := (rv_protocols demo_relay_server 2)\<lparr>rp_device_id := JStr ''b''\<rparr>)\<rparr>"
  obtain bs where bs: "round_message Heartbeat_round demo_relay_client = Inr bs"
    by (simp add: round_message_def heartbeat_round_def client_send_def relay_frame_wire demo_relay_client_def encode_text_def
        dumps_str_def escape_char_def)
  have "get_connection (KStr ''b'') (deliver 3 [(0, 0, bs), (9, 9, bs)] (connection_made 3 (connection_lost 2 ?srv))) = None"
    by (rule relay_not_restored) (use bs in auto)
  moreover have "get_connection (KStr ''b'') ?srv = Some 2" by (simp add: get_connection_def demo_relay_server_def)
  ultimately show ?thesis using bs by blast
qed

section \<open>What a session is charged with\<close>

text \<open>Reading adds the sizes that go to the log to the received total, and nothing else.\<close>

definition logged_bytes :: "client_log \<Rightarrow> int" where
  "logged_bytes out = sum_list (map (\<lambda>(_, n). int n) out)"

definition reads_on :: "relay_client \<Rightarrow> relay_client \<Rightarrow> client_log \<Rightarrow> bool" where
  "reads_on k k' out \<longleftrightarrow> rk_bytes_rx k' = rk_bytes_rx k + logged_bytes out \<and> rk_bytes_tx k' = rk_bytes_tx k \<and>
     rk_active_sessions k' = rk_active_sessions k"

lemma reads_on_Nil: "reads_on k k []"
  by (simp add: reads_on_def logged_bytes_def)

lemma reads_on_append: "reads_on k k1 xs \<Longrightarrow> reads_on k1 k2 ys \<Longrightarrow> reads_on k k2 (xs @ ys)"
  by (simp add: reads_on_def logged_bytes_def)

lemma message_reads: "client_handle_message payload k = (k', out) \<Longrightarrow> reads_on k k' out"
  by (auto simp: reads_on_def logged_bytes_def client_handle_message_def client_handle_data_def
      split: list.splits option.splits json.splits if_splits)

lemma frame_loop_reads: "frame_loop client_handle_message buf k = (k', out, rest) \<Longrightarrow> reads_on k k' out"
proof (induction buf arbitrary: k out rest rule: length_induct)
  case (1 buf)
  show ?case
  proof (cases "incomplete buf")
    case True
    then show ?thesis using 1(2) by (simp add: frame_loop_incomplete reads_on_Nil)
  next
    case False
    then obtain w where w: "unpack_u32 buf 0 = Inr w" and len: "HEADER_SIZE + unat w \<le> length buf"
      by (auto simp: incomplete_def not_less split: sum.splits)
    let ?t = "HEADER_SIZE + unat w"
    have short: "length (drop ?t buf) < length buf" using len by (simp add: HEADER_SIZE_def)
    obtain k1 o1 where one: "client_handle_message (slice HEADER_SIZE ?t buf) k = (k1, o1)" by (meson surj_pair)
    obtain k2 o2 r where more: "frame_loop client_handle_message (drop ?t buf) k1 = (k2, o2, r)" by (metis prod_cases3)
    have k': "k' = k2" and out: "out = o1 @ o2"
      using 1(2) frame_loop_step [OF w refl len, of client_handle_message k] one more by simp_all
    have "reads_on k1 k' o2" using 1(1) [rule_format, OF short, of k1 o2 r] more k' by simp
    then show ?thesis unfolding out by (rule reads_on_append [OF message_reads [OF one]])
  qed
qed

lemma client_read_reads: "reads_on k (fst (client_read bs k)) (snd (client_read bs k))"
proof -
  obtain k' out rest where l: "frame_loop client_handle_message (rk_buffer k @ bs) k = (k', out, rest)" by (metis prod_cases3)
  show ?thesis using frame_loop_reads [OF l] by (simp add: client_read_def l reads_on_def)
qed

text \<open>One report to the API: the row of its session grows by the totals.\<close>

definition charge :: "datetime \<Rightarrow> int \<Rightarrow> int \<Rightarrow> relay_session \<Rightarrow> relay_session" where
  "charge now tx rx r = r\<lparr>rel_bytes_tx := rel_bytes_tx r + tx, rel_bytes_rx := rel_bytes_rx r + rx, rel_updated_at := now\<rparr>"

lemma charge_fields [simp]:
  "rel_id (charge now tx rx r) = rel_id r" "rel_bytes_tx (charge now tx rx r) = rel_bytes_tx r + tx"
  "rel_bytes_rx (charge now tx rx r) = rel_bytes_rx r + rx"
  by (simp_all add: charge_def)

lemma update_row_absent: "filter (\<lambda>r. key r = k) rows = [] \<Longrightarrow> update_row key k f rows = rows"
  unfolding update_row_def by (intro map_idI) (auto simp: filter_empty_conv)

lemma stats_request:
  assumes "relay_sessions_ok (relay_sessions d)" and "parse_uuid sid = Inr sid"
  shows "snd (run_request (update_relay_stats_endpoint bus e sid tx rx cur) d) =
    d\<lparr>relay_sessions := update_row rel_id sid (charge (env_now e 0) tx rx) (relay_sessions d)\<rparr>"
proof (cases "filter (\<lambda>r. rel_id r = sid) (relay_sessions d)")
  case Nil
  then have "update_relay_stats_endpoint bus e sid tx rx cur d = Inl (HTTPException 404 ''relay session not found'')"
    using assms(2) by (simp add: update_relay_stats_endpoint_def update_relay_stats_def find_relay_session_def)
  then show ?thesis using update_row_absent [OF Nil] by (simp add: run_request_simps)
next
  case (Cons r rs)
  then have "r \<in> set (filter (\<lambda>r. rel_id r = sid) (relay_sessions d))" by simp
  then have "r \<in> set (relay_sessions d)" "rel_id r = sid" by simp_all
  then have "find_relay_session sid d = Inr (Some r)"
    using rel_tab.lookup_mem_one_or_none [OF assms(1)] by (auto simp: find_relay_session_def)
  then obtain x es where "update_relay_stats_endpoint bus e sid tx rx cur d = Inr (x, put_relay_session sid (charge (env_now e 0) tx rx) d, es)"
    using assms(2) by (simp add: update_relay_stats_endpoint_def update_relay_stats_def charge_def [abs_def] Let_def)
  then show ?thesis by (simp add: run_request_simps put_relay_session_def)
qed

definition reporting :: "deployment \<Rightarrow> api_client \<Rightarrow> database \<Rightarrow> bool" where
  "reporting p c d \<longleftrightarrow> truthy_str (ac_device_id c) \<and>
     (\<exists>token cur. ac_device_token c = Some token \<and> token \<noteq> [] \<and> get_current_device (dw_verify (dp_world p)) token d = Inr cur)"

lemma reporting_devices: "devices d' = devices d \<Longrightarrow> reporting p c d' \<longleftrightarrow> reporting p c d"
proof -
  assume same: "devices d' = devices d"
  then have scan: "scan_devices v token d' = scan_devices v token d" for v token by (simp add: scan_devices_def)
  have "get_current_device v token d' = get_current_device v token d" for v token
    unfolding get_current_device_def lookup_device_by_token_def same scan by (rule refl)
  then show ?thesis by (simp add: reporting_def)
qed

lemma report_request:
  assumes "documented (dp_valid p)" and "reporting p c (bk_db b)" and "relay_sessions_ok (relay_sessions (bk_db b))"
    and "parse_uuid sid = Inr sid"
  shows "\<exists>now. fst (api_request_relay_session_update (backend_server p (serve_relay_stats p bus)) sid tx rx c b) =
    \<lparr>bk_db = (bk_db b)\<lparr>relay_sessions := update_row rel_id sid (charge now tx rx) (relay_sessions (bk_db b))\<rparr>,
     bk_turn = Suc (bk_turn b)\<rparr>"
proof -
  obtain token cur where c: "truthy_str (ac_device_id c)" "ac_device_token c = Some token" "token \<noteq> []"
    and cur: "get_current_device (dw_verify (dp_world p)) token (bk_db b) = Inr cur"
    using assms(2) by (auto simp: reporting_def)
  have "parse_uuid [] \<noteq> Inr []" by code_simp
  then have ne: "sid \<noteq> []" using assms(4) by auto
  let ?rq = "relay_stats_rq (auth_headers c) sid tx rx"
  have fields: "bearer_token (rq_auth ?rq) = Some token" "rq_path ?rq ! 3 = sid" "int_field 0 ''bytes_tx'' (body_of ?rq) = tx"
    "int_field 0 ''bytes_rx'' (body_of ?rq) = rx"
    using c bearer_token_header [of token]
    by (simp_all add: relay_stats_rq_def post_request_def api_path_def auth_headers_def truthy_str_def body_of_def int_field_def dict_get_add)
  have "handler_of ?rq = Some ''relay.update_relay_stats_endpoint''" by (rule session_requests_resolve(3) [OF ne])
  then have "backend_server p (serve_relay_stats p bus) ?rq b = serve_relay_stats p bus ?rq b"
    by (simp add: backend_server_def)
  also have "\<dots> = run_handler 200 (\<lambda>(status, sid, tx, rx). JObj [(''status'', JStr status), (''session_id'', JStr sid),
        (''bytes_tx'', JInt tx), (''bytes_rx'', JInt rx)])
      (update_relay_stats_endpoint bus (dr_env (dp_draws p (bk_turn b))) sid tx rx cur) b"
    unfolding serve_relay_stats_def fields using bodies_accepted(11) [OF assms(1)] cur by simp
  finally have "fst (backend_server p (serve_relay_stats p bus) ?rq b) =
      \<lparr>bk_db = (bk_db b)\<lparr>relay_sessions := update_row rel_id sid
         (charge (env_now (dr_env (dp_draws p (bk_turn b))) 0) tx rx) (relay_sessions (bk_db b))\<rparr>, bk_turn = Suc (bk_turn b)\<rparr>"
    using stats_request [OF assms(3,4)] by (simp add: run_handler_def case_prod_beta)
  then show ?thesis
    using c(1) by (auto simp: api_request_relay_session_update_def api_status_def split: prod.splits http_reply.splits)
qed

text \<open>What holds of the backend as long as the client reports: the row has grown by these amounts.\<close>

definition charged :: "deployment \<Rightarrow> api_client \<Rightarrow> relay_session \<Rightarrow> int \<Rightarrow> int \<Rightarrow> backend \<Rightarrow> bool" where
  "charged p c r tx rx b \<longleftrightarrow> reporting p c (bk_db b) \<and> relay_sessions_ok (relay_sessions (bk_db b)) \<and>
     (\<exists>r' \<in> set (relay_sessions (bk_db b)). rel_id r' = rel_id r \<and> rel_bytes_tx r' = rel_bytes_tx r + tx \<and>
        rel_bytes_rx r' = rel_bytes_rx r + rx)"

lemma report_charges:
  assumes "documented (dp_valid p)" and "charged p c r a b bk" and "parse_uuid sid = Inr sid"
  shows "charged p c r (a + (if sid = rel_id r then tx else 0)) (b + (if sid = rel_id r then rx else 0))
    (fst (api_request_relay_session_update (backend_server p (serve_relay_stats p bus)) sid tx rx c bk))"
proof -
  obtain r' where ok: "reporting p c (bk_db bk)" "relay_sessions_ok (relay_sessions (bk_db bk))" "r' \<in> set (relay_sessions (bk_db bk))"
    and r': "rel_id r' = rel_id r" "rel_bytes_tx r' = rel_bytes_tx r + a" "rel_bytes_rx r' = rel_bytes_rx r + b"
    using assms(2) by (auto simp: charged_def)
  obtain now where after: "fst (api_request_relay_session_update (backend_server p (serve_relay_stats p bus)) sid tx rx c bk) =
    \<lparr>bk_db = (bk_db bk)\<lparr>relay_sessions := update_row rel_id sid (charge now tx rx) (relay_sessions (bk_db bk))\<rparr>,
     bk_turn = Suc (bk_turn bk)\<rparr>"
    using report_request [OF assms(1) ok(1,2) assms(3)] by blast
  have "(if rel_id r' = sid then charge now tx rx r' else r') \<in> set (update_row rel_id sid (charge now tx rx) (relay_sessions (bk_db bk)))"
    using ok(3) by (force simp: update_row_def)
  then show ?thesis
    unfolding charged_def after using ok(1,2) r' rel_tab.ok_update_row [of "charge now tx rx", OF _ ok(2)]
    by (auto simp: reporting_devices [of "(bk_db bk)\<lparr>relay_sessions := _\<rparr>"] split: if_splits intro!: bexI [rotated])
qed

lemma reports_charge:
  assumes "documented (dp_valid p)"
  shows "charged p c r a b bk \<Longrightarrow> \<forall>sid \<in> set sids. parse_uuid sid = Inr sid \<Longrightarrow>
    charged p c r (a + int (count_list sids (rel_id r)) * rk_bytes_tx k) (b + int (count_list sids (rel_id r)) * rk_bytes_rx k)
      (report_sessions (backend_server p (serve_relay_stats p bus)) c k sids bk)"
proof (induction sids arbitrary: a b bk)
  case (Cons sid sids)
  have "charged p c r (a + (if sid = rel_id r then rk_bytes_tx k else 0)) (b + (if sid = rel_id r then rk_bytes_rx k else 0))
      (fst (api_request_relay_session_update (backend_server p (serve_relay_stats p bus)) sid (rk_bytes_tx k) (rk_bytes_rx k) c bk))"
    by (rule report_charges [OF assms Cons.prems(1)]) (use Cons.prems(2) in simp)
  from Cons.IH [OF this] Cons.prems(2) show ?case by (auto simp: algebra_simps)
qed simp

text \<open>
  What a run reports: at each report that can be packed into a frame, the bytes received up to then,
  counted from what the client logs.
\<close>

fun reported :: "int \<Rightarrow> relay_event list \<Rightarrow> relay_client \<Rightarrow> int list" where
  "reported n [] k = []"
| "reported n (Received bs # evs) k =
     reported (n + logged_bytes (snd (client_read bs k))) evs (fst (client_read bs k))"
| "reported n (Stats_due # evs) k =
     (case stats_round k of Inl _ \<Rightarrow> reported n evs k | Inr _ \<Rightarrow> n # reported n evs k)"

lemma count_list_distinct: "distinct xs \<Longrightarrow> count_list xs x = (if x \<in> set xs then 1 else 0)"
  by (induction xs) (auto simp: count_list_0_iff)

lemma life_charges:
  assumes "documented (dp_valid p)"
  shows "charged p c r a b bk \<Longrightarrow> \<forall>sid \<in> fst ` set (rk_active_sessions k). parse_uuid sid = Inr sid \<Longrightarrow>
    distinct (map fst (rk_active_sessions k)) \<Longrightarrow> rel_id r \<in> fst ` set (rk_active_sessions k) \<Longrightarrow>
    charged p c r (a + int (length (reported (rk_bytes_rx k) evs k)) * rk_bytes_tx k) (b + sum_list (reported (rk_bytes_rx k) evs k))
      (snd (relay_life (backend_server p (serve_relay_stats p bus)) c evs k bk))"
proof (induction evs arbitrary: a b bk k)
  case (Cons ev evs)
  show ?case
  proof (cases ev)
    case (Received bs)
    have "reads_on k (fst (client_read bs k)) (snd (client_read bs k))" by (rule client_read_reads)
    then show ?thesis
      using Cons.IH [of a b bk "fst (client_read bs k)"] Cons.prems by (simp add: Received reads_on_def)
  next
    case Stats_due
    show ?thesis
    proof (cases "stats_round k")
      case (Inl e)
      then show ?thesis using Cons.IH [OF Cons.prems] by (simp add: Stats_due stats_turn_def)
    next
      case (Inr out)
      let ?keys = "map fst (rk_active_sessions k)"
      have one: "count_list ?keys (rel_id r) = 1"
        using Cons.prems(3,4) by (simp add: count_list_distinct)
      have "charged p c r (a + rk_bytes_tx k) (b + rk_bytes_rx k)
          (report_sessions (backend_server p (serve_relay_stats p bus)) c k ?keys bk)"
        using reports_charge [OF assms Cons.prems(1), of ?keys k bus] Cons.prems(2) one by simp
      from Cons.IH [OF this Cons.prems(2-4)] show ?thesis
        by (simp add: Stats_due stats_turn_def Inr algebra_simps)
    qed
  qed
qed simp

text \<open>
  C21. The client never resets its totals and the backend adds every report to the row. So, whatever
  bytes a connected client receives and whenever its statistics are due: a session it is in is charged
  at every report with all the bytes received up to then, by whatever session they came; the sum of
  these running totals is added to what the row had. Sent bytes are never counted: the sent total is
  reported as it was at the start.
\<close>

theorem relay_totals_accumulate:
  assumes "documented (dp_valid p)" and "ac_device_id c = Some did" and "did \<noteq> []" and "ac_device_token c = Some token" and "token \<noteq> []"
    and "get_current_device (dw_verify (dp_world p)) token (bk_db b) = Inr cur"
    and "relay_sessions_ok (relay_sessions (bk_db b))" and "r \<in> set (relay_sessions (bk_db b))"
    and "rel_id r \<in> fst ` set (rk_active_sessions k)" and "distinct (map fst (rk_active_sessions k))"
    and "\<forall>sid \<in> fst ` set (rk_active_sessions k). parse_uuid sid = Inr sid"
    and "relay_life (backend_server p (serve_relay_stats p bus)) c evs k b = (k', b')"
  shows "\<exists>r' \<in> set (relay_sessions (bk_db b')). rel_id r' = rel_id r \<and>
    rel_bytes_rx r' = rel_bytes_rx r + sum_list (reported (rk_bytes_rx k) evs k) \<and>
    rel_bytes_tx r' = rel_bytes_tx r + int (length (reported (rk_bytes_rx k) evs k)) * rk_bytes_tx k"
proof -
  have "charged p c r 0 0 b"
    using assms(2-8) by (auto simp: charged_def reporting_def truthy_str_def)
  from life_charges [OF assms(1) this assms(11,10,9), of evs bus] show ?thesis
    by (auto simp: assms(12) charged_def)
qed

text \<open>A client in one session that receives two bytes; both of its next two reports charge them.\<close>

definition charged_session :: string where
  "charged_session = ''00000000-0000-0000-0000-000000000002''"

definition charged_client :: relay_client where
  "charged_client = demo_relay_client\<lparr>rk_active_sessions := [(charged_session, ''t'', 0)]\<rparr>"

definition charged_device :: device where
  "charged_device = (demo_device ''b'' ''n'' None)\<lparr>dev_token_hash := Some ''#tok''\<rparr>"

definition charged_row :: relay_session where
  "charged_row = new_relay_session charged_session ''t'' 0 ''a'' ''b'' ''default'' ''relay0''"

definition charging_deployment :: deployment where
  "charging_deployment = \<lparr>dp_world = demo_device_world, dp_valid = demo_valid,
     dp_draws = (\<lambda>_. \<lparr>dr_env = demo_env, dr_raw = [], dr_secret = []\<rparr>), dp_bearer_401 = True, dp_unprocessable = JNull\<rparr>"

definition charging_backend :: backend where
  "charging_backend = \<lparr>bk_db = empty_database\<lparr>devices := [charged_device], relay_sessions := [charged_row]\<rparr>, bk_turn = 0\<rparr>"

lemma charged_uuid: "parse_uuid charged_session = Inr charged_session"
  unfolding charged_session_def by code_simp

lemma two_bytes_read:
  "\<exists>frame. client_read frame charged_client = (charged_client\<lparr>rk_bytes_rx := 2\<rparr>, [(JNull, 2)])"
proof -
  let ?fwd = "encode_text (json_dumps (JObj [(''from_device_id'', JNull), (''data'', JStr (hex_bytes [9, 8]))]))"
  have "length ?fwd + 18 < 2 ^ 32"
    by (simp add: encode_text_def dumps_str_def hex_bytes_def escape_char_def hex_char_def)
  moreover have "get_connection (KStr ''b'') demo_relay_server = Some 2"
    by (simp add: get_connection_def demo_relay_server_def)
  ultimately obtain frame where "\<forall>chunks. concat chunks = frame \<longrightarrow> handle_all client_read chunks charged_client =
      (charged_client\<lparr>rk_bytes_rx := rk_bytes_rx charged_client + int (length [9, 8 :: byte])\<rparr>,
       [(rp_device_id (rv_protocols demo_relay_server 1), length [9, 8 :: byte])])"
    using relay_delivers_data [of "''b''" demo_relay_server 2 1 ?fwd "[9, 8]" charged_client 0 0]
    by (auto simp: demo_relay_server_def charged_client_def demo_relay_client_def simp del: json_dumps.simps)
  then have "handle_all client_read [frame] charged_client = (charged_client\<lparr>rk_bytes_rx := 2\<rparr>, [(JNull, 2)])"
    by (auto simp: demo_relay_server_def charged_client_def demo_relay_client_def simp del: handle_all.simps)
  then show ?thesis by (intro exI [of _ frame]) (simp add: case_prod_beta prod_eq_iff)
qed

lemma two_bytes_packed: "\<exists>bs. stats_round (charged_client\<lparr>rk_bytes_rx := 2\<rparr>) = Inr bs"
proof -
  have "str_nat 2 = ''2''" "str_nat 0 = ''0''" by code_simp+
  then show ?thesis
    by (simp add: stats_round_def client_send_def relay_frame_wire charged_client_def demo_relay_client_def encode_text_def
        dumps_str_def escape_char_def str_int_def)
qed

theorem relay_totals_accumulate_witness:
  "\<exists>frame k' b' r'. relay_life (backend_server charging_deployment (serve_relay_stats charging_deployment True))
       \<lparr>ac_device_id = Some ''b'', ac_device_token = Some ''tok''\<rparr> [Received frame, Stats_due, Stats_due] charged_client charging_backend = (k', b') \<and>
     logged_bytes (snd (client_read frame charged_client)) = 2 \<and>
     r' \<in> set (relay_sessions (bk_db b')) \<and> rel_id r' = charged_session \<and> rel_bytes_rx r' = 4 \<and> rel_bytes_tx r' = 0"
proof -
  obtain frame where frame: "client_read frame charged_client = (charged_client\<lparr>rk_bytes_rx := 2\<rparr>, [(JNull, 2)])"
    using two_bytes_read by blast
  obtain bs where bs: "stats_round (charged_client\<lparr>rk_bytes_rx := 2\<rparr>) = Inr bs" using two_bytes_packed by blast
  have totals: "reported (rk_bytes_rx charged_client) [Received frame, Stats_due, Stats_due] charged_client = [2, 2]"
    by (simp add: frame bs logged_bytes_def) (simp add: charged_client_def demo_relay_client_def)
  let ?c = "\<lparr>ac_device_id = Some ''b'', ac_device_token = Some ''tok''\<rparr>"
  have auth: "get_current_device (dw_verify (dp_world charging_deployment)) ''tok'' (bk_db charging_backend) = Inr charged_device"
    by (simp add: get_current_device_def lookup_device_by_token_def split_token_def TOKEN_PREFIX_def startswith_def scan_devices_def
        token_matches_def check_device_status_def truthy_str_def charging_deployment_def charging_backend_def demo_device_world_def
        charged_device_def demo_device_def)
  have valid: "documented (dp_valid charging_deployment)" by (simp add: charging_deployment_def demo_documented)
  have ids: "ac_device_id ?c = Some ''b''" "''b'' \<noteq> []" "ac_device_token ?c = Some ''tok''" "''tok'' \<noteq> []" by simp_all
  have rows: "relay_sessions_ok (relay_sessions (bk_db charging_backend))" "charged_row \<in> set (relay_sessions (bk_db charging_backend))"
    "rel_id charged_row \<in> fst ` set (rk_active_sessions charged_client)" "distinct (map fst (rk_active_sessions charged_client))"
    "\<forall>sid \<in> fst ` set (rk_active_sessions charged_client). parse_uuid sid = Inr sid"
    "rel_id charged_row = charged_session" "rel_bytes_rx charged_row = 0" "rel_bytes_tx charged_row = 0" "rk_bytes_tx charged_client = 0"
    using charged_uuid
    by (simp_all add: charging_backend_def relay_sessions_ok_def charged_row_def new_relay_session_def charged_client_def demo_relay_client_def)
  obtain k' b' where run: "relay_life (backend_server charging_deployment (serve_relay_stats charging_deployment True)) ?c
      [Received frame, Stats_due, Stats_due] charged_client charging_backend = (k', b')" by (meson surj_pair)
  have "logged_bytes (snd (client_read frame charged_client)) = 2" by (simp add: frame logged_bytes_def)
  moreover obtain r' where "r' \<in> set (relay_sessions (bk_db b'))" "rel_id r' = rel_id charged_row"
      "rel_bytes_rx r' = rel_bytes_rx charged_row + sum_list [2, 2]"
      "rel_bytes_tx r' = rel_bytes_tx charged_row + int (length [2, 2 :: int]) * rk_bytes_tx charged_client"
    using relay_totals_accumulate [OF valid ids auth rows(1-5) run] unfolding totals by blast
  ultimately show ?thesis using run rows(6-9) by (intro exI [of _ frame] exI [of _ k'] exI [of _ b'] exI [of _ r']) simp
qed

end
