(* ===== verification/Stun_Query.thy ===== *)
theory Stun_Query
  imports Stun
begin

text \<open>
  One query of the daemon's STUN client, \<open>query_stun_server\<close> and \<open>_StunClientProtocol\<close> of
  \<open>midscaled/daemon/stun_client.py\<close>. What the event loop does to the protocol before the time-out is a
  list of events; the round-trip time is the text of the rounded number.
\<close>

record stun_result =
  sr_public_ip :: string
  sr_public_port :: "16 word"
  sr_server :: string
  sr_rtt_ms :: string

text \<open>The future \<open>done\<close>: not set, or set to a result that may be \<open>None\<close>.\<close>

record stun_protocol =
  sp_transaction_id :: bytes
  sp_sent :: "bytes list"
  sp_done :: "stun_result option option"

datatype stun_event =
    Connection_made
  | Datagram bytes "(string \<times> int) option" string
  | Error_received
  | Connection_lost

definition set_done :: "stun_result option \<Rightarrow> stun_protocol \<Rightarrow> stun_protocol" where
  "set_done r p = (if sp_done p = None then p\<lparr>sp_done := Some r\<rparr> else p)"

text \<open>A datagram whose parsing raises leaves the future alone; the event loop reports the exception.\<close>

definition stun_event_step :: "(bytes \<Rightarrow> string) \<Rightarrow> stun_event \<Rightarrow> stun_protocol \<Rightarrow> stun_protocol" where
  "stun_event_step inet_ntop6 ev p =
     (case ev of
        Connection_made \<Rightarrow> p\<lparr>sp_sent := sp_sent p @ [fst (build_binding_request (sp_transaction_id p))]\<rparr>
      | Datagram data addr rtt \<Rightarrow>
          (case parse_binding_response inet_ntop6 data (sp_transaction_id p) of
             Inl _ \<Rightarrow> p
           | Inr None \<Rightarrow> set_done None p
           | Inr (Some (ip, port)) \<Rightarrow>
               set_done (Some \<lparr>sr_public_ip = ip, sr_public_port = port,
                 sr_server = (case addr of None \<Rightarrow> ''unknown'' | Some (h, n) \<Rightarrow> h @ '':'' @ str_int n), sr_rtt_ms = rtt\<rparr>) p)
      | Error_received \<Rightarrow> set_done None p
      | Connection_lost \<Rightarrow> set_done None p)"

definition run_stun_events :: "(bytes \<Rightarrow> string) \<Rightarrow> bytes \<Rightarrow> stun_event list \<Rightarrow> stun_protocol" where
  "run_stun_events inet_ntop6 tid evs =
     foldl (\<lambda>p ev. stun_event_step inet_ntop6 ev p) \<lparr>sp_transaction_id = tid, sp_sent = [], sp_done = None\<rparr> evs"

text \<open>Whether the name resolves and the socket can be opened, and what happens before the time-out.\<close>

record query_inputs =
  qi_resolved :: bool
  qi_socket :: bool
  qi_events :: "stun_event list"

definition query_stun_server :: "(bytes \<Rightarrow> string) \<Rightarrow> bytes \<Rightarrow> query_inputs \<Rightarrow> stun_result option" where
  "query_stun_server inet_ntop6 tid q =
     (if \<not> qi_resolved q \<or> \<not> qi_socket q then None
      else (case sp_done (run_stun_events inet_ntop6 tid (qi_events q)) of None \<Rightarrow> None | Some r \<Rightarrow> r))"

section \<open>Lemmas\<close>

text \<open>Once the future is set, nothing changes it.\<close>

lemma done_stays:
  "sp_done p = Some r \<Longrightarrow> sp_done (foldl (\<lambda>p ev. stun_event_step f ev p) p evs) = Some r"
proof (induction evs arbitrary: p)
  case (Cons ev evs)
  have "sp_done (stun_event_step f ev p) = Some r"
    using Cons.prems by (auto simp: stun_event_step_def set_done_def split: stun_event.splits sum.splits option.splits)
  from Cons.IH [OF this] show ?case by simp
qed simp

lemma query_first:
  assumes "sp_done (stun_event_step f ev \<lparr>sp_transaction_id = tid, sp_sent = [fst (build_binding_request tid)], sp_done = None\<rparr>) = Some r"
  shows "query_stun_server f tid \<lparr>qi_resolved = True, qi_socket = True, qi_events = Connection_made # ev # evs\<rparr> = r"
  using done_stays [OF assms, of f evs]
  by (simp add: query_stun_server_def run_stun_events_def) (simp add: stun_event_step_def)

section \<open>Property\<close>

text \<open>
  C20. A query asks and gets back the address and port the server saw when the server's answer is the
  first datagram to arrive. Any other datagram that can be parsed ends the query without a result when it
  comes first, although the genuine answer follows.
\<close>

theorem stun_query_roundtrip:
  assumes "length tid = 12" and "a < 2 ^ 32" and "parse_binding_response f stray tid = Inr None"
  shows "\<exists>resp. stun_handler ipv6_packed (hd (sp_sent (run_stun_events f tid [Connection_made]))) (str_ipv4 a, port) = Some resp \<and>
     query_stun_server f tid \<lparr>qi_resolved = True, qi_socket = True,
         qi_events = Connection_made # Datagram resp (Some (h, n)) rtt # evs\<rparr> =
       Some \<lparr>sr_public_ip = str_ipv4 a, sr_public_port = port, sr_server = h @ '':'' @ str_int n, sr_rtt_ms = rtt\<rparr> \<and>
     query_stun_server f tid \<lparr>qi_resolved = True, qi_socket = True,
         qi_events = Connection_made # Datagram stray src rtt' # Datagram resp (Some (h, n)) rtt # evs\<rparr> = None"
proof -
  let ?resp = "response_of tid (word_of_nat a) port"
  have a: "unat (word_of_nat a :: 32 word) = a" using assms(2) by (simp add: unat_of_nat take_bit_nat_eq_self)
  have sent: "hd (sp_sent (run_stun_events f tid [Connection_made])) = fst (build_binding_request tid)"
    by (simp add: run_stun_events_def stun_event_step_def)
  have "stun_handler ipv6_packed (fst (build_binding_request tid)) (str_ipv4 a, port) = Some ?resp"
    using parse_request_request [OF assms(1)] build_binding_response_request [OF assms(1,2), of ipv6_packed port]
    by (simp add: stun_handler_def)
  moreover have "parse_binding_response f ?resp tid = Inr (Some (str_ipv4 a, port))"
    using parse_response_of [OF assms(1)] by (simp add: a)
  then have "query_stun_server f tid \<lparr>qi_resolved = True, qi_socket = True,
         qi_events = Connection_made # Datagram ?resp (Some (h, n)) rtt # evs\<rparr> =
       Some \<lparr>sr_public_ip = str_ipv4 a, sr_public_port = port, sr_server = h @ '':'' @ str_int n, sr_rtt_ms = rtt\<rparr>"
    by (intro query_first) (simp add: stun_event_step_def set_done_def)
  moreover have "query_stun_server f tid \<lparr>qi_resolved = True, qi_socket = True,
         qi_events = Connection_made # Datagram stray src rtt' # Datagram ?resp (Some (h, n)) rtt # evs\<rparr> = None"
    using assms(3) by (intro query_first) (simp add: stun_event_step_def set_done_def)
  ultimately show ?thesis unfolding sent by (intro exI conjI)
qed

theorem stun_query_roundtrip_witness:
  "\<exists>resp. query_stun_server (\<lambda>_. []) (replicate 12 7) \<lparr>qi_resolved = True, qi_socket = True,
       qi_events = [Connection_made, Datagram resp (Some (''stun.example'', 9)) ''12.3'']\<rparr> =
     Some \<lparr>sr_public_ip = str_ipv4 3232235777, sr_public_port = 51820, sr_server = ''stun.example:9'', sr_rtt_ms = ''12.3''\<rparr> \<and>
   query_stun_server (\<lambda>_. []) (replicate 12 7) \<lparr>qi_resolved = True, qi_socket = True,
       qi_events = [Connection_made, Datagram [1] None ''0.1'', Datagram resp (Some (''stun.example'', 9)) ''12.3'']\<rparr> = None"
proof -
  have stray: "parse_binding_response (\<lambda>_. []) [1] (replicate 12 7) = Inr None"
    by (simp add: parse_binding_response_def STUN_HEADER_SIZE_def)
  have nine: "str_int 9 = ''9''" by code_simp
  have text_eq: "''stun.example'' @ '':'' @ str_int 9 = ''stun.example:9''"
    using nine by simp
  have len: "length (replicate 12 7 :: bytes) = 12" and le: "(3232235777 :: nat) < 2 ^ 32" by simp_all
  from stun_query_roundtrip [OF len le stray, of "\<lambda>_. None" 51820 "''stun.example''" 9 "''12.3''" "[]" None "''0.1''"]
  show ?thesis unfolding text_eq by (elim exE conjE) (intro exI conjI)
qed

end
