(* ===== verification/Wg_Sync.thy ===== *)
theory Wg_Sync
  imports Health
begin

text \<open>
  The parts of \<open>services/wireguard.py\<close> that reach for the host: choosing an adapter, generating the keys of a
  network's own device, and \<open>sync_wireguard_interface\<close>. Running \<open>wg\<close> is a parameter; it gives nothing when
  the program is not found.
\<close>

section \<open>Adapters and keys\<close>

datatype adapter_choice = Cli_adapter string | Mock_adapter

definition create_adapter :: "app_settings \<Rightarrow> wg_run \<Rightarrow> adapter_choice result" where
  "create_adapter cfg run =
     (case run of
        Wg_ran \<Rightarrow> Inr (Cli_adapter (cfg_wireguard_binary cfg))
      | Wg_raised e \<Rightarrow> Inl e
      | _ \<Rightarrow> Inr Mock_adapter)"

type_synonym 'w wg_program = "string list \<Rightarrow> string option \<Rightarrow> 'w \<Rightarrow> 'w \<times> (string \<times> string) option"

text \<open>The exit code of the program is not looked at.\<close>

definition run_wg_text :: "'w wg_program \<Rightarrow> string option \<Rightarrow> string list \<Rightarrow> 'w \<Rightarrow> 'w \<times> (string \<times> string) option" where
  "run_wg_text prog input args w =
     (case prog (''wg'' # args) input w of
        (w', None) \<Rightarrow> (w', None)
      | (w', Some (out, err)) \<Rightarrow> (w', Some (strip out, strip err)))"

definition mock_keys :: "string \<times> string" where
  "mock_keys = (''MOCK_'' @ replicate 44 CHR ''a'', ''MOCK_'' @ replicate 44 CHR ''b'')"

definition server_keypair :: "'w wg_program \<Rightarrow> 'w \<Rightarrow> 'w \<times> string \<times> string" where
  "server_keypair prog w =
     (case run_wg_text prog None [''genkey''] w of
        (w1, None) \<Rightarrow> (w1, mock_keys)
      | (w1, Some (private_key, _)) \<Rightarrow>
          (case run_wg_text prog (Some private_key) [''pubkey''] w1 of
             (w2, None) \<Rightarrow> (w2, mock_keys)
           | (w2, Some (public_key, _)) \<Rightarrow> (w2, private_key, public_key)))"

text \<open>
  Without the program every network's own device gets the same key, and one that no adapter for the
  command line accepts.
\<close>

lemma server_keypair_mock:
  assumes "\<forall>args input w. snd (prog args input w) = None"
  shows "snd (server_keypair prog w) = mock_keys \<and> \<not> validate_wireguard_key (snd mock_keys)"
proof
  have "snd (run_wg_text prog None [''genkey''] w) = None"
    using assms by (simp add: run_wg_text_def split: prod.splits option.splits) (metis option.distinct(1) snd_conv)
  then show "snd (server_keypair prog w) = mock_keys" by (auto simp: server_keypair_def split: prod.splits)
  have "length (chomp (snd mock_keys)) = 49" by (simp add: mock_keys_def chomp_def)
  then show "\<not> validate_wireguard_key (snd mock_keys)"
    by (simp add: validate_wireguard_key_def peer_key_pattern_def hex_key_pattern_def)
qed

section \<open>Synchronising an interface\<close>

definition syncable :: "uuid \<Rightarrow> device \<Rightarrow> bool" where
  "syncable nid r \<longleftrightarrow> dev_network_id r = nid \<and> dev_is_active r \<and> dev_public_key r \<noteq> None \<and> dev_ip_address r \<noteq> None"

text \<open>A peer that cannot be added is skipped.\<close>

fun sync_peers :: "'w wg_adapter \<Rightarrow> string \<Rightarrow> device list \<Rightarrow> 'w \<Rightarrow> 'w" where
  "sync_peers ad interface [] w = w"
| "sync_peers ad interface (r # rs) w =
     sync_peers ad interface rs
       (if dev_name r = server_device_name then w
        else fst (ad_add_peer ad interface (the (dev_public_key r)) [the (dev_ip_address r) @ ''/32''] None None w))"

definition sync_wireguard_interface :: "'w wg_adapter \<Rightarrow> settings \<Rightarrow> uuid \<Rightarrow> database \<Rightarrow> 'w \<Rightarrow> 'w \<times> unit result" where
  "sync_wireguard_interface ad cfg nid d w =
     (case scalar_one_or_none (filter (\<lambda>n. net_id n = nid) (networks d)) of
        Inl e \<Rightarrow> (w, Inl e)
      | Inr None \<Rightarrow> (w, Inr ())
      | Inr (Some n) \<Rightarrow>
          (let interface = the (or_str (net_interface_name n) (Some (cfg_wireguard_interface cfg)))
           in case ad_interface_exists ad interface w of
                (w1, Inr True) \<Rightarrow> (sync_peers ad interface (filter (syncable nid) (devices d)) w1, Inr ())
              | (w1, _) \<Rightarrow> (w1, Inr ())))"

text \<open>What the table gains, in order.\<close>

definition sync_entries :: "device list \<Rightarrow> (string \<times> string list) list" where
  "sync_entries rs = map (\<lambda>r. (the (dev_public_key r), [the (dev_ip_address r) @ ''/32'']))
     (filter (\<lambda>r. dev_name r \<noteq> server_device_name) rs)"

context peer_table
begin

lemma sync_peers_table:
  "ok w \<Longrightarrow> peers w i = Some m \<Longrightarrow>
     ok (sync_peers ad i rs w) \<and> peers (sync_peers ad i rs w) = (peers w)(i \<mapsto> m ++ map_of (rev (sync_entries rs)))"
proof (induction rs arbitrary: w m)
  case (Cons r rs)
  show ?case
  proof (cases "dev_name r = server_device_name")
    case True
    then show ?thesis using Cons by (simp add: sync_entries_def)
  next
    case False
    let ?k = "the (dev_public_key r)" and ?ips = "[the (dev_ip_address r) @ ''/32'']"
    obtain w1 where w1: "ad_add_peer ad i ?k ?ips None None w = (w1, Inr ())" "ok w1" "peers w1 = (peers w)(i \<mapsto> m(?k \<mapsto> ?ips))"
      using add_peer [OF Cons.prems] by blast
    have "sync_entries (r # rs) = (?k, ?ips) # sync_entries rs" using False by (simp add: sync_entries_def)
    then have "m ++ map_of (rev (sync_entries (r # rs))) = m(?k \<mapsto> ?ips) ++ map_of (rev (sync_entries rs))"
      by (simp add: map_add_assoc [symmetric])
    moreover have "peers w1 i = Some (m(?k \<mapsto> ?ips))" by (simp add: w1(3))
    from Cons.IH [OF w1(2) this] have "ok (sync_peers ad i rs w1) \<and>
        peers (sync_peers ad i rs w1) = (peers w)(i \<mapsto> m(?k \<mapsto> ?ips) ++ map_of (rev (sync_entries rs)))"
      by (simp only: w1(3) fun_upd_upd)
    moreover have "sync_peers ad i (r # rs) w = sync_peers ad i rs w1" using False w1(1) by simp
    ultimately show ?thesis by (simp only:)
  qed
qed (simp add: sync_entries_def fun_upd_idem)

lemma sync_table:
  assumes "ok w" and "scalar_one_or_none (filter (\<lambda>n. net_id n = nid) (networks d)) = Inr (Some n)"
    and "interface = the (or_str (net_interface_name n) (Some (cfg_wireguard_interface cfg)))" and "peers w interface = Some m"
  shows "\<exists>w'. sync_wireguard_interface ad cfg nid d w = (w', Inr ()) \<and> ok w' \<and>
     peers w' = (peers w)(interface \<mapsto> m ++ map_of (rev (sync_entries (filter (syncable nid) (devices d)))))"
  using assms sync_peers_table [OF assms(1,4), of "filter (syncable nid) (devices d)"] exists_peers [OF assms(1), of interface]
  by (simp add: sync_wireguard_interface_def)

end

section \<open>On the in-memory adapter\<close>

text \<open>
  Synchronising adds a peer for every active device of the network that has a key and an address, and
  removes none: on the in-memory adapter the table of the interface is what it was, overridden by those
  devices; the peers of devices that have been revoked stay.
\<close>

lemma sync_only_adds:
  assumes "mock_ok w" and "scalar_one_or_none (filter (\<lambda>n. net_id n = nid) (networks d)) = Inr (Some n)"
    and "interface = the (or_str (net_interface_name n) (Some (cfg_wireguard_interface cfg)))" and "mock_peers w interface = Some m"
  shows "\<exists>w'. sync_wireguard_interface mock_adapter cfg nid d w = (w', Inr ()) \<and>
     mock_peers w' = (mock_peers w)(interface \<mapsto> m ++ map_of (rev (sync_entries (filter (syncable nid) (devices d)))))"
  using mock.sync_table [OF assms] by blast

end
