(* ===== verification/Metrics.thy ===== *)
theory Metrics
  imports Endpoints Routes Wg_Controller App
begin

text \<open>
  The declarations of \<open>services/metrics.py\<close>, and that the services use every metric as the kind it is
  declared. Help texts and the buckets of histograms are left out.
\<close>

datatype metric_kind = Is_counter | Is_gauge | Is_histogram

record metric =
  mt_variable :: string
  mt_kind :: metric_kind
  mt_name :: string
  mt_labels :: "string list"

definition metric_of :: "string \<Rightarrow> metric_kind \<Rightarrow> string \<Rightarrow> string list \<Rightarrow> metric" where
  "metric_of v k n ls = \<lparr>mt_variable = v, mt_kind = k, mt_name = n, mt_labels = ls\<rparr>"

definition metrics :: "metric list" where
  "metrics =
     [metric_of ''CONTROLLER_RUNS'' Is_counter ''midscale_controller_runs_total'' [''interface''],
      metric_of ''CONTROLLER_RUN_DURATION'' Is_histogram ''midscale_controller_run_duration_seconds'' [''interface''],
      metric_of ''CONTROLLER_PEERS_ADDED'' Is_counter ''midscale_controller_peers_added_total'' [''interface''],
      metric_of ''CONTROLLER_PEERS_REMOVED'' Is_counter ''midscale_controller_peers_removed_total'' [''interface''],
      metric_of ''CONTROLLER_ERRORS'' Is_counter ''midscale_controller_errors_total'' [''interface''],
      metric_of ''WS_CONNECTIONS'' Is_gauge ''midscale_websocket_connections'' [],
      metric_of ''WS_MESSAGES_SENT'' Is_counter ''midscale_websocket_messages_sent_total'' [],
      metric_of ''EVENTS_PUBLISHED'' Is_counter ''midscale_events_published_total'' [''event_type''],
      metric_of ''EVENT_BUS_CONNECTED'' Is_gauge ''midscale_event_bus_connected'' [],
      metric_of ''DNS_ZONES_MANAGED'' Is_gauge ''midscale_dns_zones_managed'' [],
      metric_of ''DNS_SYNC_DURATION'' Is_histogram ''midscale_dns_sync_duration_seconds'' [],
      metric_of ''DEVICES_TOTAL'' Is_gauge ''midscale_devices_total'' [],
      metric_of ''DEVICES_ONLINE'' Is_gauge ''midscale_devices_online'' [],
      metric_of ''API_REQUESTS'' Is_counter ''midscale_api_requests_total'' [''method'', ''endpoint'', ''status''],
      metric_of ''AUDIT_EVENTS'' Is_counter ''midscale_audit_events_total'' [''action''],
      metric_of ''ROUTES_TOTAL'' Is_counter ''midscale_routes_total'' [],
      metric_of ''ROUTES_APPROVED'' Is_counter ''midscale_routes_approved_total'' [],
      metric_of ''EXIT_NODES_TOTAL'' Is_counter ''midscale_exit_nodes_total'' [],
      metric_of ''DEVICE_ENROLLMENT'' Is_counter ''midscale_device_enrollment_total'' [''result''],
      metric_of ''DAEMON_AUTH_FAILURES'' Is_counter ''midscale_daemon_auth_failures_total'' [''reason''],
      metric_of ''RATE_LIMIT_BLOCKED'' Is_counter ''midscale_rate_limit_blocked_total'' [''limiter'', ''path''],
      metric_of ''ENDPOINT_PROBE_TOTAL'' Is_counter ''midscale_endpoint_probe_total'' [''result''],
      metric_of ''ENDPOINT_REACHABLE'' Is_gauge ''midscale_endpoint_reachable_total'' [],
      metric_of ''ENDPOINT_SCORE_UPDATES'' Is_counter ''midscale_endpoint_score_updates_total'' [],
      metric_of ''NAT_PUNCH_TOTAL'' Is_counter ''midscale_nat_punch_total'' [''result''],
      metric_of ''NAT_CONNECTIVITY_TOTAL'' Is_counter ''midscale_nat_connectivity_total'' [''result''],
      metric_of ''NAT_SESSION_ACTIVE'' Is_gauge ''midscale_nat_session_active'' [],
      metric_of ''NAT_PUNCH_DURATION'' Is_histogram ''midscale_nat_punch_duration_seconds'' [],
      metric_of ''RELAY_SESSIONS_TOTAL'' Is_counter ''midscale_relay_sessions_total'' [''state''],
      metric_of ''RELAY_CONNECTIONS_ACTIVE'' Is_gauge ''midscale_relay_connections_active'' [],
      metric_of ''RELAY_FALLBACK_TOTAL'' Is_counter ''midscale_relay_fallback_total'' [],
      metric_of ''RELAY_BYTES_TRANSFERRED'' Is_counter ''midscale_relay_bytes_total'' [''direction''],
      metric_of ''RELAY_SESSION_DURATION'' Is_histogram ''midscale_relay_session_duration_seconds'' [],
      metric_of ''HEALTH_CHECK'' Is_gauge ''midscale_health_check'' [''probe'']]"

definition declared :: "metric_kind \<Rightarrow> string \<Rightarrow> bool \<Rightarrow> bool" where
  "declared k v labelled \<longleftrightarrow>
     list_ex (\<lambda>m. mt_variable m = v \<and> mt_kind m = k \<and> (labelled \<longrightarrow> mt_labels m \<noteq> [])) metrics"

text \<open>
  A counter only grows, and takes labels only when it is declared with some. The label of a gauge is the
  second word of its name.
\<close>

definition used_as_declared :: "effect \<Rightarrow> bool" where
  "used_as_declared e =
     (case e of
        Counter_inc v l n \<Rightarrow> 0 \<le> n \<and> declared Is_counter v (l \<noteq> [])
      | Gauge_add v n \<Rightarrow> declared Is_gauge (takeWhile (\<lambda>c. c \<noteq> CHR '' '') v) (CHR '' '' \<in> set v)
      | Gauge_set v n \<Rightarrow> declared Is_gauge (takeWhile (\<lambda>c. c \<noteq> CHR '' '') v) (CHR '' '' \<in> set v)
      | _ \<Rightarrow> True)"

definition effects_of :: "('a \<times> database \<times> effect list) result \<Rightarrow> effect list" where
  "effects_of r = (case r of Inl _ \<Rightarrow> [] | Inr (_, _, es) \<Rightarrow> es)"

text \<open>The registry refuses a name that is taken; every name has the prefix of the application.\<close>

lemma metrics_registered:
  "distinct (map mt_name metrics) \<and> distinct (map mt_variable metrics) \<and> list_all (\<lambda>m. startswith (mt_name m) ''midscale_'') metrics"
  by code_simp

lemma declared_metrics [simp]:
  "declared Is_counter ''RELAY_SESSIONS_TOTAL'' b" "declared Is_counter ''AUDIT_EVENTS'' b"
  "declared Is_counter ''ENDPOINT_PROBE_TOTAL'' b" "declared Is_counter ''API_REQUESTS'' b"
  "declared Is_counter ''RATE_LIMIT_BLOCKED'' b" "declared Is_counter ''ENDPOINT_SCORE_UPDATES'' False"
  "declared Is_counter ''RELAY_FALLBACK_TOTAL'' False" "declared Is_counter ''ROUTES_TOTAL'' False"
  "declared Is_counter ''EXIT_NODES_TOTAL'' False" "declared Is_counter ''ROUTES_APPROVED'' False"
  "declared Is_gauge ''RELAY_CONNECTIONS_ACTIVE'' False" "declared Is_gauge ''NAT_SESSION_ACTIVE'' False"
  "declared Is_gauge ''ENDPOINT_REACHABLE'' False" "declared Is_gauge ''WS_CONNECTIONS'' False"
  "declared Is_gauge ''DEVICES_ONLINE'' False" "declared Is_gauge ''DEVICES_TOTAL'' False" "declared Is_gauge ''HEALTH_CHECK'' b"
  by (cases b; code_simp)+

lemma used_as_declared_simps [simp]:
  "used_as_declared (Counter_inc v l n) \<longleftrightarrow> 0 \<le> n \<and> declared Is_counter v (l \<noteq> [])"
  "used_as_declared (Gauge_add v n) \<longleftrightarrow> declared Is_gauge (takeWhile (\<lambda>c. c \<noteq> CHR '' '') v) (CHR '' '' \<in> set v)"
  "used_as_declared (Gauge_set v n) \<longleftrightarrow> declared Is_gauge (takeWhile (\<lambda>c. c \<noteq> CHR '' '') v) (CHR '' '' \<in> set v)"
  "used_as_declared (Publish ty p)" "used_as_declared (Ws_send i p)"
  by (simp_all add: used_as_declared_def)

lemma published_as_declared [simp]: "list_all used_as_declared (Domain.publish bus ty p)"
  by (simp add: Domain.publish_def)

lemma audit_metric_as_declared [simp]: "list_all used_as_declared (audit_metric a)"
  by (simp add: audit_metric_def)

lemma effects_of_simps [simp]: "effects_of (Inl e) = []" "effects_of (Inr (x, d, es)) = es"
  by (simp_all add: effects_of_def)

lemma effects_of_bind:
  "(\<And>x. list_all P (effects_of (f x))) \<Longrightarrow> list_all P (effects_of (bind_result r f))"
  by (cases r) simp_all

lemma relay_service_metrics:
  "list_all used_as_declared (effects_of (create_relay_session bus sid token now a b region node d))"
  "list_all used_as_declared (effects_of (activate_relay_session bus now1 now2 sid d))"
  "list_all used_as_declared (effects_of (close_relay_session st event bus now sid d))"
  "list_all used_as_declared (effects_of (update_relay_stats bus now sid tx rx d))"
  "list_all used_as_declared (snd (snd (cleanup_expired_relays now d)))"
  by (auto simp: create_relay_session_def activate_relay_session_def close_relay_session_def update_relay_stats_def
      cleanup_expired_relays_def relay_sessions_active_def Let_def intro!: effects_of_bind split: option.splits)

lemma nat_service_metrics:
  "list_all used_as_declared (effects_of (create_nat_session bus e a b m d))"
  "list_all used_as_declared (effects_of (start_punch bus now1 now2 sid d))"
  "list_all used_as_declared (snd (snd (expire_stale_sessions now d)))"
  "list_all used_as_declared (effects_of (process_probe_result e p d))"
  by (auto simp: create_nat_session_def start_punch_def expire_stale_sessions_def process_probe_result_def nat_event_def
      nat_sessions_gauge_def Let_def intro!: effects_of_bind split: option.splits prod.splits)

lemma route_metrics:
  "list_all used_as_declared (effects_of (approve_route e rid approved enabled u d))"
  "list_all used_as_declared (effects_of (device_advertise_route cfg e did req d))"
  by (auto simp: approve_route_def device_advertise_route_def insert_route_def route_counters_def Let_def
      intro!: effects_of_bind split: option.splits prod.splits)

lemma app_metrics:
  "list_all used_as_declared (metrics_turn cfg ap i d)"
  "list_all used_as_declared (snd (snd (dispatch ops fl up t later rq next st)))"
  by (auto simp: metrics_turn_def) (auto simp: dispatch_def count_request_def Let_def split: prod.splits sum.splits option.splits bool.splits)

text \<open>
  The services only use metrics that are declared, each as the kind it is declared with: counters are
  never lowered, gauges are not incremented like counters, and labels are given only where there are some.
  This covers the relay, NAT, probe and route services, the metrics loop and the rate-limit middleware.
\<close>

theorem metrics_used_as_declared:
  "list_all used_as_declared
     (effects_of (create_relay_session bus sid token now a b region node d) @
      effects_of (activate_relay_session bus now now2 sid d) @ effects_of (close_relay_session st event bus now sid d) @
      effects_of (update_relay_stats bus now sid tx rx d) @ snd (snd (cleanup_expired_relays now d)) @
      effects_of (create_nat_session bus e a b m d) @ effects_of (start_punch bus now now2 sid d) @
      snd (snd (expire_stale_sessions now d)) @ effects_of (process_probe_result e p d) @
      effects_of (approve_route e rid approved enabled u d) @ effects_of (device_advertise_route cfg e did req d) @
      metrics_turn app_cfg ap i d @ snd (snd (dispatch ops fl up t later rq next lim)))"
  by (simp only: list_all_append relay_service_metrics nat_service_metrics route_metrics app_metrics)

end
