(* ===== verification/Restart.thy ===== *)
theory Restart
  imports Devices App_Settings
begin

text \<open>
  The encryption of private keys in \<open>core/security.py\<close> and what a restart does to it: without an encryption
  key in its environment the backend draws a new one at every start (\<open>model_post_init\<close>). Fernet is a
  parameter: reading a key, which raises on a bad one, encryption and decryption.
\<close>

record 'k fernet_ops =
  fe_key :: "string \<Rightarrow> 'k result"
  fe_encrypt :: "'k \<Rightarrow> string \<Rightarrow> string"
  fe_decrypt :: "'k \<Rightarrow> string \<Rightarrow> string result"

text \<open>Decryption gives back what was encrypted under the same key and refuses what was not.\<close>

definition fernet_laws :: "'k fernet_ops \<Rightarrow> bool" where
  "fernet_laws fe \<longleftrightarrow>
     (\<forall>b m. fe_decrypt fe b (fe_encrypt fe b m) = Inr m) \<and>
     (\<forall>b b' m. b \<noteq> b' \<longrightarrow> fe_decrypt fe b' (fe_encrypt fe b m) = Inl InvalidToken)"

definition encrypt_private_key :: "'k fernet_ops \<Rightarrow> app_settings \<Rightarrow> string \<Rightarrow> string result" where
  "encrypt_private_key fe cfg key =
     bind_result (fe_key fe (cfg_encryption_key cfg)) (\<lambda>b. Inr (fe_encrypt fe b key))"

definition decrypt_private_key :: "'k fernet_ops \<Rightarrow> app_settings \<Rightarrow> string \<Rightarrow> string result" where
  "decrypt_private_key fe cfg encrypted =
     bind_result (fe_key fe (cfg_encryption_key cfg)) (\<lambda>b. fe_decrypt fe b encrypted)"

text \<open>The handlers of a backend that runs with these settings.\<close>

definition running_with :: "'k fernet_ops \<Rightarrow> app_settings \<Rightarrow> device_world \<Rightarrow> device_world" where
  "running_with fe cfg w = w\<lparr>dw_decrypt := decrypt_private_key fe cfg, dw_settings := settings.truncate cfg\<rparr>"

section \<open>Lemmas\<close>

lemma decrypt_encrypted:
  assumes "fernet_laws fe" and "encrypt_private_key fe cfg m = Inr t"
  shows "decrypt_private_key fe cfg t = Inr m"
  using assms by (auto simp: fernet_laws_def encrypt_private_key_def decrypt_private_key_def bind_result_eq_Inr)

lemma decrypt_other_key:
  assumes "fernet_laws fe" and "encrypt_private_key fe cfg m = Inr t"
    and "fe_key fe (cfg_encryption_key cfg) = Inr b" and "fe_key fe (cfg_encryption_key cfg') = Inr b'" and "b \<noteq> b'"
  shows "decrypt_private_key fe cfg' t = Inl InvalidToken"
  using assms by (auto simp: fernet_laws_def encrypt_private_key_def decrypt_private_key_def)

lemma drawn_key: "cfg_encryption_key cfg = [] \<Longrightarrow> cfg_encryption_key (model_post_init k cfg) = k"
  by (simp add: model_post_init_def Let_def)

lemma post_init_truncate [simp]: "settings.truncate (model_post_init k cfg) = settings.truncate cfg"
  by (simp add: model_post_init_def Let_def settings.truncate_def)

text \<open>A run of the loop that decrypts nothing leaves its result alone; any other fails at the first key.\<close>

lemma configs_unreadable:
  assumes "\<forall>r \<in> set rs. \<forall>t. dev_private_key_enc r = Some t \<longrightarrow> dec t = Inl e"
  shows "generate_configs_loop dec plan cfg sn sid dns rs acc = Inl e \<or>
     (\<forall>dec' acc'. generate_configs_loop dec' plan cfg sn sid dns rs acc' = Inr acc')"
  using assms by (induction rs) (auto simp: truthy_str_def split: option.splits)

lemma get_device_config_unreadable:
  assumes "\<forall>r \<in> set (devices d). \<forall>t. dev_private_key_enc r = Some t \<longrightarrow> dec t = Inl e"
    and "get_device_config dec' so cfg d did = Inr c"
  shows "get_device_config dec so cfg d did = Inl e"
proof -
  have sub: "\<forall>r \<in> set (active_devices d nid). \<forall>t. dev_private_key_enc r = Some t \<longrightarrow> dec t = Inl e" for nid
    using assms(1) by (auto simp: active_devices_def)
  have configs: "generate_configs dec gp cfg (active_devices d nid) server n dns rbd ebd = Inl e"
    if "generate_configs dec' gp cfg (active_devices d nid) server n dns rbd ebd = Inr out" "map_of out did = Some x"
    for gp nid server n dns rbd ebd out x
    using that configs_unreadable [OF sub] unfolding generate_configs_def Let_def
    by (metis (no_types, lifting) Inr_inject map_of.simps(1) option.distinct(1))
  have after: "bind_result (generate_configs dec gp cfg (active_devices d nid) server n dns rbd ebd) f = Inl e"
    if "bind_result (generate_configs dec' gp cfg (active_devices d nid) server n dns rbd ebd)
          (\<lambda>cs. case map_of cs did of None \<Rightarrow> Inl err | Some x \<Rightarrow> to_ini x) = Inr c"
    for gp nid server n dns rbd ebd f err
    using that by (auto simp: bind_result_eq_Inr configs split: option.splits)
  obtain r where r: "scalar_one_or_none (filter (\<lambda>r. dev_id r = did) (devices d)) = Inr (Some r)"
    "\<not> (\<not> truthy_str (dev_public_key r) \<or> \<not> truthy_str (dev_private_key_enc r) \<or> \<not> truthy_str (dev_ip_address r))"
    using assms(2) unfolding get_device_config_def bind_result_eq_Inr by (auto split: option.splits if_splits)
  obtain n where n: "scalar_one (filter (\<lambda>n. net_id n = dev_network_id r) (networks d)) = Inr n"
    using assms(2) r unfolding get_device_config_def by (auto simp: bind_result_eq_Inr)
  obtain server where server: "find (\<lambda>x. dev_name x = server_device_name) (active_devices d (dev_network_id r)) = Some server"
    using assms(2) r n unfolding get_device_config_def Let_def by (auto split: option.splits)
  obtain ttype where t: "get_topology_generator cfg (Some n) = Inr ttype"
    using assms(2) r n server unfolding get_device_config_def Let_def by (auto simp: bind_result_eq_Inr)
  show ?thesis
    using assms(2) r n server t unfolding get_device_config_def Let_def by (simp add: after)
qed

section \<open>Property\<close>

text \<open>
  C11. A backend without an encryption key in its settings serves no stored configuration after a restart:
  every configuration that a user could fetch before, with keys encrypted since the last start, raises
  \<open>InvalidToken\<close> under the key drawn at the new start.
\<close>

theorem restart_loses_keys:
  assumes "fernet_laws fe" and "cfg_encryption_key cfg = []"
    and "fe_key fe k = Inr b" and "fe_key fe k' = Inr b'" and "b \<noteq> b'"
    and "\<forall>r \<in> set (devices d). \<forall>t. dev_private_key_enc r = Some t \<longrightarrow>
           (\<exists>key. encrypt_private_key fe (model_post_init k cfg) key = Inr t)"
    and "get_device_config_endpoint (running_with fe (model_post_init k cfg) w) did u d = Inr reply"
  shows "get_device_config_endpoint (running_with fe (model_post_init k' cfg) w) did u d = Inl InvalidToken"
proof -
  have "\<forall>r \<in> set (devices d). \<forall>t. dev_private_key_enc r = Some t \<longrightarrow>
      decrypt_private_key fe (model_post_init k' cfg) t = Inl InvalidToken"
    using assms(3-6) decrypt_other_key [OF assms(1)] by (metis drawn_key [OF assms(2)])
  from get_device_config_unreadable [OF this] assms(7) show ?thesis
    by (auto simp: get_device_config_endpoint_def running_with_def bind_result_eq_Inr)
qed

text \<open>An instance in which a key is its first letter, and a backend that draws one key and then another.\<close>

definition demo_fernet :: "bool fernet_ops" where
  "demo_fernet =
     \<lparr>fe_key = (\<lambda>k. case k of [] \<Rightarrow> Inl (ValueError ''key'') | c # _ \<Rightarrow> Inr (c = CHR ''a'')),
      fe_encrypt = (\<lambda>b m. (if b then CHR ''1'' else CHR ''0'') # m),
      fe_decrypt = (\<lambda>b t. case t of [] \<Rightarrow> Inl InvalidToken
         | c # m \<Rightarrow> if c = (if b then CHR ''1'' else CHR ''0'') then Inr m else Inl InvalidToken)\<rparr>"

definition demo_keyed_database :: database where
  "demo_keyed_database = empty_database\<lparr>networks := [demo_network],
     devices := [(demo_device ''s'' ''n'' (Some ''10.0.0.1''))\<lparr>dev_name := server_device_name, dev_private_key_enc := Some ''1server''\<rparr>,
                 (demo_device ''d'' ''n'' (Some ''10.0.0.2''))\<lparr>dev_private_key_enc := Some ''1secret''\<rparr>]\<rparr>"

lemma defaults: "cfg_encryption_key default_app_settings = []" "settings.truncate default_app_settings = default_settings"
  by (simp_all add: default_app_settings_def settings.defs app_settings.defs)

lemma demo_configs:
  "\<exists>out c. generate_configs (decrypt_private_key demo_fernet (model_post_init ''abc'' default_app_settings)) gp cfg
       (devices demo_keyed_database) server demo_network dns rbd ebd = Inr out \<and>
     map_of out ''d'' = Some c \<and> wc_subnet c = ''10.0.0.0/29''"
  by (simp add: generate_configs_def Let_def demo_keyed_database_def demo_device_def demo_network_def truthy_str_def
      decrypt_private_key_def drawn_key defaults demo_fernet_def)

lemma demo_star: "get_topology_generator default_settings (Some demo_network) = Inr STAR"
  by code_simp

lemma demo_fetched:
  "\<exists>reply. get_device_config_endpoint (running_with demo_fernet (model_post_init ''abc'' default_app_settings) demo_device_world)
     ''d'' demo_owner demo_keyed_database = Inr reply"
proof -
  let ?dec = "decrypt_private_key demo_fernet (model_post_init ''abc'' default_app_settings)"
  have active: "active_devices demo_keyed_database ''n'' = devices demo_keyed_database"
    by (simp add: active_devices_def is_member_def demo_keyed_database_def demo_device_def)
  have ini: "\<exists>t. to_ini c = Inr t" if "wc_subnet c = ''10.0.0.0/29''" for c
    using that by (simp add: to_ini_def demo_pool_29)
  have server: "find (\<lambda>x. dev_name x = server_device_name) (devices demo_keyed_database) = Some (hd (devices demo_keyed_database))"
    by (simp add: demo_keyed_database_def)
  have rows: "scalar_one_or_none (filter (\<lambda>r. dev_id r = ''d'') (devices demo_keyed_database)) = Inr (Some (devices demo_keyed_database ! 1))"
    "networks demo_keyed_database = [demo_network]"
    by (simp_all add: demo_keyed_database_def demo_device_def)
  have "\<exists>t. get_device_config ?dec so default_settings demo_keyed_database ''d'' = Inr t" for so
  proof -
    have r: "truthy_str (dev_public_key (devices demo_keyed_database ! 1))" "truthy_str (dev_private_key_enc (devices demo_keyed_database ! 1))"
      "truthy_str (dev_ip_address (devices demo_keyed_database ! 1))" "dev_network_id (devices demo_keyed_database ! 1) = net_id demo_network"
      "net_id demo_network = ''n''"
      by (simp_all add: demo_keyed_database_def demo_device_def demo_network_def truthy_str_def)
    obtain out c t where out: "generate_configs ?dec (generate_plan_of STAR) default_settings (devices demo_keyed_database)
        (hd (devices demo_keyed_database)) demo_network
        (if dev_dns_enabled (devices demo_keyed_database ! 1) then build_dns_servers so demo_keyed_database ''n'' else None)
        (snd (build_routes_by_device demo_keyed_database ''n'')) Map.empty = Inr out"
      "map_of out ''d'' = Some c" "to_ini c = Inr t"
      using demo_configs ini by blast
    have "scalar_one [demo_network] = Inr demo_network" by (simp add: scalar_one_def)
    with out show ?thesis
      by (cases "dev_dns_enabled (devices demo_keyed_database ! 1)")
        (simp_all add: get_device_config_def rows r server active demo_star Let_def del: One_nat_def)
  qed
  moreover have "owns_by_query demo_owner (devices demo_keyed_database ! 1) demo_keyed_database = Inr ()"
    by (simp add: owns_by_query_def demo_keyed_database_def demo_device_def demo_network_def demo_owner_def)
  ultimately show ?thesis
    by (auto simp: get_device_config_endpoint_def lookup_device_def rows running_with_def demo_device_world_def defaults bind_result_eq_Inr)
qed

theorem restart_loses_keys_witness:
  "\<exists>reply. get_device_config_endpoint (running_with demo_fernet (model_post_init ''abc'' default_app_settings) demo_device_world)
       ''d'' demo_owner demo_keyed_database = Inr reply \<and>
     get_device_config_endpoint (running_with demo_fernet (model_post_init ''xyz'' default_app_settings) demo_device_world)
       ''d'' demo_owner demo_keyed_database = Inl InvalidToken"
proof -
  have laws: "fernet_laws demo_fernet" by (auto simp: fernet_laws_def demo_fernet_def)
  have stored: "\<forall>r \<in> set (devices demo_keyed_database). \<forall>t. dev_private_key_enc r = Some t \<longrightarrow>
      (\<exists>key. encrypt_private_key demo_fernet (model_post_init ''abc'' default_app_settings) key = Inr t)"
    by (simp add: demo_keyed_database_def encrypt_private_key_def drawn_key defaults demo_fernet_def)
  obtain reply where "get_device_config_endpoint (running_with demo_fernet (model_post_init ''abc'' default_app_settings) demo_device_world)
      ''d'' demo_owner demo_keyed_database = Inr reply" using demo_fetched by blast
  moreover from restart_loses_keys [OF laws defaults(1) _ _ _ stored this, of True "''xyz''" False]
  have "get_device_config_endpoint (running_with demo_fernet (model_post_init ''xyz'' default_app_settings) demo_device_world)
      ''d'' demo_owner demo_keyed_database = Inl InvalidToken" by (simp add: demo_fernet_def)
  ultimately show ?thesis by blast
qed

end
