(* ===== verification/Spec2Isabelle.thy ===== *)
theory Spec2Isabelle
  imports Config_V2 Acl Routes Rate_Limiter Stun Nat_Punch Relay_Api Devices Wg_Controller Reconciler Hole_Puncher Event_Ws
    Migrations Daemon_System Daemon_Process Daemon_Tasks App Admin_Api Relay_Client_Run Stun_Query Wg_Sync Metrics Restart
begin

text \<open>
  Midscale is a control plane for WireGuard networks. A FastAPI backend (\<open>src/backend/app\<close>) keeps
  users, networks, devices, routes, access rules and sessions in a database, hands out addresses,
  plans which device peers with which, and serves each device its configuration; a daemon on every
  device (\<open>src/midscaled/daemon\<close>) reports endpoints, probes peers and asks for hole punching, with
  relay sessions as the fallback. This development models the backend's services with the handlers
  that call them and the application around them, and the daemon from its command line to its loops,
  composes the two over the requests they exchange, and proves what they promise.

  \<^bold>\<open>How the code is read.\<close> A table of the database is a list of rows, a query is a filter, a row is
  written through its primary key. A service function is a HOL function from the database (and the
  values it takes from outside: clock readings, fresh ids, random tokens) to an error or to its
  result, the new database and the effects it had outside, in order: events published and metrics
  changed. Every \<open>raise\<close> is a value of \<open>py_error\<close>. A request handler runs in one database session:
  \<open>run_request\<close> commits what it returns and rolls back when it raises. Instants are integers in
  microseconds. Code that is not in the repository (password hashing, JOSE, SHA-256, Fernet, the
  iteration order of sets, what the ORM notices of a JSON value changed in place, the sorted sets of
  Redis, the HTTP library, the \<open>wg\<close> and \<open>ip\<close> programs) is a parameter;
  what a theorem needs of it is a hypothesis of that theorem.

  \<^bold>\<open>Theories.\<close>
  \<^item> \<open>Prelude\<close>: errors, Python's string and sorting functions, queries, and the locale \<open>keyed_table\<close>
    with the laws of a table that has a primary key. \<open>Ipv4\<close>, \<open>Json\<close>, \<open>Bytes\<close>, \<open>Py_Strings\<close>: the parts
    of the standard library (\<open>ipaddress\<close>, \<open>json\<close>, \<open>struct\<close>, \<open>str\<close>) the sources use; \<open>Json\<close> proves that \<open>loads\<close>
    inverts \<open>dumps\<close>.
  \<^item> \<open>Domain\<close>: the rows of \<open>models/*.py\<close> as records, the database, the settings, the effects, the
    transaction of \<open>database.py\<close>; every table interprets \<open>keyed_table\<close>.
  \<^item> \<open>Ipam\<close> (\<open>services/ipam.py\<close>): the first free address is handed out, and none only when all are
    taken; allocation keeps addresses of a network distinct.
  \<^item> \<open>Scoring\<close> (\<open>services/endpoint_scoring.py\<close>): bounds, monotonicity and the exact effects of the score,
    optimality of the selected endpoint.
  \<^item> \<open>Topology\<close> (\<open>services/topology.py\<close>): the abstract generator is the locale \<open>topology_generator\<close>,
    interpreted by the star, mesh and hybrid generators; who peers with whom in each.
  \<^item> \<open>Config_V2\<close> (\<open>services/network_state.py\<close>, \<open>wireguard.py\<close>, \<open>config_renderer.py\<close>): the configuration
    follows the plan, prefers the best endpoint, and its hash identifies the networking state.
  \<^item> \<open>Relay\<close> (\<open>services/relay.py\<close>): the session table as a transition system; the gauge counts the
    active sessions, states only move forward, clean-up is complete.
  \<^item> \<open>Access\<close> (\<open>api/deps.py\<close>, \<open>core/security.py\<close>, \<open>services/auth.py\<close>, \<open>services/audit.py\<close>): who a
    token authenticates.
  \<^item> \<open>Acl\<close> (\<open>services/acl.py\<close>, \<open>api/v1/acls.py\<close>) and \<open>Routes\<close> (\<open>services/route_validation.py\<close>,
    \<open>api/v1/routes.py\<close>): rule evaluation, the invariant of the route table over any sequence of
    requests, and who may change what.
  \<^item> \<open>Rate_Limiter\<close> and \<open>Rate_Redis\<close> (\<open>services/rate_limiter.py\<close>): the sliding window in memory holds
    over any run; over Redis all limiters count together, because they share a key. \<open>Middleware\<close>
    (\<open>core/middleware.py\<close>): which limiter a request goes to, and the bound on what reaches an arbitrary
    application over requests and clean-up rounds.
  \<^item> \<open>Stun\<close> (\<open>services/stun_server.py\<close>, \<open>daemon/stun_client.py\<close>): the client reads the address the
    server saw. The attribute loop of the client terminates because its offset grows. \<open>Stun_Query\<close>: a
    query as the events of its socket.
  \<^item> \<open>Endpoints\<close> (\<open>services/daemon.py\<close>) and \<open>Nat_Punch\<close> (\<open>services/nat.py\<close>, \<open>api/v1/nat.py\<close>): reports,
    probes, hole-punching sessions, promotion of a direct path and the relay fallback.

  \<^item> \<open>Relay_Server\<close> (\<open>services/relay_server.py\<close>, \<open>daemon/relay_client.py\<close>): the length-prefixed
    protocol on the bytes of a connection. The locale \<open>framed_endpoint\<close> shows that the buffered read
    loop implements message-wise handling however the stream is cut; server and client interpret it.
    \<open>Relay_Api\<close> (\<open>api/v1/relay.py\<close>) composes it with the session table of \<open>Relay\<close>. \<open>Relay_Client_Run\<close>: the
    life of the client, the waits between its connection attempts, what its loops send, and what its
    reports are charged to a session by the backend they reach.
  \<^item> \<open>Networks\<close> (\<open>api/v1/networks.py\<close>) and \<open>Devices\<close> (\<open>api/v1/devices.py\<close>): networks, devices, keys,
    enrollment, revocation. All administration requests and heartbeats together are the transition
    system \<open>admin_step\<close>; a run \<open>admin_run\<close> keeps the addresses its requests asked for, and the others of a
    network stay distinct.

  \<^item> \<open>Dns\<close> (\<open>services/dns_records.py\<close>, \<open>services/dns_provider.py\<close>, \<open>api/v1/dns.py\<close>): zones of a network
    and their files. The locale \<open>zone_store\<close>, interpreted by the CoreDNS provider, is what a
    synchronisation needs of a provider; the files serve what the database says.
  \<^item> \<open>Wg_Adapter\<close> (\<open>services/wg_adapter.py\<close>) and \<open>Wg_Controller\<close> (\<open>services/wg_controller.py\<close>): the
    locale \<open>peer_table\<close> is the contract of an adapter, interpreted by the in-memory one, with which a
    reconciliation converges to the keys the database wants; with the command-line adapter it stops at
    the documented dump. The cycle around it never commits.
    \<open>Wg_Sync\<close> (the rest of \<open>services/wireguard.py\<close>): the choice of an adapter, key generation and the
    one-way synchronisation of an interface, proved inside \<open>peer_table\<close>.
  \<^item> \<open>Event_Ws\<close> (\<open>services/event_bus.py\<close>, \<open>services/ws_manager.py\<close>, \<open>api/v1/ws.py\<close>): publishing, the
    listener and its bridge to the web sockets, who may open one and what arrives where.
  \<^item> \<open>Migrations\<close> (\<open>backend/alembic/versions\<close>): every revision as a list of schema operations; together
    they build the tables that the models declare.
  \<^item> \<open>App_Settings\<close> (\<open>config.py\<close>), \<open>Health\<close> (\<open>services/health.py\<close>, \<open>api/v1/health.py\<close>), \<open>Metrics\<close>
    (\<open>services/metrics.py\<close>), \<open>App\<close> (\<open>main.py\<close>) and \<open>Admin_Api\<close> (\<open>api/v1/auth.py\<close>, \<open>api/v1/audit.py\<close>, \<open>seed.py\<close>):
    start and shutdown of the application, a turn of each of its background loops and what any sequence
    of turns leaves alone, the probes, the declared metrics and their use, and the remaining handlers.
    \<open>Restart\<close> (the encryption of \<open>core/security.py\<close>): what a restart without a configured key loses.

  \<^item> \<open>Wg_Runtime\<close> (\<open>daemon/wg_runtime.py\<close>): what the daemon runs on its host; programs are a parameter
    and the host keeps the log of commands; \<open>host_after\<close> is the host after a list of them. \<open>Config_Ini\<close> and \<open>Reconciler\<close> (\<open>daemon/reconciler.py\<close>):
    the INI reader, which inverts the backend's writer, and the reconciliation, which hands every new
    configuration to the interface once. \<open>State_Store\<close> (\<open>daemon/state_store.py\<close>): identity, enrollment
    and cache on disk, and what a restart reads back.
  \<^item> \<open>Hole_Puncher\<close> (\<open>daemon/hole_puncher.py\<close>): candidate pairs, attempts and sessions; what comes in
    during an attempt is a value per attempt, and the rounds are bounded by the retries.
  \<^item> \<open>Api_Client\<close> (\<open>daemon/api_client.py\<close>): every request with its body and how the reply is read.
    \<open>Api_Contract\<close>: the routers, the types of their path parameters and the schemas of the bodies, against
    which the requests are checked.
  \<^item> \<open>Daemon_Config\<close>, \<open>Daemon_Loops\<close>, \<open>Daemon_Main\<close>, \<open>Daemon_Process\<close>, \<open>Daemon_Tasks\<close> (\<open>daemon/config.py\<close>,
    \<open>heartbeat.py\<close>, \<open>endpoint_monitor.py\<close>, \<open>peer_prober.py\<close>, \<open>route_advertiser.py\<close>, \<open>ws_client.py\<close>, \<open>main.py\<close>):
    the settings, a turn of every loop, enrollment, start-up, the reactions to events, the shutdown. The
    locale \<open>background_loop\<close>, interpreted by every loop, keeps at most one task alive; no push is lost.
  \<^item> \<open>Backend_Server\<close> and \<open>Daemon_System\<close>: the backend's handlers as the server the API client talks to,
    and the daemon run against it: enrolling and starting, the runs of an enrolled daemon with its polls,
    tasks, events and punches, and what a report becomes on the other side.

  \<^bold>\<open>Bounds.\<close> No definition uses fuel: loops over lists are structural, and those that are not have a
  measure. Integers are unbounded as in Python; the wire formats are words of 8, 16 and 32 bits.

  \<^bold>\<open>Not modelled\<close>: sockets and subprocesses themselves (what comes out of them is an input), sleeping
  and the cancelling of tasks, logging and its set-up, the texts of library errors, Alembic's own
  \<open>env.py\<close>, the engine of the database and the relationships between ORM objects, the environment that
  overrides the backend's settings, QR codes (an image library draws the rendered configuration),
  argument parsing and signals of the daemon, and the web frontend, which is not Python.
\<close>

end
